(* ===== verification/Prelude.thy ===== *)
theory Prelude
  imports Main "HOL-Library.AList" "HOL-Library.List_Lexorder" "HOL-Library.Char_ord"
    "HOL-Library.Word" "HOL-Library.Multiset"
begin

text \<open>
  Shared vocabulary of the development: the result type of fallible Go code and the
  sequencing combinator for it, Go maps as association lists whose iteration order is an
  argument, Go string helpers, 32-bit conversions, and the generic lemmas on sorted and
  keyed lists that the component theories use.
\<close>

named_theorems outcome_simps "rewrite rules for outcomes and their sequencing"
named_theorems gomap_simps "rewrite rules for Go maps as association lists"

section \<open>Results of Go code\<close>

text \<open>
  An error value of the program. The API machinery distinguishes \<open>NotFound\<close> and
  \<open>AlreadyExists\<close> by their reason; every other failure, and every error made with
  \<open>errors.Errorf\<close>, is an \<open>Err\<close> with its text. Wrapping an error with \<open>Errorf\<close>
  keeps the text only, so the reason is lost, as in the source.
\<close>

datatype error = NotFound string | AlreadyExists string | Err string

fun error_text :: "error \<Rightarrow> string" where
  "error_text (NotFound s) = s"
| "error_text (AlreadyExists s) = s"
| "error_text (Err s) = s"

fun IsNotFound :: "error \<Rightarrow> bool" where
  "IsNotFound (NotFound _) = True"
| "IsNotFound _ = False"

fun IsAlreadyExists :: "error \<Rightarrow> bool" where
  "IsAlreadyExists (AlreadyExists _) = True"
| "IsAlreadyExists _ = False"

text \<open>\<open>errors.Errorf("prefix%s", err)\<close>.\<close>

definition errorf :: "string \<Rightarrow> error \<Rightarrow> error" where
  "errorf prefix e = Err (prefix @ error_text e)"

lemma IsNotFound_errorf [simp]: "\<not> IsNotFound (errorf p e)"
  by (simp add: errorf_def)

lemma errorf_neq_NotFound [simp]: "errorf p e \<noteq> NotFound s"
  by (simp add: errorf_def)

text \<open>Run-time panics of Go, which unwind past every \<open>if err != nil\<close>.\<close>

datatype panic = IndexOutOfRange | SliceOutOfRange | NegativeMake | NilDeref | NilMapWrite | TypeMismatch

datatype 'a outcome = Ok 'a | Fail error | Panic panic

text \<open>
  \<open>on_result m h k\<close> is the idiom \<open>x, err := m(); if err != nil { h(err) }; k(x)\<close> over an
  explicit state: the handler sees errors only, a panic goes through.
\<close>

definition on_result ::
    "('w \<Rightarrow> 'a outcome \<times> 'w) \<Rightarrow> (error \<Rightarrow> 'w \<Rightarrow> 'b outcome \<times> 'w) \<Rightarrow> ('a \<Rightarrow> 'w \<Rightarrow> 'b outcome \<times> 'w)
      \<Rightarrow> 'w \<Rightarrow> 'b outcome \<times> 'w" where
  "on_result m h k = (\<lambda>w. case m w of
      (Ok x, w') \<Rightarrow> k x w'
    | (Fail e, w') \<Rightarrow> h e w'
    | (Panic p, w') \<Rightarrow> (Panic p, w'))"

text \<open>The most common handler returns the error, possibly wrapped.\<close>

definition ret :: "'a \<Rightarrow> 'w \<Rightarrow> 'a outcome \<times> 'w" where
  "ret x = (\<lambda>w. (Ok x, w))"

definition fail :: "error \<Rightarrow> 'w \<Rightarrow> 'a outcome \<times> 'w" where
  "fail e = (\<lambda>w. (Fail e, w))"

definition raise_panic :: "panic \<Rightarrow> 'w \<Rightarrow> 'a outcome \<times> 'w" where
  "raise_panic p = (\<lambda>w. (Panic p, w))"

text \<open>A computation that does not use the state.\<close>

definition pure_out :: "'a outcome \<Rightarrow> 'w \<Rightarrow> 'a outcome \<times> 'w" where
  "pure_out r = (\<lambda>w. (r, w))"

fun bind_out :: "'a outcome \<Rightarrow> ('a \<Rightarrow> 'b outcome) \<Rightarrow> 'b outcome" where
  "bind_out (Ok x) f = f x"
| "bind_out (Fail e) f = Fail e"
| "bind_out (Panic p) f = Panic p"

lemma ret_apply [simp, outcome_simps]: "ret x w = (Ok x, w)"
  by (simp add: ret_def)

lemma fail_apply [simp, outcome_simps]: "fail e w = (Fail e, w)"
  by (simp add: fail_def)

lemma raise_panic_apply [simp, outcome_simps]: "raise_panic p w = (Panic p, w)"
  by (simp add: raise_panic_def)

lemma pure_out_apply [simp, outcome_simps]: "pure_out r w = (r, w)"
  by (simp add: pure_out_def)

lemma on_result_Ok [outcome_simps]: "m w = (Ok x, w') \<Longrightarrow> on_result m h k w = k x w'"
  by (simp add: on_result_def)

lemma on_result_Fail [outcome_simps]: "m w = (Fail e, w') \<Longrightarrow> on_result m h k w = h e w'"
  by (simp add: on_result_def)

lemma on_result_Panic [outcome_simps]: "m w = (Panic p, w') \<Longrightarrow> on_result m h k w = (Panic p, w')"
  by (simp add: on_result_def)

lemma on_result_ret [simp, outcome_simps]: "on_result (ret x) h k w = k x w"
  by (simp add: on_result_def)

lemma on_result_fail [simp, outcome_simps]: "on_result (fail e) h k w = h e w"
  by (simp add: on_result_def)

lemma on_result_pure_out [simp, outcome_simps]:
  "on_result (pure_out r) h k w =
     (case r of Ok x \<Rightarrow> k x w | Fail e \<Rightarrow> h e w | Panic p \<Rightarrow> (Panic p, w))"
  by (cases r) (simp_all add: on_result_def)

lemma bind_out_Ok_conv: "bind_out r f = Ok y \<longleftrightarrow> (\<exists>x. r = Ok x \<and> f x = Ok y)"
  by (cases r) auto

text \<open>What a successful sequence says about its parts, when errors are passed on.\<close>

lemma on_result_fail_OkD:
  assumes "on_result m (\<lambda>e. fail (g e)) k w = (Ok y, w'')"
  obtains x w' where "m w = (Ok x, w')" and "k x w' = (Ok y, w'')"
  using assms by (auto simp: on_result_def split: prod.splits outcome.splits)

section \<open>Decimal numbers and other string helpers\<close>

definition digit_char :: "nat \<Rightarrow> char" where
  "digit_char d = ''0123456789'' ! d"

text \<open>\<open>fmt.Sprintf("%d", n)\<close> and \<open>strconv.FormatInt(n, 10)\<close>.\<close>

fun nat_text :: "nat \<Rightarrow> string" where
  "nat_text n =
     (if n < 10 then [digit_char n] else nat_text (n div 10) @ [digit_char (n mod 10)])"

declare nat_text.simps [simp del]

definition int_text :: "int \<Rightarrow> string" where
  "int_text i = (if i < 0 then ''-'' @ nat_text (nat (- i)) else nat_text (nat i))"

definition digit_val :: "char \<Rightarrow> nat" where
  "digit_val c = of_char c - 48"

definition nat_of_string :: "string \<Rightarrow> nat" where
  "nat_of_string s = foldl (\<lambda>a c. 10 * a + digit_val c) 0 s"

lemma digit_cases: "d < 10 \<Longrightarrow> d \<in> {0, 1, 2, 3, 4, 5, 6, 7, 8, 9 :: nat}"
  by auto

lemma digit_val_digit_char: "d < 10 \<Longrightarrow> digit_val (digit_char d) = d"
  by (drule digit_cases) (auto simp: digit_val_def digit_char_def)

lemma digit_char_neq_minus: "d < 10 \<Longrightarrow> digit_char d \<noteq> CHR ''-''"
  by (drule digit_cases) (auto simp: digit_char_def)

lemma nat_of_string_nat_text [simp]: "nat_of_string (nat_text n) = n"
proof (induction n rule: nat_text.induct)
  case (1 n)
  show ?case
  proof (cases "n < 10")
    case True
    then show ?thesis
      by (simp add: nat_text.simps [of n] nat_of_string_def digit_val_digit_char)
  next
    case False
    with 1 have "nat_of_string (nat_text (n div 10)) = n div 10" by simp
    with False show ?thesis
      by (simp add: nat_text.simps [of n] nat_of_string_def digit_val_digit_char)
  qed
qed

lemma nat_text_inject [simp]: "nat_text m = nat_text n \<longleftrightarrow> m = n"
  by (metis nat_of_string_nat_text)

lemma nat_text_no_minus: "CHR ''-'' \<notin> set (nat_text n)"
proof (induction n rule: nat_text.induct)
  case (1 n)
  have "digit_char (n mod 10) \<noteq> CHR ''-''"
    by (rule digit_char_neq_minus) simp
  with 1 digit_char_neq_minus [of n] show ?case
    by (subst nat_text.simps) auto
qed

lemma int_text_of_nat [simp]: "int_text (int n) = nat_text n"
  by (simp add: int_text_def)

lemma int_text_inject [simp]: "int_text i = int_text j \<longleftrightarrow> i = j"
proof -
  have "''-'' @ nat_text a \<noteq> nat_text b" for a b
    using nat_text_no_minus [of b] by (metis append_Cons list.set_intros(1))
  note neq = this this [symmetric]
  show ?thesis
    using neq [of "nat (- i)" "nat j"] neq [of "nat (- j)" "nat i"]
    by (auto simp: int_text_def)
qed

text \<open>\<open>strings.Join\<close>.\<close>

fun join :: "string list \<Rightarrow> string \<Rightarrow> string" where
  "join [] sep = ''''"
| "join [x] sep = x"
| "join (x # y # ys) sep = x @ sep @ join (y # ys) sep"

text \<open>\<open>strings.TrimRight\<close> with a cut set of one character.\<close>

definition trim_right :: "string \<Rightarrow> char \<Rightarrow> string" where
  "trim_right s c = rev (dropWhile (\<lambda>x. x = c) (rev s))"

lemma trim_right_idem [simp]: "trim_right (trim_right s c) c = trim_right s c"
  by (simp add: trim_right_def)

text \<open>\<open>strings.Split\<close> with a separator of one character.\<close>

fun split_on :: "char \<Rightarrow> string \<Rightarrow> string list" where
  "split_on c [] = [[]]"
| "split_on c (x # xs) =
     (if x = c then [] # split_on c xs
      else (case split_on c xs of [] \<Rightarrow> [[x]] | y # ys \<Rightarrow> (x # y) # ys))"

lemma split_on_nonempty [simp]: "split_on c s \<noteq> []"
  by (induction s) (auto split: list.splits)

definition has_prefix :: "string \<Rightarrow> string \<Rightarrow> bool" where
  "has_prefix s p = (take (length p) s = p)"

definition has_suffix :: "string \<Rightarrow> string \<Rightarrow> bool" where
  "has_suffix s p = (length p \<le> length s \<and> drop (length s - length p) s = p)"

text \<open>\<open>strings.Contains\<close>.\<close>

fun contains_substring :: "string \<Rightarrow> string \<Rightarrow> bool" where
  "contains_substring [] p = (p = [])"
| "contains_substring (x # xs) p = (has_prefix (x # xs) p \<or> contains_substring xs p)"

text \<open>\<open>strings.ToLower\<close> and \<open>strings.TrimSpace\<close> on ASCII text.\<close>

definition lower_char :: "char \<Rightarrow> char" where
  "lower_char c = (let n = (of_char c :: nat) in if 65 \<le> n \<and> n \<le> 90 then char_of (n + 32) else c)"

definition to_lower :: "string \<Rightarrow> string" where
  "to_lower s = map lower_char s"

definition is_space :: "char \<Rightarrow> bool" where
  "is_space c = (let n = (of_char c :: nat) in n = 32 \<or> (9 \<le> n \<and> n \<le> 13))"

definition trim_space :: "string \<Rightarrow> string" where
  "trim_space s = rev (dropWhile is_space (rev (dropWhile is_space s)))"

text \<open>Text before the first separator can be read back.\<close>

lemma split_at_inject:
  "c \<notin> set as \<Longrightarrow> c \<notin> set bs \<Longrightarrow> as @ c # xs = bs @ c # ys \<longleftrightarrow> as = bs \<and> xs = ys"
proof (induction as arbitrary: bs)
  case Nil
  then show ?case by (cases bs) auto
next
  case (Cons a as)
  then show ?case by (cases bs) auto
qed

section \<open>32-bit integers\<close>

text \<open>Go's \<open>int32(n)\<close> keeps the low 32 bits.\<close>

type_synonym int32 = "32 word"

definition to_int32 :: "int \<Rightarrow> int32" where
  "to_int32 i = word_of_int i"

lemma to_int32_eq_iff: "to_int32 i = to_int32 j \<longleftrightarrow> i mod 2 ^ 32 = j mod 2 ^ 32"
  by (simp add: to_int32_def word_of_int_eq_iff take_bit_eq_mod)

lemma to_int32_inject_in_range:
  assumes "0 \<le> i" "i < 2 ^ 31" "0 \<le> j" "j < 2 ^ 31"
  shows "to_int32 i = to_int32 j \<longleftrightarrow> i = j"
  using assms by (simp add: to_int32_eq_iff)

section \<open>Go maps\<close>

text \<open>
  A Go map from strings is an association list with distinct keys; \<open>map_of\<close> is the
  lookup and \<open>AList.update\<close> the assignment \<open>m[k] = v\<close>. The order in which \<open>range\<close> visits
  the keys is unspecified in Go, so every loop over a map takes it as an argument: a
  function that permutes the key list.
\<close>

type_synonym 'v gomap = "(string \<times> 'v) list"
type_synonym iter_order = "string list \<Rightarrow> string list"

definition valid_order :: "iter_order \<Rightarrow> bool" where
  "valid_order it = (\<forall>ks. mset (it ks) = mset ks)"

definition wf_map :: "'v gomap \<Rightarrow> bool" where
  "wf_map m = distinct (map fst m)"

definition put :: "string \<Rightarrow> 'v \<Rightarrow> 'v gomap \<Rightarrow> 'v gomap" where
  "put k v m = AList.update k v m"

definition has_key :: "'v gomap \<Rightarrow> string \<Rightarrow> bool" where
  "has_key m k = (map_of m k \<noteq> None)"

text \<open>The values in the order \<open>range\<close> visits them.\<close>

definition range_values :: "iter_order \<Rightarrow> 'v gomap \<Rightarrow> 'v list" where
  "range_values it m = List.map_filter (map_of m) (it (map fst m))"

text \<open>\<open>for _, v := range xs { m[key(v)] = v }\<close>.\<close>

definition map_by :: "('v \<Rightarrow> string) \<Rightarrow> 'v list \<Rightarrow> 'v gomap" where
  "map_by key xs = foldl (\<lambda>m v. put (key v) v m) [] xs"

text \<open>\<open>for k, v := range m2 { m1[k] = v }\<close>.\<close>

definition put_all :: "'v gomap \<Rightarrow> 'v gomap \<Rightarrow> 'v gomap" where
  "put_all m1 m2 = foldl (\<lambda>m (k, v). put k v m) m1 m2"

lemma map_of_put [simp, gomap_simps]: "map_of (put k v m) = (map_of m)(k \<mapsto> v)"
  by (simp add: put_def update_conv')

lemma wf_map_put [simp, intro, gomap_simps]: "wf_map m \<Longrightarrow> wf_map (put k v m)"
  by (simp add: wf_map_def put_def distinct_update)

lemma wf_map_Nil [simp, gomap_simps]: "wf_map []"
  by (simp add: wf_map_def)

lemma fst_set_put: "fst ` set (put k v m) = insert k (fst ` set m)"
  by (simp add: put_def dom_update)

lemma set_put_subset: "set (put k v m) \<subseteq> insert (k, v) (set m)"
  unfolding put_def by (induction m) auto

lemma map_of_eq_None_notin: "map_of m k = None \<longleftrightarrow> k \<notin> fst ` set m"
  by (simp add: map_of_eq_None_iff)

lemma has_key_iff: "has_key m k \<longleftrightarrow> k \<in> fst ` set m"
  by (simp add: has_key_def map_of_eq_None_iff)

lemma wf_map_put_all: "wf_map m1 \<Longrightarrow> wf_map (put_all m1 m2)"
  unfolding put_all_def by (induction m2 arbitrary: m1) auto

lemma map_of_put_all_gen:
  "map_of (foldl (\<lambda>m (k, v). put k v m) m1 m2) = map_of m1 ++ map_of (rev m2)"
proof (induction m2 arbitrary: m1)
  case Nil
  then show ?case by simp
next
  case (Cons kv m2)
  obtain k v where "kv = (k, v)" by fastforce
  with Cons show ?case by (simp add: map_add_upd_left fun_eq_iff map_add_def split: option.splits)
qed

lemma map_of_rev_wf: "wf_map m \<Longrightarrow> map_of (rev m) = map_of m"
  by (subst map_of_inject_set) (simp_all add: wf_map_def rev_map [symmetric])

lemma map_of_put_all [gomap_simps]: "wf_map m2 \<Longrightarrow> map_of (put_all m1 m2) = map_of m1 ++ map_of m2"
  unfolding put_all_def map_of_put_all_gen by (simp add: map_of_rev_wf)

lemma wf_map_foldl_put:
  "wf_map m \<Longrightarrow> wf_map (foldl (\<lambda>m v. put (key v) v m) m xs)"
  by (induction xs arbitrary: m) auto

lemma wf_map_map_by [simp, gomap_simps]: "wf_map (map_by key xs)"
  unfolding map_by_def by (rule wf_map_foldl_put) simp

lemma fst_set_foldl_put:
  "fst ` set (foldl (\<lambda>m v. put (key v) v m) m xs) = fst ` set m \<union> key ` set xs"
  by (induction xs arbitrary: m) (auto simp: fst_set_put)

lemma fst_set_map_by [simp, gomap_simps]: "fst ` set (map_by key xs) = key ` set xs"
  by (simp add: map_by_def fst_set_foldl_put)

text \<open>The last element with a key wins.\<close>

lemma map_of_foldl_put:
  "map_of (foldl (\<lambda>m v. put (key v) v m) m xs) k =
     (case find (\<lambda>v. key v = k) (rev xs) of Some v \<Rightarrow> Some v | None \<Rightarrow> map_of m k)"
proof (induction xs rule: rev_induct)
  case Nil
  then show ?case by simp
next
  case (snoc x xs)
  then show ?case by (auto split: option.splits)
qed

lemma map_of_map_by [gomap_simps]: "map_of (map_by key xs) k = find (\<lambda>v. key v = k) (rev xs)"
  by (simp add: map_by_def map_of_foldl_put split: option.split)

lemma find_Some_key: "find (\<lambda>v. key v = k) xs = Some v \<Longrightarrow> key v = k \<and> v \<in> set xs"
  by (auto simp: find_Some_iff)

lemma find_None_key: "find (\<lambda>v. key v = k) xs = None \<longleftrightarrow> k \<notin> key ` set xs"
  by (auto simp: find_None_iff)

lemma find_append_case:
  "find P (xs @ ys) = (case find P xs of None \<Rightarrow> find P ys | Some v \<Rightarrow> Some v)"
  by (induction xs) auto

lemma find_rev_distinct:
  "distinct (map key xs) \<Longrightarrow> find (\<lambda>v. key v = k) (rev xs) = find (\<lambda>v. key v = k) xs"
proof (induction xs)
  case Nil
  then show ?case by simp
next
  case (Cons x xs)
  have none: "k = key x \<Longrightarrow> find (\<lambda>v. key v = k) xs = None"
    using Cons.prems by (simp add: find_None_key)
  show ?case
    using Cons none by (auto simp: find_append_case split: option.splits)
qed

lemma find_unique:
  "distinct (map key xs) \<Longrightarrow> v \<in> set xs \<Longrightarrow> find (\<lambda>x. key x = key v) xs = Some v"
  by (induction xs) (auto simp: image_iff)

lemma map_filter_map_of_keys: "wf_map m \<Longrightarrow> List.map_filter (map_of m) (map fst m) = map snd m"
proof (induction m)
  case Nil
  then show ?case by (simp add: List.map_filter_def)
next
  case (Cons kv m)
  obtain k v where kv: "kv = (k, v)" by fastforce
  have "List.map_filter (map_of (kv # m)) (map fst m) = List.map_filter (map_of m) (map fst m)"
    using Cons.prems unfolding List.map_filter_def kv
    by (intro arg_cong2 [where f = map] filter_cong map_cong refl) (auto simp: wf_map_def)
  with Cons show ?case by (simp add: kv List.map_filter_simps wf_map_def fun_upd_def)
qed

lemma mset_map_filter_cong: "mset xs = mset ys \<Longrightarrow> mset (List.map_filter f xs) = mset (List.map_filter f ys)"
  by (simp add: List.map_filter_def mset_filter [symmetric] del: mset_filter)
    (metis mset_filter mset_map)

lemma mset_range_values:
  assumes "valid_order it" and "wf_map m"
  shows "mset (range_values it m) = mset (map snd m)"
proof -
  have "mset (range_values it m) = mset (List.map_filter (map_of m) (map fst m))"
    unfolding range_values_def using assms(1)
    by (intro mset_map_filter_cong) (simp add: valid_order_def)
  with assms(2) show ?thesis by (simp add: map_filter_map_of_keys)
qed

lemma valid_order_id [simp]: "valid_order (\<lambda>ks. ks)"
  by (simp add: valid_order_def)

lemma valid_order_rev [simp]: "valid_order rev"
  by (simp add: valid_order_def)

text \<open>A stable sort by distinct keys forgets the order of its input.\<close>

lemma sort_key_mset_cong:
  assumes "mset xs = mset ys" and "inj_on key (set ys)"
  shows "sort_key key xs = sort_key key ys"
proof (rule sort_key_inj_key_eq)
  show "mset xs = mset (sort_key key ys)" using assms(1) by simp
  show "inj_on key (set xs)" using assms by (metis set_mset_mset)
  show "sorted (map key (sort_key key ys))" by simp
qed

end
