(* ===== verification/Keyed_Merge.thy ===== *)
theory Keyed_Merge
  imports Prelude
begin

text \<open>
  The merge of two slices by a key, the pattern that \<open>pkg/util/merge\<close> repeats for
  containers, environment variables, volume devices, volume mounts and volume claims: both
  slices become maps from the key, the override map is laid over the original one with a
  function for keys they share, and the values are collected in map order and sorted.
  The locale \<open>keyed_merge\<close> states what the element merge has to promise (it keeps the key)
  and derives what every caller relies on.
\<close>

section \<open>Collecting the values of a map\<close>

text \<open>
  \<open>for _, v := range m { xs = append(xs, v) }; sort.SliceStable(xs, by key)\<close>. A map is self
  keyed when every value carries the key it is stored under; then the collected slice does
  not depend on the order of the loop.
\<close>

definition sorted_values :: "iter_order \<Rightarrow> ('v \<Rightarrow> string) \<Rightarrow> 'v gomap \<Rightarrow> 'v list" where
  "sorted_values it key m = sort_key key (range_values it m)"

definition self_keyed :: "('v \<Rightarrow> string) \<Rightarrow> 'v gomap \<Rightarrow> bool" where
  "self_keyed key m = (wf_map m \<and> (\<forall>(k, v) \<in> set m. key v = k))"

lemma self_keyed_map_of: "self_keyed key m \<Longrightarrow> map_of m k = Some v \<Longrightarrow> key v = k"
  by (auto simp: self_keyed_def dest: map_of_SomeD)

lemma self_keyedI:
  assumes "wf_map m" and "\<And>k v. map_of m k = Some v \<Longrightarrow> key v = k"
  shows "self_keyed key m"
  using assms by (auto simp: self_keyed_def wf_map_def)

lemma self_keyed_map_by [simp, intro]: "self_keyed key (map_by key xs)"
  by (rule self_keyedI) (auto simp: map_of_map_by dest: find_Some_key)

lemma mset_sorted_values:
  "valid_order it \<Longrightarrow> wf_map m \<Longrightarrow> mset (sorted_values it key m) = mset (map snd m)"
  by (simp add: sorted_values_def mset_range_values)

lemma map_key_values: "self_keyed key m \<Longrightarrow> map key (map snd m) = map fst m"
  by (auto simp: self_keyed_def)

lemma sorted_sorted_values: "sorted (map key (sorted_values it key m))"
  by (simp add: sorted_values_def)

lemma sorted_values_order_independent:
  assumes "self_keyed key m" and "valid_order it" and "valid_order it'"
  shows "sorted_values it key m = sorted_values it' key m"
proof -
  have wf: "wf_map m" using assms(1) by (simp add: self_keyed_def)
  have "distinct (map key (map snd m))"
    using wf unfolding map_key_values [OF assms(1)] wf_map_def .
  then have "inj_on key (set (map snd m))" by (simp only: distinct_map)
  with assms(2,3) wf show ?thesis
    unfolding sorted_values_def by (metis mset_range_values sort_key_mset_cong)
qed

lemma distinct_sorted_values:
  assumes "self_keyed key m" and "valid_order it"
  shows "distinct (map key (sorted_values it key m))"
proof -
  have wf: "wf_map m" using assms(1) by (simp add: self_keyed_def)
  have "distinct (map key (map snd m))"
    using wf unfolding map_key_values [OF assms(1)] wf_map_def .
  with mset_sorted_values [OF assms(2) wf, of key] show ?thesis
    by (metis mset_eq_imp_distinct_iff mset_map)
qed

lemma set_sorted_values:
  "valid_order it \<Longrightarrow> wf_map m \<Longrightarrow> set (sorted_values it key m) = snd ` set m"
  using mset_sorted_values [of it m key] by (metis list.set_map set_mset_mset)

text \<open>The collected slice, read by key, is the map.\<close>

lemma find_sorted_values:
  assumes sk: "self_keyed key m" and it: "valid_order it"
  shows "find (\<lambda>v. key v = k) (sorted_values it key m) = map_of m k"
proof (cases "map_of m k")
  case None
  have "key v \<noteq> k" if "v \<in> set (sorted_values it key m)" for v
  proof
    assume "key v = k"
    with that sk it have "(k, v) \<in> set m"
      by (force simp: self_keyed_def set_sorted_values)
    with None show False by (auto dest: weak_map_of_SomeI)
  qed
  with None show ?thesis by (simp add: find_None_iff)
next
  case (Some v)
  with sk it have "v \<in> set (sorted_values it key m)"
    by (force simp: self_keyed_def set_sorted_values dest: map_of_SomeD)
  with Some show ?thesis
    using find_unique [OF distinct_sorted_values [OF sk it]] self_keyed_map_of [OF sk] by metis
qed

section \<open>Merging maps and slices\<close>

text \<open>
  \<open>for k, v := range override { if orig, ok := original[k]; ok { merged[k] = f(orig, v) } else
  { merged[k] = v } }\<close>, on a copy of the original map. The writes go to distinct keys, so
  the order of this loop cannot be observed and is the list order.
\<close>

definition merge_maps :: "('v \<Rightarrow> 'v \<Rightarrow> 'v) \<Rightarrow> 'v gomap \<Rightarrow> 'v gomap \<Rightarrow> 'v gomap" where
  "merge_maps f original override =
     foldl (\<lambda>m (k, v). put k (case map_of original k of Some orig \<Rightarrow> f orig v | None \<Rightarrow> v) m)
       (put_all [] original) override"

definition merge_slices ::
    "iter_order \<Rightarrow> ('v \<Rightarrow> string) \<Rightarrow> ('v \<Rightarrow> 'v \<Rightarrow> 'v) \<Rightarrow> 'v list \<Rightarrow> 'v list \<Rightarrow> 'v list" where
  "merge_slices it key f original override =
     sorted_values it key (merge_maps f (map_by key original) (map_by key override))"

text \<open>The reference: what the merged slice holds for one key.\<close>

definition merged_at :: "('v \<Rightarrow> string) \<Rightarrow> ('v \<Rightarrow> 'v \<Rightarrow> 'v) \<Rightarrow> 'v list \<Rightarrow> 'v list \<Rightarrow> string \<Rightarrow> 'v option" where
  "merged_at key f original override k =
     (case (find (\<lambda>v. key v = k) (rev original), find (\<lambda>v. key v = k) (rev override)) of
        (Some a, Some b) \<Rightarrow> Some (f a b)
      | (Some a, None) \<Rightarrow> Some a
      | (None, r) \<Rightarrow> r)"

lemma wf_merge_maps: "wf_map (merge_maps f original override)"
proof -
  have "wf_map m \<Longrightarrow> wf_map (foldl (\<lambda>m (k, v). put k (g k v) m) m ov)"
    for m :: "'a gomap" and ov and g :: "string \<Rightarrow> 'a \<Rightarrow> 'a"
    by (induction ov arbitrary: m) auto
  then show ?thesis by (simp add: merge_maps_def wf_map_put_all)
qed

lemma map_of_foldl_put_pairs:
  fixes g :: "string \<Rightarrow> 'a \<Rightarrow> 'b"
  shows "wf_map ov \<Longrightarrow> map_of (foldl (\<lambda>m (k, v). put k (g k v) m) m ov) k =
     (case map_of ov k of Some v \<Rightarrow> Some (g k v) | None \<Rightarrow> map_of m k)"
proof (induction ov arbitrary: m)
  case Nil
  then show ?case by simp
next
  case (Cons kv ov)
  obtain k' v' where kv: "kv = (k', v')" by fastforce
  with Cons.prems have "wf_map ov" and "map_of ov k' = None"
    by (auto simp: wf_map_def map_of_eq_None_iff)
  with Cons.IH show ?case by (auto simp: kv split: option.splits)
qed

lemma map_of_merge_maps:
  assumes "wf_map original" and "wf_map override"
  shows "map_of (merge_maps f original override) k =
     (case (map_of original k, map_of override k) of
        (Some a, Some b) \<Rightarrow> Some (f a b)
      | (Some a, None) \<Rightarrow> Some a
      | (None, r) \<Rightarrow> r)"
  using assms
  by (simp add: merge_maps_def map_of_foldl_put_pairs map_of_put_all split: option.splits)

lemma map_of_merge_by:
  "map_of (merge_maps f (map_by key xs) (map_by key ys)) k = merged_at key f xs ys k"
  by (simp add: map_of_merge_maps map_of_map_by merged_at_def)

lemma merged_at_None_iff: "merged_at key f xs ys k = None \<longleftrightarrow> k \<notin> key ` (set xs \<union> set ys)"
proof -
  have *: "find (\<lambda>v. key v = k) (rev zs) = None \<longleftrightarrow> k \<notin> key ` set zs" for zs :: "'a list"
    by (simp add: find_None_key)
  have "merged_at key f xs ys k = None \<longleftrightarrow>
      find (\<lambda>v. key v = k) (rev xs) = None \<and> find (\<lambda>v. key v = k) (rev ys) = None"
    by (simp add: merged_at_def split: option.splits)
  with * show ?thesis by (simp add: image_Un)
qed

lemma merged_at_members:
  assumes "merged_at key f xs ys k = Some v"
  shows "v \<in> set xs \<or> v \<in> set ys \<or> (\<exists>a \<in> set xs. \<exists>b \<in> set ys. v = f a b)"
proof -
  have mem: "u \<in> set zs" if "find (\<lambda>v. key v = k) (rev zs) = Some u" for u zs
    using find_Some_key [OF that] by simp
  show ?thesis
  proof (cases "find (\<lambda>v. key v = k) (rev xs)")
    case None
    with assms have "find (\<lambda>v. key v = k) (rev ys) = Some v" by (simp add: merged_at_def)
    from mem [OF this] show ?thesis by blast
  next
    case a: (Some a)
    show ?thesis
    proof (cases "find (\<lambda>v. key v = k) (rev ys)")
      case None
      with assms a have "v = a" by (simp add: merged_at_def)
      with mem [OF a] show ?thesis by blast
    next
      case b: (Some b)
      with assms a have "v = f a b" by (simp add: merged_at_def)
      with mem [OF a] mem [OF b] show ?thesis by blast
    qed
  qed
qed

section \<open>The interface\<close>

locale keyed_merge =
  fixes key :: "'v \<Rightarrow> string" and f :: "'v \<Rightarrow> 'v \<Rightarrow> 'v" and ok :: "'v \<Rightarrow> bool"
  assumes f_key: "\<lbrakk>ok a; ok b; key a = key b\<rbrakk> \<Longrightarrow> key (f a b) = key b"
begin

lemma merged_at_key:
  assumes ok: "\<forall>v \<in> set xs \<union> set ys. ok v" and m: "merged_at key f xs ys k = Some v"
  shows "key v = k"
proof -
  have "find (\<lambda>v. key v = k) (rev zs) = Some u \<Longrightarrow> key u = k \<and> u \<in> set zs" for zs u
    by (drule find_Some_key) simp
  then show ?thesis
    using ok m by (force simp: merged_at_def f_key split: option.splits)
qed

lemma self_keyed_merged:
  assumes "\<forall>v \<in> set xs \<union> set ys. ok v"
  shows "self_keyed key (merge_maps f (map_by key xs) (map_by key ys))"
  using merged_at_key [OF assms] by (intro self_keyedI wf_merge_maps) (simp add: map_of_merge_by)

text \<open>The result does not depend on the order in which Go visits the merged map.\<close>

lemma order_independent:
  assumes "\<forall>v \<in> set xs \<union> set ys. ok v" and "valid_order it" and "valid_order it'"
  shows "merge_slices it key f xs ys = merge_slices it' key f xs ys"
  unfolding merge_slices_def
  by (rule sorted_values_order_independent [OF self_keyed_merged [OF assms(1)] assms(2,3)])

lemma distinct_keys:
  assumes "\<forall>v \<in> set xs \<union> set ys. ok v" and "valid_order it"
  shows "distinct (map key (merge_slices it key f xs ys))"
  unfolding merge_slices_def
  by (rule distinct_sorted_values [OF self_keyed_merged [OF assms(1)] assms(2)])

lemma sorted_keys: "sorted (map key (merge_slices it key f xs ys))"
  unfolding merge_slices_def by (rule sorted_sorted_values)

text \<open>What the merged slice holds for each key, and that it holds nothing else.\<close>

lemma lookup_merged:
  assumes "\<forall>v \<in> set xs \<union> set ys. ok v" and "valid_order it"
  shows "find (\<lambda>v. key v = k) (merge_slices it key f xs ys) = merged_at key f xs ys k"
  unfolding merge_slices_def
  using find_sorted_values [OF self_keyed_merged [OF assms(1)] assms(2)] by (simp add: map_of_merge_by)

lemma keys_merged:
  assumes ok: "\<forall>v \<in> set xs \<union> set ys. ok v" and it: "valid_order it"
  shows "key ` set (merge_slices it key f xs ys) = key ` (set xs \<union> set ys)"
proof -
  have "k \<in> key ` set (merge_slices it key f xs ys) \<longleftrightarrow> k \<in> key ` (set xs \<union> set ys)" for k
    using lookup_merged [OF ok it, of k] merged_at_None_iff [of key f xs ys k]
    by (metis find_None_key)
  then show ?thesis by blast
qed

end

section \<open>Slices sorted by distinct keys\<close>

text \<open>Such slices are equal as soon as they hold the same element for every key.\<close>

lemma find_agree_subset:
  assumes "distinct (map key as)" and "\<And>k. find (\<lambda>v. key v = k) as = find (\<lambda>v. key v = k) bs"
  shows "set as \<subseteq> set bs"
proof
  fix v assume "v \<in> set as"
  with assms(1) have "find (\<lambda>x. key x = key v) as = Some v" by (rule find_unique)
  with assms(2) have "find (\<lambda>x. key x = key v) bs = Some v" by simp
  from find_Some_key [OF this] show "v \<in> set bs" by blast
qed

lemma keyed_list_eqI:
  assumes sx: "sorted (map key xs)" and dx: "distinct (map key xs)"
    and sy: "sorted (map key ys)" and dy: "distinct (map key ys)"
    and eq: "\<And>k. find (\<lambda>v. key v = k) xs = find (\<lambda>v. key v = k) ys"
  shows "xs = ys"
proof -
  have "set xs = set ys"
    using find_agree_subset [OF dx eq] find_agree_subset [OF dy eq [symmetric]] by blast
  moreover have "distinct xs" "distinct ys" using dx dy by (simp_all add: distinct_map)
  ultimately have "mset xs = mset ys" by (simp add: set_eq_iff_mset_eq_distinct)
  moreover have "inj_on key (set xs)" using dx by (simp add: distinct_map)
  ultimately have "sort_key key xs = ys" using sy by (rule sort_key_inj_key_eq)
  moreover have "sort_key key xs = xs" using sx by (rule sort_key_id_if_sorted)
  ultimately show ?thesis by simp
qed

lemma distinct_sort_key: "distinct (map key (sort_key key xs)) \<longleftrightarrow> distinct (map key xs)"
  by (metis mset_eq_imp_distinct_iff mset_map mset_sort)

lemma find_sort_key:
  assumes "distinct (map key xs)"
  shows "find (\<lambda>v. key v = k) (sort_key key xs) = find (\<lambda>v. key v = k) xs"
proof (cases "find (\<lambda>v. key v = k) xs")
  case None
  then have "k \<notin> key ` set xs" by (simp only: find_None_key not_False_eq_True)
  then have "find (\<lambda>v. key v = k) (sort_key key xs) = None" by (simp only: find_None_key set_sort not_False_eq_True)
  with None show ?thesis by simp
next
  case (Some v)
  note kv = find_Some_key [OF Some]
  have "find (\<lambda>x. key x = key v) (sort_key key xs) = Some v"
    by (rule find_unique) (use assms kv in \<open>simp_all add: distinct_sort_key\<close>)
  with Some kv show ?thesis by simp
qed

text \<open>
  The other way the code merges by key: the merged elements of the first slice, then the
  elements of the second one that are new. It gives the same slice.
\<close>

definition merge_elem :: "('v \<Rightarrow> string) \<Rightarrow> ('v \<Rightarrow> 'v \<Rightarrow> 'v) \<Rightarrow> 'v list \<Rightarrow> 'v \<Rightarrow> 'v" where
  "merge_elem key f bs a = (case find (\<lambda>b. key b = key a) bs of Some b \<Rightarrow> f a b | None \<Rightarrow> a)"

definition merge_append :: "('v \<Rightarrow> string) \<Rightarrow> ('v \<Rightarrow> 'v \<Rightarrow> 'v) \<Rightarrow> 'v list \<Rightarrow> 'v list \<Rightarrow> 'v list" where
  "merge_append key f as bs = map (merge_elem key f bs) as @ filter (\<lambda>b. key b \<notin> key ` set as) bs"

lemma key_merge_elem:
  assumes f_key: "\<And>a b. key a = key b \<Longrightarrow> key (f a b) = key b"
  shows "key (merge_elem key f bs a) = key a"
proof (cases "find (\<lambda>b. key b = key a) bs")
  case None
  then show ?thesis by (simp add: merge_elem_def)
next
  case (Some b)
  note kb = find_Some_key [OF Some]
  have "key (f a b) = key b" by (rule f_key) (use kb in simp)
  with Some kb show ?thesis by (simp add: merge_elem_def)
qed

lemma find_filter_keys:
  "find (\<lambda>v. key v = k) (filter (\<lambda>b. key b \<notin> K) bs) = (if k \<in> K then None else find (\<lambda>v. key v = k) bs)"
  by (induction bs) auto

lemma find_map_same_key:
  assumes "\<And>a. key (g a) = key a"
  shows "find (\<lambda>v. key v = k) (map g as) = map_option g (find (\<lambda>v. key v = k) as)"
  by (induction as) (simp_all add: assms)

lemma merge_append_distinct:
  assumes f_key: "\<And>a b. key a = key b \<Longrightarrow> key (f a b) = key b"
    and da: "distinct (map key as)" and db: "distinct (map key bs)"
  shows "distinct (map key (merge_append key f as bs))"
proof -
  have same: "map key (map (merge_elem key f bs) as) = map key as"
    by (simp add: key_merge_elem [of key f, OF f_key])
  have "distinct (map key (filter (\<lambda>b. key b \<notin> key ` set as) bs))"
    using db by (simp add: distinct_map inj_on_def)
  then show ?thesis
    unfolding merge_append_def map_append same distinct_append using da by (force simp: image_iff)
qed

lemma find_merge_append:
  assumes f_key: "\<And>a b. key a = key b \<Longrightarrow> key (f a b) = key b"
    and da: "distinct (map key as)" and db: "distinct (map key bs)"
  shows "find (\<lambda>v. key v = k) (merge_append key f as bs) = merged_at key f as bs k"
proof -
  have r: "find (\<lambda>v. key v = k) (rev as) = find (\<lambda>v. key v = k) as"
    "find (\<lambda>v. key v = k) (rev bs) = find (\<lambda>v. key v = k) bs"
    using da db by (simp_all add: find_rev_distinct)
  have m: "find (\<lambda>v. key v = k) (map (merge_elem key f bs) as) =
      map_option (merge_elem key f bs) (find (\<lambda>v. key v = k) as)"
    by (rule find_map_same_key) (rule key_merge_elem [of key f, OF f_key])
  show ?thesis
  proof (cases "find (\<lambda>v. key v = k) as")
    case None
    then have "k \<notin> key ` set as" by (simp only: find_None_key not_False_eq_True)
    with None show ?thesis
      by (simp add: merge_append_def merged_at_def r find_append_case m find_filter_keys)
  next
    case (Some a)
    with find_Some_key [OF Some] show ?thesis
      by (simp add: merge_append_def merged_at_def r find_append_case m merge_elem_def split: option.split)
  qed
qed

context keyed_merge
begin

text \<open>The two ways to merge agree on slices with distinct keys.\<close>

lemma merge_append_eq_merge_slices:
  assumes all: "\<And>v. ok v" and it: "valid_order it"
    and da: "distinct (map key as)" and db: "distinct (map key bs)"
  shows "sort_key key (merge_append key f as bs) = merge_slices it key f as bs"
proof (rule keyed_list_eqI [where key = key])
  have fk: "\<And>a b. key a = key b \<Longrightarrow> key (f a b) = key b" using all f_key by blast
  note d = merge_append_distinct [of key f, OF fk da db]
  have ok: "\<forall>v \<in> set as \<union> set bs. ok v" using all by blast
  show "sorted (map key (sort_key key (merge_append key f as bs)))" by simp
  show "sorted (map key (merge_slices it key f as bs))" by (rule sorted_keys)
  show "distinct (map key (sort_key key (merge_append key f as bs)))"
    using d by (simp only: distinct_sort_key)
  show "distinct (map key (merge_slices it key f as bs))" by (rule distinct_keys [OF ok it])
  show "find (\<lambda>v. key v = k) (sort_key key (merge_append key f as bs)) =
      find (\<lambda>v. key v = k) (merge_slices it key f as bs)" for k
    using find_sort_key [OF d, of k] find_merge_append [of key f as bs k, OF fk da db] lookup_merged [OF ok it, of k]
    by simp
qed

end

end
