(* ===== verification/Kube_Types.thy ===== *)
theory Kube_Types
  imports Prelude
begin

text \<open>
  The Kubernetes API objects the operator reads and writes, as records with the fields of
  \<open>k8s.io/api\<close> v0.21 that the code mentions or copies. A pointer is an option, a slice a
  list (and an optional list where the code tests it for nil), a string enumeration a
  string, an \<open>int32\<close> a 32-bit word. A sub-structure the code only copies is \<open>opaque\<close>:
  its serialised form. Every record has the zero value that \<open>T{}\<close> denotes in Go.
\<close>

type_synonym opaque = string

record nsname =
  nn_Namespace :: string
  nn_Name :: string

record owner_reference =
  or_APIVersion :: string
  or_Kind :: string
  or_Name :: string
  or_UID :: string
  or_Controller :: "bool option"
  or_BlockOwnerDeletion :: "bool option"

record object_meta =
  om_Name :: string
  om_Namespace :: string
  om_Labels :: "string gomap option"
  om_Annotations :: "string gomap option"
  om_OwnerReferences :: "owner_reference list"
  om_Generation :: int
  om_UID :: string

definition empty_meta :: object_meta where
  "empty_meta = \<lparr>om_Name = '''', om_Namespace = '''', om_Labels = None, om_Annotations = None,
     om_OwnerReferences = [], om_Generation = 0, om_UID = ''''\<rparr>"

text \<open>Reading a map that may be nil.\<close>

definition entries :: "'v gomap option \<Rightarrow> 'v gomap" where
  "entries m = (case m of None \<Rightarrow> [] | Some xs \<Rightarrow> xs)"

lemma entries_simps [simp]: "entries None = []" "entries (Some xs) = xs"
  by (simp_all add: entries_def)

definition object_key :: "object_meta \<Rightarrow> nsname" where
  "object_key m = \<lparr>nn_Namespace = om_Namespace m, nn_Name = om_Name m\<rparr>"

section \<open>Secrets, config maps, services, pods\<close>

record secret =
  s_Meta :: object_meta
  s_Data :: "string gomap option"

definition empty_secret :: secret where
  "empty_secret = \<lparr>s_Meta = empty_meta, s_Data = None\<rparr>"

record config_map =
  cm_Meta :: object_meta
  cm_Data :: "string gomap option"

record service_port =
  sp_Name :: string
  sp_Port :: int32
  sp_NodePort :: int32

record service =
  svc_Meta :: object_meta
  svc_PublishNotReadyAddresses :: bool
  svc_ExternalTrafficPolicy :: string
  svc_LoadBalancerIP :: string
  svc_Type :: string
  svc_ClusterIP :: string
  svc_Ports :: "service_port list"
  svc_Selector :: "string gomap"

record pod =
  pod_Meta :: object_meta

section \<open>Containers\<close>

record exec_action =
  ea_Command :: "string list"

record handler =
  h_Exec :: "exec_action option"
  h_HTTPGet :: "opaque option"
  h_TCPSocket :: "opaque option"

definition empty_handler :: handler where
  "empty_handler = \<lparr>h_Exec = None, h_HTTPGet = None, h_TCPSocket = None\<rparr>"

record probe =
  pr_Handler :: handler
  pr_InitialDelaySeconds :: int32
  pr_TimeoutSeconds :: int32
  pr_PeriodSeconds :: int32
  pr_SuccessThreshold :: int32
  pr_FailureThreshold :: int32
  pr_TerminationGracePeriodSeconds :: "int option"

definition empty_probe :: probe where
  "empty_probe = \<lparr>pr_Handler = empty_handler, pr_InitialDelaySeconds = 0, pr_TimeoutSeconds = 0,
     pr_PeriodSeconds = 0, pr_SuccessThreshold = 0, pr_FailureThreshold = 0,
     pr_TerminationGracePeriodSeconds = None\<rparr>"

record lifecycle =
  lc_PostStart :: "handler option"
  lc_PreStop :: "handler option"

definition empty_lifecycle :: lifecycle where
  "empty_lifecycle = \<lparr>lc_PostStart = None, lc_PreStop = None\<rparr>"

datatype env_var_source = FieldRef (fr_APIVersion: string) (fr_FieldPath: string) | OtherSource opaque

record env_var =
  ev_Name :: string
  ev_Value :: string
  ev_ValueFrom :: "env_var_source option"

record resource_requirements =
  rr_Limits :: "opaque gomap option"
  rr_Requests :: "opaque gomap option"

definition empty_resources :: resource_requirements where
  "empty_resources = \<lparr>rr_Limits = None, rr_Requests = None\<rparr>"

record volume_mount =
  vm_Name :: string
  vm_ReadOnly :: bool
  vm_MountPath :: string
  vm_SubPath :: string
  vm_MountPropagation :: "string option"
  vm_SubPathExpr :: string

record volume_device =
  vd_Name :: string
  vd_DevicePath :: string

record container_port =
  cp_Name :: string
  cp_HostPort :: int32
  cp_ContainerPort :: int32
  cp_Protocol :: string
  cp_HostIP :: string

record security_context =
  sc_Capabilities :: "opaque option"
  sc_Privileged :: "bool option"
  sc_SELinuxOptions :: "opaque option"
  sc_WindowsOptions :: "opaque option"
  sc_RunAsUser :: "int option"
  sc_RunAsGroup :: "int option"
  sc_RunAsNonRoot :: "bool option"
  sc_ReadOnlyRootFilesystem :: "bool option"
  sc_AllowPrivilegeEscalation :: "bool option"
  sc_ProcMount :: "string option"
  sc_SeccompProfile :: "opaque option"

definition empty_security_context :: security_context where
  "empty_security_context = \<lparr>sc_Capabilities = None, sc_Privileged = None, sc_SELinuxOptions = None,
     sc_WindowsOptions = None, sc_RunAsUser = None, sc_RunAsGroup = None, sc_RunAsNonRoot = None,
     sc_ReadOnlyRootFilesystem = None, sc_AllowPrivilegeEscalation = None, sc_ProcMount = None,
     sc_SeccompProfile = None\<rparr>"

record container =
  c_Name :: string
  c_Image :: string
  c_Command :: "string list"
  c_Args :: "string list"
  c_WorkingDir :: string
  c_Ports :: "container_port list"
  c_EnvFrom :: "opaque list"
  c_Env :: "env_var list"
  c_Resources :: resource_requirements
  c_VolumeMounts :: "volume_mount list"
  c_VolumeDevices :: "volume_device list"
  c_LivenessProbe :: "probe option"
  c_ReadinessProbe :: "probe option"
  c_StartupProbe :: "probe option"
  c_Lifecycle :: "lifecycle option"
  c_TerminationMessagePath :: string
  c_TerminationMessagePolicy :: string
  c_ImagePullPolicy :: string
  c_SecurityContext :: "security_context option"
  c_Stdin :: bool
  c_StdinOnce :: bool
  c_TTY :: bool

definition empty_container :: container where
  "empty_container = \<lparr>c_Name = '''', c_Image = '''', c_Command = [], c_Args = [], c_WorkingDir = '''',
     c_Ports = [], c_EnvFrom = [], c_Env = [], c_Resources = empty_resources, c_VolumeMounts = [],
     c_VolumeDevices = [], c_LivenessProbe = None, c_ReadinessProbe = None, c_StartupProbe = None,
     c_Lifecycle = None, c_TerminationMessagePath = '''', c_TerminationMessagePolicy = '''',
     c_ImagePullPolicy = '''', c_SecurityContext = None, c_Stdin = False, c_StdinOnce = False,
     c_TTY = False\<rparr>"

text \<open>An \<open>EphemeralContainer\<close> embeds the fields of a container and names its target.\<close>

record ephemeral_container =
  ec_Common :: container
  ec_TargetContainerName :: string

section \<open>Volumes\<close>

record key_to_path =
  ktp_Key :: string
  ktp_Path :: string
  ktp_Mode :: "int32 option"

record empty_dir_source =
  ed_Medium :: string
  ed_SizeLimit :: "opaque option"

record secret_source =
  ss_SecretName :: string
  ss_Items :: "key_to_path list"
  ss_DefaultMode :: "int32 option"
  ss_Optional :: "bool option"

definition empty_secret_source :: secret_source where
  "empty_secret_source = \<lparr>ss_SecretName = '''', ss_Items = [], ss_DefaultMode = None, ss_Optional = None\<rparr>"

record config_map_source =
  cs_Name :: string
  cs_Items :: "key_to_path list"
  cs_DefaultMode :: "int32 option"
  cs_Optional :: "bool option"

text \<open>The three sources the operator fills itself, and any other one.\<close>

record volume_source =
  vs_EmptyDir :: "empty_dir_source option"
  vs_Secret :: "secret_source option"
  vs_ConfigMap :: "config_map_source option"
  vs_Other :: "opaque option"

definition empty_volume_source :: volume_source where
  "empty_volume_source = \<lparr>vs_EmptyDir = None, vs_Secret = None, vs_ConfigMap = None, vs_Other = None\<rparr>"

record volume =
  v_Name :: string
  v_Source :: volume_source

section \<open>Pod templates and stateful sets\<close>

record label_selector_requirement =
  lsr_Key :: string
  lsr_Operator :: string
  lsr_Values :: "string list option"

record label_selector =
  ls_MatchLabels :: "string gomap option"
  ls_MatchExpressions :: "label_selector_requirement list"

definition empty_label_selector :: label_selector where
  "empty_label_selector = \<lparr>ls_MatchLabels = None, ls_MatchExpressions = []\<rparr>"

record toleration =
  tol_Key :: string
  tol_Operator :: string
  tol_Value :: string
  tol_Effect :: string
  tol_TolerationSeconds :: "int option"

record host_alias =
  ha_IP :: string
  ha_Hostnames :: "string list"

record topology_spread_constraint =
  tsc_MaxSkew :: int32
  tsc_TopologyKey :: string
  tsc_WhenUnsatisfiable :: string
  tsc_LabelSelector :: "label_selector option"

record pod_dns_config =
  dns_Nameservers :: "string list option"
  dns_Searches :: "string list option"
  dns_Options :: "opaque list option"

record weighted_pod_affinity_term =
  wpat_Weight :: int32
  wpat_LabelSelector :: "label_selector option"
  wpat_TopologyKey :: string

record pod_anti_affinity =
  paa_Required :: "opaque list"
  paa_Preferred :: "weighted_pod_affinity_term list"

record affinity =
  aff_NodeAffinity :: "opaque option"
  aff_PodAffinity :: "opaque option"
  aff_PodAntiAffinity :: "pod_anti_affinity option"

record pod_security_context =
  psc_FSGroup :: "int option"
  psc_Other :: "opaque option"

record pod_spec =
  ps_Volumes :: "volume list"
  ps_InitContainers :: "container list"
  ps_Containers :: "container list"
  ps_EphemeralContainers :: "ephemeral_container list option"
  ps_RestartPolicy :: string
  ps_TerminationGracePeriodSeconds :: "int option"
  ps_ActiveDeadlineSeconds :: "int option"
  ps_DNSPolicy :: string
  ps_NodeSelector :: "string gomap option"
  ps_ServiceAccountName :: string
  ps_DeprecatedServiceAccount :: string
  ps_AutomountServiceAccountToken :: "bool option"
  ps_NodeName :: string
  ps_HostNetwork :: bool
  ps_HostPID :: bool
  ps_HostIPC :: bool
  ps_ShareProcessNamespace :: "bool option"
  ps_SecurityContext :: "pod_security_context option"
  ps_ImagePullSecrets :: "string list option"
  ps_Hostname :: string
  ps_Subdomain :: string
  ps_Affinity :: "affinity option"
  ps_SchedulerName :: string
  ps_Tolerations :: "toleration list"
  ps_HostAliases :: "host_alias list"
  ps_PriorityClassName :: string
  ps_Priority :: "int32 option"
  ps_DNSConfig :: "pod_dns_config option"
  ps_ReadinessGates :: "opaque list option"
  ps_RuntimeClassName :: "string option"
  ps_EnableServiceLinks :: "bool option"
  ps_PreemptionPolicy :: "string option"
  ps_Overhead :: "opaque gomap option"
  ps_TopologySpreadConstraints :: "topology_spread_constraint list option"
  ps_SetHostnameAsFQDN :: "bool option"

definition empty_pod_spec :: pod_spec where
  "empty_pod_spec = \<lparr>ps_Volumes = [], ps_InitContainers = [], ps_Containers = [],
     ps_EphemeralContainers = None, ps_RestartPolicy = '''', ps_TerminationGracePeriodSeconds = None,
     ps_ActiveDeadlineSeconds = None, ps_DNSPolicy = '''', ps_NodeSelector = None,
     ps_ServiceAccountName = '''', ps_DeprecatedServiceAccount = '''',
     ps_AutomountServiceAccountToken = None, ps_NodeName = '''', ps_HostNetwork = False,
     ps_HostPID = False, ps_HostIPC = False, ps_ShareProcessNamespace = None,
     ps_SecurityContext = None, ps_ImagePullSecrets = None, ps_Hostname = '''', ps_Subdomain = '''',
     ps_Affinity = None, ps_SchedulerName = '''', ps_Tolerations = [], ps_HostAliases = [],
     ps_PriorityClassName = '''', ps_Priority = None, ps_DNSConfig = None, ps_ReadinessGates = None,
     ps_RuntimeClassName = None, ps_EnableServiceLinks = None, ps_PreemptionPolicy = None,
     ps_Overhead = None, ps_TopologySpreadConstraints = None, ps_SetHostnameAsFQDN = None\<rparr>"

record pod_template_spec =
  pts_Meta :: object_meta
  pts_Spec :: pod_spec

definition empty_pod_template_spec :: pod_template_spec where
  "empty_pod_template_spec = \<lparr>pts_Meta = empty_meta, pts_Spec = empty_pod_spec\<rparr>"

record persistent_volume_claim =
  pvc_Meta :: object_meta
  pvc_AccessModes :: "string list"
  pvc_Selector :: "label_selector option"
  pvc_Resources :: resource_requirements
  pvc_VolumeName :: string
  pvc_StorageClassName :: "string option"
  pvc_VolumeMode :: "string option"
  pvc_DataSource :: "opaque option"

definition empty_pvc :: persistent_volume_claim where
  "empty_pvc = \<lparr>pvc_Meta = empty_meta, pvc_AccessModes = [], pvc_Selector = None,
     pvc_Resources = empty_resources, pvc_VolumeName = '''', pvc_StorageClassName = None,
     pvc_VolumeMode = None, pvc_DataSource = None\<rparr>"

record update_strategy =
  us_Type :: string
  us_RollingUpdate :: "opaque option"

record statefulset_spec =
  sts_Replicas :: "int32 option"
  sts_Selector :: "label_selector option"
  sts_Template :: pod_template_spec
  sts_VolumeClaimTemplates :: "persistent_volume_claim list"
  sts_ServiceName :: string
  sts_PodManagementPolicy :: string
  sts_UpdateStrategy :: update_strategy
  sts_RevisionHistoryLimit :: "int32 option"

definition empty_statefulset_spec :: statefulset_spec where
  "empty_statefulset_spec = \<lparr>sts_Replicas = None, sts_Selector = None,
     sts_Template = empty_pod_template_spec, sts_VolumeClaimTemplates = [], sts_ServiceName = '''',
     sts_PodManagementPolicy = '''', sts_UpdateStrategy = \<lparr>us_Type = '''', us_RollingUpdate = None\<rparr>,
     sts_RevisionHistoryLimit = None\<rparr>"

record statefulset_status =
  stss_ObservedGeneration :: int
  stss_ReadyReplicas :: int32
  stss_UpdatedReplicas :: int32

record statefulset =
  sts_Meta :: object_meta
  sts_Spec :: statefulset_spec
  sts_Status :: statefulset_status

definition empty_statefulset :: statefulset where
  "empty_statefulset = \<lparr>sts_Meta = empty_meta, sts_Spec = empty_statefulset_spec,
     sts_Status = \<lparr>stss_ObservedGeneration = 0, stss_ReadyReplicas = 0, stss_UpdatedReplicas = 0\<rparr>\<rparr>"

end
