(* ===== verification/Util.thy ===== *)
theory Util
  imports Keyed_Merge Kube_Types
begin

text \<open>
  The small packages under \<open>pkg/util\<close>: membership tests, sequential execution of steps,
  reconciliation results, environment variables and transient API errors.
\<close>

section \<open>contains\<close>

fun contains_String :: "string list \<Rightarrow> string \<Rightarrow> bool" where
  "contains_String [] s = False"
| "contains_String (elem # rest) s = (if elem = s then True else contains_String rest s)"

fun contains_NamespacedName :: "nsname list \<Rightarrow> nsname \<Rightarrow> bool" where
  "contains_NamespacedName [] n = False"
| "contains_NamespacedName (elem # rest) n = (if elem = n then True else contains_NamespacedName rest n)"

fun contains_AccessMode :: "string list \<Rightarrow> string \<Rightarrow> bool" where
  "contains_AccessMode [] m = False"
| "contains_AccessMode (elem # rest) m = (if elem = m then True else contains_AccessMode rest m)"

lemma contains_String_iff [simp]: "contains_String xs s \<longleftrightarrow> s \<in> set xs"
  by (induction xs) auto

lemma contains_NamespacedName_iff [simp]: "contains_NamespacedName xs n \<longleftrightarrow> n \<in> set xs"
  by (induction xs) auto

lemma contains_AccessMode_iff [simp]: "contains_AccessMode xs m \<longleftrightarrow> m \<in> set xs"
  by (induction xs) auto

text \<open>
  \<open>for _, s := range add { if !contains(xs, s) { xs = append(xs, s) } }\<close>, which the code writes
  out in several places.
\<close>

definition append_missing :: "string list \<Rightarrow> string list \<Rightarrow> string list" where
  "append_missing xs add = foldl (\<lambda>acc s. if \<not> contains_String acc s then acc @ [s] else acc) xs add"

lemma append_missing_Nil [simp]: "append_missing xs [] = xs"
  by (simp add: append_missing_def)

lemma append_missing_Cons:
  "append_missing xs (s # add) = append_missing (if s \<in> set xs then xs else xs @ [s]) add"
  by (simp add: append_missing_def)

lemma set_append_missing [simp]: "set (append_missing xs add) = set xs \<union> set add"
  by (induction add arbitrary: xs) (auto simp: append_missing_Cons)

lemma distinct_append_missing: "distinct xs \<Longrightarrow> distinct (append_missing xs add)"
  by (induction add arbitrary: xs) (auto simp: append_missing_Cons)

lemma append_missing_prefix: "\<exists>zs. append_missing xs add = xs @ zs"
proof (induction add arbitrary: xs)
  case Nil
  then show ?case by simp
next
  case (Cons s add)
  then obtain zs where "append_missing (xs @ [s]) add = (xs @ [s]) @ zs" by blast
  with Cons show ?case by (simp add: append_missing_Cons)
qed

lemma append_missing_subset: "set add \<subseteq> set xs \<Longrightarrow> append_missing xs add = xs"
  by (induction add) (auto simp: append_missing_Cons)

section \<open>functions.RunSequentially\<close>

type_synonym 'w step_fn = "'w \<Rightarrow> bool outcome \<times> 'w"

fun runInOrder :: "'w step_fn list \<Rightarrow> 'w step_fn" where
  "runInOrder [] = ret True"
| "runInOrder (fn # fns) =
     on_result fn fail (\<lambda>successful. if \<not> successful then ret False else runInOrder fns)"

text \<open>\<open>for i := len(funcs) - 1; i >= 0; i--\<close>: the index counts down to 0.\<close>

fun runReversed_from :: "'w step_fn list \<Rightarrow> nat \<Rightarrow> 'w step_fn" where
  "runReversed_from funcs 0 = ret True"
| "runReversed_from funcs (Suc i) =
     on_result (funcs ! i) fail
       (\<lambda>successful. if \<not> successful then ret False else runReversed_from funcs i)"

definition runReversed :: "'w step_fn list \<Rightarrow> 'w step_fn" where
  "runReversed funcs = runReversed_from funcs (length funcs)"

definition RunSequentially :: "bool \<Rightarrow> 'w step_fn list \<Rightarrow> 'w step_fn" where
  "RunSequentially runSequentially funcs =
     (if runSequentially then runInOrder funcs else runReversed funcs)"

lemma runReversed_from_take: "n \<le> length fs \<Longrightarrow> runReversed_from fs n = runInOrder (rev (take n fs))"
proof (induction n)
  case 0
  then show ?case by simp
next
  case (Suc n)
  then have "rev (take (Suc n) fs) = fs ! n # rev (take n fs)"
    by (simp add: take_Suc_conv_app_nth)
  with Suc show ?case by (simp cong: if_cong)
qed

lemma runReversed_eq: "runReversed fs = runInOrder (rev fs)"
  by (simp add: runReversed_def runReversed_from_take)

text \<open>A run succeeds only if every step ran, in order, and reported success.\<close>

fun all_succeed :: "'w step_fn list \<Rightarrow> 'w \<Rightarrow> 'w \<Rightarrow> bool" where
  "all_succeed [] w w' = (w' = w)"
| "all_succeed (fn # fns) w w' = (\<exists>w1. fn w = (Ok True, w1) \<and> all_succeed fns w1 w')"

lemma runInOrder_True_iff: "runInOrder fs w = (Ok True, w') \<longleftrightarrow> all_succeed fs w w'"
proof (induction fs arbitrary: w)
  case Nil
  then show ?case by auto
next
  case (Cons fn fns)
  then show ?case
    by (cases "fn w") (auto simp: on_result_def split: outcome.splits)
qed

section \<open>Reconciliation results\<close>

text \<open>\<open>reconcile.Result\<close>; a duration is a number of nanoseconds.\<close>

record reconcile_result =
  res_Requeue :: bool
  res_RequeueAfter :: int

definition seconds :: "int \<Rightarrow> int" where
  "seconds n = 1000000000 * n"

definition result_OK :: reconcile_result where
  "result_OK = \<lparr>res_Requeue = False, res_RequeueAfter = 0\<rparr>"

definition result_Retry :: "int \<Rightarrow> reconcile_result" where
  "result_Retry after = \<lparr>res_Requeue = True, res_RequeueAfter = seconds after\<rparr>"

definition result_Failed :: reconcile_result where
  "result_Failed = result_Retry 0"

text \<open>The results a state of the state machine returns: the third component is completion.\<close>

definition state_retry :: "int \<Rightarrow> bool \<Rightarrow> reconcile_result \<times> error option \<times> bool" where
  "state_retry after isComplete = (\<lparr>res_Requeue = True, res_RequeueAfter = seconds after\<rparr>, None, isComplete)"

definition StateComplete :: "reconcile_result \<times> error option \<times> bool" where
  "StateComplete = state_retry 0 True"

definition RetryState :: "int \<Rightarrow> reconcile_result \<times> error option \<times> bool" where
  "RetryState after = state_retry after False"

definition FailedState :: "reconcile_result \<times> error option \<times> bool" where
  "FailedState = RetryState 1"

section \<open>Environment variables\<close>

text \<open>The process environment is an argument: \<open>os.LookupEnv\<close> and \<open>os.Getenv\<close>.\<close>

type_synonym environment = "string \<Rightarrow> string option"

definition getenv :: "environment \<Rightarrow> string \<Rightarrow> string" where
  "getenv env k = (case env k of Some v \<Rightarrow> v | None \<Rightarrow> '''')"

definition GetEnvOrDefault :: "environment \<Rightarrow> string \<Rightarrow> string \<Rightarrow> string" where
  "GetEnvOrDefault env envVar defaultValue =
     (case env envVar of Some val \<Rightarrow> val | None \<Rightarrow> defaultValue)"

definition ReadBool :: "environment \<Rightarrow> string \<Rightarrow> bool" where
  "ReadBool env envVarName =
     (trim_space (to_lower (GetEnvOrDefault env envVarName ''false'')) = ''true'')"

definition MergeWithOverride :: "iter_order \<Rightarrow> env_var list \<Rightarrow> env_var list \<Rightarrow> env_var list" where
  "MergeWithOverride it existing desired =
     sorted_values it ev_Name
       (foldl (\<lambda>m e. put (ev_Name e) e m) (map_by ev_Name existing) desired)"

lemma MergeWithOverride_map_by:
  "MergeWithOverride it existing desired = sorted_values it ev_Name (map_by ev_Name (existing @ desired))"
  by (simp add: MergeWithOverride_def map_by_def)

lemma find_MergeWithOverride:
  assumes "valid_order it"
  shows "find (\<lambda>e. ev_Name e = k) (MergeWithOverride it existing desired) =
    (case find (\<lambda>e. ev_Name e = k) (rev desired) of
       Some e \<Rightarrow> Some e | None \<Rightarrow> find (\<lambda>e. ev_Name e = k) (rev existing))"
  using find_sorted_values [OF self_keyed_map_by [of ev_Name "existing @ desired"] assms, of k]
  by (simp add: MergeWithOverride_map_by map_of_map_by find_append_case split: option.splits)

section \<open>Transient API errors\<close>

definition objectModifiedText :: string where
  "objectModifiedText =
     ''the object has been modified; please apply your changes to the latest version and try again''"

definition IsTransientMessage :: "string \<Rightarrow> bool" where
  "IsTransientMessage msg = contains_substring (to_lower msg) objectModifiedText"

definition IsTransientError :: "error \<Rightarrow> bool" where
  "IsTransientError err = IsTransientMessage (error_text err)"

end
