(* ===== verification/Scale.thy ===== *)
theory Scale
  imports Util
begin

text \<open>
  \<open>pkg/util/scale\<close>: how many members a replica set should have in the current reconciliation.
  The number of members may only change by one at a time, except when a deployment is
  created.
\<close>

section \<open>Scaling one member at a time\<close>

text \<open>The interface \<open>ReplicaSetScaler\<close>: the results of its two methods.\<close>

record replica_set_scaler =
  DesiredReplicas :: int
  CurrentReplicas :: int

definition IsScalingDown :: "replica_set_scaler \<Rightarrow> bool" where
  "IsScalingDown s = (DesiredReplicas s < CurrentReplicas s)"

definition IsScalingUp :: "replica_set_scaler \<Rightarrow> bool" where
  "IsScalingUp s = (DesiredReplicas s > CurrentReplicas s \<and> CurrentReplicas s \<noteq> 0)"

definition ReplicasThisReconciliation :: "replica_set_scaler \<Rightarrow> int" where
  "ReplicasThisReconciliation s =
     (if CurrentReplicas s = 0 \<or> CurrentReplicas s = DesiredReplicas s then DesiredReplicas s
      else if IsScalingDown s then CurrentReplicas s - 1
      else CurrentReplicas s + 1)"

definition IsStillScaling :: "replica_set_scaler \<Rightarrow> bool" where
  "IsStillScaling s = (ReplicasThisReconciliation s \<noteq> DesiredReplicas s)"

fun AnyAreStillScaling :: "replica_set_scaler list \<Rightarrow> bool" where
  "AnyAreStillScaling [] = False"
| "AnyAreStillScaling (s # scalers) = (if IsStillScaling s then True else AnyAreStillScaling scalers)"

text \<open>One reconciliation towards \<open>desired\<close>: the number it configures becomes the current one.\<close>

definition scale_step :: "int \<Rightarrow> int \<Rightarrow> int" where
  "scale_step desired current =
     ReplicasThisReconciliation \<lparr>DesiredReplicas = desired, CurrentReplicas = current\<rparr>"

lemma scale_step_up: "0 < c \<Longrightarrow> c < d \<Longrightarrow> scale_step d c = c + 1"
  by (simp add: scale_step_def ReplicasThisReconciliation_def IsScalingDown_def)

lemma scale_step_down: "0 < d \<Longrightarrow> d < c \<Longrightarrow> scale_step d c = c - 1"
  by (simp add: scale_step_def ReplicasThisReconciliation_def IsScalingDown_def)

lemma scale_step_fixed [simp]: "scale_step d d = d"
  by (simp add: scale_step_def ReplicasThisReconciliation_def)

lemma scale_steps:
  assumes "0 < d" and "0 < c"
  shows "(scale_step d ^^ n) c = (if c \<le> d then min d (c + int n) else max d (c - int n))"
proof (induction n)
  case 0
  then show ?case by simp
next
  case (Suc n)
  let ?x = "(scale_step d ^^ n) c"
  have "0 < ?x" using Suc assms by (auto split: if_splits)
  then have "scale_step d ?x = (if ?x < d then ?x + 1 else if d < ?x then ?x - 1 else ?x)"
    using scale_step_up scale_step_down assms by auto
  with Suc show ?case by (auto simp: min_def max_def split: if_splits)
qed

text \<open>
  Scaling converges one member at a time: from any non-empty deployment, every
  reconciliation moves at most one member towards the desired number, never past it, and
  after exactly \<open>|desired - current|\<close> reconciliations the desired number is reached and the
  scaler reports that it is no longer scaling.
\<close>

theorem scaling_converges:
  assumes "0 < desired" and "0 < current"
  shows "\<bar>(scale_step desired ^^ Suc n) current - (scale_step desired ^^ n) current\<bar> \<le> 1
    \<and> ((scale_step desired ^^ n) current = desired \<longleftrightarrow> nat \<bar>desired - current\<bar> \<le> n)
    \<and> (IsStillScaling \<lparr>DesiredReplicas = desired, CurrentReplicas = (scale_step desired ^^ n) current\<rparr>
         \<longleftrightarrow> n + 1 < nat \<bar>desired - current\<bar>)"
proof -
  have s: "IsStillScaling \<lparr>DesiredReplicas = desired, CurrentReplicas = x\<rparr> \<longleftrightarrow> scale_step desired x \<noteq> desired" for x
    by (simp add: IsStillScaling_def scale_step_def)
  have t: "scale_step desired ((scale_step desired ^^ n) current) = (scale_step desired ^^ Suc n) current"
    by simp
  show ?thesis
    unfolding s t unfolding scale_steps [OF assms]
    by (cases "current \<le> desired") (auto simp: min_def max_def)
qed

theorem scaling_converges_witness:
  "(0 :: int) < 5 \<and> (0 :: int) < 3 \<and> (scale_step 5 ^^ 2) 3 = 5"
  using scaling_converges [of 5 3 2] by simp

text \<open>
  A new deployment (no current members) is created at its full size, and the aggregate test
  reports scaling exactly when some scaler does.
\<close>

lemma scale_step_new [simp]: "scale_step d 0 = d"
  by (simp add: scale_step_def ReplicasThisReconciliation_def)

lemma AnyAreStillScaling_iff: "AnyAreStillScaling scalers \<longleftrightarrow> (\<exists>s \<in> set scalers. IsStillScaling s)"
  by (induction scalers) auto

text \<open>The order tests of the controller: exactly one of them holds, or the deployment is new or settled.\<close>

lemma scaling_directions:
  "CurrentReplicas s \<noteq> 0 \<Longrightarrow> (IsScalingUp s \<or> IsScalingDown s) \<longleftrightarrow> CurrentReplicas s \<noteq> DesiredReplicas s"
  by (auto simp: IsScalingUp_def IsScalingDown_def)

lemma not_scaling_up_and_down: "\<not> (IsScalingUp s \<and> IsScalingDown s)"
  by (simp add: IsScalingUp_def IsScalingDown_def)

end
