(* ===== verification/StateMachine.thy ===== *)
theory StateMachine
  imports Util
begin

text \<open>
  \<open>pkg/util/state/statemachine.go\<close>: a machine of named states with guarded transitions, whose
  current state is kept outside of it by a save-loader. The world \<open>'w\<close> is whatever the states,
  the guards and the save-loader read and write.
\<close>

section \<open>States, transitions and machines\<close>

type_synonym state_result = "reconcile_result \<times> error option \<times> bool"

record 'w State =
  st_Name :: string
  st_Reconcile :: "'w \<Rightarrow> state_result \<times> 'w"
  st_OnEnter :: "('w \<Rightarrow> error option \<times> 'w) option"

record 'w transition =
  tr_from :: "'w State"
  tr_to :: "'w State"
  tr_predicate :: "'w \<Rightarrow> bool"

text \<open>The interface \<open>SaveLoader\<close>.\<close>

record 'w SaveLoader =
  SaveNextState :: "nsname \<Rightarrow> string \<Rightarrow> 'w \<Rightarrow> error option \<times> 'w"
  LoadNextState :: "nsname \<Rightarrow> 'w \<Rightarrow> (error + string) \<times> 'w"

record 'w Machine =
  allTransitions :: "'w transition list gomap"
  currentState :: "'w State option"
  saveLoader :: "'w SaveLoader"
  states :: "'w State gomap"
  m_nsName :: nsname

definition FromBool :: "bool \<Rightarrow> 'w \<Rightarrow> bool" where
  "FromBool b = (\<lambda>_. b)"

definition directTransition :: "'w \<Rightarrow> bool" where
  "directTransition = FromBool True"

definition NewStateMachine :: "'w SaveLoader \<Rightarrow> nsname \<Rightarrow> 'w Machine" where
  "NewStateMachine saver nsName = \<lparr>allTransitions = [], currentState = None, saveLoader = saver,
     states = [], m_nsName = nsName\<rparr>"

definition AddTransition :: "'w State \<Rightarrow> 'w State \<Rightarrow> ('w \<Rightarrow> bool) \<Rightarrow> 'w Machine \<Rightarrow> 'w Machine" where
  "AddTransition from to predicate m =
     (let existing = (case map_of (allTransitions m) (st_Name from) of None \<Rightarrow> [] | Some ts \<Rightarrow> ts)
      in m\<lparr>allTransitions := put (st_Name from)
             (existing @ [\<lparr>tr_from = from, tr_to = to, tr_predicate = predicate\<rparr>]) (allTransitions m),
           states := put (st_Name to) to (put (st_Name from) from (states m))\<rparr>)"

definition AddDirectTransition :: "'w State \<Rightarrow> 'w State \<Rightarrow> 'w Machine \<Rightarrow> 'w Machine" where
  "AddDirectTransition from to m = AddTransition from to directTransition m"

text \<open>A missing key of the map reads as the nil slice.\<close>

definition transitions_from :: "'w Machine \<Rightarrow> string \<Rightarrow> 'w transition list" where
  "transitions_from m name = (case map_of (allTransitions m) name of None \<Rightarrow> [] | Some ts \<Rightarrow> ts)"

definition getTransitionForState :: "'w Machine \<Rightarrow> 'w State \<Rightarrow> 'w \<Rightarrow> 'w transition option" where
  "getTransitionForState m s w = find (\<lambda>t. tr_predicate t w) (transitions_from m (st_Name s))"

definition determineState :: "'w Machine \<Rightarrow> 'w \<Rightarrow> (error + 'w Machine) \<times> 'w" where
  "determineState m w =
     (case LoadNextState (saveLoader m) (m_nsName m) w of
        (Inl err, w') \<Rightarrow> (Inl (errorf ''could not load starting state: '' err), w')
      | (Inr currentStateName, w') \<Rightarrow>
          (case map_of (states m) currentStateName of
             None \<Rightarrow> (Inl (Err (''could not determine state '' @ currentStateName
                       @ '' as it was not added to the State Machine'')), w')
           | Some nextState \<Rightarrow> (Inr (m\<lparr>currentState := Some nextState\<rparr>), w')))"

definition empty_result :: reconcile_result where
  "empty_result = \<lparr>res_Requeue = False, res_RequeueAfter = 0\<rparr>"

text \<open>What \<open>Reconcile\<close> does once the state is known.\<close>

definition enterState :: "'w State \<Rightarrow> 'w \<Rightarrow> error option \<times> 'w" where
  "enterState s w = (case st_OnEnter s of None \<Rightarrow> (None, w) | Some f \<Rightarrow> f w)"

definition completeState :: "'w Machine \<Rightarrow> 'w State \<Rightarrow> reconcile_result \<Rightarrow> 'w
    \<Rightarrow> (reconcile_result \<times> error option) \<times> 'w" where
  "completeState m s res w =
     (let nextState = (case getTransitionForState m s w of None \<Rightarrow> '''' | Some t \<Rightarrow> st_Name (tr_to t))
      in case SaveNextState (saveLoader m) (m_nsName m) nextState w of
           (Some err, w') \<Rightarrow> ((empty_result, Some err), w')
         | (None, w') \<Rightarrow> ((res, None), w'))"

definition Machine_Reconcile :: "'w Machine \<Rightarrow> 'w \<Rightarrow> (reconcile_result \<times> error option) \<times> 'w Machine \<times> 'w" where
  "Machine_Reconcile m w =
     (case determineState m w of
        (Inl err, w1) \<Rightarrow> ((empty_result, Some err), m, w1)
      | (Inr m', w1) \<Rightarrow>
          (case currentState m' of
             None \<Rightarrow> ((empty_result, None), m', w1)
           | Some s \<Rightarrow>
             (case enterState s w1 of
                (Some err, w2) \<Rightarrow> ((empty_result, Some err), m', w2)
              | (None, w2) \<Rightarrow>
                 (case st_Reconcile s w2 of
                    ((res, Some err, isComplete), w3) \<Rightarrow> ((res, Some err), m', w3)
                  | ((res, None, isComplete), w3) \<Rightarrow>
                      (if isComplete
                       then (case completeState m' s res w3 of (r, w4) \<Rightarrow> (r, m', w4))
                       else ((res, None), m', w3))))))"

section \<open>Well-formed machines\<close>

text \<open>
  Every state is registered under its name, every transition is stored under the name of its
  source, and both ends of every transition are registered.
\<close>

definition wf_machine :: "'w Machine \<Rightarrow> bool" where
  "wf_machine m =
     (wf_map (states m)
      \<and> (\<forall>n s. map_of (states m) n = Some s \<longrightarrow> st_Name s = n)
      \<and> (\<forall>n. \<forall>t \<in> set (transitions_from m n).
           st_Name (tr_from t) = n \<and> n \<in> fst ` set (states m) \<and> st_Name (tr_to t) \<in> fst ` set (states m)))"

lemma transitions_from_AddTransition:
  "transitions_from (AddTransition f t p m) n =
     (if n = st_Name f then transitions_from m n @ [\<lparr>tr_from = f, tr_to = t, tr_predicate = p\<rparr>]
      else transitions_from m n)"
  by (simp add: transitions_from_def AddTransition_def Let_def split: option.split)

lemma states_AddTransition:
  "states (AddTransition f t p m) = put (st_Name t) t (put (st_Name f) f (states m))"
  by (simp add: AddTransition_def Let_def)

lemma wf_NewStateMachine: "wf_machine (NewStateMachine saver ns)"
  by (simp add: wf_machine_def NewStateMachine_def transitions_from_def)

lemma wf_AddTransition:
  assumes "wf_machine m"
  shows "wf_machine (AddTransition f t p m)"
  using assms
  by (auto simp: wf_machine_def states_AddTransition transitions_from_AddTransition fst_set_put split: if_splits)

lemma wf_AddDirectTransition: "wf_machine m \<Longrightarrow> wf_machine (AddDirectTransition f t m)"
  by (simp add: AddDirectTransition_def wf_AddTransition)

lemma determineState_InrD:
  assumes "determineState m w = (Inr m', w')"
  obtains name s where "LoadNextState (saveLoader m) (m_nsName m) w = (Inr name, w')"
    and "map_of (states m) name = Some s" and "m' = m\<lparr>currentState := Some s\<rparr>"
  using assms by (auto simp: determineState_def split: prod.splits sum.splits option.splits)

lemma getTransitionForState_cong:
  "getTransitionForState (m\<lparr>currentState := c\<rparr>) s w = getTransitionForState m s w"
  by (simp add: getTransitionForState_def transitions_from_def)

lemma getTransitionForState_SomeD:
  assumes "getTransitionForState m s w = Some t"
  shows "t \<in> set (transitions_from m (st_Name s))" and "tr_predicate t w"
proof -
  obtain i where i: "i < length (transitions_from m (st_Name s))" "tr_predicate (transitions_from m (st_Name s) ! i) w"
      "t = transitions_from m (st_Name s) ! i"
    using assms unfolding getTransitionForState_def by (auto simp: find_Some_iff)
  then show "t \<in> set (transitions_from m (st_Name s))" and "tr_predicate t w" by auto
qed

lemma next_state_registered:
  assumes "wf_machine m" and "getTransitionForState m s w = Some t"
  shows "st_Name (tr_to t) \<in> fst ` set (states m)"
  using assms(1) getTransitionForState_SomeD(1) [OF assms(2)] unfolding wf_machine_def by blast

section \<open>Runs of a machine\<close>

text \<open>
  What the machine asks of a save-loader: loading gives the saved name and changes nothing,
  saving succeeds. States are quiet when running them does not touch the saved name.
\<close>

definition faithful_saver :: "'w SaveLoader \<Rightarrow> nsname \<Rightarrow> ('w \<Rightarrow> string) \<Rightarrow> bool" where
  "faithful_saver sl ns saved =
     ((\<forall>w. LoadNextState sl ns w = (Inr (saved w), w))
      \<and> (\<forall>n w. \<exists>w'. SaveNextState sl ns n w = (None, w') \<and> saved w' = n))"

definition quiet_states :: "'w Machine \<Rightarrow> ('w \<Rightarrow> string) \<Rightarrow> bool" where
  "quiet_states m saved =
     (\<forall>n s. map_of (states m) n = Some s \<longrightarrow>
        (\<forall>w. saved (snd (enterState s w)) = saved w \<and> saved (snd (st_Reconcile s w)) = saved w))"

text \<open>Calls of \<open>Reconcile\<close> on the world; the machine itself only remembers the current state.\<close>

inductive reconciles :: "'w Machine \<Rightarrow> 'w \<Rightarrow> 'w \<Rightarrow> bool" for m where
  reconciles_none: "reconciles m w w"
| reconciles_step: "reconciles m w w1 \<Longrightarrow> Machine_Reconcile m w1 = (r, m', w2) \<Longrightarrow> reconciles m w w2"

text \<open>How a single reconciliation may change the saved name.\<close>

lemma completeState_saved:
  assumes f: "faithful_saver (saveLoader m) (m_nsName m) saved"
    and c: "completeState (m\<lparr>currentState := c\<rparr>) s res w = (r, w')"
  shows "r = (res, None) \<and> (case getTransitionForState m s w of
      None \<Rightarrow> saved w' = '''' | Some t \<Rightarrow> saved w' = st_Name (tr_to t))"
proof -
  have save: "\<exists>w'. SaveNextState (saveLoader m) (m_nsName m) n w = (None, w') \<and> saved w' = n" for n
    using f by (simp add: faithful_saver_def)
  show ?thesis
    using c save [of "case getTransitionForState m s w of None \<Rightarrow> '''' | Some t \<Rightarrow> st_Name (tr_to t)"]
    by (auto simp: completeState_def getTransitionForState_cong split: option.splits)
qed

lemma Machine_Reconcile_saved:
  assumes f: "faithful_saver (saveLoader m) (m_nsName m) saved"
    and q: "quiet_states m saved" and r: "Machine_Reconcile m w = ((res, err), m', w')"
  shows "saved w' = saved w \<or>
    (err = None \<and> (\<exists>s w2 w3. map_of (states m) (saved w) = Some s \<and> enterState s w = (None, w2)
       \<and> st_Reconcile s w2 = ((res, None, True), w3)
       \<and> (case getTransitionForState m s w3 of
            None \<Rightarrow> saved w' = '''' | Some t \<Rightarrow> saved w' = st_Name (tr_to t))))"
proof -
  have load: "LoadNextState (saveLoader m) (m_nsName m) w = (Inr (saved w), w)"
    using f by (simp add: faithful_saver_def)
  show ?thesis
  proof (cases "map_of (states m) (saved w)")
    case None
    with r load show ?thesis by (simp add: Machine_Reconcile_def determineState_def)
  next
    case (Some s)
    with q have qe: "saved (snd (enterState s w)) = saved w" and qr: "\<And>w. saved (snd (st_Reconcile s w)) = saved w"
      by (auto simp: quiet_states_def)
    obtain e w2 where e: "enterState s w = (e, w2)" by fastforce
    obtain res' e' c w3 where st: "st_Reconcile s w2 = ((res', e', c), w3)" by (metis prod.exhaust)
    have s2: "saved w2 = saved w" "saved w3 = saved w" using qe qr [of w2] e st by simp_all
    show ?thesis
    proof (cases "e = None \<and> e' = None \<and> c")
      case False
      then have "saved w' = saved w"
        using r load Some e st s2 by (auto simp: Machine_Reconcile_def determineState_def split: option.splits)
      then show ?thesis ..
    next
      case True
      with r load Some e st have "completeState (m\<lparr>currentState := Some s\<rparr>) s res' w3 = ((res, err), w')"
        by (auto simp: Machine_Reconcile_def determineState_def split: prod.splits)
      from completeState_saved [OF f this] True Some e st show ?thesis by auto
    qed
  qed
qed

text \<open>
  C34. A reconciliation changes the saved state only along a registered transition: either the
  saved name is unchanged, or the saved state was entered and reconciled without error, it
  reported completion, and the new name is the target of a transition out of it whose guard
  holds, or the empty name when no guard does.
\<close>

theorem machine_moves_along_transitions:
  assumes "wf_machine m" and "faithful_saver (saveLoader m) (m_nsName m) saved"
    and "quiet_states m saved" and "Machine_Reconcile m w = ((res, err), m', w')"
    and "saved w' \<noteq> saved w"
  shows "err = None \<and> (\<exists>s w2 w3. map_of (states m) (saved w) = Some s \<and> enterState s w = (None, w2)
    \<and> st_Reconcile s w2 = ((res, None, True), w3)
    \<and> ((\<exists>t \<in> set (transitions_from m (saved w)). tr_predicate t w3 \<and> saved w' = st_Name (tr_to t))
       \<or> ((\<forall>t \<in> set (transitions_from m (saved w)). \<not> tr_predicate t w3) \<and> saved w' = '''')))"
proof -
  from Machine_Reconcile_saved [OF assms(2-4)] assms(5) obtain s w2 w3 where
    e: "err = None" and s: "map_of (states m) (saved w) = Some s"
    and n: "enterState s w = (None, w2)" "st_Reconcile s w2 = ((res, None, True), w3)"
    and g: "case getTransitionForState m s w3 of
       None \<Rightarrow> saved w' = '''' | Some t \<Rightarrow> saved w' = st_Name (tr_to t)" by blast
  have name: "st_Name s = saved w" using assms(1) s by (simp add: wf_machine_def)
  have "(\<exists>t \<in> set (transitions_from m (saved w)). tr_predicate t w3 \<and> saved w' = st_Name (tr_to t))
      \<or> ((\<forall>t \<in> set (transitions_from m (saved w)). \<not> tr_predicate t w3) \<and> saved w' = '''')"
  proof (cases "getTransitionForState m s w3")
    case None
    then have "\<forall>t \<in> set (transitions_from m (saved w)). \<not> tr_predicate t w3"
      by (simp add: getTransitionForState_def find_None_iff name)
    with g None show ?thesis by simp
  next
    case (Some t)
    with getTransitionForState_SomeD [OF Some] g show ?thesis by (auto simp: name)
  qed
  with e s n show ?thesis by blast
qed

definition example_saver :: "(string \<times> nat) SaveLoader" where
  "example_saver = \<lparr>SaveNextState = (\<lambda>_ n w. (None, (n, snd w))), LoadNextState = (\<lambda>_ w. (Inr (fst w), w))\<rparr>"

definition example_state :: "string \<Rightarrow> (string \<times> nat) State" where
  "example_state n = \<lparr>st_Name = n, st_Reconcile = (\<lambda>w. (StateComplete, (fst w, Suc (snd w)))), st_OnEnter = None\<rparr>"

definition example_machine :: "(string \<times> nat) Machine" where
  "example_machine = AddDirectTransition (example_state ''A'') (example_state ''B'')
     (NewStateMachine example_saver \<lparr>nn_Namespace = ''ns'', nn_Name = ''m''\<rparr>)"

lemma example_machine_ok:
  "wf_machine example_machine" "faithful_saver (saveLoader example_machine) (m_nsName example_machine) fst"
  "quiet_states example_machine fst"
proof -
  show "wf_machine example_machine"
    unfolding example_machine_def by (intro wf_AddDirectTransition wf_NewStateMachine)
  show "faithful_saver (saveLoader example_machine) (m_nsName example_machine) fst"
    by (simp add: faithful_saver_def example_machine_def example_saver_def AddDirectTransition_def
        AddTransition_def NewStateMachine_def Let_def)
  show "quiet_states example_machine fst"
    by (simp add: quiet_states_def example_machine_def AddDirectTransition_def AddTransition_def
        NewStateMachine_def Let_def enterState_def example_state_def)
qed

lemma example_machine_step:
  "Machine_Reconcile example_machine (''A'', 0) =
     ((fst StateComplete, None), example_machine\<lparr>currentState := Some (example_state ''A'')\<rparr>, (''B'', 1))"
  by (simp add: Machine_Reconcile_def determineState_def example_machine_def AddDirectTransition_def
      AddTransition_def NewStateMachine_def Let_def example_saver_def example_state_def enterState_def
      completeState_def getTransitionForState_def transitions_from_def directTransition_def FromBool_def
      StateComplete_def state_retry_def put_def)

theorem machine_moves_along_transitions_witness:
  "\<exists>t \<in> set (transitions_from example_machine ''A''). st_Name (tr_to t) = ''B''"
  using machine_moves_along_transitions [OF example_machine_ok example_machine_step] by auto

text \<open>The machine that a list of calls of \<open>AddTransition\<close> makes of a new one.\<close>

definition build_machine :: "'w SaveLoader \<Rightarrow> nsname \<Rightarrow> ('w State \<times> 'w State \<times> ('w \<Rightarrow> bool)) list \<Rightarrow> 'w Machine" where
  "build_machine saver ns edges = foldl (\<lambda>m (from, to, predicate). AddTransition from to predicate m) (NewStateMachine saver ns) edges"

lemma wf_build_machine: "wf_machine (build_machine saver ns edges)"
proof -
  have "wf_machine m \<Longrightarrow> wf_machine (foldl (\<lambda>m (from, to, predicate). AddTransition from to predicate m) m edges)" for m
    by (induction edges arbitrary: m) (auto simp: wf_AddTransition)
  then show ?thesis by (simp add: build_machine_def wf_NewStateMachine)
qed

lemma build_machine_sel [simp]:
  "saveLoader (build_machine saver ns edges) = saver" "m_nsName (build_machine saver ns edges) = ns"
proof -
  have "saveLoader (foldl (\<lambda>m (from, to, predicate). AddTransition from to predicate m) m edges) = saveLoader m
      \<and> m_nsName (foldl (\<lambda>m (from, to, predicate). AddTransition from to predicate m) m edges) = m_nsName m" for m :: "'a Machine"
    by (induction edges arbitrary: m) (auto simp: AddTransition_def Let_def)
  then show "saveLoader (build_machine saver ns edges) = saver" "m_nsName (build_machine saver ns edges) = ns"
    by (simp_all add: build_machine_def NewStateMachine_def)
qed

lemma build_machine_states:
  "map_of (states (build_machine saver ns edges)) n = Some s \<Longrightarrow> \<exists>(from, to, predicate) \<in> set edges. s \<in> {from, to}"
proof -
  have "map_of (states (foldl (\<lambda>m (from, to, predicate). AddTransition from to predicate m) m edges)) n = Some s \<Longrightarrow>
      map_of (states m) n = Some s \<or> (\<exists>(from, to, predicate) \<in> set edges. s \<in> {from, to})" for m
    by (induction edges arbitrary: m) (fastforce simp: states_AddTransition split: if_splits)+
  then show "map_of (states (build_machine saver ns edges)) n = Some s \<Longrightarrow> ?thesis"
    by (fastforce simp: build_machine_def NewStateMachine_def)
qed

lemma build_machine_registers:
  "fst ` set (states (build_machine saver ns edges)) = (\<Union>(from, to, predicate) \<in> set edges. {st_Name from, st_Name to})"
proof -
  have "fst ` set (states (foldl (\<lambda>m (from, to, predicate). AddTransition from to predicate m) m edges)) =
      fst ` set (states m) \<union> (\<Union>(from, to, predicate) \<in> set edges. {st_Name from, st_Name to})" for m
  proof (induction edges arbitrary: m)
    case (Cons e edges)
    obtain f t p where e: "e = (f, t, p)" by (metis surj_pair)
    show ?case unfolding e by (simp only: foldl_Cons prod.case Cons.IH states_AddTransition fst_set_put) auto
  qed simp
  then show ?thesis by (simp add: build_machine_def NewStateMachine_def)
qed

lemma reconciles_registered:
  assumes "wf_machine m" and "faithful_saver (saveLoader m) (m_nsName m) saved" and "quiet_states m saved"
    and "reconciles m w w'" and "saved w \<in> insert '''' (fst ` set (states m))"
  shows "saved w' \<in> insert '''' (fst ` set (states m))"
  using assms(4,5)
proof (induction rule: reconciles.induct)
  case (reconciles_none w)
  then show ?case .
next
  case (reconciles_step w w1 r m' w2)
  obtain res err where r: "r = (res, err)" by fastforce
  from Machine_Reconcile_saved [OF assms(2,3) reconciles_step.hyps(2) [unfolded r]]
  show ?case
    using reconciles_step.IH [OF reconciles_step.prems] next_state_registered [OF assms(1)]
    by (auto split: option.splits)
qed

text \<open>
  C35. Every state a machine saves is one it can load again: a machine that was built by any calls of
  \<open>AddTransition\<close>, with states that leave the saved name alone and a save-loader that keeps it, and
  that starts from the name of a state of one of these calls, has after any number of
  reconciliations saved the empty name of a finished run or a name for which the next reconciliation
  finds a state of these calls with this name.
\<close>

theorem machine_saved_states_load:
  assumes saver: "faithful_saver saver ns saved"
    and quiet: "\<forall>(from, to, predicate) \<in> set edges. \<forall>s \<in> {from, to}. \<forall>w.
      saved (snd (enterState s w)) = saved w \<and> saved (snd (st_Reconcile s w)) = saved w"
    and start: "\<exists>(from, to, predicate) \<in> set edges. saved w \<in> {st_Name from, st_Name to}"
    and run: "reconciles (build_machine saver ns edges) w w'"
  shows "saved w' = '''' \<or> (\<exists>s m'. determineState (build_machine saver ns edges) w' = (Inr m', w') \<and> currentState m' = Some s
    \<and> st_Name s = saved w' \<and> (\<exists>(from, to, predicate) \<in> set edges. s \<in> {from, to}))"
proof -
  let ?m = "build_machine saver ns edges"
  have f: "faithful_saver (saveLoader ?m) (m_nsName ?m) saved" using saver by simp
  have q: "quiet_states ?m saved" unfolding quiet_states_def
    using quiet by (fastforce dest: build_machine_states)
  have "saved w \<in> insert '''' (fst ` set (states ?m))" using start by (fastforce simp: build_machine_registers)
  then have "saved w' \<in> insert '''' (fst ` set (states ?m))" by (rule reconciles_registered [OF wf_build_machine f q run])
  moreover have load: "LoadNextState (saveLoader ?m) (m_nsName ?m) w' = (Inr (saved w'), w')" using f by (simp add: faithful_saver_def)
  moreover have "st_Name s = saved w'" if "map_of (states ?m) (saved w') = Some s" for s
    using wf_build_machine [of saver ns edges] that by (simp add: wf_machine_def)
  moreover have "\<exists>(from, to, predicate) \<in> set edges. s \<in> {from, to}" if "map_of (states ?m) (saved w') = Some s" for s
    by (rule build_machine_states [OF that])
  moreover have "\<exists>s. map_of (states ?m) (saved w') = Some s" if "saved w' \<in> fst ` set (states ?m)"
    using that by (metis domD dom_map_of_conv_image_fst)
  ultimately show ?thesis
    by (cases "saved w' = ''''"; cases "map_of (states ?m) (saved w')") (simp_all add: determineState_def)
qed

lemma example_machine_built:
  "example_machine = build_machine example_saver \<lparr>nn_Namespace = ''ns'', nn_Name = ''m''\<rparr>
     [(example_state ''A'', example_state ''B'', directTransition)]"
  by (simp add: example_machine_def build_machine_def AddDirectTransition_def)

theorem machine_saved_states_load_witness:
  "\<exists>s m'. determineState example_machine (''B'', 1) = (Inr m', (''B'', 1)) \<and> currentState m' = Some s \<and> st_Name s = ''B''"
proof -
  have run: "reconciles (build_machine example_saver \<lparr>nn_Namespace = ''ns'', nn_Name = ''m''\<rparr>
     [(example_state ''A'', example_state ''B'', directTransition)]) (''A'', 0) (''B'', 1)"
    using reconciles_step [OF reconciles_none example_machine_step] unfolding example_machine_built .
  have f: "faithful_saver example_saver \<lparr>nn_Namespace = ''ns'', nn_Name = ''m''\<rparr> fst"
    by (simp add: faithful_saver_def example_saver_def)
  show ?thesis
    unfolding example_machine_built using machine_saved_states_load [OF f _ _ run]
    by (simp add: enterState_def example_state_def) blast
qed

end
