(* ===== verification/Merge.thy ===== *)
theory Merge
  imports Util
begin

text \<open>
  \<open>pkg/util/merge\<close>: how a user-provided StatefulSet specification is laid over the one the
  operator builds. Functions that loop over a Go map take the iteration order as their
  first argument.
\<close>

section \<open>Strings and maps\<close>

definition StringSlices :: "string list \<Rightarrow> string list \<Rightarrow> string list" where
  "StringSlices xs ys = append_missing ([] @ xs) ys"

definition StringToStringMap :: "string gomap \<Rightarrow> string gomap \<Rightarrow> string gomap" where
  "StringToStringMap m1 m2 = put_all (put_all [] m1) m2"

text \<open>\<open>if override.X != zero { merged.X = override.X }\<close>.\<close>

definition over :: "'a \<Rightarrow> 'a \<Rightarrow> 'a \<Rightarrow> 'a" where
  "over zero d v = (if v \<noteq> zero then v else d)"

lemma over_zero [simp]: "over z d z = d"
  by (simp add: over_def)

lemma over_None_Some [simp]: "over None d (Some x) = Some x"
  by (simp add: over_def)

section \<open>Container parts\<close>

definition Probe :: "probe option \<Rightarrow> probe option \<Rightarrow> probe option" where
  "Probe original override =
     (case override of None \<Rightarrow> original
      | Some ov \<Rightarrow> (case original of None \<Rightarrow> override
         | Some merged \<Rightarrow> Some (merged\<lparr>
             pr_Handler := (pr_Handler merged)\<lparr>
               h_Exec := over None (h_Exec (pr_Handler merged)) (h_Exec (pr_Handler ov)),
               h_HTTPGet := over None (h_HTTPGet (pr_Handler merged)) (h_HTTPGet (pr_Handler ov)),
               h_TCPSocket := over None (h_TCPSocket (pr_Handler merged)) (h_TCPSocket (pr_Handler ov))\<rparr>,
             pr_InitialDelaySeconds := over 0 (pr_InitialDelaySeconds merged) (pr_InitialDelaySeconds ov),
             pr_TimeoutSeconds := over 0 (pr_TimeoutSeconds merged) (pr_TimeoutSeconds ov),
             pr_PeriodSeconds := over 0 (pr_PeriodSeconds merged) (pr_PeriodSeconds ov),
             pr_SuccessThreshold := over 0 (pr_SuccessThreshold merged) (pr_SuccessThreshold ov),
             pr_FailureThreshold := over 0 (pr_FailureThreshold merged) (pr_FailureThreshold ov)\<rparr>)))"

definition LifeCycle :: "lifecycle option \<Rightarrow> lifecycle option \<Rightarrow> lifecycle option" where
  "LifeCycle original override =
     (case override of None \<Rightarrow> original
      | Some ov \<Rightarrow> (case original of None \<Rightarrow> override
         | Some merged \<Rightarrow> Some (merged\<lparr>
             lc_PostStart := over None (lc_PostStart merged) (lc_PostStart ov),
             lc_PreStop := over None (lc_PreStop merged) (lc_PreStop ov)\<rparr>)))"

definition SecurityContext ::
    "security_context option \<Rightarrow> security_context option \<Rightarrow> security_context option" where
  "SecurityContext original override =
     (case override of None \<Rightarrow> original
      | Some ov \<Rightarrow> (case original of None \<Rightarrow> override
         | Some merged \<Rightarrow> Some (merged\<lparr>
             sc_Capabilities := over None (sc_Capabilities merged) (sc_Capabilities ov),
             sc_Privileged := over None (sc_Privileged merged) (sc_Privileged ov),
             sc_SELinuxOptions := over None (sc_SELinuxOptions merged) (sc_SELinuxOptions ov),
             sc_WindowsOptions := over None (sc_WindowsOptions merged) (sc_WindowsOptions ov),
             sc_RunAsUser := over None (sc_RunAsUser merged) (sc_RunAsUser ov),
             sc_RunAsGroup := over None (sc_RunAsGroup merged) (sc_RunAsGroup ov),
             sc_RunAsNonRoot := over None (sc_RunAsNonRoot merged) (sc_RunAsNonRoot ov),
             sc_ReadOnlyRootFilesystem := over None (sc_ReadOnlyRootFilesystem merged) (sc_ReadOnlyRootFilesystem ov),
             sc_AllowPrivilegeEscalation := over None (sc_AllowPrivilegeEscalation merged) (sc_AllowPrivilegeEscalation ov),
             sc_ProcMount := over None (sc_ProcMount merged) (sc_ProcMount ov)\<rparr>)))"

definition createVolumeDevicesMap :: "volume_device list \<Rightarrow> volume_device gomap" where
  "createVolumeDevicesMap devices = map_by vd_Name devices"

definition mergeVolumeDevice :: "volume_device \<Rightarrow> volume_device \<Rightarrow> volume_device" where
  "mergeVolumeDevice original override = original\<lparr>
     vd_Name := over '''' (vd_Name original) (vd_Name override),
     vd_DevicePath := over '''' (vd_DevicePath original) (vd_DevicePath override)\<rparr>"

definition VolumeDevices :: "iter_order \<Rightarrow> volume_device list \<Rightarrow> volume_device list \<Rightarrow> volume_device list" where
  "VolumeDevices it original override =
     sorted_values it vd_Name
       (merge_maps mergeVolumeDevice (createVolumeDevicesMap original) (createVolumeDevicesMap override))"

definition createEnvMap :: "env_var list \<Rightarrow> env_var gomap" where
  "createEnvMap env = map_by ev_Name env"

definition mergeSingleEnv :: "env_var \<Rightarrow> env_var \<Rightarrow> env_var" where
  "mergeSingleEnv original override =
     (let merged = (if ev_Value override \<noteq> ''''
            then original\<lparr>ev_Value := ev_Value override, ev_ValueFrom := None\<rparr> else original)
      in if ev_ValueFrom override \<noteq> None
         then merged\<lparr>ev_ValueFrom := ev_ValueFrom override, ev_Value := ''''\<rparr> else merged)"

definition Envs :: "iter_order \<Rightarrow> env_var list \<Rightarrow> env_var list \<Rightarrow> env_var list" where
  "Envs it original override =
     sorted_values it ev_Name (merge_maps mergeSingleEnv (createEnvMap original) (createEnvMap override))"

definition ResourceRequirements ::
    "resource_requirements \<Rightarrow> resource_requirements \<Rightarrow> resource_requirements" where
  "ResourceRequirements original override = original\<lparr>
     rr_Limits := over None (rr_Limits original) (rr_Limits override),
     rr_Requests := over None (rr_Requests original) (rr_Requests override)\<rparr>"

definition ContainerPorts :: "container_port \<Rightarrow> container_port \<Rightarrow> container_port" where
  "ContainerPorts defaultPort overridePort = defaultPort\<lparr>
     cp_Name := over '''' (cp_Name defaultPort) (cp_Name overridePort),
     cp_ContainerPort := over 0 (cp_ContainerPort defaultPort) (cp_ContainerPort overridePort),
     cp_HostPort := over 0 (cp_HostPort defaultPort) (cp_HostPort overridePort),
     cp_Protocol := over '''' (cp_Protocol defaultPort) (cp_Protocol overridePort),
     cp_HostIP := over '''' (cp_HostIP defaultPort) (cp_HostIP overridePort)\<rparr>"

definition createContainerPortMap :: "container_port list \<Rightarrow> container_port gomap" where
  "createContainerPortMap containerPorts = map_by cp_Name containerPorts"

definition ContainerPortSlicesByName ::
    "iter_order \<Rightarrow> container_port list \<Rightarrow> container_port list \<Rightarrow> container_port list" where
  "ContainerPortSlicesByName it defaultPorts overridePorts =
     (let defaultPortMap = createContainerPortMap defaultPorts;
          overridePortsMap = createContainerPortMap overridePorts;
          merged = map (\<lambda>p. case map_of overridePortsMap (cp_Name p) of
                        Some ov \<Rightarrow> ContainerPorts p ov | None \<Rightarrow> p) (range_values it defaultPortMap);
          added = filter (\<lambda>p. \<not> has_key defaultPortMap (cp_Name p)) (range_values it overridePortsMap)
      in sort_key cp_Name (merged @ added))"

definition volumeMountToString :: "volume_mount \<Rightarrow> string" where
  "volumeMountToString v = join [vm_Name v, vm_MountPath v, vm_SubPath v] ''_''"

definition createVolumeMountMap :: "volume_mount list \<Rightarrow> volume_mount gomap" where
  "createVolumeMountMap mounts = map_by volumeMountToString mounts"

definition VolumeMount :: "volume_mount \<Rightarrow> volume_mount \<Rightarrow> volume_mount" where
  "VolumeMount original override = original\<lparr>
     vm_Name := over '''' (vm_Name original) (vm_Name override),
     vm_ReadOnly := over False (vm_ReadOnly original) (vm_ReadOnly override),
     vm_MountPath := over '''' (vm_MountPath original) (vm_MountPath override),
     vm_SubPath := over '''' (vm_SubPath original) (vm_SubPath override),
     vm_MountPropagation := over None (vm_MountPropagation original) (vm_MountPropagation override),
     vm_SubPathExpr := over '''' (vm_SubPathExpr original) (vm_SubPathExpr override)\<rparr>"

definition VolumeMounts :: "iter_order \<Rightarrow> volume_mount list \<Rightarrow> volume_mount list \<Rightarrow> volume_mount list" where
  "VolumeMounts it original override =
     sorted_values it volumeMountToString
       (merge_maps VolumeMount (createVolumeMountMap original) (createVolumeMountMap override))"

section \<open>Containers\<close>

definition Container :: "iter_order \<Rightarrow> container \<Rightarrow> container \<Rightarrow> container" where
  "Container it d ov = d\<lparr>
     c_Name := over '''' (c_Name d) (c_Name ov),
     c_Image := over '''' (c_Image d) (c_Image ov),
     c_Command := StringSlices (c_Command d) (c_Command ov),
     c_Args := StringSlices (c_Args d) (c_Args ov),
     c_WorkingDir := over '''' (c_WorkingDir d) (c_WorkingDir ov),
     c_Ports := ContainerPortSlicesByName it (c_Ports d) (c_Ports ov),
     c_Env := Envs it (c_Env d) (c_Env ov),
     c_Resources := ResourceRequirements (c_Resources d) (c_Resources ov),
     c_VolumeMounts := VolumeMounts it (c_VolumeMounts d) (c_VolumeMounts ov),
     c_VolumeDevices := VolumeDevices it (c_VolumeDevices d) (c_VolumeDevices ov),
     c_LivenessProbe := Probe (c_LivenessProbe d) (c_LivenessProbe ov),
     c_ReadinessProbe := Probe (c_ReadinessProbe d) (c_ReadinessProbe ov),
     c_StartupProbe := Probe (c_StartupProbe d) (c_StartupProbe ov),
     c_Lifecycle := LifeCycle (c_Lifecycle d) (c_Lifecycle ov),
     c_TerminationMessagePath := over '''' (c_TerminationMessagePath d) (c_TerminationMessagePath ov),
     c_TerminationMessagePolicy := over '''' (c_TerminationMessagePolicy d) (c_TerminationMessagePolicy ov),
     c_ImagePullPolicy := over '''' (c_ImagePullPolicy d) (c_ImagePullPolicy ov),
     c_SecurityContext := SecurityContext (c_SecurityContext d) (c_SecurityContext ov),
     c_Stdin := over False (c_Stdin d) (c_Stdin ov),
     c_StdinOnce := over False (c_StdinOnce d) (c_StdinOnce ov),
     c_TTY := over False (c_TTY d) (c_TTY ov)\<rparr>"

definition createContainerMap :: "container list \<Rightarrow> container gomap" where
  "createContainerMap containers = map_by c_Name containers"

definition Containers :: "iter_order \<Rightarrow> container list \<Rightarrow> container list \<Rightarrow> container list" where
  "Containers it defaultContainers overrideContainers =
     sorted_values it c_Name
       (merge_maps (Container it) (createContainerMap defaultContainers) (createContainerMap overrideContainers))"

text \<open>
  An ephemeral container is merged field by field exactly as a container, plus its target.
\<close>

definition EphemeralContainer :: "iter_order \<Rightarrow> ephemeral_container \<Rightarrow> ephemeral_container \<Rightarrow> ephemeral_container" where
  "EphemeralContainer it d ov = d\<lparr>
     ec_Common := Container it (ec_Common d) (ec_Common ov),
     ec_TargetContainerName := over '''' (ec_TargetContainerName d) (ec_TargetContainerName ov)\<rparr>"

abbreviation ec_Name :: "ephemeral_container \<Rightarrow> string" where
  "ec_Name c \<equiv> c_Name (ec_Common c)"

definition createEphemeralContainerMap :: "ephemeral_container list \<Rightarrow> ephemeral_container gomap" where
  "createEphemeralContainerMap containers = map_by ec_Name containers"

definition EphemeralContainers ::
    "iter_order \<Rightarrow> ephemeral_container list \<Rightarrow> ephemeral_container list \<Rightarrow> ephemeral_container list" where
  "EphemeralContainers it defaultContainers overrideContainers =
     sorted_values it ec_Name
       (merge_maps (EphemeralContainer it) (createEphemeralContainerMap defaultContainers)
          (createEphemeralContainerMap overrideContainers))"

section \<open>Tolerations and volumes\<close>

definition createTolerationsMap :: "toleration list \<Rightarrow> toleration gomap" where
  "createTolerationsMap tolerations = map_by tol_Key tolerations"

definition Tolerations :: "iter_order \<Rightarrow> toleration list \<Rightarrow> toleration list \<Rightarrow> toleration list" where
  "Tolerations it defaultTolerations overrideTolerations =
     sorted_values it tol_Key
       (foldl (\<lambda>m v. put (tol_Key v) v m) (createTolerationsMap defaultTolerations) overrideTolerations)"

definition createKeyToPathMap :: "key_to_path list \<Rightarrow> key_to_path gomap" where
  "createKeyToPathMap items = map_by ktp_Key items"

definition mergeKeyToPath :: "key_to_path \<Rightarrow> key_to_path \<Rightarrow> key_to_path" where
  "mergeKeyToPath defaultKey overrideKey =
     (if ktp_Key defaultKey \<noteq> ktp_Key overrideKey then defaultKey
      else defaultKey\<lparr>
        ktp_Path := over '''' (ktp_Path defaultKey) (ktp_Path overrideKey),
        ktp_Mode := over None (ktp_Mode defaultKey) (ktp_Mode overrideKey)\<rparr>)"

definition mergeKeyToPathItems :: "iter_order \<Rightarrow> key_to_path list \<Rightarrow> key_to_path list \<Rightarrow> key_to_path list" where
  "mergeKeyToPathItems it defaultItems overrideItems =
     (let defaultItemsMap = createKeyToPathMap defaultItems;
          overrideItemsMap = createKeyToPathMap overrideItems
      in map (\<lambda>i. case map_of overrideItemsMap (ktp_Key i) of
                Some ov \<Rightarrow> mergeKeyToPath i ov | None \<Rightarrow> i) (range_values it defaultItemsMap)
         @ filter (\<lambda>i. \<not> has_key defaultItemsMap (ktp_Key i)) (range_values it overrideItemsMap))"

text \<open>
  The source writes through the pointers it copied from the default volume; the value of
  the merged volume is the one below.
\<close>

definition Volume :: "iter_order \<Rightarrow> volume \<Rightarrow> volume \<Rightarrow> volume" where
  "Volume it defaultVolume overrideVolume =
     (let overrideSource = v_Source overrideVolume; defaultSource = v_Source defaultVolume
      in case (vs_EmptyDir overrideSource, vs_EmptyDir defaultSource) of
        (Some oe, Some de) \<Rightarrow> defaultVolume\<lparr>v_Source := defaultSource\<lparr>vs_EmptyDir := Some (de\<lparr>
            ed_Medium := over '''' (ed_Medium de) (ed_Medium oe),
            ed_SizeLimit := over None (ed_SizeLimit de) (ed_SizeLimit oe)\<rparr>)\<rparr>\<rparr>
      | _ \<Rightarrow> (case (vs_Secret overrideSource, vs_Secret defaultSource) of
        (Some os, Some ds) \<Rightarrow> defaultVolume\<lparr>v_Source := defaultSource\<lparr>vs_Secret := Some (ds\<lparr>
            ss_SecretName := over '''' (ss_SecretName ds) (ss_SecretName os),
            ss_Items := mergeKeyToPathItems it (ss_Items ds) (ss_Items os),
            ss_DefaultMode := over None (ss_DefaultMode ds) (ss_DefaultMode os)\<rparr>)\<rparr>\<rparr>
      | _ \<Rightarrow> (case (vs_ConfigMap overrideSource, vs_ConfigMap defaultSource) of
        (Some oc, Some dc) \<Rightarrow> defaultVolume\<lparr>v_Source := defaultSource\<lparr>vs_ConfigMap := Some (dc\<lparr>
            cs_Name := over '''' (cs_Name dc) (cs_Name oc),
            cs_Items := mergeKeyToPathItems it (cs_Items dc) (cs_Items oc),
            cs_DefaultMode := over None (cs_DefaultMode dc) (cs_DefaultMode oc),
            cs_Optional := over None (cs_Optional dc) (cs_Optional oc)\<rparr>)\<rparr>\<rparr>
      | _ \<Rightarrow> defaultVolume\<lparr>v_Source := overrideSource\<rparr>)))"

definition createVolumesMap :: "volume list \<Rightarrow> volume gomap" where
  "createVolumesMap volumes = map_by v_Name volumes"

definition Volumes :: "iter_order \<Rightarrow> volume list \<Rightarrow> volume list \<Rightarrow> volume list" where
  "Volumes it defaultVolumes overrideVolumes =
     (let defaultVolumesMap = createVolumesMap defaultVolumes;
          overrideVolumesMap = createVolumesMap overrideVolumes;
          merged = map (\<lambda>d. case map_of overrideVolumesMap (v_Name d) of
                        Some ov \<Rightarrow> Volume it d ov | None \<Rightarrow> d) defaultVolumes;
          added = filter (\<lambda>v. \<not> has_key defaultVolumesMap (v_Name v)) overrideVolumes
      in sort_key v_Name (merged @ added))"

definition Affinity :: "affinity option \<Rightarrow> affinity option \<Rightarrow> affinity option" where
  "Affinity defaultAffinity overrideAffinity =
     (case defaultAffinity of None \<Rightarrow> overrideAffinity
      | Some d \<Rightarrow> (case overrideAffinity of None \<Rightarrow> defaultAffinity
         | Some ov \<Rightarrow> Some (d\<lparr>
             aff_NodeAffinity := over None (aff_NodeAffinity d) (aff_NodeAffinity ov),
             aff_PodAffinity := over None (aff_PodAffinity d) (aff_PodAffinity ov),
             aff_PodAntiAffinity := over None (aff_PodAntiAffinity d) (aff_PodAntiAffinity ov)\<rparr>)))"

section \<open>Pod templates\<close>

definition createTopologySpreadConstraintMap ::
    "topology_spread_constraint list \<Rightarrow> topology_spread_constraint gomap" where
  "createTopologySpreadConstraintMap constraints = map_by tsc_TopologyKey constraints"

definition TopologySpreadConstraint ::
    "topology_spread_constraint \<Rightarrow> topology_spread_constraint \<Rightarrow> topology_spread_constraint" where
  "TopologySpreadConstraint original override = original\<lparr>
     tsc_LabelSelector := over None (tsc_LabelSelector original) (tsc_LabelSelector override),
     tsc_MaxSkew := over 0 (tsc_MaxSkew original) (tsc_MaxSkew override),
     tsc_WhenUnsatisfiable := over '''' (tsc_WhenUnsatisfiable original) (tsc_WhenUnsatisfiable override)\<rparr>"

text \<open>The only merge by key, besides the items of a volume, whose result is not sorted.\<close>

definition TopologySpreadConstraints :: "iter_order \<Rightarrow> topology_spread_constraint list
    \<Rightarrow> topology_spread_constraint list \<Rightarrow> topology_spread_constraint list" where
  "TopologySpreadConstraints it original override =
     range_values it (merge_maps TopologySpreadConstraint
       (createTopologySpreadConstraintMap original) (createTopologySpreadConstraintMap override))"

definition HostAliases :: "iter_order \<Rightarrow> host_alias list \<Rightarrow> host_alias list \<Rightarrow> host_alias list" where
  "HostAliases it originalAliases overrideAliases =
     sorted_values it ha_IP
       (foldl (\<lambda>m ov. case map_of m (ha_IP ov) of
            Some a \<Rightarrow> put (ha_IP ov) \<lparr>ha_IP = ha_IP ov,
              ha_Hostnames = append_missing (ha_Hostnames a) (ha_Hostnames ov)\<rparr> m
          | None \<Rightarrow> put (ha_IP ov) ov m)
        (map_by ha_IP originalAliases) overrideAliases)"

definition PodDNSConfig :: "pod_dns_config option \<Rightarrow> pod_dns_config option \<Rightarrow> pod_dns_config option" where
  "PodDNSConfig originalDNSConfig overrideDNSConfig =
     (case overrideDNSConfig of None \<Rightarrow> originalDNSConfig
      | Some ov \<Rightarrow> (case originalDNSConfig of None \<Rightarrow> overrideDNSConfig
         | Some d \<Rightarrow> Some (d\<lparr>
             dns_Options := over None (dns_Options d) (dns_Options ov),
             dns_Nameservers := (case dns_Nameservers ov of None \<Rightarrow> dns_Nameservers d
               | Some xs \<Rightarrow> Some (StringSlices (case dns_Nameservers d of None \<Rightarrow> [] | Some ns \<Rightarrow> ns) xs)),
             dns_Searches := (case dns_Searches ov of None \<Rightarrow> dns_Searches d
               | Some xs \<Rightarrow> Some (StringSlices (case dns_Searches d of None \<Rightarrow> [] | Some ns \<Rightarrow> ns) xs))\<rparr>)))"

definition PodTemplateSpecs :: "iter_order \<Rightarrow> pod_template_spec \<Rightarrow> pod_template_spec \<Rightarrow> pod_template_spec" where
  "PodTemplateSpecs it original override =
     (let d = pts_Spec original; ov = pts_Spec override
      in original\<lparr>
        pts_Meta := (pts_Meta original)\<lparr>
          om_Annotations := Some (StringToStringMap (entries (om_Annotations (pts_Meta original)))
            (entries (om_Annotations (pts_Meta override)))),
          om_Labels := Some (StringToStringMap (entries (om_Labels (pts_Meta original)))
            (entries (om_Labels (pts_Meta override))))\<rparr>,
        pts_Spec := d\<lparr>
          ps_Volumes := Volumes it (ps_Volumes d) (ps_Volumes ov),
          ps_Containers := Containers it (ps_Containers d) (ps_Containers ov),
          ps_InitContainers := Containers it (ps_InitContainers d) (ps_InitContainers ov),
          ps_EphemeralContainers := (case ps_EphemeralContainers ov of None \<Rightarrow> ps_EphemeralContainers d
            | Some ecs \<Rightarrow> Some (EphemeralContainers it
                (case ps_EphemeralContainers d of None \<Rightarrow> [] | Some ds \<Rightarrow> ds) ecs)),
          ps_RestartPolicy := over '''' (ps_RestartPolicy d) (ps_RestartPolicy ov),
          ps_TerminationGracePeriodSeconds :=
            over None (ps_TerminationGracePeriodSeconds d) (ps_TerminationGracePeriodSeconds ov),
          ps_ActiveDeadlineSeconds := over None (ps_ActiveDeadlineSeconds d) (ps_ActiveDeadlineSeconds ov),
          ps_DNSPolicy := over '''' (ps_DNSPolicy d) (ps_DNSPolicy ov),
          ps_NodeSelector := (case ps_NodeSelector ov of None \<Rightarrow> ps_NodeSelector d
            | Some m \<Rightarrow> Some (StringToStringMap (entries (ps_NodeSelector d)) m)),
          ps_ServiceAccountName := over '''' (ps_ServiceAccountName d) (ps_ServiceAccountName ov),
          ps_DeprecatedServiceAccount := over '''' (ps_DeprecatedServiceAccount d) (ps_DeprecatedServiceAccount ov),
          ps_AutomountServiceAccountToken :=
            over None (ps_AutomountServiceAccountToken d) (ps_AutomountServiceAccountToken ov),
          ps_NodeName := over '''' (ps_NodeName d) (ps_NodeName ov),
          ps_HostNetwork := over False (ps_HostNetwork d) (ps_HostNetwork ov),
          ps_HostPID := over False (ps_HostPID d) (ps_HostPID ov),
          ps_ShareProcessNamespace := over None (ps_ShareProcessNamespace d) (ps_ShareProcessNamespace ov),
          ps_SecurityContext := over None (ps_SecurityContext d) (ps_SecurityContext ov),
          ps_ImagePullSecrets := over None (ps_ImagePullSecrets d) (ps_ImagePullSecrets ov),
          ps_Hostname := over '''' (ps_Hostname d) (ps_Hostname ov),
          ps_Subdomain := over '''' (ps_Subdomain d) (ps_Subdomain ov),
          ps_Affinity := (if ps_Affinity ov \<noteq> None then Affinity (ps_Affinity d) (ps_Affinity ov) else ps_Affinity d),
          ps_SchedulerName := over '''' (ps_SchedulerName d) (ps_SchedulerName ov),
          ps_Tolerations := Tolerations it (ps_Tolerations d) (ps_Tolerations ov),
          ps_HostAliases := HostAliases it (ps_HostAliases d) (ps_HostAliases ov),
          ps_PriorityClassName := over '''' (ps_PriorityClassName d) (ps_PriorityClassName ov),
          ps_Priority := over None (ps_Priority d) (ps_Priority ov),
          ps_DNSConfig := (if ps_DNSConfig ov \<noteq> None then PodDNSConfig (ps_DNSConfig d) (ps_DNSConfig ov) else ps_DNSConfig d),
          ps_ReadinessGates := over None (ps_ReadinessGates d) (ps_ReadinessGates ov),
          ps_RuntimeClassName := over None (ps_RuntimeClassName d) (ps_RuntimeClassName ov),
          ps_EnableServiceLinks := over None (ps_EnableServiceLinks d) (ps_EnableServiceLinks ov),
          ps_PreemptionPolicy := over None (ps_PreemptionPolicy d) (ps_PreemptionPolicy ov),
          ps_Overhead := over None (ps_Overhead d) (ps_Overhead ov),
          ps_TopologySpreadConstraints := (case ps_TopologySpreadConstraints ov of
              None \<Rightarrow> ps_TopologySpreadConstraints d
            | Some cs \<Rightarrow> Some (TopologySpreadConstraints it
                (case ps_TopologySpreadConstraints d of None \<Rightarrow> [] | Some ds \<Rightarrow> ds) cs))\<rparr>\<rparr>)"

section \<open>Stateful sets\<close>

fun LabelSelectorRequirementByKey ::
    "label_selector_requirement list \<Rightarrow> string \<Rightarrow> label_selector_requirement option" where
  "LabelSelectorRequirementByKey [] key = None"
| "LabelSelectorRequirementByKey (lsr # rest) key =
     (if lsr_Key lsr = key then Some lsr else LabelSelectorRequirementByKey rest key)"

definition LabelSelectorRequirements :: "label_selector_requirement list
    \<Rightarrow> label_selector_requirement list \<Rightarrow> label_selector_requirement list" where
  "LabelSelectorRequirements original override =
     (let mergeOne = (\<lambda>originalLsr.
            let mergedLsr = (case LabelSelectorRequirementByKey override (lsr_Key originalLsr) of
                  None \<Rightarrow> originalLsr
                | Some overrideLsr \<Rightarrow> originalLsr\<lparr>
                    lsr_Operator := over '''' (lsr_Operator originalLsr) (lsr_Operator overrideLsr),
                    lsr_Values := (case lsr_Values overrideLsr of None \<Rightarrow> lsr_Values originalLsr
                      | Some vs \<Rightarrow> Some (StringSlices
                          (case lsr_Values originalLsr of None \<Rightarrow> [] | Some ws \<Rightarrow> ws) vs))\<rparr>)
            in mergedLsr\<lparr>lsr_Values := map_option sort (lsr_Values mergedLsr)\<rparr>);
          added = map (\<lambda>ov. ov\<lparr>lsr_Values := map_option sort (lsr_Values ov)\<rparr>)
            (filter (\<lambda>ov. LabelSelectorRequirementByKey original (lsr_Key ov) = None) override)
      in sort_key lsr_Key (map mergeOne original @ added))"

definition LabelSelectors :: "label_selector option \<Rightarrow> label_selector option \<Rightarrow> label_selector option" where
  "LabelSelectors originalLabelSelector overrideLabelSelector =
     (case overrideLabelSelector of None \<Rightarrow> originalLabelSelector
      | Some ov \<Rightarrow> (case originalLabelSelector of None \<Rightarrow> originalLabelSelector
         | Some orig \<Rightarrow> Some \<lparr>
             ls_MatchLabels = Some (StringToStringMap (entries (ls_MatchLabels orig)) (entries (ls_MatchLabels ov))),
             ls_MatchExpressions = LabelSelectorRequirements (ls_MatchExpressions orig) (ls_MatchExpressions ov)\<rparr>))"

abbreviation pvc_Name :: "persistent_volume_claim \<Rightarrow> string" where
  "pvc_Name p \<equiv> om_Name (pvc_Meta p)"

definition createVolumeClaimMap :: "persistent_volume_claim list \<Rightarrow> persistent_volume_claim gomap" where
  "createVolumeClaimMap claims = map_by pvc_Name claims"

definition PersistentVolumeClaim ::
    "persistent_volume_claim \<Rightarrow> persistent_volume_claim \<Rightarrow> persistent_volume_claim" where
  "PersistentVolumeClaim d ov = d\<lparr>
     pvc_Meta := (pvc_Meta d)\<lparr>om_Namespace := over '''' (om_Namespace (pvc_Meta d)) (om_Namespace (pvc_Meta ov))\<rparr>,
     pvc_VolumeMode := over None (pvc_VolumeMode d) (pvc_VolumeMode ov),
     pvc_StorageClassName := over None (pvc_StorageClassName d) (pvc_StorageClassName ov),
     pvc_AccessModes := foldl (\<lambda>acc m. if \<not> contains_AccessMode acc m then acc @ [m] else acc)
       (pvc_AccessModes d) (pvc_AccessModes ov),
     pvc_Selector := over None (pvc_Selector d) (pvc_Selector ov),
     pvc_Resources := (pvc_Resources d)\<lparr>
       rr_Limits := over None (rr_Limits (pvc_Resources d)) (rr_Limits (pvc_Resources ov)),
       rr_Requests := over None (rr_Requests (pvc_Resources d)) (rr_Requests (pvc_Resources ov))\<rparr>,
     pvc_DataSource := over None (pvc_DataSource d) (pvc_DataSource ov)\<rparr>"

text \<open>
  Both maps are keyed by the claim's name, so reading \<open>overrideClaim.Name\<close> is reading the key.
\<close>

definition VolumeClaimTemplates :: "iter_order \<Rightarrow> persistent_volume_claim list
    \<Rightarrow> persistent_volume_claim list \<Rightarrow> persistent_volume_claim list" where
  "VolumeClaimTemplates it defaultTemplates overrideTemplates =
     sorted_values it pvc_Name
       (merge_maps PersistentVolumeClaim (createVolumeClaimMap defaultTemplates)
          (createVolumeClaimMap overrideTemplates))"

definition StatefulSetSpecs :: "iter_order \<Rightarrow> statefulset_spec \<Rightarrow> statefulset_spec \<Rightarrow> statefulset_spec" where
  "StatefulSetSpecs it d ov = d\<lparr>
     sts_Replicas := over None (sts_Replicas d) (sts_Replicas ov),
     sts_Selector := LabelSelectors (sts_Selector d) (sts_Selector ov),
     sts_PodManagementPolicy := over '''' (sts_PodManagementPolicy d) (sts_PodManagementPolicy ov),
     sts_RevisionHistoryLimit := over None (sts_RevisionHistoryLimit d) (sts_RevisionHistoryLimit ov),
     sts_UpdateStrategy := (sts_UpdateStrategy d)\<lparr>
       us_Type := over '''' (us_Type (sts_UpdateStrategy d)) (us_Type (sts_UpdateStrategy ov)),
       us_RollingUpdate := over None (us_RollingUpdate (sts_UpdateStrategy d)) (us_RollingUpdate (sts_UpdateStrategy ov))\<rparr>,
     sts_ServiceName := over '''' (sts_ServiceName d) (sts_ServiceName ov),
     sts_Template := PodTemplateSpecs it (sts_Template d) (sts_Template ov),
     sts_VolumeClaimTemplates :=
       VolumeClaimTemplates it (sts_VolumeClaimTemplates d) (sts_VolumeClaimTemplates ov)\<rparr>"

definition StatefulSets :: "iter_order \<Rightarrow> statefulset \<Rightarrow> statefulset \<Rightarrow> statefulset" where
  "StatefulSets it d ov = d\<lparr>
     sts_Meta := (sts_Meta d)\<lparr>
       om_Labels := Some (StringToStringMap (entries (om_Labels (sts_Meta d))) (entries (om_Labels (sts_Meta ov)))),
       om_Namespace := over '''' (om_Namespace (sts_Meta d)) (om_Namespace (sts_Meta ov)),
       om_Name := over '''' (om_Name (sts_Meta d)) (om_Name (sts_Meta ov))\<rparr>,
     sts_Spec := StatefulSetSpecs it (sts_Spec d) (sts_Spec ov)\<rparr>"

section \<open>Element merges keep their key\<close>

lemma mergeVolumeDevice_key: "vd_Name a = vd_Name b \<Longrightarrow> vd_Name (mergeVolumeDevice a b) = vd_Name b"
  by (simp add: mergeVolumeDevice_def over_def)

lemma mergeSingleEnv_key [simp]: "ev_Name (mergeSingleEnv a b) = ev_Name a"
  by (simp add: mergeSingleEnv_def Let_def)

lemma ContainerPorts_key: "cp_Name a = cp_Name b \<Longrightarrow> cp_Name (ContainerPorts a b) = cp_Name b"
  by (simp add: ContainerPorts_def over_def)

lemma Container_key: "c_Name a = c_Name b \<Longrightarrow> c_Name (Container it a b) = c_Name b"
  by (simp add: Container_def over_def)

lemma EphemeralContainer_key: "ec_Name a = ec_Name b \<Longrightarrow> ec_Name (EphemeralContainer it a b) = ec_Name b"
  by (simp add: EphemeralContainer_def Container_key)

lemma PersistentVolumeClaim_key [simp]: "pvc_Name (PersistentVolumeClaim a b) = pvc_Name a"
  by (simp add: PersistentVolumeClaim_def)

lemma Volume_key [simp]: "v_Name (Volume it a b) = v_Name a"
  by (simp add: Volume_def Let_def split: option.split prod.split)

text \<open>
  A volume mount is keyed by its name, path and sub-path joined with underscores. The
  merge keeps that key when name and path have no underscore, which makes the key readable
  back; otherwise two different mounts can share a key.
\<close>

definition plain_mount :: "volume_mount \<Rightarrow> bool" where
  "plain_mount v = (CHR ''_'' \<notin> set (vm_Name v) \<and> CHR ''_'' \<notin> set (vm_MountPath v))"

lemma volumeMountToString_inject:
  assumes "plain_mount a" and "plain_mount b" and "volumeMountToString a = volumeMountToString b"
  shows "vm_Name a = vm_Name b \<and> vm_MountPath a = vm_MountPath b \<and> vm_SubPath a = vm_SubPath b"
  using assms by (auto simp: plain_mount_def volumeMountToString_def split_at_inject)

lemma VolumeMount_key:
  assumes "plain_mount a" and "plain_mount b" and "volumeMountToString a = volumeMountToString b"
  shows "volumeMountToString (VolumeMount a b) = volumeMountToString b"
  using volumeMountToString_inject [OF assms]
  by (simp add: volumeMountToString_def VolumeMount_def over_def)

interpretation devices: keyed_merge vd_Name mergeVolumeDevice "\<lambda>_. True"
  by unfold_locales (simp add: mergeVolumeDevice_key)

interpretation envs: keyed_merge ev_Name mergeSingleEnv "\<lambda>_. True"
  by unfold_locales simp

interpretation ports: keyed_merge cp_Name ContainerPorts "\<lambda>_. True"
  by unfold_locales (simp add: ContainerPorts_key)

interpretation mounts: keyed_merge volumeMountToString VolumeMount plain_mount
  by unfold_locales (rule VolumeMount_key)

interpretation containers: keyed_merge c_Name "Container it" "\<lambda>_. True" for it
  by unfold_locales (simp add: Container_key)

interpretation ephemerals: keyed_merge ec_Name "EphemeralContainer it" "\<lambda>_. True" for it
  by unfold_locales (simp add: EphemeralContainer_key)

interpretation claims: keyed_merge pvc_Name PersistentVolumeClaim "\<lambda>_. True"
  by unfold_locales simp

interpretation volumes: keyed_merge v_Name "Volume it" "\<lambda>_. True" for it
  by unfold_locales simp

lemma VolumeDevices_eq: "VolumeDevices it xs ys = merge_slices it vd_Name mergeVolumeDevice xs ys"
  by (simp add: VolumeDevices_def createVolumeDevicesMap_def merge_slices_def)

lemma Envs_eq: "Envs it xs ys = merge_slices it ev_Name mergeSingleEnv xs ys"
  by (simp add: Envs_def createEnvMap_def merge_slices_def)

lemma VolumeMounts_eq: "VolumeMounts it xs ys = merge_slices it volumeMountToString VolumeMount xs ys"
  by (simp add: VolumeMounts_def createVolumeMountMap_def merge_slices_def)

lemma Containers_eq: "Containers it xs ys = merge_slices it c_Name (Container it) xs ys"
  by (simp add: Containers_def createContainerMap_def merge_slices_def)

lemma EphemeralContainers_eq:
  "EphemeralContainers it xs ys = merge_slices it ec_Name (EphemeralContainer it) xs ys"
  by (simp add: EphemeralContainers_def createEphemeralContainerMap_def merge_slices_def)

lemma VolumeClaimTemplates_eq:
  "VolumeClaimTemplates it xs ys = merge_slices it pvc_Name PersistentVolumeClaim xs ys"
  by (simp add: VolumeClaimTemplates_def createVolumeClaimMap_def merge_slices_def)

lemmas merges_by_key = VolumeDevices_eq Envs_eq VolumeMounts_eq Containers_eq EphemeralContainers_eq
  VolumeClaimTemplates_eq

section \<open>Merging by appending\<close>

text \<open>Container ports and volumes are merged by the other loop; it gives the same slice.\<close>

lemma find_range_values:
  assumes sk: "self_keyed key m" and it: "valid_order it"
  shows "find (\<lambda>v. key v = k) (range_values it m) = map_of m k"
    and "distinct (map key (range_values it m))"
proof -
  have d: "distinct (map key (range_values it m))"
    using distinct_sorted_values [OF sk it] unfolding sorted_values_def by (simp only: distinct_sort_key)
  then show "find (\<lambda>v. key v = k) (range_values it m) = map_of m k"
    using find_sorted_values [OF sk it, of k] unfolding sorted_values_def by (simp only: find_sort_key)
  show "distinct (map key (range_values it m))" by (rule d)
qed

lemma merged_at_range_values:
  assumes it: "valid_order it"
  shows "merged_at key f (range_values it (map_by key xs)) (range_values it (map_by key ys)) k
    = merged_at key f xs ys k"
proof -
  note r = find_range_values [OF self_keyed_map_by it]
  show ?thesis
    unfolding merged_at_def find_rev_distinct [OF r(2)] r(1) map_of_map_by ..
qed

text \<open>The loop over two maps that collects the merged values and then those that are only in the second.\<close>

definition append_ranges :: "iter_order \<Rightarrow> ('v \<Rightarrow> string) \<Rightarrow> ('v \<Rightarrow> 'v \<Rightarrow> 'v) \<Rightarrow> 'v list \<Rightarrow> 'v list \<Rightarrow> 'v list" where
  "append_ranges it key f xs ys =
     map (\<lambda>p. case map_of (map_by key ys) (key p) of Some ov \<Rightarrow> f p ov | None \<Rightarrow> p) (range_values it (map_by key xs))
     @ filter (\<lambda>p. \<not> has_key (map_by key xs) (key p)) (range_values it (map_by key ys))"

lemma append_ranges_eq:
  assumes it: "valid_order it"
  shows "append_ranges it key f xs ys = merge_append key f (range_values it (map_by key xs)) (range_values it (map_by key ys))"
proof -
  note r = find_range_values(1) [OF self_keyed_map_by it]
  have hk: "has_key (map_by key xs) k \<longleftrightarrow> k \<in> key ` set (range_values it (map_by key xs))" for k
    using find_None_key [of key k "range_values it (map_by key xs)"] unfolding r has_key_def by simp
  show ?thesis by (simp add: append_ranges_def merge_append_def merge_elem_def [abs_def] r hk)
qed

context keyed_merge
begin

lemma append_ranges_merge_slices:
  assumes ok: "\<And>v. ok v" and it: "valid_order it"
  shows "sort_key key (append_ranges it key f xs ys) = merge_slices it key f xs ys"
proof -
  let ?xs = "range_values it (map_by key xs)" and ?ys = "range_values it (map_by key ys)"
  note d = find_range_values(2) [OF self_keyed_map_by it]
  have all: "\<forall>v \<in> set as \<union> set bs. ok v" for as bs using ok by blast
  have "sort_key key (append_ranges it key f xs ys) = merge_slices it key f ?xs ?ys"
    unfolding append_ranges_eq [OF it] by (rule merge_append_eq_merge_slices [OF ok it d d])
  also have "\<dots> = merge_slices it key f xs ys"
    by (rule keyed_list_eqI [where key = key])
      (simp_all add: lookup_merged [OF all it] sorted_keys distinct_keys [OF all it] merged_at_range_values [OF it])
  finally show ?thesis .
qed

end

interpretation items: keyed_merge ktp_Key mergeKeyToPath "\<lambda>_. True"
  by unfold_locales (simp add: mergeKeyToPath_def)

lemma ContainerPortSlicesByName_eq:
  assumes it: "valid_order it"
  shows "ContainerPortSlicesByName it xs ys = merge_slices it cp_Name ContainerPorts xs ys"
  using ports.append_ranges_merge_slices [OF TrueI it, of xs ys]
  by (simp add: append_ranges_def ContainerPortSlicesByName_def createContainerPortMap_def Let_def)

lemma mergeKeyToPathItems_eq:
  "valid_order it \<Longrightarrow> sort_key ktp_Key (mergeKeyToPathItems it xs ys) = merge_slices it ktp_Key mergeKeyToPath xs ys"
  using items.append_ranges_merge_slices [OF TrueI, of it xs ys]
  by (simp add: append_ranges_def mergeKeyToPathItems_def createKeyToPathMap_def Let_def)

lemma TopologySpreadConstraints_eq:
  "sort_key tsc_TopologyKey (TopologySpreadConstraints it xs ys) = merge_slices it tsc_TopologyKey TopologySpreadConstraint xs ys"
  by (simp add: TopologySpreadConstraints_def createTopologySpreadConstraintMap_def merge_slices_def sorted_values_def)

interpretation constraints: keyed_merge tsc_TopologyKey TopologySpreadConstraint "\<lambda>_. True"
  by unfold_locales (simp add: TopologySpreadConstraint_def)

lemma Volumes_eq:
  assumes it: "valid_order it" and d: "distinct (map v_Name xs)" "distinct (map v_Name ys)"
  shows "Volumes it xs ys = merge_slices it v_Name (Volume it) xs ys"
proof -
  have f: "map_of (map_by v_Name ys) k = find (\<lambda>v. v_Name v = k) ys" for k
    unfolding map_of_map_by by (rule find_rev_distinct [OF d(2)])
  have "Volumes it xs ys = sort_key v_Name (merge_append v_Name (Volume it) xs ys)"
    by (simp add: Volumes_def createVolumesMap_def Let_def merge_append_def merge_elem_def [abs_def] f
        has_key_iff)
  also have "\<dots> = merge_slices it v_Name (Volume it) xs ys"
    by (rule volumes.merge_append_eq_merge_slices [OF TrueI it d])
  finally show ?thesis .
qed

section \<open>The order of map iteration\<close>

text \<open>
  How far the merge depends on the order in which Go visits its maps: the mounts have keys that can
  be read back, and two merges are not sorted, the items of a volume and the topology spread
  constraints.
\<close>

definition plain_container :: "container \<Rightarrow> bool" where
  "plain_container c = list_all plain_mount (c_VolumeMounts c)"

definition plain_volume :: "volume \<Rightarrow> bool" where
  "plain_volume v =
     ((case vs_Secret (v_Source v) of None \<Rightarrow> True | Some s \<Rightarrow> ss_Items s = [])
      \<and> (case vs_ConfigMap (v_Source v) of None \<Rightarrow> True | Some s \<Rightarrow> cs_Items s = []))"

lemma Container_order_independent:
  assumes it: "valid_order it" "valid_order it'" and p: "plain_container d" "plain_container ov"
  shows "Container it d ov = Container it' d ov"
proof -
  have "VolumeMounts it (c_VolumeMounts d) (c_VolumeMounts ov) =
      VolumeMounts it' (c_VolumeMounts d) (c_VolumeMounts ov)"
    unfolding VolumeMounts_eq
    by (rule mounts.order_independent [OF _ it]) (use p in \<open>auto simp: plain_container_def list_all_iff\<close>)
  moreover have "Envs it (c_Env d) (c_Env ov) = Envs it' (c_Env d) (c_Env ov)"
    unfolding Envs_eq by (rule envs.order_independent [OF _ it]) simp
  moreover have "VolumeDevices it (c_VolumeDevices d) (c_VolumeDevices ov) =
      VolumeDevices it' (c_VolumeDevices d) (c_VolumeDevices ov)"
    unfolding VolumeDevices_eq by (rule devices.order_independent [OF _ it]) simp
  moreover have "ContainerPortSlicesByName it (c_Ports d) (c_Ports ov) =
      ContainerPortSlicesByName it' (c_Ports d) (c_Ports ov)"
    unfolding ContainerPortSlicesByName_eq [OF it(1)] ContainerPortSlicesByName_eq [OF it(2)]
    by (rule ports.order_independent [OF _ it]) simp
  ultimately show ?thesis by (simp only: Container_def)
qed

lemma merged_at_cong:
  assumes "\<And>a b. a \<in> set xs \<Longrightarrow> b \<in> set ys \<Longrightarrow> f a b = g a b"
  shows "merged_at key f xs ys k = merged_at key g xs ys k"
proof -
  have "v \<in> set zs" if "find (\<lambda>v. key v = k) (rev zs) = Some v" for v zs
    using find_Some_key [OF that] by simp
  then show ?thesis by (simp add: merged_at_def assms split: option.split)
qed

lemma Containers_order_independent:
  assumes it: "valid_order it" "valid_order it'"
    and p: "list_all plain_container xs" "list_all plain_container ys"
  shows "Containers it xs ys = Containers it' xs ys"
proof -
  have "Container it a b = Container it' a b" if "a \<in> set xs" "b \<in> set ys" for a b
    by (rule Container_order_independent [OF it]) (use p that in \<open>simp_all add: list_all_iff\<close>)
  then have "merged_at c_Name (Container it) xs ys k = merged_at c_Name (Container it') xs ys k" for k
    by (rule merged_at_cong)
  then show ?thesis
    unfolding Containers_eq
    by (intro keyed_list_eqI [where key = c_Name])
      (simp_all add: containers.sorted_keys containers.distinct_keys containers.lookup_merged it)
qed

lemma EphemeralContainers_order_independent:
  assumes it: "valid_order it" "valid_order it'"
    and p: "list_all (\<lambda>c. plain_container (ec_Common c)) xs" "list_all (\<lambda>c. plain_container (ec_Common c)) ys"
  shows "EphemeralContainers it xs ys = EphemeralContainers it' xs ys"
proof -
  have "EphemeralContainer it a b = EphemeralContainer it' a b" if "a \<in> set xs" "b \<in> set ys" for a b
    unfolding EphemeralContainer_def
    by (subst Container_order_independent [OF it]) (use p that in \<open>simp_all add: list_all_iff\<close>)
  then have "merged_at ec_Name (EphemeralContainer it) xs ys k = merged_at ec_Name (EphemeralContainer it') xs ys k" for k
    by (rule merged_at_cong)
  then show ?thesis
    unfolding EphemeralContainers_eq
    by (intro keyed_list_eqI [where key = ec_Name])
      (simp_all add: ephemerals.sorted_keys ephemerals.distinct_keys ephemerals.lookup_merged it)
qed

lemma mergeKeyToPathItems_Nil: "valid_order it \<Longrightarrow> mergeKeyToPathItems it [] [] = []"
  by (simp add: mergeKeyToPathItems_def createKeyToPathMap_def map_by_def range_values_def valid_order_def
      List.map_filter_def)

lemma Volume_order_independent:
  assumes it: "valid_order it" "valid_order it'" and p: "plain_volume d" "plain_volume ov"
  shows "Volume it d ov = Volume it' d ov"
  using p by (simp add: Volume_def Let_def plain_volume_def mergeKeyToPathItems_Nil it split: option.splits)

lemma Volumes_order_independent:
  assumes it: "valid_order it" "valid_order it'"
    and p: "list_all plain_volume xs" "list_all plain_volume ys"
  shows "Volumes it xs ys = Volumes it' xs ys"
proof -
  have "Volume it d ov = Volume it' d ov" if "d \<in> set xs" "map_of (createVolumesMap ys) k = Some ov" for d ov k
  proof (rule Volume_order_independent [OF it])
    show "plain_volume d" using p that by (simp add: list_all_iff)
    have "find (\<lambda>v. v_Name v = k) (rev ys) = Some ov"
      using that(2) by (simp add: createVolumesMap_def map_of_map_by)
    from find_Some_key [OF this] p show "plain_volume ov" by (simp add: list_all_iff)
  qed
  then have "map (\<lambda>d. case map_of (createVolumesMap ys) (v_Name d) of Some ov \<Rightarrow> Volume it d ov | None \<Rightarrow> d) xs =
      map (\<lambda>d. case map_of (createVolumesMap ys) (v_Name d) of Some ov \<Rightarrow> Volume it' d ov | None \<Rightarrow> d) xs"
    by (intro map_cong refl) (simp split: option.split)
  then show ?thesis by (simp only: Volumes_def Let_def)
qed

lemma Tolerations_order_independent:
  "valid_order it \<Longrightarrow> valid_order it' \<Longrightarrow> Tolerations it xs ys = Tolerations it' xs ys"
  unfolding Tolerations_def createTolerationsMap_def map_by_def foldl_append [symmetric]
  unfolding map_by_def [symmetric]
  by (rule sorted_values_order_independent [OF self_keyed_map_by])

lemma self_keyed_put: "self_keyed key m \<Longrightarrow> key v = k \<Longrightarrow> self_keyed key (put k v m)"
  by (rule self_keyedI) (auto simp: self_keyed_def wf_map_put dest: map_of_SomeD split: if_splits)

lemma HostAliases_order_independent:
  assumes it: "valid_order it" "valid_order it'"
  shows "HostAliases it xs ys = HostAliases it' xs ys"
proof -
  have "self_keyed ha_IP m \<Longrightarrow> self_keyed ha_IP (foldl (\<lambda>m ov. case map_of m (ha_IP ov) of
            Some a \<Rightarrow> put (ha_IP ov) \<lparr>ha_IP = ha_IP ov,
              ha_Hostnames = append_missing (ha_Hostnames a) (ha_Hostnames ov)\<rparr> m
          | None \<Rightarrow> put (ha_IP ov) ov m) m ys)" for m
    by (induction ys arbitrary: m) (auto simp: self_keyed_put split: option.splits)
  from this [OF self_keyed_map_by] show ?thesis
    unfolding HostAliases_def by (rule sorted_values_order_independent [OF _ it])
qed

text \<open>
  What a specification says when the order of the two unsorted merges does not count: the items of
  its volumes and its topology spread constraints in the order of their keys.
\<close>

definition volume_in_key_order :: "volume \<Rightarrow> volume" where
  "volume_in_key_order v = v\<lparr>v_Source := (v_Source v)\<lparr>
     vs_Secret := map_option (\<lambda>s. s\<lparr>ss_Items := sort_key ktp_Key (ss_Items s)\<rparr>) (vs_Secret (v_Source v)),
     vs_ConfigMap := map_option (\<lambda>s. s\<lparr>cs_Items := sort_key ktp_Key (cs_Items s)\<rparr>) (vs_ConfigMap (v_Source v))\<rparr>\<rparr>"

definition template_in_key_order :: "pod_template_spec \<Rightarrow> pod_template_spec" where
  "template_in_key_order t = t\<lparr>pts_Spec := (pts_Spec t)\<lparr>
     ps_Volumes := map volume_in_key_order (ps_Volumes (pts_Spec t)),
     ps_TopologySpreadConstraints := map_option (sort_key tsc_TopologyKey) (ps_TopologySpreadConstraints (pts_Spec t))\<rparr>\<rparr>"

definition in_key_order :: "statefulset_spec \<Rightarrow> statefulset_spec" where
  "in_key_order s = s\<lparr>sts_Template := template_in_key_order (sts_Template s)\<rparr>"

text \<open>The mounts have keys that can be read back, and the two merges that are not sorted are not used.\<close>

definition readable_template :: "pod_template_spec \<Rightarrow> bool" where
  "readable_template t =
     (let s = pts_Spec t
      in list_all plain_container (ps_Containers s) \<and> list_all plain_container (ps_InitContainers s)
         \<and> list_all (\<lambda>c. plain_container (ec_Common c))
             (case ps_EphemeralContainers s of None \<Rightarrow> [] | Some cs \<Rightarrow> cs))"

definition all_sorted :: "pod_template_spec \<Rightarrow> bool" where
  "all_sorted t = (list_all plain_volume (ps_Volumes (pts_Spec t)) \<and> ps_TopologySpreadConstraints (pts_Spec t) = None)"

lemma items_order:
  "valid_order it \<Longrightarrow> valid_order it' \<Longrightarrow>
     sort_key ktp_Key (mergeKeyToPathItems it xs ys) = sort_key ktp_Key (mergeKeyToPathItems it' xs ys)"
  unfolding mergeKeyToPathItems_eq by (rule items.order_independent) simp_all

lemma Volume_key_order:
  assumes "valid_order it" "valid_order it'"
  shows "volume_in_key_order (Volume it d ov) = volume_in_key_order (Volume it' d ov)"
  by (simp add: volume_in_key_order_def Volume_def Let_def items_order [OF assms] split: option.split)

lemma map_sort_key:
  assumes "\<And>x. key (g x) = key x"
  shows "map g (sort_key key xs) = sort_key key (map g xs)"
proof -
  have "map g (insort_key key x xs) = insort_key key (g x) (map g xs)" for x xs
    by (induction xs) (simp_all add: assms)
  then show ?thesis by (induction xs) simp_all
qed

lemma Volumes_key_order:
  assumes it: "valid_order it" "valid_order it'"
  shows "map volume_in_key_order (Volumes it xs ys) = map volume_in_key_order (Volumes it' xs ys)"
proof -
  have sort: "map volume_in_key_order (sort_key v_Name vs) = sort_key v_Name (map volume_in_key_order vs)" for vs
    by (rule map_sort_key) (simp add: volume_in_key_order_def)
  let ?m = "\<lambda>it d. case map_of (createVolumesMap ys) (v_Name d) of Some ov \<Rightarrow> Volume it d ov | None \<Rightarrow> d"
  have "volume_in_key_order (?m it d) = volume_in_key_order (?m it' d)" for d
    by (simp add: Volume_key_order [OF it] split: option.split)
  then show ?thesis by (simp add: Volumes_def Let_def sort comp_def)
qed

lemma template_order:
  assumes it: "valid_order it" "valid_order it'" and p: "readable_template d" "readable_template ov"
  shows "template_in_key_order (PodTemplateSpecs it d ov) = template_in_key_order (PodTemplateSpecs it' d ov)"
    and "all_sorted d \<Longrightarrow> all_sorted ov \<Longrightarrow> PodTemplateSpecs it d ov = PodTemplateSpecs it' d ov"
proof -
  have pd: "list_all plain_container (ps_Containers (pts_Spec d))" "list_all plain_container (ps_InitContainers (pts_Spec d))"
    "list_all (\<lambda>c. plain_container (ec_Common c)) (case ps_EphemeralContainers (pts_Spec d) of None \<Rightarrow> [] | Some cs \<Rightarrow> cs)"
    using p(1) by (simp_all add: readable_template_def Let_def)
  have po: "list_all plain_container (ps_Containers (pts_Spec ov))" "list_all plain_container (ps_InitContainers (pts_Spec ov))"
    "list_all (\<lambda>c. plain_container (ec_Common c)) (case ps_EphemeralContainers (pts_Spec ov) of None \<Rightarrow> [] | Some cs \<Rightarrow> cs)"
    using p(2) by (simp_all add: readable_template_def Let_def)
  have e: "(case ps_EphemeralContainers (pts_Spec ov) of None \<Rightarrow> ps_EphemeralContainers (pts_Spec d)
        | Some ecs \<Rightarrow> Some (EphemeralContainers it
            (case ps_EphemeralContainers (pts_Spec d) of None \<Rightarrow> [] | Some ds \<Rightarrow> ds) ecs)) =
      (case ps_EphemeralContainers (pts_Spec ov) of None \<Rightarrow> ps_EphemeralContainers (pts_Spec d)
        | Some ecs \<Rightarrow> Some (EphemeralContainers it'
            (case ps_EphemeralContainers (pts_Spec d) of None \<Rightarrow> [] | Some ds \<Rightarrow> ds) ecs))"
    using EphemeralContainers_order_independent [OF it pd(3) po(3)] by (cases "ps_EphemeralContainers (pts_Spec ov)") simp_all
  note same = Containers_order_independent [OF it pd(1) po(1)] Containers_order_independent [OF it pd(2) po(2)]
    Tolerations_order_independent [OF it] HostAliases_order_independent [OF it]
  have tsc: "sort_key tsc_TopologyKey (TopologySpreadConstraints it xs ys) = sort_key tsc_TopologyKey (TopologySpreadConstraints it' xs ys)" for xs ys
    unfolding TopologySpreadConstraints_eq by (rule constraints.order_independent [OF _ it]) simp
  show "template_in_key_order (PodTemplateSpecs it d ov) = template_in_key_order (PodTemplateSpecs it' d ov)"
    unfolding PodTemplateSpecs_def Let_def e same
    by (simp add: template_in_key_order_def Volumes_key_order [OF it] tsc split: option.split)
  assume a: "all_sorted d" "all_sorted ov"
  have v: "Volumes it (ps_Volumes (pts_Spec d)) (ps_Volumes (pts_Spec ov)) = Volumes it' (ps_Volumes (pts_Spec d)) (ps_Volumes (pts_Spec ov))"
    by (rule Volumes_order_independent [OF it]) (use a in \<open>simp_all add: all_sorted_def\<close>)
  have t: "ps_TopologySpreadConstraints (pts_Spec ov) = None" using a by (simp add: all_sorted_def)
  show "PodTemplateSpecs it d ov = PodTemplateSpecs it' d ov"
    unfolding PodTemplateSpecs_def Let_def e same v t by (simp only: option.case)
qed

lemma VolumeClaimTemplates_order_independent:
  "valid_order it \<Longrightarrow> valid_order it' \<Longrightarrow> VolumeClaimTemplates it xs ys = VolumeClaimTemplates it' xs ys"
  unfolding VolumeClaimTemplates_eq by (rule claims.order_independent) simp_all

section \<open>Properties\<close>

definition example_container :: "string \<Rightarrow> container" where
  "example_container name = empty_container\<lparr>c_Name := name, c_VolumeMounts :=
     [\<lparr>vm_Name = ''data'', vm_ReadOnly = False, vm_MountPath = ''/data'', vm_SubPath = '''',
       vm_MountPropagation = None, vm_SubPathExpr = ''''\<rparr>]\<rparr>"

definition example_spec :: "container list \<Rightarrow> statefulset_spec" where
  "example_spec cs = empty_statefulset_spec\<lparr>sts_Template :=
     empty_pod_template_spec\<lparr>pts_Spec := empty_pod_spec\<lparr>ps_Containers := cs\<rparr>\<rparr>\<rparr>"

text \<open>Two constraints on where the pods are placed.\<close>

definition spread_spec :: statefulset_spec where
  "spread_spec = (let c = \<lambda>k. \<lparr>tsc_MaxSkew = 1, tsc_TopologyKey = k, tsc_WhenUnsatisfiable = ''DoNotSchedule'', tsc_LabelSelector = None\<rparr>
     in empty_statefulset_spec\<lparr>sts_Template := empty_pod_template_spec\<lparr>pts_Spec :=
          empty_pod_spec\<lparr>ps_TopologySpreadConstraints := Some [c ''zone'', c ''node'']\<rparr>\<rparr>\<rparr>)"

lemma spread_spec_orders:
  "readable_template (sts_Template spread_spec)"
  "StatefulSetSpecs (\<lambda>ks. ks) spread_spec spread_spec \<noteq> StatefulSetSpecs rev spread_spec spread_spec"
proof -
  let ?tsc = "\<lambda>s. ps_TopologySpreadConstraints (pts_Spec (sts_Template s))"
  show "readable_template (sts_Template spread_spec)"
    by (simp add: readable_template_def spread_spec_def Let_def empty_pod_template_spec_def empty_pod_spec_def)
  have "?tsc (StatefulSetSpecs (\<lambda>ks. ks) spread_spec spread_spec) \<noteq> ?tsc (StatefulSetSpecs rev spread_spec spread_spec)"
    by (simp add: StatefulSetSpecs_def PodTemplateSpecs_def Let_def spread_spec_def TopologySpreadConstraints_def
        TopologySpreadConstraint_def over_def
        createTopologySpreadConstraintMap_def map_by_def put_def range_values_def merge_maps_def put_all_def List.map_filter_def)
  then show "StatefulSetSpecs (\<lambda>ks. ks) spread_spec spread_spec \<noteq> StatefulSetSpecs rev spread_spec spread_spec" by metis
qed

text \<open>
  C36. How far the merge of two StatefulSet specifications depends on the order in which Go visits
  its maps, for mounts whose volume names and paths have no underscore (it separates the parts of
  their keys). Any two orders give the same specification but for the order of the items of
  volumes and of the topology spread constraints, which have the same entries. When neither
  specification has volume items or constraints, the two are identical, so that a reconciliation
  sees no spurious difference; with two constraints they can differ.
\<close>

theorem StatefulSetSpecs_order:
  assumes "valid_order it" and "valid_order it'" and "readable_template (sts_Template d)" and "readable_template (sts_Template ov)"
  shows "in_key_order (StatefulSetSpecs it d ov) = in_key_order (StatefulSetSpecs it' d ov)
    \<and> (all_sorted (sts_Template d) \<and> all_sorted (sts_Template ov) \<longrightarrow> StatefulSetSpecs it d ov = StatefulSetSpecs it' d ov)
    \<and> (\<exists>it1 it2 s. valid_order it1 \<and> valid_order it2 \<and> readable_template (sts_Template s)
        \<and> StatefulSetSpecs it1 s s \<noteq> StatefulSetSpecs it2 s s)"
proof (intro conjI impI)
  note c = VolumeClaimTemplates_order_independent [OF assms(1,2)] and t = template_order [OF assms]
  show "in_key_order (StatefulSetSpecs it d ov) = in_key_order (StatefulSetSpecs it' d ov)"
    by (simp add: StatefulSetSpecs_def in_key_order_def c t(1))
  show "StatefulSetSpecs it d ov = StatefulSetSpecs it' d ov" if "all_sorted (sts_Template d) \<and> all_sorted (sts_Template ov)"
    using that by (simp only: StatefulSetSpecs_def c t(2))
  show "\<exists>it1 it2 s. valid_order it1 \<and> valid_order it2 \<and> readable_template (sts_Template s)
        \<and> StatefulSetSpecs it1 s s \<noteq> StatefulSetSpecs it2 s s"
    using spread_spec_orders valid_order_id valid_order_rev by blast
qed

lemma plain_example_spec:
  "readable_template (sts_Template (example_spec [example_container a, example_container b]))"
  "all_sorted (sts_Template (example_spec [example_container a, example_container b]))"
  by (simp_all add: readable_template_def all_sorted_def example_spec_def example_container_def empty_pod_template_spec_def
      empty_pod_spec_def plain_container_def plain_mount_def empty_container_def Let_def)

theorem StatefulSetSpecs_order_witness:
  "StatefulSetSpecs id (example_spec [example_container ''mongod'', example_container ''agent''])
     (example_spec [example_container ''agent'', example_container ''sidecar'']) =
   StatefulSetSpecs rev (example_spec [example_container ''mongod'', example_container ''agent''])
     (example_spec [example_container ''agent'', example_container ''sidecar''])"
proof -
  have "valid_order (id :: iter_order)" by (simp add: id_def)
  from StatefulSetSpecs_order [OF this valid_order_rev plain_example_spec(1) plain_example_spec(1)] plain_example_spec(2)
  show ?thesis by blast
qed

text \<open>
  C37. The merged containers are sorted by name without duplicates, there is one for every
  name in either list and no other, and the one for a name is the override merged into the
  default when both have it, and otherwise the one that has it.
\<close>

theorem Containers_correct:
  assumes "valid_order it"
  shows "sorted (map c_Name (Containers it ds ovs)) \<and> distinct (map c_Name (Containers it ds ovs))
    \<and> c_Name ` set (Containers it ds ovs) = c_Name ` (set ds \<union> set ovs)
    \<and> (\<forall>k. find (\<lambda>c. c_Name c = k) (Containers it ds ovs) =
         (case (find (\<lambda>c. c_Name c = k) (rev ds), find (\<lambda>c. c_Name c = k) (rev ovs)) of
            (Some d, Some ov) \<Rightarrow> Some (Container it d ov)
          | (Some d, None) \<Rightarrow> Some d
          | (None, r) \<Rightarrow> r))"
  using assms
  by (simp add: Containers_eq containers.sorted_keys containers.distinct_keys containers.keys_merged
      containers.lookup_merged merged_at_def)

theorem Containers_correct_witness:
  "valid_order rev \<and> distinct (map c_Name (Containers rev
     [example_container ''mongod'', example_container ''agent''] [example_container ''agent'']))"
  using Containers_correct [OF valid_order_rev, of "[example_container ''mongod'', example_container ''agent'']"
      "[example_container ''agent'']"] by simp

definition exclusive_env :: "env_var \<Rightarrow> bool" where
  "exclusive_env e = (ev_Value e = '''' \<or> ev_ValueFrom e = None)"

lemma exclusive_mergeSingleEnv:
  "exclusive_env a \<Longrightarrow> exclusive_env b \<Longrightarrow> exclusive_env (mergeSingleEnv a b)"
  by (auto simp: exclusive_env_def mergeSingleEnv_def Let_def)

lemma mergeSingleEnv_override:
  assumes "exclusive_env b" and "ev_Value b \<noteq> '''' \<or> ev_ValueFrom b \<noteq> None"
  shows "ev_Value (mergeSingleEnv a b) = ev_Value b \<and> ev_ValueFrom (mergeSingleEnv a b) = ev_ValueFrom b"
  using assms by (auto simp: exclusive_env_def mergeSingleEnv_def Let_def)

lemma Envs_lookup:
  "valid_order it \<Longrightarrow> find (\<lambda>e. ev_Name e = k) (Envs it xs ys) = merged_at ev_Name mergeSingleEnv xs ys k"
  by (simp add: Envs_eq envs.lookup_merged)

lemma Envs_members:
  assumes it: "valid_order it" and v: "v \<in> set (Envs it xs ys)"
  shows "v \<in> set xs \<union> set ys \<or> (\<exists>a \<in> set xs. \<exists>b \<in> set ys. v = mergeSingleEnv a b)"
proof -
  have "find (\<lambda>e. ev_Name e = ev_Name v) (Envs it xs ys) = Some v"
    by (rule find_unique [OF _ v]) (simp add: Envs_eq envs.distinct_keys it)
  then have "merged_at ev_Name mergeSingleEnv xs ys (ev_Name v) = Some v" by (simp only: Envs_lookup [OF it])
  from merged_at_members [OF this] show ?thesis by blast
qed

text \<open>
  Merging environment variables keeps each variable either a literal or a reference: if no
  input has both a value and a source, no merged one has; and the last override of a name,
  when it sets a value or a source, has exactly that in the result.
\<close>

theorem Envs_exclusive:
  assumes it: "valid_order it" and ex: "\<forall>e \<in> set original \<union> set override. exclusive_env e"
  shows "(\<forall>e \<in> set (Envs it original override). exclusive_env e) \<and>
    (\<forall>k ov. find (\<lambda>e. ev_Name e = k) (rev override) = Some ov
       \<longrightarrow> ev_Value ov \<noteq> '''' \<or> ev_ValueFrom ov \<noteq> None
       \<longrightarrow> (\<exists>e. find (\<lambda>e. ev_Name e = k) (Envs it original override) = Some e
              \<and> ev_Value e = ev_Value ov \<and> ev_ValueFrom e = ev_ValueFrom ov))"
proof (intro conjI ballI allI impI)
  fix e assume "e \<in> set (Envs it original override)"
  from Envs_members [OF it this] show "exclusive_env e" using ex exclusive_mergeSingleEnv by blast
next
  fix k ov assume f: "find (\<lambda>e. ev_Name e = k) (rev override) = Some ov" and s: "ev_Value ov \<noteq> '''' \<or> ev_ValueFrom ov \<noteq> None"
  have "exclusive_env ov" using ex find_Some_key [OF f] by simp
  note m = mergeSingleEnv_override [OF this s]
  show "\<exists>e. find (\<lambda>e. ev_Name e = k) (Envs it original override) = Some e
      \<and> ev_Value e = ev_Value ov \<and> ev_ValueFrom e = ev_ValueFrom ov"
    unfolding Envs_lookup [OF it] merged_at_def f by (simp add: m split: option.split)
qed

definition example_env :: "string \<Rightarrow> string \<Rightarrow> env_var" where
  "example_env n v = \<lparr>ev_Name = n, ev_Value = v, ev_ValueFrom = None\<rparr>"

theorem Envs_exclusive_witness:
  "\<exists>e. find (\<lambda>e. ev_Name e = ''A'') (Envs rev [example_env ''A'' ''1''] [example_env ''A'' ''2'']) = Some e
     \<and> ev_Value e = ''2''"
proof -
  have "\<forall>e \<in> set [example_env ''A'' ''1''] \<union> set [example_env ''A'' ''2'']. exclusive_env e"
    by (simp add: exclusive_env_def example_env_def)
  from conjunct2 [OF Envs_exclusive [OF valid_order_rev this], rule_format, of "''A''" "example_env ''A'' ''2''"]
  show ?thesis by (simp add: example_env_def) blast
qed

lemma map_of_StringToStringMap:
  "wf_map m1 \<Longrightarrow> wf_map m2 \<Longrightarrow> map_of (StringToStringMap m1 m2) = map_of m1 ++ map_of m2"
  by (simp add: StringToStringMap_def map_of_put_all)

lemma LabelSelectorRequirementByKey_find:
  "LabelSelectorRequirementByKey xs k = find (\<lambda>l. lsr_Key l = k) xs"
  by (induction xs) auto

lemma LabelSelectorRequirements_keys:
  "lsr_Key ` set (LabelSelectorRequirements xs ys) = lsr_Key ` (set xs \<union> set ys)"
proof -
  have "lsr_Key ` set (LabelSelectorRequirements xs ys) =
      lsr_Key ` set xs \<union> lsr_Key ` {y \<in> set ys. lsr_Key y \<notin> lsr_Key ` set xs}"
    by (simp add: LabelSelectorRequirements_def Let_def LabelSelectorRequirementByKey_find find_None_key
        image_Un image_image)
      (intro arg_cong2 [where f = "(\<union>)"] image_cong refl, simp split: option.split)
  also have "\<dots> = lsr_Key ` (set xs \<union> set ys)" by auto
  finally show ?thesis .
qed

text \<open>
  Label selectors: without an override the original is kept; with both, labels of the
  override win and the expression keys are those of either, sorted; but an override
  selector is dropped when the original has none.
\<close>

theorem LabelSelectors_correct:
  assumes "wf_map (entries (ls_MatchLabels d))" and "wf_map (entries (ls_MatchLabels ov))"
  shows "LabelSelectors orig None = orig \<and> LabelSelectors None (Some ov) = None \<and>
    (\<exists>m. LabelSelectors (Some d) (Some ov) = Some m
       \<and> map_of (entries (ls_MatchLabels m)) = map_of (entries (ls_MatchLabels d)) ++ map_of (entries (ls_MatchLabels ov))
       \<and> sorted (map lsr_Key (ls_MatchExpressions m))
       \<and> lsr_Key ` set (ls_MatchExpressions m)
           = lsr_Key ` (set (ls_MatchExpressions d) \<union> set (ls_MatchExpressions ov)))"
  using LabelSelectorRequirements_keys [of "ls_MatchExpressions d" "ls_MatchExpressions ov"]
  by (simp add: LabelSelectors_def map_of_StringToStringMap assms split: option.split)
    (simp add: LabelSelectorRequirements_def Let_def)

theorem LabelSelectors_correct_witness:
  "LabelSelectors None (Some (empty_label_selector\<lparr>ls_MatchLabels := Some [(''app'', ''db'')]\<rparr>)) = None"
  using LabelSelectors_correct [of empty_label_selector
      "empty_label_selector\<lparr>ls_MatchLabels := Some [(''app'', ''db'')]\<rparr>" None]
  by (simp add: empty_label_selector_def wf_map_def)

end
