(* ===== verification/Crypto.thy ===== *)
theory Crypto
  imports Prelude
begin

text \<open>
  The parts of Go's standard library that the credentials are computed with: base64, hex,
  the hash functions MD5, SHA-1 and SHA-256, and HMAC. A byte is an 8-bit word, and a hash
  constructor is the record of what the code uses of \<open>hash.Hash\<close>.
\<close>

unbundle bit_operations_syntax

type_synonym byte = "8 word"

definition bytes_of_string :: "string \<Rightarrow> byte list" where
  "bytes_of_string s = map (\<lambda>c. of_nat (of_char c)) s"

section \<open>Positions in an alphabet\<close>

fun index_of :: "'a list \<Rightarrow> 'a \<Rightarrow> nat option" where
  "index_of [] x = None"
| "index_of (y # ys) x = (if y = x then Some 0 else map_option Suc (index_of ys x))"

lemma index_of_nth: "distinct xs \<Longrightarrow> i < length xs \<Longrightarrow> index_of xs (xs ! i) = Some i"
proof (induction xs arbitrary: i)
  case Nil
  then show ?case by simp
next
  case (Cons x xs)
  then show ?case by (cases i) auto
qed

lemma index_of_bound: "index_of xs x = Some i \<Longrightarrow> i < length xs \<and> xs ! i = x"
  by (induction xs arbitrary: i) (auto split: if_splits)

section \<open>encoding/base64 and encoding/hex\<close>

definition b64_alphabet :: string where
  "b64_alphabet = ''ABCDEFGHIJKLMNOPQRSTUVWXYZabcdefghijklmnopqrstuvwxyz0123456789+/''"

definition b64_url_alphabet :: string where
  "b64_url_alphabet = ''ABCDEFGHIJKLMNOPQRSTUVWXYZabcdefghijklmnopqrstuvwxyz0123456789-_''"

fun b64_encode :: "string \<Rightarrow> byte list \<Rightarrow> string" where
  "b64_encode alpha (a # b # c # rest) =
     [alpha ! (unat a div 4), alpha ! ((unat a mod 4) * 16 + unat b div 16),
      alpha ! ((unat b mod 16) * 4 + unat c div 64), alpha ! (unat c mod 64)] @ b64_encode alpha rest"
| "b64_encode alpha [a, b] =
     [alpha ! (unat a div 4), alpha ! ((unat a mod 4) * 16 + unat b div 16),
      alpha ! ((unat b mod 16) * 4), CHR ''='']"
| "b64_encode alpha [a] = [alpha ! (unat a div 4), alpha ! ((unat a mod 4) * 16), CHR ''='', CHR ''='']"
| "b64_encode alpha [] = []"

text \<open>
  Decoding reads quanta of four characters; padding may only end the last one. Line breaks are
  skipped, and unused low bits of the last digit are ignored, as \<open>StdEncoding\<close> does.
\<close>

definition b64_byte1 :: "nat \<Rightarrow> nat \<Rightarrow> byte" where "b64_byte1 i j = of_nat (i * 4 + j div 16)"
definition b64_byte2 :: "nat \<Rightarrow> nat \<Rightarrow> byte" where "b64_byte2 j k = of_nat ((j mod 16) * 16 + k div 4)"
definition b64_byte3 :: "nat \<Rightarrow> nat \<Rightarrow> byte" where "b64_byte3 k l = of_nat ((k mod 4) * 64 + l)"

fun b64_decode_quanta :: "string \<Rightarrow> string \<Rightarrow> byte list option" where
  "b64_decode_quanta alpha [] = Some []"
| "b64_decode_quanta alpha (w # x # y # z # rest) =
     (case (index_of alpha w, index_of alpha x) of
        (Some i, Some j) \<Rightarrow>
          (if y = CHR ''='' \<and> z = CHR ''='' \<and> rest = [] then Some [b64_byte1 i j]
           else (case index_of alpha y of
              None \<Rightarrow> None
            | Some k \<Rightarrow>
                (if z = CHR ''='' \<and> rest = [] then Some [b64_byte1 i j, b64_byte2 j k]
                 else (case index_of alpha z of
                    None \<Rightarrow> None
                  | Some l \<Rightarrow> map_option (\<lambda>bs. b64_byte1 i j # b64_byte2 j k # b64_byte3 k l # bs)
                                (b64_decode_quanta alpha rest)))))
      | _ \<Rightarrow> None)"
| "b64_decode_quanta alpha _ = None"

definition b64_decode :: "string \<Rightarrow> string \<Rightarrow> byte list option" where
  "b64_decode alpha s = b64_decode_quanta alpha (filter (\<lambda>c. c \<noteq> CHR 0x0A \<and> c \<noteq> CHR 0x0D) s)"

definition hex_digits :: string where
  "hex_digits = ''0123456789abcdef''"

definition hex_encode :: "byte list \<Rightarrow> string" where
  "hex_encode bs = concat (map (\<lambda>b. [hex_digits ! (unat b div 16), hex_digits ! (unat b mod 16)]) bs)"

lemma length_hex_encode [simp]: "length (hex_encode bs) = 2 * length bs"
  by (induction bs) (simp_all add: hex_encode_def)

lemma hex_encode_inject [simp]: "hex_encode xs = hex_encode ys \<longleftrightarrow> xs = ys"
proof (induction xs arbitrary: ys)
  case Nil
  have "hex_encode ys = [] \<longleftrightarrow> ys = []"
    unfolding length_0_conv [symmetric, of "hex_encode ys"] length_hex_encode by simp
  then show ?case by (auto simp: hex_encode_def)
next
  case (Cons x xs)
  have d: "distinct hex_digits" and l: "length hex_digits = 16" by (simp_all add: hex_digits_def)
  have idx: "hex_digits ! i = hex_digits ! j \<longleftrightarrow> i = j" if "i < 16" "j < 16" for i j
    using nth_eq_iff_index_eq [OF d] that l by simp
  have b: "unat b div 16 < 16" for b :: byte using unsigned_less [of b, where ?'a = nat] by simp
  show ?case
  proof (cases ys)
    case Nil
    then show ?thesis using length_hex_encode [of "x # xs"] by (auto simp: hex_encode_def)
  next
    case (Cons y ys')
    have "unat x div 16 = unat y div 16 \<and> unat x mod 16 = unat y mod 16 \<longleftrightarrow> x = y"
      by (metis div_mult_mod_eq word_unat_eq_iff)
    then show ?thesis using Cons.IH [of ys'] Cons idx b by (auto simp: hex_encode_def)
  qed
qed

section \<open>Hash functions\<close>

text \<open>\<open>hash.Hash\<close> as the code uses it: its sizes and the sum of what was written.\<close>

record hasher =
  h_Size :: nat
  h_BlockSize :: nat
  h_Sum :: "byte list \<Rightarrow> byte list"

definition be_word :: "byte list \<Rightarrow> 32 word" where
  "be_word bs = foldl (\<lambda>w b. push_bit 8 w OR ucast b) 0 bs"

definition le_word :: "byte list \<Rightarrow> 32 word" where
  "le_word bs = be_word (rev bs)"

definition word_be :: "32 word \<Rightarrow> byte list" where
  "word_be w = [ucast (drop_bit 24 w), ucast (drop_bit 16 w), ucast (drop_bit 8 w), ucast w]"

definition word_le :: "32 word \<Rightarrow> byte list" where
  "word_le w = rev (word_be w)"

text \<open>Message padding: a one bit, zeros, and the length in bits in eight bytes.\<close>

definition length_bytes :: "nat \<Rightarrow> byte list" where
  "length_bytes n = map (\<lambda>i. of_nat (n * 8 div 256 ^ i)) [7, 6, 5, 4, 3, 2, 1, 0]"

definition padding :: "nat \<Rightarrow> byte list" where
  "padding n = 0x80 # replicate ((119 - n mod 64) mod 64) 0"

fun chunks :: "nat \<Rightarrow> nat \<Rightarrow> 'a list \<Rightarrow> 'a list list" where
  "chunks k 0 xs = []"
| "chunks k (Suc fuel) xs = (if xs = [] then [] else take k xs # chunks k fuel (drop k xs))"

definition chunks_of :: "nat \<Rightarrow> 'a list \<Rightarrow> 'a list list" where
  "chunks_of k xs = chunks k (length xs) xs"

subsection \<open>SHA-256\<close>

definition sha256_K :: "32 word list" where
  "sha256_K =
    [1116352408, 1899447441, 3049323471, 3921009573, 961987163, 1508970993, 2453635748, 2870763221,
     3624381080, 310598401, 607225278, 1426881987, 1925078388, 2162078206, 2614888103, 3248222580,
     3835390401, 4022224774, 264347078, 604807628, 770255983, 1249150122, 1555081692, 1996064986,
     2554220882, 2821834349, 2952996808, 3210313671, 3336571891, 3584528711, 113926993, 338241895,
     666307205, 773529912, 1294757372, 1396182291, 1695183700, 1986661051, 2177026350, 2456956037,
     2730485921, 2820302411, 3259730800, 3345764771, 3516065817, 3600352804, 4094571909, 275423344,
     430227734, 506948616, 659060556, 883997877, 958139571, 1322822218, 1537002063, 1747873779,
     1955562222, 2024104815, 2227730452, 2361852424, 2428436474, 2756734187, 3204031479, 3329325298]"

definition sha256_H :: "32 word list" where
  "sha256_H =
    [1779033703, 3144134277, 1013904242, 2773480762, 1359893119, 2600822924, 528734635, 1541459225]"

text \<open>The message schedule, most recent word first.\<close>

fun sha256_schedule :: "nat \<Rightarrow> 32 word list \<Rightarrow> 32 word list" where
  "sha256_schedule 0 ws = ws"
| "sha256_schedule (Suc n) ws =
     (let w15 = ws ! 14; w2 = ws ! 1;
          s0 = word_rotr 7 w15 XOR word_rotr 18 w15 XOR drop_bit 3 w15;
          s1 = word_rotr 17 w2 XOR word_rotr 19 w2 XOR drop_bit 10 w2
      in sha256_schedule n ((ws ! 15 + s0 + ws ! 6 + s1) # ws))"

fun sha256_round :: "32 word list \<Rightarrow> 32 word \<times> 32 word \<Rightarrow> 32 word list" where
  "sha256_round [a, b, c, d, e, f, g, h] (k, w) =
     (let s1 = word_rotr 6 e XOR word_rotr 11 e XOR word_rotr 25 e;
          ch = (e AND f) XOR (NOT e AND g);
          t1 = h + s1 + ch + k + w;
          s0 = word_rotr 2 a XOR word_rotr 13 a XOR word_rotr 22 a;
          maj = (a AND b) XOR (a AND c) XOR (b AND c);
          t2 = s0 + maj
      in [t1 + t2, a, b, c, d + t1, e, f, g])"
| "sha256_round st _ = st"

definition sha256_block :: "32 word list \<Rightarrow> byte list \<Rightarrow> 32 word list" where
  "sha256_block st block =
     (let ws = rev (sha256_schedule 48 (rev (map be_word (chunks_of 4 block))))
      in map2 (+) st (foldl sha256_round st (zip sha256_K ws)))"

definition sha256 :: "byte list \<Rightarrow> byte list" where
  "sha256 m = concat (map word_be (foldl sha256_block sha256_H
     (chunks_of 64 (m @ padding (length m) @ length_bytes (length m)))))"

definition sha256_New :: hasher where
  "sha256_New = \<lparr>h_Size = 32, h_BlockSize = 64, h_Sum = sha256\<rparr>"

subsection \<open>SHA-1\<close>

definition sha1_H :: "32 word list" where
  "sha1_H = [0x67452301, 0xefcdab89, 0x98badcfe, 0x10325476, 0xc3d2e1f0]"

fun sha1_schedule :: "nat \<Rightarrow> 32 word list \<Rightarrow> 32 word list" where
  "sha1_schedule 0 ws = ws"
| "sha1_schedule (Suc n) ws =
     sha1_schedule n (word_rotl 1 (ws ! 2 XOR ws ! 7 XOR ws ! 13 XOR ws ! 15) # ws)"

fun sha1_round :: "32 word list \<Rightarrow> nat \<times> 32 word \<Rightarrow> 32 word list" where
  "sha1_round [a, b, c, d, e] (i, w) =
     (let fk = (if i < 20 then ((b AND c) OR (NOT b AND d), 0x5a827999)
                else if i < 40 then (b XOR c XOR d, 0x6ed9eba1)
                else if i < 60 then ((b AND c) OR (b AND d) OR (c AND d), 0x8f1bbcdc)
                else (b XOR c XOR d, 0xca62c1d6))
      in [word_rotl 5 a + fst fk + e + snd fk + w, a, word_rotl 30 b, c, d])"
| "sha1_round st _ = st"

definition sha1_block :: "32 word list \<Rightarrow> byte list \<Rightarrow> 32 word list" where
  "sha1_block st block =
     (let ws = rev (sha1_schedule 64 (rev (map be_word (chunks_of 4 block))))
      in map2 (+) st (foldl sha1_round st (zip [0..<80] ws)))"

definition sha1 :: "byte list \<Rightarrow> byte list" where
  "sha1 m = concat (map word_be (foldl sha1_block sha1_H
     (chunks_of 64 (m @ padding (length m) @ length_bytes (length m)))))"

definition sha1_New :: hasher where
  "sha1_New = \<lparr>h_Size = 20, h_BlockSize = 64, h_Sum = sha1\<rparr>"

subsection \<open>MD5\<close>

definition md5_T :: "32 word list" where
  "md5_T =
    [3614090360, 3905402710, 606105819, 3250441966, 4118548399, 1200080426, 2821735955, 4249261313,
     1770035416, 2336552879, 4294925233, 2304563134, 1804603682, 4254626195, 2792965006, 1236535329,
     4129170786, 3225465664, 643717713, 3921069994, 3593408605, 38016083, 3634488961, 3889429448,
     568446438, 3275163606, 4107603335, 1163531501, 2850285829, 4243563512, 1735328473, 2368359562,
     4294588738, 2272392833, 1839030562, 4259657740, 2763975236, 1272893353, 4139469664, 3200236656,
     681279174, 3936430074, 3572445317, 76029189, 3654602809, 3873151461, 530742520, 3299628645,
     4096336452, 1126891415, 2878612391, 4237533241, 1700485571, 2399980690, 4293915773, 2240044497,
     1873313359, 4264355552, 2734768916, 1309151649, 4149444226, 3174756917, 718787259, 3951481745]"

definition md5_H :: "32 word list" where
  "md5_H = [0x67452301, 0xefcdab89, 0x98badcfe, 0x10325476]"

definition md5_shifts :: "nat list" where
  "md5_shifts = concat (map (\<lambda>r. concat (replicate 4 r))
     [[7, 12, 17, 22], [5, 9, 14, 20], [4, 11, 16, 23], [6, 10, 15, 21]])"

fun md5_round :: "32 word list \<Rightarrow> 32 word list \<Rightarrow> nat \<Rightarrow> 32 word list" where
  "md5_round ws [a, b, c, d] i =
     (let fg = (if i < 16 then ((b AND c) OR (NOT b AND d), i)
                else if i < 32 then ((d AND b) OR (NOT d AND c), (5 * i + 1) mod 16)
                else if i < 48 then (b XOR c XOR d, (3 * i + 5) mod 16)
                else (c XOR (b OR NOT d), (7 * i) mod 16))
      in [d, b + word_rotl (md5_shifts ! i) (a + fst fg + md5_T ! i + ws ! snd fg), b, c])"
| "md5_round ws st _ = st"

definition md5_block :: "32 word list \<Rightarrow> byte list \<Rightarrow> 32 word list" where
  "md5_block st block =
     (let ws = map le_word (chunks_of 4 block)
      in map2 (+) st (foldl (md5_round ws) st [0..<64]))"

definition md5 :: "byte list \<Rightarrow> byte list" where
  "md5 m = concat (map word_le (foldl md5_block md5_H
     (chunks_of 64 (m @ padding (length m) @ rev (length_bytes (length m))))))"

section \<open>crypto/hmac\<close>

definition hmac_key :: "hasher \<Rightarrow> byte list \<Rightarrow> byte list" where
  "hmac_key h key =
     (let k = (if length key > h_BlockSize h then h_Sum h key else key)
      in k @ replicate (h_BlockSize h - length k) 0)"

definition hmac :: "hasher \<Rightarrow> byte list \<Rightarrow> byte list \<Rightarrow> byte list" where
  "hmac h key msg =
     h_Sum h (map (\<lambda>b. b XOR 0x5c) (hmac_key h key)
       @ h_Sum h (map (\<lambda>b. b XOR 0x36) (hmac_key h key) @ msg))"

section \<open>Sizes of the digests\<close>

definition wf_hasher :: "hasher \<Rightarrow> bool" where
  "wf_hasher h = (\<forall>m. length (h_Sum h m) = h_Size h)"

lemma length_hmac [simp]: "wf_hasher h \<Longrightarrow> length (hmac h key msg) = h_Size h"
  by (simp add: hmac_def wf_hasher_def)

lemma length_concat_map_const: "(\<And>x. length (f x) = k) \<Longrightarrow> length (concat (map f xs)) = k * length xs"
  by (induction xs) simp_all

lemma foldl_invariant: "P s \<Longrightarrow> (\<And>s x. P s \<Longrightarrow> P (f s x)) \<Longrightarrow> P (foldl f s xs)"
  by (induction xs arbitrary: s) auto

lemma length_sha256_round: "length st = 8 \<Longrightarrow> length (sha256_round st kw) = 8"
  by (cases kw, cases "(st, kw)" rule: sha256_round.cases) (auto simp: Let_def)

lemma length_sha256_block: "length st = 8 \<Longrightarrow> length (sha256_block st b) = 8"
  unfolding sha256_block_def Let_def length_map length_zip
  by (subst foldl_invariant [where P = "\<lambda>s. length s = 8"]) (simp_all add: length_sha256_round)

lemma length_sha256 [simp]: "length (sha256 m) = 32"
  unfolding sha256_def
  by (subst length_concat_map_const [where k = 4], simp add: word_be_def,
      subst foldl_invariant [where P = "\<lambda>s. length s = 8"]) (simp_all add: length_sha256_block sha256_H_def)

lemma length_sha1_round: "length st = 5 \<Longrightarrow> length (sha1_round st kw) = 5"
  by (cases kw, cases "(st, kw)" rule: sha1_round.cases) (auto simp: Let_def)

lemma length_sha1_block: "length st = 5 \<Longrightarrow> length (sha1_block st b) = 5"
  unfolding sha1_block_def Let_def length_map length_zip
  by (subst foldl_invariant [where P = "\<lambda>s. length s = 5"]) (simp_all add: length_sha1_round)

lemma length_sha1 [simp]: "length (sha1 m) = 20"
  unfolding sha1_def
  by (subst length_concat_map_const [where k = 4], simp add: word_be_def,
      subst foldl_invariant [where P = "\<lambda>s. length s = 5"]) (simp_all add: length_sha1_block sha1_H_def)

lemma wf_sha256_New [simp]: "wf_hasher sha256_New" and wf_sha1_New [simp]: "wf_hasher sha1_New"
  by (simp_all add: wf_hasher_def sha256_New_def sha1_New_def)

lemma hash_sizes [simp]: "h_Size sha256_New = 32" "h_Size sha1_New = 20"
  by (simp_all add: sha256_New_def sha1_New_def)

section \<open>Decoding base64 after encoding it\<close>

lemma b64_alphabet_ok [simp]:
  "distinct b64_alphabet" "length b64_alphabet = 64" "CHR ''='' \<notin> set b64_alphabet"
  "CHR 0x0A \<notin> set b64_alphabet" "CHR 0x0D \<notin> set b64_alphabet"
  by (simp_all add: b64_alphabet_def)

text \<open>What decoding asks of an alphabet.\<close>

definition b64_ok :: "string \<Rightarrow> bool" where
  "b64_ok alpha = (distinct alpha \<and> length alpha = 64 \<and> CHR ''='' \<notin> set alpha
     \<and> CHR 0x0A \<notin> set alpha \<and> CHR 0x0D \<notin> set alpha)"

lemma byte_bound: "unat (b :: byte) < 256"
  using unsigned_less [of b, where ?'a = nat] by simp

lemma of_nat_unat_byte: "of_nat (unat (b :: byte)) = b"
  by simp

lemma pack_div: "q < k \<Longrightarrow> (m * k + q) div k = (m :: nat)"
  by simp

lemma pack_mod: "q < k \<Longrightarrow> (m * k + q) mod k = (q :: nat)"
  by simp

lemma byte_digits:
  fixes b :: byte
  shows "unat b div 4 < 64" "unat b div 16 < 16" "unat b div 64 < 4"
  using byte_bound [of b] by simp_all

lemma b64_bytes:
  fixes a b c :: byte
  shows "b64_byte1 (unat a div 4) ((unat a mod 4) * 16 + unat b div 16) = a"
    and "b64_byte1 (unat a div 4) ((unat a mod 4) * 16) = a"
    and "b64_byte2 ((unat a mod 4) * 16 + unat b div 16) ((unat b mod 16) * 4 + unat c div 64) = b"
    and "b64_byte2 ((unat a mod 4) * 16 + unat b div 16) ((unat b mod 16) * 4) = b"
    and "b64_byte3 ((unat b mod 16) * 4 + unat c div 64) (unat c mod 64) = c"
proof -
  have z: "x * 16 div 16 = x" "x * 4 div 4 = x" for x :: nat by simp_all
  note p = pack_div [OF byte_digits(2)] pack_div [OF byte_digits(3)]
    pack_mod [OF byte_digits(2)] pack_mod [OF byte_digits(3)] div_mult_mod_eq of_nat_unat_byte z
  show "b64_byte1 (unat a div 4) ((unat a mod 4) * 16 + unat b div 16) = a"
    by (simp only: b64_byte1_def p)
  show "b64_byte1 (unat a div 4) ((unat a mod 4) * 16) = a"
    by (simp only: b64_byte1_def p)
  show "b64_byte2 ((unat a mod 4) * 16 + unat b div 16) ((unat b mod 16) * 4 + unat c div 64) = b"
    by (simp only: b64_byte2_def p)
  show "b64_byte2 ((unat a mod 4) * 16 + unat b div 16) ((unat b mod 16) * 4) = b"
    by (simp only: b64_byte2_def p)
  show "b64_byte3 ((unat b mod 16) * 4 + unat c div 64) (unat c mod 64) = c"
    by (simp only: b64_byte3_def p)
qed

lemma pack_bound: "(m :: nat) < j \<Longrightarrow> q < k \<Longrightarrow> m * k + q < j * k"
proof -
  assume "m < j" "q < k"
  then have "m * k + q < Suc m * k" and "Suc m * k \<le> j * k" by (simp, simp only: Suc_leI mult_le_mono1)
  then show ?thesis by simp
qed

lemma b64_digit_bounds:
  fixes a b c :: byte
  shows "unat a div 4 < 64" "(unat a mod 4) * 16 + unat b div 16 < 64" "(unat a mod 4) * 16 < (64 :: nat)"
    "(unat b mod 16) * 4 + unat c div 64 < 64" "(unat b mod 16) * 4 < (64 :: nat)" "unat c mod 64 < 64"
proof -
  show "(unat a mod 4) * 16 + unat b div 16 < 64"
    using pack_bound [of "unat a mod 4" 4 "unat b div 16" 16] byte_digits(2) [of b] by simp
  show "(unat b mod 16) * 4 + unat c div 64 < 64"
    using pack_bound [of "unat b mod 16" 16 "unat c div 64" 4] byte_digits(3) [of c] by simp
  show "(unat a mod 4) * 16 < (64 :: nat)" using pack_bound [of "unat a mod 4" 4 0 16] by simp
  show "(unat b mod 16) * 4 < (64 :: nat)" using pack_bound [of "unat b mod 16" 16 0 4] by simp
qed (simp_all add: byte_digits)

lemma index_of_digit: "b64_ok alpha \<Longrightarrow> i < 64 \<Longrightarrow> index_of alpha (alpha ! i) = Some i"
  by (simp add: b64_ok_def index_of_nth)

lemma digit_neq_pad: "b64_ok alpha \<Longrightarrow> i < 64 \<Longrightarrow> alpha ! i \<noteq> CHR ''=''"
  by (metis b64_ok_def nth_mem)

lemma b64_decode_quanta_encode:
  "b64_ok alpha \<Longrightarrow> b64_decode_quanta alpha (b64_encode alpha bs) = Some bs"
proof (induction alpha bs rule: b64_encode.induct)
  case (1 alpha a b c rest)
  then show ?case
    by (simp add: index_of_digit digit_neq_pad b64_digit_bounds b64_bytes)
next
  case (2 alpha a b)
  then show ?case
    by (simp add: index_of_digit digit_neq_pad b64_digit_bounds b64_bytes)
next
  case (3 alpha a)
  then show ?case
    by (simp add: index_of_digit digit_neq_pad b64_digit_bounds b64_bytes)
next
  case (4 alpha)
  then show ?case by simp
qed

lemma b64_encode_chars:
  "b64_ok alpha \<Longrightarrow> c \<in> set (b64_encode alpha bs) \<Longrightarrow> c \<noteq> CHR 0x0A \<and> c \<noteq> CHR 0x0D"
proof (induction alpha bs rule: b64_encode.induct)
  case (1 alpha a b c rest)
  have d: "alpha ! i \<noteq> CHR 0x0A \<and> alpha ! i \<noteq> CHR 0x0D" if "i < 64" for i
    using 1(2) that by (metis b64_ok_def nth_mem)
  from 1 show ?case using d [OF b64_digit_bounds(1)] d [OF b64_digit_bounds(2)] d [OF b64_digit_bounds(4)]
      d [OF b64_digit_bounds(6)] by auto
next
  case (2 alpha a b)
  have d: "alpha ! i \<noteq> CHR 0x0A \<and> alpha ! i \<noteq> CHR 0x0D" if "i < 64" for i
    using 2(1) that by (metis b64_ok_def nth_mem)
  from 2 show ?case using d [OF b64_digit_bounds(1)] d [OF b64_digit_bounds(2)] d [OF b64_digit_bounds(5)] by auto
next
  case (3 alpha a)
  have d: "alpha ! i \<noteq> CHR 0x0A \<and> alpha ! i \<noteq> CHR 0x0D" if "i < 64" for i
    using 3(1) that by (metis b64_ok_def nth_mem)
  from 3 show ?case using d [OF b64_digit_bounds(1)] d [OF b64_digit_bounds(3)] by auto
next
  case (4 alpha)
  then show ?case by simp
qed

lemma b64_decode_encode: "b64_ok alpha \<Longrightarrow> b64_decode alpha (b64_encode alpha bs) = Some bs"
  unfolding b64_decode_def
  by (subst filter_True) (auto simp: b64_decode_quanta_encode dest: b64_encode_chars)

lemma b64_ok_std [simp]: "b64_ok b64_alphabet"
  by (simp add: b64_ok_def)

lemma b64_ok_url [simp]: "b64_ok b64_url_alphabet"
  by (simp add: b64_ok_def b64_url_alphabet_def)

lemma length_b64_encode: "length (b64_encode alpha bs) = 4 * ((length bs + 2) div 3)"
proof (induction alpha bs rule: b64_encode.induct)
  case (1 alpha a b c rest)
  have "(Suc (Suc (Suc (length rest))) + 2) div 3 = Suc ((length rest + 2) div 3)" by simp
  with 1 show ?case by simp
qed simp_all

end
