(* ===== verification/ScramCreds.thy ===== *)
theory ScramCreds
  imports Crypto
begin

text \<open>
  \<open>pkg/authentication/scramcredentials\<close>: the computation of SCRAM credentials from a password
  and a salt. SASLprep comes from a third-party package and is the argument \<open>prep\<close>; the
  hash constructor is an argument as it is in the code.
\<close>

section \<open>The code\<close>

record ScramCreds =
  IterationCount :: int
  Salt :: string
  ServerKey :: string
  StoredKey :: string

definition empty_creds :: ScramCreds where
  "empty_creds = \<lparr>IterationCount = 0, Salt = '''', ServerKey = '''', StoredKey = ''''\<rparr>"

definition RFC5802MandatedSaltSize :: int where "RFC5802MandatedSaltSize = 4"
definition clientKeyInput :: string where "clientKeyInput = ''Client Key''"
definition serverKeyInput :: string where "serverKeyInput = ''Server Key''"
definition DefaultScramSha1Iterations :: int where "DefaultScramSha1Iterations = 10000"
definition DefaultScramSha256Iterations :: int where "DefaultScramSha256Iterations = 15000"

type_synonym saslprep = "string \<Rightarrow> string outcome"

text \<open>An \<open>if err != nil\<close> that returns the error with a prefix.\<close>

fun wrap_err :: "string \<Rightarrow> 'a outcome \<Rightarrow> 'a outcome" where
  "wrap_err prefix (Ok x) = Ok x"
| "wrap_err prefix (Fail e) = Fail (errorf prefix e)"
| "wrap_err prefix (Panic p) = Panic p"

definition md5Hex :: "string \<Rightarrow> string" where
  "md5Hex s = hex_encode (md5 (bytes_of_string s))"

text \<open>
  The two loops \<open>for i := 0; i < len(digest); i++\<close> over \<open>result\<close>, which has the size of the hash:
  copying the first digest, and adding a later one bitwise.
\<close>

fun write_digest :: "(byte \<Rightarrow> byte \<Rightarrow> byte) \<Rightarrow> byte list \<Rightarrow> byte list \<Rightarrow> byte list outcome" where
  "write_digest f result [] = Ok result"
| "write_digest f [] (d # digest) = Panic IndexOutOfRange"
| "write_digest f (r # result) (d # digest) =
     bind_out (write_digest f result digest) (\<lambda>rest. Ok (f r d # rest))"

text \<open>\<open>for i := 1; i < iterationCount; i++\<close>, with the number of rounds that are left.\<close>

fun hmac_rounds :: "hasher \<Rightarrow> byte list \<Rightarrow> nat \<Rightarrow> byte list \<Rightarrow> byte list \<Rightarrow> byte list outcome" where
  "hmac_rounds h input 0 intermediateDigest result = Ok result"
| "hmac_rounds h input (Suc n) intermediateDigest result =
     (let digest = hmac h input intermediateDigest
      in bind_out (write_digest (XOR) result digest) (\<lambda>result'. hmac_rounds h input n digest result'))"

definition hmacIteration :: "hasher \<Rightarrow> byte list \<Rightarrow> byte list \<Rightarrow> int \<Rightarrow> byte list outcome" where
  "hmacIteration h input salt iterationCount =
     (let hashSize = h_Size h
      in if int (length salt) \<noteq> int hashSize - RFC5802MandatedSaltSize
         then Fail (Err (''salt should have a size of '' @ int_text (int hashSize - RFC5802MandatedSaltSize)
                @ '' bytes, but instead has a size of '' @ nat_text (length salt) @ '' bytes''))
         else (let startKey = salt @ [0, 0, 0, 1];
                   intermediateDigest = hmac h input startKey
               in bind_out (write_digest (\<lambda>_ d. d) (replicate hashSize 0) intermediateDigest)
                    (\<lambda>result. hmac_rounds h input (nat (iterationCount - 1)) intermediateDigest result)))"

definition generateSaltedPassword :: "saslprep \<Rightarrow> hasher \<Rightarrow> string \<Rightarrow> byte list \<Rightarrow> int \<Rightarrow> byte list outcome" where
  "generateSaltedPassword prep h password salt iterationCount =
     bind_out (wrap_err ''could not SASLprep password: '' (prep password)) (\<lambda>preparedPassword.
       wrap_err ''could not run hmacIteration: ''
         (hmacIteration h (bytes_of_string preparedPassword) salt iterationCount))"

definition generateClientOrServerKey :: "hasher \<Rightarrow> byte list \<Rightarrow> string \<Rightarrow> byte list" where
  "generateClientOrServerKey h saltedPassword input = hmac h saltedPassword (bytes_of_string input)"

definition generateStoredKey :: "hasher \<Rightarrow> byte list \<Rightarrow> byte list" where
  "generateStoredKey h clientKey = h_Sum h clientKey"

definition generateSecrets ::
    "saslprep \<Rightarrow> hasher \<Rightarrow> string \<Rightarrow> byte list \<Rightarrow> int \<Rightarrow> (byte list \<times> byte list) outcome" where
  "generateSecrets prep h password salt iterationCount =
     bind_out (wrap_err ''error generating salted password: ''
         (generateSaltedPassword prep h password salt iterationCount)) (\<lambda>saltedPassword.
       let clientKey = generateClientOrServerKey h saltedPassword clientKeyInput;
           storedKey = generateStoredKey h clientKey;
           serverKey = generateClientOrServerKey h saltedPassword serverKeyInput
       in Ok (storedKey, serverKey))"

definition generateB64EncodedSecrets ::
    "saslprep \<Rightarrow> hasher \<Rightarrow> string \<Rightarrow> string \<Rightarrow> int \<Rightarrow> (string \<times> string) outcome" where
  "generateB64EncodedSecrets prep h password b64EncodedSalt iterationCount =
     (case b64_decode b64_alphabet b64EncodedSalt of
        None \<Rightarrow> Fail (Err ''error decoding salt: illegal base64 data'')
      | Some salt \<Rightarrow>
          bind_out (wrap_err ''error generating secrets: ''
              (generateSecrets prep h password salt iterationCount)) (\<lambda>(storedKey, serverKey).
            Ok (b64_encode b64_alphabet storedKey, b64_encode b64_alphabet serverKey)))"

definition computeScramCredentials ::
    "saslprep \<Rightarrow> hasher \<Rightarrow> int \<Rightarrow> string \<Rightarrow> string \<Rightarrow> ScramCreds outcome" where
  "computeScramCredentials prep h iterationCount base64EncodedSalt password =
     bind_out (wrap_err ''error generating SCRAM-SHA keys: ''
         (generateB64EncodedSecrets prep h password base64EncodedSalt iterationCount))
       (\<lambda>(storedKey, serverKey).
          Ok \<lparr>IterationCount = iterationCount, Salt = base64EncodedSalt,
              ServerKey = serverKey, StoredKey = storedKey\<rparr>)"

definition ComputeScramSha256Creds :: "saslprep \<Rightarrow> string \<Rightarrow> byte list \<Rightarrow> ScramCreds outcome" where
  "ComputeScramSha256Creds prep password salt =
     computeScramCredentials prep sha256_New DefaultScramSha256Iterations (b64_encode b64_alphabet salt) password"

definition ComputeScramSha1Creds :: "saslprep \<Rightarrow> string \<Rightarrow> string \<Rightarrow> byte list \<Rightarrow> ScramCreds outcome" where
  "ComputeScramSha1Creds prep username password salt =
     computeScramCredentials prep sha1_New DefaultScramSha1Iterations (b64_encode b64_alphabet salt)
       (md5Hex (username @ '':mongo:'' @ password))"

section \<open>The reference: RFC 5802\<close>

text \<open>
  \<open>Hi(str, salt, i) = U1 XOR U2 XOR ... XOR Ui\<close> with \<open>U1 = HMAC(str, salt + INT(1))\<close> and
  \<open>Un = HMAC(str, U(n-1))\<close>; the index starts at 0 here.
\<close>

fun rfc_U :: "hasher \<Rightarrow> byte list \<Rightarrow> byte list \<Rightarrow> nat \<Rightarrow> byte list" where
  "rfc_U h str salt 0 = hmac h str (salt @ [0, 0, 0, 1])"
| "rfc_U h str salt (Suc n) = hmac h str (rfc_U h str salt n)"

fun rfc_Hi :: "hasher \<Rightarrow> byte list \<Rightarrow> byte list \<Rightarrow> nat \<Rightarrow> byte list" where
  "rfc_Hi h str salt 0 = rfc_U h str salt 0"
| "rfc_Hi h str salt (Suc n) = map2 (XOR) (rfc_Hi h str salt n) (rfc_U h str salt (Suc n))"

lemma write_digest_same_length:
  "length result = length digest \<Longrightarrow> write_digest f result digest = Ok (map2 f result digest)"
  by (induction f result digest rule: write_digest.induct) simp_all

lemma map2_snd: "length xs = length ys \<Longrightarrow> map2 (\<lambda>_ y. y) xs ys = ys"
  by (induction xs ys rule: list_induct2) simp_all

lemma length_rfc_U [simp]: "wf_hasher h \<Longrightarrow> length (rfc_U h str salt n) = h_Size h"
  by (induction n) simp_all

lemma length_rfc_Hi [simp]: "wf_hasher h \<Longrightarrow> length (rfc_Hi h str salt n) = h_Size h"
  by (induction n) simp_all

lemma hmac_rounds_Hi:
  assumes "wf_hasher h"
  shows "hmac_rounds h input n (rfc_U h input salt k) (rfc_Hi h input salt k) = Ok (rfc_Hi h input salt (k + n))"
proof (induction n arbitrary: k)
  case 0
  then show ?case by simp
next
  case (Suc n)
  have "hmac_rounds h input (Suc n) (rfc_U h input salt k) (rfc_Hi h input salt k) =
      hmac_rounds h input n (rfc_U h input salt (Suc k)) (rfc_Hi h input salt (Suc k))"
    using assms by (simp add: Let_def write_digest_same_length)
  with Suc [of "Suc k"] show ?case by simp
qed

lemma hmacIteration_Hi:
  assumes wf: "wf_hasher h" and size: "length salt + 4 = h_Size h"
  shows "hmacIteration h input salt iterationCount = Ok (rfc_Hi h input salt (nat (iterationCount - 1)))"
proof -
  have "write_digest (\<lambda>_ d. d) (replicate (h_Size h) 0) (hmac h input (salt @ [0, 0, 0, 1])) =
      Ok (hmac h input (salt @ [0, 0, 0, 1]))"
    using wf by (simp add: write_digest_same_length map2_snd)
  moreover have "int (length salt) = int (h_Size h) - RFC5802MandatedSaltSize"
    using size by (simp add: RFC5802MandatedSaltSize_def)
  ultimately show ?thesis
    using hmac_rounds_Hi [OF wf, of input "nat (iterationCount - 1)" salt 0]
    by (simp add: hmacIteration_def Let_def)
qed

lemma hmacIteration_bad_salt:
  "length salt + 4 \<noteq> h_Size h \<Longrightarrow> \<exists>e. hmacIteration h input salt iterationCount = Fail e"
  by (auto simp: hmacIteration_def RFC5802MandatedSaltSize_def Let_def)

section \<open>Credentials\<close>

text \<open>The reference credentials for a prepared password, in one equation.\<close>

definition rfc_creds :: "hasher \<Rightarrow> int \<Rightarrow> byte list \<Rightarrow> string \<Rightarrow> ScramCreds" where
  "rfc_creds h iterations salt prepared =
     (let salted = rfc_Hi h (bytes_of_string prepared) salt (nat (iterations - 1))
      in \<lparr>IterationCount = iterations, Salt = b64_encode b64_alphabet salt,
          ServerKey = b64_encode b64_alphabet (hmac h salted (bytes_of_string serverKeyInput)),
          StoredKey = b64_encode b64_alphabet (h_Sum h (hmac h salted (bytes_of_string clientKeyInput)))\<rparr>)"

lemma computeScramCredentials_ok:
  assumes "wf_hasher h" and "length salt + 4 = h_Size h" and "prep password = Ok prepared"
  shows "computeScramCredentials prep h iterations (b64_encode b64_alphabet salt) password =
    Ok (rfc_creds h iterations salt prepared)"
  using assms
  by (simp add: computeScramCredentials_def generateB64EncodedSecrets_def b64_decode_encode generateSecrets_def
      generateSaltedPassword_def hmacIteration_Hi rfc_creds_def generateClientOrServerKey_def generateStoredKey_def
      Let_def)

lemma ComputeScramSha256Creds_ok:
  "length salt = 28 \<Longrightarrow> prep password = Ok prepared \<Longrightarrow>
   ComputeScramSha256Creds prep password salt = Ok (rfc_creds sha256_New 15000 salt prepared)"
  unfolding ComputeScramSha256Creds_def DefaultScramSha256Iterations_def
  by (rule computeScramCredentials_ok) simp_all

lemma ComputeScramSha1Creds_ok:
  "length salt = 16 \<Longrightarrow> prep (md5Hex (username @ '':mongo:'' @ password)) = Ok prepared \<Longrightarrow>
   ComputeScramSha1Creds prep username password salt = Ok (rfc_creds sha1_New 10000 salt prepared)"
  unfolding ComputeScramSha1Creds_def DefaultScramSha1Iterations_def
  by (rule computeScramCredentials_ok) simp_all

text \<open>
  C39. The iterated HMAC is the function \<open>Hi\<close> of RFC 5802 for every hash whose digests have the
  announced size: with a salt of the mandated size it returns the XOR of all intermediate
  digests, and with any other salt it reports an error.
\<close>

theorem hmacIteration_is_Hi:
  assumes "wf_hasher h"
  shows "(if length salt + 4 = h_Size h
          then hmacIteration h input salt iterationCount = Ok (rfc_Hi h input salt (nat (iterationCount - 1)))
          else (\<exists>e. hmacIteration h input salt iterationCount = Fail e))"
  by (simp add: hmacIteration_Hi [OF assms] hmacIteration_bad_salt)

theorem hmacIteration_is_Hi_witness:
  "hmacIteration sha256_New [] (replicate 28 7) 15000 = Ok (rfc_Hi sha256_New [] (replicate 28 7) (nat (15000 - 1)))"
  using hmacIteration_is_Hi [OF wf_sha256_New, of "replicate 28 7" "[]" 15000] by simp

lemma computeScramCredentials_Salt:
  "computeScramCredentials prep h n salt password = Ok c \<Longrightarrow> Salt c = salt \<and> IterationCount c = n"
  by (auto simp: computeScramCredentials_def bind_out_Ok_conv)

text \<open>
  The salt is stored so that it can be read back: whenever the credentials for a user can
  be computed, decoding the salt stored in them gives the salt they were computed with, and
  computing from it again gives the same credentials.
\<close>

theorem recompute_from_stored_salt:
  assumes "ComputeScramSha1Creds prep username password salt1 = Ok c1"
    and "ComputeScramSha256Creds prep password salt256 = Ok c256"
  shows "\<exists>s1 s256. b64_decode b64_alphabet (Salt c1) = Some s1 \<and> b64_decode b64_alphabet (Salt c256) = Some s256
    \<and> s1 = salt1 \<and> s256 = salt256
    \<and> ComputeScramSha1Creds prep username password s1 = Ok c1
    \<and> ComputeScramSha256Creds prep password s256 = Ok c256"
proof -
  have "Salt c1 = b64_encode b64_alphabet salt1" "Salt c256 = b64_encode b64_alphabet salt256"
    using assms computeScramCredentials_Salt
    unfolding ComputeScramSha1Creds_def ComputeScramSha256Creds_def by metis+
  with assms show ?thesis by (simp add: b64_decode_encode)
qed

theorem recompute_from_stored_salt_witness:
  "\<exists>c1 c256. ComputeScramSha1Creds Ok ''u'' ''pw'' (replicate 16 1) = Ok c1
     \<and> ComputeScramSha256Creds Ok ''pw'' (replicate 28 1) = Ok c256
     \<and> b64_decode b64_alphabet (Salt c256) = Some (replicate 28 1)"
proof -
  have 1: "ComputeScramSha1Creds Ok ''u'' ''pw'' (replicate 16 1) =
      Ok (rfc_creds sha1_New 10000 (replicate 16 1) (md5Hex (''u'' @ '':mongo:'' @ ''pw'')))"
    by (rule ComputeScramSha1Creds_ok) simp_all
  have 2: "ComputeScramSha256Creds Ok ''pw'' (replicate 28 1) =
      Ok (rfc_creds sha256_New 15000 (replicate 28 1) ''pw'')"
    by (rule ComputeScramSha256Creds_ok) simp_all
  from recompute_from_stored_salt [OF 1 2] 1 2 show ?thesis by blast
qed

end
