(* ===== verification/Generate.thy ===== *)
theory Generate
  imports ScramCreds
begin

text \<open>
  \<open>pkg/util/generate\<close>: random passwords, key files and salts. The source of randomness is
  \<open>crypto/rand.Read\<close>, an operation on the world that fills a buffer of the given size or fails.
\<close>

section \<open>The code\<close>

type_synonym 'w rand_read = "nat \<Rightarrow> 'w \<Rightarrow> byte list outcome \<times> 'w"

text \<open>\<open>make([]byte, size)\<close> panics on a negative size.\<close>

definition generateRandomBytes :: "'w rand_read \<Rightarrow> int \<Rightarrow> 'w \<Rightarrow> byte list outcome \<times> 'w" where
  "generateRandomBytes rand n =
     (if n < 0 then raise_panic NegativeMake
      else on_result (rand (nat n)) fail ret)"

definition generateRandomString :: "'w rand_read \<Rightarrow> int \<Rightarrow> 'w \<Rightarrow> string outcome \<times> 'w" where
  "generateRandomString rand numBytes =
     on_result (generateRandomBytes rand numBytes) fail (\<lambda>b. ret (b64_encode b64_alphabet b))"

text \<open>
  The slice expression \<open>[:n]\<close> is evaluated before the error is looked at, and the bytes are nil
  when there was one: the empty encoding is too short for every positive \<open>n\<close>.
\<close>

definition slice_to :: "string \<Rightarrow> int \<Rightarrow> string outcome" where
  "slice_to s n = (if n < 0 \<or> int (length s) < n then Panic SliceOutOfRange else Ok (take (nat n) s))"

definition RandomFixedLengthStringOfSize :: "'w rand_read \<Rightarrow> int \<Rightarrow> 'w \<Rightarrow> string outcome \<times> 'w" where
  "RandomFixedLengthStringOfSize rand n =
     on_result (generateRandomBytes rand n)
       (\<lambda>err. on_result (pure_out (slice_to (b64_encode b64_url_alphabet []) n)) fail (\<lambda>_. fail err))
       (\<lambda>b. pure_out (slice_to (b64_encode b64_url_alphabet b) n))"

definition is_ascii_letter :: "char \<Rightarrow> bool" where
  "is_ascii_letter c = (let n = (of_char c :: nat) in (65 \<le> n \<and> n \<le> 90) \<or> (97 \<le> n \<and> n \<le> 122))"

definition is_ascii_digit :: "char \<Rightarrow> bool" where
  "is_ascii_digit c = (let n = (of_char c :: nat) in 48 \<le> n \<and> n \<le> 57)"

definition dns_rune :: "char \<Rightarrow> char" where
  "dns_rune r = (if is_ascii_letter r then lower_char r else if \<not> is_ascii_digit r then CHR ''0'' else r)"

definition RandomValidDNS1123Label :: "'w rand_read \<Rightarrow> int \<Rightarrow> 'w \<Rightarrow> string outcome \<times> 'w" where
  "RandomValidDNS1123Label rand n =
     on_result (RandomFixedLengthStringOfSize rand n) fail (\<lambda>str. ret (map dns_rune str))"

definition KeyFileContents :: "'w rand_read \<Rightarrow> 'w \<Rightarrow> string outcome \<times> 'w" where
  "KeyFileContents rand = generateRandomString rand 500"

text \<open>\<open>shaBytes32[:saltSize]\<close> is within the 32 bytes of the digest for both hashes.\<close>

definition salt :: "'w rand_read \<Rightarrow> hasher \<Rightarrow> 'w \<Rightarrow> byte list outcome \<times> 'w" where
  "salt rand h =
     (let saltSize = int (h_Size h) - RFC5802MandatedSaltSize
      in on_result (RandomFixedLengthStringOfSize rand 20) fail (\<lambda>s.
           let shaBytes32 = sha256 (bytes_of_string s)
           in if saltSize < 0 \<or> 32 < saltSize then raise_panic SliceOutOfRange
              else ret (take (nat saltSize) shaBytes32)))"

definition Salts :: "'w rand_read \<Rightarrow> 'w \<Rightarrow> (byte list \<times> byte list) outcome \<times> 'w" where
  "Salts rand =
     on_result (salt rand sha1_New) fail (\<lambda>sha1Salt.
       on_result (salt rand sha256_New) fail (\<lambda>sha256Salt. ret (sha1Salt, sha256Salt)))"

section \<open>Properties\<close>

text \<open>The contract of \<open>rand.Read\<close>: it fills the whole buffer when it succeeds.\<close>

definition full_reads :: "'w rand_read \<Rightarrow> bool" where
  "full_reads rand = (\<forall>n w bs w'. rand n w = (Ok bs, w') \<longrightarrow> length bs = n)"

definition never_fails :: "'w rand_read \<Rightarrow> bool" where
  "never_fails rand = (\<forall>n w. \<exists>bs w'. rand n w = (Ok bs, w') \<and> length bs = n)"

lemma b64_long_enough: "(n :: nat) \<le> 4 * ((n + 2) div 3)"
  by presburger

lemma length_take_b64: "length bs = n \<Longrightarrow> length (take n (b64_encode alpha bs)) = n"
  using b64_long_enough [of n] by (simp add: length_b64_encode)

lemma slice_b64: "slice_to (b64_encode alpha bs) (int (length bs)) = Ok (take (length bs) (b64_encode alpha bs))"
  using b64_long_enough [of "length bs"] by (simp add: slice_to_def length_b64_encode)

lemma RandomFixedLengthStringOfSize_ok:
  assumes "never_fails rand" and "0 \<le> n"
  shows "\<exists>s w'. RandomFixedLengthStringOfSize rand n w = (Ok s, w') \<and> length s = nat n"
proof -
  obtain bs w' where r: "rand (nat n) w = (Ok bs, w')" and l: "length bs = nat n"
    using assms(1) unfolding never_fails_def by blast
  have "int (length bs) = n" "\<not> n < 0" using l assms(2) by simp_all
  with slice_b64 [of b64_url_alphabet bs] length_take_b64 [OF l, of b64_url_alphabet] l r
  show ?thesis
    by (simp add: RandomFixedLengthStringOfSize_def generateRandomBytes_def on_result_def)
qed

lemma salt_ok:
  assumes "never_fails rand" and "4 \<le> h_Size h" and "h_Size h \<le> 36"
  shows "\<exists>bs w'. salt rand h w = (Ok bs, w') \<and> length bs = h_Size h - 4"
proof -
  obtain s w' where "RandomFixedLengthStringOfSize rand 20 w = (Ok s, w')"
    using RandomFixedLengthStringOfSize_ok [OF assms(1), of 20 w] by auto
  with assms(2,3) show ?thesis
    by (auto simp: salt_def Let_def on_result_def RFC5802MandatedSaltSize_def)
qed

lemma salt_size:
  assumes "salt rand h w = (Ok bs, w')"
  shows "int (length bs) = int (h_Size h) - 4"
  using assms
  by (auto simp: salt_def Let_def on_result_def RFC5802MandatedSaltSize_def split: outcome.splits prod.splits if_splits)

lemma Salts_sizes:
  assumes "Salts rand w = (Ok (s1, s256), w')"
  shows "length s1 = 16 \<and> length s256 = 28"
proof -
  obtain w1 where "salt rand sha1_New w = (Ok s1, w1)" and "salt rand sha256_New w1 = (Ok s256, w')"
    using assms by (auto simp: Salts_def on_result_def split: outcome.splits prod.splits)
  then show ?thesis using salt_size by fastforce
qed

lemma Salts_ok:
  assumes "never_fails rand"
  shows "\<exists>s1 s256 w'. Salts rand w = (Ok (s1, s256), w') \<and> length s1 = 16 \<and> length s256 = 28"
proof -
  obtain s1 w1 where 1: "salt rand sha1_New w = (Ok s1, w1)" "length s1 = 16"
    using salt_ok [OF assms, of sha1_New w] by auto
  obtain s256 w2 where 2: "salt rand sha256_New w1 = (Ok s256, w2)" "length s256 = 28"
    using salt_ok [OF assms, of sha256_New w1] by auto
  from 1 2 show ?thesis by (simp add: Salts_def on_result_def)
qed

text \<open>
  Generated salts always have the size the credentials need, so computing credentials from
  them never fails for the size of the salt: with a working source of randomness, both
  credentials are computed for every password that SASLprep accepts.
\<close>

theorem generated_salts_fit:
  assumes "never_fails rand" and "prep password = Ok p256"
    and "prep (md5Hex (username @ '':mongo:'' @ password)) = Ok p1"
  shows "\<exists>s1 s256 w' c1 c256. Salts rand w = (Ok (s1, s256), w')
    \<and> ComputeScramSha1Creds prep username password s1 = Ok c1
    \<and> ComputeScramSha256Creds prep password s256 = Ok c256"
proof -
  obtain s1 s256 w' where s: "Salts rand w = (Ok (s1, s256), w')" "length s1 = 16" "length s256 = 28"
    using Salts_ok [OF assms(1)] by blast
  with ComputeScramSha1Creds_ok [OF s(2), of prep username password p1, OF assms(3)]
    ComputeScramSha256Creds_ok [OF s(3), of prep password p256, OF assms(2)]
  show ?thesis by blast
qed

definition zero_rand :: "unit rand_read" where
  "zero_rand n w = (Ok (replicate n 0), w)"

lemma zero_rand_ok [simp]: "never_fails zero_rand"
  by (simp add: never_fails_def zero_rand_def)

theorem generated_salts_fit_witness:
  "\<exists>s1 s256 w'. Salts zero_rand () = (Ok (s1, s256), w')"
  using generated_salts_fit [OF zero_rand_ok, of Ok "''pw''" "''pw''" "''u''" _ "()"] by blast

text \<open>
  A failing source of randomness is not reported as an error: the slice of the empty
  encoding panics first, for every positive length.
\<close>

theorem RandomFixedLengthString_panics:
  assumes "0 < n" and "rand (nat n) w = (Fail e, w')"
  shows "RandomFixedLengthStringOfSize rand n w = (Panic SliceOutOfRange, w')"
  using assms
  by (simp add: RandomFixedLengthStringOfSize_def generateRandomBytes_def on_result_def slice_to_def pure_out_def)

definition broken_rand :: "unit rand_read" where
  "broken_rand n w = (Fail (Err ''entropy''), w)"

theorem RandomFixedLengthString_panics_witness:
  "RandomFixedLengthStringOfSize broken_rand 20 () = (Panic SliceOutOfRange, ())"
  by (rule RandomFixedLengthString_panics [where e = "Err ''entropy''"]) (simp_all add: broken_rand_def)

end
