(* ===== verification/Json.thy ===== *)
theory Json
  imports Prelude
begin

text \<open>
  What the code uses of \<open>encoding/json\<close>: documents, their compact text as \<open>Marshal\<close> writes it,
  and a parser as \<open>Unmarshal\<close> reads it. A number is its literal, so that no conversion to and
  from floating point is needed; text is bytes, taken to be UTF-8 without the two separators
  that \<open>Marshal\<close> escapes (U+2028 and U+2029).
\<close>

datatype json = JNull | JBool bool | JNum string | JStr string | JArr "json list" | JObj "(string \<times> json) list"

definition JInt :: "int \<Rightarrow> json" where
  "JInt i = JNum (int_text i)"

section \<open>Text of a document\<close>

definition hex_digit :: "nat \<Rightarrow> char" where
  "hex_digit d = ''0123456789abcdef'' ! d"

definition html_unsafe :: string where
  "html_unsafe = ''<>&''"

definition escape_char :: "char \<Rightarrow> string" where
  "escape_char c =
     (let n = (of_char c :: nat)
      in if c = CHR 0x22 \<or> c = CHR 0x5C then [CHR 0x5C, c]
         else if n = 10 then [CHR 0x5C, CHR ''n'']
         else if n = 13 then [CHR 0x5C, CHR ''r'']
         else if n = 9 then [CHR 0x5C, CHR ''t'']
         else if n < 32 \<or> c \<in> set html_unsafe
              then [CHR 0x5C, CHR ''u'', CHR ''0'', CHR ''0'', hex_digit (n div 16), hex_digit (n mod 16)]
         else [c])"

definition render_string :: "string \<Rightarrow> string" where
  "render_string s = CHR 0x22 # concat (map escape_char s) @ [CHR 0x22]"

fun render :: "json \<Rightarrow> string" where
  "render JNull = ''null''"
| "render (JBool b) = (if b then ''true'' else ''false'')"
| "render (JNum n) = n"
| "render (JStr s) = render_string s"
| "render (JArr xs) = ''['' @ join (map render xs) '','' @ '']''"
| "render (JObj kvs) = ''{'' @ join (map (\<lambda>(k, v). render_string k @ '':'' @ render v) kvs) '','' @ ''}''"

section \<open>Reading a document\<close>

definition hex_val :: "char \<Rightarrow> nat option" where
  "hex_val c =
     (let n = (of_char c :: nat)
      in if 48 \<le> n \<and> n \<le> 57 then Some (n - 48)
         else if 97 \<le> n \<and> n \<le> 102 then Some (n - 87)
         else if 65 \<le> n \<and> n \<le> 70 then Some (n - 55)
         else None)"

text \<open>The UTF-8 bytes of a code unit; a surrogate reads as the replacement character.\<close>

definition utf8 :: "nat \<Rightarrow> string" where
  "utf8 n =
     (if n < 128 then [char_of n]
      else if n < 2048 then [char_of (192 + n div 64), char_of (128 + n mod 64)]
      else if 55296 \<le> n \<and> n < 57344 then [char_of (239 :: nat), char_of (191 :: nat), char_of (189 :: nat)]
      else [char_of (224 + n div 4096), char_of (128 + n div 64 mod 64), char_of (128 + n mod 64)])"

text \<open>The text after a backslash: what it stands for and what is left.\<close>

fun unescape :: "string \<Rightarrow> (string \<times> string) option" where
  "unescape [] = None"
| "unescape (c # rest) =
     (if c = CHR 0x22 \<or> c = CHR 0x5C \<or> c = CHR ''/'' then Some ([c], rest)
      else if c = CHR ''n'' then Some ([CHR 0x0A], rest)
      else if c = CHR ''r'' then Some ([CHR 0x0D], rest)
      else if c = CHR ''t'' then Some ([CHR 0x09], rest)
      else if c = CHR ''b'' then Some ([CHR 0x08], rest)
      else if c = CHR ''f'' then Some ([CHR 0x0C], rest)
      else if c = CHR ''u'' then
        (case rest of h1 # h2 # h3 # h4 # rest' \<Rightarrow>
           (case (hex_val h1, hex_val h2, hex_val h3, hex_val h4) of
              (Some a, Some b, Some c, Some d) \<Rightarrow> Some (utf8 (a * 4096 + b * 256 + c * 16 + d), rest')
            | _ \<Rightarrow> None)
         | _ \<Rightarrow> None)
      else None)"

lemma unescape_shorter: "unescape s = Some (bs, rest) \<Longrightarrow> length rest < length s"
  by (cases s) (auto split: if_splits list.splits option.splits)

text \<open>The text of a string after its opening quote.\<close>

function parse_str :: "string \<Rightarrow> (string \<times> string) option" where
  "parse_str [] = None"
| "parse_str (c # rest) =
     (if c = CHR 0x22 then Some ([], rest)
      else if c = CHR 0x5C then
        (case unescape rest of None \<Rightarrow> None
         | Some (bs, rest') \<Rightarrow>
             (case parse_str rest' of None \<Rightarrow> None | Some (s, rest'') \<Rightarrow> Some (bs @ s, rest'')))
      else if (of_char c :: nat) < 32 then None
      else (case parse_str rest of None \<Rightarrow> None | Some (s, rest') \<Rightarrow> Some (c # s, rest')))"
  by pat_completeness auto
termination
  by (relation "measure length") (auto dest: unescape_shorter)

definition skip_ws :: "string \<Rightarrow> string" where
  "skip_ws s = dropWhile (\<lambda>c. c \<in> set [CHR '' '', CHR 0x0A, CHR 0x0D, CHR 0x09]) s"

definition number_char :: "char \<Rightarrow> bool" where
  "number_char c = (c \<in> set ''0123456789+-.eE'')"

definition is_number :: "string \<Rightarrow> bool" where
  "is_number s = (s \<noteq> [] \<and> list_all number_char s \<and> hd s \<in> set ''-0123456789'')"

text \<open>Values, elements of an array and members of an object, with fuel for the nesting.\<close>

fun parse_value :: "nat \<Rightarrow> string \<Rightarrow> (json \<times> string) option"
  and parse_elems :: "nat \<Rightarrow> string \<Rightarrow> (json list \<times> string) option"
  and parse_members :: "nat \<Rightarrow> string \<Rightarrow> ((string \<times> json) list \<times> string) option" where
  "parse_value 0 s = None"
| "parse_value (Suc n) s =
     (case skip_ws s of
        [] \<Rightarrow> None
      | c # rest \<Rightarrow>
         (if c = CHR 0x22 then map_option (\<lambda>(t, r). (JStr t, r)) (parse_str rest)
          else if c = CHR ''['' then
            (if has_prefix (skip_ws rest) '']'' then Some (JArr [], drop 1 (skip_ws rest))
             else map_option (\<lambda>(xs, r). (JArr xs, r)) (parse_elems n rest))
          else if c = CHR ''{'' then
            (if has_prefix (skip_ws rest) ''}'' then Some (JObj [], drop 1 (skip_ws rest))
             else map_option (\<lambda>(xs, r). (JObj xs, r)) (parse_members n rest))
          else if has_prefix (c # rest) ''null'' then Some (JNull, drop 4 (c # rest))
          else if has_prefix (c # rest) ''true'' then Some (JBool True, drop 4 (c # rest))
          else if has_prefix (c # rest) ''false'' then Some (JBool False, drop 5 (c # rest))
          else let t = takeWhile number_char (c # rest)
               in if is_number t then Some (JNum t, dropWhile number_char (c # rest)) else None))"
| "parse_elems 0 s = None"
| "parse_elems (Suc n) s =
     (case parse_value n s of None \<Rightarrow> None
      | Some (v, rest) \<Rightarrow>
         (case skip_ws rest of
            c # r \<Rightarrow> (if c = CHR '']'' then Some ([v], r)
                     else if c = CHR '','' then map_option (\<lambda>(vs, r'). (v # vs, r')) (parse_elems n r)
                     else None)
          | [] \<Rightarrow> None))"
| "parse_members 0 s = None"
| "parse_members (Suc n) s =
     (case skip_ws s of
        q # rest \<Rightarrow>
          (if q \<noteq> CHR 0x22 then None
           else (case parse_str rest of None \<Rightarrow> None
            | Some (k, rest1) \<Rightarrow>
               (case skip_ws rest1 of
                  col # rest2 \<Rightarrow>
                    (if col \<noteq> CHR '':'' then None
                     else (case parse_value n rest2 of None \<Rightarrow> None
                      | Some (v, rest3) \<Rightarrow>
                         (case skip_ws rest3 of
                            c # r \<Rightarrow> (if c = CHR ''}'' then Some ([(k, v)], r)
                                     else if c = CHR '','' then map_option (\<lambda>(vs, r'). ((k, v) # vs, r')) (parse_members n r)
                                     else None)
                          | [] \<Rightarrow> None)))
                | [] \<Rightarrow> None)))
      | [] \<Rightarrow> None)"

definition parse :: "string \<Rightarrow> json option" where
  "parse s = (case parse_value (Suc (length s)) s of
      Some (j, rest) \<Rightarrow> (if skip_ws rest = [] then Some j else None)
    | None \<Rightarrow> None)"

section \<open>Reading what was written\<close>

lemma hex_cases: "d < 16 \<Longrightarrow> d \<in> {0, 1, 2, 3, 4, 5, 6, 7, 8, 9, 10, 11, 12, 13, 14, 15 :: nat}"
  by simp presburger

lemma hex_val_hex_digit: "d < 16 \<Longrightarrow> hex_val (hex_digit d) = Some d"
  by (drule hex_cases) (auto simp: hex_val_def hex_digit_def)

lemma char_eqI_of_char: "(of_char c :: nat) = of_char d \<Longrightarrow> c = d"
  by (metis char_of_char)

lemma html_unsafe_code: "c \<in> set html_unsafe \<Longrightarrow> (of_char c :: nat) < 128"
  by (auto simp: html_unsafe_def)

lemma unescape_hex:
  assumes "(of_char c :: nat) < 128"
  shows "unescape (CHR ''u'' # CHR ''0'' # CHR ''0'' # hex_digit ((of_char c :: nat) div 16)
      # hex_digit ((of_char c :: nat) mod 16) # rest) = Some ([c], rest)"
proof -
  have z: "hex_val (CHR ''0'') = Some 0" by (simp add: hex_val_def)
  have d: "hex_val (hex_digit ((of_char c :: nat) div 16)) = Some (of_char c div 16)"
    "hex_val (hex_digit ((of_char c :: nat) mod 16)) = Some (of_char c mod 16)"
    using assms by (simp_all add: hex_val_hex_digit)
  have "utf8 (of_char c) = [c]" using assms by (simp add: utf8_def)
  then show ?thesis by (simp add: z d)
qed

lemma parse_str_escape:
  "parse_str (escape_char c @ rest) = map_option (\<lambda>(s, r). (c # s, r)) (parse_str rest)"
proof -
  let ?n = "of_char c :: nat"
  consider (quote) "c = CHR 0x22 \<or> c = CHR 0x5C" | (nl) "c = CHR 0x0A" | (cr) "c = CHR 0x0D" | (tab) "c = CHR 0x09"
    | (hex) "c \<noteq> CHR 0x22 \<and> c \<noteq> CHR 0x5C \<and> ?n \<noteq> 10 \<and> ?n \<noteq> 13 \<and> ?n \<noteq> 9 \<and> (?n < 32 \<or> c \<in> set html_unsafe)"
    | (plain) "c \<noteq> CHR 0x22 \<and> c \<noteq> CHR 0x5C \<and> \<not> ?n < 32 \<and> c \<notin> set html_unsafe"
  proof -
    have "?n = 10 \<Longrightarrow> c = CHR 0x0A" "?n = 13 \<Longrightarrow> c = CHR 0x0D" "?n = 9 \<Longrightarrow> c = CHR 0x09"
      by (rule char_eqI_of_char, simp)+
    then show thesis using that by linarith
  qed
  then show ?thesis
  proof cases
    case hex
    then have "?n < 128" using html_unsafe_code by fastforce
    from unescape_hex [OF this, of rest] hex show ?thesis
      by (simp add: escape_char_def Let_def split: option.split)
  next
    case plain
    then have "escape_char c = [c]" by (auto simp: escape_char_def Let_def)
    with plain show ?thesis by (simp split: option.split)
  qed (auto simp: escape_char_def Let_def split: option.split)
qed

lemma parse_str_render: "parse_str (concat (map escape_char s) @ CHR 0x22 # rest) = Some (s, rest)"
  by (induction s) (simp_all add: parse_str_escape del: parse_str.simps(2), simp)

text \<open>Documents whose numbers are literals, and text that may follow a number.\<close>

fun wf_json :: "json \<Rightarrow> bool" where
  "wf_json (JNum n) = is_number n"
| "wf_json (JArr xs) = list_all wf_json xs"
| "wf_json (JObj kvs) = list_all (\<lambda>(k, v). wf_json v) kvs"
| "wf_json _ = True"

definition ok_rest :: "string \<Rightarrow> bool" where
  "ok_rest rest = (rest = [] \<or> \<not> number_char (hd rest))"

lemma ok_rest_simps [simp]:
  "ok_rest []" "ok_rest (CHR '']'' # r)" "ok_rest (CHR ''}'' # r)" "ok_rest (CHR '','' # r)"
  by (simp_all add: ok_rest_def number_char_def)

lemma skip_ws_token:
  "c \<notin> set [CHR '' '', CHR 0x0A, CHR 0x0D, CHR 0x09] \<Longrightarrow> skip_ws (c # s) = c # s"
  by (simp add: skip_ws_def)

text \<open>The first character of a rendered document starts a token and closes nothing.\<close>

lemma number_start: "c \<in> set ''-0123456789'' \<Longrightarrow> c \<notin> set [CHR '' '', CHR 0x0A, CHR 0x0D, CHR 0x09, CHR '']'', CHR ''}'']"
  by auto

definition token_start :: "char \<Rightarrow> bool" where
  "token_start c = (c \<notin> set [CHR '' '', CHR 0x0A, CHR 0x0D, CHR 0x09, CHR '']'', CHR ''}''])"

lemma token_start_simps [simp]:
  "token_start CHR ''n''" "token_start CHR ''t''" "token_start CHR ''f''" "token_start CHR 0x22"
  "token_start CHR ''[''" "token_start CHR ''{''"
  by (simp_all add: token_start_def)

lemma render_start:
  assumes "wf_json j"
  shows "\<exists>c t. render j = c # t \<and> token_start c"
proof (cases j)
  case (JNum n)
  with assms have "is_number n" by simp
  then have n: "n = hd n # tl n" and h: "hd n \<in> set ''-0123456789''" by (simp_all add: is_number_def)
  from number_start [OF h] have "token_start (hd n)" unfolding token_start_def .
  with n JNum show ?thesis by (metis render.simps(3))
qed (simp_all add: render_string_def)

lemma parse_number:
  assumes n: "is_number n" and r: "ok_rest rest"
  shows "parse_value (Suc fuel) (n @ rest) = Some (JNum n, rest)"
proof -
  have all: "\<forall>c \<in> set n. number_char c" using n by (simp add: is_number_def list_all_iff)
  have tw: "takeWhile number_char (n @ rest) = n" "dropWhile number_char (n @ rest) = rest"
    using all r by (auto simp: ok_rest_def takeWhile_append2 dropWhile_append2 takeWhile_eq_Nil_iff dropWhile_eq_self_iff)
  obtain c t where ct: "n = c # t" and c: "c \<in> set ''-0123456789''"
    using n by (cases n) (auto simp: is_number_def)
  have "skip_ws (n @ rest) = c # t @ rest"
    unfolding ct using number_start [OF c] by (simp add: skip_ws_token)
  moreover have "c \<noteq> CHR 0x22" "c \<noteq> CHR ''[''" "c \<noteq> CHR ''{''" "c \<noteq> CHR ''n''" "c \<noteq> CHR ''t''" "c \<noteq> CHR ''f''"
    using c by auto
  ultimately show ?thesis using n tw by (simp add: ct has_prefix_def)
qed

text \<open>What the main lemma says of one document, and what follows for lists of them.\<close>

definition reads_back :: "json \<Rightarrow> bool" where
  "reads_back j = (\<forall>fuel rest. length (render j) < fuel \<longrightarrow> ok_rest rest
     \<longrightarrow> parse_value fuel (render j @ rest) = Some (j, rest))"

lemma reads_backD:
  "reads_back j \<Longrightarrow> length (render j) < fuel \<Longrightarrow> ok_rest rest \<Longrightarrow> parse_value fuel (render j @ rest) = Some (j, rest)"
  by (simp add: reads_back_def)

lemma skip_ws_close [simp]:
  "skip_ws (CHR '']'' # r) = CHR '']'' # r" "skip_ws (CHR ''}'' # r) = CHR ''}'' # r"
  "skip_ws (CHR '','' # r) = CHR '','' # r" "skip_ws (CHR 0x22 # r) = CHR 0x22 # r"
  "skip_ws (CHR '':'' # r) = CHR '':'' # r"
  by (simp_all add: skip_ws_def)

lemma join_Cons: "ys \<noteq> [] \<Longrightarrow> join (x # ys) sep = x @ sep @ join ys sep"
  by (cases ys) simp_all

lemma parse_elems_render:
  assumes "xs \<noteq> []" and "\<And>x. x \<in> set xs \<Longrightarrow> reads_back x"
    and "length (join (map render xs) '','') + 1 < fuel"
  shows "parse_elems fuel (join (map render xs) '','' @ CHR '']'' # rest) = Some (xs, rest)"
  using assms
proof (induction xs arbitrary: fuel rule: list_nonempty_induct)
  case (single x)
  then obtain n where n: "fuel = Suc n" "length (render x) < n" by (cases fuel) auto
  from reads_backD [OF _ n(2), of "CHR '']'' # rest"] single n show ?case by simp
next
  case (cons x xs)
  then have j: "join (map render (x # xs)) '','' = render x @ CHR '','' # join (map render xs) '',''"
    by (simp add: join_Cons)
  obtain n where n: "fuel = Suc n" using cons.prems(2) by (cases fuel) auto
  with cons.prems(2) j have l: "length (render x) < n" "length (join (map render xs) '','') + 1 < n" by simp_all
  have "parse_elems n (join (map render xs) '','' @ CHR '']'' # rest) = Some (xs, rest)"
    using cons l by simp
  with reads_backD [OF _ l(1), of "CHR '','' # join (map render xs) '','' @ CHR '']'' # rest"] cons.prems(1) n j
  show ?case by simp
qed

definition member_text :: "string \<times> json \<Rightarrow> string" where
  "member_text kv = render_string (fst kv) @ '':'' @ render (snd kv)"

lemma render_JObj: "render (JObj kvs) = ''{'' @ join (map member_text kvs) '','' @ ''}''"
  by (simp add: member_text_def [abs_def] case_prod_unfold)

lemma parse_member:
  assumes "reads_back v" and "length (render v) < n" and "ok_rest rest"
  shows "parse_members (Suc n) (member_text (k, v) @ rest) =
    (case skip_ws rest of c # r \<Rightarrow>
        (if c = CHR ''}'' then Some ([(k, v)], r)
         else if c = CHR '','' then map_option (\<lambda>(vs, r'). ((k, v) # vs, r')) (parse_members n r) else None)
     | [] \<Rightarrow> None)"
  using parse_str_render [of k "CHR '':'' # render v @ rest"] reads_backD [OF assms]
  by (simp add: render_string_def member_text_def)

lemma parse_members_render:
  assumes "kvs \<noteq> []" and "\<And>kv. kv \<in> set kvs \<Longrightarrow> reads_back (snd kv)"
    and "length (join (map member_text kvs) '','') + 1 < fuel"
  shows "parse_members fuel (join (map member_text kvs) '','' @ CHR ''}'' # rest) = Some (kvs, rest)"
  using assms
proof (induction kvs arbitrary: fuel rule: list_nonempty_induct)
  case (single kv)
  obtain k v where kv: "kv = (k, v)" by fastforce
  with single obtain n where n: "fuel = Suc n" "length (render v) < n" by (cases fuel) (auto simp: member_text_def)
  from parse_member [OF _ n(2), of "CHR ''}'' # rest" k] single n kv show ?case by simp
next
  case (cons kv kvs)
  obtain k v where kv: "kv = (k, v)" by fastforce
  have j: "join (map member_text (kv # kvs)) '','' = member_text kv @ CHR '','' # join (map member_text kvs) '',''"
    using cons by (simp add: join_Cons)
  obtain n where n: "fuel = Suc n" using cons.prems(2) by (cases fuel) auto
  have "length (render v) \<le> length (member_text kv)" by (simp add: member_text_def kv)
  with cons.prems(2) [unfolded j n] have l: "length (render v) < n" "length (join (map member_text kvs) '','') + 1 < n"
    by simp_all
  have "parse_members n (join (map member_text kvs) '','' @ CHR ''}'' # rest) = Some (kvs, rest)"
    using cons l by simp
  moreover have "reads_back v" using cons.prems(1) [of kv] kv by simp
  note parse_member [OF this l(1), of "CHR '','' # join (map member_text kvs) '','' @ CHR ''}'' # rest" k]
  ultimately show ?case unfolding j n unfolding kv append_assoc append_Cons by simp
qed

lemma join_start:
  "ys \<noteq> [] \<Longrightarrow> hd ys = c # t \<Longrightarrow> \<exists>t'. join ys sep = c # t'"
  by (cases ys; cases "tl ys") auto

lemma not_close:
  assumes "token_start c"
  shows "skip_ws (c # s) = c # s" "\<not> has_prefix (c # s) '']''" "\<not> has_prefix (c # s) ''}''"
  using assms by (simp_all add: token_start_def skip_ws_token has_prefix_def)

lemma reads_back_JArr:
  assumes wf: "list_all wf_json xs" and IH: "\<And>x. x \<in> set xs \<Longrightarrow> reads_back x"
  shows "reads_back (JArr xs)"
  unfolding reads_back_def
proof (intro allI impI)
  fix fuel rest assume l: "length (render (JArr xs)) < fuel" and "ok_rest rest"
  then obtain n where n: "fuel = Suc n" by (cases fuel) auto
  have sk: "skip_ws (CHR ''['' # s) = CHR ''['' # s" for s by (simp add: skip_ws_def)
  show "parse_value fuel (render (JArr xs) @ rest) = Some (JArr xs, rest)"
  proof (cases "xs = []")
    case True
    then show ?thesis by (simp add: n sk has_prefix_def)
  next
    case False
    then obtain c t where c: "render (hd xs) = c # t" "token_start c"
      using wf render_start by (metis list.pred_set list.set_sel(1))
    obtain t' where t': "join (map render xs) '','' = c # t'"
      using join_start [of "map render xs" c t "'',''"] c(1) False by (auto simp: hd_map)
    have "parse_elems n (join (map render xs) '','' @ CHR '']'' # rest) = Some (xs, rest)"
      using parse_elems_render [OF False IH] l n by simp
    then show ?thesis by (simp add: n sk t' not_close [OF c(2)])
  qed
qed

lemma reads_back_JObj:
  assumes IH: "\<And>kv. kv \<in> set kvs \<Longrightarrow> reads_back (snd kv)"
  shows "reads_back (JObj kvs)"
  unfolding reads_back_def
proof (intro allI impI)
  fix fuel rest assume l: "length (render (JObj kvs)) < fuel" and "ok_rest rest"
  then obtain n where n: "fuel = Suc n" by (cases fuel) auto
  note r = render_JObj
  have sk: "skip_ws (CHR ''{'' # s) = CHR ''{'' # s" for s by (simp add: skip_ws_def)
  show "parse_value fuel (render (JObj kvs) @ rest) = Some (JObj kvs, rest)"
  proof (cases "kvs = []")
    case True
    then show ?thesis by (simp add: n sk has_prefix_def)
  next
    case False
    obtain k v where "hd kvs = (k, v)" by fastforce
    then obtain t' where t': "join (map member_text kvs) '','' = CHR 0x22 # t'"
      using join_start [of "map member_text kvs" "CHR 0x22" _ "'',''"] False
      by (auto simp: hd_map render_string_def member_text_def)
    have "parse_members n (join (map member_text kvs) '','' @ CHR ''}'' # rest) = Some (kvs, rest)"
      using parse_members_render [OF False IH] l n unfolding r by simp
    then show ?thesis unfolding r by (simp add: n sk t' has_prefix_def)
  qed
qed

lemma reads_back_wf: "wf_json j \<Longrightarrow> reads_back j"
proof (induction j rule: json.induct)
  case (JNum n)
  then show ?case unfolding reads_back_def using parse_number by (auto simp: gr0_conv_Suc less_Suc_eq_0_disj elim: lessE)
next
  case (JStr s)
  show ?case unfolding reads_back_def
  proof (intro allI impI)
    fix fuel rest assume "length (render (JStr s)) < fuel"
    then obtain n where "fuel = Suc n" by (cases fuel) auto
    then show "parse_value fuel (render (JStr s) @ rest) = Some (JStr s, rest)"
      using parse_str_render [of s rest] by (simp add: render_string_def)
  qed
next
  case (JArr xs)
  then show ?case by (intro reads_back_JArr) (auto simp: list_all_iff)
next
  case (JObj kvs)
  show ?case
  proof (rule reads_back_JObj)
    fix kv assume kv: "kv \<in> set kvs"
    obtain k v where "kv = (k, v)" by fastforce
    with JObj kv show "reads_back (snd kv)" by (force simp: list_all_iff)
  qed
next
  case (JBool b)
  show ?case unfolding reads_back_def
    by (intro allI impI, case_tac fuel) (auto simp: skip_ws_def has_prefix_def)
next
  case JNull
  show ?case unfolding reads_back_def
    by (intro allI impI, case_tac fuel) (auto simp: skip_ws_def has_prefix_def)
qed

lemma parse_render: "wf_json j \<Longrightarrow> parse (render j) = Some j"
  using reads_backD [OF reads_back_wf, of j "Suc (length (render j))" "[]"]
  by (simp add: parse_def skip_ws_def)

lemma render_inject: "wf_json i \<Longrightarrow> wf_json j \<Longrightarrow> render i = render j \<longleftrightarrow> i = j"
  by (metis option.inject parse_render)

lemma is_number_nat_text: "is_number (nat_text n)"
proof (induction n rule: nat_text.induct)
  case (1 n)
  have d: "digit_char (n mod 10) \<in> set ''0123456789''" for n :: nat
    using nth_mem [of "n mod 10" "''0123456789''"] by (simp add: digit_char_def)
  have num: "number_char c" "c \<in> set ''-0123456789''" if "c \<in> set ''0123456789''" for c
    using that by (auto simp: number_char_def)
  show ?case
  proof (cases "n < 10")
    case True
    then show ?thesis using d [of n] num [of "digit_char n"]
      by (subst nat_text.simps) (simp add: is_number_def)
  next
    case False
    with 1 have "is_number (nat_text (n div 10))" by simp
    with False d [of n] num [of "digit_char (n mod 10)"] show ?thesis
      by (subst nat_text.simps) (simp add: is_number_def hd_append)
  qed
qed

lemma wf_JInt [simp]: "wf_json (JInt i)"
  using is_number_nat_text [of "nat i"] is_number_nat_text [of "nat (- i)"]
  by (auto simp: JInt_def int_text_def is_number_def number_char_def)

end
