(* ===== verification/Automation_Types.thy ===== *)
theory Automation_Types
  imports Json ScramCreds Util "HOL-Library.Monad_Syntax"
begin

text \<open>
  The data of \<open>pkg/automationconfig/automation_config.go\<close>: the automation configuration that the
  operator writes for the agents, and its JSON form given by the struct tags. A slice
  that is written without \<open>omitempty\<close> keeps the difference between nil (\<open>null\<close>) and empty
  (\<open>[]\<close>) as an option; a slice or map with \<open>omitempty\<close> is left out when it is empty.
\<close>

section \<open>Types\<close>

type_synonym 'a slice = "'a list option"

definition elems :: "'a slice \<Rightarrow> 'a list" where
  "elems s = (case s of None \<Rightarrow> [] | Some xs \<Rightarrow> xs)"

lemma elems_simps [simp]: "elems None = []" "elems (Some xs) = xs"
  by (simp_all add: elems_def)

text \<open>A document object from a third-party map type: \<open>objx.Map\<close>, nil or not.\<close>

type_synonym objx_map = "json gomap option"

record process =
  proc_Name :: string
  proc_HostName :: string
  proc_Args26 :: objx_map
  proc_FeatureCompatibilityVersion :: string
  proc_ProcessType :: string
  proc_Version :: string
  proc_AuthSchemaVersion :: int

definition empty_process :: process where
  "empty_process = \<lparr>proc_Name = '''', proc_HostName = '''', proc_Args26 = None,
     proc_FeatureCompatibilityVersion = '''', proc_ProcessType = '''', proc_Version = '''',
     proc_AuthSchemaVersion = 0\<rparr>"

type_synonym horizons = "string gomap"

record replica_set_member =
  mem_Id :: int
  mem_Host :: string
  mem_Priority :: int
  mem_ArbiterOnly :: bool
  mem_Votes :: int
  mem_Horizons :: horizons

record replica_set =
  rs_Id :: string
  rs_Members :: "replica_set_member slice"
  rs_ProtocolVersion :: string
  rs_NumberArbiters :: int

record ac_role =
  acr_Role :: string
  acr_Database :: string

record ac_user =
  acu_Mechanisms :: "string slice"
  acu_Roles :: "ac_role slice"
  acu_Username :: string
  acu_Database :: string
  acu_AuthenticationRestrictions :: "string slice"
  acu_ScramSha256Creds :: "ScramCreds option"
  acu_ScramSha1Creds :: "ScramCreds option"

record auth =
  auth_Users :: "ac_user list"
  auth_Disabled :: bool
  auth_AuthoritativeSet :: bool
  auth_AutoAuthMechanisms :: "string list"
  auth_AutoAuthMechanism :: string
  auth_DeploymentAuthMechanisms :: "string list"
  auth_AutoUser :: string
  auth_Key :: string
  auth_KeyFile :: string
  auth_KeyFileWindows :: string
  auth_AutoPwd :: string

definition empty_auth :: auth where
  "empty_auth = \<lparr>auth_Users = [], auth_Disabled = False, auth_AuthoritativeSet = False,
     auth_AutoAuthMechanisms = [], auth_AutoAuthMechanism = '''', auth_DeploymentAuthMechanisms = [],
     auth_AutoUser = '''', auth_Key = '''', auth_KeyFile = '''', auth_KeyFileWindows = '''',
     auth_AutoPwd = ''''\<rparr>"

record tls_config =
  tls_CAFilePath :: string
  tls_ClientCertificateMode :: string

record build_config =
  bc_Platform :: string
  bc_Url :: string
  bc_GitVersion :: string
  bc_Architecture :: string
  bc_Flavor :: string
  bc_MinOsVersion :: string
  bc_MaxOsVersion :: string
  bc_Modules :: "string slice"

record version_config =
  vc_Name :: string
  vc_Builds :: "build_config slice"

record backup_version =
  bv_BaseUrl :: string

record monitoring_version =
  mv_Hostname :: string
  mv_Name :: string
  mv_BaseUrl :: string
  mv_AdditionalParams :: "string gomap"

record ac_options =
  opt_DownloadBase :: string

record ac_resource =
  acres_DB :: "string option"
  acres_Collection :: "string option"
  acres_AnyResource :: bool
  acres_Cluster :: bool

record ac_privilege =
  acp_Resource :: ac_resource
  acp_Actions :: "string slice"

record ac_restriction =
  acar_ClientSource :: "string slice"
  acar_ServerAddress :: "string slice"

record ac_custom_role =
  accr_Role :: string
  accr_DB :: string
  accr_Privileges :: "ac_privilege slice"
  accr_Roles :: "ac_role slice"
  accr_AuthenticationRestrictions :: "ac_restriction list"

record automation_config =
  ac_Version :: int
  ac_Processes :: "process slice"
  ac_ReplicaSets :: "replica_set slice"
  ac_Auth :: auth
  ac_TLSConfig :: "tls_config option"
  ac_SSLConfig :: "tls_config option"
  ac_Versions :: "version_config slice"
  ac_BackupVersions :: "backup_version slice"
  ac_MonitoringVersions :: "monitoring_version slice"
  ac_Options :: ac_options
  ac_Roles :: "ac_custom_role list"

definition empty_ac :: automation_config where
  "empty_ac = \<lparr>ac_Version = 0, ac_Processes = None, ac_ReplicaSets = None, ac_Auth = empty_auth,
     ac_TLSConfig = None, ac_SSLConfig = None, ac_Versions = None, ac_BackupVersions = None,
     ac_MonitoringVersions = None, ac_Options = \<lparr>opt_DownloadBase = ''''\<rparr>, ac_Roles = []\<rparr>"

section \<open>Writing JSON\<close>

text \<open>\<open>Marshal\<close> writes the keys of a map in order, at every depth.\<close>

fun canon :: "json \<Rightarrow> json" where
  "canon (JArr xs) = JArr (map canon xs)"
| "canon (JObj kvs) = JObj (sort_key fst (map (\<lambda>(k, v). (k, canon v)) kvs))"
| "canon j = j"

definition enc_slice :: "('a \<Rightarrow> json) \<Rightarrow> 'a slice \<Rightarrow> json" where
  "enc_slice e s = (case s of None \<Rightarrow> JNull | Some xs \<Rightarrow> JArr (map e xs))"

definition enc_ptr :: "('a \<Rightarrow> json) \<Rightarrow> 'a option \<Rightarrow> json" where
  "enc_ptr e p = (case p of None \<Rightarrow> JNull | Some x \<Rightarrow> e x)"

definition enc_map :: "('v \<Rightarrow> json) \<Rightarrow> 'v gomap \<Rightarrow> json" where
  "enc_map e m = JObj (map (\<lambda>(k, v). (k, e v)) (sort_key fst m))"

definition enc_objx :: "objx_map \<Rightarrow> json" where
  "enc_objx m = (case m of None \<Rightarrow> JNull | Some kvs \<Rightarrow> canon (JObj kvs))"

text \<open>A field with \<open>omitempty\<close>.\<close>

definition omitempty :: "bool \<Rightarrow> string \<Rightarrow> json \<Rightarrow> (string \<times> json) list" where
  "omitempty is_empty k v = (if is_empty then [] else [(k, v)])"

definition enc_creds :: "ScramCreds \<Rightarrow> json" where
  "enc_creds c = JObj [(''iterationCount'', JInt (IterationCount c)), (''salt'', JStr (Salt c)),
     (''serverKey'', JStr (ServerKey c)), (''storedKey'', JStr (StoredKey c))]"

definition enc_process :: "process \<Rightarrow> json" where
  "enc_process p = JObj [(''name'', JStr (proc_Name p)), (''hostname'', JStr (proc_HostName p)),
     (''args2_6'', enc_objx (proc_Args26 p)),
     (''featureCompatibilityVersion'', JStr (proc_FeatureCompatibilityVersion p)),
     (''processType'', JStr (proc_ProcessType p)), (''version'', JStr (proc_Version p)),
     (''authSchemaVersion'', JInt (proc_AuthSchemaVersion p))]"

definition enc_member :: "replica_set_member \<Rightarrow> json" where
  "enc_member m = JObj ([(''_id'', JInt (mem_Id m)), (''host'', JStr (mem_Host m)),
     (''priority'', JInt (mem_Priority m)), (''arbiterOnly'', JBool (mem_ArbiterOnly m)),
     (''votes'', JInt (mem_Votes m))]
     @ omitempty (mem_Horizons m = []) ''horizons'' (enc_map JStr (mem_Horizons m)))"

definition enc_replica_set :: "replica_set \<Rightarrow> json" where
  "enc_replica_set r = JObj [(''_id'', JStr (rs_Id r)), (''members'', enc_slice enc_member (rs_Members r)),
     (''protocolVersion'', JStr (rs_ProtocolVersion r)), (''numberArbiters'', JInt (rs_NumberArbiters r))]"

definition enc_role :: "ac_role \<Rightarrow> json" where
  "enc_role r = JObj [(''role'', JStr (acr_Role r)), (''db'', JStr (acr_Database r))]"

definition enc_user :: "ac_user \<Rightarrow> json" where
  "enc_user u = JObj [(''mechanisms'', enc_slice JStr (acu_Mechanisms u)),
     (''roles'', enc_slice enc_role (acu_Roles u)), (''user'', JStr (acu_Username u)),
     (''db'', JStr (acu_Database u)),
     (''authenticationRestrictions'', enc_slice JStr (acu_AuthenticationRestrictions u)),
     (''scramSha256Creds'', enc_ptr enc_creds (acu_ScramSha256Creds u)),
     (''scramSha1Creds'', enc_ptr enc_creds (acu_ScramSha1Creds u))]"

definition enc_auth :: "auth \<Rightarrow> json" where
  "enc_auth a = JObj (
     omitempty (auth_Users a = []) ''usersWanted'' (JArr (map enc_user (auth_Users a)))
     @ [(''disabled'', JBool (auth_Disabled a)), (''authoritativeSet'', JBool (auth_AuthoritativeSet a))]
     @ omitempty (auth_AutoAuthMechanisms a = []) ''autoAuthMechanisms'' (JArr (map JStr (auth_AutoAuthMechanisms a)))
     @ [(''autoAuthMechanism'', JStr (auth_AutoAuthMechanism a))]
     @ omitempty (auth_DeploymentAuthMechanisms a = []) ''deploymentAuthMechanisms''
         (JArr (map JStr (auth_DeploymentAuthMechanisms a)))
     @ omitempty (auth_AutoUser a = '''') ''autoUser'' (JStr (auth_AutoUser a))
     @ omitempty (auth_Key a = '''') ''key'' (JStr (auth_Key a))
     @ omitempty (auth_KeyFile a = '''') ''keyfile'' (JStr (auth_KeyFile a))
     @ omitempty (auth_KeyFileWindows a = '''') ''keyfileWindows'' (JStr (auth_KeyFileWindows a))
     @ omitempty (auth_AutoPwd a = '''') ''autoPwd'' (JStr (auth_AutoPwd a)))"

definition enc_tls :: "tls_config \<Rightarrow> json" where
  "enc_tls t = JObj [(''CAFilePath'', JStr (tls_CAFilePath t)),
     (''clientCertificateMode'', JStr (tls_ClientCertificateMode t))]"

definition enc_build :: "build_config \<Rightarrow> json" where
  "enc_build b = JObj [(''platform'', JStr (bc_Platform b)), (''url'', JStr (bc_Url b)),
     (''gitVersion'', JStr (bc_GitVersion b)), (''architecture'', JStr (bc_Architecture b)),
     (''flavor'', JStr (bc_Flavor b)), (''minOsVersion'', JStr (bc_MinOsVersion b)),
     (''maxOsVersion'', JStr (bc_MaxOsVersion b)), (''modules'', enc_slice JStr (bc_Modules b))]"

definition enc_version :: "version_config \<Rightarrow> json" where
  "enc_version v = JObj [(''name'', JStr (vc_Name v)), (''builds'', enc_slice enc_build (vc_Builds v))]"

definition enc_backup :: "backup_version \<Rightarrow> json" where
  "enc_backup b = JObj [(''baseUrl'', JStr (bv_BaseUrl b))]"

definition enc_monitoring :: "monitoring_version \<Rightarrow> json" where
  "enc_monitoring m = JObj ([(''hostname'', JStr (mv_Hostname m)), (''name'', JStr (mv_Name m)),
     (''baseUrl'', JStr (mv_BaseUrl m))]
     @ omitempty (mv_AdditionalParams m = []) ''additionalParams'' (enc_map JStr (mv_AdditionalParams m)))"

definition enc_options :: "ac_options \<Rightarrow> json" where
  "enc_options opts = JObj [(''downloadBase'', JStr (opt_DownloadBase opts))]"

definition enc_resource :: "ac_resource \<Rightarrow> json" where
  "enc_resource r = JObj (
     omitempty (acres_DB r = None) ''db'' (enc_ptr JStr (acres_DB r))
     @ omitempty (acres_Collection r = None) ''collection'' (enc_ptr JStr (acres_Collection r))
     @ omitempty (\<not> acres_AnyResource r) ''anyResource'' (JBool (acres_AnyResource r))
     @ omitempty (\<not> acres_Cluster r) ''cluster'' (JBool (acres_Cluster r)))"

definition enc_privilege :: "ac_privilege \<Rightarrow> json" where
  "enc_privilege p = JObj [(''resource'', enc_resource (acp_Resource p)), (''actions'', enc_slice JStr (acp_Actions p))]"

definition enc_restriction :: "ac_restriction \<Rightarrow> json" where
  "enc_restriction r = JObj [(''clientSource'', enc_slice JStr (acar_ClientSource r)),
     (''serverAddress'', enc_slice JStr (acar_ServerAddress r))]"

definition enc_custom_role :: "ac_custom_role \<Rightarrow> json" where
  "enc_custom_role r = JObj ([(''role'', JStr (accr_Role r)), (''db'', JStr (accr_DB r)),
     (''privileges'', enc_slice enc_privilege (accr_Privileges r)), (''roles'', enc_slice enc_role (accr_Roles r))]
     @ omitempty (accr_AuthenticationRestrictions r = []) ''authenticationRestrictions''
         (JArr (map enc_restriction (accr_AuthenticationRestrictions r))))"

definition enc_ac :: "automation_config \<Rightarrow> json" where
  "enc_ac ac = JObj ([(''version'', JInt (ac_Version ac)), (''processes'', enc_slice enc_process (ac_Processes ac)),
     (''replicaSets'', enc_slice enc_replica_set (ac_ReplicaSets ac)), (''auth'', enc_auth (ac_Auth ac))]
     @ omitempty (ac_TLSConfig ac = None) ''tls'' (enc_ptr enc_tls (ac_TLSConfig ac))
     @ omitempty (ac_SSLConfig ac = None) ''ssl'' (enc_ptr enc_tls (ac_SSLConfig ac))
     @ [(''mongoDbVersions'', enc_slice enc_version (ac_Versions ac)),
        (''backupVersions'', enc_slice enc_backup (ac_BackupVersions ac)),
        (''monitoringVersions'', enc_slice enc_monitoring (ac_MonitoringVersions ac)),
        (''options'', enc_options (ac_Options ac))]
     @ omitempty (ac_Roles ac = []) ''roles'' (JArr (map enc_custom_role (ac_Roles ac))))"

text \<open>\<open>json.Marshal\<close> of an automation configuration never fails.\<close>

definition marshal_ac :: "automation_config \<Rightarrow> string" where
  "marshal_ac ac = render (enc_ac ac)"

end
