(* ===== verification/Automation_Json.thy ===== *)
theory Automation_Json
  imports Automation_Types
begin

text \<open>
  \<open>json.Unmarshal\<close> into an automation configuration: fields are found by their tag, unknown ones are
  ignored, missing ones and \<open>null\<close> leave the zero value, and a value of another type is an error.
  Reading a configuration that was written gives it back, up to the order of map keys.
\<close>

section \<open>Reading JSON\<close>

definition jfield :: "(string \<times> json) list \<Rightarrow> string \<Rightarrow> json option" where
  "jfield kvs k = map_of (rev kvs) k"

definition is_digits :: "string \<Rightarrow> bool" where
  "is_digits s = (s \<noteq> [] \<and> list_all (\<lambda>c. c \<in> set ''0123456789'') s)"

definition int_of_literal :: "string \<Rightarrow> int option" where
  "int_of_literal s =
     (if is_digits s then Some (int (nat_of_string s))
      else if s \<noteq> [] \<and> hd s = CHR ''-'' \<and> is_digits (tl s) then Some (- int (nat_of_string (tl s)))
      else None)"

definition dec_str :: "json option \<Rightarrow> string option" where
  "dec_str j = (case j of None \<Rightarrow> Some '''' | Some JNull \<Rightarrow> Some '''' | Some (JStr s) \<Rightarrow> Some s | _ \<Rightarrow> None)"

definition dec_int :: "json option \<Rightarrow> int option" where
  "dec_int j = (case j of None \<Rightarrow> Some 0 | Some JNull \<Rightarrow> Some 0 | Some (JNum n) \<Rightarrow> int_of_literal n | _ \<Rightarrow> None)"

definition dec_bool :: "json option \<Rightarrow> bool option" where
  "dec_bool j = (case j of None \<Rightarrow> Some False | Some JNull \<Rightarrow> Some False | Some (JBool b) \<Rightarrow> Some b | _ \<Rightarrow> None)"

definition dec_slice :: "(json option \<Rightarrow> 'a option) \<Rightarrow> json option \<Rightarrow> 'a slice option" where
  "dec_slice d j = (case j of None \<Rightarrow> Some None | Some JNull \<Rightarrow> Some None
     | Some (JArr xs) \<Rightarrow> map_option Some (those (map (\<lambda>x. d (Some x)) xs)) | _ \<Rightarrow> None)"

definition dec_list :: "(json option \<Rightarrow> 'a option) \<Rightarrow> json option \<Rightarrow> 'a list option" where
  "dec_list d j = map_option elems (dec_slice d j)"

definition dec_ptr :: "(json option \<Rightarrow> 'a option) \<Rightarrow> json option \<Rightarrow> 'a option option" where
  "dec_ptr d j = (case j of None \<Rightarrow> Some None | Some JNull \<Rightarrow> Some None | Some x \<Rightarrow> map_option Some (d (Some x)))"

definition dec_map :: "(json option \<Rightarrow> 'v option) \<Rightarrow> json option \<Rightarrow> 'v gomap option" where
  "dec_map d j = (case j of None \<Rightarrow> Some [] | Some JNull \<Rightarrow> Some []
     | Some (JObj kvs) \<Rightarrow>
         map_option (\<lambda>vs. put_all [] (zip (map fst kvs) vs)) (those (map (\<lambda>kv. d (Some (snd kv))) kvs))
     | _ \<Rightarrow> None)"

definition dec_objx :: "json option \<Rightarrow> objx_map option" where
  "dec_objx j = (case j of None \<Rightarrow> Some None | Some JNull \<Rightarrow> Some None
     | Some (JObj kvs) \<Rightarrow> Some (Some (put_all [] kvs)) | _ \<Rightarrow> None)"

definition dec_struct :: "((string \<times> json) list \<Rightarrow> 'a option) \<Rightarrow> json option \<Rightarrow> 'a option" where
  "dec_struct f j = (case j of None \<Rightarrow> f [] | Some JNull \<Rightarrow> f [] | Some (JObj kvs) \<Rightarrow> f kvs | _ \<Rightarrow> None)"

definition dec_creds :: "json option \<Rightarrow> ScramCreds option" where
  "dec_creds = dec_struct (\<lambda>kvs. do {
     n \<leftarrow> dec_int (jfield kvs ''iterationCount''); s \<leftarrow> dec_str (jfield kvs ''salt'');
     sv \<leftarrow> dec_str (jfield kvs ''serverKey''); st \<leftarrow> dec_str (jfield kvs ''storedKey'');
     Some \<lparr>IterationCount = n, Salt = s, ServerKey = sv, StoredKey = st\<rparr> })"

definition dec_process :: "json option \<Rightarrow> process option" where
  "dec_process = dec_struct (\<lambda>kvs. do {
     n \<leftarrow> dec_str (jfield kvs ''name''); h \<leftarrow> dec_str (jfield kvs ''hostname'');
     a \<leftarrow> dec_objx (jfield kvs ''args2_6''); f \<leftarrow> dec_str (jfield kvs ''featureCompatibilityVersion'');
     t \<leftarrow> dec_str (jfield kvs ''processType''); v \<leftarrow> dec_str (jfield kvs ''version'');
     s \<leftarrow> dec_int (jfield kvs ''authSchemaVersion'');
     Some \<lparr>proc_Name = n, proc_HostName = h, proc_Args26 = a, proc_FeatureCompatibilityVersion = f,
       proc_ProcessType = t, proc_Version = v, proc_AuthSchemaVersion = s\<rparr> })"

definition dec_member :: "json option \<Rightarrow> replica_set_member option" where
  "dec_member = dec_struct (\<lambda>kvs. do {
     i \<leftarrow> dec_int (jfield kvs ''_id''); h \<leftarrow> dec_str (jfield kvs ''host'');
     p \<leftarrow> dec_int (jfield kvs ''priority''); a \<leftarrow> dec_bool (jfield kvs ''arbiterOnly'');
     v \<leftarrow> dec_int (jfield kvs ''votes''); hs \<leftarrow> dec_map dec_str (jfield kvs ''horizons'');
     Some \<lparr>mem_Id = i, mem_Host = h, mem_Priority = p, mem_ArbiterOnly = a, mem_Votes = v, mem_Horizons = hs\<rparr> })"

definition dec_replica_set :: "json option \<Rightarrow> replica_set option" where
  "dec_replica_set = dec_struct (\<lambda>kvs. do {
     i \<leftarrow> dec_str (jfield kvs ''_id''); m \<leftarrow> dec_slice dec_member (jfield kvs ''members'');
     p \<leftarrow> dec_str (jfield kvs ''protocolVersion''); n \<leftarrow> dec_int (jfield kvs ''numberArbiters'');
     Some \<lparr>rs_Id = i, rs_Members = m, rs_ProtocolVersion = p, rs_NumberArbiters = n\<rparr> })"

definition dec_role :: "json option \<Rightarrow> ac_role option" where
  "dec_role = dec_struct (\<lambda>kvs. do {
     r \<leftarrow> dec_str (jfield kvs ''role''); d \<leftarrow> dec_str (jfield kvs ''db'');
     Some \<lparr>acr_Role = r, acr_Database = d\<rparr> })"

definition dec_user :: "json option \<Rightarrow> ac_user option" where
  "dec_user = dec_struct (\<lambda>kvs. do {
     m \<leftarrow> dec_slice dec_str (jfield kvs ''mechanisms''); r \<leftarrow> dec_slice dec_role (jfield kvs ''roles'');
     u \<leftarrow> dec_str (jfield kvs ''user''); d \<leftarrow> dec_str (jfield kvs ''db'');
     a \<leftarrow> dec_slice dec_str (jfield kvs ''authenticationRestrictions'');
     c256 \<leftarrow> dec_ptr dec_creds (jfield kvs ''scramSha256Creds'');
     c1 \<leftarrow> dec_ptr dec_creds (jfield kvs ''scramSha1Creds'');
     Some \<lparr>acu_Mechanisms = m, acu_Roles = r, acu_Username = u, acu_Database = d,
       acu_AuthenticationRestrictions = a, acu_ScramSha256Creds = c256, acu_ScramSha1Creds = c1\<rparr> })"

definition dec_auth :: "json option \<Rightarrow> auth option" where
  "dec_auth = dec_struct (\<lambda>kvs. do {
     us \<leftarrow> dec_list dec_user (jfield kvs ''usersWanted''); dis \<leftarrow> dec_bool (jfield kvs ''disabled'');
     s \<leftarrow> dec_bool (jfield kvs ''authoritativeSet'');
     ams \<leftarrow> dec_list dec_str (jfield kvs ''autoAuthMechanisms'');
     am \<leftarrow> dec_str (jfield kvs ''autoAuthMechanism'');
     dms \<leftarrow> dec_list dec_str (jfield kvs ''deploymentAuthMechanisms'');
     u \<leftarrow> dec_str (jfield kvs ''autoUser''); k \<leftarrow> dec_str (jfield kvs ''key'');
     kf \<leftarrow> dec_str (jfield kvs ''keyfile''); kw \<leftarrow> dec_str (jfield kvs ''keyfileWindows'');
     p \<leftarrow> dec_str (jfield kvs ''autoPwd'');
     Some \<lparr>auth_Users = us, auth_Disabled = dis, auth_AuthoritativeSet = s, auth_AutoAuthMechanisms = ams,
       auth_AutoAuthMechanism = am, auth_DeploymentAuthMechanisms = dms, auth_AutoUser = u, auth_Key = k,
       auth_KeyFile = kf, auth_KeyFileWindows = kw, auth_AutoPwd = p\<rparr> })"

definition dec_tls :: "json option \<Rightarrow> tls_config option" where
  "dec_tls = dec_struct (\<lambda>kvs. do {
     f \<leftarrow> dec_str (jfield kvs ''CAFilePath''); m \<leftarrow> dec_str (jfield kvs ''clientCertificateMode'');
     Some \<lparr>tls_CAFilePath = f, tls_ClientCertificateMode = m\<rparr> })"

definition dec_build :: "json option \<Rightarrow> build_config option" where
  "dec_build = dec_struct (\<lambda>kvs. do {
     p \<leftarrow> dec_str (jfield kvs ''platform''); u \<leftarrow> dec_str (jfield kvs ''url'');
     g \<leftarrow> dec_str (jfield kvs ''gitVersion''); a \<leftarrow> dec_str (jfield kvs ''architecture'');
     f \<leftarrow> dec_str (jfield kvs ''flavor''); mi \<leftarrow> dec_str (jfield kvs ''minOsVersion'');
     ma \<leftarrow> dec_str (jfield kvs ''maxOsVersion''); ms \<leftarrow> dec_slice dec_str (jfield kvs ''modules'');
     Some \<lparr>bc_Platform = p, bc_Url = u, bc_GitVersion = g, bc_Architecture = a, bc_Flavor = f,
       bc_MinOsVersion = mi, bc_MaxOsVersion = ma, bc_Modules = ms\<rparr> })"

definition dec_version :: "json option \<Rightarrow> version_config option" where
  "dec_version = dec_struct (\<lambda>kvs. do {
     n \<leftarrow> dec_str (jfield kvs ''name''); b \<leftarrow> dec_slice dec_build (jfield kvs ''builds'');
     Some \<lparr>vc_Name = n, vc_Builds = b\<rparr> })"

definition dec_backup :: "json option \<Rightarrow> backup_version option" where
  "dec_backup = dec_struct (\<lambda>kvs. do { u \<leftarrow> dec_str (jfield kvs ''baseUrl''); Some \<lparr>bv_BaseUrl = u\<rparr> })"

definition dec_monitoring :: "json option \<Rightarrow> monitoring_version option" where
  "dec_monitoring = dec_struct (\<lambda>kvs. do {
     h \<leftarrow> dec_str (jfield kvs ''hostname''); n \<leftarrow> dec_str (jfield kvs ''name'');
     u \<leftarrow> dec_str (jfield kvs ''baseUrl''); p \<leftarrow> dec_map dec_str (jfield kvs ''additionalParams'');
     Some \<lparr>mv_Hostname = h, mv_Name = n, mv_BaseUrl = u, mv_AdditionalParams = p\<rparr> })"

definition dec_options :: "json option \<Rightarrow> ac_options option" where
  "dec_options = dec_struct (\<lambda>kvs. do { d \<leftarrow> dec_str (jfield kvs ''downloadBase''); Some \<lparr>opt_DownloadBase = d\<rparr> })"

definition dec_resource :: "json option \<Rightarrow> ac_resource option" where
  "dec_resource = dec_struct (\<lambda>kvs. do {
     d \<leftarrow> dec_ptr dec_str (jfield kvs ''db''); c \<leftarrow> dec_ptr dec_str (jfield kvs ''collection'');
     a \<leftarrow> dec_bool (jfield kvs ''anyResource''); cl \<leftarrow> dec_bool (jfield kvs ''cluster'');
     Some \<lparr>acres_DB = d, acres_Collection = c, acres_AnyResource = a, acres_Cluster = cl\<rparr> })"

definition dec_privilege :: "json option \<Rightarrow> ac_privilege option" where
  "dec_privilege = dec_struct (\<lambda>kvs. do {
     r \<leftarrow> dec_resource (jfield kvs ''resource''); a \<leftarrow> dec_slice dec_str (jfield kvs ''actions'');
     Some \<lparr>acp_Resource = r, acp_Actions = a\<rparr> })"

definition dec_restriction :: "json option \<Rightarrow> ac_restriction option" where
  "dec_restriction = dec_struct (\<lambda>kvs. do {
     c \<leftarrow> dec_slice dec_str (jfield kvs ''clientSource''); s \<leftarrow> dec_slice dec_str (jfield kvs ''serverAddress'');
     Some \<lparr>acar_ClientSource = c, acar_ServerAddress = s\<rparr> })"

definition dec_custom_role :: "json option \<Rightarrow> ac_custom_role option" where
  "dec_custom_role = dec_struct (\<lambda>kvs. do {
     r \<leftarrow> dec_str (jfield kvs ''role''); d \<leftarrow> dec_str (jfield kvs ''db'');
     p \<leftarrow> dec_slice dec_privilege (jfield kvs ''privileges''); rs \<leftarrow> dec_slice dec_role (jfield kvs ''roles'');
     a \<leftarrow> dec_list dec_restriction (jfield kvs ''authenticationRestrictions'');
     Some \<lparr>accr_Role = r, accr_DB = d, accr_Privileges = p, accr_Roles = rs, accr_AuthenticationRestrictions = a\<rparr> })"

definition dec_ac :: "json option \<Rightarrow> automation_config option" where
  "dec_ac = dec_struct (\<lambda>kvs. do {
     v \<leftarrow> dec_int (jfield kvs ''version''); p \<leftarrow> dec_slice dec_process (jfield kvs ''processes'');
     r \<leftarrow> dec_slice dec_replica_set (jfield kvs ''replicaSets''); a \<leftarrow> dec_auth (jfield kvs ''auth'');
     t \<leftarrow> dec_ptr dec_tls (jfield kvs ''tls''); s \<leftarrow> dec_ptr dec_tls (jfield kvs ''ssl'');
     vs \<leftarrow> dec_slice dec_version (jfield kvs ''mongoDbVersions'');
     bs \<leftarrow> dec_slice dec_backup (jfield kvs ''backupVersions'');
     ms \<leftarrow> dec_slice dec_monitoring (jfield kvs ''monitoringVersions'');
     opts \<leftarrow> dec_options (jfield kvs ''options''); rs \<leftarrow> dec_list dec_custom_role (jfield kvs ''roles'');
     Some \<lparr>ac_Version = v, ac_Processes = p, ac_ReplicaSets = r, ac_Auth = a, ac_TLSConfig = t, ac_SSLConfig = s,
       ac_Versions = vs, ac_BackupVersions = bs, ac_MonitoringVersions = ms, ac_Options = opts, ac_Roles = rs\<rparr> })"

definition FromBytes :: "string \<Rightarrow> automation_config outcome" where
  "FromBytes acBytes =
     (case Option.bind (parse acBytes) (\<lambda>j. dec_ac (Some j)) of
        None \<Rightarrow> Fail (Err ''json: cannot unmarshal automation config'')
      | Some ac \<Rightarrow> Ok ac)"

section \<open>Reading back single values\<close>

lemma jfield_simps [simp]:
  "jfield [] k = None"
  "jfield ((a, v) # xs) k = (case jfield xs k of None \<Rightarrow> if a = k then Some v else None | Some w \<Rightarrow> Some w)"
  "jfield (xs @ ys) k = (case jfield ys k of None \<Rightarrow> jfield xs k | Some w \<Rightarrow> Some w)"
  by (simp_all add: jfield_def map_add_def split: option.split)

lemma jfield_omitempty [simp]:
  "jfield (omitempty c a v) k = (if c then None else if a = k then Some v else None)"
  by (simp add: omitempty_def)

lemma is_digits_nat_text [simp]: "is_digits (nat_text n)"
proof (induction n rule: nat_text.induct)
  case (1 n)
  have d: "digit_char (n mod 10) \<in> set ''0123456789''" for n :: nat
    using nth_mem [of "n mod 10" "''0123456789''"] by (simp add: digit_char_def)
  show ?case
  proof (cases "n < 10")
    case True
    then show ?thesis using d [of n] by (subst nat_text.simps) (simp add: is_digits_def)
  next
    case False
    with 1 d [of n] show ?thesis by (subst nat_text.simps) (simp add: is_digits_def)
  qed
qed

lemma int_of_literal_int_text [simp]: "int_of_literal (int_text i) = Some i"
proof -
  have "\<not> is_digits (''-'' @ s)" for s by (simp add: is_digits_def)
  then show ?thesis by (simp add: int_of_literal_def int_text_def)
qed

lemma dec_simps [simp]:
  "dec_str (Some (JStr s)) = Some s" "dec_str None = Some ''''"
  "dec_int (Some (JInt i)) = Some i" "dec_int None = Some 0"
  "dec_bool (Some (JBool b)) = Some b" "dec_bool None = Some False"
  "dec_map d None = Some []" "dec_ptr d' None = Some None" "dec_list d'' None = Some []"
  "dec_struct f (Some (JObj kvs)) = f kvs"
  by (simp_all add: dec_str_def dec_int_def dec_bool_def dec_map_def dec_ptr_def dec_list_def dec_slice_def
      dec_struct_def JInt_def)

lemma those_map_Some: "(\<And>x. x \<in> set xs \<Longrightarrow> f x = Some (g x)) \<Longrightarrow> those (map f xs) = Some (map g xs)"
  by (induction xs) simp_all

lemma dec_slice_enc:
  assumes "\<And>x. x \<in> set (elems s) \<Longrightarrow> d (Some (e x)) = Some (g x)"
  shows "dec_slice d (Some (enc_slice e s)) = Some (map_option (map g) s)"
proof (cases s)
  case None
  then show ?thesis by (simp add: dec_slice_def enc_slice_def)
next
  case (Some xs)
  then have "those (map (\<lambda>x. d (Some (e x))) xs) = Some (map g xs)"
    using assms by (intro those_map_Some) simp
  with Some show ?thesis by (simp add: dec_slice_def enc_slice_def comp_def)
qed

lemma dec_list_enc:
  assumes "\<And>x. x \<in> set xs \<Longrightarrow> d (Some (e x)) = Some (g x)"
  shows "dec_list d (Some (JArr (map e xs))) = Some (map g xs)"
  using dec_slice_enc [of "Some xs" d e g] assms by (simp add: dec_list_def enc_slice_def)

lemma dec_slice_str [simp]: "dec_slice dec_str (Some (enc_slice JStr s)) = Some s"
  using dec_slice_enc [of s dec_str JStr id] by (simp add: option.map_id)

lemma dec_list_str [simp]: "dec_list dec_str (Some (JArr (map JStr xs))) = Some xs"
  using dec_list_enc [of xs dec_str JStr id] by simp

lemma dec_ptr_str [simp]: "dec_ptr dec_str (Some (enc_ptr JStr p)) = Some p"
  by (cases p) (simp_all add: dec_ptr_def enc_ptr_def)

text \<open>Maps come back with their keys in order.\<close>

lemma wf_sort_key_fst: "wf_map m \<Longrightarrow> wf_map (sort_key fst m)"
  unfolding wf_map_def by (simp only: distinct_sort_key)

lemma put_all_append_distinct: "wf_map (acc @ m) \<Longrightarrow> foldl (\<lambda>m (k, v). put k v m) acc m = acc @ m"
proof (induction m arbitrary: acc)
  case Nil
  then show ?case by simp
next
  case (Cons kv m)
  obtain k v where kv: "kv = (k, v)" by fastforce
  have "k \<notin> fst ` set acc" using Cons.prems by (auto simp: wf_map_def kv)
  then have "put k v acc = acc @ [(k, v)]" unfolding put_def by (induction acc) auto
  with Cons kv show ?case by (simp add: wf_map_def)
qed

lemma put_all_Nil_wf: "wf_map m \<Longrightarrow> put_all [] m = m"
  using put_all_append_distinct [of "[]" m] by (simp add: put_all_def)

lemma dec_map_enc:
  assumes "wf_map m"
  shows "dec_map dec_str (Some (enc_map JStr m)) = Some (sort_key fst m)"
proof -
  have "those (map (\<lambda>kv. dec_str (Some (snd kv))) (map (\<lambda>(k, v). (k, JStr v)) (sort_key fst m))) = Some (map snd (sort_key fst m))"
    unfolding map_map comp_def by (rule those_map_Some) (simp add: case_prod_unfold)
  moreover have "zip (map fst (map (\<lambda>(k, v). (k, JStr v)) (sort_key fst m))) (map snd (sort_key fst m)) = sort_key fst m"
    by (simp add: comp_def case_prod_unfold zip_map_fst_snd)
  ultimately show ?thesis
    by (simp add: dec_map_def enc_map_def put_all_Nil_wf wf_sort_key_fst assms)
qed

lemma sort_key_fst_map: "sort_key fst (map (\<lambda>(k, v). (k, g v)) m) = map (\<lambda>(k, v). (k, g v)) (sort_key fst m)"
  if "wf_map m" for g :: "'a \<Rightarrow> 'b" and m :: "'a gomap"
proof (rule sort_key_inj_key_eq)
  show "mset (map (\<lambda>(k, v). (k, g v)) m) = mset (map (\<lambda>(k, v). (k, g v)) (sort_key fst m))" by simp
  have "distinct (map fst (map (\<lambda>(k, v). (k, g v)) m))" using that by (simp add: wf_map_def comp_def case_prod_unfold)
  then show "inj_on fst (set (map (\<lambda>(k, v). (k, g v)) m))" by (simp only: distinct_map)
  show "sorted (map fst (map (\<lambda>(k, v). (k, g v)) (sort_key fst m)))" by (simp add: comp_def case_prod_unfold)
qed

section \<open>The canonical form of a configuration\<close>

definition canon_obj :: "json gomap \<Rightarrow> json gomap" where
  "canon_obj kvs = sort_key fst (map (\<lambda>(k, v). (k, canon v)) kvs)"

definition canon_process :: "process \<Rightarrow> process" where
  "canon_process p = p\<lparr>proc_Args26 := map_option canon_obj (proc_Args26 p)\<rparr>"

definition canon_member :: "replica_set_member \<Rightarrow> replica_set_member" where
  "canon_member m = m\<lparr>mem_Horizons := sort_key fst (mem_Horizons m)\<rparr>"

definition canon_replica_set :: "replica_set \<Rightarrow> replica_set" where
  "canon_replica_set r = r\<lparr>rs_Members := map_option (map canon_member) (rs_Members r)\<rparr>"

definition canon_monitoring :: "monitoring_version \<Rightarrow> monitoring_version" where
  "canon_monitoring m = m\<lparr>mv_AdditionalParams := sort_key fst (mv_AdditionalParams m)\<rparr>"

definition canon_ac :: "automation_config \<Rightarrow> automation_config" where
  "canon_ac ac = ac\<lparr>ac_Processes := map_option (map canon_process) (ac_Processes ac),
     ac_ReplicaSets := map_option (map canon_replica_set) (ac_ReplicaSets ac),
     ac_MonitoringVersions := map_option (map canon_monitoring) (ac_MonitoringVersions ac)\<rparr>"

text \<open>Every map of the configuration has distinct keys, and the arguments are documents.\<close>

definition wf_args :: "objx_map \<Rightarrow> bool" where
  "wf_args m = (case m of None \<Rightarrow> True | Some kvs \<Rightarrow> wf_map kvs \<and> wf_json (JObj kvs))"

definition wf_ac :: "automation_config \<Rightarrow> bool" where
  "wf_ac ac =
     ((\<forall>p \<in> set (elems (ac_Processes ac)). wf_args (proc_Args26 p))
      \<and> (\<forall>r \<in> set (elems (ac_ReplicaSets ac)). \<forall>m \<in> set (elems (rs_Members r)). wf_map (mem_Horizons m))
      \<and> (\<forall>v \<in> set (elems (ac_MonitoringVersions ac)). wf_map (mv_AdditionalParams v)))"

lemma map_fst_canon: "map fst (map (\<lambda>(k, v). (k, g v)) kvs) = map fst kvs"
  by (simp add: comp_def case_prod_unfold)

lemma sort_key_idem [simp]: "sort_key f (sort_key f xs) = sort_key f xs"
  by (rule sort_key_id_if_sorted) simp

lemma canon_idem [simp]: "canon (canon j) = canon j"
proof (induction j rule: json.induct)
  case (JObj kvs)
  let ?s = "sort_key fst (map (\<lambda>(k, v). (k, canon v)) kvs)"
  have "(\<lambda>(k, v). (k, canon v)) kv = kv" if "kv \<in> set ?s" for kv
  proof -
    from that obtain kv0 where kv0: "kv0 \<in> set kvs" "kv = (fst kv0, canon (snd kv0))"
      by (auto simp: case_prod_unfold)
    have "canon (canon (snd kv0)) = canon (snd kv0)"
      by (rule JObj [OF kv0(1)]) (simp add: snds.simps)
    with kv0 show ?thesis by simp
  qed
  then have "map (\<lambda>(k, v). (k, canon v)) ?s = ?s" by (rule map_idI)
  then show ?case by simp
qed simp_all

lemma wf_canon [simp]: "wf_json (canon j) = wf_json j"
  by (induction j rule: canon.induct) (auto simp: list_all_iff)

lemma canon_obj_idem [simp]: "canon_obj (canon_obj kvs) = canon_obj kvs"
  using canon_idem [of "JObj kvs"] by (simp add: canon_obj_def)

lemma wf_canon_obj: "wf_map kvs \<Longrightarrow> wf_map (canon_obj kvs)"
  unfolding canon_obj_def by (rule wf_sort_key_fst) (simp only: wf_map_def map_fst_canon)

lemma canon_JObj: "canon (JObj kvs) = JObj (canon_obj kvs)"
  by (simp add: canon_obj_def)

lemma enc_objx_canon [simp]: "enc_objx (map_option canon_obj m) = enc_objx m"
  by (cases m) (simp_all add: enc_objx_def canon_JObj del: canon.simps)

lemma dec_objx_enc:
  "wf_args m \<Longrightarrow> dec_objx (Some (enc_objx m)) = Some (map_option canon_obj m)"
  using wf_canon_obj
  by (cases m) (auto simp: dec_objx_def enc_objx_def wf_args_def canon_obj_def [symmetric] put_all_Nil_wf)

lemma enc_map_sorted [simp]: "enc_map e (sort_key fst m) = enc_map e m"
  by (simp add: enc_map_def)

lemma enc_canon_records [simp]:
  "enc_process (canon_process p) = enc_process p" "enc_member (canon_member m) = enc_member m"
  "enc_monitoring (canon_monitoring v) = enc_monitoring v"
proof -
  have e: "sort_key fst kvs = [] \<longleftrightarrow> kvs = []" for kvs :: "(string \<times> 'b) list"
    by (metis length_0_conv length_sort)
  show "enc_process (canon_process p) = enc_process p" by (simp add: enc_process_def canon_process_def)
  show "enc_member (canon_member m) = enc_member m" by (simp add: enc_member_def canon_member_def e)
  show "enc_monitoring (canon_monitoring v) = enc_monitoring v"
    by (simp add: enc_monitoring_def canon_monitoring_def e)
qed

lemma enc_slice_map [simp]: "enc_slice e (map_option (map g) s) = enc_slice (\<lambda>x. e (g x)) s"
  by (cases s) (simp_all add: enc_slice_def comp_def)

lemma enc_replica_set_canon [simp]: "enc_replica_set (canon_replica_set r) = enc_replica_set r"
  by (simp add: enc_replica_set_def canon_replica_set_def)

lemma enc_ac_canon [simp]: "enc_ac (canon_ac ac) = enc_ac ac"
  by (simp add: enc_ac_def canon_ac_def)

section \<open>Reading back records\<close>

lemma dec_enc_plain [simp]:
  "dec_creds (Some (enc_creds c)) = Some c" "dec_role (Some (enc_role r)) = Some r"
  "dec_tls (Some (enc_tls t)) = Some t" "dec_build (Some (enc_build b)) = Some b"
  "dec_backup (Some (enc_backup k)) = Some k" "dec_options (Some (enc_options opts)) = Some opts"
  "dec_restriction (Some (enc_restriction ar)) = Some ar"
  by (simp_all add: dec_creds_def enc_creds_def dec_role_def enc_role_def dec_tls_def enc_tls_def dec_build_def
      enc_build_def dec_backup_def enc_backup_def dec_options_def enc_options_def dec_restriction_def enc_restriction_def)

lemma dec_slice_same:
  "(\<And>x. d (Some (e x)) = Some x) \<Longrightarrow> dec_slice d (Some (enc_slice e s)) = Some s"
  using dec_slice_enc [of s d e id] by (simp add: option.map_id)

lemma dec_list_same:
  "(\<And>x. d (Some (e x)) = Some x) \<Longrightarrow> dec_list d (Some (JArr (map e xs))) = Some xs"
  using dec_list_enc [of xs d e id] by simp

lemma dec_ptr_creds [simp]: "dec_ptr dec_creds (Some (enc_ptr enc_creds p)) = Some p"
  by (cases p) (simp_all add: dec_ptr_def enc_ptr_def enc_creds_def dec_enc_plain(1) [unfolded enc_creds_def])

lemma dec_ptr_tls [simp]: "dec_ptr dec_tls (Some (enc_ptr enc_tls p)) = Some p"
  by (cases p) (simp_all add: dec_ptr_def enc_ptr_def enc_tls_def dec_enc_plain(3) [unfolded enc_tls_def])

lemma dec_user_enc [simp]: "dec_user (Some (enc_user u)) = Some u"
  by (simp add: dec_user_def enc_user_def dec_slice_same)

lemma dec_auth_enc [simp]: "dec_auth (Some (enc_auth a)) = Some a"
  by (simp add: dec_auth_def enc_auth_def dec_list_same)

lemma dec_resource_enc [simp]: "dec_resource (Some (enc_resource r)) = Some r"
  by (simp add: dec_resource_def enc_resource_def)

lemma dec_privilege_enc [simp]: "dec_privilege (Some (enc_privilege p)) = Some p"
  by (simp add: dec_privilege_def enc_privilege_def)

lemma dec_custom_role_enc [simp]: "dec_custom_role (Some (enc_custom_role r)) = Some r"
  by (simp add: dec_custom_role_def enc_custom_role_def dec_slice_same dec_list_same)

lemma dec_version_enc [simp]: "dec_version (Some (enc_version v)) = Some v"
  by (simp add: dec_version_def enc_version_def dec_slice_same)

lemma dec_process_enc: "wf_args (proc_Args26 p) \<Longrightarrow> dec_process (Some (enc_process p)) = Some (canon_process p)"
  by (simp add: dec_process_def enc_process_def canon_process_def dec_objx_enc)

lemma dec_member_enc: "wf_map (mem_Horizons m) \<Longrightarrow> dec_member (Some (enc_member m)) = Some (canon_member m)"
  by (simp add: dec_member_def enc_member_def canon_member_def dec_map_enc)

lemma dec_monitoring_enc:
  "wf_map (mv_AdditionalParams m) \<Longrightarrow> dec_monitoring (Some (enc_monitoring m)) = Some (canon_monitoring m)"
  by (simp add: dec_monitoring_def enc_monitoring_def canon_monitoring_def dec_map_enc)

lemma dec_replica_set_enc:
  "\<forall>m \<in> set (elems (rs_Members r)). wf_map (mem_Horizons m) \<Longrightarrow>
   dec_replica_set (Some (enc_replica_set r)) = Some (canon_replica_set r)"
  using dec_slice_enc [of "rs_Members r" dec_member enc_member canon_member]
  by (simp add: dec_replica_set_def enc_replica_set_def canon_replica_set_def dec_member_enc)

lemma dec_ac_enc:
  assumes "wf_ac ac"
  shows "dec_ac (Some (enc_ac ac)) = Some (canon_ac ac)"
proof -
  have p: "dec_slice dec_process (Some (enc_slice enc_process (ac_Processes ac))) =
      Some (map_option (map canon_process) (ac_Processes ac))"
    using assms by (intro dec_slice_enc dec_process_enc) (simp add: wf_ac_def)
  have r: "dec_slice dec_replica_set (Some (enc_slice enc_replica_set (ac_ReplicaSets ac))) =
      Some (map_option (map canon_replica_set) (ac_ReplicaSets ac))"
    using assms by (intro dec_slice_enc dec_replica_set_enc) (simp add: wf_ac_def)
  have m: "dec_slice dec_monitoring (Some (enc_slice enc_monitoring (ac_MonitoringVersions ac))) =
      Some (map_option (map canon_monitoring) (ac_MonitoringVersions ac))"
    using assms by (intro dec_slice_enc dec_monitoring_enc) (simp add: wf_ac_def)
  show ?thesis
    by (simp add: dec_ac_def enc_ac_def canon_ac_def p r m dec_slice_same dec_list_same)
qed

section \<open>The written document\<close>

lemma wf_enc_slice: "(\<And>x. x \<in> set (elems s) \<Longrightarrow> wf_json (e x)) \<Longrightarrow> wf_json (enc_slice e s)"
  by (cases s) (auto simp: enc_slice_def list_all_iff)

lemma wf_enc_ptr: "(\<And>x. wf_json (e x)) \<Longrightarrow> wf_json (enc_ptr e p)"
  by (cases p) (simp_all add: enc_ptr_def)

lemma wf_enc_map [simp]: "wf_json (enc_map JStr m)"
  by (auto simp: enc_map_def list_all_iff)

lemma wf_omitempty [simp]: "list_all (\<lambda>(k, v). wf_json v) (omitempty c k v) \<longleftrightarrow> c \<or> wf_json v"
  by (simp add: omitempty_def)

lemma wf_enc_list: "(\<And>x. wf_json (e x)) \<Longrightarrow> list_all wf_json (map e xs)"
  by (simp add: list_all_iff)

lemma wf_enc_objx: "wf_args m \<Longrightarrow> wf_json (enc_objx m)"
  by (cases m) (simp_all add: wf_args_def enc_objx_def del: canon.simps)

lemma wf_enc_records [simp]:
  "wf_json (enc_creds c)" "wf_json (enc_member m)" "wf_json (enc_role r)" "wf_json (enc_tls t)" "wf_json (enc_build b)"
  "wf_json (enc_backup k)" "wf_json (enc_monitoring v)" "wf_json (enc_options opts)" "wf_json (enc_resource rs)"
  "wf_json (enc_restriction ar)"
  by (simp_all add: enc_creds_def enc_member_def enc_role_def enc_tls_def enc_build_def enc_backup_def
      enc_monitoring_def enc_options_def enc_resource_def enc_restriction_def wf_enc_slice wf_enc_ptr)

lemma wf_enc_structs [simp]:
  "wf_json (enc_replica_set rs)" "wf_json (enc_user u)" "wf_json (enc_auth a)" "wf_json (enc_version v)"
  "wf_json (enc_privilege p)" "wf_json (enc_custom_role cr)"
proof -
  show u: "wf_json (enc_user u)" for u by (simp add: enc_user_def wf_enc_slice wf_enc_ptr)
  show p: "wf_json (enc_privilege p)" for p by (simp add: enc_privilege_def wf_enc_slice)
  show "wf_json (enc_replica_set rs)" by (simp add: enc_replica_set_def wf_enc_slice)
  show "wf_json (enc_auth a)" by (simp add: enc_auth_def wf_enc_list u del: list.pred_map)
  show "wf_json (enc_version v)" by (simp add: enc_version_def wf_enc_slice)
  show "wf_json (enc_custom_role cr)" by (simp add: enc_custom_role_def wf_enc_slice wf_enc_list p del: list.pred_map)
qed

lemma wf_enc_process: "wf_args (proc_Args26 p) \<Longrightarrow> wf_json (enc_process p)"
  by (simp add: enc_process_def wf_enc_objx)

lemma wf_enc_ac: "wf_ac ac \<Longrightarrow> wf_json (enc_ac ac)"
  by (simp add: enc_ac_def wf_enc_slice wf_enc_ptr wf_enc_process wf_ac_def wf_enc_list del: list.pred_map)

lemma FromBytes_marshal: "wf_ac ac \<Longrightarrow> FromBytes (marshal_ac ac) = Ok (canon_ac ac)"
  by (simp add: FromBytes_def marshal_ac_def parse_render wf_enc_ac dec_ac_enc)

lemma marshal_canon [simp]: "marshal_ac (canon_ac ac) = marshal_ac ac"
  by (simp add: marshal_ac_def)

end
