(* ===== verification/Automation_Contents.thy ===== *)
theory Automation_Contents
  imports Automation_Json
begin

text \<open>
  When two automation configurations say the same, whatever text they are stored as: the
  specification of the comparison, of the version and of the storage of configurations.
\<close>

section \<open>Configurations with the same contents\<close>

text \<open>
  Two configurations say the same when all their fields are equal but for the version, and for the
  order of the entries in their maps: the arguments of the processes, in which also nested objects
  may be ordered differently, the horizons of the members and the parameters of the monitoring agents.
\<close>

definition same_object :: "json gomap \<Rightarrow> json gomap \<Rightarrow> bool" where
  "same_object a b = (\<forall>k. map_option canon (map_of a k) = map_option canon (map_of b k))"

definition same_process :: "process \<Rightarrow> process \<Rightarrow> bool" where
  "same_process p q = (q = p\<lparr>proc_Args26 := proc_Args26 q\<rparr> \<and> rel_option same_object (proc_Args26 p) (proc_Args26 q))"

definition same_member :: "replica_set_member \<Rightarrow> replica_set_member \<Rightarrow> bool" where
  "same_member m n = (n = m\<lparr>mem_Horizons := mem_Horizons n\<rparr> \<and> map_of (mem_Horizons m) = map_of (mem_Horizons n))"

definition same_replica_set :: "replica_set \<Rightarrow> replica_set \<Rightarrow> bool" where
  "same_replica_set r s = (s = r\<lparr>rs_Members := rs_Members s\<rparr> \<and> rel_option (list_all2 same_member) (rs_Members r) (rs_Members s))"

definition same_monitoring :: "monitoring_version \<Rightarrow> monitoring_version \<Rightarrow> bool" where
  "same_monitoring m n = (n = m\<lparr>mv_AdditionalParams := mv_AdditionalParams n\<rparr> \<and> map_of (mv_AdditionalParams m) = map_of (mv_AdditionalParams n))"

definition same_contents :: "automation_config \<Rightarrow> automation_config \<Rightarrow> bool" where
  "same_contents a b = (b = a\<lparr>ac_Version := ac_Version b, ac_Processes := ac_Processes b, ac_ReplicaSets := ac_ReplicaSets b,
       ac_MonitoringVersions := ac_MonitoringVersions b\<rparr>
     \<and> rel_option (list_all2 same_process) (ac_Processes a) (ac_Processes b)
     \<and> rel_option (list_all2 same_replica_set) (ac_ReplicaSets a) (ac_ReplicaSets b)
     \<and> rel_option (list_all2 same_monitoring) (ac_MonitoringVersions a) (ac_MonitoringVersions b))"

text \<open>It is decided by the canonical forms.\<close>

lemma sort_key_map_of:
  assumes "wf_map a" and "wf_map b"
  shows "sort_key fst a = sort_key fst b \<longleftrightarrow> map_of a = map_of b"
proof
  assume "sort_key fst a = sort_key fst b"
  then have "set a = set b" by (metis set_sort)
  with assms show "map_of a = map_of b" by (simp add: map_of_inject_set wf_map_def)
next
  assume "map_of a = map_of b"
  then have "set a = set b" using assms by (simp add: map_of_inject_set wf_map_def)
  moreover have "distinct a" "distinct b" "inj_on fst (set b)" using assms by (auto simp: wf_map_def distinct_map)
  ultimately show "sort_key fst a = sort_key fst b" by (intro sort_key_mset_cong) (simp_all add: set_eq_iff_mset_eq_distinct)
qed

lemma canon_obj_eq:
  assumes "wf_map a" and "wf_map b"
  shows "canon_obj a = canon_obj b \<longleftrightarrow> same_object a b"
proof -
  have "wf_map (map (\<lambda>(k, v). (k, canon v)) m)" if "wf_map m" for m using that by (simp only: wf_map_def map_fst_canon)
  from sort_key_map_of [OF this [OF assms(1)] this [OF assms(2)]] show ?thesis
    by (simp add: canon_obj_def same_object_def map_of_map fun_eq_iff)
qed

lemma rel_list_iff:
  assumes "\<And>x y. x \<in> set xs \<Longrightarrow> y \<in> set ys \<Longrightarrow> R x y \<longleftrightarrow> f x = f y"
  shows "list_all2 R xs ys \<longleftrightarrow> map f xs = map f ys"
  using assms by (auto simp: list_all2_conv_all_nth list_eq_iff_nth_eq)

lemma rel_slice_iff:
  assumes "\<And>x y. x \<in> set (elems a) \<Longrightarrow> y \<in> set (elems b) \<Longrightarrow> R x y \<longleftrightarrow> f x = f y"
  shows "rel_option (list_all2 R) a b \<longleftrightarrow> map_option (map f) a = map_option (map f) b"
  using assms rel_list_iff [of "elems a" "elems b" R f] by (cases a; cases b) simp_all

lemma canon_process_eq:
  assumes "wf_args (proc_Args26 p)" and "wf_args (proc_Args26 q)"
  shows "same_process p q \<longleftrightarrow> canon_process p = canon_process q"
  using assms
  by (cases p; cases q; cases "proc_Args26 p"; cases "proc_Args26 q")
    (auto simp: same_process_def canon_process_def wf_args_def canon_obj_eq)

lemma canon_member_eq:
  assumes "wf_map (mem_Horizons m)" and "wf_map (mem_Horizons n)"
  shows "same_member m n \<longleftrightarrow> canon_member m = canon_member n"
  using sort_key_map_of [OF assms] by (cases m; cases n) (auto simp: same_member_def canon_member_def)

lemma canon_monitoring_eq:
  assumes "wf_map (mv_AdditionalParams m)" and "wf_map (mv_AdditionalParams n)"
  shows "same_monitoring m n \<longleftrightarrow> canon_monitoring m = canon_monitoring n"
  using sort_key_map_of [OF assms] by (cases m; cases n) (auto simp: same_monitoring_def canon_monitoring_def)

lemma canon_replica_set_eq:
  assumes "\<forall>m \<in> set (elems (rs_Members r)). wf_map (mem_Horizons m)" and "\<forall>m \<in> set (elems (rs_Members s)). wf_map (mem_Horizons m)"
  shows "same_replica_set r s \<longleftrightarrow> canon_replica_set r = canon_replica_set s"
proof -
  have "rel_option (list_all2 same_member) (rs_Members r) (rs_Members s)
      \<longleftrightarrow> map_option (map canon_member) (rs_Members r) = map_option (map canon_member) (rs_Members s)"
    by (rule rel_slice_iff) (use assms canon_member_eq in blast)
  then show ?thesis by (cases r; cases s) (auto simp: same_replica_set_def canon_replica_set_def)
qed

lemma same_contents_canon:
  assumes "wf_ac a" and "wf_ac b"
  shows "same_contents a b \<longleftrightarrow> canon_ac (a\<lparr>ac_Version := v\<rparr>) = canon_ac (b\<lparr>ac_Version := v\<rparr>)"
proof -
  have "rel_option (list_all2 same_process) (ac_Processes a) (ac_Processes b)
      \<longleftrightarrow> map_option (map canon_process) (ac_Processes a) = map_option (map canon_process) (ac_Processes b)"
    by (rule rel_slice_iff) (use assms canon_process_eq in \<open>unfold wf_ac_def, blast\<close>)
  moreover have "rel_option (list_all2 same_replica_set) (ac_ReplicaSets a) (ac_ReplicaSets b)
      \<longleftrightarrow> map_option (map canon_replica_set) (ac_ReplicaSets a) = map_option (map canon_replica_set) (ac_ReplicaSets b)"
    by (rule rel_slice_iff, rule canon_replica_set_eq) (use assms in \<open>simp_all add: wf_ac_def\<close>)
  moreover have "rel_option (list_all2 same_monitoring) (ac_MonitoringVersions a) (ac_MonitoringVersions b)
      \<longleftrightarrow> map_option (map canon_monitoring) (ac_MonitoringVersions a) = map_option (map canon_monitoring) (ac_MonitoringVersions b)"
    by (rule rel_slice_iff) (use assms canon_monitoring_eq in \<open>unfold wf_ac_def, blast\<close>)
  ultimately show ?thesis by (cases a; cases b) (auto simp: same_contents_def canon_ac_def)
qed

lemma wf_canon_args: "wf_args m \<Longrightarrow> wf_args (map_option canon_obj m)"
  using wf_canon [of "JObj kvs" for kvs] wf_canon_obj by (cases m) (simp_all add: wf_args_def canon_JObj del: canon.simps wf_json.simps)

lemma elems_map [simp]: "elems (map_option (map f) s) = map f (elems s)"
  by (cases s) simp_all

lemma wf_canon_ac: "wf_ac ac \<Longrightarrow> wf_ac (canon_ac ac)"
  by (simp add: wf_ac_def canon_ac_def canon_process_def canon_replica_set_def canon_member_def canon_monitoring_def
      wf_canon_args wf_sort_key_fst)

lemma wf_ac_version [simp]: "wf_ac (ac\<lparr>ac_Version := v\<rparr>) = wf_ac ac"
  by (simp add: wf_ac_def)

lemma same_contents_enc:
  assumes "wf_ac a" and "wf_ac b"
  shows "enc_ac (a\<lparr>ac_Version := v\<rparr>) = enc_ac (b\<lparr>ac_Version := v\<rparr>) \<longleftrightarrow> same_contents a b"
proof -
  have "dec_ac (Some (enc_ac (c\<lparr>ac_Version := v\<rparr>))) = Some (canon_ac (c\<lparr>ac_Version := v\<rparr>))" if "wf_ac c" for c
    by (rule dec_ac_enc) (use that in simp)
  then show ?thesis unfolding same_contents_canon [OF assms, of v] by (metis assms enc_ac_canon option.inject)
qed

lemma same_contents_refl: "wf_ac ac \<Longrightarrow> same_contents ac ac"
  using same_contents_canon [of ac ac 0] by simp

lemma same_contents_canon_ac: "wf_ac ac \<Longrightarrow> same_contents ac (canon_ac ac)"
proof -
  assume wf: "wf_ac ac"
  have "enc_ac ((canon_ac ac)\<lparr>ac_Version := 0\<rparr>) = enc_ac (ac\<lparr>ac_Version := 0\<rparr>)"
    using enc_ac_canon [of "ac\<lparr>ac_Version := 0\<rparr>"] by (cases ac) (simp add: canon_ac_def)
  with same_contents_enc [OF wf wf_canon_ac [OF wf], of 0] show ?thesis by simp
qed

lemma same_contents_names:
  assumes "same_contents a b"
  shows "map proc_Name (elems (ac_Processes b)) = map proc_Name (elems (ac_Processes a))"
proof -
  have "list_all2 same_process (elems (ac_Processes a)) (elems (ac_Processes b))"
    using assms by (cases "ac_Processes a"; cases "ac_Processes b") (auto simp: same_contents_def)
  moreover have "same_process p q \<Longrightarrow> proc_Name q = proc_Name p" for p q by (cases p; cases q) (simp add: same_process_def)
  ultimately show ?thesis by (induction rule: list_all2_induct) simp_all
qed

end
