(* ===== verification/AutomationConfig.thy ===== *)
theory AutomationConfig
  imports Automation_Contents
begin

text \<open>
  The builder of automation configurations (\<open>automation_config_builder.go\<close>, \<open>pkg/util/versions\<close>
  and the operations of \<open>automation_config.go\<close>). What third-party packages do is in \<open>libs\<close>:
  \<open>semver\<close> parses and compares versions, \<open>objx\<close> sets a field by its dotted path in a map that
  is not nil, and \<open>mergo\<close> merges a map over another.
\<close>

section \<open>Third-party packages\<close>

record semver =
  sv_Major :: nat
  sv_Minor :: nat
  sv_Rest :: string

record libs =
  semver_Make :: "string \<Rightarrow> semver option"
  semver_GT :: "semver \<Rightarrow> semver \<Rightarrow> bool"
  semver_GTE :: "semver \<Rightarrow> semver \<Rightarrow> bool"
  objx_Set :: "string \<Rightarrow> json \<Rightarrow> json gomap \<Rightarrow> json gomap"
  mergo_MergeWithOverride :: "json gomap \<Rightarrow> json gomap \<Rightarrow> json gomap"

definition CalculateFeatureCompatibilityVersion :: "libs \<Rightarrow> string \<Rightarrow> string" where
  "CalculateFeatureCompatibilityVersion L versionStr =
     (case semver_Make L versionStr of None \<Rightarrow> ''''
      | Some v1 \<Rightarrow>
         (case semver_Make L ''3.4.0'' of None \<Rightarrow> ''''
          | Some baseVersion \<Rightarrow>
              (if semver_GTE L v1 baseVersion
               then nat_text (sv_Major v1) @ ''.'' @ nat_text (sv_Minor v1) else '''')))"

section \<open>Processes\<close>

definition ensureArgs26 :: "process \<Rightarrow> process" where
  "ensureArgs26 p = (if proc_Args26 p = None then p\<lparr>proc_Args26 := Some []\<rparr> else p)"

definition SetArgs26Field :: "libs \<Rightarrow> string \<Rightarrow> json \<Rightarrow> process \<Rightarrow> process" where
  "SetArgs26Field L fieldName v p =
     (let p' = ensureArgs26 p in p'\<lparr>proc_Args26 := map_option (objx_Set L fieldName v) (proc_Args26 p')\<rparr>)"

definition SetPort :: "libs \<Rightarrow> int \<Rightarrow> process \<Rightarrow> process" where
  "SetPort L port = SetArgs26Field L ''net.port'' (JInt port)"

definition SetStoragePath :: "libs \<Rightarrow> string \<Rightarrow> process \<Rightarrow> process" where
  "SetStoragePath L storagePath = SetArgs26Field L ''storage.dbPath'' (JStr storagePath)"

definition SetReplicaSetName :: "libs \<Rightarrow> string \<Rightarrow> process \<Rightarrow> process" where
  "SetReplicaSetName L replSetName = SetArgs26Field L ''replication.replSetName'' (JStr replSetName)"

record system_log =
  sl_Destination :: string
  sl_Path :: string
  sl_LogAppend :: bool

definition SetSystemLog :: "libs \<Rightarrow> system_log \<Rightarrow> process \<Rightarrow> process" where
  "SetSystemLog L systemLog p =
     SetArgs26Field L ''systemLog.logAppend'' (JBool (sl_LogAppend systemLog))
       (SetArgs26Field L ''systemLog.destination'' (JStr (sl_Destination systemLog))
         (SetArgs26Field L ''systemLog.path'' (JStr (sl_Path systemLog)) p))"

text \<open>The cache size is a floating-point number, given by its literal.\<close>

definition SetWiredTigerCache :: "libs \<Rightarrow> string option \<Rightarrow> process \<Rightarrow> process" where
  "SetWiredTigerCache L cacheSizeGb p =
     (case cacheSizeGb of None \<Rightarrow> p
      | Some n \<Rightarrow> SetArgs26Field L ''storage.wiredTiger.engineConfig.cacheSizeGB'' (JNum n) p)"

section \<open>Members\<close>

definition maxVotingMembers :: int where "maxVotingMembers = 7"

definition newReplicaSetMember :: "process \<Rightarrow> int \<Rightarrow> horizons \<Rightarrow> int \<Rightarrow> int \<Rightarrow> replica_set_member" where
  "newReplicaSetMember p i hs totalVotesSoFar numberArbiters =
     (let isArbiter = totalVotesSoFar < numberArbiters;
          votes = (if totalVotesSoFar > maxVotingMembers then 0 else 1);
          priority = (if totalVotesSoFar > maxVotingMembers then 0 else 1)
      in \<lparr>mem_Id = i, mem_Host = proc_Name p, mem_Priority = priority, mem_ArbiterOnly = isArbiter,
          mem_Votes = votes, mem_Horizons = hs\<rparr>)"

definition disabledAuth :: auth where
  "disabledAuth = empty_auth\<lparr>auth_AutoAuthMechanism := ''MONGODB-CR'', auth_Disabled := True\<rparr>"

section \<open>The builder\<close>

type_synonym modification = "automation_config \<Rightarrow> automation_config outcome"

definition NOOP :: modification where
  "NOOP config = Ok config"

record builder =
  b_replicaSetHorizons :: "horizons list option"
  b_members :: int
  b_arbiters :: int
  b_domain :: string
  b_name :: string
  b_fcv :: string
  b_topology :: string
  b_mongodbVersion :: string
  b_previousAC :: automation_config
  b_versions :: "version_config list"
  b_backupVersions :: "backup_version slice"
  b_monitoringVersions :: "monitoring_version slice"
  b_options :: ac_options
  b_processModifications :: "(int \<Rightarrow> process \<Rightarrow> process) list"
  b_modifications :: "modification list"
  b_auth :: "auth option"
  b_cafilePath :: string
  b_sslConfig :: "tls_config option"
  b_tlsConfig :: "tls_config option"

definition NewBuilder :: builder where
  "NewBuilder = \<lparr>b_replicaSetHorizons = None, b_members = 0, b_arbiters = 0, b_domain = '''', b_name = '''',
     b_fcv = '''', b_topology = '''', b_mongodbVersion = '''', b_previousAC = empty_ac, b_versions = [],
     b_backupVersions = Some [], b_monitoringVersions = Some [], b_options = \<lparr>opt_DownloadBase = ''''\<rparr>,
     b_processModifications = [], b_modifications = [], b_auth = None, b_cafilePath = '''',
     b_sslConfig = None, b_tlsConfig = None\<rparr>"

definition SetOptions :: "ac_options \<Rightarrow> builder \<Rightarrow> builder" where "SetOptions x b = b\<lparr>b_options := x\<rparr>"
definition SetTopology :: "string \<Rightarrow> builder \<Rightarrow> builder" where "SetTopology x b = b\<lparr>b_topology := x\<rparr>"
definition SetReplicaSetHorizons :: "horizons list option \<Rightarrow> builder \<Rightarrow> builder" where
  "SetReplicaSetHorizons x b = b\<lparr>b_replicaSetHorizons := x\<rparr>"
definition SetTLSConfig :: "tls_config \<Rightarrow> builder \<Rightarrow> builder" where "SetTLSConfig x b = b\<lparr>b_tlsConfig := Some x\<rparr>"
definition SetSSLConfig :: "tls_config \<Rightarrow> builder \<Rightarrow> builder" where "SetSSLConfig x b = b\<lparr>b_sslConfig := Some x\<rparr>"
definition SetMembers :: "int \<Rightarrow> builder \<Rightarrow> builder" where "SetMembers x b = b\<lparr>b_members := x\<rparr>"
definition SetArbiters :: "int \<Rightarrow> builder \<Rightarrow> builder" where "SetArbiters x b = b\<lparr>b_arbiters := x\<rparr>"
definition SetDomain :: "string \<Rightarrow> builder \<Rightarrow> builder" where "SetDomain x b = b\<lparr>b_domain := x\<rparr>"
definition SetName :: "string \<Rightarrow> builder \<Rightarrow> builder" where "SetName x b = b\<lparr>b_name := x\<rparr>"
definition SetFCV :: "string \<Rightarrow> builder \<Rightarrow> builder" where "SetFCV x b = b\<lparr>b_fcv := x\<rparr>"
definition SetCAFilePath :: "string \<Rightarrow> builder \<Rightarrow> builder" where "SetCAFilePath x b = b\<lparr>b_cafilePath := x\<rparr>"
definition SetMongoDBVersion :: "string \<Rightarrow> builder \<Rightarrow> builder" where "SetMongoDBVersion x b = b\<lparr>b_mongodbVersion := x\<rparr>"
definition SetBackupVersions :: "backup_version slice \<Rightarrow> builder \<Rightarrow> builder" where
  "SetBackupVersions x b = b\<lparr>b_backupVersions := x\<rparr>"
definition SetMonitoringVersions :: "monitoring_version slice \<Rightarrow> builder \<Rightarrow> builder" where
  "SetMonitoringVersions x b = b\<lparr>b_monitoringVersions := x\<rparr>"
definition SetPreviousAutomationConfig :: "automation_config \<Rightarrow> builder \<Rightarrow> builder" where
  "SetPreviousAutomationConfig x b = b\<lparr>b_previousAC := x\<rparr>"
definition SetAuth :: "auth \<Rightarrow> builder \<Rightarrow> builder" where "SetAuth x b = b\<lparr>b_auth := Some x\<rparr>"
definition AddProcessModification :: "(int \<Rightarrow> process \<Rightarrow> process) \<Rightarrow> builder \<Rightarrow> builder" where
  "AddProcessModification f b = b\<lparr>b_processModifications := b_processModifications b @ [f]\<rparr>"
definition AddModifications :: "modification list \<Rightarrow> builder \<Rightarrow> builder" where
  "AddModifications mods b = b\<lparr>b_modifications := b_modifications b @ mods\<rparr>"

definition AddVersion :: "version_config \<Rightarrow> builder \<Rightarrow> builder" where
  "AddVersion version b =
     (let fix = (\<lambda>bc. if bc_Modules bc = None then bc\<lparr>bc_Modules := Some []\<rparr> else bc)
      in b\<lparr>b_versions := b_versions b @ [version\<lparr>vc_Builds := map_option (map fix) (vc_Builds version)\<rparr>]\<rparr>)"

definition AddVersions :: "version_config list \<Rightarrow> builder \<Rightarrow> builder" where
  "AddVersions versions b = foldl (\<lambda>b v. AddVersion v b) b versions"

text \<open>If we are upgrading, the feature compatibility version stays at its previous value.\<close>

definition setFeatureCompatibilityVersionIfUpgradeIsHappening :: "libs \<Rightarrow> builder \<Rightarrow> builder outcome" where
  "setFeatureCompatibilityVersionIfUpgradeIsHappening L b =
     (case elems (ac_Processes (b_previousAC b)) of
        [] \<Rightarrow> Ok b
      | p # ps \<Rightarrow>
         (if b_fcv b \<noteq> '''' then Ok b
          else let previousFCV = proc_FeatureCompatibilityVersion p
            in case semver_Make L (previousFCV @ ''.0'') of
                 None \<Rightarrow> Fail (Err (''can't compute semver version from previous FeatureCompatibilityVersion '' @ previousFCV))
               | Some previousFCVsemver \<Rightarrow>
                  (case semver_Make L (b_mongodbVersion b) of
                     None \<Rightarrow> Fail (Err (''current MongoDB version is not a valid semver version: '' @ b_mongodbVersion b))
                   | Some currentVersionSemver \<Rightarrow>
                       (if semver_GT L currentVersionSemver previousFCVsemver
                        then Ok (b\<lparr>b_fcv := previousFCV\<rparr>) else Ok b))))"

definition toProcessName :: "string \<Rightarrow> int \<Rightarrow> string" where
  "toProcessName name index = name @ ''-'' @ int_text index"

fun versionsContain :: "version_config list \<Rightarrow> version_config \<Rightarrow> bool" where
  "versionsContain [] version = False"
| "versionsContain (v # vs) version = (if v = version then True else versionsContain vs version)"

definition buildDummyMongoDbVersionConfig :: "string \<Rightarrow> version_config" where
  "buildDummyMongoDbVersionConfig version =
     (let modules = (if has_suffix version ''-ent'' then [''enterprise''] else []);
          config = (\<lambda>flavor. \<lparr>bc_Platform = ''linux'', bc_Url = '''', bc_GitVersion = '''', bc_Architecture = ''amd64'',
            bc_Flavor = flavor, bc_MinOsVersion = '''', bc_MaxOsVersion = '''', bc_Modules = Some modules\<rparr>)
      in \<lparr>vc_Name = version, vc_Builds = Some [config ''rhel'', config ''ubuntu'']\<rparr>)"

definition AreEqual :: "automation_config \<Rightarrow> automation_config \<Rightarrow> bool" where
  "AreEqual ac0 ac1 = (marshal_ac (ac0\<lparr>ac_Version := ac_Version ac1\<rparr>) = marshal_ac ac1)"

text \<open>One turn of the loop over the host names: the process and the member at index \<open>i\<close>.\<close>

definition buildProcess :: "libs \<Rightarrow> builder \<Rightarrow> int \<Rightarrow> string \<Rightarrow> process" where
  "buildProcess L b i h =
     (let process = \<lparr>proc_Name = toProcessName (b_name b) i, proc_HostName = h, proc_Args26 = None,
            proc_FeatureCompatibilityVersion =
              (if b_fcv b \<noteq> '''' then b_fcv b else CalculateFeatureCompatibilityVersion L (b_mongodbVersion b)),
            proc_ProcessType = ''mongod'', proc_Version = b_mongodbVersion b, proc_AuthSchemaVersion = 5\<rparr>
      in foldl (\<lambda>p f. f i p)
           (SetReplicaSetName L (b_name b) (SetStoragePath L ''/data'' (SetPort L 27017 process)))
           (b_processModifications b))"

text \<open>\<open>b.replicaSetHorizons[i]\<close>, when the slice is not nil.\<close>

definition horizonsAt :: "horizons list option \<Rightarrow> int \<Rightarrow> horizons outcome" where
  "horizonsAt hs i = (case hs of None \<Rightarrow> Ok []
     | Some xs \<Rightarrow> (if 0 \<le> i \<and> i < int (length xs) then Ok (xs ! nat i) else Panic IndexOutOfRange))"

fun buildMembers :: "libs \<Rightarrow> builder \<Rightarrow> int \<Rightarrow> int \<Rightarrow> string list \<Rightarrow> (process list \<times> replica_set_member list) outcome" where
  "buildMembers L b i totalVotes [] = Ok ([], [])"
| "buildMembers L b i totalVotes (h # hostnames) =
     (let process = buildProcess L b i h
      in bind_out (horizonsAt (b_replicaSetHorizons b) i) (\<lambda>hs.
           let member = newReplicaSetMember process i hs totalVotes (b_arbiters b)
           in bind_out (buildMembers L b (i + 1) (totalVotes + mem_Votes member) hostnames) (\<lambda>(ps, ms).
                Ok (process # ps, member # ms))))"

definition hostnames :: "builder \<Rightarrow> string list" where
  "hostnames b = map (\<lambda>i. b_name b @ ''-'' @ int_text (int i) @ ''.'' @ b_domain b) [0..<nat (b_members b)]"

fun applyModifications :: "modification list \<Rightarrow> automation_config \<Rightarrow> automation_config outcome" where
  "applyModifications [] ac = Ok ac"
| "applyModifications (m # ms) ac = bind_out (m ac) (applyModifications ms)"

text \<open>The configuration before the modifications are applied.\<close>

definition assembleConfig :: "builder \<Rightarrow> process list \<Rightarrow> replica_set_member list \<Rightarrow> automation_config" where
  "assembleConfig b processes members =
     (let auth = (case b_auth b of None \<Rightarrow> disabledAuth | Some a \<Rightarrow> a);
          dummyConfig = buildDummyMongoDbVersionConfig (b_mongodbVersion b);
          versions = (if \<not> versionsContain (b_versions b) dummyConfig then b_versions b @ [dummyConfig] else b_versions b)
      in \<lparr>ac_Version = ac_Version (b_previousAC b),
          ac_Processes = Some processes,
          ac_ReplicaSets = Some [\<lparr>rs_Id = b_name b, rs_Members = Some members, rs_ProtocolVersion = ''1'', rs_NumberArbiters = 0\<rparr>],
          ac_Auth = auth,
          ac_TLSConfig = (case b_tlsConfig b of
             None \<Rightarrow> Some \<lparr>tls_CAFilePath = b_cafilePath b, tls_ClientCertificateMode = ''OPTIONAL''\<rparr>
           | Some t \<Rightarrow> Some t),
          ac_SSLConfig = b_sslConfig b,
          ac_Versions = Some versions,
          ac_BackupVersions = b_backupVersions b,
          ac_MonitoringVersions = b_monitoringVersions b,
          ac_Options = b_options b,
          ac_Roles = []\<rparr>)"

text \<open>
  \<open>make([]string, b.members)\<close> panics on a negative number of members. What \<open>Build\<close> stores in
  the builder itself is not used again.
\<close>

definition Build :: "libs \<Rightarrow> builder \<Rightarrow> automation_config outcome" where
  "Build L b =
     (if b_members b < 0 then Panic NegativeMake
      else bind_out (wrap_err ''can't build the automation config: ''
             (setFeatureCompatibilityVersionIfUpgradeIsHappening L b)) (\<lambda>b.
        bind_out (buildMembers L b 0 0 (hostnames b)) (\<lambda>(processes, members).
        bind_out (applyModifications (b_modifications b) (assembleConfig b processes members)) (\<lambda>currentAc.
          if \<not> AreEqual (b_previousAC b) currentAc
          then Ok (currentAc\<lparr>ac_Version := ac_Version currentAc + 1\<rparr>) else Ok currentAc))))"

section \<open>The members of a built configuration\<close>

lemma newReplicaSetMember_sel [simp]:
  "mem_Id (newReplicaSetMember p i hs t a) = i" "mem_Host (newReplicaSetMember p i hs t a) = proc_Name p"
  "mem_Votes (newReplicaSetMember p i hs t a) = (if t > 7 then 0 else 1)"
  "mem_Priority (newReplicaSetMember p i hs t a) = (if t > 7 then 0 else 1)"
  "mem_ArbiterOnly (newReplicaSetMember p i hs t a) = (t < a)"
  "mem_Horizons (newReplicaSetMember p i hs t a) = hs"
  by (simp_all add: newReplicaSetMember_def maxVotingMembers_def Let_def)

lemma buildMembers_ConsD:
  assumes "buildMembers L b i t (h # hs) = Ok (ps, ms)"
  obtains hz ps' ms' where "horizonsAt (b_replicaSetHorizons b) i = Ok hz"
    and "ps = buildProcess L b i h # ps'"
    and "ms = newReplicaSetMember (buildProcess L b i h) i hz t (b_arbiters b) # ms'"
    and "buildMembers L b (i + 1) (t + (if t > 7 then 0 else 1)) hs = Ok (ps', ms')"
  using assms by (auto simp: Let_def bind_out_Ok_conv)

text \<open>
  The member at position \<open>k\<close>: its process, its identifier, and what it votes, given the votes
  that were handed out before.
\<close>

lemma buildMembers_nth:
  assumes "buildMembers L b i t hs = Ok (ps, ms)" and "0 \<le> t" and "t \<le> 8"
  shows "length ps = length hs \<and> length ms = length hs \<and>
    (\<forall>k < length hs. ps ! k = buildProcess L b (i + int k) (hs ! k)
       \<and> mem_Id (ms ! k) = i + int k \<and> mem_Host (ms ! k) = proc_Name (ps ! k)
       \<and> mem_Votes (ms ! k) = (if t + int k < 8 then 1 else 0)
       \<and> mem_Priority (ms ! k) = mem_Votes (ms ! k)
       \<and> mem_ArbiterOnly (ms ! k) = (min (t + int k) 8 < b_arbiters b)
       \<and> horizonsAt (b_replicaSetHorizons b) (i + int k) = Ok (mem_Horizons (ms ! k)))"
  using assms
proof (induction hs arbitrary: i t ps ms)
  case Nil
  then show ?case by simp
next
  case (Cons h hs)
  let ?t = "t + (if t > 7 then 0 else 1)"
  from Cons.prems(1) obtain hz ps' ms' where
    hz: "horizonsAt (b_replicaSetHorizons b) i = Ok hz" and ps: "ps = buildProcess L b i h # ps'"
    and ms: "ms = newReplicaSetMember (buildProcess L b i h) i hz t (b_arbiters b) # ms'"
    and rest: "buildMembers L b (i + 1) ?t hs = Ok (ps', ms')"
    by (rule buildMembers_ConsD)
  have "0 \<le> ?t" "?t \<le> 8" using Cons.prems by auto
  note IH = Cons.IH [OF rest this]
  have m: "min (?t + int k) 8 = min (t + int (Suc k)) 8" "?t + int k < 8 \<longleftrightarrow> t + int (Suc k) < 8" for k
    using Cons.prems by auto
  show ?case
  proof (intro conjI allI impI)
    fix k assume k: "k < length (h # hs)"
    show "ps ! k = buildProcess L b (i + int k) ((h # hs) ! k)"
      using IH k by (cases k) (auto simp: ps algebra_simps)
    show "mem_Id (ms ! k) = i + int k" using IH k by (cases k) (auto simp: ms)
    show "mem_Host (ms ! k) = proc_Name (ps ! k)" using IH k by (cases k) (auto simp: ms ps)
    show "mem_Votes (ms ! k) = (if t + int k < 8 then 1 else 0)"
      using IH k m by (cases k) (auto simp: ms)
    show "mem_Priority (ms ! k) = mem_Votes (ms ! k)" using IH k by (cases k) (auto simp: ms)
    show "mem_ArbiterOnly (ms ! k) = (min (t + int k) 8 < b_arbiters b)"
      using IH k m Cons.prems by (cases k) (auto simp: ms)
    show "horizonsAt (b_replicaSetHorizons b) (i + int k) = Ok (mem_Horizons (ms ! k))"
      using IH k hz by (cases k) (auto simp: ms algebra_simps)
  qed (use IH in \<open>simp_all add: ps ms\<close>)
qed

lemma buildProcess_name:
  assumes "b_processModifications b = []"
  shows "proc_Name (buildProcess L b i h) = toProcessName (b_name b) i"
  by (simp add: buildProcess_def assms SetReplicaSetName_def SetStoragePath_def SetPort_def SetArgs26Field_def
      ensureArgs26_def Let_def)

lemma buildProcess_fcv:
  assumes "b_processModifications b = []"
  shows "proc_FeatureCompatibilityVersion (buildProcess L b i h) =
    (if b_fcv b \<noteq> '''' then b_fcv b else CalculateFeatureCompatibilityVersion L (b_mongodbVersion b))"
  by (simp add: buildProcess_def assms SetReplicaSetName_def SetStoragePath_def SetPort_def SetArgs26Field_def
      ensureArgs26_def Let_def)

lemma toProcessName_inject [simp]: "toProcessName n i = toProcessName n j \<longleftrightarrow> i = j"
  by (simp add: toProcessName_def)

lemma length_hostnames [simp]: "length (hostnames b) = nat (b_members b)"
  by (simp add: hostnames_def)

text \<open>The loop ends normally exactly when there are no horizons or enough of them.\<close>

definition enough_horizons :: "builder \<Rightarrow> bool" where
  "enough_horizons b = (case b_replicaSetHorizons b of None \<Rightarrow> True | Some hs \<Rightarrow> nat (b_members b) \<le> length hs)"

lemma buildMembers_total:
  assumes "\<forall>k < length hs. \<exists>hz. horizonsAt (b_replicaSetHorizons b) (i + int k) = Ok hz"
  shows "\<exists>ps ms. buildMembers L b i t hs = Ok (ps, ms)"
  using assms
proof (induction hs arbitrary: i t)
  case Nil
  then show ?case by simp
next
  case (Cons h hs)
  obtain hz where hz: "horizonsAt (b_replicaSetHorizons b) i = Ok hz" using Cons.prems by force
  have "\<forall>k < length hs. \<exists>hz. horizonsAt (b_replicaSetHorizons b) (i + 1 + int k) = Ok hz"
    using Cons.prems by (auto dest: spec [where x = "Suc _"] simp: algebra_simps)
  with Cons.IH [of "i + 1" "t + (if t > 7 then 0 else 1)"] hz show ?case by (auto simp: Let_def)
qed

lemma horizonsAt_enough:
  "enough_horizons b \<Longrightarrow> k < nat (b_members b) \<Longrightarrow> \<exists>hz. horizonsAt (b_replicaSetHorizons b) (0 + int k) = Ok hz"
  by (auto simp: enough_horizons_def horizonsAt_def split: option.splits)

lemma buildMembers_panics:
  assumes "buildMembers L b i t hs \<noteq> Panic IndexOutOfRange" and "k < length hs"
  shows "\<exists>hz. horizonsAt (b_replicaSetHorizons b) (i + int k) = Ok hz"
  using assms
proof (induction hs arbitrary: i t k)
  case Nil
  then show ?case by simp
next
  case (Cons h hs)
  have hz: "\<exists>hz. horizonsAt (b_replicaSetHorizons b) i = Ok hz"
    using Cons.prems(1) by (auto simp: horizonsAt_def Let_def split: option.splits if_splits)
  then obtain z where z: "horizonsAt (b_replicaSetHorizons b) i = Ok z" ..
  show ?case
  proof (cases k)
    case 0
    with hz show ?thesis by simp
  next
    case (Suc j)
    have "buildMembers L b (i + 1) (t + (if t > 7 then 0 else 1)) hs \<noteq> Panic IndexOutOfRange"
      using Cons.prems(1) z by (auto simp: Let_def)
    from Cons.IH [OF this] Cons.prems(2) Suc show ?thesis by (auto simp: algebra_simps)
  qed
qed

section \<open>Modifications\<close>

text \<open>
  What the operator's modifications have in common: they keep the version, the replica sets, and
  the names and feature compatibility versions of the processes, and they do not look at the
  version.
\<close>

definition same_skeleton :: "automation_config \<Rightarrow> automation_config \<Rightarrow> bool" where
  "same_skeleton ac ac' =
     (ac_Version ac' = ac_Version ac \<and> ac_ReplicaSets ac' = ac_ReplicaSets ac
      \<and> map proc_Name (elems (ac_Processes ac')) = map proc_Name (elems (ac_Processes ac))
      \<and> map proc_FeatureCompatibilityVersion (elems (ac_Processes ac'))
          = map proc_FeatureCompatibilityVersion (elems (ac_Processes ac)))"

fun map_out :: "('a \<Rightarrow> 'b) \<Rightarrow> 'a outcome \<Rightarrow> 'b outcome" where
  "map_out f (Ok x) = Ok (f x)"
| "map_out f (Fail e) = Fail e"
| "map_out f (Panic p) = Panic p"

definition benign :: "modification \<Rightarrow> bool" where
  "benign m =
     ((\<forall>ac ac'. m ac = Ok ac' \<longrightarrow> same_skeleton ac ac')
      \<and> (\<forall>ac v. m (ac\<lparr>ac_Version := v\<rparr>) = map_out (\<lambda>ac'. ac'\<lparr>ac_Version := v\<rparr>) (m ac)))"

lemma same_skeleton_trans: "same_skeleton a b \<Longrightarrow> same_skeleton b c \<Longrightarrow> same_skeleton a c"
  by (simp add: same_skeleton_def)

lemma benign_NOOP [simp]: "benign NOOP"
  by (simp add: benign_def NOOP_def same_skeleton_def)

lemma applyModifications_skeleton:
  "\<forall>m \<in> set mods. benign m \<Longrightarrow> applyModifications mods ac = Ok ac' \<Longrightarrow> same_skeleton ac ac'"
proof (induction mods arbitrary: ac)
  case Nil
  then show ?case by (simp add: same_skeleton_def)
next
  case (Cons m mods)
  then obtain ac1 where ac1: "m ac = Ok ac1" "applyModifications mods ac1 = Ok ac'" by (auto simp: bind_out_Ok_conv)
  have "same_skeleton ac ac1" using Cons.prems(1) ac1(1) by (simp add: benign_def)
  moreover have "same_skeleton ac1 ac'" using Cons.prems(1) by (intro Cons.IH [OF _ ac1(2)]) simp
  ultimately show ?case by (rule same_skeleton_trans)
qed

lemma applyModifications_version:
  "\<forall>m \<in> set mods. benign m \<Longrightarrow>
   applyModifications mods (ac\<lparr>ac_Version := v\<rparr>) = map_out (\<lambda>a. a\<lparr>ac_Version := v\<rparr>) (applyModifications mods ac)"
proof (induction mods arbitrary: ac)
  case Nil
  then show ?case by simp
next
  case (Cons m mods)
  then have "m (ac\<lparr>ac_Version := v\<rparr>) = map_out (\<lambda>a. a\<lparr>ac_Version := v\<rparr>) (m ac)" by (simp add: benign_def)
  with Cons show ?case by (cases "m ac") auto
qed

section \<open>What a successful build consists of\<close>

lemma wrap_err_Ok_conv [simp]: "wrap_err p r = Ok x \<longleftrightarrow> r = Ok x"
  by (cases r) simp_all

lemma setFCV_frame:
  assumes "setFeatureCompatibilityVersionIfUpgradeIsHappening L b = Ok b1"
  shows "\<exists>f. b1 = b\<lparr>b_fcv := f\<rparr>"
proof -
  have "b1 = b \<or> (\<exists>f. b1 = b\<lparr>b_fcv := f\<rparr>)"
    using assms by (auto simp: setFeatureCompatibilityVersionIfUpgradeIsHappening_def Let_def
        split: list.splits if_splits option.splits)
  moreover have "b = b\<lparr>b_fcv := b_fcv b\<rparr>" by simp
  ultimately show ?thesis by metis
qed

lemma Build_OkD:
  assumes "Build L b = Ok ac"
  obtains f ps ms ac0 where "0 \<le> b_members b"
    and "setFeatureCompatibilityVersionIfUpgradeIsHappening L b = Ok (b\<lparr>b_fcv := f\<rparr>)"
    and "buildMembers L (b\<lparr>b_fcv := f\<rparr>) 0 0 (hostnames b) = Ok (ps, ms)"
    and "applyModifications (b_modifications b) (assembleConfig b ps ms) = Ok ac0"
    and "ac = (if AreEqual (b_previousAC b) ac0 then ac0 else ac0\<lparr>ac_Version := ac_Version ac0 + 1\<rparr>)"
proof -
  from assms obtain b1 ps ms ac0 where m: "0 \<le> b_members b"
    and s: "setFeatureCompatibilityVersionIfUpgradeIsHappening L b = Ok b1"
    and bm: "buildMembers L b1 0 0 (hostnames b1) = Ok (ps, ms)"
    and am: "applyModifications (b_modifications b1) (assembleConfig b1 ps ms) = Ok ac0"
    and ac: "ac = (if AreEqual (b_previousAC b1) ac0 then ac0 else ac0\<lparr>ac_Version := ac_Version ac0 + 1\<rparr>)"
    by (auto simp: Build_def bind_out_Ok_conv split: if_splits)
  obtain f where f: "b1 = b\<lparr>b_fcv := f\<rparr>" using setFCV_frame [OF s] by blast
  have "assembleConfig b1 ps ms = assembleConfig b ps ms" "hostnames b1 = hostnames b"
    by (simp_all add: f assembleConfig_def hostnames_def Let_def cong: option.case_cong if_cong)
  with that [OF m s [unfolded f]] bm am ac f show thesis by simp
qed

lemma assembleConfig_sel [simp]:
  "ac_Version (assembleConfig b ps ms) = ac_Version (b_previousAC b)"
  "ac_Processes (assembleConfig b ps ms) = Some ps"
  "ac_ReplicaSets (assembleConfig b ps ms) = Some [\<lparr>rs_Id = b_name b, rs_Members = Some ms,
     rs_ProtocolVersion = ''1'', rs_NumberArbiters = 0\<rparr>]"
  by (simp_all add: assembleConfig_def Let_def)

text \<open>The skeleton of the result: its processes and members are those of the loop.\<close>

lemma Build_skeleton:
  assumes "Build L b = Ok ac" and "\<forall>m \<in> set (b_modifications b). benign m"
  obtains f ps ms where "setFeatureCompatibilityVersionIfUpgradeIsHappening L b = Ok (b\<lparr>b_fcv := f\<rparr>)"
    and "buildMembers L (b\<lparr>b_fcv := f\<rparr>) 0 0 (hostnames b) = Ok (ps, ms)"
    and "map proc_Name (elems (ac_Processes ac)) = map proc_Name ps"
    and "map proc_FeatureCompatibilityVersion (elems (ac_Processes ac)) = map proc_FeatureCompatibilityVersion ps"
    and "ac_ReplicaSets ac = Some [\<lparr>rs_Id = b_name b, rs_Members = Some ms, rs_ProtocolVersion = ''1'', rs_NumberArbiters = 0\<rparr>]"
proof -
  from assms(1) obtain f ps ms ac0 where m: "0 \<le> b_members b"
    and s: "setFeatureCompatibilityVersionIfUpgradeIsHappening L b = Ok (b\<lparr>b_fcv := f\<rparr>)"
    and bm: "buildMembers L (b\<lparr>b_fcv := f\<rparr>) 0 0 (hostnames b) = Ok (ps, ms)"
    and am: "applyModifications (b_modifications b) (assembleConfig b ps ms) = Ok ac0"
    and ac: "ac = (if AreEqual (b_previousAC b) ac0 then ac0 else ac0\<lparr>ac_Version := ac_Version ac0 + 1\<rparr>)"
    by (rule Build_OkD)
  have "same_skeleton (assembleConfig b ps ms) ac0" by (rule applyModifications_skeleton [OF assms(2) am])
  with that [OF s bm] ac show thesis by (simp add: same_skeleton_def split: if_splits)
qed

definition the_members :: "automation_config \<Rightarrow> replica_set_member list" where
  "the_members ac = concat (map (\<lambda>r. elems (rs_Members r)) (elems (ac_ReplicaSets ac)))"

text \<open>The members of a built configuration by position.\<close>

lemma Build_member_nth:
  assumes "Build L b = Ok ac" and "\<forall>m \<in> set (b_modifications b). benign m" and "b_processModifications b = []"
  shows "length (the_members ac) = nat (b_members b) \<and> length (elems (ac_Processes ac)) = nat (b_members b) \<and>
    (\<forall>k < nat (b_members b). proc_Name (elems (ac_Processes ac) ! k) = toProcessName (b_name b) (int k)
       \<and> mem_Host (the_members ac ! k) = toProcessName (b_name b) (int k) \<and> mem_Id (the_members ac ! k) = int k
       \<and> mem_Votes (the_members ac ! k) = (if k < 8 then 1 else 0)
       \<and> mem_Priority (the_members ac ! k) = mem_Votes (the_members ac ! k)
       \<and> mem_ArbiterOnly (the_members ac ! k) = (min (int k) 8 < b_arbiters b))"
proof -
  from assms(1,2) obtain f ps ms where
    bm: "buildMembers L (b\<lparr>b_fcv := f\<rparr>) 0 0 (hostnames b) = Ok (ps, ms)"
    and n: "map proc_Name (elems (ac_Processes ac)) = map proc_Name ps"
    and r: "ac_ReplicaSets ac = Some [\<lparr>rs_Id = b_name b, rs_Members = Some ms, rs_ProtocolVersion = ''1'', rs_NumberArbiters = 0\<rparr>]"
    by (rule Build_skeleton)
  have tm: "the_members ac = ms" by (simp add: the_members_def r)
  have len: "length (elems (ac_Processes ac)) = length ps" using n by (metis length_map)
  have nm: "proc_Name (elems (ac_Processes ac) ! k) = proc_Name (ps ! k)" if "k < length ps" for k
    using n that len by (metis nth_map)
  note B = buildMembers_nth [OF bm]
  have pn: "proc_Name (buildProcess L (b\<lparr>b_fcv := f\<rparr>) i h) = toProcessName (b_name b) i" for i h
    using assms(3) by (simp add: buildProcess_name)
  show ?thesis using B nm len pn by (auto simp: tm)
qed

section \<open>Properties of builds\<close>

lemma count_first:
  assumes "length xs = n" and "\<And>k. k < n \<Longrightarrow> P (xs ! k) \<longleftrightarrow> k < m"
  shows "length (filter P xs) = min n m"
proof -
  have "{k. k < length xs \<and> P (xs ! k)} = {..<min n m}" using assms by auto
  then show ?thesis by (simp add: length_filter_conv_card)
qed

text \<open>
  C13. A build gives one process and one member per replica: processes are named after the
  resource and numbered from 0, so their names are distinct, the member at a position refers
  to the process at that position, and its identifier is the position.
\<close>

theorem Build_topology:
  assumes "Build L b = Ok ac" and "\<forall>m \<in> set (b_modifications b). benign m" and "b_processModifications b = []"
  shows "length (elems (ac_Processes ac)) = nat (b_members b)
    \<and> map proc_Name (elems (ac_Processes ac)) = map (\<lambda>k. toProcessName (b_name b) (int k)) [0..<nat (b_members b)]
    \<and> distinct (map proc_Name (elems (ac_Processes ac)))
    \<and> map mem_Host (the_members ac) = map proc_Name (elems (ac_Processes ac))
    \<and> map mem_Id (the_members ac) = map int [0..<nat (b_members b)]"
proof -
  note B = Build_member_nth [OF assms]
  have n: "map proc_Name (elems (ac_Processes ac)) = map (\<lambda>k. toProcessName (b_name b) (int k)) [0..<nat (b_members b)]"
    using B by (intro nth_equalityI) simp_all
  have "distinct (map (\<lambda>k. toProcessName (b_name b) (int k)) [0..<nat (b_members b)])"
    by (simp add: distinct_map inj_on_def)
  moreover have "map mem_Host (the_members ac) = map (\<lambda>k. toProcessName (b_name b) (int k)) [0..<nat (b_members b)]"
    using B by (intro nth_equalityI) simp_all
  moreover have "map mem_Id (the_members ac) = map int [0..<nat (b_members b)]"
    using B by (intro nth_equalityI) simp_all
  ultimately show ?thesis using B n by simp
qed

text \<open>A concrete build for the witnesses: packages that accept every version and change nothing.\<close>

definition example_libs :: libs where
  "example_libs = \<lparr>semver_Make = (\<lambda>s. Some \<lparr>sv_Major = 4, sv_Minor = 4, sv_Rest = s\<rparr>), semver_GT = (\<lambda>_ _. False),
     semver_GTE = (\<lambda>_ _. True), objx_Set = put, mergo_MergeWithOverride = put_all\<rparr>"

definition example_builder :: "int \<Rightarrow> int \<Rightarrow> builder" where
  "example_builder n a = SetMongoDBVersion ''4.4.0'' (SetArbiters a (SetMembers n (SetDomain ''svc'' (SetName ''db'' NewBuilder))))"

lemma example_builder_sel [simp]:
  "b_modifications (example_builder n a) = []" "b_processModifications (example_builder n a) = []"
  "b_members (example_builder n a) = n" "b_arbiters (example_builder n a) = a" "b_name (example_builder n a) = ''db''"
  "b_replicaSetHorizons (example_builder n a) = None" "b_previousAC (example_builder n a) = empty_ac"
  by (simp_all add: example_builder_def SetMongoDBVersion_def SetArbiters_def SetMembers_def SetDomain_def SetName_def
      NewBuilder_def)

lemma Build_total:
  assumes "0 \<le> b_members b" and "enough_horizons b" and "b_modifications b = []"
    and "ac_Processes (b_previousAC b) = None"
  shows "\<exists>ac. Build L b = Ok ac"
proof -
  have "setFeatureCompatibilityVersionIfUpgradeIsHappening L b = Ok b"
    by (simp add: setFeatureCompatibilityVersionIfUpgradeIsHappening_def assms(4))
  moreover obtain ps ms where "buildMembers L b 0 0 (hostnames b) = Ok (ps, ms)"
    using buildMembers_total [of "hostnames b" b 0 L 0] horizonsAt_enough [OF assms(2)] by auto
  ultimately show ?thesis using assms(1,3) by (auto simp: Build_def)
qed

lemma example_build: "0 \<le> n \<Longrightarrow> \<exists>ac. Build example_libs (example_builder n a) = Ok ac"
  by (rule Build_total) (simp_all add: enough_horizons_def empty_ac_def)

theorem Build_topology_witness:
  "\<exists>ac. Build example_libs (example_builder 3 1) = Ok ac \<and> map mem_Id (the_members ac) = [0, 1, 2]"
proof -
  obtain ac where "Build example_libs (example_builder 3 1) = Ok ac" using example_build [of 3] by auto
  with Build_topology [OF this] show ?thesis by (auto simp: upt_rec)
qed

text \<open>
  C26. The number of voting members of a build is the number of members, but at most eight: the
  guard \<open>totalVotesSoFar > maxVotingMembers\<close> only stops the ninth member, although the replica
  set may have at most seven voting members.
\<close>

theorem Build_voting_members:
  assumes "Build L b = Ok ac" and "\<forall>m \<in> set (b_modifications b). benign m" and "b_processModifications b = []"
  shows "length (filter (\<lambda>m. mem_Votes m = 1) (the_members ac)) = min (nat (b_members b)) 8
    \<and> (\<forall>m \<in> set (the_members ac). mem_Votes m \<in> {0, 1} \<and> mem_Priority m = mem_Votes m)"
proof
  note B = Build_member_nth [OF assms]
  show "length (filter (\<lambda>m. mem_Votes m = 1) (the_members ac)) = min (nat (b_members b)) 8"
    by (rule count_first) (use B in auto)
  show "\<forall>m \<in> set (the_members ac). mem_Votes m \<in> {0, 1} \<and> mem_Priority m = mem_Votes m"
    using B by (auto simp: in_set_conv_nth)
qed

theorem Build_voting_members_witness:
  "\<exists>ac. Build example_libs (example_builder 8 0) = Ok ac
     \<and> length (filter (\<lambda>m. mem_Votes m = 1) (the_members ac)) = 8"
proof -
  obtain ac where "Build example_libs (example_builder 8 0) = Ok ac" using example_build [of 8] by auto
  with Build_voting_members [OF this] show ?thesis by auto
qed

text \<open>
  C27. The arbiters of a build are its first members, as many as were asked for, as long as at most
  eight are asked for. With nine or more, every member is an arbiter, because the count of
  votes that is compared with the number of arbiters stops at eight.
\<close>

theorem Build_arbiters:
  assumes "Build L b = Ok ac" and "\<forall>m \<in> set (b_modifications b). benign m" and "b_processModifications b = []"
    and "0 \<le> b_arbiters b"
  shows "if b_arbiters b \<le> 8
    then map mem_ArbiterOnly (the_members ac) = map (\<lambda>k. int k < b_arbiters b) [0..<nat (b_members b)]
    else (\<forall>m \<in> set (the_members ac). mem_ArbiterOnly m)"
proof -
  note B = Build_member_nth [OF assms(1-3)]
  show ?thesis
  proof (cases "b_arbiters b \<le> 8")
    case True
    then have "min (int k) 8 < b_arbiters b \<longleftrightarrow> int k < b_arbiters b" for k by auto
    then have "map mem_ArbiterOnly (the_members ac) = map (\<lambda>k. int k < b_arbiters b) [0..<nat (b_members b)]"
      using B by (intro nth_equalityI) simp_all
    with True show ?thesis by simp
  next
    case False
    then have "min (int k) 8 < b_arbiters b" for k by auto
    with False B show ?thesis by (auto simp: in_set_conv_nth)
  qed
qed

theorem Build_arbiters_witness:
  "\<exists>ac. Build example_libs (example_builder 12 9) = Ok ac \<and> (\<forall>m \<in> set (the_members ac). mem_ArbiterOnly m)"
proof -
  obtain ac where "Build example_libs (example_builder 12 9) = Ok ac" using example_build [of 12] by auto
  with Build_arbiters [OF this] show ?thesis by auto
qed

subsection \<open>The feature compatibility version\<close>

definition effective_fcv :: "libs \<Rightarrow> string \<Rightarrow> string \<Rightarrow> string" where
  "effective_fcv L fcv version = (if fcv \<noteq> '''' then fcv else CalculateFeatureCompatibilityVersion L version)"

lemma Build_fcv_nth:
  assumes "Build L b = Ok ac" and "\<forall>m \<in> set (b_modifications b). benign m" and "b_processModifications b = []"
  obtains f where "setFeatureCompatibilityVersionIfUpgradeIsHappening L b = Ok (b\<lparr>b_fcv := f\<rparr>)"
    and "map proc_FeatureCompatibilityVersion (elems (ac_Processes ac))
      = replicate (nat (b_members b)) (effective_fcv L f (b_mongodbVersion b))"
proof -
  from assms(1,2) obtain f ps ms where
    s: "setFeatureCompatibilityVersionIfUpgradeIsHappening L b = Ok (b\<lparr>b_fcv := f\<rparr>)"
    and bm: "buildMembers L (b\<lparr>b_fcv := f\<rparr>) 0 0 (hostnames b) = Ok (ps, ms)"
    and n: "map proc_FeatureCompatibilityVersion (elems (ac_Processes ac)) = map proc_FeatureCompatibilityVersion ps"
    by (rule Build_skeleton)
  have "map proc_FeatureCompatibilityVersion ps = replicate (nat (b_members b)) (effective_fcv L f (b_mongodbVersion b))"
    using buildMembers_nth [OF bm] assms(3)
    by (intro nth_equalityI) (simp_all add: buildProcess_fcv effective_fcv_def)
  with that s n show thesis by simp
qed

lemma setFCV_value:
  assumes "setFeatureCompatibilityVersionIfUpgradeIsHappening L b = Ok (b\<lparr>b_fcv := f\<rparr>)"
  shows "f = (if b_fcv b \<noteq> '''' then b_fcv b else
     (case elems (ac_Processes (b_previousAC b)) of [] \<Rightarrow> '''' | p # ps \<Rightarrow>
        if \<exists>old new. semver_Make L (proc_FeatureCompatibilityVersion p @ ''.0'') = Some old \<and> semver_Make L (b_mongodbVersion b) = Some new
            \<and> semver_GT L new old
        then proc_FeatureCompatibilityVersion p else ''''))"
proof -
  have "b\<lparr>b_fcv := g\<rparr> = b\<lparr>b_fcv := f\<rparr> \<longleftrightarrow> g = f" "b = b\<lparr>b_fcv := f\<rparr> \<longleftrightarrow> f = b_fcv b" for g
    by (metis builder.select_convs(6) builder.surjective builder.update_convs(6))+
  with assms show ?thesis
    by (auto simp: setFeatureCompatibilityVersionIfUpgradeIsHappening_def Let_def split: list.splits if_splits option.splits)
qed

text \<open>
  C28. The feature compatibility version of every process that is built, without process modifications
  and with modifications that leave it alone, as all those of the operator do: the one that the
  specification sets; when it sets none, the one that the first process of the previous
  configuration had, when the new version of MongoDB is above it, so that an upgrade does not raise
  it; and otherwise, for a new deployment in particular, the one that belongs to the version of
  MongoDB.
\<close>

theorem Build_fcv:
  assumes "Build L b = Ok ac" and "\<forall>m \<in> set (b_modifications b). benign m" and "b_processModifications b = []"
    and "q \<in> set (elems (ac_Processes ac))"
  shows "proc_FeatureCompatibilityVersion q =
    (if b_fcv b \<noteq> '''' then b_fcv b
     else (case elems (ac_Processes (b_previousAC b)) of
         [] \<Rightarrow> CalculateFeatureCompatibilityVersion L (b_mongodbVersion b)
       | p # ps \<Rightarrow>
           (if proc_FeatureCompatibilityVersion p \<noteq> ''''
               \<and> (\<exists>old new. semver_Make L (proc_FeatureCompatibilityVersion p @ ''.0'') = Some old
                    \<and> semver_Make L (b_mongodbVersion b) = Some new \<and> semver_GT L new old)
            then proc_FeatureCompatibilityVersion p
            else CalculateFeatureCompatibilityVersion L (b_mongodbVersion b))))"
proof -
  from assms(1-3) obtain f where
    s: "setFeatureCompatibilityVersionIfUpgradeIsHappening L b = Ok (b\<lparr>b_fcv := f\<rparr>)"
    and m: "map proc_FeatureCompatibilityVersion (elems (ac_Processes ac))
      = replicate (nat (b_members b)) (effective_fcv L f (b_mongodbVersion b))"
    by (rule Build_fcv_nth)
  have "proc_FeatureCompatibilityVersion q \<in> set (map proc_FeatureCompatibilityVersion (elems (ac_Processes ac)))" using assms(4) by simp
  then have "proc_FeatureCompatibilityVersion q = effective_fcv L f (b_mongodbVersion b)" unfolding m by (simp split: if_splits)
  with setFCV_value [OF s] show ?thesis
    by (cases "elems (ac_Processes (b_previousAC b))") (auto simp: effective_fcv_def split: if_splits)
qed

definition upgrade_libs :: libs where
  "upgrade_libs = example_libs\<lparr>semver_GT := (\<lambda>a b. sv_Rest a = ''5.0.0'' \<and> sv_Rest b = ''4.4.0'')\<rparr>"

definition upgrade_builder :: builder where
  "upgrade_builder = SetPreviousAutomationConfig (empty_ac\<lparr>ac_Processes :=
       Some [empty_process\<lparr>proc_FeatureCompatibilityVersion := ''4.4''\<rparr>]\<rparr>)
     (SetMongoDBVersion ''5.0.0'' (example_builder 3 0))"

lemma upgrade_builder_ok: "\<exists>ac. Build upgrade_libs upgrade_builder = Ok ac"
proof -
  have "setFeatureCompatibilityVersionIfUpgradeIsHappening upgrade_libs upgrade_builder = Ok (upgrade_builder\<lparr>b_fcv := ''4.4''\<rparr>)"
    by (simp add: setFeatureCompatibilityVersionIfUpgradeIsHappening_def upgrade_builder_def upgrade_libs_def
        example_libs_def SetPreviousAutomationConfig_def SetMongoDBVersion_def empty_process_def example_builder_def
        SetArbiters_def SetMembers_def SetDomain_def SetName_def NewBuilder_def empty_ac_def Let_def)
  moreover have "\<exists>ps ms. buildMembers upgrade_libs (upgrade_builder\<lparr>b_fcv := ''4.4''\<rparr>) 0 0 (hostnames (upgrade_builder\<lparr>b_fcv := ''4.4''\<rparr>)) = Ok (ps, ms)"
    by (rule buildMembers_total)
      (simp add: horizonsAt_def upgrade_builder_def SetPreviousAutomationConfig_def SetMongoDBVersion_def)
  moreover have "b_members upgrade_builder = 3" "b_modifications upgrade_builder = []"
    by (simp_all add: upgrade_builder_def SetPreviousAutomationConfig_def SetMongoDBVersion_def)
  ultimately show ?thesis by (auto simp: Build_def)
qed

theorem Build_fcv_witness:
  "\<exists>ac q. Build upgrade_libs upgrade_builder = Ok ac \<and> q \<in> set (elems (ac_Processes ac)) \<and> proc_FeatureCompatibilityVersion q = ''4.4''"
proof -
  obtain ac where ac: "Build upgrade_libs upgrade_builder = Ok ac" using upgrade_builder_ok by blast
  have b: "b_modifications upgrade_builder = []" "b_processModifications upgrade_builder = []" "b_fcv upgrade_builder = ''''"
    "b_mongodbVersion upgrade_builder = ''5.0.0''" "b_members upgrade_builder = 3"
    "elems (ac_Processes (b_previousAC upgrade_builder)) = [empty_process\<lparr>proc_FeatureCompatibilityVersion := ''4.4''\<rparr>]"
    by (simp_all add: upgrade_builder_def SetPreviousAutomationConfig_def SetMongoDBVersion_def example_builder_def SetArbiters_def
        SetMembers_def SetDomain_def SetName_def NewBuilder_def)
  obtain f where "map proc_FeatureCompatibilityVersion (elems (ac_Processes ac)) = replicate 3 f"
    by (rule Build_fcv_nth [OF ac]) (simp_all add: b)
  then obtain q where q: "q \<in> set (elems (ac_Processes ac))" by (cases "elems (ac_Processes ac)") (auto simp: numeral_3_eq_3)
  have gt: "\<exists>old new. semver_Make upgrade_libs (''4.4'' @ ''.0'') = Some old \<and> semver_Make upgrade_libs ''5.0.0'' = Some new
      \<and> semver_GT upgrade_libs new old"
    by (simp add: upgrade_libs_def example_libs_def)
  from Build_fcv [OF ac _ _ q] gt have "proc_FeatureCompatibilityVersion q = ''4.4''" by (simp add: b)
  with ac q show ?thesis by blast
qed

subsection \<open>The version of the configuration\<close>

lemma enc_ac_version:
  "enc_ac (a\<lparr>ac_Version := v\<rparr>) = enc_ac (b\<lparr>ac_Version := v\<rparr>) \<longleftrightarrow>
   enc_ac (a\<lparr>ac_Version := w\<rparr>) = enc_ac (b\<lparr>ac_Version := w\<rparr>)"
  by (simp add: enc_ac_def)

lemma AreEqual_enc:
  assumes "wf_ac a" and "wf_ac b"
  shows "AreEqual a b \<longleftrightarrow> enc_ac (a\<lparr>ac_Version := v\<rparr>) = enc_ac (b\<lparr>ac_Version := v\<rparr>)"
proof -
  have "b = b\<lparr>ac_Version := ac_Version b\<rparr>" by simp
  then have "AreEqual a b \<longleftrightarrow> enc_ac (a\<lparr>ac_Version := ac_Version b\<rparr>) = enc_ac (b\<lparr>ac_Version := ac_Version b\<rparr>)"
    using assms by (simp add: AreEqual_def marshal_ac_def render_inject wf_enc_ac)
  then show ?thesis using enc_ac_version by blast
qed

lemma AreEqual_same_contents:
  assumes "wf_ac a" and "wf_ac b"
  shows "AreEqual a b \<longleftrightarrow> same_contents a b"
  using AreEqual_enc [OF assms, of 0] same_contents_enc [OF assms, of 0] by simp

text \<open>
  C25. The version of the configuration grows by one exactly when its contents change: a build that
  says the same as the previous configuration, field by field and up to the order of map entries,
  keeps its version, and every other build has the next one. Both configurations have maps with
  distinct keys, as those of the operator do, and the modifications leave the version alone.
\<close>

theorem Build_version:
  assumes "Build L b = Ok ac" and "\<forall>m \<in> set (b_modifications b). benign m"
    and "wf_ac (b_previousAC b)" and "wf_ac ac"
  shows "ac_Version ac = ac_Version (b_previousAC b) + (if same_contents (b_previousAC b) ac then 0 else 1)"
proof -
  from assms(1) obtain f ps ms ac0 where
    am: "applyModifications (b_modifications b) (assembleConfig b ps ms) = Ok ac0"
    and ac: "ac = (if AreEqual (b_previousAC b) ac0 then ac0 else ac0\<lparr>ac_Version := ac_Version ac0 + 1\<rparr>)"
    by (rule Build_OkD)
  have v: "ac_Version ac0 = ac_Version (b_previousAC b)"
    using applyModifications_skeleton [OF assms(2) am] by (simp add: same_skeleton_def)
  have "wf_ac ac0" using ac assms(4) by (simp split: if_splits)
  then have "AreEqual (b_previousAC b) ac0 \<longleftrightarrow> AreEqual (b_previousAC b) ac"
    using AreEqual_enc [OF assms(3), of _ 0] assms(4) ac by (simp split: if_splits)
  with ac v show ?thesis by (simp add: AreEqual_same_contents [OF assms(3,4)] split: if_splits)
qed

text \<open>Configurations without modifications and horizons are well formed, whatever \<open>objx\<close> does that keeps maps well formed.\<close>

definition objx_keeps_maps :: "libs \<Rightarrow> bool" where
  "objx_keeps_maps L = (\<forall>k v m. wf_json v \<longrightarrow> wf_args (Some m) \<longrightarrow> wf_args (Some (objx_Set L k v m)))"

lemma wf_SetArgs26Field:
  assumes "objx_keeps_maps L" and "wf_json v" and "wf_args (proc_Args26 p)"
  shows "wf_args (proc_Args26 (SetArgs26Field L k v p))"
  using assms
  by (cases "proc_Args26 p") (auto simp: SetArgs26Field_def ensureArgs26_def Let_def objx_keeps_maps_def wf_args_def)

lemma wf_buildProcess:
  assumes "objx_keeps_maps L" and "b_processModifications b = []"
  shows "wf_args (proc_Args26 (buildProcess L b i h))"
  unfolding buildProcess_def assms(2) Let_def foldl_Nil SetPort_def SetStoragePath_def SetReplicaSetName_def
  by (intro wf_SetArgs26Field assms(1)) (simp_all add: wf_args_def)

lemma wf_example_ac:
  assumes "Build example_libs (example_builder n a) = Ok ac"
  shows "wf_ac ac"
proof -
  have keep: "objx_keeps_maps example_libs"
    by (auto simp: objx_keeps_maps_def example_libs_def wf_args_def list_all_iff
        dest!: set_put_subset [THEN subsetD])
  from assms obtain f ps ms ac0 where
    bm: "buildMembers example_libs (example_builder n a\<lparr>b_fcv := f\<rparr>) 0 0 (hostnames (example_builder n a)) = Ok (ps, ms)"
    and am: "applyModifications (b_modifications (example_builder n a)) (assembleConfig (example_builder n a) ps ms) = Ok ac0"
    and ac: "ac = (if AreEqual (b_previousAC (example_builder n a)) ac0 then ac0 else ac0\<lparr>ac_Version := ac_Version ac0 + 1\<rparr>)"
    by (rule Build_OkD)
  note B = buildMembers_nth [OF bm]
  have "wf_args (proc_Args26 p)" if "p \<in> set ps" for p
    using that B wf_buildProcess [OF keep, of "example_builder n a\<lparr>b_fcv := f\<rparr>"] by (auto simp: in_set_conv_nth)
  moreover have "wf_map (mem_Horizons m)" if "m \<in> set ms" for m
    using that B by (auto simp: in_set_conv_nth horizonsAt_def)
  moreover have "ac_MonitoringVersions (assembleConfig (example_builder n a) ps ms) = Some []"
    by (simp add: assembleConfig_def Let_def example_builder_def SetMongoDBVersion_def SetArbiters_def SetMembers_def
        SetDomain_def SetName_def NewBuilder_def)
  ultimately have "wf_ac ac0" using am by (auto simp: wf_ac_def)
  with ac show ?thesis by (simp split: if_splits)
qed

lemma wf_empty_ac [simp]: "wf_ac empty_ac"
  by (simp add: wf_ac_def empty_ac_def)

lemma example_processes:
  assumes "Build example_libs (example_builder n a) = Ok ac"
  shows "map proc_Name (elems (ac_Processes ac)) = map (\<lambda>i. toProcessName ''db'' (int i)) [0..<nat n]"
proof -
  have "\<forall>m \<in> set (b_modifications (example_builder n a)). benign m" by simp
  from Build_member_nth [OF assms this] show ?thesis by (intro nth_equalityI) simp_all
qed

theorem Build_version_witness:
  "\<exists>ac. Build example_libs (example_builder 3 0) = Ok ac \<and> ac_Version ac = 1"
proof -
  obtain ac where ac: "Build example_libs (example_builder 3 0) = Ok ac" using example_build [of 3] by auto
  have "ac_Processes empty_ac = None" "ac_Version empty_ac = 0" by (simp_all add: empty_ac_def)
  moreover have "ac_Processes ac \<noteq> None" using example_processes [OF ac] by (cases "ac_Processes ac") (auto simp: upt_rec)
  ultimately show ?thesis
    using Build_version [OF ac _ _ wf_example_ac [OF ac]] ac by (auto simp: same_contents_def)
qed

text \<open>Building again from the configuration that was built.\<close>

lemma buildProcess_eff:
  "buildProcess L b i h = foldl (\<lambda>p f. f i p)
     (SetReplicaSetName L (b_name b) (SetStoragePath L ''/data'' (SetPort L 27017
       \<lparr>proc_Name = toProcessName (b_name b) i, proc_HostName = h, proc_Args26 = None,
        proc_FeatureCompatibilityVersion = effective_fcv L (b_fcv b) (b_mongodbVersion b),
        proc_ProcessType = ''mongod'', proc_Version = b_mongodbVersion b, proc_AuthSchemaVersion = 5\<rparr>)))
     (b_processModifications b)"
  by (simp add: buildProcess_def effective_fcv_def Let_def)

lemma buildMembers_cong:
  assumes "effective_fcv L f (b_mongodbVersion b) = effective_fcv L g (b_mongodbVersion b)"
  shows "buildMembers L (b\<lparr>b_previousAC := ac, b_fcv := g\<rparr>) i t hs = buildMembers L (b\<lparr>b_fcv := f\<rparr>) i t hs"
proof -
  have "buildProcess L (b\<lparr>b_previousAC := ac, b_fcv := g\<rparr>) i h = buildProcess L (b\<lparr>b_fcv := f\<rparr>) i h" for i h
    using assms by (simp add: buildProcess_eff)
  then show ?thesis by (induction hs arbitrary: i t) (simp_all add: Let_def)
qed

lemma builder_fcv_inject: "b\<lparr>b_fcv := f\<rparr> = b\<lparr>b_fcv := g\<rparr> \<longleftrightarrow> f = g" "b\<lparr>b_fcv := f\<rparr> = b \<longleftrightarrow> f = b_fcv b"
  by (metis builder.select_convs(6) builder.surjective builder.update_convs(6))+

lemma effective_fcv_idem: "effective_fcv L (effective_fcv L f v) v = effective_fcv L f v"
  by (simp add: effective_fcv_def)

text \<open>Where the value that a build settles on came from, when none was set.\<close>

lemma setFCV_origin:
  assumes "setFeatureCompatibilityVersionIfUpgradeIsHappening L b = Ok (b\<lparr>b_fcv := f\<rparr>)" and "b_fcv b = ''''"
  shows "f = '''' \<or> (\<exists>old new. semver_Make L (f @ ''.0'') = Some old
    \<and> semver_Make L (b_mongodbVersion b) = Some new \<and> semver_GT L new old)"
  using assms
  by (auto simp: setFeatureCompatibilityVersionIfUpgradeIsHappening_def Let_def builder_fcv_inject
      eq_commute [of b "b\<lparr>b_fcv := f\<rparr>"] split: list.splits option.splits if_splits)

lemma setFCV_again:
  assumes s: "setFeatureCompatibilityVersionIfUpgradeIsHappening L b = Ok (b\<lparr>b_fcv := f\<rparr>)"
    and p: "map proc_FeatureCompatibilityVersion (elems (ac_Processes prev)) = replicate (Suc n) e"
    and e: "e = effective_fcv L f (b_mongodbVersion b)"
    and ok: "b_fcv b \<noteq> '''' \<or> semver_Make L (e @ ''.0'') \<noteq> None \<and> semver_Make L (b_mongodbVersion b) \<noteq> None"
  shows "\<exists>g. setFeatureCompatibilityVersionIfUpgradeIsHappening L (b\<lparr>b_previousAC := prev\<rparr>)
      = Ok (b\<lparr>b_previousAC := prev, b_fcv := g\<rparr>) \<and> effective_fcv L g (b_mongodbVersion b) = e"
proof -
  obtain q qs where q: "elems (ac_Processes prev) = q # qs" "proc_FeatureCompatibilityVersion q = e"
    using p by (cases "elems (ac_Processes prev)") auto
  show ?thesis
  proof (cases "b_fcv b = ''''")
    case False
    then have "b\<lparr>b_fcv := f\<rparr> = b"
      using s by (auto simp: setFeatureCompatibilityVersionIfUpgradeIsHappening_def split: list.splits)
    then have "f = b_fcv b" by (simp only: builder_fcv_inject)
    with False q e show ?thesis
      by (intro exI [of _ f]) (simp add: setFeatureCompatibilityVersionIfUpgradeIsHappening_def)
  next
    case True
    then obtain old new where v: "semver_Make L (e @ ''.0'') = Some old" "semver_Make L (b_mongodbVersion b) = Some new"
      using ok by auto
    show ?thesis
    proof (cases "semver_GT L new old")
      case gt: True
      then show ?thesis using q True v e effective_fcv_idem [of L f "b_mongodbVersion b"]
        by (intro exI [of _ e]) (simp add: setFeatureCompatibilityVersionIfUpgradeIsHappening_def Let_def)
    next
      case False
      have "f = ''''"
      proof (rule ccontr)
        assume "f \<noteq> ''''"
        then have "e = f" using e by (simp add: effective_fcv_def)
        with setFCV_origin [OF s True] \<open>f \<noteq> ''''\<close> v False show False by auto
      qed
      with False q True v e show ?thesis
        by (intro exI [of _ "''''"]) (simp add: setFeatureCompatibilityVersionIfUpgradeIsHappening_def Let_def)
    qed
  qed
qed

lemma assembleConfig_previous:
  "assembleConfig (b\<lparr>b_previousAC := prev, b_fcv := g\<rparr>) ps ms = (assembleConfig b ps ms)\<lparr>ac_Version := ac_Version prev\<rparr>"
  by (simp add: assembleConfig_def Let_def cong: option.case_cong if_cong)

lemma canon_ac_sel [simp]:
  "ac_Version (canon_ac ac) = ac_Version ac"
  "map proc_FeatureCompatibilityVersion (elems (ac_Processes (canon_ac ac))) =
     map proc_FeatureCompatibilityVersion (elems (ac_Processes ac))"
  "ac_Auth (canon_ac ac) = ac_Auth ac"
proof -
  show "map proc_FeatureCompatibilityVersion (elems (ac_Processes (canon_ac ac))) =
     map proc_FeatureCompatibilityVersion (elems (ac_Processes ac))"
    by (cases "ac_Processes ac") (simp_all add: canon_ac_def canon_process_def)
qed (simp_all add: canon_ac_def)

lemma AreEqual_canon: "AreEqual (canon_ac ac) ac"
proof -
  have "canon_ac ac = (canon_ac ac)\<lparr>ac_Version := ac_Version ac\<rparr>" by (simp add: canon_ac_def)
  then show ?thesis unfolding AreEqual_def by (metis marshal_canon)
qed

lemma Build_again:
  assumes B: "Build L b = Ok ac" and ben: "\<forall>m \<in> set (b_modifications b). benign m"
    and pm: "b_processModifications b = []" and pos: "0 < b_members b"
    and ok: "b_fcv b \<noteq> '''' \<or> (\<forall>p \<in> set (elems (ac_Processes ac)).
        semver_Make L (proc_FeatureCompatibilityVersion p @ ''.0'') \<noteq> None) \<and> semver_Make L (b_mongodbVersion b) \<noteq> None"
  shows "Build L (b\<lparr>b_previousAC := canon_ac ac\<rparr>) = Ok ac"
proof -
  let ?prev = "canon_ac ac"
  from B obtain f ps ms ac0 where
    s: "setFeatureCompatibilityVersionIfUpgradeIsHappening L b = Ok (b\<lparr>b_fcv := f\<rparr>)"
    and bm: "buildMembers L (b\<lparr>b_fcv := f\<rparr>) 0 0 (hostnames b) = Ok (ps, ms)"
    and am: "applyModifications (b_modifications b) (assembleConfig b ps ms) = Ok ac0"
    and ac: "ac = (if AreEqual (b_previousAC b) ac0 then ac0 else ac0\<lparr>ac_Version := ac_Version ac0 + 1\<rparr>)"
    by (rule Build_OkD)
  from B ben pm obtain f' where s': "setFeatureCompatibilityVersionIfUpgradeIsHappening L b = Ok (b\<lparr>b_fcv := f'\<rparr>)"
    and m: "map proc_FeatureCompatibilityVersion (elems (ac_Processes ac))
      = replicate (nat (b_members b)) (effective_fcv L f' (b_mongodbVersion b))"
    by (rule Build_fcv_nth)
  have ff: "f' = f" using s s' by (simp add: builder_fcv_inject)
  obtain n where n: "nat (b_members b) = Suc n" using pos by (cases "nat (b_members b)") auto
  let ?e = "effective_fcv L f (b_mongodbVersion b)"
  have "b_fcv b \<noteq> '''' \<or> semver_Make L (?e @ ''.0'') \<noteq> None \<and> semver_Make L (b_mongodbVersion b) \<noteq> None"
    using ok m ff n by (cases "elems (ac_Processes ac)") auto
  then obtain g where g: "setFeatureCompatibilityVersionIfUpgradeIsHappening L (b\<lparr>b_previousAC := ?prev\<rparr>)
      = Ok (b\<lparr>b_previousAC := ?prev, b_fcv := g\<rparr>)" and eg: "effective_fcv L g (b_mongodbVersion b) = ?e"
    using setFCV_again [OF s _ refl, of ?prev n] m ff n by auto
  have bm': "buildMembers L (b\<lparr>b_previousAC := ?prev, b_fcv := g\<rparr>) 0 0 (hostnames b) = Ok (ps, ms)"
    using buildMembers_cong [OF eg [symmetric], of ?prev 0 0 "hostnames b"] bm by simp
  have acv: "ac0\<lparr>ac_Version := ac_Version ac\<rparr> = ac" using ac by (simp split: if_splits)
  have am': "applyModifications (b_modifications b) (assembleConfig (b\<lparr>b_previousAC := ?prev, b_fcv := g\<rparr>) ps ms) = Ok ac"
    using applyModifications_version [OF ben, where ac = "assembleConfig b ps ms" and v = "ac_Version ac"] am acv
    by (simp add: assembleConfig_previous)
  have h: "hostnames (b\<lparr>b_previousAC := ?prev, b_fcv := g\<rparr>) = hostnames b" by (simp add: hostnames_def)
  show ?thesis using pos g bm' am' AreEqual_canon [of ac] by (simp add: Build_def h)
qed

text \<open>
  C12. Rebuilding is stable: when a configuration is stored and read back as the previous one, building
  from the same inputs gives exactly the same configuration with the same version, so repeated
  reconciliations make no change.
\<close>

theorem Build_stable:
  assumes "Build L b = Ok ac" and "\<forall>m \<in> set (b_modifications b). benign m"
    and "b_processModifications b = []" and "0 < b_members b" and "wf_ac ac"
    and "b_fcv b \<noteq> '''' \<or> (\<forall>p \<in> set (elems (ac_Processes ac)).
        semver_Make L (proc_FeatureCompatibilityVersion p @ ''.0'') \<noteq> None) \<and> semver_Make L (b_mongodbVersion b) \<noteq> None"
  shows "\<exists>prev. FromBytes (marshal_ac ac) = Ok prev \<and> Build L (SetPreviousAutomationConfig prev b) = Ok ac"
  using Build_again [OF assms(1-4,6)] FromBytes_marshal [OF assms(5)]
  by (simp add: SetPreviousAutomationConfig_def)

theorem Build_stable_witness:
  "\<exists>ac prev. Build example_libs (example_builder 3 1) = Ok ac \<and> FromBytes (marshal_ac ac) = Ok prev
     \<and> Build example_libs (SetPreviousAutomationConfig prev (example_builder 3 1)) = Ok ac"
proof -
  obtain ac where ac: "Build example_libs (example_builder 3 1) = Ok ac" using example_build [of 3] by auto
  from Build_stable [OF ac _ _ _ wf_example_ac [OF ac]] ac show ?thesis by (auto simp: example_libs_def)
qed

text \<open>
  C32. A configuration is read back as it was written: storing one whose maps have distinct keys and
  reading it again gives the same configuration, with the same version and equal in every field but
  for the order of the entries of its maps, and the text that this configuration is written as again.
\<close>

theorem automation_config_roundtrip:
  assumes "wf_ac ac"
  shows "\<exists>ac'. FromBytes (marshal_ac ac) = Ok ac' \<and> same_contents ac ac' \<and> ac_Version ac' = ac_Version ac
    \<and> marshal_ac ac' = marshal_ac ac"
  using FromBytes_marshal [OF assms] same_contents_canon_ac [OF assms] by simp

theorem automation_config_roundtrip_witness:
  "\<exists>ac ac'. Build example_libs (example_builder 3 0) = Ok ac \<and> FromBytes (marshal_ac ac) = Ok ac'
    \<and> map proc_Name (elems (ac_Processes ac')) = [''db-0'', ''db-1'', ''db-2'']"
proof -
  obtain ac where ac: "Build example_libs (example_builder 3 0) = Ok ac" using example_build [of 3] by auto
  from automation_config_roundtrip [OF wf_example_ac [OF ac]] obtain ac' where r: "FromBytes (marshal_ac ac) = Ok ac'" "same_contents ac ac'" by blast
  have "map proc_Name (elems (ac_Processes ac')) = map proc_Name (elems (ac_Processes ac))" by (rule same_contents_names [OF r(2)])
  also have "\<dots> = [''db-0'', ''db-1'', ''db-2'']"
    using example_processes [OF ac] by (simp add: upt_rec toProcessName_def int_text_def nat_text.simps digit_char_def)
  finally show ?thesis using ac r(1) by (intro exI conjI)
qed

text \<open>
  Replica set horizons must cover every member: when they are given and there are fewer of them
  than members, the build panics with an index out of range instead of reporting an error.
\<close>

theorem Build_horizons_panic:
  assumes "b_replicaSetHorizons b = Some hs" and "int (length hs) < b_members b"
    and "setFeatureCompatibilityVersionIfUpgradeIsHappening L b = Ok b1"
  shows "Build L b = Panic IndexOutOfRange"
proof -
  obtain f where f: "b1 = b\<lparr>b_fcv := f\<rparr>" using setFCV_frame [OF assms(3)] by blast
  have "horizonsAt (b_replicaSetHorizons b1) (0 + int (length hs)) = Panic IndexOutOfRange"
    using assms(1) by (simp add: f horizonsAt_def)
  then have "buildMembers L b1 0 0 (hostnames b1) = Panic IndexOutOfRange"
    using buildMembers_panics [of L b1 0 0 "hostnames b1" "length hs"] assms(2) by (cases "length hs < nat (b_members b)") (auto simp: f)
  with assms show ?thesis by (simp add: Build_def)
qed

theorem Build_horizons_panic_witness:
  "Build example_libs (SetReplicaSetHorizons (Some [[(''ext'', ''db0.example.com:27017'')]]) (example_builder 3 0)) = Panic IndexOutOfRange"
  by (rule Build_horizons_panic [where hs = "[[(''ext'', ''db0.example.com:27017'')]]" and ?b1.0 = "SetReplicaSetHorizons (Some [[(''ext'', ''db0.example.com:27017'')]]) (example_builder 3 0)"])
    (simp_all add: SetReplicaSetHorizons_def setFeatureCompatibilityVersionIfUpgradeIsHappening_def empty_ac_def)

end
