(* ===== verification/ConfigMaps.thy ===== *)
theory ConfigMaps
  imports Util
begin

text \<open>
  \<open>pkg/kube/configmap\<close>: config maps and their fields, and fields that hold a small file of
  \<open>key=value\<close> lines.
\<close>

section \<open>The interface\<close>

record 'w configmap_client =
  GetConfigMap :: "nsname \<Rightarrow> 'w \<Rightarrow> config_map outcome \<times> 'w"
  UpdateConfigMap :: "config_map \<Rightarrow> 'w \<Rightarrow> unit outcome \<times> 'w"
  CreateConfigMap :: "config_map \<Rightarrow> 'w \<Rightarrow> unit outcome \<times> 'w"
  DeleteConfigMap :: "nsname \<Rightarrow> 'w \<Rightarrow> unit outcome \<times> 'w"

section \<open>The builder\<close>

record cm_builder =
  cmb_data :: "string gomap"
  cmb_name :: string
  cmb_namespace :: string
  cmb_ownerReferences :: "owner_reference list"

definition cm_Builder :: cm_builder where
  "cm_Builder = \<lparr>cmb_data = [], cmb_name = '''', cmb_namespace = '''', cmb_ownerReferences = []\<rparr>"

definition cm_SetName :: "string \<Rightarrow> cm_builder \<Rightarrow> cm_builder" where
  "cm_SetName name b = b\<lparr>cmb_name := name\<rparr>"

definition cm_SetNamespace :: "string \<Rightarrow> cm_builder \<Rightarrow> cm_builder" where
  "cm_SetNamespace namespace b = b\<lparr>cmb_namespace := namespace\<rparr>"

definition cm_SetField :: "string \<Rightarrow> string \<Rightarrow> cm_builder \<Rightarrow> cm_builder" where
  "cm_SetField key v b = b\<lparr>cmb_data := put key v (cmb_data b)\<rparr>"

definition cm_SetOwnerReferences :: "owner_reference list \<Rightarrow> cm_builder \<Rightarrow> cm_builder" where
  "cm_SetOwnerReferences ownerReferences b = b\<lparr>cmb_ownerReferences := ownerReferences\<rparr>"

definition cm_Build :: "cm_builder \<Rightarrow> config_map" where
  "cm_Build b = \<lparr>cm_Meta = empty_meta\<lparr>om_Name := cmb_name b, om_Namespace := cmb_namespace b,
       om_OwnerReferences := cmb_ownerReferences b\<rparr>, cm_Data = Some (cmb_data b)\<rparr>"

section \<open>Operations\<close>

definition cm_ReadData :: "'w configmap_client \<Rightarrow> nsname \<Rightarrow> 'w \<Rightarrow> string gomap outcome \<times> 'w" where
  "cm_ReadData c key = on_result (GetConfigMap c key) fail (\<lambda>cm. ret (entries (cm_Data cm)))"

definition cm_ReadKey :: "'w configmap_client \<Rightarrow> string \<Rightarrow> nsname \<Rightarrow> 'w \<Rightarrow> string outcome \<times> 'w" where
  "cm_ReadKey c key objectKey =
     on_result (cm_ReadData c objectKey) fail (\<lambda>data.
       case map_of data key of
         Some val \<Rightarrow> ret val
       | None \<Rightarrow> fail (Err (''key \"'' @ key @ ''\" not present in ConfigMap '' @ nn_Namespace objectKey @ ''/'' @ nn_Name objectKey)))"

definition cm_UpdateField :: "'w configmap_client \<Rightarrow> nsname \<Rightarrow> string \<Rightarrow> string \<Rightarrow> 'w \<Rightarrow> unit outcome \<times> 'w" where
  "cm_UpdateField c objectKey key v =
     on_result (GetConfigMap c objectKey) fail (\<lambda>cm.
       case cm_Data cm of
         None \<Rightarrow> raise_panic NilMapWrite
       | Some d \<Rightarrow> UpdateConfigMap c (cm\<lparr>cm_Data := Some (put key v d)\<rparr>))"

definition cm_CreateOrUpdate :: "'w configmap_client \<Rightarrow> config_map \<Rightarrow> 'w \<Rightarrow> unit outcome \<times> 'w" where
  "cm_CreateOrUpdate c cm =
     on_result (GetConfigMap c (object_key (cm_Meta cm)))
       (\<lambda>err. if IsNotFound err then CreateConfigMap c cm else fail err)
       (\<lambda>_. UpdateConfigMap c cm)"

text \<open>Lines are split at every equals sign, so a pair has exactly one.\<close>

fun parse_pairs :: "string list \<Rightarrow> string gomap \<Rightarrow> string gomap outcome" where
  "parse_pairs [] keyValPairs = Ok keyValPairs"
| "parse_pairs (keyValPair # rest) keyValPairs =
     (case split_on CHR ''='' keyValPair of
        [k, v] \<Rightarrow> parse_pairs rest (put k v keyValPairs)
      | _ \<Rightarrow> Fail (Err (keyValPair @ '' is not a valid key-value pair'')))"

definition filelikePropertiesToMap :: "string \<Rightarrow> string gomap outcome" where
  "filelikePropertiesToMap s = parse_pairs (split_on CHR 0x0A (trim_right s CHR 0x0A)) []"

definition nsname_text :: "nsname \<Rightarrow> string" where
  "nsname_text n = nn_Namespace n @ ''/'' @ nn_Name n"

definition ReadFileLikeField :: "'w configmap_client \<Rightarrow> nsname \<Rightarrow> string \<Rightarrow> string \<Rightarrow> 'w \<Rightarrow> string outcome \<times> 'w" where
  "ReadFileLikeField c objectKey externalKey internalKey =
     on_result (cm_ReadData c objectKey) fail (\<lambda>cmData.
       case map_of cmData externalKey of
         None \<Rightarrow> fail (Err (''key '' @ externalKey @ '' is not present in ConfigMap '' @ nsname_text objectKey))
       | Some mappingString \<Rightarrow>
           on_result (pure_out (filelikePropertiesToMap mappingString)) fail (\<lambda>mapping.
             case map_of mapping internalKey of
               None \<Rightarrow> fail (Err (''key '' @ internalKey @ '' is not present in the '' @ externalKey
                        @ '' field of ConfigMap '' @ nsname_text objectKey))
             | Some v \<Rightarrow> ret v))"

section \<open>Files of properties\<close>

text \<open>Printing properties, one per line, and reading them back.\<close>

definition print_pair :: "string \<times> string \<Rightarrow> string" where
  "print_pair kv = fst kv @ ''='' @ snd kv"

definition print_properties :: "string gomap \<Rightarrow> string" where
  "print_properties kvs = concat (map (\<lambda>kv. print_pair kv @ [CHR 0x0A]) kvs)"

definition plain_text :: "string \<Rightarrow> bool" where
  "plain_text s = (CHR ''='' \<notin> set s \<and> CHR 0x0A \<notin> set s)"

lemma split_on_none: "c \<notin> set s \<Longrightarrow> split_on c s = [s]"
  by (induction s) auto

lemma split_on_append: "c \<notin> set s \<Longrightarrow> split_on c (s @ c # t) = s # split_on c t"
proof (induction s)
  case Nil
  then show ?case by simp
next
  case (Cons x xs)
  then show ?case by auto
qed

lemma split_on_lines:
  assumes "\<forall>x \<in> set xs. c \<notin> set x" and "xs \<noteq> []"
  shows "split_on c (join xs [c]) = xs"
  using assms(2,1)
proof (induction xs rule: list_nonempty_induct)
  case (single x)
  then show ?case by (simp add: split_on_none)
next
  case (cons x xs)
  then have "join (x # xs) [c] = x @ c # join xs [c]" by (cases xs) simp_all
  with cons show ?case by (simp add: split_on_append)
qed

lemma concat_lines: "xs \<noteq> [] \<Longrightarrow> concat (map (\<lambda>x. f x @ [c]) xs) = join (map f xs) [c] @ [c]"
proof (induction xs rule: list_nonempty_induct)
  case (single x)
  then show ?case by simp
next
  case (cons x xs)
  then have "join (map f (x # xs)) [c] = f x @ [c] @ join (map f xs) [c]" by (cases xs) simp_all
  with cons show ?case by simp
qed

lemma trim_right_snoc: "s \<noteq> [] \<Longrightarrow> last s \<noteq> c \<Longrightarrow> trim_right (s @ [c]) c = s"
  by (cases s rule: rev_cases) (simp_all add: trim_right_def)

lemma last_join: "xs \<noteq> [] \<Longrightarrow> last xs \<noteq> [] \<Longrightarrow> join xs sep \<noteq> [] \<and> last (join xs sep) = last (last xs)"
proof (induction xs rule: list_nonempty_induct)
  case (single x)
  then show ?case by simp
next
  case (cons x xs)
  then have "join (x # xs) sep = x @ sep @ join xs sep" by (cases xs) simp_all
  with cons show ?case by simp
qed

lemma print_pair_ne [simp]: "print_pair kv \<noteq> []"
  by (simp add: print_pair_def)

lemma print_pair_lines: "plain_text (fst kv) \<Longrightarrow> plain_text (snd kv) \<Longrightarrow> CHR 0x0A \<notin> set (print_pair kv)"
  by (simp add: print_pair_def plain_text_def)

lemma last_print_pair: "plain_text (fst kv) \<Longrightarrow> plain_text (snd kv) \<Longrightarrow> last (print_pair kv) \<noteq> CHR 0x0A"
  using print_pair_lines last_in_set print_pair_ne by metis

lemma split_pair: "plain_text (fst kv) \<Longrightarrow> plain_text (snd kv) \<Longrightarrow> split_on CHR ''='' (print_pair kv) = [fst kv, snd kv]"
  by (simp add: print_pair_def plain_text_def split_on_append split_on_none)

lemma parse_pairs_print:
  "\<forall>kv \<in> set kvs. plain_text (fst kv) \<and> plain_text (snd kv) \<Longrightarrow>
   parse_pairs (map print_pair kvs) m = Ok (put_all m kvs)"
proof (induction kvs arbitrary: m)
  case Nil
  then show ?case by (simp add: put_all_def)
next
  case (Cons kv kvs)
  then show ?case by (cases kv) (simp add: split_pair put_all_def)
qed

text \<open>
  A file of properties is read back as it was written: for non-empty properties whose keys and
  values have no equals sign and no line break, parsing the printed lines gives a map with
  exactly these properties; a line without exactly one equals sign is an error.
\<close>

theorem filelike_roundtrip:
  assumes "kvs \<noteq> []" and "\<forall>kv \<in> set kvs. plain_text (fst kv) \<and> plain_text (snd kv)" and "wf_map kvs"
  shows "\<exists>m. filelikePropertiesToMap (print_properties kvs) = Ok m \<and> map_of m = map_of kvs"
proof -
  let ?lines = "map print_pair kvs"
  have ne: "?lines \<noteq> []" and le: "last ?lines \<noteq> []" using assms(1) by (simp_all add: last_map)
  have "last (last ?lines) \<noteq> CHR 0x0A"
    using assms(1,2) last_print_pair [of "last kvs"] by (simp add: last_map)
  then have "trim_right (print_properties kvs) CHR 0x0A = join ?lines [CHR 0x0A]"
    unfolding print_properties_def concat_lines [OF assms(1)]
    using last_join [OF ne le, of "[CHR 0x0A]"] by (simp add: trim_right_snoc)
  moreover have "split_on CHR 0x0A (join ?lines [CHR 0x0A]) = ?lines"
    by (rule split_on_lines) (use assms ne print_pair_lines in auto)
  ultimately have "filelikePropertiesToMap (print_properties kvs) = Ok (put_all [] kvs)"
    using parse_pairs_print [OF assms(2)] by (simp add: filelikePropertiesToMap_def)
  then show ?thesis using assms(3) by (simp add: map_of_put_all)
qed

theorem filelike_roundtrip_witness:
  "\<exists>m. filelikePropertiesToMap (print_properties [(''baseUrl'', ''http://ops''), (''projectId'', ''42'')]) = Ok m
     \<and> map_of m ''projectId'' = Some ''42''"
  using filelike_roundtrip [of "[(''baseUrl'', ''http://ops''), (''projectId'', ''42'')]"]
  by (auto simp: plain_text_def wf_map_def)

end
