(* ===== verification/Services.thy ===== *)
theory Services
  imports Util
begin

text \<open>
  \<open>pkg/kube/service\<close>: building services, merging a desired service into an existing one, and
  creating or updating it.
\<close>

section \<open>The interface and the builder\<close>

record 'w service_client =
  GetService :: "nsname \<Rightarrow> 'w \<Rightarrow> service outcome \<times> 'w"
  UpdateService :: "service \<Rightarrow> 'w \<Rightarrow> unit outcome \<times> 'w"
  CreateService :: "service \<Rightarrow> 'w \<Rightarrow> unit outcome \<times> 'w"
  DeleteService :: "nsname \<Rightarrow> 'w \<Rightarrow> unit outcome \<times> 'w"

record service_builder =
  svb_name :: string
  svb_namespace :: string
  svb_clusterIp :: string
  svb_serviceType :: string
  svb_servicePort :: service_port
  svb_labels :: "string gomap"
  svb_loadBalancerIP :: string
  svb_publishNotReady :: bool
  svb_ownerReferences :: "owner_reference list"
  svb_selector :: "string gomap"
  svb_annotations :: "string gomap"
  svb_externalTrafficPolicy :: string

definition service_Builder :: service_builder where
  "service_Builder = \<lparr>svb_name = '''', svb_namespace = '''', svb_clusterIp = '''', svb_serviceType = '''',
     svb_servicePort = \<lparr>sp_Name = '''', sp_Port = 0, sp_NodePort = 0\<rparr>, svb_labels = [], svb_loadBalancerIP = '''',
     svb_publishNotReady = False, svb_ownerReferences = [], svb_selector = [], svb_annotations = [],
     svb_externalTrafficPolicy = ''''\<rparr>"

definition service_SetExternalTrafficPolicy :: "string \<Rightarrow> service_builder \<Rightarrow> service_builder" where
  "service_SetExternalTrafficPolicy x b = b\<lparr>svb_externalTrafficPolicy := x\<rparr>"
definition service_SetLabels :: "string gomap \<Rightarrow> service_builder \<Rightarrow> service_builder" where
  "service_SetLabels x b = b\<lparr>svb_labels := x\<rparr>"
definition service_SetAnnotations :: "string gomap \<Rightarrow> service_builder \<Rightarrow> service_builder" where
  "service_SetAnnotations x b = b\<lparr>svb_annotations := x\<rparr>"
definition service_SetSelector :: "string gomap \<Rightarrow> service_builder \<Rightarrow> service_builder" where
  "service_SetSelector x b = b\<lparr>svb_selector := x\<rparr>"
definition service_SetName :: "string \<Rightarrow> service_builder \<Rightarrow> service_builder" where
  "service_SetName x b = b\<lparr>svb_name := x\<rparr>"
definition service_SetNamespace :: "string \<Rightarrow> service_builder \<Rightarrow> service_builder" where
  "service_SetNamespace x b = b\<lparr>svb_namespace := x\<rparr>"
definition service_SetClusterIP :: "string \<Rightarrow> service_builder \<Rightarrow> service_builder" where
  "service_SetClusterIP x b = b\<lparr>svb_clusterIp := x\<rparr>"
definition service_SetPort :: "int32 \<Rightarrow> service_builder \<Rightarrow> service_builder" where
  "service_SetPort x b = b\<lparr>svb_servicePort := (svb_servicePort b)\<lparr>sp_Port := x\<rparr>\<rparr>"
definition service_SetPortName :: "string \<Rightarrow> service_builder \<Rightarrow> service_builder" where
  "service_SetPortName x b = b\<lparr>svb_servicePort := (svb_servicePort b)\<lparr>sp_Name := x\<rparr>\<rparr>"
definition service_SetNodePort :: "int32 \<Rightarrow> service_builder \<Rightarrow> service_builder" where
  "service_SetNodePort x b = b\<lparr>svb_servicePort := (svb_servicePort b)\<lparr>sp_NodePort := x\<rparr>\<rparr>"
definition service_SetServiceType :: "string \<Rightarrow> service_builder \<Rightarrow> service_builder" where
  "service_SetServiceType x b = b\<lparr>svb_serviceType := x\<rparr>"
definition service_SetLoadBalancerIP :: "string \<Rightarrow> service_builder \<Rightarrow> service_builder" where
  "service_SetLoadBalancerIP x b = b\<lparr>svb_loadBalancerIP := x\<rparr>"
definition service_SetPublishNotReadyAddresses :: "bool \<Rightarrow> service_builder \<Rightarrow> service_builder" where
  "service_SetPublishNotReadyAddresses x b = b\<lparr>svb_publishNotReady := x\<rparr>"
definition service_SetOwnerReferences :: "owner_reference list \<Rightarrow> service_builder \<Rightarrow> service_builder" where
  "service_SetOwnerReferences x b = b\<lparr>svb_ownerReferences := x\<rparr>"

definition service_Build :: "service_builder \<Rightarrow> service" where
  "service_Build b = \<lparr>svc_Meta = empty_meta\<lparr>om_Name := svb_name b, om_Namespace := svb_namespace b,
       om_Labels := Some (svb_labels b), om_OwnerReferences := svb_ownerReferences b,
       om_Annotations := Some (svb_annotations b)\<rparr>,
     svc_PublishNotReadyAddresses = svb_publishNotReady b,
     svc_ExternalTrafficPolicy = svb_externalTrafficPolicy b,
     svc_LoadBalancerIP = svb_loadBalancerIP b, svc_Type = svb_serviceType b, svc_ClusterIP = svb_clusterIp b,
     svc_Ports = [svb_servicePort b], svc_Selector = svb_selector b\<rparr>"

section \<open>Operations\<close>

text \<open>\<open>for k, v := range source { dest[k] = v }\<close>, which panics when \<open>dest\<close> is nil and something is written.\<close>

definition write_all :: "string gomap option \<Rightarrow> string gomap option \<Rightarrow> string gomap option outcome" where
  "write_all dest source =
     (case dest of
        Some d \<Rightarrow> Ok (Some (put_all d (entries source)))
      | None \<Rightarrow> (if entries source = [] then Ok None else Panic NilMapWrite))"

text \<open>
  The returned service; the source text also writes through the shared maps and slices of its
  arguments, which the callers do not use afterwards.
\<close>

definition service_Merge :: "service \<Rightarrow> service \<Rightarrow> service outcome" where
  "service_Merge dest source =
     bind_out (write_all (om_Annotations (svc_Meta dest)) (om_Annotations (svc_Meta source))) (\<lambda>annotations.
     bind_out (write_all (om_Labels (svc_Meta dest)) (om_Labels (svc_Meta source))) (\<lambda>labels.
       let nodePort = (case svc_Ports dest of [] \<Rightarrow> 0 | p # ps \<Rightarrow> sp_NodePort p);
           ports = (case svc_Ports source of
               [] \<Rightarrow> svc_Ports dest
             | p # ps \<Rightarrow> (if sint nodePort > 0 \<and> sp_NodePort p = 0 then p\<lparr>sp_NodePort := nodePort\<rparr> # ps else p # ps))
       in Ok (dest\<lparr>svc_Meta := (svc_Meta dest)\<lparr>om_Annotations := annotations, om_Labels := labels\<rparr>,
               svc_Ports := ports, svc_Type := svc_Type source, svc_LoadBalancerIP := svc_LoadBalancerIP source,
               svc_ExternalTrafficPolicy := svc_ExternalTrafficPolicy source\<rparr>)))"

definition DeleteServiceIfItExists :: "'w service_client \<Rightarrow> nsname \<Rightarrow> 'w \<Rightarrow> unit outcome \<times> 'w" where
  "DeleteServiceIfItExists c serviceName =
     on_result (GetService c serviceName)
       (\<lambda>err. if IsNotFound err then ret ()
              else fail (errorf (''can't get service '' @ nn_Namespace serviceName @ ''/'' @ nn_Name serviceName @ '': '') err))
       (\<lambda>_. DeleteService c serviceName)"

definition CreateOrUpdateService :: "'w service_client \<Rightarrow> service \<Rightarrow> 'w \<Rightarrow> unit outcome \<times> 'w" where
  "CreateOrUpdateService c desiredService =
     on_result (GetService c (object_key (svc_Meta desiredService)))
       (\<lambda>err. if IsNotFound err then CreateService c desiredService else fail err)
       (\<lambda>existingService. on_result (pure_out (service_Merge existingService desiredService)) fail (UpdateService c))"

section \<open>Properties\<close>

text \<open>
  Merging a desired service into an existing one never panics when the existing one has maps;
  the labels and annotations of the desired one win, the node port that was allocated
  before is kept when the desired ports do not name one, and everything else of the existing
  service but its type, load balancer address and traffic policy stays.
\<close>

theorem service_Merge_correct:
  assumes "om_Annotations (svc_Meta dest) = Some an" and "om_Labels (svc_Meta dest) = Some la"
    and "wf_map (entries (om_Annotations (svc_Meta source)))" and "wf_map (entries (om_Labels (svc_Meta source)))"
  shows "\<exists>m. service_Merge dest source = Ok m
    \<and> map_of (entries (om_Annotations (svc_Meta m))) = map_of an ++ map_of (entries (om_Annotations (svc_Meta source)))
    \<and> map_of (entries (om_Labels (svc_Meta m))) = map_of la ++ map_of (entries (om_Labels (svc_Meta source)))
    \<and> object_key (svc_Meta m) = object_key (svc_Meta dest) \<and> svc_ClusterIP m = svc_ClusterIP dest
    \<and> svc_Selector m = svc_Selector dest \<and> svc_Type m = svc_Type source
    \<and> (\<forall>p ps q qs. svc_Ports dest = p # ps \<longrightarrow> svc_Ports source = q # qs \<longrightarrow> sint (sp_NodePort p) > 0
         \<longrightarrow> (\<exists>r. svc_Ports m = r # qs \<and> sp_Port r = sp_Port q
              \<and> sp_NodePort r = (if sp_NodePort q = 0 then sp_NodePort p else sp_NodePort q)))"
  using assms by (auto simp: service_Merge_def write_all_def Let_def map_of_put_all object_key_def)

definition example_service :: "int32 \<Rightarrow> service" where
  "example_service nodePort = service_Build (service_SetNodePort nodePort (service_SetPort 27017 service_Builder))"

theorem service_Merge_correct_witness:
  "\<exists>m r. service_Merge (example_service 30000) (example_service 0) = Ok m \<and> svc_Ports m = [r] \<and> sp_NodePort r = 30000"
proof -
  have p: "svc_Ports (example_service n) = [\<lparr>sp_Name = '''', sp_Port = 27017, sp_NodePort = n\<rparr>]"
    and a: "om_Annotations (svc_Meta (example_service n)) = Some []" "om_Labels (svc_Meta (example_service n)) = Some []" for n
    by (simp_all add: example_service_def service_Build_def service_SetNodePort_def service_SetPort_def service_Builder_def)
  from service_Merge_correct [of "example_service 30000" "[]" "[]" "example_service 0"]
  show ?thesis by (auto simp: p a)
qed

end
