(* ===== verification/Pod_Mods.thy ===== *)
theory Pod_Mods
  imports Merge
begin

text \<open>
  The packages that edit Kubernetes objects through modification functions: \<open>container\<close>,
  \<open>probes\<close>, \<open>lifecycle\<close>, \<open>persistentvolumeclaim\<close>, \<open>resourcerequirements\<close> and
  \<open>podtemplatespec\<close>. A modification of a pod template can panic (an index out of range, a nil
  pointer on the way), so it returns an outcome; the others are plain functions. Parsing a
  resource quantity is a library function and an argument.
\<close>

type_synonym 'a edit = "'a \<Rightarrow> 'a"
type_synonym 'a partial_edit = "'a \<Rightarrow> 'a outcome"

text \<open>\<open>for _, mod := range mods { mod(x) }\<close>.\<close>

definition apply_mods :: "'a edit list \<Rightarrow> 'a edit" where
  "apply_mods mods x = foldl (\<lambda>y m. m y) x mods"

fun apply_partial :: "'a partial_edit list \<Rightarrow> 'a partial_edit" where
  "apply_partial [] x = Ok x"
| "apply_partial (m # mods) x = bind_out (m x) (apply_partial mods)"

lemma apply_mods_simps [simp]: "apply_mods [] x = x" "apply_mods (m # mods) x = apply_mods mods (m x)"
  by (simp_all add: apply_mods_def)

lemma apply_partial_append: "apply_partial (xs @ ys) s = bind_out (apply_partial xs s) (apply_partial ys)"
proof (induction xs arbitrary: s)
  case Nil
  then show ?case by simp
next
  case (Cons m xs)
  then show ?case by (cases "m s") simp_all
qed

section \<open>probes, lifecycle, persistentvolumeclaim\<close>

definition probe_Apply :: "probe edit list \<Rightarrow> probe edit" where
  "probe_Apply funcs = apply_mods funcs"
definition probe_New :: "probe edit list \<Rightarrow> probe" where
  "probe_New funcs = apply_mods funcs empty_probe"

text \<open>The exec action a handler gets: a new one when it has none, with the command set.\<close>

definition set_exec_command :: "string list \<Rightarrow> handler edit" where
  "set_exec_command cmd h =
     h\<lparr>h_Exec := Some (case h_Exec h of None \<Rightarrow> \<lparr>ea_Command = cmd\<rparr> | Some e \<Rightarrow> e\<lparr>ea_Command := cmd\<rparr>)\<rparr>"

definition WithExecCommand :: "string list \<Rightarrow> probe edit" where
  "WithExecCommand cmd p = p\<lparr>pr_Handler := set_exec_command cmd (pr_Handler p)\<rparr>"
definition WithFailureThreshold :: "int \<Rightarrow> probe edit" where
  "WithFailureThreshold n p = p\<lparr>pr_FailureThreshold := to_int32 n\<rparr>"
definition WithInitialDelaySeconds :: "int \<Rightarrow> probe edit" where
  "WithInitialDelaySeconds n p = p\<lparr>pr_InitialDelaySeconds := to_int32 n\<rparr>"
definition WithSuccessThreshold :: "int \<Rightarrow> probe edit" where
  "WithSuccessThreshold n p = p\<lparr>pr_SuccessThreshold := to_int32 n\<rparr>"
definition WithPeriodSeconds :: "int \<Rightarrow> probe edit" where
  "WithPeriodSeconds n p = p\<lparr>pr_PeriodSeconds := to_int32 n\<rparr>"
definition WithTimeoutSeconds :: "int \<Rightarrow> probe edit" where
  "WithTimeoutSeconds n p = p\<lparr>pr_TimeoutSeconds := to_int32 n\<rparr>"
definition WithHandler :: "handler \<Rightarrow> probe edit" where
  "WithHandler h p = p\<lparr>pr_Handler := h\<rparr>"

definition lifecycle_Apply :: "lifecycle edit list \<Rightarrow> lifecycle edit" where
  "lifecycle_Apply mods = apply_mods mods"
definition WithPrestopCommand :: "string list \<Rightarrow> lifecycle edit" where
  "WithPrestopCommand preStopCmd lc =
     lc\<lparr>lc_PreStop := Some (set_exec_command preStopCmd
          (case lc_PreStop lc of None \<Rightarrow> empty_handler | Some h \<Rightarrow> h))\<rparr>"

definition pvc_Apply :: "persistent_volume_claim edit list \<Rightarrow> persistent_volume_claim edit" where
  "pvc_Apply funcs = apply_mods funcs"
definition pvc_NOOP :: "persistent_volume_claim edit" where "pvc_NOOP claim = claim"
definition pvc_WithName :: "string \<Rightarrow> persistent_volume_claim edit" where
  "pvc_WithName name claim = claim\<lparr>pvc_Meta := (pvc_Meta claim)\<lparr>om_Name := name\<rparr>\<rparr>"
definition pvc_WithAccessModes :: "string \<Rightarrow> persistent_volume_claim edit" where
  "pvc_WithAccessModes accessMode claim = claim\<lparr>pvc_AccessModes := [accessMode]\<rparr>"
definition pvc_WithResourceRequests :: "opaque gomap option \<Rightarrow> persistent_volume_claim edit" where
  "pvc_WithResourceRequests requests claim =
     claim\<lparr>pvc_Resources := (pvc_Resources claim)\<lparr>rr_Requests := requests\<rparr>\<rparr>"
definition pvc_WithLabelSelector :: "label_selector option \<Rightarrow> persistent_volume_claim edit" where
  "pvc_WithLabelSelector selector claim = claim\<lparr>pvc_Selector := selector\<rparr>"
definition pvc_WithStorageClassName :: "string \<Rightarrow> persistent_volume_claim edit" where
  "pvc_WithStorageClassName storageClassName claim = claim\<lparr>pvc_StorageClassName := Some storageClassName\<rparr>"

section \<open>resourcerequirements\<close>

text \<open>A quantity is kept as its text; \<open>''0''\<close> is the zero value \<open>Quantity{}\<close>.\<close>

type_synonym parse_quantity = "string \<Rightarrow> opaque outcome"

definition buildResourceList :: "parse_quantity \<Rightarrow> string \<Rightarrow> string \<Rightarrow> opaque gomap outcome" where
  "buildResourceList pq cpu memory =
     bind_out (pq cpu) (\<lambda>cpuQuantity. bind_out (pq memory) (\<lambda>memoryQuantity.
       Ok [(''cpu'', cpuQuantity), (''memory'', memoryQuantity)]))"

definition newRequirements :: "parse_quantity \<Rightarrow> string \<Rightarrow> string \<Rightarrow> string \<Rightarrow> string \<Rightarrow> resource_requirements outcome" where
  "newRequirements pq limitsCpu limitsMemory requestsCpu requestsMemory =
     bind_out (buildResourceList pq limitsCpu limitsMemory) (\<lambda>limits.
     bind_out (buildResourceList pq requestsCpu requestsMemory) (\<lambda>requests.
       Ok \<lparr>rr_Limits = Some limits, rr_Requests = Some requests\<rparr>))"

definition newDefaultRequirements :: "parse_quantity \<Rightarrow> resource_requirements outcome" where
  "newDefaultRequirements pq = newRequirements pq ''1.0'' ''500M'' ''0.5'' ''400M''"

definition resource_Defaults :: "parse_quantity \<Rightarrow> resource_requirements" where
  "resource_Defaults pq = (case newDefaultRequirements pq of Ok req \<Rightarrow> req | _ \<Rightarrow> empty_resources)"

definition BuildStorageRequirements :: "parse_quantity \<Rightarrow> string \<Rightarrow> opaque gomap" where
  "BuildStorageRequirements pq amount =
     [(''storage'', case pq amount of Ok q \<Rightarrow> q | _ \<Rightarrow> ''0'')]"

definition BuildDefaultStorageRequirements :: "parse_quantity \<Rightarrow> opaque gomap" where
  "BuildDefaultStorageRequirements pq = [(''storage'', case pq ''10G'' of Ok q \<Rightarrow> q | _ \<Rightarrow> ''0'')]"

section \<open>container\<close>

definition container_Apply :: "container edit list \<Rightarrow> container edit" where
  "container_Apply mods = apply_mods mods"
definition container_New :: "container edit list \<Rightarrow> container" where
  "container_New mods = apply_mods mods empty_container"
definition container_NOOP :: "container edit" where "container_NOOP c = c"
definition WithName :: "string \<Rightarrow> container edit" where "WithName name c = c\<lparr>c_Name := name\<rparr>"
definition WithImage :: "string \<Rightarrow> container edit" where "WithImage img c = c\<lparr>c_Image := img\<rparr>"
definition WithImagePullPolicy :: "string \<Rightarrow> container edit" where
  "WithImagePullPolicy pullPolicy c = c\<lparr>c_ImagePullPolicy := pullPolicy\<rparr>"
definition WithWorkDir :: "string \<Rightarrow> container edit" where
  "WithWorkDir workDir c = c\<lparr>c_WorkingDir := workDir\<rparr>"

definition on_probe :: "probe edit \<Rightarrow> probe option \<Rightarrow> probe option" where
  "on_probe f p = Some (f (case p of None \<Rightarrow> empty_probe | Some x \<Rightarrow> x))"

definition WithReadinessProbe :: "probe edit \<Rightarrow> container edit" where
  "WithReadinessProbe probeFunc c = c\<lparr>c_ReadinessProbe := on_probe probeFunc (c_ReadinessProbe c)\<rparr>"
definition WithLivenessProbe :: "probe edit \<Rightarrow> container edit" where
  "WithLivenessProbe livenessProbeFunc c = c\<lparr>c_LivenessProbe := on_probe livenessProbeFunc (c_LivenessProbe c)\<rparr>"
definition WithStartupProbe :: "probe edit \<Rightarrow> container edit" where
  "WithStartupProbe startupProbeFunc c = c\<lparr>c_StartupProbe := on_probe startupProbeFunc (c_StartupProbe c)\<rparr>"
definition WithResourceRequirements :: "resource_requirements \<Rightarrow> container edit" where
  "WithResourceRequirements resources c = c\<lparr>c_Resources := resources\<rparr>"
definition WithCommand :: "string list \<Rightarrow> container edit" where "WithCommand cmd c = c\<lparr>c_Command := cmd\<rparr>"
definition WithArgs :: "string list \<Rightarrow> container edit" where "WithArgs args c = c\<lparr>c_Args := args\<rparr>"
definition WithLifecycle :: "lifecycle edit \<Rightarrow> container edit" where
  "WithLifecycle lifeCycleMod c =
     c\<lparr>c_Lifecycle := Some (lifeCycleMod (case c_Lifecycle c of None \<Rightarrow> empty_lifecycle | Some l \<Rightarrow> l))\<rparr>"
definition WithEnvs :: "iter_order \<Rightarrow> env_var list \<Rightarrow> container edit" where
  "WithEnvs it envs c = c\<lparr>c_Env := MergeWithOverride it (c_Env c) envs\<rparr>"

text \<open>\<open>container.volumeMountToString\<close>.\<close>

definition container_volumeMountToString :: "volume_mount \<Rightarrow> string" where
  "container_volumeMountToString v = join [vm_Name v, vm_MountPath v, vm_SubPath v] ''-''"

definition WithVolumeMounts :: "iter_order \<Rightarrow> volume_mount list \<Rightarrow> container edit" where
  "WithVolumeMounts it volumeMounts c =
     (let merged = foldl (\<lambda>m des. put (container_volumeMountToString des) des m)
                     (map_by container_volumeMountToString (c_VolumeMounts c)) volumeMounts
      in c\<lparr>c_VolumeMounts := sorted_values it container_volumeMountToString merged\<rparr>)"

definition WithVolumeDevices :: "volume_device list \<Rightarrow> container edit" where
  "WithVolumeDevices devices c = c\<lparr>c_VolumeDevices := devices\<rparr>"
definition WithPorts :: "container_port list \<Rightarrow> container edit" where
  "WithPorts ports c = c\<lparr>c_Ports := ports\<rparr>"
definition WithSecurityContext :: "security_context \<Rightarrow> container edit" where
  "WithSecurityContext ctx c = c\<lparr>c_SecurityContext := Some ctx\<rparr>"
definition DefaultSecurityContext :: security_context where
  "DefaultSecurityContext = empty_security_context\<lparr>sc_RunAsUser := Some 2000, sc_RunAsNonRoot := Some True\<rparr>"

text \<open>\<open>GetByName\<close>: a pointer to the first container with the name.\<close>

fun GetByName :: "string \<Rightarrow> container list \<Rightarrow> container option" where
  "GetByName name [] = None"
| "GetByName name (c # containers) = (if c_Name c = name then Some c else GetByName name containers)"

lemma GetByName_find: "GetByName name cs = find (\<lambda>c. c_Name c = name) cs"
  by (induction cs) auto

lemmas container_mod_defs = container_Apply_def container_NOOP_def WithName_def WithImage_def WithImagePullPolicy_def
  WithWorkDir_def WithReadinessProbe_def WithResourceRequirements_def WithCommand_def WithArgs_def WithEnvs_def
  WithSecurityContext_def Let_def

lemma WithVolumeMounts_map_by:
  "WithVolumeMounts it vms c = c\<lparr>c_VolumeMounts :=
     sorted_values it container_volumeMountToString (map_by container_volumeMountToString (c_VolumeMounts c @ vms))\<rparr>"
  by (simp add: WithVolumeMounts_def map_by_def Let_def)

section \<open>podtemplatespec\<close>

type_synonym pod_modification = "pod_template_spec partial_edit"

definition notFound :: int where "notFound = - 1"

definition pod_New :: "pod_modification list \<Rightarrow> pod_template_spec outcome" where
  "pod_New templateMods = apply_partial templateMods empty_pod_template_spec"
definition pod_Apply :: "pod_modification list \<Rightarrow> pod_modification" where
  "pod_Apply templateMods = apply_partial templateMods"
definition pod_NOOP :: pod_modification where "pod_NOOP t = Ok t"

fun find_index_from :: "('a \<Rightarrow> string) \<Rightarrow> string \<Rightarrow> int \<Rightarrow> 'a list \<Rightarrow> int" where
  "find_index_from nm name idx [] = notFound"
| "find_index_from nm name idx (c # cs) = (if nm c = name then idx else find_index_from nm name (idx + 1) cs)"

definition findIndexByName :: "string \<Rightarrow> container list \<Rightarrow> int" where
  "findIndexByName name containers = find_index_from c_Name name 0 containers"

text \<open>\<open>f(&xs[idx])\<close>, which panics when the index is out of range.\<close>

definition at_index :: "'a edit \<Rightarrow> int \<Rightarrow> 'a list \<Rightarrow> 'a list outcome" where
  "at_index f idx xs =
     (if 0 \<le> idx \<and> idx < int (length xs) then Ok (xs[nat idx := f (xs ! nat idx)]) else Panic IndexOutOfRange)"

definition edit_by_name :: "string \<Rightarrow> container edit \<Rightarrow> container list \<Rightarrow> container list outcome" where
  "edit_by_name name containerfunc containers =
     (let idx = findIndexByName name containers
      in if idx = notFound
         then (let cs = containers @ [empty_container\<lparr>c_Name := name\<rparr>] in at_index containerfunc (int (length cs) - 1) cs)
         else at_index containerfunc idx containers)"

definition edit_by_index :: "int \<Rightarrow> container edit list \<Rightarrow> container list \<Rightarrow> container list outcome" where
  "edit_by_index index funcs containers =
     at_index (apply_mods funcs) index
       (if index \<ge> int (length containers) then containers @ [empty_container] else containers)"

definition set_containers :: "pod_template_spec \<Rightarrow> container list \<Rightarrow> pod_template_spec" where
  "set_containers t cs = t\<lparr>pts_Spec := (pts_Spec t)\<lparr>ps_Containers := cs\<rparr>\<rparr>"

definition set_init_containers :: "pod_template_spec \<Rightarrow> container list \<Rightarrow> pod_template_spec" where
  "set_init_containers t cs = t\<lparr>pts_Spec := (pts_Spec t)\<lparr>ps_InitContainers := cs\<rparr>\<rparr>"

definition WithContainer :: "string \<Rightarrow> container edit \<Rightarrow> pod_modification" where
  "WithContainer name containerfunc t =
     bind_out (edit_by_name name containerfunc (ps_Containers (pts_Spec t))) (\<lambda>cs. Ok (set_containers t cs))"
definition WithContainerByIndex :: "int \<Rightarrow> container edit list \<Rightarrow> pod_modification" where
  "WithContainerByIndex index funcs t =
     bind_out (edit_by_index index funcs (ps_Containers (pts_Spec t))) (\<lambda>cs. Ok (set_containers t cs))"
definition WithInitContainer :: "string \<Rightarrow> container edit \<Rightarrow> pod_modification" where
  "WithInitContainer name containerfunc t =
     bind_out (edit_by_name name containerfunc (ps_InitContainers (pts_Spec t))) (\<lambda>cs. Ok (set_init_containers t cs))"
definition WithInitContainerByIndex :: "int \<Rightarrow> container edit list \<Rightarrow> pod_modification" where
  "WithInitContainerByIndex index funcs t =
     bind_out (edit_by_index index funcs (ps_InitContainers (pts_Spec t))) (\<lambda>cs. Ok (set_init_containers t cs))"

definition WithPodLabels :: "string gomap option \<Rightarrow> pod_modification" where
  "WithPodLabels labels t = Ok (t\<lparr>pts_Meta := (pts_Meta t)\<lparr>om_Labels := Some (entries labels)\<rparr>\<rparr>)"
definition WithServiceAccount :: "string \<Rightarrow> pod_modification" where
  "WithServiceAccount serviceAccountName t =
     Ok (t\<lparr>pts_Spec := (pts_Spec t)\<lparr>ps_ServiceAccountName := serviceAccountName\<rparr>\<rparr>)"
definition WithVolume :: "volume \<Rightarrow> pod_modification" where
  "WithVolume v t =
     Ok (if list_ex (\<lambda>x. v_Name x = v_Name v) (ps_Volumes (pts_Spec t)) then t
         else t\<lparr>pts_Spec := (pts_Spec t)\<lparr>ps_Volumes := ps_Volumes (pts_Spec t) @ [v]\<rparr>\<rparr>)"
definition WithTerminationGracePeriodSeconds :: "int \<Rightarrow> pod_modification" where
  "WithTerminationGracePeriodSeconds secs t =
     Ok (t\<lparr>pts_Spec := (pts_Spec t)\<lparr>ps_TerminationGracePeriodSeconds := Some secs\<rparr>\<rparr>)"
definition pod_WithSecurityContext :: "pod_security_context \<Rightarrow> pod_modification" where
  "pod_WithSecurityContext securityContext t =
     Ok (t\<lparr>pts_Spec := (pts_Spec t)\<lparr>ps_SecurityContext := Some securityContext\<rparr>\<rparr>)"
definition DefaultPodSecurityContext :: pod_security_context where
  "DefaultPodSecurityContext = \<lparr>psc_FSGroup = Some 2000, psc_Other = None\<rparr>"
definition WithImagePullSecrets :: "string \<Rightarrow> pod_modification" where
  "WithImagePullSecrets name t =
     (let refs = (case ps_ImagePullSecrets (pts_Spec t) of None \<Rightarrow> [] | Some xs \<Rightarrow> xs)
      in Ok (if contains_String refs name then t
             else t\<lparr>pts_Spec := (pts_Spec t)\<lparr>ps_ImagePullSecrets := Some (refs @ [name])\<rparr>\<rparr>))"

text \<open>The chain of pointers to the affinity terms may be nil at each step.\<close>

definition WithTopologyKey :: "string \<Rightarrow> int \<Rightarrow> pod_modification" where
  "WithTopologyKey topologyKey idx t =
     (case ps_Affinity (pts_Spec t) of
        None \<Rightarrow> Panic NilDeref
      | Some a \<Rightarrow>
         (case aff_PodAntiAffinity a of
            None \<Rightarrow> Panic NilDeref
          | Some pa \<Rightarrow> bind_out (at_index (\<lambda>term. term\<lparr>wpat_TopologyKey := topologyKey\<rparr>) idx (paa_Preferred pa))
              (\<lambda>terms. Ok (t\<lparr>pts_Spec := (pts_Spec t)\<lparr>ps_Affinity :=
                 Some (a\<lparr>aff_PodAntiAffinity := Some (pa\<lparr>paa_Preferred := terms\<rparr>)\<rparr>)\<rparr>\<rparr>))))"

definition WithAffinity :: "string \<Rightarrow> string \<Rightarrow> int \<Rightarrow> pod_modification" where
  "WithAffinity stsName antiAffinityLabelKey weight t =
     Ok (t\<lparr>pts_Spec := (pts_Spec t)\<lparr>ps_Affinity := Some \<lparr>aff_NodeAffinity = None, aff_PodAffinity = None,
       aff_PodAntiAffinity = Some \<lparr>paa_Required = [], paa_Preferred = [\<lparr>wpat_Weight = to_int32 weight,
         wpat_LabelSelector = Some (empty_label_selector\<lparr>ls_MatchLabels := Some [(antiAffinityLabelKey, stsName)]\<rparr>),
         wpat_TopologyKey = ''''\<rparr>]\<rparr>\<rparr>\<rparr>\<rparr>)"

definition on_affinity :: "affinity edit \<Rightarrow> pod_modification" where
  "on_affinity f t = (case ps_Affinity (pts_Spec t) of None \<Rightarrow> Panic NilDeref
     | Some a \<Rightarrow> Ok (t\<lparr>pts_Spec := (pts_Spec t)\<lparr>ps_Affinity := Some (f a)\<rparr>\<rparr>))"

definition WithNodeAffinity :: "opaque option \<Rightarrow> pod_modification" where
  "WithNodeAffinity nodeAffinity = on_affinity (\<lambda>a. a\<lparr>aff_NodeAffinity := nodeAffinity\<rparr>)"
definition WithPodAffinity :: "opaque option \<Rightarrow> pod_modification" where
  "WithPodAffinity podAffinity = on_affinity (\<lambda>a. a\<lparr>aff_PodAffinity := podAffinity\<rparr>)"
definition WithTolerations :: "toleration list \<Rightarrow> pod_modification" where
  "WithTolerations tolerations t = Ok (t\<lparr>pts_Spec := (pts_Spec t)\<lparr>ps_Tolerations := tolerations\<rparr>\<rparr>)"
definition WithAnnotations :: "string gomap option \<Rightarrow> pod_modification" where
  "WithAnnotations annotations t = Ok (t\<lparr>pts_Meta := (pts_Meta t)\<lparr>om_Annotations := Some (entries annotations)\<rparr>\<rparr>)"

text \<open>\<open>FindContainerByName\<close>: where the container is, so that it can be edited in place.\<close>

datatype container_ref = InContainers int | InInitContainers int

definition FindContainerByName :: "string \<Rightarrow> pod_template_spec \<Rightarrow> container_ref option" where
  "FindContainerByName name t =
     (let containerIdx = findIndexByName name (ps_Containers (pts_Spec t));
          initIdx = findIndexByName name (ps_InitContainers (pts_Spec t))
      in if containerIdx \<noteq> notFound then Some (InContainers containerIdx)
         else if initIdx \<noteq> notFound then Some (InInitContainers initIdx) else None)"

definition pod_WithVolumeMounts :: "iter_order \<Rightarrow> string \<Rightarrow> volume_mount list \<Rightarrow> pod_modification" where
  "pod_WithVolumeMounts it containerName volumeMounts t =
     (case FindContainerByName containerName t of
        None \<Rightarrow> Ok t
      | Some (InContainers i) \<Rightarrow>
          bind_out (at_index (WithVolumeMounts it volumeMounts) i (ps_Containers (pts_Spec t)))
            (\<lambda>cs. Ok (set_containers t cs))
      | Some (InInitContainers i) \<Rightarrow>
          bind_out (at_index (WithVolumeMounts it volumeMounts) i (ps_InitContainers (pts_Spec t)))
            (\<lambda>cs. Ok (set_init_containers t cs)))"

section \<open>Lookup after an edit\<close>

lemma find_index_from_nonneg: "0 \<le> i \<Longrightarrow> find_index_from nm name i xs \<noteq> notFound \<Longrightarrow>
    i \<le> find_index_from nm name i xs \<and> find_index_from nm name i xs < i + int (length xs)
    \<and> nm (xs ! nat (find_index_from nm name i xs - i)) = name"
proof (induction xs arbitrary: i)
  case Nil
  then show ?case by simp
next
  case (Cons x xs)
  show ?case
  proof (cases "nm x = name")
    case True
    then show ?thesis by simp
  next
    case False
    let ?j = "find_index_from nm name (i + 1) xs"
    have ne: "?j \<noteq> notFound" using Cons.prems(2) False by simp
    then have j: "i + 1 \<le> ?j" "?j < i + 1 + int (length xs)" "nm (xs ! nat (?j - (i + 1))) = name"
      using Cons.IH [of "i + 1"] Cons.prems(1) by simp_all
    have "nat (?j - i) = Suc (nat (?j - (i + 1)))" using j(1) by linarith
    with False j show ?thesis by simp
  qed
qed

lemma find_index_from_notFound_iff: "0 \<le> i \<Longrightarrow> find_index_from nm name i xs = notFound \<longleftrightarrow> name \<notin> nm ` set xs"
  by (induction xs arbitrary: i) (auto simp: notFound_def)

text \<open>
  What an edit by name does: it changes the first element with the name, or a fresh one that
  is appended. When the edit keeps the name, its result is found under the name, and every other
  name finds what it found before.
\<close>

fun edited :: "('a \<Rightarrow> string) \<Rightarrow> 'a \<Rightarrow> string \<Rightarrow> 'a edit \<Rightarrow> 'a list \<Rightarrow> 'a list" where
  "edited nm fresh name f [] = [f fresh]"
| "edited nm fresh name f (c # cs) = (if nm c = name then f c # cs else c # edited nm fresh name f cs)"

lemma edit_at_found_from:
  assumes "i' = find_index_from nm name i cs" and "0 \<le> i"
  shows "(if i' = notFound then Ok (cs @ [f fresh]) else at_index f (i' - i) cs) = Ok (edited nm fresh name f cs)"
  using assms
proof (induction cs arbitrary: i i')
  case Nil
  then show ?case by simp
next
  case (Cons c cs)
  show ?case
  proof (cases "nm c = name")
    case True
    then show ?thesis using Cons.prems by (auto simp: at_index_def notFound_def)
  next
    case False
    have IH: "(if i' = notFound then Ok (cs @ [f fresh]) else at_index f (i' - (i + 1)) cs)
        = Ok (edited nm fresh name f cs)"
      using Cons False by simp
    show ?thesis
    proof (cases "i' = notFound")
      case True
      with IH False show ?thesis by simp
    next
      case found: False
      then have i': "i + 1 \<le> i'" "i' < i + 1 + int (length cs)"
        using Cons.prems False find_index_from_nonneg [of "i + 1" nm name cs] by auto
      moreover have "nat (i' - i) = Suc (nat (i' - (i + 1)))" using i'(1) by linarith
      ultimately show ?thesis using IH False found by (simp add: at_index_def)
    qed
  qed
qed

lemma at_index_last: "at_index f (int (length cs)) (cs @ [c]) = Ok (cs @ [f c])"
  by (simp add: at_index_def)

lemma edit_at_found:
  "(if find_index_from nm name 0 cs = notFound then at_index f (int (length cs)) (cs @ [fresh])
    else at_index f (find_index_from nm name 0 cs) cs) = Ok (edited nm fresh name f cs)"
  using edit_at_found_from [OF refl, of 0 nm name cs f fresh] by (simp add: at_index_last split: if_splits)

abbreviation edited_container :: "string \<Rightarrow> container edit \<Rightarrow> container list \<Rightarrow> container list" where
  "edited_container name \<equiv> edited c_Name (empty_container\<lparr>c_Name := name\<rparr>) name"

lemma edit_by_name_edited: "edit_by_name name f cs = Ok (edited_container name f cs)"
  using edit_at_found [of c_Name name cs f "empty_container\<lparr>c_Name := name\<rparr>"]
  by (simp add: edit_by_name_def Let_def findIndexByName_def split: if_splits)

lemma find_edited:
  assumes "\<And>c. nm c = name \<Longrightarrow> nm (f c) = name" and "nm (f fresh) = name"
  shows "find (\<lambda>c. nm c = k) (edited nm fresh name f cs) =
    (if k = name then Some (f (case find (\<lambda>c. nm c = name) cs of Some c \<Rightarrow> c | None \<Rightarrow> fresh))
     else find (\<lambda>c. nm c = k) cs)"
  using assms by (induction cs) auto

lemma set_edited: "set (edited nm fresh name f cs) \<subseteq>
    insert (f (case find (\<lambda>c. nm c = name) cs of Some c \<Rightarrow> c | None \<Rightarrow> fresh)) (set cs)"
  by (induction cs) auto

lemma edited_id: "find (\<lambda>c. nm c = name) cs = Some c \<Longrightarrow> f c = c \<Longrightarrow> edited nm fresh name f cs = cs"
  by (induction cs) (auto split: if_splits)

text \<open>The pod template modifications as plain record updates.\<close>

definition add_volume :: "volume \<Rightarrow> volume list \<Rightarrow> volume list" where
  "add_volume v vs = (if list_ex (\<lambda>x. v_Name x = v_Name v) vs then vs else vs @ [v])"

lemma names_add_volume: "v_Name ` set (add_volume v vs) = insert (v_Name v) (v_Name ` set vs)"
proof (cases "v_Name v \<in> v_Name ` set vs")
  case True
  then have "list_ex (\<lambda>x. v_Name x = v_Name v) vs" by (auto simp: list_ex_iff)
  with True show ?thesis by (auto simp: add_volume_def)
next
  case False
  then have "\<not> list_ex (\<lambda>x. v_Name x = v_Name v) vs" by (auto simp: list_ex_iff image_iff)
  with False show ?thesis by (auto simp: add_volume_def)
qed

lemma add_volume_id: "v_Name v \<in> v_Name ` set vs \<Longrightarrow> add_volume v vs = vs"
  by (auto simp: add_volume_def list_ex_iff)

lemma pod_mods_Ok:
  "WithVolume v t = Ok (t\<lparr>pts_Spec := (pts_Spec t)\<lparr>ps_Volumes := add_volume v (ps_Volumes (pts_Spec t))\<rparr>\<rparr>)"
  "WithContainer name f t = Ok (t\<lparr>pts_Spec := (pts_Spec t)\<lparr>ps_Containers :=
     edited_container name f (ps_Containers (pts_Spec t))\<rparr>\<rparr>)"
  "WithInitContainer name f t = Ok (t\<lparr>pts_Spec := (pts_Spec t)\<lparr>ps_InitContainers :=
     edited_container name f (ps_InitContainers (pts_Spec t))\<rparr>\<rparr>)"
  by (simp_all add: WithVolume_def add_volume_def WithContainer_def WithInitContainer_def edit_by_name_edited
      set_containers_def set_init_containers_def)

text \<open>Laying the same elements over a merged and sorted slice again changes nothing.\<close>

lemma find_sorted_map_by:
  assumes "valid_order it"
  shows "find (\<lambda>v. key v = k) (sorted_values it key (map_by key xs)) = find (\<lambda>v. key v = k) (rev xs)"
  by (simp only: find_sorted_values [OF self_keyed_map_by assms] map_of_map_by)

lemma sorted_values_again:
  assumes it: "valid_order it"
  shows "sorted_values it key (map_by key (sorted_values it key (map_by key (xs @ ys)) @ ys))
    = sorted_values it key (map_by key (xs @ ys))"
proof (rule keyed_list_eqI [where key = key])
  let ?zs = "sorted_values it key (map_by key (xs @ ys))"
  note d = distinct_sorted_values [OF self_keyed_map_by it]
  show "sorted (map key (sorted_values it key (map_by key (?zs @ ys))))" "sorted (map key ?zs)"
    by (rule sorted_sorted_values)+
  show "distinct (map key (sorted_values it key (map_by key (?zs @ ys))))" "distinct (map key ?zs)"
    by (rule d)+
  fix k
  have z: "find (\<lambda>v. key v = k) (rev ?zs) = find (\<lambda>v. key v = k) (rev (xs @ ys))"
    using find_rev_distinct [OF d] find_sorted_map_by [OF it] by metis
  show "find (\<lambda>v. key v = k) (sorted_values it key (map_by key (?zs @ ys))) = find (\<lambda>v. key v = k) ?zs"
    unfolding find_sorted_map_by [OF it] rev_append find_append_case z by (simp split: option.split)
qed

lemma WithVolumeMounts_again:
  "valid_order it \<Longrightarrow> c_VolumeMounts c = c_VolumeMounts (WithVolumeMounts it vms d) \<Longrightarrow> WithVolumeMounts it vms c = c"
  by (simp add: WithVolumeMounts_map_by sorted_values_again)

lemma MergeWithOverride_again:
  "valid_order it \<Longrightarrow> MergeWithOverride it (MergeWithOverride it es ds) ds = MergeWithOverride it es ds"
  by (simp add: MergeWithOverride_map_by sorted_values_again)

lemma set_WithVolumeMounts:
  assumes "valid_order it"
  shows "set (c_VolumeMounts (WithVolumeMounts it vms c)) \<subseteq> set (c_VolumeMounts c) \<union> set vms"
proof -
  have "snd ` set (map_by container_volumeMountToString xs) \<subseteq> set xs" for xs
  proof
    fix v assume "v \<in> snd ` set (map_by container_volumeMountToString xs)"
    then obtain k where "(k, v) \<in> set (map_by container_volumeMountToString xs)" by auto
    then have "map_of (map_by container_volumeMountToString xs) k = Some v"
      by (intro map_of_is_SomeI) (use wf_map_map_by in \<open>simp_all add: wf_map_def\<close>)
    then show "v \<in> set xs" by (auto simp: map_of_map_by dest: find_Some_key)
  qed
  from this [of "c_VolumeMounts c @ vms"] assms show ?thesis
    by (simp add: WithVolumeMounts_map_by set_sorted_values)
qed

end
