(* ===== verification/Api.thy ===== *)
theory Api
  imports AutomationConfig Scale
begin

text \<open>
  \<open>api/v1/mongodbcommunity_types.go\<close>: the custom resource and the methods that derive names,
  hosts, connection strings and options from it, with the types of
  \<open>pkg/authentication/scram\<close> that it fills in.
\<close>

section \<open>The resource\<close>

record spec_role =
  role_DB :: string
  role_Name :: string

record secret_key_reference =
  skr_Name :: string
  skr_Key :: string

record mongodb_user =
  usr_Name :: string
  usr_DB :: string
  usr_PasswordSecretRef :: secret_key_reference
  usr_Roles :: "spec_role list"
  usr_ScramCredentialsSecretName :: string

record spec_resource =
  sres_DB :: "string option"
  sres_Collection :: "string option"
  sres_Cluster :: bool
  sres_AnyResource :: bool

record spec_privilege =
  spriv_Resource :: spec_resource
  spriv_Actions :: "string slice"

record spec_restriction =
  srest_ClientSource :: "string slice"
  srest_ServerAddress :: "string slice"

record custom_role =
  cr_Role :: string
  cr_DB :: string
  cr_Privileges :: "spec_privilege list"
  cr_Roles :: "spec_role list"
  cr_AuthenticationRestrictions :: "spec_restriction list"

record authentication =
  authn_Modes :: "string list"
  authn_IgnoreUnknownUsers :: "bool option"

record spec_tls =
  stls_Enabled :: bool
  stls_Optional :: bool
  stls_CertificateKeySecret :: string
  stls_CaConfigMap :: string

record security =
  sec_Authentication :: authentication
  sec_TLS :: spec_tls
  sec_Roles :: "custom_role list option"

record mongodb_community_spec =
  spec_Members :: int
  spec_Type :: string
  spec_Version :: string
  spec_Arbiters :: int
  spec_FeatureCompatibilityVersion :: string
  spec_ReplicaSetHorizons :: "horizons list option"
  spec_Security :: security
  spec_Users :: "mongodb_user list"
  spec_StatefulSet :: statefulset_spec
  spec_AdditionalMongodConfig :: "json gomap"

record mongodb_community_status =
  stat_MongoURI :: string
  stat_Phase :: string
  stat_CurrentStatefulSetReplicas :: int
  stat_CurrentMongoDBMembers :: int
  stat_Message :: string

record mongodb_community =
  mdb_Kind :: string
  mdb_Meta :: object_meta
  mdb_Spec :: mongodb_community_spec
  mdb_Status :: mongodb_community_status

abbreviation mdb_Name :: "mongodb_community \<Rightarrow> string" where
  "mdb_Name m \<equiv> om_Name (mdb_Meta m)"

abbreviation mdb_Namespace :: "mongodb_community \<Rightarrow> string" where
  "mdb_Namespace m \<equiv> om_Namespace (mdb_Meta m)"

abbreviation mdb_TLS :: "mongodb_community \<Rightarrow> spec_tls" where
  "mdb_TLS m \<equiv> sec_TLS (spec_Security (mdb_Spec m))"

section \<open>Types of the scram package\<close>

record scram_role =
  sr_Name :: string
  sr_Database :: string

record scram_user =
  su_Username :: string
  su_Database :: string
  su_Roles :: "scram_role list"
  su_PasswordSecretKey :: string
  su_PasswordSecretName :: string
  su_ScramCredentialsSecretName :: string

record scram_options =
  so_AuthoritativeSet :: bool
  so_KeyFile :: string
  so_AutoAuthMechanisms :: "string list"
  so_AgentName :: string
  so_AutoAuthMechanism :: string

definition Sha256 :: string where "Sha256 = ''SCRAM-SHA-256''"
definition Sha1 :: string where "Sha1 = ''MONGODB-CR''"
definition AutomationAgentKeyFilePathInContainer :: string where
  "AutomationAgentKeyFilePathInContainer = ''/var/lib/mongodb-mms-automation/authentication/keyfile''"
definition scram_AgentName :: string where "scram_AgentName = ''mms-automation''"

section \<open>Custom roles\<close>

text \<open>\<open>append\<close> to a nil slice: nil when nothing is appended.\<close>

definition appended :: "'a list \<Rightarrow> 'a slice" where
  "appended xs = (if xs = [] then None else Some xs)"

definition ConvertToAutomationConfigCustomRole :: "custom_role \<Rightarrow> ac_custom_role" where
  "ConvertToAutomationConfigCustomRole c =
     \<lparr>accr_Role = cr_Role c, accr_DB = cr_DB c,
      accr_Privileges = appended (map (\<lambda>p. \<lparr>acp_Resource = \<lparr>acres_DB = sres_DB (spriv_Resource p),
            acres_Collection = sres_Collection (spriv_Resource p),
            acres_AnyResource = sres_AnyResource (spriv_Resource p), acres_Cluster = sres_Cluster (spriv_Resource p)\<rparr>,
          acp_Actions = spriv_Actions p\<rparr>) (cr_Privileges c)),
      accr_Roles = Some (map (\<lambda>r. \<lparr>acr_Role = role_Name r, acr_Database = role_DB r\<rparr>) (cr_Roles c)),
      accr_AuthenticationRestrictions = map (\<lambda>r. \<lparr>acar_ClientSource = srest_ClientSource r,
          acar_ServerAddress = srest_ServerAddress r\<rparr>) (cr_AuthenticationRestrictions c)\<rparr>"

definition ConvertCustomRolesToAutomationConfigCustomRole :: "custom_role list \<Rightarrow> ac_custom_role list" where
  "ConvertCustomRolesToAutomationConfigCustomRole roles = map ConvertToAutomationConfigCustomRole roles"

section \<open>Users and authentication\<close>

definition GetPasswordSecretKey :: "mongodb_user \<Rightarrow> string" where
  "GetPasswordSecretKey u =
     (if skr_Key (usr_PasswordSecretRef u) = '''' then ''password'' else skr_Key (usr_PasswordSecretRef u))"

definition GetScramCredentialsSecretName :: "mongodb_user \<Rightarrow> string" where
  "GetScramCredentialsSecretName u = usr_ScramCredentialsSecretName u @ ''-'' @ ''scram-credentials''"

definition ConvertAuthModeToAuthMechanism :: "string \<Rightarrow> string" where
  "ConvertAuthModeToAuthMechanism authModeLabel =
     (if authModeLabel = ''SCRAM'' \<or> authModeLabel = ''SCRAM-SHA-256'' then Sha256
      else if authModeLabel = ''SCRAM-SHA-1'' then Sha1 else '''')"

definition defaultMode :: string where "defaultMode = ''SCRAM-SHA-256''"

text \<open>
  The loop over the modes: the mechanism at every position (empty for an unknown mode), and the
  agent's mechanism, which the default one replaces as soon as it occurs.
\<close>

fun scram_mechanisms :: "string list \<Rightarrow> string \<Rightarrow> string list \<times> string" where
  "scram_mechanisms [] auto = ([], auto)"
| "scram_mechanisms (authMode # modes) auto =
     (let authMech = ConvertAuthModeToAuthMechanism authMode;
          auto' = (if authMech \<noteq> '''' \<and> authMech = ConvertAuthModeToAuthMechanism defaultMode
                   then ConvertAuthModeToAuthMechanism defaultMode else auto);
          (mechs, auto'') = scram_mechanisms modes auto'
      in (authMech # mechs, auto''))"

text \<open>\<open>authModes[0]\<close> panics on an empty list of modes.\<close>

definition GetScramOptions :: "mongodb_community \<Rightarrow> scram_options outcome" where
  "GetScramOptions m =
     (let a = sec_Authentication (spec_Security (mdb_Spec m));
          ignoreUnknownUsers = (case authn_IgnoreUnknownUsers a of None \<Rightarrow> True | Some b \<Rightarrow> b)
      in case authn_Modes a of
           [] \<Rightarrow> Panic IndexOutOfRange
         | firstMode # modes \<Rightarrow>
             (let (authMechanisms, autoAuthMechanism) =
                    scram_mechanisms (firstMode # modes) (ConvertAuthModeToAuthMechanism firstMode)
              in Ok \<lparr>so_AuthoritativeSet = \<not> ignoreUnknownUsers,
                     so_KeyFile = AutomationAgentKeyFilePathInContainer,
                     so_AutoAuthMechanisms = authMechanisms, so_AgentName = scram_AgentName,
                     so_AutoAuthMechanism = autoAuthMechanism\<rparr>))"

definition GetScramUsers :: "mongodb_community \<Rightarrow> scram_user list" where
  "GetScramUsers m = map (\<lambda>u. \<lparr>su_Username = usr_Name u, su_Database = usr_DB u,
       su_Roles = map (\<lambda>r. \<lparr>sr_Name = role_Name r, sr_Database = role_DB r\<rparr>) (usr_Roles u),
       su_PasswordSecretKey = GetPasswordSecretKey u,
       su_PasswordSecretName = skr_Name (usr_PasswordSecretRef u),
       su_ScramCredentialsSecretName = GetScramCredentialsSecretName u\<rparr>) (spec_Users (mdb_Spec m))"

section \<open>Names of the resource\<close>

definition NamespacedName :: "mongodb_community \<Rightarrow> nsname" where
  "NamespacedName m = \<lparr>nn_Namespace = mdb_Namespace m, nn_Name = mdb_Name m\<rparr>"

definition GetAgentPasswordSecretNamespacedName :: "mongodb_community \<Rightarrow> nsname" where
  "GetAgentPasswordSecretNamespacedName m = \<lparr>nn_Namespace = mdb_Namespace m, nn_Name = mdb_Name m @ ''-agent-password''\<rparr>"

definition GetAgentKeyfileSecretNamespacedName :: "mongodb_community \<Rightarrow> nsname" where
  "GetAgentKeyfileSecretNamespacedName m = \<lparr>nn_Namespace = mdb_Namespace m, nn_Name = mdb_Name m @ ''-keyfile''\<rparr>"

text \<open>\<open>metav1.NewControllerRef\<close> makes the owner the controller and lets it block the deletion.\<close>

definition GetOwnerReferences :: "mongodb_community \<Rightarrow> owner_reference list" where
  "GetOwnerReferences m = [\<lparr>or_APIVersion = ''mongodbcommunity.mongodb.com/v1'', or_Kind = mdb_Kind m,
     or_Name = mdb_Name m, or_UID = om_UID (mdb_Meta m), or_Controller = Some True, or_BlockOwnerDeletion = Some True\<rparr>]"

definition ServiceName :: "mongodb_community \<Rightarrow> string" where
  "ServiceName m =
     (let serviceName = sts_ServiceName (spec_StatefulSet (mdb_Spec m))
      in if serviceName \<noteq> '''' then serviceName else mdb_Name m @ ''-svc'')"

definition AutomationConfigSecretName :: "mongodb_community \<Rightarrow> string" where
  "AutomationConfigSecretName m = mdb_Name m @ ''-config''"

definition TLSConfigMapNamespacedName :: "mongodb_community \<Rightarrow> nsname" where
  "TLSConfigMapNamespacedName m = \<lparr>nn_Namespace = mdb_Namespace m, nn_Name = stls_CaConfigMap (mdb_TLS m)\<rparr>"

definition TLSSecretNamespacedName :: "mongodb_community \<Rightarrow> nsname" where
  "TLSSecretNamespacedName m = \<lparr>nn_Namespace = mdb_Namespace m, nn_Name = stls_CertificateKeySecret (mdb_TLS m)\<rparr>"

definition TLSOperatorSecretNamespacedName :: "mongodb_community \<Rightarrow> nsname" where
  "TLSOperatorSecretNamespacedName m =
     \<lparr>nn_Namespace = mdb_Namespace m, nn_Name = mdb_Name m @ ''-server-certificate-key''\<rparr>"

section \<open>Hosts and connection strings\<close>

text \<open>\<open>make([]string, m.Spec.Members)\<close> panics on a negative number of members.\<close>

definition Hosts :: "mongodb_community \<Rightarrow> string list outcome" where
  "Hosts m =
     (if spec_Members (mdb_Spec m) < 0 then Panic NegativeMake
      else Ok (map (\<lambda>i. mdb_Name m @ ''-'' @ int_text (int i) @ ''.'' @ ServiceName m @ ''.'' @ mdb_Namespace m
             @ ''.'' @ ''svc.cluster.local'' @ '':'' @ int_text 27017) [0..<nat (spec_Members (mdb_Spec m))]))"

definition MongoURI :: "mongodb_community \<Rightarrow> string outcome" where
  "MongoURI m = bind_out (Hosts m) (\<lambda>hosts. Ok (''mongodb://'' @ join hosts '',''))"

definition MongoSRVURI :: "mongodb_community \<Rightarrow> string" where
  "MongoSRVURI m = ''mongodb+srv://'' @ ServiceName m @ ''.'' @ mdb_Namespace m @ ''.'' @ ''svc.cluster.local''"

text \<open>\<open>url.QueryEscape\<close>: unreserved characters stay, a space is a plus, other bytes are percent-encoded.\<close>

definition query_unreserved :: string where
  "query_unreserved = ''ABCDEFGHIJKLMNOPQRSTUVWXYZabcdefghijklmnopqrstuvwxyz0123456789-_.~''"

definition upper_hex :: string where "upper_hex = ''0123456789ABCDEF''"

definition escape_query_char :: "char \<Rightarrow> string" where
  "escape_query_char c =
     (if c \<in> set query_unreserved then [c] else if c = CHR '' '' then ''+''
      else let n = (of_char c :: nat) in [CHR ''%'', upper_hex ! (n div 16), upper_hex ! (n mod 16)])"

definition QueryEscape :: "string \<Rightarrow> string" where
  "QueryEscape s = concat (map escape_query_char s)"

definition bool_text :: "bool \<Rightarrow> string" where
  "bool_text b = (if b then ''true'' else ''false'')"

definition MongoAuthUserURI :: "mongodb_community \<Rightarrow> scram_user \<Rightarrow> string \<Rightarrow> string outcome" where
  "MongoAuthUserURI m user password =
     bind_out (Hosts m) (\<lambda>hosts. Ok (''mongodb://'' @ QueryEscape (su_Username user) @ '':'' @ QueryEscape password
       @ ''@'' @ join hosts '','' @ ''/'' @ su_Database user @ ''?ssl='' @ bool_text (stls_Enabled (mdb_TLS m))))"

definition MongoAuthUserSRVURI :: "mongodb_community \<Rightarrow> scram_user \<Rightarrow> string \<Rightarrow> string" where
  "MongoAuthUserSRVURI m user password =
     ''mongodb+srv://'' @ QueryEscape (su_Username user) @ '':'' @ QueryEscape password @ ''@'' @ ServiceName m
       @ ''.'' @ mdb_Namespace m @ ''.'' @ ''svc.cluster.local'' @ ''/'' @ su_Database user
       @ ''?ssl='' @ bool_text (stls_Enabled (mdb_TLS m))"

text \<open>\<open>User.GetConnectionStringSecretName\<close> of the scram package.\<close>

definition GetConnectionStringSecretName :: "scram_user \<Rightarrow> mongodb_community \<Rightarrow> string" where
  "GetConnectionStringSecretName u m = nn_Name (NamespacedName m) @ ''-'' @ su_Database u @ ''-'' @ su_Username u"

section \<open>Scaling and versions\<close>

definition statefulset_scaler :: "mongodb_community \<Rightarrow> replica_set_scaler" where
  "statefulset_scaler m = \<lparr>DesiredReplicas = spec_Members (mdb_Spec m),
     CurrentReplicas = stat_CurrentStatefulSetReplicas (mdb_Status m)\<rparr>"

definition automationConfigReplicasScaler :: "mongodb_community \<Rightarrow> replica_set_scaler" where
  "automationConfigReplicasScaler m = \<lparr>DesiredReplicas = spec_Members (mdb_Spec m),
     CurrentReplicas = stat_CurrentMongoDBMembers (mdb_Status m)\<rparr>"

definition AutomationConfigMembersThisReconciliation :: "mongodb_community \<Rightarrow> int" where
  "AutomationConfigMembersThisReconciliation m = ReplicasThisReconciliation (automationConfigReplicasScaler m)"

definition StatefulSetReplicasThisReconciliation :: "mongodb_community \<Rightarrow> int" where
  "StatefulSetReplicasThisReconciliation m = ReplicasThisReconciliation (statefulset_scaler m)"

definition LastAppliedMongoDBVersion :: string where
  "LastAppliedMongoDBVersion = ''mongodb.com/v1.lastAppliedMongoDBVersion''"

definition GetAnnotation :: "mongodb_community \<Rightarrow> string \<Rightarrow> string" where
  "GetAnnotation m key = (case map_of (entries (om_Annotations (mdb_Meta m))) key of None \<Rightarrow> '''' | Some value \<Rightarrow> value)"

definition getLastVersion :: "mongodb_community \<Rightarrow> string" where
  "getLastVersion m = GetAnnotation m LastAppliedMongoDBVersion"

definition IsChangingVersion :: "mongodb_community \<Rightarrow> bool" where
  "IsChangingVersion m = (getLastVersion m \<noteq> '''' \<and> getLastVersion m \<noteq> spec_Version (mdb_Spec m))"

definition GetUpdateStrategyType :: "mongodb_community \<Rightarrow> string" where
  "GetUpdateStrategyType m = (if \<not> IsChangingVersion m then ''RollingUpdate'' else ''OnDelete'')"

definition HasSeparateDataAndLogsVolumes :: "mongodb_community \<Rightarrow> bool" where
  "HasSeparateDataAndLogsVolumes m = True"

definition DataVolumeName :: "mongodb_community \<Rightarrow> string" where "DataVolumeName m = ''data-volume''"
definition LogsVolumeName :: "mongodb_community \<Rightarrow> string" where "LogsVolumeName m = ''logs-volume''"

section \<open>A resource for examples\<close>

definition example_mdb :: "int \<Rightarrow> string \<Rightarrow> bool \<Rightarrow> mongodb_community" where
  "example_mdb members version tls =
     \<lparr>mdb_Kind = ''MongoDBCommunity'',
      mdb_Meta = empty_meta\<lparr>om_Name := ''db'', om_Namespace := ''ns'', om_UID := ''1''\<rparr>,
      mdb_Spec = \<lparr>spec_Members = members, spec_Type = ''ReplicaSet'', spec_Version = version, spec_Arbiters = 0,
        spec_FeatureCompatibilityVersion = '''', spec_ReplicaSetHorizons = None,
        spec_Security = \<lparr>sec_Authentication = \<lparr>authn_Modes = [''SCRAM''], authn_IgnoreUnknownUsers = None\<rparr>,
          sec_TLS = \<lparr>stls_Enabled = tls, stls_Optional = False, stls_CertificateKeySecret = ''tls'', stls_CaConfigMap = ''ca''\<rparr>,
          sec_Roles = None\<rparr>,
        spec_Users = [\<lparr>usr_Name = ''ann'', usr_DB = ''admin'', usr_PasswordSecretRef = \<lparr>skr_Name = ''pw'', skr_Key = ''''\<rparr>,
          usr_Roles = [\<lparr>role_DB = ''admin'', role_Name = ''root''\<rparr>], usr_ScramCredentialsSecretName = ''ann''\<rparr>],
        spec_StatefulSet = empty_statefulset_spec, spec_AdditionalMongodConfig = []\<rparr>,
      mdb_Status = \<lparr>stat_MongoURI = '''', stat_Phase = '''', stat_CurrentStatefulSetReplicas = 0,
        stat_CurrentMongoDBMembers = 0, stat_Message = ''''\<rparr>\<rparr>"

end
