(* ===== verification/StatefulSets.thy ===== *)
theory StatefulSets
  imports Pod_Mods Api
begin

text \<open>
  \<open>pkg/kube/statefulset\<close>: creating, updating and inspecting stateful sets, the modification
  functions that assemble one, and the older builder of the same package.
\<close>

section \<open>The interface\<close>

record 'w statefulset_client =
  GetStatefulSet :: "nsname \<Rightarrow> 'w \<Rightarrow> statefulset outcome \<times> 'w"
  UpdateStatefulSet :: "statefulset \<Rightarrow> 'w \<Rightarrow> statefulset outcome \<times> 'w"
  CreateStatefulSet :: "statefulset \<Rightarrow> 'w \<Rightarrow> unit outcome \<times> 'w"
  DeleteStatefulSet :: "nsname \<Rightarrow> 'w \<Rightarrow> unit outcome \<times> 'w"

definition sts_CreateOrUpdate :: "'w statefulset_client \<Rightarrow> statefulset \<Rightarrow> 'w \<Rightarrow> statefulset outcome \<times> 'w" where
  "sts_CreateOrUpdate c sts =
     on_result (GetStatefulSet c (object_key (sts_Meta sts)))
       (\<lambda>err. if IsNotFound err then on_result (CreateStatefulSet c sts) fail (\<lambda>_. ret empty_statefulset)
              else fail err)
       (\<lambda>_. UpdateStatefulSet c sts)"

definition sts_GetAndUpdate ::
    "'w statefulset_client \<Rightarrow> nsname \<Rightarrow> statefulset edit \<Rightarrow> 'w \<Rightarrow> statefulset outcome \<times> 'w" where
  "sts_GetAndUpdate c nsName updateFunc =
     on_result (GetStatefulSet c nsName) fail (\<lambda>sts. UpdateStatefulSet c (updateFunc sts))"

section \<open>Volumes and mounts\<close>

record volume_mount_data =
  vmd_Name :: string
  vmd_MountPath :: string
  vmd_Volume :: volume
  vmd_ReadOnly :: bool

definition CreateVolumeFromConfigMap :: "string \<Rightarrow> string \<Rightarrow> volume" where
  "CreateVolumeFromConfigMap name sourceName = \<lparr>v_Name = name, v_Source = empty_volume_source\<lparr>vs_ConfigMap :=
     Some \<lparr>cs_Name = sourceName, cs_Items = [], cs_DefaultMode = None, cs_Optional = None\<rparr>\<rparr>\<rparr>"

definition CreateVolumeFromSecret :: "string \<Rightarrow> string \<Rightarrow> volume edit list \<Rightarrow> volume" where
  "CreateVolumeFromSecret name sourceName options =
     apply_mods options \<lparr>v_Name = name, v_Source = empty_volume_source\<lparr>vs_Secret :=
       Some (empty_secret_source\<lparr>ss_SecretName := sourceName, ss_DefaultMode := Some 416\<rparr>)\<rparr>\<rparr>"

definition CreateVolumeFromEmptyDir :: "string \<Rightarrow> volume" where
  "CreateVolumeFromEmptyDir name = \<lparr>v_Name = name, v_Source = empty_volume_source\<lparr>vs_EmptyDir :=
     Some \<lparr>ed_Medium = '''', ed_SizeLimit = None\<rparr>\<rparr>\<rparr>"

definition CreateVolumeMount :: "string \<Rightarrow> string \<Rightarrow> volume_mount edit list \<Rightarrow> volume_mount" where
  "CreateVolumeMount name path options =
     apply_mods options \<lparr>vm_Name = name, vm_ReadOnly = False, vm_MountPath = path, vm_SubPath = '''',
       vm_MountPropagation = None, vm_SubPathExpr = ''''\<rparr>"

definition WithSecretDefaultMode :: "int32 option \<Rightarrow> volume edit" where
  "WithSecretDefaultMode mode v =
     (let s = (case vs_Secret (v_Source v) of None \<Rightarrow> empty_secret_source | Some s \<Rightarrow> s)
      in v\<lparr>v_Source := (v_Source v)\<lparr>vs_Secret := Some (s\<lparr>ss_DefaultMode := mode\<rparr>)\<rparr>\<rparr>)"

definition WithSubPath :: "string \<Rightarrow> volume_mount edit" where
  "WithSubPath subPath v = v\<lparr>vm_SubPath := subPath\<rparr>"

definition WithReadOnly :: "bool \<Rightarrow> volume_mount edit" where
  "WithReadOnly readonly v = v\<lparr>vm_ReadOnly := readonly\<rparr>"

fun VolumeMountWithNameExists :: "volume_mount list \<Rightarrow> string \<Rightarrow> bool" where
  "VolumeMountWithNameExists [] volumeName = False"
| "VolumeMountWithNameExists (mount # mounts) volumeName =
     (if vm_Name mount = volumeName then True else VolumeMountWithNameExists mounts volumeName)"

section \<open>Readiness\<close>

definition sts_IsReady :: "statefulset \<Rightarrow> int \<Rightarrow> bool" where
  "sts_IsReady sts expectedReplicas =
     (let allUpdated = (to_int32 expectedReplicas = stss_UpdatedReplicas (sts_Status sts));
          allReady = (to_int32 expectedReplicas = stss_ReadyReplicas (sts_Status sts));
          atExpectedGeneration = (om_Generation (sts_Meta sts) = stss_ObservedGeneration (sts_Status sts))
      in allUpdated \<and> allReady \<and> atExpectedGeneration)"

section \<open>Modifications\<close>

type_synonym sts_modification = "statefulset partial_edit"

definition sts_NOOP :: sts_modification where "sts_NOOP sts = Ok sts"

definition sts_New :: "sts_modification list \<Rightarrow> statefulset outcome" where
  "sts_New mods = apply_partial mods empty_statefulset"

definition sts_Apply :: "sts_modification list \<Rightarrow> sts_modification" where
  "sts_Apply funcs = apply_partial funcs"

definition on_spec :: "statefulset_spec edit \<Rightarrow> sts_modification" where
  "on_spec f sts = Ok (sts\<lparr>sts_Spec := f (sts_Spec sts)\<rparr>)"

definition on_meta :: "object_meta edit \<Rightarrow> sts_modification" where
  "on_meta f sts = Ok (sts\<lparr>sts_Meta := f (sts_Meta sts)\<rparr>)"

definition copyMap :: "string gomap \<Rightarrow> string gomap" where
  "copyMap originalMap = put_all [] originalMap"

definition sts_WithName :: "string \<Rightarrow> sts_modification" where
  "sts_WithName name = on_meta (\<lambda>m. m\<lparr>om_Name := name\<rparr>)"
definition sts_WithNamespace :: "string \<Rightarrow> sts_modification" where
  "sts_WithNamespace namespace = on_meta (\<lambda>m. m\<lparr>om_Namespace := namespace\<rparr>)"
definition WithServiceName :: "string \<Rightarrow> sts_modification" where
  "WithServiceName svcName = on_spec (\<lambda>s. s\<lparr>sts_ServiceName := svcName\<rparr>)"
definition WithLabels :: "string gomap \<Rightarrow> sts_modification" where
  "WithLabels labels = on_meta (\<lambda>m. m\<lparr>om_Labels := Some (copyMap labels)\<rparr>)"
definition WithMatchLabels :: "string gomap \<Rightarrow> sts_modification" where
  "WithMatchLabels matchLabels = on_spec (\<lambda>s.
     let sel = (case sts_Selector s of None \<Rightarrow> empty_label_selector | Some l \<Rightarrow> l)
     in s\<lparr>sts_Selector := Some (sel\<lparr>ls_MatchLabels := Some (copyMap matchLabels)\<rparr>)\<rparr>)"
definition WithOwnerReference :: "owner_reference list \<Rightarrow> sts_modification" where
  "WithOwnerReference ownerRefs = on_meta (\<lambda>m. m\<lparr>om_OwnerReferences := ownerRefs\<rparr>)"
definition WithReplicas :: "int \<Rightarrow> sts_modification" where
  "WithReplicas replicas = on_spec (\<lambda>s. s\<lparr>sts_Replicas := Some (to_int32 replicas)\<rparr>)"
definition WithRevisionHistoryLimit :: "int \<Rightarrow> sts_modification" where
  "WithRevisionHistoryLimit n = on_spec (\<lambda>s. s\<lparr>sts_RevisionHistoryLimit := Some (to_int32 n)\<rparr>)"
definition WithPodManagementPolicyType :: "string \<Rightarrow> sts_modification" where
  "WithPodManagementPolicyType policyType = on_spec (\<lambda>s. s\<lparr>sts_PodManagementPolicy := policyType\<rparr>)"
definition WithSelector :: "label_selector option \<Rightarrow> sts_modification" where
  "WithSelector selector = on_spec (\<lambda>s. s\<lparr>sts_Selector := selector\<rparr>)"
definition WithUpdateStrategyType :: "string \<Rightarrow> sts_modification" where
  "WithUpdateStrategyType strategyType =
     on_spec (\<lambda>s. s\<lparr>sts_UpdateStrategy := \<lparr>us_Type = strategyType, us_RollingUpdate = None\<rparr>\<rparr>)"
definition WithPodSpecTemplate :: "pod_modification \<Rightarrow> sts_modification" where
  "WithPodSpecTemplate templateFunc sts =
     bind_out (templateFunc (sts_Template (sts_Spec sts)))
       (\<lambda>t. Ok (sts\<lparr>sts_Spec := (sts_Spec sts)\<lparr>sts_Template := t\<rparr>\<rparr>))"

definition findVolumeClaimIndexByName :: "string \<Rightarrow> persistent_volume_claim list \<Rightarrow> int" where
  "findVolumeClaimIndexByName name pvcs = find_index_from (\<lambda>p. om_Name (pvc_Meta p)) name 0 pvcs"

definition WithVolumeClaim :: "string \<Rightarrow> persistent_volume_claim edit \<Rightarrow> sts_modification" where
  "WithVolumeClaim name f sts =
     (let claims = sts_VolumeClaimTemplates (sts_Spec sts);
          idx = findVolumeClaimIndexByName name claims;
          (claims', idx') = (if idx = notFound then (claims @ [empty_pvc], int (length claims)) else (claims, idx))
      in bind_out (at_index f idx' claims')
           (\<lambda>cs. Ok (sts\<lparr>sts_Spec := (sts_Spec sts)\<lparr>sts_VolumeClaimTemplates := cs\<rparr>\<rparr>)))"

definition WithCustomSpecs :: "iter_order \<Rightarrow> statefulset_spec \<Rightarrow> sts_modification" where
  "WithCustomSpecs it spec = on_spec (\<lambda>s. StatefulSetSpecs it s spec)"

definition ResetUpdateStrategy :: "'w statefulset_client \<Rightarrow> mongodb_community \<Rightarrow> 'w \<Rightarrow> unit outcome \<times> 'w" where
  "ResetUpdateStrategy c mdb =
     (if \<not> IsChangingVersion mdb then ret ()
      else on_result (sts_GetAndUpdate c (NamespacedName mdb)
             (\<lambda>sts. sts\<lparr>sts_Spec := (sts_Spec sts)\<lparr>sts_UpdateStrategy :=
                (sts_UpdateStrategy (sts_Spec sts))\<lparr>us_Type := ''RollingUpdate''\<rparr>\<rparr>\<rparr>))
             fail (\<lambda>_. ret ()))"

lemmas sts_mod_defs = sts_Apply_def on_spec_def on_meta_def sts_WithName_def sts_WithNamespace_def WithServiceName_def
  WithLabels_def WithMatchLabels_def WithOwnerReference_def WithReplicas_def WithUpdateStrategyType_def
  WithPodSpecTemplate_def sts_NOOP_def Let_def

abbreviation claim_name :: "persistent_volume_claim \<Rightarrow> string" where
  "claim_name p \<equiv> om_Name (pvc_Meta p)"

lemma WithVolumeClaim_Ok:
  "WithVolumeClaim name f sts = Ok (sts\<lparr>sts_Spec := (sts_Spec sts)\<lparr>sts_VolumeClaimTemplates :=
     edited claim_name empty_pvc name f (sts_VolumeClaimTemplates (sts_Spec sts))\<rparr>\<rparr>)"
  using edit_at_found [of claim_name name "sts_VolumeClaimTemplates (sts_Spec sts)" f empty_pvc]
  by (simp add: WithVolumeClaim_def Let_def findVolumeClaimIndexByName_def split: if_splits)

section \<open>The builder\<close>

record sts_builder =
  stb_name :: string
  stb_namespace :: string
  stb_replicas :: int
  stb_serviceName :: string
  stb_labels :: "string gomap"
  stb_matchLabels :: "string gomap"
  stb_ownerReference :: "owner_reference list"
  stb_podTemplateSpec :: pod_template_spec
  stb_readinessProbePerContainer :: "probe option gomap"
  stb_volumeClaimsTemplates :: "persistent_volume_claim list"
  stb_volumeMountsPerContainer :: "volume_mount list gomap"
  stb_updateStrategyType :: string

definition sts_NewBuilder :: sts_builder where
  "sts_NewBuilder = \<lparr>stb_name = '''', stb_namespace = '''', stb_replicas = 1, stb_serviceName = '''', stb_labels = [],
     stb_matchLabels = [], stb_ownerReference = [], stb_podTemplateSpec = empty_pod_template_spec,
     stb_readinessProbePerContainer = [], stb_volumeClaimsTemplates = [], stb_volumeMountsPerContainer = [],
     stb_updateStrategyType = ''''\<rparr>"

definition stb_SetLabels :: "string gomap \<Rightarrow> sts_builder \<Rightarrow> sts_builder" where
  "stb_SetLabels x s = s\<lparr>stb_labels := x\<rparr>"
definition stb_SetName :: "string \<Rightarrow> sts_builder \<Rightarrow> sts_builder" where "stb_SetName x s = s\<lparr>stb_name := x\<rparr>"
definition stb_SetNamespace :: "string \<Rightarrow> sts_builder \<Rightarrow> sts_builder" where
  "stb_SetNamespace x s = s\<lparr>stb_namespace := x\<rparr>"
definition stb_SetOwnerReference :: "owner_reference list \<Rightarrow> sts_builder \<Rightarrow> sts_builder" where
  "stb_SetOwnerReference x s = s\<lparr>stb_ownerReference := x\<rparr>"
definition stb_SetServiceName :: "string \<Rightarrow> sts_builder \<Rightarrow> sts_builder" where
  "stb_SetServiceName x s = s\<lparr>stb_serviceName := x\<rparr>"
definition stb_SetReplicas :: "int \<Rightarrow> sts_builder \<Rightarrow> sts_builder" where
  "stb_SetReplicas x s = s\<lparr>stb_replicas := x\<rparr>"
definition stb_SetMatchLabels :: "string gomap \<Rightarrow> sts_builder \<Rightarrow> sts_builder" where
  "stb_SetMatchLabels x s = s\<lparr>stb_matchLabels := x\<rparr>"
definition stb_SetReadinessProbe :: "probe option \<Rightarrow> string \<Rightarrow> sts_builder \<Rightarrow> sts_builder" where
  "stb_SetReadinessProbe p containerName s =
     s\<lparr>stb_readinessProbePerContainer := put containerName p (stb_readinessProbePerContainer s)\<rparr>"
definition stb_SetPodTemplateSpec :: "pod_template_spec \<Rightarrow> sts_builder \<Rightarrow> sts_builder" where
  "stb_SetPodTemplateSpec x s = s\<lparr>stb_podTemplateSpec := x\<rparr>"
definition stb_SetUpdateStrategy :: "string \<Rightarrow> sts_builder \<Rightarrow> sts_builder" where
  "stb_SetUpdateStrategy x s = s\<lparr>stb_updateStrategyType := x\<rparr>"
definition stb_AddVolumeClaimTemplates :: "persistent_volume_claim list \<Rightarrow> sts_builder \<Rightarrow> sts_builder" where
  "stb_AddVolumeClaimTemplates claims s =
     s\<lparr>stb_volumeClaimsTemplates := stb_volumeClaimsTemplates s @ claims\<rparr>"
definition stb_AddVolumeMount :: "string \<Rightarrow> volume_mount \<Rightarrow> sts_builder \<Rightarrow> sts_builder" where
  "stb_AddVolumeMount containerName mount s =
     s\<lparr>stb_volumeMountsPerContainer := put containerName
        ((case map_of (stb_volumeMountsPerContainer s) containerName of None \<Rightarrow> [] | Some ms \<Rightarrow> ms) @ [mount])
        (stb_volumeMountsPerContainer s)\<rparr>"
definition stb_AddVolumeMounts :: "string \<Rightarrow> volume_mount list \<Rightarrow> sts_builder \<Rightarrow> sts_builder" where
  "stb_AddVolumeMounts containerName mounts s = foldl (\<lambda>s m. stb_AddVolumeMount containerName m s) s mounts"
definition stb_AddVolume :: "volume \<Rightarrow> sts_builder \<Rightarrow> sts_builder" where
  "stb_AddVolume v s = s\<lparr>stb_podTemplateSpec := (stb_podTemplateSpec s)\<lparr>pts_Spec :=
     (pts_Spec (stb_podTemplateSpec s))\<lparr>ps_Volumes := ps_Volumes (pts_Spec (stb_podTemplateSpec s)) @ [v]\<rparr>\<rparr>\<rparr>"
definition stb_AddVolumes :: "volume list \<Rightarrow> sts_builder \<Rightarrow> sts_builder" where
  "stb_AddVolumes volumes s = foldl (\<lambda>s v. stb_AddVolume v s) s volumes"
definition stb_AddVolumeAndMount :: "volume_mount_data \<Rightarrow> string list \<Rightarrow> sts_builder \<Rightarrow> sts_builder" where
  "stb_AddVolumeAndMount d containerNames s =
     foldl (\<lambda>s containerName. stb_AddVolumeMount containerName
         \<lparr>vm_Name = vmd_Name d, vm_ReadOnly = vmd_ReadOnly d, vm_MountPath = vmd_MountPath d, vm_SubPath = '''',
          vm_MountPropagation = None, vm_SubPathExpr = ''''\<rparr> s)
       (stb_AddVolume (vmd_Volume d) s) containerNames"

definition GetContainerIndexByName :: "sts_builder \<Rightarrow> string \<Rightarrow> int outcome" where
  "GetContainerIndexByName s containerName =
     (let i = find_index_from c_Name containerName 0 (ps_Containers (pts_Spec (stb_podTemplateSpec s)))
      in if i \<noteq> notFound then Ok i else Fail (Err (''no container with name ['' @ containerName @ ''] found'')))"

text \<open>
  The errors that are collected; the text of a mount and of the collection is the business of
  \<open>fmt\<close> and of \<open>go-multierror\<close>.
\<close>

datatype build_error = NoContainer error | AlreadyMounted volume_mount

text \<open>The mounts of one container: a path that was already mounted is an error and is skipped.\<close>

fun add_mounts :: "volume_mount list \<Rightarrow> string list \<Rightarrow> container \<Rightarrow> build_error list \<Rightarrow> container \<times> build_error list" where
  "add_mounts [] existing c errs = (c, errs)"
| "add_mounts (volumeMount # mounts) existing c errs =
     (if contains_String existing (vm_MountPath volumeMount)
      then add_mounts mounts existing c (errs @ [AlreadyMounted volumeMount])
      else add_mounts mounts (vm_MountPath volumeMount # existing)
             (c\<lparr>c_VolumeMounts := c_VolumeMounts c @ [volumeMount]\<rparr>) errs)"

text \<open>One pass of the loops over the containers that have mounts, and over those that have probes.\<close>

definition mounts_step ::
    "sts_builder \<Rightarrow> container list \<times> build_error list \<Rightarrow> string \<Rightarrow> container list \<times> build_error list" where
  "mounts_step s = (\<lambda>(cs, errs) containerName.
     case GetContainerIndexByName s containerName of
       Ok idx \<Rightarrow>
         (let volumeMounts = (case map_of (stb_volumeMountsPerContainer s) containerName of None \<Rightarrow> [] | Some ms \<Rightarrow> ms);
              (c, errs') = add_mounts volumeMounts [] (cs ! nat idx) errs
          in (cs[nat idx := c], errs'))
     | Fail err \<Rightarrow> (cs, errs @ [NoContainer err])
     | Panic p \<Rightarrow> (cs, errs))"

definition probes_step ::
    "sts_builder \<Rightarrow> container list \<times> build_error list \<Rightarrow> string \<Rightarrow> container list \<times> build_error list" where
  "probes_step s = (\<lambda>(cs, errs) containerName.
     case GetContainerIndexByName s containerName of
       Ok idx \<Rightarrow>
         (let probeRef = (case map_of (stb_readinessProbePerContainer s) containerName of None \<Rightarrow> None | Some p \<Rightarrow> p)
          in (cs[nat idx := (cs ! nat idx)\<lparr>c_ReadinessProbe := probeRef\<rparr>], errs))
     | Fail err \<Rightarrow> (cs, errs @ [NoContainer err])
     | Panic p \<Rightarrow> (cs, errs))"

definition buildPodTemplateSpec :: "iter_order \<Rightarrow> sts_builder \<Rightarrow> pod_template_spec \<times> build_error list" where
  "buildPodTemplateSpec it s =
     (let t = stb_podTemplateSpec s;
          r1 = foldl (mounts_step s) (ps_Containers (pts_Spec t), []) (it (map fst (stb_volumeMountsPerContainer s)));
          (cs, errs) = foldl (probes_step s) r1 (it (map fst (stb_readinessProbePerContainer s)));
          sorted_cs = map (\<lambda>c. c\<lparr>c_Env := sort_key ev_Name (c_Env c)\<rparr>) cs
      in (set_containers t sorted_cs, errs))"

definition stb_Build :: "(build_error list \<Rightarrow> error) \<Rightarrow> iter_order \<Rightarrow> sts_builder \<Rightarrow> statefulset outcome" where
  "stb_Build multierror it s =
     (let (podTemplateSpec, errs) = buildPodTemplateSpec it s
      in if errs \<noteq> [] then Fail (multierror errs)
         else Ok (empty_statefulset\<lparr>
           sts_Meta := empty_meta\<lparr>om_Name := stb_name s, om_Namespace := stb_namespace s,
             om_Labels := Some (copyMap (stb_labels s)), om_OwnerReferences := stb_ownerReference s\<rparr>,
           sts_Spec := empty_statefulset_spec\<lparr>
             sts_UpdateStrategy := \<lparr>us_Type = stb_updateStrategyType s, us_RollingUpdate = None\<rparr>,
             sts_ServiceName := stb_serviceName s, sts_Replicas := Some (to_int32 (stb_replicas s)),
             sts_Selector := Some (empty_label_selector\<lparr>ls_MatchLabels := Some (copyMap (stb_matchLabels s))\<rparr>),
             sts_Template := podTemplateSpec, sts_VolumeClaimTemplates := stb_volumeClaimsTemplates s\<rparr>\<rparr>))"

end
