(* ===== verification/Construct.thy ===== *)
theory Construct
  imports StatefulSets
begin

text \<open>
  \<open>controllers/construct/mongodbstatefulset.go\<close>: the parts of the stateful set that every
  replica set has. The process environment, the iteration order of Go maps and the parser of
  resource quantities are arguments.
\<close>

section \<open>Constants and commands\<close>

definition construct_AgentName :: string where "construct_AgentName = ''mongodb-agent''"
definition MongodbName :: string where "MongodbName = ''mongod''"
definition versionUpgradeHookName :: string where "versionUpgradeHookName = ''mongod-posthook''"
definition ReadinessProbeContainerName :: string where
  "ReadinessProbeContainerName = ''mongodb-agent-readinessprobe''"
definition agentHealthStatusFilePathValue :: string where
  "agentHealthStatusFilePathValue = ''/var/log/mongodb-mms-automation/healthstatus/agent-health-status.json''"
definition DefaultAgentLogPath :: string where "DefaultAgentLogPath = ''/var/log/mongodb-mms-automation''"
definition ManagedSecurityContextEnv :: string where "ManagedSecurityContextEnv = ''MANAGED_SECURITY_CONTEXT''"

definition newline :: string where "newline = [CHR 0x0A]"

text \<open>A raw string literal, line by line.\<close>

definition script :: "string list \<Rightarrow> string" where
  "script lines = join lines newline"

definition MongodbUserCommand :: string where
  "MongodbUserCommand = script
    [''current_uid=$(id -u)'',
     ''declare -r current_uid'',
     ''if ! grep -q \"${current_uid}\" /etc/passwd ; then'',
     ''sed -e \"s/^mongodb:/builder:/\" /etc/passwd > /tmp/passwd'',
     ''echo \"mongodb:x:$(id -u):$(id -g):,,,:/:/bin/bash\" >> /tmp/passwd'',
     ''export NSS_WRAPPER_PASSWD=/tmp/passwd'',
     ''export LD_PRELOAD=libnss_wrapper.so'',
     ''export NSS_WRAPPER_GROUP=/etc/group'',
     ''fi'',
     '''']"

definition BaseAgentCommand :: string where
  "BaseAgentCommand = ''agent/mongodb-agent -cluster='' @ ''/var/lib/automation/config/cluster-config.json''
     @ '' -healthCheckFilePath='' @ agentHealthStatusFilePathValue @ '' -serveStatusPort=5000''"

definition AutomationAgentCommand :: "string list" where
  "AutomationAgentCommand = [''/bin/bash'', ''-c'', MongodbUserCommand @ BaseAgentCommand
     @ '' -skipMongoStart -noDaemonize -useLocalMongoDbTools'']"

definition mongoDbCommand :: string where
  "mongoDbCommand = script
    ['''',
     ''#run post-start hook to handle version changes'',
     ''/hooks/version-upgrade'',
     '''',
     ''# wait for config and keyfile to be created by the agent'',
     '' while ! [ -f /data/automation-mongod.conf -a -f /var/lib/mongodb-mms-automation/authentication/keyfile ]; do sleep 3 ; done ; sleep 2 ;'',
     '''',
     ''# with mongod configured to append logs, we need to provide them to stdout as'',
     ''# mongod does not write to stdout and a log file'',
     ''tail -F /var/log/mongodb-mms-automation/mongodb.log > /dev/stdout &'',
     '''',
     ''# start mongod with this configuration'',
     ''exec mongod -f /data/automation-mongod.conf;'',
     '''',
     '''']"

section \<open>Containers, probes and claims\<close>

definition DefaultReadiness :: "probe edit" where
  "DefaultReadiness = probe_Apply
     [WithExecCommand [''/opt/scripts/readinessprobe''], WithFailureThreshold 40, WithInitialDelaySeconds 5]"

definition dataPvc :: "parse_quantity \<Rightarrow> string \<Rightarrow> persistent_volume_claim edit" where
  "dataPvc pq dataVolumeName = pvc_Apply [pvc_WithName dataVolumeName, pvc_WithAccessModes ''ReadWriteOnce'',
     pvc_WithResourceRequests (Some (BuildDefaultStorageRequirements pq))]"

definition logsPvc :: "parse_quantity \<Rightarrow> string \<Rightarrow> persistent_volume_claim edit" where
  "logsPvc pq logsVolumeName = pvc_Apply [pvc_WithName logsVolumeName, pvc_WithAccessModes ''ReadWriteOnce'',
     pvc_WithResourceRequests (Some (BuildStorageRequirements pq ''2G''))]"

definition default_security :: "environment \<Rightarrow> container edit" where
  "default_security env =
     (if \<not> ReadBool env ManagedSecurityContextEnv then WithSecurityContext DefaultSecurityContext else container_NOOP)"

definition plain_env :: "string \<Rightarrow> string \<Rightarrow> env_var" where
  "plain_env name v = \<lparr>ev_Name = name, ev_Value = v, ev_ValueFrom = None\<rparr>"

definition mongodbAgentContainer ::
    "environment \<Rightarrow> iter_order \<Rightarrow> parse_quantity \<Rightarrow> string \<Rightarrow> volume_mount list \<Rightarrow> container edit" where
  "mongodbAgentContainer env it pq automationConfigSecretName volumeMounts = container_Apply
     [WithName construct_AgentName,
      WithImage (getenv env ''AGENT_IMAGE''),
      WithImagePullPolicy ''Always'',
      WithReadinessProbe DefaultReadiness,
      WithResourceRequirements (resource_Defaults pq),
      WithVolumeMounts it volumeMounts,
      default_security env,
      WithCommand AutomationAgentCommand,
      WithEnvs it
        [plain_env ''HEADLESS_AGENT'' ''true'',
         \<lparr>ev_Name = ''POD_NAMESPACE'', ev_Value = '''', ev_ValueFrom = Some (FieldRef ''v1'' ''metadata.namespace'')\<rparr>,
         plain_env ''AUTOMATION_CONFIG_MAP'' automationConfigSecretName,
         plain_env ''AGENT_STATUS_FILEPATH'' agentHealthStatusFilePathValue]]"

definition versionUpgradeHookInit :: "environment \<Rightarrow> iter_order \<Rightarrow> volume_mount list \<Rightarrow> container edit" where
  "versionUpgradeHookInit env it volumeMount = container_Apply
     [WithName versionUpgradeHookName,
      WithCommand [''cp'', ''version-upgrade-hook'', ''/hooks/version-upgrade''],
      WithImage (getenv env ''VERSION_UPGRADE_HOOK_IMAGE''),
      WithImagePullPolicy ''Always'',
      WithVolumeMounts it volumeMount]"

definition readinessProbeInit :: "environment \<Rightarrow> iter_order \<Rightarrow> volume_mount list \<Rightarrow> container edit" where
  "readinessProbeInit env it volumeMount = container_Apply
     [WithName ReadinessProbeContainerName,
      WithCommand [''cp'', ''/probes/readinessprobe'', ''/opt/scripts/readinessprobe''],
      WithImage (getenv env ''READINESS_PROBE_IMAGE''),
      WithImagePullPolicy ''Always'',
      WithVolumeMounts it volumeMount]"

definition getMongoDBImage :: "environment \<Rightarrow> string \<Rightarrow> string" where
  "getMongoDBImage env version =
     (let repoUrl = getenv env ''MONGODB_REPO_URL'';
          repoUrl' = (if has_suffix repoUrl ''/'' then trim_right repoUrl CHR ''/'' else repoUrl)
      in repoUrl' @ ''/'' @ getenv env ''MONGODB_IMAGE'' @ '':'' @ version)"

definition mongodbContainer ::
    "environment \<Rightarrow> iter_order \<Rightarrow> parse_quantity \<Rightarrow> string \<Rightarrow> volume_mount list \<Rightarrow> container edit" where
  "mongodbContainer env it pq version volumeMounts = container_Apply
     [WithName MongodbName,
      WithImage (getMongoDBImage env version),
      WithResourceRequirements (resource_Defaults pq),
      WithCommand [''/bin/sh'', ''-c'', mongoDbCommand],
      WithEnvs it [plain_env ''AGENT_STATUS_FILEPATH'' ''/healthstatus/agent-health-status.json''],
      WithVolumeMounts it volumeMounts,
      default_security env]"

section \<open>The stateful set\<close>

text \<open>The interface \<open>MongoDBStatefulSetOwner\<close> and its implementation by the custom resource.\<close>

record statefulset_owner =
  own_ServiceName :: string
  own_GetName :: string
  own_GetNamespace :: string
  own_GetMongoDBVersion :: string
  own_AutomationConfigSecretName :: string
  own_GetUpdateStrategyType :: string
  own_HasSeparateDataAndLogsVolumes :: bool
  own_GetAgentKeyfileSecretNamespacedName :: nsname
  own_DataVolumeName :: string
  own_LogsVolumeName :: string

definition owner_of :: "mongodb_community \<Rightarrow> statefulset_owner" where
  "owner_of mdb = \<lparr>own_ServiceName = ServiceName mdb, own_GetName = mdb_Name mdb, own_GetNamespace = mdb_Namespace mdb,
     own_GetMongoDBVersion = spec_Version (mdb_Spec mdb),
     own_AutomationConfigSecretName = AutomationConfigSecretName mdb,
     own_GetUpdateStrategyType = GetUpdateStrategyType mdb,
     own_HasSeparateDataAndLogsVolumes = HasSeparateDataAndLogsVolumes mdb,
     own_GetAgentKeyfileSecretNamespacedName = GetAgentKeyfileSecretNamespacedName mdb,
     own_DataVolumeName = DataVolumeName mdb, own_LogsVolumeName = LogsVolumeName mdb\<rparr>"

text \<open>The volumes of the pod and their mounts, as the function names them.\<close>

definition healthStatusVolume :: volume where "healthStatusVolume = CreateVolumeFromEmptyDir ''healthstatus''"
definition hooksVolume :: volume where "hooksVolume = CreateVolumeFromEmptyDir ''hooks''"
definition scriptsVolume :: volume where "scriptsVolume = CreateVolumeFromEmptyDir ''agent-scripts''"
definition automationConfigVolume :: "statefulset_owner \<Rightarrow> volume" where
  "automationConfigVolume mdb = CreateVolumeFromSecret ''automation-config'' (own_AutomationConfigSecretName mdb) []"
definition keyFileVolume :: "statefulset_owner \<Rightarrow> volume" where
  "keyFileVolume mdb = CreateVolumeFromEmptyDir (nn_Name (own_GetAgentKeyfileSecretNamespacedName mdb))"
definition hooksVolumeMount :: volume_mount where
  "hooksVolumeMount = CreateVolumeMount (v_Name hooksVolume) ''/hooks'' [WithReadOnly False]"
definition scriptsVolumeMount :: volume_mount where
  "scriptsVolumeMount = CreateVolumeMount (v_Name scriptsVolume) ''/opt/scripts'' [WithReadOnly False]"
definition keyFileVolumeVolumeMount :: "statefulset_owner \<Rightarrow> volume_mount" where
  "keyFileVolumeVolumeMount mdb =
     CreateVolumeMount (v_Name (keyFileVolume mdb)) ''/var/lib/mongodb-mms-automation/authentication'' [WithReadOnly False]"

definition data_and_log_mounts :: "statefulset_owner \<Rightarrow> volume_mount list" where
  "data_and_log_mounts mdb =
     (if own_HasSeparateDataAndLogsVolumes mdb
      then [CreateVolumeMount (own_DataVolumeName mdb) ''/data'' [],
            CreateVolumeMount (own_LogsVolumeName mdb) DefaultAgentLogPath []]
      else [CreateVolumeMount (own_DataVolumeName mdb) ''/data'' [WithSubPath ''data''],
            CreateVolumeMount (own_DataVolumeName mdb) DefaultAgentLogPath [WithSubPath ''logs'']])"

definition mongodbAgentVolumeMounts :: "statefulset_owner \<Rightarrow> volume_mount list" where
  "mongodbAgentVolumeMounts mdb =
     [CreateVolumeMount (v_Name healthStatusVolume) ''/var/log/mongodb-mms-automation/healthstatus'' [],
      CreateVolumeMount (v_Name (automationConfigVolume mdb)) ''/var/lib/automation/config'' [WithReadOnly True],
      scriptsVolumeMount, keyFileVolumeVolumeMount mdb] @ data_and_log_mounts mdb"

definition mongodVolumeMounts :: "statefulset_owner \<Rightarrow> volume_mount list" where
  "mongodVolumeMounts mdb =
     [CreateVolumeMount (v_Name healthStatusVolume) ''/healthstatus'' [], hooksVolumeMount,
      keyFileVolumeVolumeMount mdb] @ data_and_log_mounts mdb"

definition volume_claims :: "parse_quantity \<Rightarrow> statefulset_owner \<Rightarrow> sts_modification list" where
  "volume_claims pq mdb =
     (if own_HasSeparateDataAndLogsVolumes mdb
      then [WithVolumeClaim (own_DataVolumeName mdb) (dataPvc pq (own_DataVolumeName mdb)),
            WithVolumeClaim (own_LogsVolumeName mdb) (logsPvc pq (own_LogsVolumeName mdb)), sts_NOOP]
      else [sts_NOOP, sts_NOOP, WithVolumeClaim (own_DataVolumeName mdb) (dataPvc pq (own_DataVolumeName mdb))])"

definition BuildMongoDBReplicaSetStatefulSetModificationFunction ::
    "environment \<Rightarrow> iter_order \<Rightarrow> parse_quantity \<Rightarrow> statefulset_owner \<Rightarrow> replica_set_scaler \<Rightarrow> sts_modification" where
  "BuildMongoDBReplicaSetStatefulSetModificationFunction env it pq mdb scaler =
     (let labels = [(''app'', own_ServiceName mdb)];
          podSecurityContext = (if \<not> ReadBool env ManagedSecurityContextEnv
             then pod_WithSecurityContext DefaultPodSecurityContext else pod_NOOP)
      in sts_Apply
        ([sts_WithName (own_GetName mdb),
          sts_WithNamespace (own_GetNamespace mdb),
          WithServiceName (own_ServiceName mdb),
          WithLabels labels,
          WithMatchLabels labels,
          WithReplicas (ReplicasThisReconciliation scaler),
          WithUpdateStrategyType (own_GetUpdateStrategyType mdb)]
         @ volume_claims pq mdb @
         [WithPodSpecTemplate (pod_Apply
           [podSecurityContext,
            WithPodLabels (Some labels),
            WithVolume healthStatusVolume,
            WithVolume hooksVolume,
            WithVolume (automationConfigVolume mdb),
            WithVolume scriptsVolume,
            WithVolume (keyFileVolume mdb),
            WithServiceAccount ''mongodb-database'',
            WithContainer construct_AgentName
              (mongodbAgentContainer env it pq (own_AutomationConfigSecretName mdb) (mongodbAgentVolumeMounts mdb)),
            WithContainer MongodbName (mongodbContainer env it pq (own_GetMongoDBVersion mdb) (mongodVolumeMounts mdb)),
            WithInitContainer versionUpgradeHookName (versionUpgradeHookInit env it [hooksVolumeMount]),
            WithInitContainer ReadinessProbeContainerName (readinessProbeInit env it [scriptsVolumeMount])])]))"

section \<open>The stateful set in closed form\<close>

definition construct_volumes :: "statefulset_owner \<Rightarrow> volume list \<Rightarrow> volume list" where
  "construct_volumes mdb vs = add_volume (keyFileVolume mdb) (add_volume scriptsVolume
     (add_volume (automationConfigVolume mdb) (add_volume hooksVolume (add_volume healthStatusVolume vs))))"

definition construct_containers ::
    "environment \<Rightarrow> iter_order \<Rightarrow> parse_quantity \<Rightarrow> statefulset_owner \<Rightarrow> container list \<Rightarrow> container list" where
  "construct_containers env it pq mdb cs =
     edited_container MongodbName (mongodbContainer env it pq (own_GetMongoDBVersion mdb) (mongodVolumeMounts mdb))
       (edited_container construct_AgentName
         (mongodbAgentContainer env it pq (own_AutomationConfigSecretName mdb) (mongodbAgentVolumeMounts mdb)) cs)"

definition construct_init_containers :: "environment \<Rightarrow> iter_order \<Rightarrow> container list \<Rightarrow> container list" where
  "construct_init_containers env it cs =
     edited_container ReadinessProbeContainerName (readinessProbeInit env it [scriptsVolumeMount])
       (edited_container versionUpgradeHookName (versionUpgradeHookInit env it [hooksVolumeMount]) cs)"

definition construct_claims ::
    "parse_quantity \<Rightarrow> statefulset_owner \<Rightarrow> persistent_volume_claim list \<Rightarrow> persistent_volume_claim list" where
  "construct_claims pq mdb cs =
     (let cs' = edited claim_name empty_pvc (own_DataVolumeName mdb) (dataPvc pq (own_DataVolumeName mdb)) cs
      in if own_HasSeparateDataAndLogsVolumes mdb
         then edited claim_name empty_pvc (own_LogsVolumeName mdb) (logsPvc pq (own_LogsVolumeName mdb)) cs' else cs')"

definition construct_labels :: "statefulset_owner \<Rightarrow> string gomap" where
  "construct_labels mdb = [(''app'', own_ServiceName mdb)]"

definition construct_result ::
    "environment \<Rightarrow> iter_order \<Rightarrow> parse_quantity \<Rightarrow> statefulset_owner \<Rightarrow> replica_set_scaler \<Rightarrow> statefulset edit" where
  "construct_result env it pq mdb scaler s =
     (let spec = sts_Spec s; t = sts_Template spec; ps = pts_Spec t;
          sel = (case sts_Selector spec of None \<Rightarrow> empty_label_selector | Some l \<Rightarrow> l)
      in s\<lparr>sts_Meta := (sts_Meta s)\<lparr>om_Name := own_GetName mdb, om_Namespace := own_GetNamespace mdb,
             om_Labels := Some (construct_labels mdb)\<rparr>,
           sts_Spec := spec\<lparr>sts_ServiceName := own_ServiceName mdb,
             sts_Selector := Some (sel\<lparr>ls_MatchLabels := Some (construct_labels mdb)\<rparr>),
             sts_Replicas := Some (to_int32 (ReplicasThisReconciliation scaler)),
             sts_UpdateStrategy := \<lparr>us_Type = own_GetUpdateStrategyType mdb, us_RollingUpdate = None\<rparr>,
             sts_VolumeClaimTemplates := construct_claims pq mdb (sts_VolumeClaimTemplates spec),
             sts_Template := t\<lparr>pts_Meta := (pts_Meta t)\<lparr>om_Labels := Some (construct_labels mdb)\<rparr>,
               pts_Spec := ps\<lparr>
                 ps_SecurityContext := (if \<not> ReadBool env ManagedSecurityContextEnv
                    then Some DefaultPodSecurityContext else ps_SecurityContext ps),
                 ps_Volumes := construct_volumes mdb (ps_Volumes ps),
                 ps_ServiceAccountName := ''mongodb-database'',
                 ps_Containers := construct_containers env it pq mdb (ps_Containers ps),
                 ps_InitContainers := construct_init_containers env it (ps_InitContainers ps)\<rparr>\<rparr>\<rparr>\<rparr>)"

lemma volume_claims_Ok:
  "apply_partial (volume_claims pq mdb) s = Ok (s\<lparr>sts_Spec := (sts_Spec s)\<lparr>sts_VolumeClaimTemplates :=
     construct_claims pq mdb (sts_VolumeClaimTemplates (sts_Spec s))\<rparr>\<rparr>)"
  by (simp add: volume_claims_def WithVolumeClaim_Ok construct_claims_def sts_NOOP_def Let_def)

lemma copyMap_single [simp]: "copyMap [(k, v)] = [(k, v)]"
  by (simp add: copyMap_def put_all_def put_def)

lemma construct_eq_result:
  "BuildMongoDBReplicaSetStatefulSetModificationFunction env it pq mdb scaler s
     = Ok (construct_result env it pq mdb scaler s)"
  by (simp add: BuildMongoDBReplicaSetStatefulSetModificationFunction_def apply_partial_append volume_claims_Ok
      sts_mod_defs pod_Apply_def pod_mods_Ok pod_WithSecurityContext_def pod_NOOP_def WithPodLabels_def
      WithServiceAccount_def construct_result_def construct_volumes_def construct_containers_def
      construct_init_containers_def construct_labels_def)

section \<open>Container edits keep names and are idempotent\<close>

lemmas container_edit_defs = mongodbAgentContainer_def mongodbContainer_def versionUpgradeHookInit_def
  readinessProbeInit_def default_security_def container_mod_defs

lemma container_edit_names [simp]:
  "c_Name (mongodbAgentContainer env it pq n vms c) = construct_AgentName"
  "c_Name (mongodbContainer env it pq v vms c) = MongodbName"
  "c_Name (versionUpgradeHookInit env it vms c) = versionUpgradeHookName"
  "c_Name (readinessProbeInit env it vms c) = ReadinessProbeContainerName"
  by (simp_all add: container_edit_defs WithVolumeMounts_map_by)

lemma container_name_neqs [simp]:
  "MongodbName \<noteq> construct_AgentName" "construct_AgentName \<noteq> MongodbName"
  "ReadinessProbeContainerName \<noteq> versionUpgradeHookName" "versionUpgradeHookName \<noteq> ReadinessProbeContainerName"
  by (simp_all add: MongodbName_def construct_AgentName_def ReadinessProbeContainerName_def versionUpgradeHookName_def)

lemma DefaultReadiness_again: "DefaultReadiness (DefaultReadiness p) = DefaultReadiness p"
  by (simp add: DefaultReadiness_def probe_Apply_def WithExecCommand_def WithFailureThreshold_def
      WithInitialDelaySeconds_def set_exec_command_def split: option.splits)

lemma container_edits_again:
  assumes "valid_order it"
  shows "mongodbAgentContainer env it pq n vms (mongodbAgentContainer env it pq n vms c)
       = mongodbAgentContainer env it pq n vms c"
    and "mongodbContainer env it pq v vms (mongodbContainer env it pq v vms c) = mongodbContainer env it pq v vms c"
    and "versionUpgradeHookInit env it vms (versionUpgradeHookInit env it vms c) = versionUpgradeHookInit env it vms c"
    and "readinessProbeInit env it vms (readinessProbeInit env it vms c) = readinessProbeInit env it vms c"
  by (simp_all add: container_edit_defs WithVolumeMounts_map_by sorted_values_again [OF assms]
      MergeWithOverride_again [OF assms] on_probe_def DefaultReadiness_again)

lemma claim_edits:
  "claim_name (dataPvc pq n c) = n" "claim_name (logsPvc pq n c) = n"
  "dataPvc pq n (dataPvc pq n c) = dataPvc pq n c" "logsPvc pq n (logsPvc pq n c) = logsPvc pq n c"
  by (simp_all add: dataPvc_def logsPvc_def pvc_Apply_def pvc_WithName_def pvc_WithAccessModes_def
      pvc_WithResourceRequests_def)

text \<open>Two edits of different names, done again, change nothing.\<close>

lemma edited_again:
  assumes "\<And>c. nm (g c) = m" and "\<And>c. g (g c) = g c"
  shows "edited nm y m g (edited nm y m g cs) = edited nm y m g cs"
proof (rule edited_id)
  show "find (\<lambda>c. nm c = m) (edited nm y m g cs) = Some (g (case find (\<lambda>c. nm c = m) cs of Some c \<Rightarrow> c | None \<Rightarrow> y))"
    by (subst find_edited) (simp_all add: assms(1))
qed (rule assms(2))

lemma edited_pair_again:
  assumes f: "\<And>c. nm (f c) = n" "\<And>c. f (f c) = f c" and g: "\<And>c. nm (g c) = m" "\<And>c. g (g c) = g c" and "n \<noteq> m"
  shows "edited nm y m g (edited nm x n f (edited nm y m g (edited nm x n f cs))) = edited nm y m g (edited nm x n f cs)"
proof -
  have "edited nm x n f (edited nm y m g (edited nm x n f cs)) = edited nm y m g (edited nm x n f cs)"
  proof (rule edited_id)
    show "find (\<lambda>c. nm c = n) (edited nm y m g (edited nm x n f cs))
        = Some (f (case find (\<lambda>c. nm c = n) cs of Some c \<Rightarrow> c | None \<Rightarrow> x))"
      using \<open>n \<noteq> m\<close> by (simp add: find_edited [of nm m g] find_edited [of nm n f] f(1) g(1))
  qed (rule f(2))
  then show ?thesis by (simp only: edited_again [of nm g m, OF g])
qed

lemma construct_containers_again:
  assumes "valid_order it"
  shows "construct_containers env it pq mdb (construct_containers env it pq mdb cs) = construct_containers env it pq mdb cs"
  unfolding construct_containers_def by (rule edited_pair_again) (simp_all add: container_edits_again [OF assms])

lemma construct_init_containers_again:
  assumes "valid_order it"
  shows "construct_init_containers env it (construct_init_containers env it cs) = construct_init_containers env it cs"
  unfolding construct_init_containers_def by (rule edited_pair_again) (simp_all add: container_edits_again [OF assms])

lemma construct_claims_again:
  assumes "own_DataVolumeName mdb \<noteq> own_LogsVolumeName mdb"
  shows "construct_claims pq mdb (construct_claims pq mdb cs) = construct_claims pq mdb cs"
proof (cases "own_HasSeparateDataAndLogsVolumes mdb")
  case True
  have "edited claim_name empty_pvc l (logsPvc pq l) (edited claim_name empty_pvc d (dataPvc pq d)
      (edited claim_name empty_pvc l (logsPvc pq l) (edited claim_name empty_pvc d (dataPvc pq d) cs)))
    = edited claim_name empty_pvc l (logsPvc pq l) (edited claim_name empty_pvc d (dataPvc pq d) cs)" if "d \<noteq> l" for d l
    by (rule edited_pair_again) (simp_all add: claim_edits that)
  with True assms show ?thesis by (simp add: construct_claims_def Let_def)
next
  case False
  then show ?thesis by (simp add: construct_claims_def Let_def edited_again claim_edits)
qed

lemma names_construct_volumes: "v_Name ` set (construct_volumes mdb vs) =
    {v_Name (keyFileVolume mdb), v_Name scriptsVolume, v_Name (automationConfigVolume mdb), v_Name hooksVolume,
     v_Name healthStatusVolume} \<union> v_Name ` set vs"
  by (simp add: construct_volumes_def names_add_volume)

lemma construct_volumes_again: "construct_volumes mdb (construct_volumes mdb vs) = construct_volumes mdb vs"
proof -
  let ?ws = "construct_volumes mdb vs"
  have "construct_volumes mdb ?ws = add_volume (keyFileVolume mdb) (add_volume scriptsVolume
     (add_volume (automationConfigVolume mdb) (add_volume hooksVolume (add_volume healthStatusVolume ?ws))))"
    by (simp only: construct_volumes_def)
  also have "\<dots> = ?ws" by (simp add: add_volume_id names_construct_volumes)
  finally show ?thesis .
qed

text \<open>
  C38. Reconciling again does not change the stateful set: applied to its own result, the
  modification function returns the same stateful set, whatever the set was at first.
\<close>

theorem construct_idempotent:
  assumes "valid_order it"
    and "BuildMongoDBReplicaSetStatefulSetModificationFunction env it pq (owner_of mdb) scaler s = Ok s'"
  shows "BuildMongoDBReplicaSetStatefulSetModificationFunction env it pq (owner_of mdb) scaler s' = Ok s'"
proof -
  have "own_DataVolumeName (owner_of mdb) \<noteq> own_LogsVolumeName (owner_of mdb)"
    by (simp add: owner_of_def DataVolumeName_def LogsVolumeName_def)
  note again = construct_containers_again [OF assms(1)] construct_init_containers_again [OF assms(1)]
    construct_claims_again [OF this] construct_volumes_again
  have "s' = construct_result env it pq (owner_of mdb) scaler s"
    using assms(2) by (simp add: construct_eq_result)
  then show ?thesis by (simp add: construct_eq_result construct_result_def Let_def again)
qed

theorem construct_idempotent_witness:
  "\<exists>s'. BuildMongoDBReplicaSetStatefulSetModificationFunction (\<lambda>_. None) rev Ok (owner_of (example_mdb 3 ''4.4.0'' False))
      (statefulset_scaler (example_mdb 3 ''4.4.0'' False)) empty_statefulset = Ok s'
    \<and> BuildMongoDBReplicaSetStatefulSetModificationFunction (\<lambda>_. None) rev Ok (owner_of (example_mdb 3 ''4.4.0'' False))
        (statefulset_scaler (example_mdb 3 ''4.4.0'' False)) s' = Ok s'"
  using construct_idempotent [OF valid_order_rev construct_eq_result] construct_eq_result by blast

section \<open>Every mount has its volume\<close>

definition mount_targets :: "statefulset \<Rightarrow> string list" where
  "mount_targets s = map v_Name (ps_Volumes (pts_Spec (sts_Template (sts_Spec s))))
     @ map claim_name (sts_VolumeClaimTemplates (sts_Spec s))"

definition mounts_within :: "string set \<Rightarrow> container list \<Rightarrow> bool" where
  "mounts_within T cs = (\<forall>c \<in> set cs. \<forall>m \<in> set (c_VolumeMounts c). vm_Name m \<in> T)"

definition mounts_resolve :: "statefulset \<Rightarrow> bool" where
  "mounts_resolve s = (mounts_within (set (mount_targets s)) (ps_Containers (pts_Spec (sts_Template (sts_Spec s))))
     \<and> mounts_within (set (mount_targets s)) (ps_InitContainers (pts_Spec (sts_Template (sts_Spec s)))))"

lemma mounts_within_mono: "mounts_within T cs \<Longrightarrow> T \<subseteq> T' \<Longrightarrow> mounts_within T' cs"
  by (auto simp: mounts_within_def)

lemma mounts_within_edited:
  assumes "mounts_within T cs" and "\<And>c. set (c_VolumeMounts (f c)) \<subseteq> set (c_VolumeMounts c) \<union> set vms"
    and "vm_Name ` set vms \<subseteq> T" and "c_VolumeMounts fresh = []"
  shows "mounts_within T (edited c_Name fresh name f cs)"
  using assms(1)
proof (induction cs)
  case Nil
  then show ?case using assms(2) [of fresh] assms(3,4) by (auto simp: mounts_within_def)
next
  case (Cons c cs)
  have "\<forall>m \<in> set (c_VolumeMounts (f c)). vm_Name m \<in> T"
    using Cons.prems assms(2) [of c] assms(3) by (fastforce simp: mounts_within_def)
  with Cons show ?case by (auto simp: mounts_within_def)
qed

lemma set_container_edits:
  assumes "valid_order it"
  shows "set (c_VolumeMounts (mongodbAgentContainer env it pq n vms c)) \<subseteq> set (c_VolumeMounts c) \<union> set vms"
    and "set (c_VolumeMounts (mongodbContainer env it pq v vms c)) \<subseteq> set (c_VolumeMounts c) \<union> set vms"
    and "set (c_VolumeMounts (versionUpgradeHookInit env it vms c)) \<subseteq> set (c_VolumeMounts c) \<union> set vms"
    and "set (c_VolumeMounts (readinessProbeInit env it vms c)) \<subseteq> set (c_VolumeMounts c) \<union> set vms"
  using set_WithVolumeMounts [OF assms, of vms c]
  by (simp_all add: container_edit_defs WithVolumeMounts_map_by)

lemma names_edited_claims:
  assumes "\<And>c. claim_name (f c) = n"
  shows "claim_name ` set (edited claim_name x n f cs) = insert n (claim_name ` set cs)"
  using assms by (induction cs) auto

lemma names_construct_claims: "claim_name ` set (construct_claims pq mdb cs) =
    (if own_HasSeparateDataAndLogsVolumes mdb then {own_DataVolumeName mdb, own_LogsVolumeName mdb}
     else {own_DataVolumeName mdb}) \<union> claim_name ` set cs"
  by (auto simp: construct_claims_def Let_def names_edited_claims claim_edits)

lemma set_mount_targets_result:
  "set (mount_targets (construct_result env it pq mdb scaler s)) =
     set (mount_targets s) \<union> v_Name ` set (construct_volumes mdb []) \<union> claim_name ` set (construct_claims pq mdb [])"
  by (auto simp: mount_targets_def construct_result_def Let_def names_construct_volumes names_construct_claims)

lemma own_mounts_targets:
  "vm_Name ` set (mongodbAgentVolumeMounts mdb) \<subseteq> v_Name ` set (construct_volumes mdb []) \<union> claim_name ` set (construct_claims pq mdb [])"
  "vm_Name ` set (mongodVolumeMounts mdb) \<subseteq> v_Name ` set (construct_volumes mdb []) \<union> claim_name ` set (construct_claims pq mdb [])"
  "vm_Name ` set [hooksVolumeMount] \<subseteq> v_Name ` set (construct_volumes mdb [])"
  "vm_Name ` set [scriptsVolumeMount] \<subseteq> v_Name ` set (construct_volumes mdb [])"
  by (auto simp: names_construct_volumes names_construct_claims mongodbAgentVolumeMounts_def mongodVolumeMounts_def
      data_and_log_mounts_def hooksVolumeMount_def scriptsVolumeMount_def keyFileVolumeVolumeMount_def CreateVolumeMount_def
      WithReadOnly_def WithSubPath_def)

lemma construct_mounts_resolve_result:
  assumes it: "valid_order it" and "mounts_resolve s"
  shows "mounts_resolve (construct_result env it pq mdb scaler s)"
proof -
  let ?T = "set (mount_targets (construct_result env it pq mdb scaler s))"
  have sub: "set (mount_targets s) \<subseteq> ?T" "v_Name ` set (construct_volumes mdb []) \<subseteq> ?T"
    "v_Name ` set (construct_volumes mdb []) \<union> claim_name ` set (construct_claims pq mdb []) \<subseteq> ?T"
    by (auto simp: set_mount_targets_result)
  note own = subset_trans [OF own_mounts_targets(1) sub(3)] subset_trans [OF own_mounts_targets(2) sub(3)]
    subset_trans [OF own_mounts_targets(3) sub(2)] subset_trans [OF own_mounts_targets(4) sub(2)]
  have old: "mounts_within ?T (ps_Containers (pts_Spec (sts_Template (sts_Spec s))))"
    "mounts_within ?T (ps_InitContainers (pts_Spec (sts_Template (sts_Spec s))))"
    using assms(2) mounts_within_mono [OF _ sub(1)] by (auto simp: mounts_resolve_def)
  have fresh: "c_VolumeMounts (empty_container\<lparr>c_Name := n\<rparr>) = []" for n by (simp add: empty_container_def)
  note edit = mounts_within_edited [OF _ set_container_edits(1) [OF it] own(1) fresh]
    mounts_within_edited [OF _ set_container_edits(2) [OF it] own(2) fresh]
    mounts_within_edited [OF _ set_container_edits(3) [OF it] own(3) fresh]
    mounts_within_edited [OF _ set_container_edits(4) [OF it] own(4) fresh]
  have "mounts_within ?T (construct_containers env it pq mdb (ps_Containers (pts_Spec (sts_Template (sts_Spec s)))))"
    unfolding construct_containers_def by (intro edit old)
  moreover have "mounts_within ?T (construct_init_containers env it (ps_InitContainers (pts_Spec (sts_Template (sts_Spec s)))))"
    unfolding construct_init_containers_def by (intro edit old)
  ultimately show ?thesis by (simp add: mounts_resolve_def construct_result_def Let_def)
qed

end
