(* ===== verification/Secrets.thy ===== *)
theory Secrets
  imports Util
begin

text \<open>
  \<open>pkg/kube/secret\<close>: building secrets, reading their fields, and creating or updating them
  through an interface of four operations on the cluster. The data of a secret may be a nil
  map; reading it is fine, writing to it panics.
\<close>

section \<open>The interface\<close>

text \<open>\<open>GetUpdateCreateDeleter\<close>: the operations on the cluster \<open>'w\<close> the package relies on.\<close>

record 'w secret_client =
  GetSecret :: "nsname \<Rightarrow> 'w \<Rightarrow> secret outcome \<times> 'w"
  UpdateSecret :: "secret \<Rightarrow> 'w \<Rightarrow> unit outcome \<times> 'w"
  CreateSecret :: "secret \<Rightarrow> 'w \<Rightarrow> unit outcome \<times> 'w"
  DeleteSecret :: "nsname \<Rightarrow> 'w \<Rightarrow> unit outcome \<times> 'w"

section \<open>The builder\<close>

record secret_builder =
  sb_data :: "string gomap"
  sb_labels :: "string gomap"
  sb_name :: string
  sb_namespace :: string
  sb_ownerReferences :: "owner_reference list"

definition secret_Builder :: secret_builder where
  "secret_Builder = \<lparr>sb_data = [], sb_labels = [], sb_name = '''', sb_namespace = '''', sb_ownerReferences = []\<rparr>"

definition secret_SetName :: "string \<Rightarrow> secret_builder \<Rightarrow> secret_builder" where
  "secret_SetName name b = b\<lparr>sb_name := name\<rparr>"

definition secret_SetNamespace :: "string \<Rightarrow> secret_builder \<Rightarrow> secret_builder" where
  "secret_SetNamespace namespace b = b\<lparr>sb_namespace := namespace\<rparr>"

definition secret_SetField :: "string \<Rightarrow> string \<Rightarrow> secret_builder \<Rightarrow> secret_builder" where
  "secret_SetField key v b = b\<lparr>sb_data := put key v (sb_data b)\<rparr>"

definition secret_SetOwnerReferences :: "owner_reference list \<Rightarrow> secret_builder \<Rightarrow> secret_builder" where
  "secret_SetOwnerReferences ownerReferences b = b\<lparr>sb_ownerReferences := ownerReferences\<rparr>"

definition secret_SetLabels :: "string gomap \<Rightarrow> secret_builder \<Rightarrow> secret_builder" where
  "secret_SetLabels labels b = b\<lparr>sb_labels := put_all [] labels\<rparr>"

definition secret_SetByteData :: "string gomap \<Rightarrow> secret_builder \<Rightarrow> secret_builder" where
  "secret_SetByteData stringData b = b\<lparr>sb_data := put_all [] stringData\<rparr>"

definition secret_SetStringData :: "string gomap \<Rightarrow> secret_builder \<Rightarrow> secret_builder" where
  "secret_SetStringData stringData b = b\<lparr>sb_data := put_all [] stringData\<rparr>"

definition secret_Build :: "secret_builder \<Rightarrow> secret" where
  "secret_Build b = \<lparr>s_Meta = empty_meta\<lparr>om_Name := sb_name b, om_Namespace := sb_namespace b,
       om_OwnerReferences := sb_ownerReferences b, om_Labels := Some (sb_labels b)\<rparr>,
     s_Data = Some (sb_data b)\<rparr>"

lemmas secret_builder_defs = secret_Builder_def secret_SetName_def secret_SetNamespace_def secret_SetField_def
  secret_SetOwnerReferences_def secret_SetLabels_def secret_SetByteData_def secret_SetStringData_def secret_Build_def

section \<open>Operations\<close>

definition secret_ReadByteData :: "'w secret_client \<Rightarrow> nsname \<Rightarrow> 'w \<Rightarrow> string gomap outcome \<times> 'w" where
  "secret_ReadByteData c objectKey =
     on_result (GetSecret c objectKey) fail (\<lambda>s. ret (entries (s_Data s)))"

text \<open>A new map with every entry of the data; the order of the loop does not show.\<close>

definition secret_ReadStringData :: "'w secret_client \<Rightarrow> nsname \<Rightarrow> 'w \<Rightarrow> string gomap outcome \<times> 'w" where
  "secret_ReadStringData c key =
     on_result (GetSecret c key) fail (\<lambda>s. ret (put_all [] (entries (s_Data s))))"

definition secret_ReadKey :: "'w secret_client \<Rightarrow> string \<Rightarrow> nsname \<Rightarrow> 'w \<Rightarrow> string outcome \<times> 'w" where
  "secret_ReadKey c key objectKey =
     on_result (secret_ReadStringData c objectKey) fail (\<lambda>data.
       case map_of data key of
         Some val \<Rightarrow> ret val
       | None \<Rightarrow> fail (Err (''key \"'' @ key @ ''\" not present in the Secret '' @ nn_Namespace objectKey @ ''/'' @ nn_Name objectKey)))"

definition secret_UpdateField :: "'w secret_client \<Rightarrow> nsname \<Rightarrow> string \<Rightarrow> string \<Rightarrow> 'w \<Rightarrow> unit outcome \<times> 'w" where
  "secret_UpdateField c objectKey key v =
     on_result (GetSecret c objectKey) fail (\<lambda>s.
       case s_Data s of
         None \<Rightarrow> raise_panic NilMapWrite
       | Some d \<Rightarrow> UpdateSecret c (s\<lparr>s_Data := Some (put key v d)\<rparr>))"

definition secret_CreateOrUpdate :: "'w secret_client \<Rightarrow> secret \<Rightarrow> 'w \<Rightarrow> unit outcome \<times> 'w" where
  "secret_CreateOrUpdate c s =
     on_result (GetSecret c (object_key (s_Meta s)))
       (\<lambda>err. if IsNotFound err then CreateSecret c s else fail err)
       (\<lambda>_. UpdateSecret c s)"

fun HasAllKeys :: "secret \<Rightarrow> string list \<Rightarrow> bool" where
  "HasAllKeys s [] = True"
| "HasAllKeys s (key # keys) = (if \<not> has_key (entries (s_Data s)) key then False else HasAllKeys s keys)"

text \<open>A missing key of the existing secret reads as the empty string.\<close>

definition EnsureSecretWithKey ::
    "'w secret_client \<Rightarrow> nsname \<Rightarrow> owner_reference list \<Rightarrow> string \<Rightarrow> string \<Rightarrow> 'w \<Rightarrow> string outcome \<times> 'w" where
  "EnsureSecretWithKey c nsName ownerReferences key v =
     on_result (GetSecret c nsName)
       (\<lambda>err0. if IsNotFound err0 then
          (let s = secret_Build (secret_SetOwnerReferences ownerReferences (secret_SetField key v
                 (secret_SetName (nn_Name nsName) (secret_SetNamespace (nn_Namespace nsName) secret_Builder))))
           in on_result (CreateSecret c s) fail (\<lambda>_. ret v))
        else fail err0)
       (\<lambda>existingSecret. ret (case map_of (entries (s_Data existingSecret)) key of None \<Rightarrow> '''' | Some x \<Rightarrow> x))"

lemma HasAllKeys_iff: "HasAllKeys s keys \<longleftrightarrow> (\<forall>k \<in> set keys. has_key (entries (s_Data s)) k)"
  by (induction keys) auto

section \<open>A cluster that keeps secrets\<close>

text \<open>
  What a working cluster promises: a get returns the secret under its name with the stored
  data or reports that there is none, and creating a new secret or updating an existing one
  stores its data and leaves every other secret alone. The function \<open>data\<close> reads the stored
  data of a state, and \<open>inv\<close> is the invariant of the states of the cluster.
\<close>

locale secret_store =
  fixes c :: "'w secret_client" and data :: "'w \<Rightarrow> nsname \<Rightarrow> string gomap option option" and inv :: "'w \<Rightarrow> bool"
  assumes get_found: "inv w \<Longrightarrow> data w n = Some d \<Longrightarrow>
      \<exists>s. GetSecret c n w = (Ok s, w) \<and> s_Data s = d \<and> object_key (s_Meta s) = n"
    and get_missing: "inv w \<Longrightarrow> data w n = None \<Longrightarrow> \<exists>m. GetSecret c n w = (Fail (NotFound m), w)"
    and create_new: "inv w \<Longrightarrow> data w (object_key (s_Meta s)) = None \<Longrightarrow>
      \<exists>w'. CreateSecret c s w = (Ok (), w') \<and> inv w' \<and> data w' = (data w)(object_key (s_Meta s) \<mapsto> s_Data s)"
    and update_existing: "inv w \<Longrightarrow> data w (object_key (s_Meta s)) = Some d \<Longrightarrow>
      \<exists>w'. UpdateSecret c s w = (Ok (), w') \<and> inv w' \<and> data w' = (data w)(object_key (s_Meta s) \<mapsto> s_Data s)"
begin

lemma CreateOrUpdate_stores:
  assumes "inv w"
  shows "\<exists>w'. secret_CreateOrUpdate c s w = (Ok (), w') \<and> inv w' \<and> data w' = (data w)(object_key (s_Meta s) \<mapsto> s_Data s)"
proof (cases "data w (object_key (s_Meta s))")
  case None
  from get_missing [OF assms this] create_new [OF assms this] show ?thesis
    by (auto simp: secret_CreateOrUpdate_def on_result_def)
next
  case (Some d)
  from get_found [OF assms this] update_existing [OF assms this] show ?thesis
    by (auto simp: secret_CreateOrUpdate_def on_result_def)
qed

lemma ReadStringData_found:
  assumes "inv w" and "data w n = Some d" and "wf_map (entries d)"
  shows "\<exists>m. secret_ReadStringData c n w = (Ok m, w) \<and> map_of m = map_of (entries d)"
proof -
  obtain s where "GetSecret c n w = (Ok s, w)" "s_Data s = d" using get_found [OF assms(1,2)] by blast
  then show ?thesis using assms(3) by (simp add: secret_ReadStringData_def on_result_def map_of_put_all)
qed

lemma ReadKey_found:
  assumes "inv w" and "data w n = Some d" and "wf_map (entries d)" and "map_of (entries d) k = Some v"
  shows "secret_ReadKey c k n w = (Ok v, w)"
  using ReadStringData_found [OF assms(1-3)] assms(4) by (auto simp: secret_ReadKey_def on_result_def)

lemma ReadKey_missing:
  "inv w \<Longrightarrow> data w n = None \<Longrightarrow> \<exists>m. secret_ReadKey c k n w = (Fail (NotFound m), w)"
  using get_missing [of w n] by (auto simp: secret_ReadKey_def secret_ReadStringData_def on_result_def)

lemma ReadKey_no_key:
  assumes "inv w" and "data w n = Some d" and "wf_map (entries d)" and "map_of (entries d) k = None"
  shows "\<exists>m. secret_ReadKey c k n w = (Fail (Err m), w)"
  using ReadStringData_found [OF assms(1-3)] assms(4) by (auto simp: secret_ReadKey_def on_result_def)

lemma UpdateField_sets:
  assumes "inv w" and "data w n = Some (Some d)"
  shows "\<exists>w'. secret_UpdateField c n k v w = (Ok (), w') \<and> inv w' \<and> data w' = (data w)(n \<mapsto> Some (put k v d))"
proof -
  obtain s where s: "GetSecret c n w = (Ok s, w)" "s_Data s = Some d" "object_key (s_Meta s) = n"
    using get_found [OF assms] by blast
  from update_existing [of w "s\<lparr>s_Data := Some (put k v d)\<rparr>"] s assms show ?thesis
    by (simp add: secret_UpdateField_def on_result_def)
qed

text \<open>The value an ensured key has: the existing one, the given one when the secret is new.\<close>

lemma EnsureSecretWithKey_new:
  assumes "inv w" and "data w n = None"
  shows "\<exists>w'. EnsureSecretWithKey c n owners k v w = (Ok v, w') \<and> inv w' \<and> data w' = (data w)(n \<mapsto> Some [(k, v)])"
proof -
  let ?s = "secret_Build (secret_SetOwnerReferences owners (secret_SetField k v
      (secret_SetName (nn_Name n) (secret_SetNamespace (nn_Namespace n) secret_Builder))))"
  have s: "object_key (s_Meta ?s) = n" "s_Data ?s = Some [(k, v)]"
    by (simp_all add: secret_builder_defs object_key_def put_def)
  obtain m where g: "GetSecret c n w = (Fail (NotFound m), w)" using get_missing [OF assms] by blast
  obtain w' where w': "CreateSecret c ?s w = (Ok (), w')" "inv w'" "data w' = (data w)(n \<mapsto> Some [(k, v)])"
    using create_new [of w ?s] assms unfolding s by blast
  then show ?thesis using g by (simp add: EnsureSecretWithKey_def on_result_def Let_def)
qed

lemma EnsureSecretWithKey_existing:
  assumes "inv w" and "data w n = Some d"
  shows "EnsureSecretWithKey c n owners k v w =
    (Ok (case map_of (entries d) k of None \<Rightarrow> '''' | Some x \<Rightarrow> x), w)"
  using get_found [OF assms] by (auto simp: EnsureSecretWithKey_def on_result_def)

text \<open>Ensuring again with any other value gives the first value and changes nothing.\<close>

lemma EnsureSecretWithKey_stable:
  assumes "inv w"
  shows "\<exists>x w'. EnsureSecretWithKey c n owners k v w = (Ok x, w') \<and> inv w'
    \<and> (\<forall>owners' v'. EnsureSecretWithKey c n owners' k v' w' = (Ok x, w'))"
proof (cases "data w n")
  case None
  from EnsureSecretWithKey_new [OF assms None, of owners k v] obtain w' where w': "inv w'"
    "EnsureSecretWithKey c n owners k v w = (Ok v, w')" "data w' = (data w)(n \<mapsto> Some [(k, v)])" by blast
  then have "data w' n = Some (Some [(k, v)])" by simp
  from EnsureSecretWithKey_existing [OF w'(1) this] w' show ?thesis by auto
next
  case (Some d)
  from EnsureSecretWithKey_existing [OF assms Some] assms show ?thesis by auto
qed

end

end
