(* ===== verification/Kube_Client.thy ===== *)
theory Kube_Client
  imports StatefulSets Secrets ConfigMaps Services
begin

text \<open>
  \<open>pkg/kube/client\<close> and \<open>pkg/kube/annotations\<close>: the typed operations over the generic client
  of controller-runtime, the annotations of the custom resource, and the in-memory client
  (\<open>mocked_client.go\<close>) that keeps every object in a map. The in-memory client discharges the
  laws the other components assume of a cluster. It stores values: the aliasing of stored
  pointers in the source is not visible, because no caller keeps an object it has handed over.
\<close>

section \<open>Objects and the generic client\<close>

datatype k8s_kind = SecretKind | ConfigMapKind | ServiceKind | PodKind | StatefulSetKind | MongoDBKind

datatype k8s_object =
  SecretObj secret | ConfigMapObj config_map | ServiceObj service | PodObj pod
| StatefulSetObj statefulset | MongoDBObj mongodb_community

fun obj_kind :: "k8s_object \<Rightarrow> k8s_kind" where
  "obj_kind (SecretObj _) = SecretKind"
| "obj_kind (ConfigMapObj _) = ConfigMapKind"
| "obj_kind (ServiceObj _) = ServiceKind"
| "obj_kind (PodObj _) = PodKind"
| "obj_kind (StatefulSetObj _) = StatefulSetKind"
| "obj_kind (MongoDBObj _) = MongoDBKind"

fun obj_meta :: "k8s_object \<Rightarrow> object_meta" where
  "obj_meta (SecretObj s) = s_Meta s"
| "obj_meta (ConfigMapObj c) = cm_Meta c"
| "obj_meta (ServiceObj s) = svc_Meta s"
| "obj_meta (PodObj p) = pod_Meta p"
| "obj_meta (StatefulSetObj s) = sts_Meta s"
| "obj_meta (MongoDBObj m) = mdb_Meta m"

fun set_obj_meta :: "object_meta \<Rightarrow> k8s_object \<Rightarrow> k8s_object" where
  "set_obj_meta om (SecretObj s) = SecretObj (s\<lparr>s_Meta := om\<rparr>)"
| "set_obj_meta om (ConfigMapObj c) = ConfigMapObj (c\<lparr>cm_Meta := om\<rparr>)"
| "set_obj_meta om (ServiceObj s) = ServiceObj (s\<lparr>svc_Meta := om\<rparr>)"
| "set_obj_meta om (PodObj p) = PodObj (p\<lparr>pod_Meta := om\<rparr>)"
| "set_obj_meta om (StatefulSetObj s) = StatefulSetObj (s\<lparr>sts_Meta := om\<rparr>)"
| "set_obj_meta om (MongoDBObj m) = MongoDBObj (m\<lparr>mdb_Meta := om\<rparr>)"

definition ObjectKeyFromObject :: "k8s_object \<Rightarrow> nsname" where
  "ObjectKeyFromObject obj = object_key (obj_meta obj)"

lemma obj_kind_set_meta [simp]: "obj_kind (set_obj_meta om obj) = obj_kind obj"
  by (cases obj) simp_all

lemma obj_meta_set_meta [simp]: "obj_meta (set_obj_meta om obj) = om"
  by (cases obj) simp_all

text \<open>
  The interface \<open>client.Client\<close>. The type of the object a caller passes to \<open>Get\<close> selects the
  kind; \<open>Update\<close> and \<open>Patch\<close> write the server's answer back into their argument, so they
  return it. A patch is its type and its text.
\<close>

record k8s_patch =
  patch_Type :: string
  patch_Data :: string

definition JSONPatchType :: string where "JSONPatchType = ''application/json-patch+json''"

record 'w kclient =
  kGet :: "k8s_kind \<Rightarrow> nsname \<Rightarrow> 'w \<Rightarrow> k8s_object outcome \<times> 'w"
  kCreate :: "k8s_object \<Rightarrow> 'w \<Rightarrow> unit outcome \<times> 'w"
  kUpdate :: "k8s_object \<Rightarrow> 'w \<Rightarrow> k8s_object outcome \<times> 'w"
  kDelete :: "k8s_object \<Rightarrow> 'w \<Rightarrow> unit outcome \<times> 'w"
  kPatch :: "k8s_object \<Rightarrow> k8s_patch \<Rightarrow> 'w \<Rightarrow> k8s_object outcome \<times> 'w"
  kStatusUpdate :: "k8s_object \<Rightarrow> 'w \<Rightarrow> k8s_object outcome \<times> 'w"

text \<open>Reading an object into a variable of its Go type; reflection panics on another type.\<close>

fun as_secret :: "k8s_object \<Rightarrow> secret outcome" where
  "as_secret (SecretObj s) = Ok s" | "as_secret _ = Panic TypeMismatch"
fun as_config_map :: "k8s_object \<Rightarrow> config_map outcome" where
  "as_config_map (ConfigMapObj s) = Ok s" | "as_config_map _ = Panic TypeMismatch"
fun as_service :: "k8s_object \<Rightarrow> service outcome" where
  "as_service (ServiceObj s) = Ok s" | "as_service _ = Panic TypeMismatch"
fun as_pod :: "k8s_object \<Rightarrow> pod outcome" where
  "as_pod (PodObj s) = Ok s" | "as_pod _ = Panic TypeMismatch"
fun as_statefulset :: "k8s_object \<Rightarrow> statefulset outcome" where
  "as_statefulset (StatefulSetObj s) = Ok s" | "as_statefulset _ = Panic TypeMismatch"
fun as_mongodb :: "k8s_object \<Rightarrow> mongodb_community outcome" where
  "as_mongodb (MongoDBObj s) = Ok s" | "as_mongodb _ = Panic TypeMismatch"

section \<open>Typed operations\<close>

definition ignore_result :: "('w \<Rightarrow> 'a outcome \<times> 'w) \<Rightarrow> 'w \<Rightarrow> unit outcome \<times> 'w" where
  "ignore_result m = on_result m fail (\<lambda>_. ret ())"

definition named_meta :: "nsname \<Rightarrow> object_meta" where
  "named_meta key = empty_meta\<lparr>om_Name := nn_Name key, om_Namespace := nn_Namespace key\<rparr>"

text \<open>\<open>GetAndUpdate\<close>: the update function edits the object that was read.\<close>

definition client_GetAndUpdate ::
    "'w kclient \<Rightarrow> k8s_kind \<Rightarrow> nsname \<Rightarrow> (k8s_object \<Rightarrow> k8s_object) \<Rightarrow> 'w \<Rightarrow> k8s_object outcome \<times> 'w" where
  "client_GetAndUpdate c kind nsName updateFunc =
     on_result (kGet c kind nsName) fail (\<lambda>obj. kUpdate c (updateFunc obj))"

definition client_GetConfigMap :: "'w kclient \<Rightarrow> nsname \<Rightarrow> 'w \<Rightarrow> config_map outcome \<times> 'w" where
  "client_GetConfigMap c objectKey = on_result (kGet c ConfigMapKind objectKey) fail (\<lambda>obj. pure_out (as_config_map obj))"
definition client_UpdateConfigMap :: "'w kclient \<Rightarrow> config_map \<Rightarrow> 'w \<Rightarrow> unit outcome \<times> 'w" where
  "client_UpdateConfigMap c cm = ignore_result (kUpdate c (ConfigMapObj cm))"
definition client_CreateConfigMap :: "'w kclient \<Rightarrow> config_map \<Rightarrow> 'w \<Rightarrow> unit outcome \<times> 'w" where
  "client_CreateConfigMap c cm = kCreate c (ConfigMapObj cm)"
definition client_DeleteConfigMap :: "'w kclient \<Rightarrow> nsname \<Rightarrow> 'w \<Rightarrow> unit outcome \<times> 'w" where
  "client_DeleteConfigMap c key = kDelete c (ConfigMapObj \<lparr>cm_Meta = named_meta key, cm_Data = None\<rparr>)"

definition client_GetPod :: "'w kclient \<Rightarrow> nsname \<Rightarrow> 'w \<Rightarrow> pod outcome \<times> 'w" where
  "client_GetPod c objectKey = on_result (kGet c PodKind objectKey) fail (\<lambda>obj. pure_out (as_pod obj))"

definition client_GetSecret :: "'w kclient \<Rightarrow> nsname \<Rightarrow> 'w \<Rightarrow> secret outcome \<times> 'w" where
  "client_GetSecret c objectKey = on_result (kGet c SecretKind objectKey) fail (\<lambda>obj. pure_out (as_secret obj))"
definition client_UpdateSecret :: "'w kclient \<Rightarrow> secret \<Rightarrow> 'w \<Rightarrow> unit outcome \<times> 'w" where
  "client_UpdateSecret c s = ignore_result (kUpdate c (SecretObj s))"
definition client_CreateSecret :: "'w kclient \<Rightarrow> secret \<Rightarrow> 'w \<Rightarrow> unit outcome \<times> 'w" where
  "client_CreateSecret c s = kCreate c (SecretObj s)"
definition client_DeleteSecret :: "'w kclient \<Rightarrow> nsname \<Rightarrow> 'w \<Rightarrow> unit outcome \<times> 'w" where
  "client_DeleteSecret c key = kDelete c (SecretObj \<lparr>s_Meta = named_meta key, s_Data = None\<rparr>)"

definition empty_service :: service where
  "empty_service = \<lparr>svc_Meta = empty_meta, svc_PublishNotReadyAddresses = False, svc_ExternalTrafficPolicy = '''',
     svc_LoadBalancerIP = '''', svc_Type = '''', svc_ClusterIP = '''', svc_Ports = [], svc_Selector = []\<rparr>"

definition client_GetService :: "'w kclient \<Rightarrow> nsname \<Rightarrow> 'w \<Rightarrow> service outcome \<times> 'w" where
  "client_GetService c objectKey = on_result (kGet c ServiceKind objectKey) fail (\<lambda>obj. pure_out (as_service obj))"
definition client_UpdateService :: "'w kclient \<Rightarrow> service \<Rightarrow> 'w \<Rightarrow> unit outcome \<times> 'w" where
  "client_UpdateService c s = ignore_result (kUpdate c (ServiceObj s))"
definition client_CreateService :: "'w kclient \<Rightarrow> service \<Rightarrow> 'w \<Rightarrow> unit outcome \<times> 'w" where
  "client_CreateService c s = kCreate c (ServiceObj s)"
definition client_DeleteService :: "'w kclient \<Rightarrow> nsname \<Rightarrow> 'w \<Rightarrow> unit outcome \<times> 'w" where
  "client_DeleteService c key = kDelete c (ServiceObj (empty_service\<lparr>svc_Meta := named_meta key\<rparr>))"

definition client_GetStatefulSet :: "'w kclient \<Rightarrow> nsname \<Rightarrow> 'w \<Rightarrow> statefulset outcome \<times> 'w" where
  "client_GetStatefulSet c objectKey =
     on_result (kGet c StatefulSetKind objectKey) fail (\<lambda>obj. pure_out (as_statefulset obj))"
definition client_UpdateStatefulSet :: "'w kclient \<Rightarrow> statefulset \<Rightarrow> 'w \<Rightarrow> statefulset outcome \<times> 'w" where
  "client_UpdateStatefulSet c sts =
     on_result (kUpdate c (StatefulSetObj sts)) fail (\<lambda>obj. pure_out (as_statefulset obj))"
definition client_CreateStatefulSet :: "'w kclient \<Rightarrow> statefulset \<Rightarrow> 'w \<Rightarrow> unit outcome \<times> 'w" where
  "client_CreateStatefulSet c sts = kCreate c (StatefulSetObj sts)"
definition client_DeleteStatefulSet :: "'w kclient \<Rightarrow> nsname \<Rightarrow> 'w \<Rightarrow> unit outcome \<times> 'w" where
  "client_DeleteStatefulSet c key = kDelete c (StatefulSetObj (empty_statefulset\<lparr>sts_Meta := named_meta key\<rparr>))"

text \<open>The interfaces of the packages, implemented by the client.\<close>

definition secrets_of :: "'w kclient \<Rightarrow> 'w secret_client" where
  "secrets_of c = \<lparr>GetSecret = client_GetSecret c, UpdateSecret = client_UpdateSecret c,
     CreateSecret = client_CreateSecret c, DeleteSecret = client_DeleteSecret c\<rparr>"
definition config_maps_of :: "'w kclient \<Rightarrow> 'w configmap_client" where
  "config_maps_of c = \<lparr>GetConfigMap = client_GetConfigMap c, UpdateConfigMap = client_UpdateConfigMap c,
     CreateConfigMap = client_CreateConfigMap c, DeleteConfigMap = client_DeleteConfigMap c\<rparr>"
definition services_of :: "'w kclient \<Rightarrow> 'w service_client" where
  "services_of c = \<lparr>GetService = client_GetService c, UpdateService = client_UpdateService c,
     CreateService = client_CreateService c, DeleteService = client_DeleteService c\<rparr>"
definition statefulsets_of :: "'w kclient \<Rightarrow> 'w statefulset_client" where
  "statefulsets_of c = \<lparr>GetStatefulSet = client_GetStatefulSet c, UpdateStatefulSet = client_UpdateStatefulSet c,
     CreateStatefulSet = client_CreateStatefulSet c, DeleteStatefulSet = client_DeleteStatefulSet c\<rparr>"

lemmas typed_ops = client_GetConfigMap_def client_UpdateConfigMap_def client_CreateConfigMap_def client_GetPod_def
  client_GetSecret_def client_UpdateSecret_def client_CreateSecret_def client_DeleteSecret_def
  client_GetService_def client_UpdateService_def client_CreateService_def client_GetStatefulSet_def
  client_UpdateStatefulSet_def client_CreateStatefulSet_def ignore_result_def

section \<open>Annotations\<close>

record patch_value =
  pv_Op :: string
  pv_Path :: string
  pv_Value :: json

definition enc_patch :: "patch_value \<Rightarrow> json" where
  "enc_patch p = JObj [(''op'', JStr (pv_Op p)), (''path'', JStr (pv_Path p)), (''value'', pv_Value p)]"

text \<open>\<open>strings.Replace(s, old, new, 1)\<close>.\<close>

fun replace_first :: "string \<Rightarrow> string \<Rightarrow> string \<Rightarrow> string" where
  "replace_first [] old new = (if old = [] then new else [])"
| "replace_first (x # xs) old new =
     (if has_prefix (x # xs) old then new @ drop (length old) (x # xs) else x # replace_first xs old new)"

text \<open>The patch for one entry, and the entries of a map in the order \<open>range\<close> visits them.\<close>

definition key_patch :: "string \<times> string \<Rightarrow> patch_value" where
  "key_patch kv = \<lparr>pv_Op = ''replace'', pv_Path = ''/metadata/annotations/'' @ replace_first (fst kv) ''/'' ''~1'',
     pv_Value = JStr (snd kv)\<rparr>"

definition range_pairs :: "iter_order \<Rightarrow> 'v gomap \<Rightarrow> 'v gomap" where
  "range_pairs it m = List.map_filter (\<lambda>k. map_option (Pair k) (map_of m k)) (it (map fst m))"

definition annotation_patches :: "iter_order \<Rightarrow> object_meta \<Rightarrow> string gomap \<Rightarrow> patch_value list" where
  "annotation_patches it current annotations =
     (if entries (om_Annotations current) = []
      then [\<lparr>pv_Op = ''replace'', pv_Path = ''/metadata/annotations'', pv_Value = JObj []\<rparr>] else [])
     @ map key_patch (range_pairs it annotations)"

text \<open>\<open>currentObject := spec\<close> shares the pointer, so the read overwrites the argument; it returns as patched.\<close>

definition SetAnnotations ::
    "iter_order \<Rightarrow> 'w kclient \<Rightarrow> mongodb_community \<Rightarrow> string gomap \<Rightarrow> 'w \<Rightarrow> mongodb_community outcome \<times> 'w" where
  "SetAnnotations it c spec annotations =
     on_result (kGet c MongoDBKind (NamespacedName spec)) fail (\<lambda>currentObject.
       let data = render (JArr (map enc_patch (annotation_patches it (obj_meta currentObject) annotations)))
       in on_result (kPatch c currentObject \<lparr>patch_Type = JSONPatchType, patch_Data = data\<rparr>) fail
            (\<lambda>obj. pure_out (as_mongodb obj)))"

definition GetMongoDBVersionForAnnotation :: "mongodb_community \<Rightarrow> string" where
  "GetMongoDBVersionForAnnotation mdb = spec_Version (mdb_Spec mdb)"

definition UpdateLastAppliedMongoDBVersion ::
    "iter_order \<Rightarrow> 'w kclient \<Rightarrow> mongodb_community \<Rightarrow> 'w \<Rightarrow> mongodb_community outcome \<times> 'w" where
  "UpdateLastAppliedMongoDBVersion it c mdb =
     SetAnnotations it c mdb [(LastAppliedMongoDBVersion, GetMongoDBVersionForAnnotation mdb)]"

section \<open>The in-memory client\<close>

text \<open>\<open>backingMap\<close>: for every type of object a map from its key.\<close>

type_synonym mock_cluster = "k8s_kind \<Rightarrow> nsname \<Rightarrow> k8s_object option"

definition mock_empty :: mock_cluster where
  "mock_empty = (\<lambda>_ _. None)"

definition mock_put :: "k8s_object \<Rightarrow> mock_cluster \<Rightarrow> mock_cluster" where
  "mock_put obj w = w(obj_kind obj := (w (obj_kind obj))(ObjectKeyFromObject obj \<mapsto> obj))"

definition notFoundError :: error where "notFoundError = NotFound ''''"
definition alreadyExistsError :: error where "alreadyExistsError = AlreadyExists ''''"

definition mock_Get :: "k8s_kind \<Rightarrow> nsname \<Rightarrow> mock_cluster \<Rightarrow> k8s_object outcome \<times> mock_cluster" where
  "mock_Get kind key = (\<lambda>w. case w kind key of Some obj \<Rightarrow> (Ok obj, w) | None \<Rightarrow> (Fail notFoundError, w))"

definition makeStatefulSetReady :: "statefulset \<Rightarrow> statefulset outcome" where
  "makeStatefulSetReady s =
     (case sts_Replicas (sts_Spec s) of
        None \<Rightarrow> Panic NilDeref
      | Some r \<Rightarrow> Ok (s\<lparr>sts_Status := (sts_Status s)\<lparr>stss_UpdatedReplicas := r, stss_ReadyReplicas := r\<rparr>\<rparr>))"

fun mock_prepare :: "k8s_object \<Rightarrow> k8s_object outcome" where
  "mock_prepare (StatefulSetObj s) = bind_out (makeStatefulSetReady s) (\<lambda>s'. Ok (StatefulSetObj s'))"
| "mock_prepare obj = Ok obj"

definition mock_Create :: "k8s_object \<Rightarrow> mock_cluster \<Rightarrow> unit outcome \<times> mock_cluster" where
  "mock_Create obj = (\<lambda>w.
     if w (obj_kind obj) (ObjectKeyFromObject obj) \<noteq> None then (Fail alreadyExistsError, w)
     else (case mock_prepare obj of
             Ok obj' \<Rightarrow> (Ok (), mock_put obj' w)
           | Fail e \<Rightarrow> (Fail e, w)
           | Panic p \<Rightarrow> (Panic p, w)))"

definition mock_Delete :: "k8s_object \<Rightarrow> mock_cluster \<Rightarrow> unit outcome \<times> mock_cluster" where
  "mock_Delete obj = (\<lambda>w. (Ok (), w(obj_kind obj := (w (obj_kind obj))(ObjectKeyFromObject obj := None))))"

definition mock_Update :: "k8s_object \<Rightarrow> mock_cluster \<Rightarrow> k8s_object outcome \<times> mock_cluster" where
  "mock_Update obj = (\<lambda>w. (Ok obj, mock_put obj w))"

text \<open>
  The patches, applied to the annotations one after the other; \<open>SplitAfterN\<close> gives a second
  element only when the path goes on below the annotations, and indexing it panics otherwise.
  A string value is stored, and storing into nil annotations panics.
\<close>

definition annotations_path :: string where "annotations_path = ''/metadata/annotations''"

fun apply_patches :: "patch_value list \<Rightarrow> string gomap option \<Rightarrow> string gomap option outcome" where
  "apply_patches [] an = Ok an"
| "apply_patches (p # ps) an =
     (if pv_Op p \<noteq> ''replace'' then Fail (Err ''patch operations different from \"replace\" are not yet implemented'')
      else if \<not> has_prefix (pv_Path p) annotations_path
        then Fail (Err ''patch that modify something different from annotations are not yet implemented'')
      else if pv_Path p = annotations_path then apply_patches ps (Some [])
      else if \<not> has_prefix (pv_Path p) (annotations_path @ ''/'') then Panic IndexOutOfRange
      else (let finalPatchPath = replace_first (drop (length annotations_path + 1) (pv_Path p)) ''~1'' ''/''
            in case pv_Value p of
                 JStr val \<Rightarrow> (case an of None \<Rightarrow> Panic NilMapWrite | Some m \<Rightarrow> apply_patches ps (Some (put finalPatchPath val m)))
               | _ \<Rightarrow> Fail (Err (''patch operations with values that are not strings are not implemented yet: ''
                   @ drop (length annotations_path + 1) (pv_Path p)))))"

definition dec_patch :: "json option \<Rightarrow> patch_value option" where
  "dec_patch = dec_struct (\<lambda>kvs. do {
     op \<leftarrow> dec_str (jfield kvs ''op''); pa \<leftarrow> dec_str (jfield kvs ''path'');
     Some \<lparr>pv_Op = op, pv_Path = pa, pv_Value = (case jfield kvs ''value'' of None \<Rightarrow> JNull | Some v \<Rightarrow> v)\<rparr> })"

definition mock_Patch :: "k8s_object \<Rightarrow> k8s_patch \<Rightarrow> mock_cluster \<Rightarrow> k8s_object outcome \<times> mock_cluster" where
  "mock_Patch obj p = (\<lambda>w.
     if patch_Type p \<noteq> JSONPatchType
     then (Fail (Err ''patch types different from JSONPatchType are not yet implemented''), w)
     else (case bind_out (case Option.bind (parse (patch_Data p)) (\<lambda>j. dec_list dec_patch (Some j)) of
                            None \<Rightarrow> Fail (Err ''invalid patch'') | Some ps \<Rightarrow> Ok ps)
                  (\<lambda>ps. apply_patches ps (om_Annotations (obj_meta obj))) of
             Ok an \<Rightarrow> (let obj' = set_obj_meta ((obj_meta obj)\<lparr>om_Annotations := an\<rparr>) obj in (Ok obj', mock_put obj' w))
           | Fail e \<Rightarrow> (Fail e, w)
           | Panic q \<Rightarrow> (Panic q, w)))"

text \<open>The rest of the client interface is not used by the operator: lists stay empty, deleting all objects
  has no effect, the status is written by the client itself, and there is no mapper and no scheme.\<close>

definition mock_List :: "'list \<Rightarrow> mock_cluster \<Rightarrow> unit outcome \<times> mock_cluster" where
  "mock_List objs = ret ()"

definition mock_DeleteAllOf :: "k8s_object \<Rightarrow> mock_cluster \<Rightarrow> unit outcome \<times> mock_cluster" where
  "mock_DeleteAllOf obj = ret ()"

definition mock_Status :: "mock_cluster kclient \<Rightarrow> mock_cluster kclient" where
  "mock_Status m = m"

definition mock_RESTMapper :: "mock_cluster kclient \<Rightarrow> 'mapper option" where
  "mock_RESTMapper m = None"

definition mock_Scheme :: "mock_cluster kclient \<Rightarrow> 'scheme option" where
  "mock_Scheme m = None"

definition mockedClient :: "mock_cluster kclient" where
  "mockedClient = \<lparr>kGet = mock_Get, kCreate = mock_Create, kUpdate = mock_Update, kDelete = mock_Delete,
     kPatch = mock_Patch, kStatusUpdate = mock_Update\<rparr>"

section \<open>The in-memory client is a cluster that keeps secrets\<close>

definition well_kinded :: "mock_cluster \<Rightarrow> bool" where
  "well_kinded w = (\<forall>k n obj. w k n = Some obj \<longrightarrow> obj_kind obj = k \<and> ObjectKeyFromObject obj = n)"

definition mock_secret_data :: "mock_cluster \<Rightarrow> nsname \<Rightarrow> string gomap option option" where
  "mock_secret_data w n = (case w SecretKind n of Some (SecretObj s) \<Rightarrow> Some (s_Data s) | _ \<Rightarrow> None)"

lemma well_kinded_empty [simp]: "well_kinded mock_empty"
  by (simp add: well_kinded_def mock_empty_def)

lemma well_kinded_put [simp]: "well_kinded w \<Longrightarrow> well_kinded (mock_put obj w)"
  by (auto simp: well_kinded_def mock_put_def)

lemma well_kinded_secret:
  assumes "well_kinded w" and "w SecretKind n = Some obj"
  obtains s where "obj = SecretObj s" and "object_key (s_Meta s) = n"
proof -
  from assms have "obj_kind obj = SecretKind" "ObjectKeyFromObject obj = n" by (auto simp: well_kinded_def)
  with that show ?thesis by (cases obj) (auto simp: ObjectKeyFromObject_def)
qed

lemma mock_secret_data_put [simp]:
  "mock_secret_data (mock_put (SecretObj s) w) = (mock_secret_data w)(object_key (s_Meta s) \<mapsto> s_Data s)"
  by (auto simp: mock_secret_data_def mock_put_def ObjectKeyFromObject_def fun_eq_iff)

lemma mock_secret_data_put_other [simp]:
  "obj_kind obj \<noteq> SecretKind \<Longrightarrow> mock_secret_data (mock_put obj w) = mock_secret_data w"
  by (auto simp: mock_secret_data_def mock_put_def)

lemma mock_secret_data_None: "well_kinded w \<Longrightarrow> mock_secret_data w n = None \<longleftrightarrow> w SecretKind n = None"
  by (auto simp: mock_secret_data_def split: option.splits k8s_object.splits elim: well_kinded_secret)

interpretation mock_secrets: secret_store "secrets_of mockedClient" mock_secret_data well_kinded
proof
  fix w n d
  assume w: "well_kinded w" and d: "mock_secret_data w n = Some d"
  then obtain obj where obj: "w SecretKind n = Some obj" by (auto simp: mock_secret_data_def split: option.splits)
  from well_kinded_secret [OF w obj] obtain s where s: "obj = SecretObj s" "object_key (s_Meta s) = n" .
  with obj d show "\<exists>s. GetSecret (secrets_of mockedClient) n w = (Ok s, w) \<and> s_Data s = d \<and> object_key (s_Meta s) = n"
    by (auto simp: secrets_of_def typed_ops mockedClient_def mock_Get_def on_result_def mock_secret_data_def)
next
  fix w n
  assume "well_kinded w" and "mock_secret_data w n = None"
  then have "w SecretKind n = None" by (simp only: mock_secret_data_None)
  then show "\<exists>m. GetSecret (secrets_of mockedClient) n w = (Fail (NotFound m), w)"
    by (simp add: secrets_of_def typed_ops mockedClient_def mock_Get_def on_result_def notFoundError_def)
next
  fix w and s :: secret
  assume w: "well_kinded w" and "mock_secret_data w (object_key (s_Meta s)) = None"
  then have "w SecretKind (object_key (s_Meta s)) = None" by (simp only: mock_secret_data_None)
  with w show "\<exists>w'. CreateSecret (secrets_of mockedClient) s w = (Ok (), w') \<and> well_kinded w'
      \<and> mock_secret_data w' = (mock_secret_data w)(object_key (s_Meta s) \<mapsto> s_Data s)"
    by (simp add: secrets_of_def typed_ops mockedClient_def mock_Create_def ObjectKeyFromObject_def)
next
  fix w d and s :: secret
  assume "well_kinded w"
  then show "\<exists>w'. UpdateSecret (secrets_of mockedClient) s w = (Ok (), w') \<and> well_kinded w'
      \<and> mock_secret_data w' = (mock_secret_data w)(object_key (s_Meta s) \<mapsto> s_Data s)"
    by (simp add: secrets_of_def typed_ops mockedClient_def mock_Update_def on_result_def)
qed

section \<open>Annotations are stored\<close>

text \<open>A key survives the escaping of its first slash and the unescaping on the other side.\<close>

definition annotation_key_ok :: "string \<Rightarrow> bool" where
  "annotation_key_ok k = (replace_first (replace_first k ''/'' ''~1'') ''~1'' ''/'' = k)"

lemma dec_enc_patch [simp]: "dec_patch (Some (enc_patch p)) = Some p"
  by (simp add: dec_patch_def enc_patch_def dec_struct_def)

lemma wf_enc_patches: "\<forall>p \<in> set ps. wf_json (pv_Value p) \<Longrightarrow> wf_json (JArr (map enc_patch ps))"
  by (simp add: enc_patch_def list_all_iff)

lemma apply_key_patches:
  assumes "\<forall>kv \<in> set kvs. annotation_key_ok (fst kv)"
  shows "apply_patches (map key_patch kvs) (Some m) = Ok (Some (put_all m kvs))"
  using assms
proof (induction kvs arbitrary: m)
  case Nil
  then show ?case by (simp add: put_all_def)
next
  case (Cons kv kvs)
  obtain k v where kv: "kv = (k, v)" by fastforce
  have "has_prefix (''/metadata/annotations/'' @ x) annotations_path"
    "has_prefix (''/metadata/annotations/'' @ x) (annotations_path @ ''/'')"
    "''/metadata/annotations/'' @ x \<noteq> annotations_path"
    "drop (length annotations_path + 1) (''/metadata/annotations/'' @ x) = x" for x
    by (simp_all add: has_prefix_def annotations_path_def)
  note path = this
  have "apply_patches (map key_patch (kv # kvs)) (Some m) = apply_patches (map key_patch kvs) (Some (put k v m))"
    using Cons.prems path [of "replace_first k ''/'' ''~1''"]
    by (simp add: kv key_patch_def annotation_key_ok_def Let_def)
  with Cons show ?case by (simp add: kv put_all_def)
qed

lemma range_pairs_map:
  assumes "valid_order it"
  shows "range_pairs it m = map (\<lambda>k. (k, the (map_of m k))) (it (map fst m))"
proof -
  have "\<exists>v. map_of m k = Some v" if "k \<in> set (it (map fst m))" for k
  proof -
    from assms have "mset (it (map fst m)) = mset (map fst m)" by (simp only: valid_order_def)
    then have "set (it (map fst m)) = set (map fst m)" by (rule mset_eq_setD)
    with that show ?thesis by (metis list.set_map map_of_eq_None_iff option.exhaust)
  qed
  then show ?thesis unfolding range_pairs_def
    by (induction "it (map fst m)") (force simp: List.map_filter_def)+
qed

lemma range_pairs_wf:
  assumes "valid_order it" and "wf_map m"
  shows "wf_map (range_pairs it m)" and "map_of (range_pairs it m) = map_of m"
    and "fst ` set (range_pairs it m) = fst ` set m"
proof -
  have ms: "mset (it (map fst m)) = mset (map fst m)" using assms(1) by (simp only: valid_order_def)
  have fsts: "map fst (range_pairs it m) = it (map fst m)"
    by (simp add: range_pairs_map [OF assms(1)] comp_def)
  have "distinct (it (map fst m))"
    using assms(2) ms by (metis mset_eq_imp_distinct_iff wf_map_def)
  then show "wf_map (range_pairs it m)" by (simp only: wf_map_def fsts)
  have s: "set (it (map fst m)) = fst ` set m" using mset_eq_setD [OF ms] by simp
  then show "fst ` set (range_pairs it m) = fst ` set m" by (metis fsts list.set_map)
  show "map_of (range_pairs it m) = map_of m"
  proof
    fix k
    have "map_of (map (\<lambda>k. (k, the (map_of m k))) ks) k = (if k \<in> set ks then Some (the (map_of m k)) else None)" for ks
      by (induction ks) auto
    then show "map_of (range_pairs it m) k = map_of m k"
      by (auto simp: range_pairs_map [OF assms(1)] s map_of_eq_None_iff) (metis map_of_eq_None_iff option.exhaust_sel)
  qed
qed

lemma mock_Patch_apply:
  assumes "patch_Type p = JSONPatchType" and "patch_Data p = render (JArr (map enc_patch ps))"
    and "\<forall>q \<in> set ps. wf_json (pv_Value q)" and "apply_patches ps (om_Annotations (obj_meta obj)) = Ok an"
  shows "mock_Patch obj p w = (let obj' = set_obj_meta ((obj_meta obj)\<lparr>om_Annotations := an\<rparr>) obj in (Ok obj', mock_put obj' w))"
  using assms parse_render [OF wf_enc_patches [OF assms(3)]]
  by (simp add: mock_Patch_def dec_list_same del: render.simps)

text \<open>
  On the in-memory cluster, setting annotations whose keys survive the escaping stores exactly them
  over the ones the stored resource has, in whatever order the map is visited, keeps the rest of
  the stored resource, and returns what is stored.
\<close>

lemma SetAnnotations_stored:
  assumes it: "valid_order it" and w: "w MongoDBKind (NamespacedName mdb) = Some (MongoDBObj cur)"
    and key: "object_key (mdb_Meta cur) = NamespacedName mdb"
    and wf: "wf_map an" and ok: "\<forall>k \<in> fst ` set an. annotation_key_ok k"
  shows "\<exists>m' xs. m' = cur\<lparr>mdb_Meta := (mdb_Meta cur)\<lparr>om_Annotations := Some xs\<rparr>\<rparr>
    \<and> map_of xs = map_of (entries (om_Annotations (mdb_Meta cur))) ++ map_of an
    \<and> SetAnnotations it mockedClient mdb an w = (Ok m', mock_put (MongoDBObj m') w)
    \<and> mock_put (MongoDBObj m') w MongoDBKind (NamespacedName mdb) = Some (MongoDBObj m')"
proof -
  let ?old = "om_Annotations (mdb_Meta cur)"
  let ?xs = "put_all (entries ?old) (range_pairs it an)"
  let ?ps = "annotation_patches it (mdb_Meta cur) an"
  let ?m' = "cur\<lparr>mdb_Meta := (mdb_Meta cur)\<lparr>om_Annotations := Some ?xs\<rparr>\<rparr>"
  note rp = range_pairs_wf [OF it wf]
  have "\<forall>kv \<in> set (range_pairs it an). annotation_key_ok (fst kv)"
    using ok rp(3) by (metis image_eqI)
  note kp = apply_key_patches [OF this]
  have "apply_patches ?ps ?old = Ok (Some ?xs)"
    using kp by (cases ?old) (auto simp: annotation_patches_def annotations_path_def has_prefix_def)
  moreover have "\<forall>q \<in> set ?ps. wf_json (pv_Value q)"
    by (auto simp: annotation_patches_def key_patch_def)
  ultimately have "SetAnnotations it mockedClient mdb an w = (Ok ?m', mock_put (MongoDBObj ?m') w)"
    using w mock_Patch_apply [of "\<lparr>patch_Type = JSONPatchType, patch_Data = render (JArr (map enc_patch ?ps))\<rparr>" ?ps "MongoDBObj cur" "Some ?xs" w]
    by (simp add: SetAnnotations_def mockedClient_def mock_Get_def on_result_def Let_def del: render.simps)
  moreover have "map_of ?xs = map_of (entries ?old) ++ map_of an"
    by (simp add: map_of_put_all rp)
  moreover have "mock_put (MongoDBObj ?m') w MongoDBKind (NamespacedName mdb) = Some (MongoDBObj ?m')"
    using key by (simp add: mock_put_def ObjectKeyFromObject_def object_key_def)
  ultimately show ?thesis by blast
qed

end
