(* ===== verification/Automation_Secret.thy ===== *)
theory Automation_Secret
  imports AutomationConfig Kube_Client
begin

text \<open>
  \<open>pkg/automationconfig/automation_config_secret.go\<close>: the automation configuration in its
  secret. Agents read the secret, so it is written only when the contents change.
\<close>

section \<open>The code\<close>

definition ConfigKey :: string where "ConfigKey = ''cluster-config.json''"

text \<open>A missing key reads as no bytes at all, which is not JSON.\<close>

definition ReadFromSecret :: "'w secret_client \<Rightarrow> nsname \<Rightarrow> 'w \<Rightarrow> automation_config outcome \<times> 'w" where
  "ReadFromSecret c secretNsName =
     on_result (GetSecret c secretNsName)
       (\<lambda>err. if IsNotFound err then ret empty_ac else fail err)
       (\<lambda>acSecret. pure_out (FromBytes (case map_of (entries (s_Data acSecret)) ConfigKey of None \<Rightarrow> '''' | Some b \<Rightarrow> b)))"

definition createNewAutomationConfigSecret ::
    "'w secret_client \<Rightarrow> nsname \<Rightarrow> owner_reference list \<Rightarrow> automation_config \<Rightarrow> 'w \<Rightarrow> automation_config outcome \<times> 'w" where
  "createNewAutomationConfigSecret c secretNsName owner desiredAutomation =
     (let newSecret = secret_Build (secret_SetOwnerReferences owner (secret_SetField ConfigKey (marshal_ac desiredAutomation)
            (secret_SetNamespace (nn_Namespace secretNsName) (secret_SetName (nn_Name secretNsName) secret_Builder))))
      in on_result (CreateSecret c newSecret) fail (\<lambda>_. ret desiredAutomation))"

text \<open>\<open>existingSecret.Data[ConfigKey] = acBytes\<close> and the update that follows.\<close>

definition write_config :: "'w secret_client \<Rightarrow> secret \<Rightarrow> automation_config \<Rightarrow> 'w \<Rightarrow> automation_config outcome \<times> 'w" where
  "write_config c existingSecret desired =
     (case s_Data existingSecret of
        None \<Rightarrow> raise_panic NilMapWrite
      | Some d \<Rightarrow> on_result (UpdateSecret c (existingSecret\<lparr>s_Data := Some (put ConfigKey (marshal_ac desired) d)\<rparr>))
                  fail (\<lambda>_. ret desired))"

definition EnsureSecret ::
    "'w secret_client \<Rightarrow> nsname \<Rightarrow> owner_reference list \<Rightarrow> automation_config \<Rightarrow> 'w \<Rightarrow> automation_config outcome \<times> 'w" where
  "EnsureSecret c secretNsName owner desired =
     on_result (GetSecret c secretNsName)
       (\<lambda>err. if IsNotFound err then createNewAutomationConfigSecret c secretNsName owner desired else fail err)
       (\<lambda>existingSecret.
          case map_of (entries (s_Data existingSecret)) ConfigKey of
            None \<Rightarrow> write_config c existingSecret desired
          | Some existingAcBytes \<Rightarrow>
              on_result (pure_out (FromBytes existingAcBytes)) fail (\<lambda>existing.
                if AreEqual desired existing then ret existing else write_config c existingSecret desired))"

section \<open>Stored configurations\<close>

lemma AreEqual_refl [simp]: "AreEqual ac ac"
  by (simp add: AreEqual_def)

lemma AreEqual_canon_right [simp]: "AreEqual ac (canon_ac ac)"
  using marshal_canon [of ac] by (simp add: AreEqual_def canon_ac_def)

text \<open>What is stored under the key, when the secret has a data map.\<close>

definition stored_text :: "string gomap option option \<Rightarrow> string option" where
  "stored_text d = (case d of Some (Some m) \<Rightarrow> map_of m ConfigKey | _ \<Rightarrow> None)"

context secret_store
begin

lemma Ensure_written:
  assumes "inv w" and "data w n = Some (Some m)"
    and "map_of m ConfigKey = None \<or> (\<exists>t old. map_of m ConfigKey = Some t \<and> FromBytes t = Ok old \<and> \<not> AreEqual des old)"
  shows "\<exists>w'. EnsureSecret c n own des w = (Ok des, w') \<and> inv w'
    \<and> data w' = (data w)(n \<mapsto> Some (put ConfigKey (marshal_ac des) m))"
proof -
  obtain s where s: "GetSecret c n w = (Ok s, w)" "s_Data s = Some m" "object_key (s_Meta s) = n"
    using get_found [OF assms(1,2)] by blast
  obtain w' where "UpdateSecret c (s\<lparr>s_Data := Some (put ConfigKey (marshal_ac des) m)\<rparr>) w = (Ok (), w')" "inv w'"
    "data w' = (data w)(n \<mapsto> Some (put ConfigKey (marshal_ac des) m))"
    using update_existing [of w "s\<lparr>s_Data := Some (put ConfigKey (marshal_ac des) m)\<rparr>"] s assms(1,2) by auto
  with s assms(3) show ?thesis
    by (auto simp: EnsureSecret_def write_config_def on_result_def)
qed

lemma Ensure_unchanged:
  assumes "inv w" and "data w n = Some (Some m)" and "map_of m ConfigKey = Some t" and "FromBytes t = Ok old"
    and "AreEqual des old"
  shows "EnsureSecret c n own des w = (Ok old, w)"
  using get_found [OF assms(1,2)] assms(3-5) by (auto simp: EnsureSecret_def on_result_def)

lemma Ensure_created:
  assumes "inv w" and "data w n = None"
  shows "\<exists>w'. EnsureSecret c n own des w = (Ok des, w') \<and> inv w'
    \<and> data w' = (data w)(n \<mapsto> Some [(ConfigKey, marshal_ac des)])"
proof -
  let ?s = "secret_Build (secret_SetOwnerReferences own (secret_SetField ConfigKey (marshal_ac des)
            (secret_SetNamespace (nn_Namespace n) (secret_SetName (nn_Name n) secret_Builder))))"
  have s: "object_key (s_Meta ?s) = n" "s_Data ?s = Some [(ConfigKey, marshal_ac des)]"
    by (simp_all add: secret_builder_defs object_key_def put_def)
  obtain e where "GetSecret c n w = (Fail (NotFound e), w)" using get_missing [OF assms] by blast
  moreover obtain w' where "CreateSecret c ?s w = (Ok (), w')" "inv w'"
    "data w' = (data w)(n \<mapsto> Some [(ConfigKey, marshal_ac des)])"
    using create_new [of w ?s] assms s by auto
  ultimately show ?thesis
    by (simp add: EnsureSecret_def createNewAutomationConfigSecret_def on_result_def Let_def)
qed

lemma Read_stored:
  assumes "inv w" and "stored_text (data w n) = Some t"
  shows "ReadFromSecret c n w = (FromBytes t, w)"
proof -
  obtain m where m: "data w n = Some (Some m)" "map_of m ConfigKey = Some t"
    using assms(2) by (auto simp: stored_text_def split: option.splits)
  from get_found [OF assms(1) m(1)] m(2) show ?thesis by (auto simp: ReadFromSecret_def on_result_def)
qed

text \<open>
  Ensuring a configuration: afterwards the store holds one with the contents of the desired one, and
  ensuring the same one again leaves the store alone. The store is written unless it already held
  one with these contents.
\<close>

lemma EnsureSecret_stores:
  assumes inv: "inv w" and wf: "wf_ac des"
    and ok: "data w n = None \<or> (\<exists>m. data w n = Some (Some m)
      \<and> (\<forall>t. map_of m ConfigKey = Some t \<longrightarrow> (\<exists>old. FromBytes t = Ok old \<and> wf_ac old)))"
  shows "\<exists>ac stored w'. EnsureSecret c n own des w = (Ok ac, w') \<and> ReadFromSecret c n w' = (Ok stored, w')
    \<and> same_contents des stored \<and> same_contents des ac \<and> ac_Version stored = ac_Version ac
    \<and> (\<forall>own'. EnsureSecret c n own' des w' = (Ok stored, w'))
    \<and> (if \<exists>t old. stored_text (data w n) = Some t \<and> FromBytes t = Ok old \<and> same_contents des old then w' = w
       else ac = des \<and> stored_text (data w' n) = Some (marshal_ac des))"
proof -
  have after: ?thesis
    if w': "EnsureSecret c n own des w = (Ok des, w')" "inv w'" "data w' n = Some (Some m')" "map_of m' ConfigKey = Some (marshal_ac des)"
      and new: "\<And>t old. stored_text (data w n) = Some t \<Longrightarrow> FromBytes t = Ok old \<Longrightarrow> \<not> same_contents des old" for w' m'
  proof -
    have fb: "FromBytes (marshal_ac des) = Ok (canon_ac des)" by (rule FromBytes_marshal [OF wf])
    have "EnsureSecret c n own' des w' = (Ok (canon_ac des), w')" for own'
      by (rule Ensure_unchanged [OF w'(2-4) fb AreEqual_canon_right])
    moreover have st: "stored_text (data w' n) = Some (marshal_ac des)" using w'(3,4) by (simp add: stored_text_def)
    moreover have "ReadFromSecret c n w' = (Ok (canon_ac des), w')"
      using Read_stored [OF w'(2) st] fb by simp
    ultimately show ?thesis using w'(1) new same_contents_refl [OF wf] same_contents_canon_ac [OF wf]
      by (intro exI [of _ des] exI [of _ "canon_ac des"] exI [of _ w']) auto
  qed
  show ?thesis
  proof (cases "data w n")
    case None
    from Ensure_created [OF inv this, of own des] obtain w' where
      "EnsureSecret c n own des w = (Ok des, w')" "inv w'" "data w' = (data w)(n \<mapsto> Some [(ConfigKey, marshal_ac des)])"
      by blast
    with None show ?thesis by (intro after [of w' "[(ConfigKey, marshal_ac des)]"]) (simp_all add: stored_text_def)
  next
    case (Some d)
    with ok obtain m where m: "data w n = Some (Some m)"
      and old: "\<And>t. map_of m ConfigKey = Some t \<Longrightarrow> \<exists>old. FromBytes t = Ok old \<and> wf_ac old" by auto
    show ?thesis
    proof (cases "\<exists>t old. map_of m ConfigKey = Some t \<and> FromBytes t = Ok old \<and> same_contents des old")
      case True
      then obtain t o' where t: "map_of m ConfigKey = Some t" "FromBytes t = Ok o'" and same: "same_contents des o'" by blast
      have "wf_ac o'" using old [OF t(1)] t(2) by auto
      then have eq: "AreEqual des o'" using AreEqual_same_contents [OF wf] same by simp
      have st: "stored_text (data w n) = Some t" using m t(1) by (simp add: stored_text_def)
      with Read_stored [OF inv st] Ensure_unchanged [OF inv m t eq] t(2) same show ?thesis
        by (intro exI [of _ o'] exI [of _ w]) auto
    next
      case False
      have "map_of m ConfigKey = None
          \<or> (\<exists>t old. map_of m ConfigKey = Some t \<and> FromBytes t = Ok old \<and> \<not> AreEqual des old)"
        using False old AreEqual_same_contents [OF wf] by (cases "map_of m ConfigKey") fastforce+
      from Ensure_written [OF inv m this, of own] obtain w' where
        "EnsureSecret c n own des w = (Ok des, w')" "inv w'" "data w' = (data w)(n \<mapsto> Some (put ConfigKey (marshal_ac des) m))"
        by blast
      with False m show ?thesis by (intro after [of w' "put ConfigKey (marshal_ac des) m"]) (auto simp: stored_text_def)
    qed
  qed
qed

end

text \<open>
  C29. Ensuring the automation configuration in its secret, on the in-memory cluster: whether the secret is
  missing, lacks the key, or holds a configuration that can be read, afterwards it holds one that
  says the same as the desired one, field by field but for its version and the order of map
  entries. A configuration that says something else is overwritten by the desired one, and one that
  says the same is kept without any write, as it is when the same configuration is ensured again.
\<close>

theorem EnsureSecret_converges:
  assumes "well_kinded w" and "wf_ac des"
    and "mock_secret_data w n = None \<or> (\<exists>m. mock_secret_data w n = Some (Some m)
      \<and> (\<forall>t. map_of m ConfigKey = Some t \<longrightarrow> (\<exists>old. FromBytes t = Ok old \<and> wf_ac old)))"
  shows "\<exists>ac stored w'. EnsureSecret (secrets_of mockedClient) n own des w = (Ok ac, w')
    \<and> ReadFromSecret (secrets_of mockedClient) n w' = (Ok stored, w')
    \<and> same_contents des stored \<and> same_contents des ac \<and> ac_Version stored = ac_Version ac
    \<and> (\<forall>own'. EnsureSecret (secrets_of mockedClient) n own' des w' = (Ok stored, w'))
    \<and> (if \<exists>t old. stored_text (mock_secret_data w n) = Some t \<and> FromBytes t = Ok old \<and> same_contents des old then w' = w
       else ac = des \<and> stored_text (mock_secret_data w' n) = Some (marshal_ac des))"
  by (rule mock_secrets.EnsureSecret_stores [OF assms])

text \<open>A configuration of one member is stored, and one of three members is wanted.\<close>

theorem EnsureSecret_converges_witness:
  "\<exists>old des w ac w' stored. Build example_libs (example_builder 1 0) = Ok old \<and> Build example_libs (example_builder 3 0) = Ok des
    \<and> stored_text (mock_secret_data w \<lparr>nn_Namespace = ''ns'', nn_Name = ''db-config''\<rparr>) = Some (marshal_ac old)
    \<and> EnsureSecret (secrets_of mockedClient) \<lparr>nn_Namespace = ''ns'', nn_Name = ''db-config''\<rparr> [] des w = (Ok ac, w')
    \<and> ReadFromSecret (secrets_of mockedClient) \<lparr>nn_Namespace = ''ns'', nn_Name = ''db-config''\<rparr> w' = (Ok stored, w')
    \<and> map proc_Name (elems (ac_Processes stored)) = [''db-0'', ''db-1'', ''db-2'']"
proof -
  let ?n = "\<lparr>nn_Namespace = ''ns'', nn_Name = ''db-config''\<rparr>"
  obtain old des where old: "Build example_libs (example_builder 1 0) = Ok old" and des: "Build example_libs (example_builder 3 0) = Ok des"
    using example_build [of 1 0] example_build [of 3 0] by auto
  define w where "w = mock_put (SecretObj \<lparr>s_Meta = empty_meta\<lparr>om_Name := ''db-config'', om_Namespace := ''ns''\<rparr>,
    s_Data = Some [(ConfigKey, marshal_ac old)]\<rparr>) mock_empty"
  have data: "mock_secret_data w ?n = Some (Some [(ConfigKey, marshal_ac old)])"
    by (simp add: w_def mock_secret_data_def mock_put_def ObjectKeyFromObject_def object_key_def empty_meta_def)
  have wf: "well_kinded w" "wf_ac des" unfolding w_def by (intro well_kinded_put well_kinded_empty, rule wf_example_ac [OF des])
  have "\<exists>old'. FromBytes (marshal_ac old) = Ok old' \<and> wf_ac old'"
    using FromBytes_marshal [OF wf_example_ac [OF old]] wf_canon_ac [OF wf_example_ac [OF old]] by blast
  then obtain ac stored w' where e: "EnsureSecret (secrets_of mockedClient) ?n [] des w = (Ok ac, w')"
    "ReadFromSecret (secrets_of mockedClient) ?n w' = (Ok stored, w')" and same: "same_contents des stored"
    using EnsureSecret_converges [OF wf, of ?n "[]"] data by auto
  have "map proc_Name (elems (ac_Processes stored)) = map proc_Name (elems (ac_Processes des))" by (rule same_contents_names [OF same])
  also have "\<dots> = [''db-0'', ''db-1'', ''db-2'']"
    using example_processes [OF des] by (simp add: upt_rec toProcessName_def int_text_def nat_text.simps digit_char_def)
  finally have names: "map proc_Name (elems (ac_Processes stored)) = [''db-0'', ''db-1'', ''db-2'']" .
  have "stored_text (mock_secret_data w ?n) = Some (marshal_ac old)" by (simp add: data stored_text_def)
  with old des e names show ?thesis by (intro exI conjI)
qed

text \<open>
  An existing secret without a data map is a panic: the configuration is written into a nil map.
\<close>

theorem EnsureSecret_nil_data:
  assumes "GetSecret c n w = (Ok s, w')" and "s_Data s = None"
  shows "EnsureSecret c n own des w = (Panic NilMapWrite, w')"
  using assms by (simp add: EnsureSecret_def write_config_def on_result_def)

theorem EnsureSecret_nil_data_witness:
  "\<exists>w'. EnsureSecret (secrets_of mockedClient) \<lparr>nn_Namespace = '''', nn_Name = ''''\<rparr> [] empty_ac
     (mock_put (SecretObj empty_secret) mock_empty) = (Panic NilMapWrite, w')"
  using EnsureSecret_nil_data [of "secrets_of mockedClient" "\<lparr>nn_Namespace = '''', nn_Name = ''''\<rparr>"
      "mock_put (SecretObj empty_secret) mock_empty" empty_secret]
  by (simp add: secrets_of_def typed_ops mockedClient_def mock_Get_def on_result_def mock_put_def
      ObjectKeyFromObject_def object_key_def empty_secret_def empty_meta_def)

end
