(* ===== verification/Scram.thy ===== *)
theory Scram
  imports Generate Automation_Secret
begin

text \<open>
  \<open>pkg/authentication/scram\<close>: SCRAM authentication of a deployment. The credentials of a user are
  derived from its password secret and kept in a credentials secret, the password and key file
  of the agent in secrets of their own; all of them end up in the \<open>auth\<close> section of the
  automation configuration. Randomness, SASLprep and the text of a collection of errors are
  arguments.
\<close>

section \<open>The code\<close>

definition sha1SaltKey :: string where "sha1SaltKey = ''sha1-salt''"
definition sha256SaltKey :: string where "sha256SaltKey = ''sha256-salt''"
definition sha1ServerKeyKey :: string where "sha1ServerKeyKey = ''sha-1-server-key''"
definition sha256ServerKeyKey :: string where "sha256ServerKeyKey = ''sha-256-server-key''"
definition sha1StoredKeyKey :: string where "sha1StoredKeyKey = ''sha-1-stored-key''"
definition sha256StoredKeyKey :: string where "sha256StoredKeyKey = ''sha-256-stored-key''"
definition AgentPasswordKey :: string where "AgentPasswordKey = ''password''"
definition AgentKeyfileKey :: string where "AgentKeyfileKey = ''keyfile''"
definition automationAgentWindowsKeyFilePath :: string where
  "automationAgentWindowsKeyFilePath = ''%SystemDrive%'' @ [CHR 0x5C] @ ''MMSAutomation'' @ [CHR 0x5C] @ ''versions''
     @ [CHR 0x5C] @ ''keyfile''"

text \<open>What the package relies on.\<close>

record 'w scram_deps =
  sd_secrets :: "'w secret_client"
  sd_rand :: "'w rand_read"
  sd_prep :: saslprep
  sd_multierror :: "string list \<Rightarrow> error"

text \<open>\<open>s.Data[key]\<close>, empty when the key is missing.\<close>

definition secret_field :: "string gomap option \<Rightarrow> string \<Rightarrow> string" where
  "secret_field d key = (case map_of (entries d) key of None \<Rightarrow> '''' | Some v \<Rightarrow> v)"

definition computeScramShaCredentials ::
    "saslprep \<Rightarrow> string \<Rightarrow> string \<Rightarrow> byte list \<Rightarrow> byte list \<Rightarrow> (ScramCreds \<times> ScramCreds) outcome" where
  "computeScramShaCredentials prep username password sha1Salt sha256Salt =
     bind_out (wrap_err ''could not generate scramSha1Creds: '' (ComputeScramSha1Creds prep username password sha1Salt))
       (\<lambda>scram1Creds.
     bind_out (wrap_err ''could not generate scramSha256Creds: '' (ComputeScramSha256Creds prep password sha256Salt))
       (\<lambda>scram256Creds. Ok (scram1Creds, scram256Creds)))"

definition generateScramShaCredentials ::
    "'w scram_deps \<Rightarrow> string \<Rightarrow> string \<Rightarrow> 'w \<Rightarrow> (ScramCreds \<times> ScramCreds) outcome \<times> 'w" where
  "generateScramShaCredentials D username password =
     on_result (Salts (sd_rand D)) fail (\<lambda>(sha1Salt, sha256Salt).
       pure_out (computeScramShaCredentials (sd_prep D) username password sha1Salt sha256Salt))"

definition createScramCredentialsSecret ::
    "'w secret_client \<Rightarrow> nsname \<Rightarrow> string \<Rightarrow> ScramCreds \<Rightarrow> ScramCreds \<Rightarrow> 'w \<Rightarrow> unit outcome \<times> 'w" where
  "createScramCredentialsSecret c mdbObjectKey scramCredentialsSecretName sha1Creds sha256Creds =
     secret_CreateOrUpdate c (secret_Build
       (secret_SetField sha256ServerKeyKey (ServerKey sha256Creds)
       (secret_SetField sha256StoredKeyKey (StoredKey sha256Creds)
       (secret_SetField sha256SaltKey (Salt sha256Creds)
       (secret_SetField sha1ServerKeyKey (ServerKey sha1Creds)
       (secret_SetField sha1StoredKeyKey (StoredKey sha1Creds)
       (secret_SetField sha1SaltKey (Salt sha1Creds)
       (secret_SetNamespace (nn_Namespace mdbObjectKey)
       (secret_SetName scramCredentialsSecretName secret_Builder)))))))))"

text \<open>The key \<open>sha-1-server-key\<close> is checked twice and \<open>sha-1-stored-key\<close> never, as in the source.\<close>

definition credentials_of :: "string gomap option \<Rightarrow> ScramCreds \<times> ScramCreds" where
  "credentials_of d =
     (\<lparr>IterationCount = DefaultScramSha1Iterations, Salt = secret_field d sha1SaltKey,
       ServerKey = secret_field d sha1ServerKeyKey, StoredKey = secret_field d sha1StoredKeyKey\<rparr>,
      \<lparr>IterationCount = DefaultScramSha256Iterations, Salt = secret_field d sha256SaltKey,
       ServerKey = secret_field d sha256ServerKeyKey, StoredKey = secret_field d sha256StoredKeyKey\<rparr>)"

definition readExistingCredentials ::
    "'w secret_client \<Rightarrow> nsname \<Rightarrow> string \<Rightarrow> 'w \<Rightarrow> (ScramCreds \<times> ScramCreds) outcome \<times> 'w" where
  "readExistingCredentials c mdbObjectKey scramCredentialsSecretName =
     on_result (GetSecret c \<lparr>nn_Namespace = nn_Namespace mdbObjectKey, nn_Name = scramCredentialsSecretName\<rparr>)
       (\<lambda>err. fail (errorf (''could not get secret '' @ nn_Namespace mdbObjectKey @ ''/'' @ scramCredentialsSecretName @ '': '') err))
       (\<lambda>credentialsSecret.
          if \<not> HasAllKeys credentialsSecret [sha1SaltKey, sha1ServerKeyKey, sha1ServerKeyKey, sha256SaltKey,
                sha256ServerKeyKey, sha256StoredKeyKey]
          then fail (Err ''credentials secret did not have all of the required keys'')
          else ret (credentials_of (s_Data credentialsSecret)))"

definition b64_decode_out :: "string \<Rightarrow> byte list outcome" where
  "b64_decode_out s = (case b64_decode b64_alphabet s of None \<Rightarrow> Fail (Err ''illegal base64 data'') | Some bs \<Rightarrow> Ok bs)"

definition needToGenerateNewCredentials ::
    "'w scram_deps \<Rightarrow> string \<Rightarrow> string \<Rightarrow> nsname \<Rightarrow> string \<Rightarrow> 'w \<Rightarrow> bool outcome \<times> 'w" where
  "needToGenerateNewCredentials D username scramCredentialsSecretName mdbNamespacedName password =
     on_result (GetSecret (sd_secrets D)
         \<lparr>nn_Namespace = nn_Namespace mdbNamespacedName, nn_Name = scramCredentialsSecretName\<rparr>)
       (\<lambda>err. if IsNotFound err then ret True else fail err)
       (\<lambda>s. on_result (pure_out (b64_decode_out (secret_field (s_Data s) sha1SaltKey))) fail (\<lambda>decodedSha1Salt.
            on_result (pure_out (b64_decode_out (secret_field (s_Data s) sha256SaltKey))) fail (\<lambda>decodedSha256Salt.
            on_result (pure_out (computeScramShaCredentials (sd_prep D) username password decodedSha1Salt decodedSha256Salt))
              fail (\<lambda>(sha1Creds, sha256Creds).
            on_result (readExistingCredentials (sd_secrets D) mdbNamespacedName scramCredentialsSecretName)
              fail (\<lambda>(existingSha1Creds, existingSha256Creds).
                ret (sha1Creds \<noteq> existingSha1Creds \<or> sha256Creds \<noteq> existingSha256Creds))))))"

definition ensureScramCredentials ::
    "'w scram_deps \<Rightarrow> scram_user \<Rightarrow> nsname \<Rightarrow> 'w \<Rightarrow> (ScramCreds \<times> ScramCreds) outcome \<times> 'w" where
  "ensureScramCredentials D user mdbNamespacedName =
     on_result (secret_ReadKey (sd_secrets D) (su_PasswordSecretKey user)
         \<lparr>nn_Namespace = nn_Namespace mdbNamespacedName, nn_Name = su_PasswordSecretName user\<rparr>)
       (\<lambda>err. if IsNotFound err
              then readExistingCredentials (sd_secrets D) mdbNamespacedName (su_ScramCredentialsSecretName user)
              else fail (errorf ''could not read secret key: '' err))
       (\<lambda>password.
          on_result (needToGenerateNewCredentials D (su_Username user) (su_ScramCredentialsSecretName user)
              mdbNamespacedName password)
            (\<lambda>err. fail (errorf ''could not determine if new credentials need to be generated: '' err))
            (\<lambda>shouldGenerateNewCredentials.
               if \<not> shouldGenerateNewCredentials
               then readExistingCredentials (sd_secrets D) mdbNamespacedName (su_ScramCredentialsSecretName user)
               else on_result (generateScramShaCredentials D (su_Username user) password)
                 (\<lambda>err. fail (errorf ''failed generating scram credentials: '' err))
                 (\<lambda>(sha1Creds, sha256Creds).
                    on_result (createScramCredentialsSecret (sd_secrets D) mdbNamespacedName
                        (su_ScramCredentialsSecretName user) sha1Creds sha256Creds)
                      (\<lambda>err. fail (errorf (''faild to create scram credentials secret ''
                          @ su_ScramCredentialsSecretName user @ '': '') err))
                      (\<lambda>_. ret (sha1Creds, sha256Creds)))))"

definition acUser_of :: "scram_user \<Rightarrow> ScramCreds \<times> ScramCreds \<Rightarrow> ac_user" where
  "acUser_of user cs =
     \<lparr>acu_Mechanisms = Some [], acu_Roles = appended (map (\<lambda>role. \<lparr>acr_Role = sr_Name role, acr_Database = sr_Database role\<rparr>)
        (su_Roles user)), acu_Username = su_Username user, acu_Database = su_Database user,
      acu_AuthenticationRestrictions = Some [], acu_ScramSha256Creds = Some (snd cs), acu_ScramSha1Creds = Some (fst cs)\<rparr>"

definition convertMongoDBUserToAutomationConfigUser ::
    "'w scram_deps \<Rightarrow> nsname \<Rightarrow> scram_user \<Rightarrow> 'w \<Rightarrow> ac_user outcome \<times> 'w" where
  "convertMongoDBUserToAutomationConfigUser D mdbNsName user =
     on_result (ensureScramCredentials D user mdbNsName)
       (\<lambda>err. fail (errorf ''could not ensure scram credentials: '' err))
       (\<lambda>cs. ret (acUser_of user cs))"

fun convert_users :: "'w scram_deps \<Rightarrow> nsname \<Rightarrow> scram_user list \<Rightarrow> 'w \<Rightarrow> ac_user list outcome \<times> 'w" where
  "convert_users D nsName [] = ret []"
| "convert_users D nsName (u # users) =
     on_result (convertMongoDBUserToAutomationConfigUser D nsName u)
       (\<lambda>err. fail (errorf (''failed to convert scram user '' @ su_Username u @ '' to Automation Config user: '') err))
       (\<lambda>acUser. on_result (convert_users D nsName users) fail (\<lambda>acUsers. ret (acUser # acUsers)))"

definition convertMongoDBResourceUsersToAutomationConfigUsers ::
    "'w scram_deps \<Rightarrow> mongodb_community \<Rightarrow> 'w \<Rightarrow> ac_user list outcome \<times> 'w" where
  "convertMongoDBResourceUsersToAutomationConfigUsers D mdb = convert_users D (NamespacedName mdb) (GetScramUsers mdb)"

section \<open>The automation configuration\<close>

definition validateScramOptions :: "(string list \<Rightarrow> error) \<Rightarrow> scram_options \<Rightarrow> error option" where
  "validateScramOptions multierror opts =
     (let errs = (if so_AutoAuthMechanisms opts = [] then [''at least one AutoAuthMechanism must be specified''] else [])
            @ (if so_AutoAuthMechanism opts = '''' then [''AutoAuthMechanism must not be empty''] else [])
            @ (if so_AgentName opts = '''' then [''AgentName must be specified''] else [])
            @ (if so_KeyFile opts = '''' then [''KeyFile must be specified''] else [])
      in if errs = [] then None else Some (multierror errs))"

definition enableAgentAuthentication ::
    "string \<Rightarrow> string \<Rightarrow> ac_user list \<Rightarrow> scram_options \<Rightarrow> auth \<Rightarrow> auth" where
  "enableAgentAuthentication agentPassword agentKeyFileContents users opts a =
     a\<lparr>auth_Disabled := False, auth_AuthoritativeSet := so_AuthoritativeSet opts, auth_KeyFile := so_KeyFile opts,
       auth_KeyFileWindows := automationAgentWindowsKeyFilePath,
       auth_AutoAuthMechanisms := append_missing (auth_AutoAuthMechanisms a) (so_AutoAuthMechanisms opts),
       auth_AutoUser := so_AgentName opts, auth_AutoAuthMechanism := so_AutoAuthMechanism opts,
       auth_AutoPwd := agentPassword, auth_Key := agentKeyFileContents, auth_Users := users\<rparr>"

definition enableDeploymentMechanisms :: "scram_options \<Rightarrow> auth \<Rightarrow> auth" where
  "enableDeploymentMechanisms opts a =
     a\<lparr>auth_DeploymentAuthMechanisms := append_missing (auth_DeploymentAuthMechanisms a) (so_AutoAuthMechanisms opts)\<rparr>"

definition configureScramInAutomationConfig ::
    "(string list \<Rightarrow> error) \<Rightarrow> string \<Rightarrow> string \<Rightarrow> ac_user list \<Rightarrow> scram_options \<Rightarrow> auth \<Rightarrow> auth outcome" where
  "configureScramInAutomationConfig multierror agentPassword agentKeyFile users opts a =
     (case validateScramOptions multierror opts of
        Some err \<Rightarrow> Fail err
      | None \<Rightarrow> Ok (enableDeploymentMechanisms opts
                  (enableAgentAuthentication agentPassword agentKeyFile users opts a)))"

definition scram_Enable :: "'w scram_deps \<Rightarrow> auth \<Rightarrow> mongodb_community \<Rightarrow> 'w \<Rightarrow> auth outcome \<times> 'w" where
  "scram_Enable D a mdb =
     on_result (RandomFixedLengthStringOfSize (sd_rand D) 20)
       (\<lambda>err. fail (errorf ''could not generate password: '' err)) (\<lambda>generatedPassword.
     on_result (KeyFileContents (sd_rand D))
       (\<lambda>err. fail (errorf ''could not generate keyfile contents: '' err)) (\<lambda>generatedContents.
     on_result (convertMongoDBResourceUsersToAutomationConfigUsers D mdb)
       (\<lambda>err. fail (errorf ''could not convert users to Automation Config users: '' err)) (\<lambda>desiredUsers.
     on_result (EnsureSecretWithKey (sd_secrets D) (GetAgentPasswordSecretNamespacedName mdb) (GetOwnerReferences mdb)
         AgentPasswordKey generatedPassword) fail (\<lambda>agentPassword.
     on_result (EnsureSecretWithKey (sd_secrets D) (GetAgentKeyfileSecretNamespacedName mdb) (GetOwnerReferences mdb)
         AgentKeyfileKey generatedContents) fail (\<lambda>agentKeyFile.
     on_result (pure_out (GetScramOptions mdb)) fail (\<lambda>opts.
       pure_out (configureScramInAutomationConfig (sd_multierror D) agentPassword agentKeyFile desiredUsers opts a)))))))"

lemmas scram_keys = sha1SaltKey_def sha256SaltKey_def sha1ServerKeyKey_def sha256ServerKeyKey_def sha1StoredKeyKey_def
  sha256StoredKeyKey_def

section \<open>Stored credentials\<close>

definition pw_name :: "nsname \<Rightarrow> scram_user \<Rightarrow> nsname" where
  "pw_name ns u = \<lparr>nn_Namespace = nn_Namespace ns, nn_Name = su_PasswordSecretName u\<rparr>"

definition cred_name :: "nsname \<Rightarrow> scram_user \<Rightarrow> nsname" where
  "cred_name ns u = \<lparr>nn_Namespace = nn_Namespace ns, nn_Name = su_ScramCredentialsSecretName u\<rparr>"

definition required_keys :: "string list" where
  "required_keys = [sha1SaltKey, sha1ServerKeyKey, sha1ServerKeyKey, sha256SaltKey, sha256ServerKeyKey, sha256StoredKeyKey]"

definition has_cred_keys :: "string gomap option \<Rightarrow> bool" where
  "has_cred_keys d = list_all (has_key (entries d)) required_keys"

text \<open>The password a secret holds, as \<open>ReadKey\<close> finds it.\<close>

definition password_in :: "string gomap option \<Rightarrow> string \<Rightarrow> string option" where
  "password_in d k = map_of (put_all [] (entries d)) k"

text \<open>Credentials that belong to the salts stored with them and to a password.\<close>

definition computed_from :: "saslprep \<Rightarrow> string \<Rightarrow> string \<Rightarrow> string gomap option \<Rightarrow> bool" where
  "computed_from prep username password cd =
     (case (b64_decode b64_alphabet (secret_field cd sha1SaltKey), b64_decode b64_alphabet (secret_field cd sha256SaltKey)) of
        (Some s1, Some s256) \<Rightarrow> computeScramShaCredentials prep username password s1 s256 = Ok (credentials_of cd)
      | _ \<Rightarrow> False)"

text \<open>
  The settled state of a user: its credentials secret is complete, and when the password is still
  there, the credentials are the ones of this password.
\<close>

definition settled ::
    "saslprep \<Rightarrow> (nsname \<Rightarrow> string gomap option option) \<Rightarrow> nsname \<Rightarrow> scram_user \<Rightarrow> ScramCreds \<times> ScramCreds \<Rightarrow> bool" where
  "settled prep d ns u cs =
     (case d (cred_name ns u) of
        None \<Rightarrow> False
      | Some cd \<Rightarrow> has_cred_keys cd \<and> credentials_of cd = cs \<and>
         (case d (pw_name ns u) of
            None \<Rightarrow> True
          | Some pd \<Rightarrow> (case password_in pd (su_PasswordSecretKey u) of
               None \<Rightarrow> False
             | Some pw \<Rightarrow> computed_from prep (su_Username u) pw cd)))"

definition stored_fields :: "ScramCreds \<Rightarrow> ScramCreds \<Rightarrow> string gomap" where
  "stored_fields c1 c256 =
     [(sha1SaltKey, Salt c1), (sha1StoredKeyKey, StoredKey c1), (sha1ServerKeyKey, ServerKey c1),
      (sha256SaltKey, Salt c256), (sha256StoredKeyKey, StoredKey c256), (sha256ServerKeyKey, ServerKey c256)]"

lemma HasAllKeys_required: "HasAllKeys s [sha1SaltKey, sha1ServerKeyKey, sha1ServerKeyKey, sha256SaltKey,
      sha256ServerKeyKey, sha256StoredKeyKey] \<longleftrightarrow> has_cred_keys (s_Data s)"
  by (simp add: has_cred_keys_def required_keys_def)

lemma computeScramSha_parts:
  assumes "computeScramShaCredentials prep username password s1 s256 = Ok (c1, c256)"
  shows "ComputeScramSha1Creds prep username password s1 = Ok c1" and "ComputeScramSha256Creds prep password s256 = Ok c256"
  using assms
  by (auto simp: computeScramShaCredentials_def bind_out_Ok_conv elim!: wrap_err.elims)

lemma wrap_err_Ok_iff [simp]: "wrap_err p r = Ok x \<longleftrightarrow> r = Ok x"
  by (cases r) simp_all

lemma computed_stored_fields:
  assumes "computeScramShaCredentials prep username password s1 s256 = Ok (c1, c256)"
  shows "has_cred_keys (Some (stored_fields c1 c256))" and "credentials_of (Some (stored_fields c1 c256)) = (c1, c256)"
    and "computed_from prep username password (Some (stored_fields c1 c256))"
proof -
  note parts = computeScramSha_parts [OF assms]
  have salts: "Salt c1 = b64_encode b64_alphabet s1" "IterationCount c1 = DefaultScramSha1Iterations"
    "Salt c256 = b64_encode b64_alphabet s256" "IterationCount c256 = DefaultScramSha256Iterations"
    using parts computeScramCredentials_Salt
    unfolding ComputeScramSha1Creds_def ComputeScramSha256Creds_def by metis+
  show "has_cred_keys (Some (stored_fields c1 c256))"
    by (simp add: has_cred_keys_def required_keys_def stored_fields_def has_key_def scram_keys)
  show creds: "credentials_of (Some (stored_fields c1 c256)) = (c1, c256)"
    using salts by (simp add: credentials_of_def stored_fields_def secret_field_def scram_keys)
  have "secret_field (Some (stored_fields c1 c256)) sha1SaltKey = Salt c1"
    "secret_field (Some (stored_fields c1 c256)) sha256SaltKey = Salt c256"
    by (simp_all add: stored_fields_def secret_field_def scram_keys)
  with salts assms show "computed_from prep username password (Some (stored_fields c1 c256))"
    by (simp add: computed_from_def creds b64_decode_encode)
qed

section \<open>Credentials on a cluster that keeps secrets\<close>

text \<open>
  The world of the package: a store of secrets and a source of randomness that does not fail and
  does not touch the secrets.
\<close>

locale scram_world = secret_store "sd_secrets D" data inv
  for D :: "'w scram_deps" and data :: "'w \<Rightarrow> nsname \<Rightarrow> string gomap option option" and inv :: "'w \<Rightarrow> bool" +
  assumes rand_keeps: "inv w \<Longrightarrow> sd_rand D n w = (r, w') \<Longrightarrow> inv w' \<and> data w' = data w"
    and rand_never_fails: "never_fails (sd_rand D)"
begin

lemma RandomFixedLengthString_works:
  assumes "inv w" and "0 \<le> n"
  shows "\<exists>s w'. RandomFixedLengthStringOfSize (sd_rand D) n w = (Ok s, w') \<and> inv w' \<and> data w' = data w"
proof -
  obtain bs w' where r: "sd_rand D (nat n) w = (Ok bs, w')" "length bs = nat n"
    using rand_never_fails unfolding never_fails_def by blast
  have "int (length bs) = n" "\<not> n < 0" using r(2) assms(2) by simp_all
  with slice_b64 [of b64_url_alphabet bs] r(1) rand_keeps [OF assms(1) r(1)] show ?thesis
    by (simp add: RandomFixedLengthStringOfSize_def generateRandomBytes_def on_result_def)
qed

lemma KeyFileContents_works:
  assumes "inv w"
  shows "\<exists>s w'. KeyFileContents (sd_rand D) w = (Ok s, w') \<and> inv w' \<and> data w' = data w"
proof -
  obtain bs w' where r: "sd_rand D 500 w = (Ok bs, w')"
    using rand_never_fails unfolding never_fails_def by blast
  with rand_keeps [OF assms r] show ?thesis
    by (simp add: KeyFileContents_def generateRandomString_def generateRandomBytes_def on_result_def)
qed

lemma salt_works:
  assumes "inv w" and "4 \<le> h_Size h" and "h_Size h \<le> 36"
  shows "\<exists>s w'. salt (sd_rand D) h w = (Ok s, w') \<and> inv w' \<and> data w' = data w"
  using RandomFixedLengthString_works [OF assms(1), of 20] assms(2,3)
  by (auto simp: salt_def Let_def on_result_def RFC5802MandatedSaltSize_def)

lemma Salts_works:
  assumes "inv w"
  shows "\<exists>s1 s256 w'. Salts (sd_rand D) w = (Ok (s1, s256), w') \<and> inv w' \<and> data w' = data w"
proof -
  obtain s1 w1 where 1: "salt (sd_rand D) sha1_New w = (Ok s1, w1)" "inv w1" "data w1 = data w"
    using salt_works [OF assms, of sha1_New] by auto
  obtain s256 w2 where 2: "salt (sd_rand D) sha256_New w1 = (Ok s256, w2)" "inv w2" "data w2 = data w1"
    using salt_works [OF 1(2), of sha256_New] by auto
  from 1 2 show ?thesis by (simp add: Salts_def on_result_def)
qed

lemma readExisting_stored:
  assumes "inv w" and "data w (cred_name ns u) = Some cd"
  shows "readExistingCredentials (sd_secrets D) ns (su_ScramCredentialsSecretName u) w =
    (if has_cred_keys cd then Ok (credentials_of cd)
     else Fail (Err ''credentials secret did not have all of the required keys''), w)"
proof -
  obtain s where "GetSecret (sd_secrets D) (cred_name ns u) w = (Ok s, w)" "s_Data s = cd"
    using get_found [OF assms] by blast
  then show ?thesis
    by (simp add: readExistingCredentials_def on_result_def cred_name_def HasAllKeys_required del: HasAllKeys.simps)
qed

lemma readExisting_missing:
  assumes "inv w" and "data w (cred_name ns u) = None"
  shows "\<exists>e. readExistingCredentials (sd_secrets D) ns (su_ScramCredentialsSecretName u) w = (Fail e, w)"
  using get_missing [OF assms] by (auto simp: readExistingCredentials_def on_result_def cred_name_def)

lemma readExisting_Ok:
  assumes "inv w" and "readExistingCredentials (sd_secrets D) ns (su_ScramCredentialsSecretName u) w = (Ok cs, w')"
  shows "w' = w \<and> (\<exists>cd. data w (cred_name ns u) = Some cd \<and> has_cred_keys cd \<and> credentials_of cd = cs)"
proof (cases "data w (cred_name ns u)")
  case None
  from readExisting_missing [OF assms(1) None] assms(2) show ?thesis by simp
next
  case (Some cd)
  from readExisting_stored [OF assms(1) Some] assms(2) show ?thesis by (simp add: Some split: if_splits)
qed

lemma ReadKey_none:
  assumes "inv w" and "data w n = None"
  shows "\<exists>e. secret_ReadKey (sd_secrets D) k n w = (Fail (NotFound e), w)"
  using get_missing [OF assms] by (auto simp: secret_ReadKey_def secret_ReadStringData_def on_result_def)

lemma ReadKey_some:
  assumes "inv w" and "data w n = Some pd"
  shows "secret_ReadKey (sd_secrets D) k n w = (case password_in pd k of Some pw \<Rightarrow> (Ok pw, w)
    | None \<Rightarrow> (Fail (Err (''key \"'' @ k @ ''\" not present in the Secret '' @ nn_Namespace n @ ''/'' @ nn_Name n)), w))"
  using get_found [OF assms]
  by (auto simp: secret_ReadKey_def secret_ReadStringData_def on_result_def password_in_def split: option.split)

text \<open>Whether new credentials are needed, when there are old ones.\<close>

lemma need_new_stored:
  assumes "inv w" and "data w (cred_name ns u) = Some cd"
    and "needToGenerateNewCredentials D username (su_ScramCredentialsSecretName u) ns pw w = (Ok b, w')"
  shows "w' = w \<and> (\<not> b \<longrightarrow> has_cred_keys cd \<and> computed_from (sd_prep D) username pw cd)"
proof -
  obtain s where s: "GetSecret (sd_secrets D) (cred_name ns u) w = (Ok s, w)" "s_Data s = cd"
    using get_found [OF assms(1,2)] by blast
  note r = readExisting_stored [OF assms(1,2)]
  from assms(3) s r show ?thesis
    by (auto simp: needToGenerateNewCredentials_def on_result_def cred_name_def b64_decode_out_def computed_from_def
        credentials_of_def split: outcome.splits option.splits if_splits prod.splits)
qed

lemma need_new_settled:
  assumes "inv w" and "data w (cred_name ns u) = Some cd" and "has_cred_keys cd" and "computed_from (sd_prep D) username pw cd"
  shows "needToGenerateNewCredentials D username (su_ScramCredentialsSecretName u) ns pw w = (Ok False, w)"
proof -
  obtain s where s: "GetSecret (sd_secrets D) (cred_name ns u) w = (Ok s, w)" "s_Data s = cd"
    using get_found [OF assms(1,2)] by blast
  with readExisting_stored [OF assms(1,2)] assms(3,4) show ?thesis
    by (auto simp: needToGenerateNewCredentials_def on_result_def cred_name_def b64_decode_out_def computed_from_def
        split: option.splits prod.splits)
qed

end

context scram_world
begin

lemma create_stores:
  assumes "inv w"
  shows "\<exists>w'. createScramCredentialsSecret (sd_secrets D) ns (su_ScramCredentialsSecretName u) c1 c256 w = (Ok (), w') \<and> inv w'
    \<and> data w' = (data w)(cred_name ns u \<mapsto> Some (stored_fields c1 c256))"
proof -
  have keys: "sha1SaltKey \<noteq> sha1StoredKeyKey" "sha1SaltKey \<noteq> sha1ServerKeyKey" "sha1SaltKey \<noteq> sha256SaltKey"
    "sha1SaltKey \<noteq> sha256StoredKeyKey" "sha1SaltKey \<noteq> sha256ServerKeyKey" "sha1StoredKeyKey \<noteq> sha1ServerKeyKey"
    "sha1StoredKeyKey \<noteq> sha256SaltKey" "sha1StoredKeyKey \<noteq> sha256StoredKeyKey" "sha1StoredKeyKey \<noteq> sha256ServerKeyKey"
    "sha1ServerKeyKey \<noteq> sha256SaltKey" "sha1ServerKeyKey \<noteq> sha256StoredKeyKey" "sha1ServerKeyKey \<noteq> sha256ServerKeyKey"
    "sha256SaltKey \<noteq> sha256StoredKeyKey" "sha256SaltKey \<noteq> sha256ServerKeyKey" "sha256StoredKeyKey \<noteq> sha256ServerKeyKey"
    by (simp_all add: scram_keys)
  let ?s = "secret_Build (secret_SetField sha256ServerKeyKey (ServerKey c256)
       (secret_SetField sha256StoredKeyKey (StoredKey c256) (secret_SetField sha256SaltKey (Salt c256)
       (secret_SetField sha1ServerKeyKey (ServerKey c1) (secret_SetField sha1StoredKeyKey (StoredKey c1)
       (secret_SetField sha1SaltKey (Salt c1) (secret_SetNamespace (nn_Namespace ns)
       (secret_SetName (su_ScramCredentialsSecretName u) secret_Builder))))))))"
  have "object_key (s_Meta ?s) = cred_name ns u" "s_Data ?s = Some (stored_fields c1 c256)"
    using keys by (simp_all add: secret_builder_defs object_key_def cred_name_def stored_fields_def put_def)
  with CreateOrUpdate_stores [OF assms, of ?s] show ?thesis
    by (simp add: createScramCredentialsSecret_def)
qed

lemma generate_Ok:
  assumes "inv w" and "generateScramShaCredentials D username pw w = (Ok (c1, c256), w')"
  shows "inv w' \<and> data w' = data w \<and> (\<exists>s1 s256. computeScramShaCredentials (sd_prep D) username pw s1 s256 = Ok (c1, c256))"
proof -
  obtain s1 s256 w1 where "Salts (sd_rand D) w = (Ok (s1, s256), w1)" "inv w1" "data w1 = data w"
    using Salts_works [OF assms(1)] by blast
  with assms(2) show ?thesis
    by (simp add: generateScramShaCredentials_def on_result_def) (metis prod.inject)
qed

text \<open>A settled user keeps its credentials and nothing is written.\<close>

lemma ensure_settled:
  assumes inv: "inv w" and st: "settled (sd_prep D) (data w) ns u cs"
  shows "ensureScramCredentials D u ns w = (Ok cs, w)"
proof -
  obtain cd where cd: "data w (cred_name ns u) = Some cd" "has_cred_keys cd" "credentials_of cd = cs"
    using st by (auto simp: settled_def split: option.splits)
  have ex: "readExistingCredentials (sd_secrets D) ns (su_ScramCredentialsSecretName u) w = (Ok cs, w)"
    using readExisting_stored [OF inv cd(1)] cd by simp
  show ?thesis
  proof (cases "data w (pw_name ns u)")
    case None
    from ReadKey_none [OF inv None, of "su_PasswordSecretKey u"] ex show ?thesis
      by (auto simp: ensureScramCredentials_def on_result_def pw_name_def)
  next
    case (Some pd)
    with st cd obtain pw where pw: "password_in pd (su_PasswordSecretKey u) = Some pw"
      and cf: "computed_from (sd_prep D) (su_Username u) pw cd"
      by (auto simp: settled_def split: option.splits)
    from ReadKey_some [OF inv Some] pw need_new_settled [OF inv cd(1,2) cf] ex show ?thesis
      by (simp add: ensureScramCredentials_def on_result_def pw_name_def)
  qed
qed

text \<open>A successful run settles the user and touches only its credentials secret.\<close>

lemma settledI:
  assumes "d (cred_name ns u) = Some cd" and "has_cred_keys cd" and "credentials_of cd = cs"
    and "d (pw_name ns u) = None \<or> (\<exists>pd pw. d (pw_name ns u) = Some pd
      \<and> password_in pd (su_PasswordSecretKey u) = Some pw \<and> computed_from prep (su_Username u) pw cd)"
  shows "settled prep d ns u cs"
  using assms by (auto simp: settled_def)

lemma ensure_generates:
  assumes inv: "inv w" and ne: "pw_name ns u \<noteq> cred_name ns u" and pd: "data w (pw_name ns u) = Some pd"
    and pw: "password_in pd (su_PasswordSecretKey u) = Some pw"
    and need: "needToGenerateNewCredentials D (su_Username u) (su_ScramCredentialsSecretName u) ns pw w = (Ok True, w)"
    and ok: "ensureScramCredentials D u ns w = (Ok cs, w')"
  shows "inv w' \<and> settled (sd_prep D) (data w') ns u cs \<and> (\<forall>n. n \<noteq> cred_name ns u \<longrightarrow> data w' n = data w n)"
proof -
  obtain c1 c256 w1 where g: "generateScramShaCredentials D (su_Username u) pw w = (Ok (c1, c256), w1)"
    using ok ReadKey_some [OF inv pd, of "su_PasswordSecretKey u"] pw need
    by (auto simp: ensureScramCredentials_def on_result_def pw_name_def split: outcome.splits prod.splits)
  obtain s1 s256 where w1: "inv w1" "data w1 = data w"
    and comp: "computeScramShaCredentials (sd_prep D) (su_Username u) pw s1 s256 = Ok (c1, c256)"
    using generate_Ok [OF inv g] by blast
  obtain w2 where w2: "createScramCredentialsSecret (sd_secrets D) ns (su_ScramCredentialsSecretName u) c1 c256 w1 = (Ok (), w2)"
    "inv w2" "data w2 = (data w1)(cred_name ns u \<mapsto> Some (stored_fields c1 c256))"
    using create_stores [OF w1(1)] by blast
  have res: "cs = (c1, c256)" "w' = w2"
    using ok ReadKey_some [OF inv pd, of "su_PasswordSecretKey u"] pw need g w2(1)
    by (simp_all add: ensureScramCredentials_def on_result_def pw_name_def)
  note stored = computed_stored_fields [OF comp]
  have "settled (sd_prep D) (data w2) ns u (c1, c256)"
    by (rule settledI [OF _ stored(1,2)]) (use w2(3) w1(2) ne pd pw stored(3) in auto)
  with res w2 w1(2) show ?thesis by simp
qed

lemma ensure_Ok_settled:
  assumes inv: "inv w" and ne: "pw_name ns u \<noteq> cred_name ns u" and ok: "ensureScramCredentials D u ns w = (Ok cs, w')"
  shows "inv w' \<and> settled (sd_prep D) (data w') ns u cs \<and> (\<forall>n. n \<noteq> cred_name ns u \<longrightarrow> data w' n = data w n)"
proof (cases "data w (pw_name ns u)")
  case None
  with ok ReadKey_none [OF inv None, of "su_PasswordSecretKey u"]
  have r: "readExistingCredentials (sd_secrets D) ns (su_ScramCredentialsSecretName u) w = (Ok cs, w')"
    by (auto simp: ensureScramCredentials_def on_result_def pw_name_def)
  from readExisting_Ok [OF inv r] inv None show ?thesis by (auto intro: settledI)
next
  case (Some pd)
  then obtain pw where pw: "password_in pd (su_PasswordSecretKey u) = Some pw"
    using ok ReadKey_some [OF inv Some, of "su_PasswordSecretKey u"]
    by (auto simp: ensureScramCredentials_def on_result_def pw_name_def split: option.splits)
  obtain b w1 where need: "needToGenerateNewCredentials D (su_Username u) (su_ScramCredentialsSecretName u) ns pw w = (Ok b, w1)"
    using ok ReadKey_some [OF inv Some, of "su_PasswordSecretKey u"] pw
    by (auto simp: ensureScramCredentials_def on_result_def pw_name_def split: outcome.splits prod.splits)
  have w1: "w1 = w \<and> (data w (cred_name ns u) = None \<longrightarrow> b)"
  proof (cases "data w (cred_name ns u)")
    case None
    from get_missing [OF inv None] need show ?thesis
      by (auto simp: needToGenerateNewCredentials_def on_result_def cred_name_def None)
  next
    case (Some cd)
    from need_new_stored [OF inv Some need] Some show ?thesis by simp
  qed
  show ?thesis
  proof (cases b)
    case True
    from ensure_generates [OF inv ne Some pw _ ok] need w1 True show ?thesis by simp
  next
    case False
    with ok ReadKey_some [OF inv Some, of "su_PasswordSecretKey u"] pw need w1
    have r: "readExistingCredentials (sd_secrets D) ns (su_ScramCredentialsSecretName u) w = (Ok cs, w')"
      by (simp add: ensureScramCredentials_def on_result_def pw_name_def)
    from readExisting_Ok [OF inv r] obtain cd where cd: "w' = w" "data w (cred_name ns u) = Some cd" "has_cred_keys cd"
      "credentials_of cd = cs" by blast
    with need_new_stored [OF inv cd(2) need] False Some pw inv show ?thesis by (auto intro: settledI)
  qed
qed

end

section \<open>All users and the agent\<close>

text \<open>
  The secrets of a deployment are apart: every user has a credentials secret of its own, and no
  password secret is a credentials secret or one of the agent's.
\<close>

definition names_apart :: "nsname \<Rightarrow> nsname list \<Rightarrow> scram_user list \<Rightarrow> bool" where
  "names_apart ns agents us =
     (distinct (map (cred_name ns) us @ agents)
      \<and> list_all (\<lambda>u. pw_name ns u \<notin> set (map (cred_name ns) us @ agents)) us)"

lemma settled_frame:
  "settled prep d ns u cs \<Longrightarrow> d' (cred_name ns u) = d (cred_name ns u) \<Longrightarrow> d' (pw_name ns u) = d (pw_name ns u)
    \<Longrightarrow> settled prep d' ns u cs"
  by (simp add: settled_def cong: option.case_cong)

context scram_world
begin

lemma convert_users_settled:
  assumes "inv w" and "names_apart ns agents us" and "convert_users D ns us w = (Ok acs, w')"
  shows "inv w' \<and> (\<exists>css. list_all2 (settled (sd_prep D) (data w') ns) us css \<and> acs = map2 acUser_of us css)
    \<and> (\<forall>n. n \<notin> set (map (cred_name ns) us) \<longrightarrow> data w' n = data w n)"
  using assms
proof (induction us arbitrary: w acs)
  case Nil
  then show ?case by simp
next
  case (Cons u us)
  from Cons.prems(3) obtain cs w1 acs' where c: "ensureScramCredentials D u ns w = (Ok cs, w1)"
    and r: "convert_users D ns us w1 = (Ok acs', w')" and acs: "acs = acUser_of u cs # acs'"
    by (auto simp: convertMongoDBUserToAutomationConfigUser_def on_result_def split: outcome.splits prod.splits)
  have ne: "pw_name ns u \<noteq> cred_name ns u" and apart: "names_apart ns agents us"
    using Cons.prems(2) by (auto simp: names_apart_def list_all_iff)
  note h = ensure_Ok_settled [OF Cons.prems(1) ne c]
  from Cons.IH [OF conjunct1 [OF h] apart r] obtain css where t: "inv w'" "list_all2 (settled (sd_prep D) (data w') ns) us css"
    "acs' = map2 acUser_of us css" "\<forall>n. n \<notin> set (map (cred_name ns) us) \<longrightarrow> data w' n = data w1 n" by blast
  have "cred_name ns u \<notin> set (map (cred_name ns) us)" "pw_name ns u \<notin> set (map (cred_name ns) us)"
    using Cons.prems(2) by (auto simp: names_apart_def)
  then have "settled (sd_prep D) (data w') ns u cs"
    using h t(4) by (auto intro!: settled_frame [OF conjunct1 [OF conjunct2 [OF h]]])
  with t acs have "list_all2 (settled (sd_prep D) (data w') ns) (u # us) (cs # css) \<and> acs = map2 acUser_of (u # us) (cs # css)"
    by simp
  moreover have "\<forall>n. n \<notin> set (map (cred_name ns) (u # us)) \<longrightarrow> data w' n = data w n" using h t(4) by simp
  ultimately show ?case using t(1) by blast
qed

lemma convert_users_again:
  assumes "inv w" and "list_all2 (settled (sd_prep D) (data w) ns) us css"
  shows "convert_users D ns us w = (Ok (map2 acUser_of us css), w)"
  using assms(2)
proof (induction us css rule: list_all2_induct)
  case Nil
  then show ?case by simp
next
  case (Cons u us cs css)
  from ensure_settled [OF assms(1) Cons(1)] Cons show ?case
    by (simp add: convertMongoDBUserToAutomationConfigUser_def on_result_def)
qed

lemma EnsureSecretWithKey_frame:
  assumes "inv w"
  shows "\<exists>x w' d. EnsureSecretWithKey (sd_secrets D) n owners k v w = (Ok x, w') \<and> inv w' \<and> data w' n = Some d
    \<and> x = (case map_of (entries d) k of None \<Rightarrow> '''' | Some y \<Rightarrow> y) \<and> (\<forall>m. m \<noteq> n \<longrightarrow> data w' m = data w m)"
proof (cases "data w n")
  case None
  from EnsureSecretWithKey_new [OF assms None, of owners k v] obtain w' where
    "EnsureSecretWithKey (sd_secrets D) n owners k v w = (Ok v, w')" "inv w'" "data w' = (data w)(n \<mapsto> Some [(k, v)])" by blast
  then show ?thesis by (intro exI [of _ v] exI [of _ w'] exI [of _ "Some [(k, v)]"]) simp
next
  case (Some d)
  from EnsureSecretWithKey_existing [OF assms Some, of owners k v] assms Some show ?thesis by blast
qed

text \<open>What a successful run leaves behind, and that a second run finds it.\<close>

definition enabled :: "mongodb_community \<Rightarrow> 'w \<Rightarrow> ac_user list \<Rightarrow> string \<Rightarrow> string \<Rightarrow> bool" where
  "enabled mdb w users pwd key =
     ((\<exists>css. list_all2 (settled (sd_prep D) (data w) (NamespacedName mdb)) (GetScramUsers mdb) css
         \<and> users = map2 acUser_of (GetScramUsers mdb) css)
      \<and> (\<exists>d. data w (GetAgentPasswordSecretNamespacedName mdb) = Some d
           \<and> pwd = (case map_of (entries d) AgentPasswordKey of None \<Rightarrow> '''' | Some y \<Rightarrow> y))
      \<and> (\<exists>d. data w (GetAgentKeyfileSecretNamespacedName mdb) = Some d
           \<and> key = (case map_of (entries d) AgentKeyfileKey of None \<Rightarrow> '''' | Some y \<Rightarrow> y)))"

lemma Enable_enabled:
  assumes inv: "inv w"
    and apart: "names_apart (NamespacedName mdb) [GetAgentPasswordSecretNamespacedName mdb, GetAgentKeyfileSecretNamespacedName mdb] (GetScramUsers mdb)"
    and ok: "scram_Enable D a mdb w = (Ok a', w')"
  shows "\<exists>users pwd key opts. inv w' \<and> enabled mdb w' users pwd key \<and> GetScramOptions mdb = Ok opts
    \<and> configureScramInAutomationConfig (sd_multierror D) pwd key users opts a = Ok a'
    \<and> (\<forall>n. n \<notin> set (map (cred_name (NamespacedName mdb)) (GetScramUsers mdb)
          @ [GetAgentPasswordSecretNamespacedName mdb, GetAgentKeyfileSecretNamespacedName mdb]) \<longrightarrow> data w' n = data w n)"
proof -
  let ?ns = "NamespacedName mdb" and ?us = "GetScramUsers mdb"
  let ?pn = "GetAgentPasswordSecretNamespacedName mdb" and ?kn = "GetAgentKeyfileSecretNamespacedName mdb"
  let ?o = "GetOwnerReferences mdb"
  obtain p w1 where w1: "RandomFixedLengthStringOfSize (sd_rand D) 20 w = (Ok p, w1)" "inv w1" "data w1 = data w"
    using RandomFixedLengthString_works [OF inv, of 20] by auto
  obtain k w2 where w2: "KeyFileContents (sd_rand D) w1 = (Ok k, w2)" "inv w2" "data w2 = data w"
    using KeyFileContents_works [OF w1(2)] w1(3) by auto
  obtain users w3 where w3: "convert_users D ?ns ?us w2 = (Ok users, w3)"
    using ok w1 w2
    by (auto simp: scram_Enable_def on_result_def convertMongoDBResourceUsersToAutomationConfigUsers_def
        split: outcome.splits prod.splits)
  from convert_users_settled [OF w2(2) apart w3] obtain css where s: "inv w3"
    "list_all2 (settled (sd_prep D) (data w3) ?ns) ?us css" "users = map2 acUser_of ?us css"
    "\<And>n. n \<notin> set (map (cred_name ?ns) ?us) \<Longrightarrow> data w3 n = data w n" using w2(3) by auto
  obtain pwd w4 d4 where w4: "EnsureSecretWithKey (sd_secrets D) ?pn ?o AgentPasswordKey p w3 = (Ok pwd, w4)" "inv w4"
    "data w4 ?pn = Some d4" "pwd = (case map_of (entries d4) AgentPasswordKey of None \<Rightarrow> '''' | Some y \<Rightarrow> y)"
    "\<And>m. m \<noteq> ?pn \<Longrightarrow> data w4 m = data w3 m" using EnsureSecretWithKey_frame [OF s(1)] by blast
  obtain key w5 d5 where w5: "EnsureSecretWithKey (sd_secrets D) ?kn ?o AgentKeyfileKey k w4 = (Ok key, w5)" "inv w5"
    "data w5 ?kn = Some d5" "key = (case map_of (entries d5) AgentKeyfileKey of None \<Rightarrow> '''' | Some y \<Rightarrow> y)"
    "\<And>m. m \<noteq> ?kn \<Longrightarrow> data w5 m = data w4 m" using EnsureSecretWithKey_frame [OF w4(2)] by blast
  have "?pn \<noteq> ?kn" using apart by (simp add: names_apart_def)
  have "settled (sd_prep D) (data w5) ?ns u cs" if "u \<in> set ?us" "settled (sd_prep D) (data w3) ?ns u cs" for u cs
  proof (rule settled_frame [OF that(2)])
    have "?pn \<noteq> cred_name ?ns u" "?kn \<noteq> cred_name ?ns u" "?pn \<noteq> pw_name ?ns u" "?kn \<noteq> pw_name ?ns u"
      using that(1) apart by (fastforce simp: names_apart_def list_all_iff)+
    then show "data w5 (cred_name ?ns u) = data w3 (cred_name ?ns u)" "data w5 (pw_name ?ns u) = data w3 (pw_name ?ns u)"
      by (simp_all add: w4(5) w5(5))
  qed
  then have "list_all2 (settled (sd_prep D) (data w5) ?ns) ?us css"
    using s(2) by (auto simp: list_all2_conv_all_nth)
  with s(3) w4 w5 \<open>?pn \<noteq> ?kn\<close> have "enabled mdb w5 users pwd key" by (auto simp: enabled_def)
  moreover obtain opts where "GetScramOptions mdb = Ok opts" "w' = w5"
    "configureScramInAutomationConfig (sd_multierror D) pwd key users opts a = Ok a'"
    using ok w1 w2 w3 w4(1) w5(1)
    by (auto simp: scram_Enable_def on_result_def convertMongoDBResourceUsersToAutomationConfigUsers_def
        split: outcome.splits)
  moreover have "data w5 n = data w n" if "n \<notin> set (map (cred_name ?ns) ?us @ [?pn, ?kn])" for n
    using that by (simp add: w4(5) w5(5) s(4))
  ultimately show ?thesis using w5(2) by blast
qed

lemma Enable_again:
  assumes "inv w" and "enabled mdb w users pwd key" and "GetScramOptions mdb = Ok opts"
    and "configureScramInAutomationConfig (sd_multierror D) pwd key users opts a = Ok a'"
  shows "\<exists>w'. scram_Enable D a mdb w = (Ok a', w') \<and> inv w' \<and> data w' = data w"
proof -
  obtain p w1 where w1: "RandomFixedLengthStringOfSize (sd_rand D) 20 w = (Ok p, w1)" "inv w1" "data w1 = data w"
    using RandomFixedLengthString_works [OF assms(1), of 20] by auto
  obtain k w2 where w2: "KeyFileContents (sd_rand D) w1 = (Ok k, w2)" "inv w2" "data w2 = data w"
    using KeyFileContents_works [OF w1(2)] w1(3) by auto
  obtain css dp dk where e: "list_all2 (settled (sd_prep D) (data w2) (NamespacedName mdb)) (GetScramUsers mdb) css"
    "users = map2 acUser_of (GetScramUsers mdb) css" "data w2 (GetAgentPasswordSecretNamespacedName mdb) = Some dp"
    "pwd = (case map_of (entries dp) AgentPasswordKey of None \<Rightarrow> '''' | Some y \<Rightarrow> y)"
    "data w2 (GetAgentKeyfileSecretNamespacedName mdb) = Some dk"
    "key = (case map_of (entries dk) AgentKeyfileKey of None \<Rightarrow> '''' | Some y \<Rightarrow> y)"
    using assms(2) w2(3) by (auto simp: enabled_def)
  note steps = convert_users_again [OF w2(2) e(1)] EnsureSecretWithKey_existing [OF w2(2) e(3)]
    EnsureSecretWithKey_existing [OF w2(2) e(5)]
  from w1(1) w2 steps e(2,4,6) assms(3,4) show ?thesis
    by (simp add: scram_Enable_def on_result_def convertMongoDBResourceUsersToAutomationConfigUsers_def)
qed

lemma enabled_frame:
  assumes "enabled mdb w users pwd key"
    and "\<And>n. n \<in> set (map (cred_name (NamespacedName mdb)) (GetScramUsers mdb) @ map (pw_name (NamespacedName mdb)) (GetScramUsers mdb)
      @ [GetAgentPasswordSecretNamespacedName mdb, GetAgentKeyfileSecretNamespacedName mdb]) \<Longrightarrow> data w' n = data w n"
  shows "enabled mdb w' users pwd key"
proof -
  have "settled (sd_prep D) (data w') (NamespacedName mdb) u cs"
    if "u \<in> set (GetScramUsers mdb)" "settled (sd_prep D) (data w) (NamespacedName mdb) u cs" for u cs
    by (rule settled_frame [OF that(2)]) (use that(1) assms(2) in auto)
  then have "list_all2 (settled (sd_prep D) (data w') (NamespacedName mdb)) (GetScramUsers mdb) css"
    if "list_all2 (settled (sd_prep D) (data w) (NamespacedName mdb)) (GetScramUsers mdb) css" for css
    using that by (auto simp: list_all2_conv_all_nth)
  with assms show ?thesis unfolding enabled_def by force
qed

end

section \<open>The first deployment\<close>

definition prep_total :: "saslprep \<Rightarrow> bool" where
  "prep_total prep = (\<forall>s. \<exists>t. prep s = Ok t)"

definition fresh_user :: "(nsname \<Rightarrow> string gomap option option) \<Rightarrow> nsname \<Rightarrow> scram_user \<Rightarrow> bool" where
  "fresh_user d ns u = (d (cred_name ns u) = None
     \<and> (\<exists>pd pw. d (pw_name ns u) = Some pd \<and> password_in pd (su_PasswordSecretKey u) = Some pw))"

lemma compute_total:
  assumes "prep_total prep" and "length s1 = 16" and "length s256 = 28"
  shows "\<exists>c1 c256. computeScramShaCredentials prep username password s1 s256 = Ok (c1, c256)"
proof -
  obtain p1 p256 where "prep (md5Hex (username @ '':mongo:'' @ password)) = Ok p1" "prep password = Ok p256"
    using assms(1) unfolding prep_total_def by blast
  with ComputeScramSha1Creds_ok [OF assms(2), of prep username password p1]
    ComputeScramSha256Creds_ok [OF assms(3), of prep password p256] show ?thesis
    by (simp add: computeScramShaCredentials_def)
qed

context scram_world
begin

lemma ensure_fresh:
  assumes inv: "inv w" and prep: "prep_total (sd_prep D)" and fresh: "fresh_user (data w) ns u"
  shows "\<exists>cs w'. ensureScramCredentials D u ns w = (Ok cs, w')"
proof -
  obtain pd pw where pd: "data w (pw_name ns u) = Some pd" and pw: "password_in pd (su_PasswordSecretKey u) = Some pw"
    and no: "data w (cred_name ns u) = None" using fresh by (auto simp: fresh_user_def)
  have need: "needToGenerateNewCredentials D (su_Username u) (su_ScramCredentialsSecretName u) ns pw w = (Ok True, w)"
    using get_missing [OF inv no] by (auto simp: needToGenerateNewCredentials_def on_result_def cred_name_def)
  obtain s1 s256 w1 where s: "Salts (sd_rand D) w = (Ok (s1, s256), w1)" "inv w1" using Salts_works [OF inv] by blast
  obtain c1 c256 where c: "computeScramShaCredentials (sd_prep D) (su_Username u) pw s1 s256 = Ok (c1, c256)"
    using compute_total [OF prep] Salts_sizes [OF s(1)] by blast
  obtain w2 where "createScramCredentialsSecret (sd_secrets D) ns (su_ScramCredentialsSecretName u) c1 c256 w1 = (Ok (), w2)"
    using create_stores [OF s(2)] by blast
  with ReadKey_some [OF inv pd, of "su_PasswordSecretKey u"] pw need s(1) c show ?thesis
    by (simp add: ensureScramCredentials_def generateScramShaCredentials_def on_result_def pw_name_def)
qed

lemma convert_users_fresh:
  assumes "inv w" and "prep_total (sd_prep D)" and "names_apart ns agents us" and "\<forall>u \<in> set us. fresh_user (data w) ns u"
  shows "\<exists>acs w'. convert_users D ns us w = (Ok acs, w')"
  using assms
proof (induction us arbitrary: w)
  case Nil
  then show ?case by simp
next
  case (Cons u us)
  then obtain cs w1 where c: "ensureScramCredentials D u ns w = (Ok cs, w1)" using ensure_fresh by fastforce
  have ne: "pw_name ns u \<noteq> cred_name ns u" and apart: "names_apart ns agents us"
    using Cons.prems(3) by (auto simp: names_apart_def list_all_iff)
  note h = ensure_Ok_settled [OF Cons.prems(1) ne c]
  have "fresh_user (data w1) ns v" if "v \<in> set us" for v
  proof -
    have "cred_name ns v \<noteq> cred_name ns u" "pw_name ns v \<noteq> cred_name ns u"
      using Cons.prems(3) that by (auto simp: names_apart_def list_all_iff image_iff)
    with h have "data w1 (cred_name ns v) = data w (cred_name ns v)" "data w1 (pw_name ns v) = data w (pw_name ns v)"
      by simp_all
    with Cons.prems(4) that show ?thesis by (simp add: fresh_user_def)
  qed
  with Cons.IH [OF conjunct1 [OF h] Cons.prems(2) apart] c show ?case
    by (auto simp: convertMongoDBUserToAutomationConfigUser_def on_result_def)
qed

lemma Enable_fresh:
  assumes inv: "inv w" and prep: "prep_total (sd_prep D)"
    and apart: "names_apart (NamespacedName mdb) [GetAgentPasswordSecretNamespacedName mdb, GetAgentKeyfileSecretNamespacedName mdb] (GetScramUsers mdb)"
    and fresh: "\<forall>u \<in> set (GetScramUsers mdb). fresh_user (data w) (NamespacedName mdb) u"
    and opts: "GetScramOptions mdb = Ok opts" "validateScramOptions (sd_multierror D) opts = None"
  shows "\<exists>a' w'. scram_Enable D a mdb w = (Ok a', w')"
proof -
  obtain p w1 where w1: "RandomFixedLengthStringOfSize (sd_rand D) 20 w = (Ok p, w1)" "inv w1" "data w1 = data w"
    using RandomFixedLengthString_works [OF inv, of 20] by auto
  obtain k w2 where w2: "KeyFileContents (sd_rand D) w1 = (Ok k, w2)" "inv w2" "data w2 = data w"
    using KeyFileContents_works [OF w1(2)] w1(3) by auto
  have "\<forall>u \<in> set (GetScramUsers mdb). fresh_user (data w2) (NamespacedName mdb) u" using fresh w2(3) by simp
  from convert_users_fresh [OF w2(2) prep apart this] obtain users w3 where
    w3: "convert_users D (NamespacedName mdb) (GetScramUsers mdb) w2 = (Ok users, w3)" by blast
  have "inv w3" using convert_users_settled [OF w2(2) apart w3] by blast
  then obtain pwd w4 where w4: "EnsureSecretWithKey (sd_secrets D) (GetAgentPasswordSecretNamespacedName mdb)
      (GetOwnerReferences mdb) AgentPasswordKey p w3 = (Ok pwd, w4)" "inv w4" using EnsureSecretWithKey_frame by blast
  then obtain key w5 where "EnsureSecretWithKey (sd_secrets D) (GetAgentKeyfileSecretNamespacedName mdb)
      (GetOwnerReferences mdb) AgentKeyfileKey k w4 = (Ok key, w5)" using EnsureSecretWithKey_frame by blast
  with w1(1) w2(1) w3 w4(1) opts show ?thesis
    by (simp add: scram_Enable_def on_result_def convertMongoDBResourceUsersToAutomationConfigUsers_def
        configureScramInAutomationConfig_def)
qed

end

section \<open>The in-memory cluster\<close>

text \<open>The in-memory client with a source that repeats the given bytes; the laws of the package hold on it.\<close>

definition const_rand :: "byte list \<Rightarrow> mock_cluster rand_read" where
  "const_rand bs n = ret (take n (bs @ replicate n 0))"

definition mock_scram_deps :: "byte list \<Rightarrow> saslprep \<Rightarrow> (string list \<Rightarrow> error) \<Rightarrow> mock_cluster scram_deps" where
  "mock_scram_deps bs prep multierror =
     \<lparr>sd_secrets = secrets_of mockedClient, sd_rand = const_rand bs, sd_prep = prep, sd_multierror = multierror\<rparr>"

lemma mock_scram_deps_simps [simp]:
  "sd_secrets (mock_scram_deps bs prep m) = secrets_of mockedClient" "sd_rand (mock_scram_deps bs prep m) = const_rand bs"
  "sd_prep (mock_scram_deps bs prep m) = prep" "sd_multierror (mock_scram_deps bs prep m) = m"
  by (simp_all add: mock_scram_deps_def)

interpretation mock_scram: scram_world "mock_scram_deps bs prep multierror" mock_secret_data well_kinded
  for bs prep multierror
proof -
  have "secret_store (sd_secrets (mock_scram_deps bs prep multierror)) mock_secret_data well_kinded"
    by (simp add: mock_secrets.secret_store_axioms)
  then show "scram_world (mock_scram_deps bs prep multierror) mock_secret_data well_kinded"
    by (rule scram_world.intro) (simp add: scram_world_axioms_def const_rand_def never_fails_def min_def)
qed

section \<open>Properties\<close>

text \<open>
  C14. The credentials of a user are never stale: whenever the password can be read and credentials are
  returned, they are the SCRAM credentials of exactly this password for some salts. Asking again
  returns the same credentials, does not generate new salts and writes nothing.
\<close>

theorem credentials_fit_password:
  assumes "scram_world D data I" and "I w" and "pw_name ns u \<noteq> cred_name ns u"
    and "data w (pw_name ns u) = Some pd" and "password_in pd (su_PasswordSecretKey u) = Some pw"
    and "ensureScramCredentials D u ns w = (Ok (c1, c256), w')"
  shows "(\<exists>s1 s256. ComputeScramSha1Creds (sd_prep D) (su_Username u) pw s1 = Ok c1
      \<and> ComputeScramSha256Creds (sd_prep D) pw s256 = Ok c256)
    \<and> ensureScramCredentials D u ns w' = (Ok (c1, c256), w')"
proof -
  note h = scram_world.ensure_Ok_settled [OF assms(1,2,3,6)]
  obtain cd where cd: "credentials_of cd = (c1, c256)" "computed_from (sd_prep D) (su_Username u) pw cd"
    using h assms(3-5) by (auto simp: settled_def split: option.splits)
  then obtain s1 s256 where "computeScramShaCredentials (sd_prep D) (su_Username u) pw s1 s256 = Ok (c1, c256)"
    by (auto simp: computed_from_def split: option.splits)
  from computeScramSha_parts [OF this] scram_world.ensure_settled [OF assms(1)] h show ?thesis by blast
qed

definition example_user :: scram_user where
  "example_user = \<lparr>su_Username = ''ann'', su_Database = ''admin'', su_Roles = [\<lparr>sr_Name = ''root'', sr_Database = ''admin''\<rparr>],
     su_PasswordSecretKey = ''password'', su_PasswordSecretName = ''pw'', su_ScramCredentialsSecretName = ''ann-scram-credentials''\<rparr>"

definition example_cluster :: mock_cluster where
  "example_cluster = mock_put (SecretObj \<lparr>s_Meta = empty_meta\<lparr>om_Name := ''pw'', om_Namespace := ''ns''\<rparr>,
     s_Data = Some [(''password'', ''s3cret'')]\<rparr>) mock_empty"

abbreviation example_deps :: "mock_cluster scram_deps" where
  "example_deps \<equiv> mock_scram_deps [7, 7, 7] Ok (\<lambda>errs. Err (join errs ''; ''))"

lemma GetScramUsers_example [simp]: "GetScramUsers (example_mdb members version tls) = [example_user]"
  by (simp add: GetScramUsers_def example_mdb_def example_user_def GetPasswordSecretKey_def GetScramCredentialsSecretName_def)

lemma NamespacedName_example [simp]:
  "NamespacedName (example_mdb members version tls) = \<lparr>nn_Namespace = ''ns'', nn_Name = ''db''\<rparr>"
  by (simp add: NamespacedName_def example_mdb_def)

lemma example_names:
  "pw_name \<lparr>nn_Namespace = ''ns'', nn_Name = ''db''\<rparr> example_user = \<lparr>nn_Namespace = ''ns'', nn_Name = ''pw''\<rparr>"
  "cred_name \<lparr>nn_Namespace = ''ns'', nn_Name = ''db''\<rparr> example_user
     = \<lparr>nn_Namespace = ''ns'', nn_Name = ''ann-scram-credentials''\<rparr>"
  by (simp_all add: pw_name_def cred_name_def example_user_def)

lemma example_cluster_data: "well_kinded example_cluster"
  "mock_secret_data example_cluster = [\<lparr>nn_Namespace = ''ns'', nn_Name = ''pw''\<rparr> \<mapsto> Some [(''password'', ''s3cret'')]]"
  by (simp_all add: example_cluster_def object_key_def) (auto simp: mock_secret_data_def mock_empty_def)

lemma example_fresh:
  "fresh_user (mock_secret_data example_cluster) \<lparr>nn_Namespace = ''ns'', nn_Name = ''db''\<rparr> example_user"
  by (simp add: fresh_user_def example_names example_cluster_data password_in_def put_all_def put_def)
    (simp add: example_user_def)

lemma prep_total_Ok [simp]: "prep_total Ok"
  by (simp add: prep_total_def)

theorem credentials_fit_password_witness:
  "\<exists>c1 c256 w'. ensureScramCredentials example_deps example_user \<lparr>nn_Namespace = ''ns'', nn_Name = ''db''\<rparr> example_cluster
      = (Ok (c1, c256), w') \<and> (\<exists>s256. ComputeScramSha256Creds Ok ''s3cret'' s256 = Ok c256)
    \<and> ensureScramCredentials example_deps example_user \<lparr>nn_Namespace = ''ns'', nn_Name = ''db''\<rparr> w' = (Ok (c1, c256), w')"
proof -
  obtain c1 c256 w' where e: "ensureScramCredentials example_deps example_user \<lparr>nn_Namespace = ''ns'', nn_Name = ''db''\<rparr>
      example_cluster = (Ok (c1, c256), w')"
    using mock_scram.ensure_fresh [OF example_cluster_data(1) _ example_fresh] by fastforce
  have "password_in (Some [(''password'', ''s3cret'')]) (su_PasswordSecretKey example_user) = Some ''s3cret''"
    by (simp add: password_in_def put_all_def put_def example_user_def)
  from credentials_fit_password [OF mock_scram.scram_world_axioms example_cluster_data(1) _ _ this e] e
  show ?thesis by (auto simp: example_names example_cluster_data)
qed

text \<open>
  C31. The password secret may be deleted after the credentials were generated: the stored credentials
  are returned unchanged from any later state that still has them.
\<close>

theorem credentials_survive_password_deletion:
  assumes "scram_world D data I" and "I w" and "pw_name ns u \<noteq> cred_name ns u"
    and "ensureScramCredentials D u ns w = (Ok cs, w')"
    and "I w2" and "data w2 (cred_name ns u) = data w' (cred_name ns u)" and "data w2 (pw_name ns u) = None"
  shows "ensureScramCredentials D u ns w2 = (Ok cs, w2)"
proof -
  have "settled (sd_prep D) (data w') ns u cs" using scram_world.ensure_Ok_settled [OF assms(1-4)] by blast
  then have "settled (sd_prep D) (data w2) ns u cs"
    using assms(6,7) by (auto simp: settled_def split: option.splits)
  then show ?thesis by (rule scram_world.ensure_settled [OF assms(1,5)])
qed

theorem credentials_survive_password_deletion_witness:
  "\<exists>cs w'. ensureScramCredentials example_deps example_user \<lparr>nn_Namespace = ''ns'', nn_Name = ''db''\<rparr> example_cluster = (Ok cs, w')
    \<and> ensureScramCredentials example_deps example_user \<lparr>nn_Namespace = ''ns'', nn_Name = ''db''\<rparr>
        (w'(SecretKind := (w' SecretKind)(\<lparr>nn_Namespace = ''ns'', nn_Name = ''pw''\<rparr> := None)))
      = (Ok cs, w'(SecretKind := (w' SecretKind)(\<lparr>nn_Namespace = ''ns'', nn_Name = ''pw''\<rparr> := None)))"
proof -
  let ?ns = "\<lparr>nn_Namespace = ''ns'', nn_Name = ''db''\<rparr>" and ?pw = "\<lparr>nn_Namespace = ''ns'', nn_Name = ''pw''\<rparr>"
  obtain cs w' where e: "ensureScramCredentials example_deps example_user ?ns example_cluster = (Ok cs, w')"
    using mock_scram.ensure_fresh [OF example_cluster_data(1) _ example_fresh] by fastforce
  have ne: "pw_name ?ns example_user \<noteq> cred_name ?ns example_user" by (simp add: example_names)
  define w2 where "w2 = w'(SecretKind := (w' SecretKind)(?pw := None))"
  have "well_kinded w'" using mock_scram.ensure_Ok_settled [OF example_cluster_data(1) ne e] by blast
  then have wk: "well_kinded w2" by (auto simp: w2_def well_kinded_def)
  have data: "mock_secret_data w2 n = (if n = ?pw then None else mock_secret_data w' n)" for n
    by (simp add: w2_def mock_secret_data_def)
  have "ensureScramCredentials example_deps example_user ?ns w2 = (Ok cs, w2)"
    by (rule credentials_survive_password_deletion [where I = well_kinded and data = mock_secret_data, OF mock_scram.scram_world_axioms example_cluster_data(1) ne e wk])
      (simp_all add: data example_names)
  with e show ?thesis unfolding w2_def by blast
qed

text \<open>
  C30. Enabling SCRAM is repeatable: after it succeeded, running it again with other random bytes gives
  exactly the same authentication section (the same agent password, key file and user
  credentials) and writes nothing, so a reconciliation without changes does not change the
  automation configuration.
\<close>

theorem scram_Enable_stable:
  assumes "scram_world D data I" and "I w"
    and "names_apart (NamespacedName mdb) [GetAgentPasswordSecretNamespacedName mdb, GetAgentKeyfileSecretNamespacedName mdb] (GetScramUsers mdb)"
    and "scram_Enable D a mdb w = (Ok a', w')"
  shows "\<exists>w''. scram_Enable D a mdb w' = (Ok a', w'') \<and> data w'' = data w'"
  using scram_world.Enable_enabled [OF assms] scram_world.Enable_again [OF assms(1)] by blast

lemma example_apart:
  "names_apart (NamespacedName (example_mdb 3 ''4.4.0'' False))
     [GetAgentPasswordSecretNamespacedName (example_mdb 3 ''4.4.0'' False),
      GetAgentKeyfileSecretNamespacedName (example_mdb 3 ''4.4.0'' False)] (GetScramUsers (example_mdb 3 ''4.4.0'' False))"
  by (simp add: names_apart_def example_names GetAgentPasswordSecretNamespacedName_def
      GetAgentKeyfileSecretNamespacedName_def)

lemma example_options:
  "\<exists>opts. GetScramOptions (example_mdb 3 ''4.4.0'' False) = Ok opts \<and> validateScramOptions me opts = None"
  by (simp add: GetScramOptions_def example_mdb_def ConvertAuthModeToAuthMechanism_def defaultMode_def validateScramOptions_def
      Sha256_def scram_AgentName_def AutomationAgentKeyFilePathInContainer_def Let_def)

theorem scram_Enable_stable_witness:
  "\<exists>a' w' w''. scram_Enable example_deps empty_auth (example_mdb 3 ''4.4.0'' False) example_cluster = (Ok a', w')
    \<and> scram_Enable example_deps empty_auth (example_mdb 3 ''4.4.0'' False) w' = (Ok a', w'')"
proof -
  obtain opts where "GetScramOptions (example_mdb 3 ''4.4.0'' False) = Ok opts"
    "validateScramOptions (sd_multierror example_deps) opts = None"
    using example_options by blast
  from mock_scram.Enable_fresh [OF example_cluster_data(1) _ example_apart _ this] example_fresh
  obtain a' w' where e: "scram_Enable example_deps empty_auth (example_mdb 3 ''4.4.0'' False) example_cluster = (Ok a', w')"
    by fastforce
  from scram_Enable_stable [OF mock_scram.scram_world_axioms example_cluster_data(1) example_apart e] e
  show ?thesis by blast
qed

text \<open>
  C40. A credentials secret without the SHA-1 stored key passes for a complete one, because the check
  names another key twice: the credentials that are read have an empty stored key.
\<close>

theorem missing_stored_key_accepted:
  assumes "GetSecret c \<lparr>nn_Namespace = nn_Namespace ns, nn_Name = name\<rparr> w = (Ok s, w')"
    and "\<forall>k \<in> {sha1SaltKey, sha1ServerKeyKey, sha256SaltKey, sha256ServerKeyKey, sha256StoredKeyKey}.
      has_key (entries (s_Data s)) k" and "\<not> has_key (entries (s_Data s)) sha1StoredKeyKey"
  shows "\<exists>c1 c256. readExistingCredentials c ns name w = (Ok (c1, c256), w') \<and> StoredKey c1 = ''''"
  using assms by (auto simp: readExistingCredentials_def on_result_def credentials_of_def secret_field_def has_key_def)

definition incomplete_secret :: secret where
  "incomplete_secret = \<lparr>s_Meta = empty_meta\<lparr>om_Name := ''c'', om_Namespace := ''ns''\<rparr>, s_Data = Some
     [(sha1SaltKey, ''a''), (sha1ServerKeyKey, ''b''), (sha256SaltKey, ''c''), (sha256ServerKeyKey, ''d''), (sha256StoredKeyKey, ''e'')]\<rparr>"

theorem missing_stored_key_accepted_witness:
  "\<exists>c1 c256 w'. readExistingCredentials (secrets_of mockedClient) \<lparr>nn_Namespace = ''ns'', nn_Name = ''db''\<rparr> ''c''
     (mock_put (SecretObj incomplete_secret) mock_empty) = (Ok (c1, c256), w') \<and> StoredKey c1 = ''''"
proof -
  let ?ns = "\<lparr>nn_Namespace = ''ns'', nn_Name = ''db''\<rparr>" and ?w = "mock_put (SecretObj incomplete_secret) mock_empty"
  have g: "GetSecret (secrets_of mockedClient) \<lparr>nn_Namespace = nn_Namespace ?ns, nn_Name = ''c''\<rparr> ?w = (Ok incomplete_secret, ?w)"
    by (simp add: secrets_of_def typed_ops mockedClient_def mock_Get_def on_result_def mock_put_def
        ObjectKeyFromObject_def object_key_def incomplete_secret_def)
  have k: "\<forall>k \<in> {sha1SaltKey, sha1ServerKeyKey, sha256SaltKey, sha256ServerKeyKey, sha256StoredKeyKey}.
      has_key (entries (s_Data incomplete_secret)) k" "\<not> has_key (entries (s_Data incomplete_secret)) sha1StoredKeyKey"
    by (simp_all add: incomplete_secret_def has_key_def scram_keys)
  from missing_stored_key_accepted [OF g k] show ?thesis by blast
qed

end
