(* ===== verification/Watch.thy ===== *)
theory Watch
  imports Kube_Client
begin

text \<open>
  \<open>controllers/watch\<close> and \<open>controllers/predicates\<close>: which changes trigger a reconciliation. The
  watcher keeps, for every watched object, the resources that depend on it, and puts them on
  the work queue when the object changes; the predicate lets an update of the custom resource
  through only when its specification changed. The work queue of client-go is an argument:
  its \<open>Add\<close> as a function on a state of any type.
\<close>

section \<open>The watcher\<close>

record resource_watcher =
  watched :: "nsname \<Rightarrow> nsname list option"

definition watch_New :: resource_watcher where
  "watch_New = \<lparr>watched = (\<lambda>_. None)\<rparr>"

definition watch_Watch :: "nsname \<Rightarrow> nsname \<Rightarrow> resource_watcher \<Rightarrow> resource_watcher" where
  "watch_Watch watchedName dependentName w =
     (let existing = (case watched w watchedName of None \<Rightarrow> [] | Some ex \<Rightarrow> ex)
      in if contains_NamespacedName existing dependentName then w
         else w\<lparr>watched := (watched w)(watchedName \<mapsto> existing @ [dependentName])\<rparr>)"

text \<open>\<open>w.watched[name]\<close> is the nil slice for an unknown name.\<close>

definition dependents :: "resource_watcher \<Rightarrow> nsname \<Rightarrow> nsname list" where
  "dependents w n = (case watched w n of None \<Rightarrow> [] | Some ds \<Rightarrow> ds)"

definition handleEvent :: "(nsname \<Rightarrow> 'q \<Rightarrow> 'q) \<Rightarrow> resource_watcher \<Rightarrow> object_meta \<Rightarrow> 'q \<Rightarrow> 'q" where
  "handleEvent add w meta queue =
     foldl (\<lambda>q reconciledObjectName. add reconciledObjectName q) queue (dependents w (object_key meta))"

datatype watch_event =
  CreateEvent object_meta | UpdateEvent (ev_old: object_meta) (ev_new: object_meta)
| DeleteEvent object_meta | GenericEvent object_meta

text \<open>The four methods of the event handler; an update looks at the old object.\<close>

fun on_event :: "(nsname \<Rightarrow> 'q \<Rightarrow> 'q) \<Rightarrow> resource_watcher \<Rightarrow> watch_event \<Rightarrow> 'q \<Rightarrow> 'q" where
  "on_event add w (CreateEvent obj) = handleEvent add w obj"
| "on_event add w (UpdateEvent objOld objNew) = handleEvent add w objOld"
| "on_event add w (DeleteEvent obj) = handleEvent add w obj"
| "on_event add w (GenericEvent obj) = handleEvent add w obj"

section \<open>Update events of the custom resource\<close>

text \<open>
  \<open>UpdateFunc\<close> of \<open>OnlyOnSpecChange\<close>: the type assertions panic on other objects. The other
  functions are nil, which the predicate type of controller-runtime takes as true.
\<close>

definition UpdateFunc :: "k8s_object \<Rightarrow> k8s_object \<Rightarrow> bool outcome" where
  "UpdateFunc objOld objNew =
     bind_out (as_mongodb objOld) (\<lambda>oldResource. bind_out (as_mongodb objNew) (\<lambda>newResource.
       Ok (mdb_Spec oldResource \<noteq> mdb_Spec newResource)))"

lemma UpdateFunc_ignores_metadata:
  "UpdateFunc (MongoDBObj m) (MongoDBObj (m\<lparr>mdb_Meta := om, mdb_Status := st\<rparr>)) = Ok False"
  by (simp add: UpdateFunc_def)

section \<open>The watcher as a relation\<close>

text \<open>
  What the watcher promises: registered pairs form a relation, and an event adds exactly the
  related resources to the queue. The contract is stated over any representation of the
  registrations and any queue whose contents grow by \<open>Add\<close>.
\<close>

locale registry =
  fixes new :: 'r and register :: "nsname \<Rightarrow> nsname \<Rightarrow> 'r \<Rightarrow> 'r" and deps :: "'r \<Rightarrow> nsname \<Rightarrow> nsname list"
  assumes deps_new: "deps new n = []"
    and set_deps_register: "set (deps (register n d r) m) = set (deps r m) \<union> (if m = n then {d} else {})"
    and distinct_deps_register: "distinct (deps r m) \<Longrightarrow> distinct (deps (register n d r) m)"
begin

definition pairs :: "'r \<Rightarrow> (nsname \<times> nsname) set" where
  "pairs r = {(n, d). d \<in> set (deps r n)}"

definition register_all :: "(nsname \<times> nsname) list \<Rightarrow> 'r \<Rightarrow> 'r" where
  "register_all calls r = foldl (\<lambda>r (n, d). register n d r) r calls"

lemma pairs_new: "pairs new = {}"
  by (simp add: pairs_def deps_new)

lemma pairs_register: "pairs (register n d r) = insert (n, d) (pairs r)"
  by (auto simp: pairs_def set_deps_register split: if_splits)

lemma pairs_register_all: "pairs (register_all calls r) = pairs r \<union> set calls"
proof (induction calls arbitrary: r)
  case Nil
  then show ?case by (simp add: register_all_def)
next
  case (Cons c calls)
  obtain n d where c: "c = (n, d)" by fastforce
  have "register_all (c # calls) r = register_all calls (register n d r)" by (simp add: register_all_def c)
  with Cons show ?case by (auto simp: pairs_register c)
qed

lemma distinct_register_all:
  assumes "\<And>m. distinct (deps r m)"
  shows "distinct (deps (register_all calls r) m)"
  using assms
proof (induction calls arbitrary: r m)
  case Nil
  then show ?case by (simp add: register_all_def)
next
  case (Cons c calls)
  obtain n d where c: "c = (n, d)" by fastforce
  have "distinct (deps (register_all calls (register n d r)) m)"
    by (rule Cons.IH) (rule distinct_deps_register [OF Cons.prems])
  then show ?case by (simp add: register_all_def c)
qed

lemma set_deps_pairs: "set (deps r n) = pairs r `` {n}"
  by (auto simp: pairs_def)

end

lemma dependents_Watch:
  "dependents (watch_Watch n d w) m =
     (if m = n \<and> d \<notin> set (dependents w n) then dependents w n @ [d] else dependents w m)"
  by (simp add: dependents_def watch_Watch_def Let_def split: option.splits)

interpretation watcher: registry watch_New watch_Watch dependents
  by unfold_locales (auto simp: dependents_Watch, simp add: dependents_def watch_New_def)

lemma contents_handleEvent:
  assumes "\<And>d q. contents (add d q) = insert d (contents q)"
  shows "contents (handleEvent add w meta q) = contents q \<union> set (dependents w (object_key meta))"
proof -
  have "contents (foldl (\<lambda>q d. add d q) q ds) = contents q \<union> set ds" for ds
    by (induction ds arbitrary: q) (simp_all add: assms)
  then show ?thesis by (simp add: handleEvent_def)
qed

fun event_key :: "watch_event \<Rightarrow> nsname" where
  "event_key (CreateEvent obj) = object_key obj"
| "event_key (UpdateEvent objOld objNew) = object_key objOld"
| "event_key (DeleteEvent obj) = object_key obj"
| "event_key (GenericEvent obj) = object_key obj"

lemma on_event_handleEvent: "\<exists>meta. event_key e = object_key meta \<and> on_event add w e = handleEvent add w meta"
  by (cases e) auto

definition watch_all :: "(nsname \<times> nsname) list \<Rightarrow> resource_watcher" where
  "watch_all calls = foldl (\<lambda>w (n, d). watch_Watch n d w) watch_New calls"

lemma watch_all_register: "watch_all calls = watcher.register_all calls watch_New"
  by (simp add: watch_all_def watcher.register_all_def)

text \<open>
  C21. The watcher implements the relation of its registrations: after any sequence of calls of
  \<open>Watch\<close>, in any order and with repetitions, an event of any kind for an object puts exactly
  the resources registered for that object on the queue, and none of them twice.
\<close>

theorem watcher_enqueues_dependents:
  assumes "\<And>d q. contents (add d q) = insert d (contents q)"
  shows "contents (on_event add (watch_all calls) e q) = contents q \<union> {d. (event_key e, d) \<in> set calls}
    \<and> distinct (dependents (watch_all calls) (event_key e))"
proof
  have "set (dependents (watch_all calls) n) = {d. (n, d) \<in> set calls}" for n
    unfolding watch_all_register watcher.set_deps_pairs watcher.pairs_register_all watcher.pairs_new Image_singleton Un_empty_left ..
  then show "contents (on_event add (watch_all calls) e q) = contents q \<union> {d. (event_key e, d) \<in> set calls}"
    using on_event_handleEvent [of e add "watch_all calls"] contents_handleEvent [of contents, OF assms] by force
  show "distinct (dependents (watch_all calls) (event_key e))"
    unfolding watch_all_register by (rule watcher.distinct_register_all) (simp add: dependents_def watch_New_def)
qed

theorem watcher_enqueues_dependents_witness:
  "set (on_event (\<lambda>d q. if d \<in> set q then q else q @ [d])
      (watch_all [(\<lparr>nn_Namespace = ''ns'', nn_Name = ''tls''\<rparr>, \<lparr>nn_Namespace = ''ns'', nn_Name = ''db''\<rparr>),
                  (\<lparr>nn_Namespace = ''ns'', nn_Name = ''pw''\<rparr>, \<lparr>nn_Namespace = ''ns'', nn_Name = ''db''\<rparr>)])
      (UpdateEvent (named_meta \<lparr>nn_Namespace = ''ns'', nn_Name = ''tls''\<rparr>) empty_meta) [])
    = {\<lparr>nn_Namespace = ''ns'', nn_Name = ''db''\<rparr>}"
  by (subst watcher_enqueues_dependents [of set, THEN conjunct1]) (auto simp: object_key_def named_meta_def)

end
