(* ===== verification/Validation.thy ===== *)
theory Validation
  imports Scram
begin

text \<open>
  \<open>controllers/validation\<close>: what the operator accepts as a specification, and what it then may
  rely on. An error is returned as an option, \<open>None\<close> for the nil error.
\<close>

section \<open>Operations\<close>

text \<open>\<open>connectionStringSecretNameMap\<close> and \<open>nameCollisions\<close> are the state of the loop.\<close>

definition collision_text :: "string \<Rightarrow> scram_user \<Rightarrow> scram_user \<Rightarrow> string" where
  "collision_text secretName previousUser user =
     ''[secret name: \"'' @ secretName @ ''\" for user: \"'' @ su_Username previousUser @ ''\", db: \"''
       @ su_Database previousUser @ ''\" and user: \"'' @ su_Username user @ ''\", db: \"'' @ su_Database user @ ''\"]''"

fun name_collisions :: "mongodb_community \<Rightarrow> scram_user list \<Rightarrow> scram_user gomap \<Rightarrow> string list \<Rightarrow> string list" where
  "name_collisions mdb [] names collisions = collisions"
| "name_collisions mdb (user # users) names collisions =
     (let secretName = GetConnectionStringSecretName user mdb
      in case map_of names secretName of
           Some previousUser \<Rightarrow>
             name_collisions mdb users names (collisions @ [collision_text secretName previousUser user])
         | None \<Rightarrow> name_collisions mdb users (put secretName user names) collisions)"

definition validateUsers :: "mongodb_community \<Rightarrow> error option" where
  "validateUsers mdb =
     (let nameCollisions = name_collisions mdb (GetScramUsers mdb) [] []
      in if length nameCollisions > 0
         then Some (Err (''connection string secret names collision, update at least one of the users so that the resulted secret names (<resource name>-<user>-<db>) are unique: ''
                @ join nameCollisions '', ''))
         else None)"

definition validateArbiterSpec :: "mongodb_community \<Rightarrow> error option" where
  "validateArbiterSpec mdb =
     (let arbiters = spec_Arbiters (mdb_Spec mdb); members = spec_Members (mdb_Spec mdb)
      in if arbiters < 0 then Some (Err ''number of arbiters must be greater or equal than 0'')
         else if arbiters \<ge> members
           then Some (Err (''number of arbiters specified ('' @ int_text arbiters
             @ '') is greater or equal than the number of members in the replicaset ('' @ int_text members
             @ ''). At least one member must not be an arbiter''))
         else None)"

text \<open>The modes seen so far are the keys of a map; the loop stops at the first unknown one.\<close>

fun mode_set :: "string list \<Rightarrow> unit gomap \<Rightarrow> unit gomap outcome" where
  "mode_set [] mapModes = Ok mapModes"
| "mode_set (mode # modes) mapModes =
     (if ConvertAuthModeToAuthMechanism mode = ''''
      then Fail (Err ''unexpected value (\"\") defined for supported authentication modes'')
      else mode_set modes (put mode () mapModes))"

definition validateAuthModeSpec :: "mongodb_community \<Rightarrow> error option" where
  "validateAuthModeSpec mdb =
     (let allModes = authn_Modes (sec_Authentication (spec_Security (mdb_Spec mdb)))
      in case mode_set allModes [] of
           Ok mapModes \<Rightarrow>
             (if length mapModes \<noteq> length allModes
              then Some (Err ''some authentication modes are declared twice or more'') else None)
         | Fail e \<Rightarrow> Some e
         | Panic p \<Rightarrow> None)"

definition validation_validateSpec :: "mongodb_community \<Rightarrow> error option" where
  "validation_validateSpec mdb =
     (case validateUsers mdb of
        Some err \<Rightarrow> Some err
      | None \<Rightarrow> (case validateArbiterSpec mdb of
           Some err \<Rightarrow> Some err
         | None \<Rightarrow> (case validateAuthModeSpec mdb of Some err \<Rightarrow> Some err | None \<Rightarrow> None)))"

definition ValidateInitalSpec :: "mongodb_community \<Rightarrow> error option" where
  "ValidateInitalSpec mdb = validation_validateSpec mdb"

definition ValidateUpdate :: "mongodb_community \<Rightarrow> mongodb_community_spec \<Rightarrow> error option" where
  "ValidateUpdate mdb oldSpec =
     (if stls_Enabled (sec_TLS (spec_Security oldSpec)) \<and> \<not> stls_Enabled (mdb_TLS mdb)
      then Some (Err ''TLS can't be set to disabled after it has been enabled'')
      else validation_validateSpec mdb)"

section \<open>What is accepted\<close>

text \<open>The declarative reading of a valid specification.\<close>

abbreviation auth_modes :: "mongodb_community \<Rightarrow> string list" where
  "auth_modes mdb \<equiv> authn_Modes (sec_Authentication (spec_Security (mdb_Spec mdb)))"

definition known_modes :: "string set" where
  "known_modes = {''SCRAM'', ''SCRAM-SHA-256'', ''SCRAM-SHA-1''}"

definition valid_spec :: "mongodb_community \<Rightarrow> bool" where
  "valid_spec mdb = (distinct (map (\<lambda>u. GetConnectionStringSecretName u mdb) (GetScramUsers mdb))
     \<and> 0 \<le> spec_Arbiters (mdb_Spec mdb) \<and> spec_Arbiters (mdb_Spec mdb) < spec_Members (mdb_Spec mdb)
     \<and> set (auth_modes mdb) \<subseteq> known_modes \<and> distinct (auth_modes mdb))"

lemma Convert_known: "ConvertAuthModeToAuthMechanism m \<noteq> '''' \<longleftrightarrow> m \<in> known_modes"
  by (auto simp: ConvertAuthModeToAuthMechanism_def known_modes_def Sha256_def Sha1_def)

lemma name_collisions_Nil_iff:
  "name_collisions mdb us names cs = [] \<longleftrightarrow>
     cs = [] \<and> distinct (map (\<lambda>u. GetConnectionStringSecretName u mdb) us)
       \<and> (\<forall>u \<in> set us. map_of names (GetConnectionStringSecretName u mdb) = None)"
proof (induction us arbitrary: names cs)
  case Nil
  then show ?case by simp
next
  case (Cons u us)
  show ?case
  proof (cases "map_of names (GetConnectionStringSecretName u mdb)")
    case None
    have "(\<forall>v \<in> set us. map_of (put (GetConnectionStringSecretName u mdb) u names) (GetConnectionStringSecretName v mdb) = None)
        \<longleftrightarrow> GetConnectionStringSecretName u mdb \<notin> (\<lambda>u. GetConnectionStringSecretName u mdb) ` set us
          \<and> (\<forall>v \<in> set us. map_of names (GetConnectionStringSecretName v mdb) = None)"
      by (auto simp: image_iff split: if_splits)
    note IH = Cons [of "put (GetConnectionStringSecretName u mdb) u names" cs, unfolded this]
    show ?thesis by (auto simp: None IH Let_def)
  next
    case (Some p)
    then show ?thesis using Cons [of names "cs @ [collision_text (GetConnectionStringSecretName u mdb) p u]"] by (simp add: Let_def)
  qed
qed

lemma validateUsers_None_iff:
  "validateUsers mdb = None \<longleftrightarrow> distinct (map (\<lambda>u. GetConnectionStringSecretName u mdb) (GetScramUsers mdb))"
  using name_collisions_Nil_iff [of mdb "GetScramUsers mdb" "[]" "[]"] by (simp add: validateUsers_def)

lemma mode_set_Ok_iff: "(\<exists>m'. mode_set modes m = Ok m') \<longleftrightarrow> set modes \<subseteq> known_modes"
  by (induction modes arbitrary: m) (auto simp: Convert_known [symmetric])

lemma mode_set_no_panic [simp]: "mode_set modes m \<noteq> Panic p"
  by (induction modes arbitrary: m) auto

lemma length_wf_map: "wf_map m \<Longrightarrow> length m = card (fst ` set m)"
  unfolding wf_map_def by (metis distinct_card length_map set_map)

lemma mode_set_keys: "mode_set modes m = Ok m' \<Longrightarrow> wf_map m \<Longrightarrow> wf_map m' \<and> fst ` set m' = fst ` set m \<union> set modes"
  by (induction modes arbitrary: m) (auto simp: fst_set_put split: if_splits)

lemma validateAuthModeSpec_None_iff:
  "validateAuthModeSpec mdb = None \<longleftrightarrow> set (auth_modes mdb) \<subseteq> known_modes \<and> distinct (auth_modes mdb)"
proof (cases "mode_set (auth_modes mdb) []")
  case (Ok m')
  then have "set (auth_modes mdb) \<subseteq> known_modes" using mode_set_Ok_iff by blast
  moreover have "length m' = card (set (auth_modes mdb))"
    using mode_set_keys [OF Ok] by (simp add: length_wf_map)
  ultimately show ?thesis
    using Ok by (auto simp: validateAuthModeSpec_def Let_def distinct_card dest: card_distinct sym)
next
  case (Fail e)
  then have "\<not> set (auth_modes mdb) \<subseteq> known_modes" using mode_set_Ok_iff [of "auth_modes mdb" "[]"] by auto
  then show ?thesis using Fail by (simp add: validateAuthModeSpec_def)
qed simp

lemma validateArbiterSpec_None_iff:
  "validateArbiterSpec mdb = None \<longleftrightarrow>
     0 \<le> spec_Arbiters (mdb_Spec mdb) \<and> spec_Arbiters (mdb_Spec mdb) < spec_Members (mdb_Spec mdb)"
  by (auto simp: validateArbiterSpec_def Let_def)

lemma validateSpec_None_iff: "validation_validateSpec mdb = None \<longleftrightarrow> valid_spec mdb"
proof -
  have "validation_validateSpec mdb = None \<longleftrightarrow>
      validateUsers mdb = None \<and> validateArbiterSpec mdb = None \<and> validateAuthModeSpec mdb = None"
    by (simp add: validation_validateSpec_def split: option.split)
  then show ?thesis
    by (simp add: valid_spec_def validateUsers_None_iff validateArbiterSpec_None_iff validateAuthModeSpec_None_iff)
qed

text \<open>The agent's mechanism is one of the mechanisms of the modes.\<close>

lemma scram_mechanisms_known:
  assumes "set modes \<subseteq> known_modes" and "auto \<noteq> ''''"
  shows "fst (scram_mechanisms modes auto) = map ConvertAuthModeToAuthMechanism modes
    \<and> snd (scram_mechanisms modes auto) \<in> insert auto (ConvertAuthModeToAuthMechanism ` set modes)
    \<and> snd (scram_mechanisms modes auto) \<noteq> ''''"
  using assms
proof (induction modes arbitrary: auto)
  case Nil
  then show ?case by simp
next
  case (Cons mode modes)
  let ?auto = "if ConvertAuthModeToAuthMechanism mode = ConvertAuthModeToAuthMechanism defaultMode
    then ConvertAuthModeToAuthMechanism defaultMode else auto"
  from Cons.prems have mode: "ConvertAuthModeToAuthMechanism mode \<noteq> ''''" by (simp add: Convert_known)
  with Cons.prems have "?auto \<noteq> ''''" by auto
  from Cons.IH [OF _ this] Cons.prems mode show ?case by (auto simp: Let_def split_beta)
qed

lemma valid_spec_options:
  assumes valid: "valid_spec mdb" "auth_modes mdb \<noteq> []"
  shows "\<exists>opts. GetScramOptions mdb = Ok opts \<and> validateScramOptions multierror opts = None
    \<and> so_AutoAuthMechanism opts \<in> set (so_AutoAuthMechanisms opts)"
proof -
  from valid(2) obtain m ms where modes: "auth_modes mdb = m # ms" by (cases "auth_modes mdb") auto
  let ?r = "scram_mechanisms (m # ms) (ConvertAuthModeToAuthMechanism m)"
  from valid(1) modes have sub: "set (m # ms) \<subseteq> known_modes" by (simp add: valid_spec_def)
  then have "ConvertAuthModeToAuthMechanism m \<noteq> ''''" by (simp add: Convert_known)
  from scram_mechanisms_known [OF sub this]
  have "fst ?r = map ConvertAuthModeToAuthMechanism (m # ms)" "snd ?r \<in> set (fst ?r)" "snd ?r \<noteq> ''''" by auto
  then show ?thesis
    by (auto simp: GetScramOptions_def modes Let_def split_beta validateScramOptions_def scram_AgentName_def
        AutomationAgentKeyFilePathInContainer_def simp del: scram_mechanisms.simps)
qed

text \<open>
  C19. The validation accepts a specification exactly when it is valid in the declarative sense
  (connection string secrets do not collide, fewer arbiters than members, known and distinct
  authentication modes), an update moreover only if it does not switch TLS off; an accepted
  specification with at least one mode gives SCRAM options that pass their own validation, and
  one without modes makes the operator panic.
\<close>

theorem validation_accepts:
  shows "(ValidateInitalSpec mdb = None \<longleftrightarrow> valid_spec mdb)
    \<and> (ValidateUpdate mdb oldSpec = None \<longleftrightarrow>
         valid_spec mdb \<and> (stls_Enabled (sec_TLS (spec_Security oldSpec)) \<longrightarrow> stls_Enabled (mdb_TLS mdb)))
    \<and> (valid_spec mdb \<and> auth_modes mdb \<noteq> [] \<longrightarrow>
         (\<exists>opts. GetScramOptions mdb = Ok opts \<and> validateScramOptions multierror opts = None
            \<and> so_AutoAuthMechanism opts \<in> set (so_AutoAuthMechanisms opts)))
    \<and> (auth_modes mdb = [] \<longrightarrow> GetScramOptions mdb = Panic IndexOutOfRange)"
proof (intro conjI impI)
  assume "valid_spec mdb \<and> auth_modes mdb \<noteq> []"
  then show "\<exists>opts. GetScramOptions mdb = Ok opts \<and> validateScramOptions multierror opts = None
      \<and> so_AutoAuthMechanism opts \<in> set (so_AutoAuthMechanisms opts)"
    using valid_spec_options by blast
qed (auto simp: ValidateInitalSpec_def ValidateUpdate_def validateSpec_None_iff GetScramOptions_def)

theorem validation_accepts_witness:
  "ValidateUpdate (example_mdb 3 ''4.4.0'' False) (mdb_Spec (example_mdb 3 ''4.4.0'' False)) = None
   \<and> ValidateUpdate (example_mdb 3 ''4.4.0'' False) (mdb_Spec (example_mdb 3 ''4.4.0'' True)) \<noteq> None
   \<and> (\<exists>opts. GetScramOptions (example_mdb 3 ''4.4.0'' False) = Ok opts)"
proof -
  have v: "valid_spec (example_mdb 3 ''4.4.0'' False)"
    by (simp add: valid_spec_def example_mdb_def GetScramUsers_def known_modes_def)
  have m: "auth_modes (example_mdb 3 ''4.4.0'' False) \<noteq> []"
    and t: "stls_Enabled (mdb_TLS (example_mdb 3 ''4.4.0'' b)) = b" for b by (simp_all add: example_mdb_def)
  show ?thesis
    using validation_accepts [of "example_mdb 3 ''4.4.0'' False" "mdb_Spec (example_mdb 3 ''4.4.0'' False)" "\<lambda>_. Err ''''"]
      validation_accepts [of "example_mdb 3 ''4.4.0'' False" "mdb_Spec (example_mdb 3 ''4.4.0'' True)" "\<lambda>_. Err ''''"] v m
    by (auto simp: t)
qed

end
