(* ===== verification/Status.thy ===== *)
theory Status
  imports Kube_Client
begin

text \<open>
  \<open>pkg/util/status\<close> and \<open>controllers/mongodb_status_options.go\<close>: how a reconciliation reports.
  A list of options is applied to the resource, the resource is written with the status
  writer, and the options determine whether the request is queued again. Log output is not
  part of the state.
\<close>

section \<open>Options\<close>

datatype severity = Info | Debug | Warn | Error | NoSeverity

text \<open>The implementations of the interface \<open>Option\<close>.\<close>

datatype status_option =
  MongoUriOption string
| PhaseOption (po_phase: string) (po_retryAfter: int)
| MessageOption severity string
| MongoDBReplicasOption int
| StatefulSetReplicasOption int

definition phase_Running :: string where "phase_Running = ''Running''"
definition phase_Failed :: string where "phase_Failed = ''Failed''"
definition phase_Pending :: string where "phase_Pending = ''Pending''"

fun ApplyOption :: "status_option \<Rightarrow> mongodb_community_status \<Rightarrow> mongodb_community_status" where
  "ApplyOption (MongoUriOption uri) st = st\<lparr>stat_MongoURI := uri\<rparr>"
| "ApplyOption (PhaseOption phase retryAfter) st = st\<lparr>stat_Phase := phase\<rparr>"
| "ApplyOption (MessageOption sev msg) st = st\<lparr>stat_Message := msg\<rparr>"
| "ApplyOption (MongoDBReplicasOption members) st = st\<lparr>stat_CurrentMongoDBMembers := members\<rparr>"
| "ApplyOption (StatefulSetReplicasOption replicas) st = st\<lparr>stat_CurrentStatefulSetReplicas := replicas\<rparr>"

text \<open>No option of the operator reports an error, but the interface allows one.\<close>

fun GetResult :: "status_option \<Rightarrow> reconcile_result \<times> error option" where
  "GetResult (PhaseOption phase retryAfter) =
     (if phase = phase_Running then (result_OK, None)
      else if phase = phase_Pending then (result_Retry retryAfter, None)
      else if phase = phase_Failed then (result_Failed, None)
      else (result_OK, None))"
| "GetResult _ = (result_OK, None)"

section \<open>The option builder\<close>

type_synonym option_builder = "status_option list"

definition statusOptions :: option_builder where "statusOptions = []"
definition withMongoURI :: "string \<Rightarrow> option_builder \<Rightarrow> option_builder" where
  "withMongoURI uri ob = ob @ [MongoUriOption uri]"
definition withPhase :: "string \<Rightarrow> int \<Rightarrow> option_builder \<Rightarrow> option_builder" where
  "withPhase phase retryAfter ob = ob @ [PhaseOption phase retryAfter]"
definition withMongoDBMembers :: "int \<Rightarrow> option_builder \<Rightarrow> option_builder" where
  "withMongoDBMembers members ob = ob @ [MongoDBReplicasOption members]"
definition withStatefulSetReplicas :: "int \<Rightarrow> option_builder \<Rightarrow> option_builder" where
  "withStatefulSetReplicas members ob = ob @ [StatefulSetReplicasOption members]"
definition withMessage :: "severity \<Rightarrow> string \<Rightarrow> option_builder \<Rightarrow> option_builder" where
  "withMessage severityLevel msg ob =
     (if IsTransientMessage msg then ob @ [MessageOption Debug ''''] else ob @ [MessageOption severityLevel msg])"
definition withFailedPhase :: "option_builder \<Rightarrow> option_builder" where
  "withFailedPhase ob = withPhase phase_Failed 0 ob"
definition withPendingPhase :: "int \<Rightarrow> option_builder \<Rightarrow> option_builder" where
  "withPendingPhase retryAfter ob = withPhase phase_Pending retryAfter ob"
definition withRunningPhase :: "option_builder \<Rightarrow> option_builder" where
  "withRunningPhase ob = withPhase phase_Running (-1) ob"

lemmas option_builder_defs = statusOptions_def withMongoURI_def withPhase_def withMongoDBMembers_def
  withStatefulSetReplicas_def withMessage_def withFailedPhase_def withPendingPhase_def withRunningPhase_def

section \<open>Update\<close>

text \<open>The first error, otherwise the first request to queue again, otherwise done.\<close>

fun first_error :: "status_option list \<Rightarrow> (reconcile_result \<times> error) option" where
  "first_error [] = None"
| "first_error (opt # opts) =
     (case GetResult opt of (res, Some err) \<Rightarrow> Some (res, err) | (res, None) \<Rightarrow> first_error opts)"

fun first_requeue :: "status_option list \<Rightarrow> reconcile_result option" where
  "first_requeue [] = None"
| "first_requeue (opt # opts) =
     (let res = fst (GetResult opt)
      in if res_Requeue res \<or> res_RequeueAfter res > 0 then Some res else first_requeue opts)"

definition determineReconciliationResult :: "status_option list \<Rightarrow> reconcile_result outcome" where
  "determineReconciliationResult options =
     (case first_error options of
        Some (res, err) \<Rightarrow> Fail err
      | None \<Rightarrow> (case first_requeue options of Some res \<Rightarrow> Ok res | None \<Rightarrow> Ok result_OK))"

text \<open>
  The resource is passed by reference: the options stay applied to it when the write fails, and
  the server's answer is in it when it succeeds. The result is returned with the resource as
  the caller then sees it.
\<close>

definition apply_options :: "status_option list \<Rightarrow> mongodb_community \<Rightarrow> mongodb_community" where
  "apply_options options mdb = mdb\<lparr>mdb_Status := foldl (\<lambda>st opt. ApplyOption opt st) (mdb_Status mdb) options\<rparr>"

definition status_Update ::
    "'w kclient \<Rightarrow> mongodb_community \<Rightarrow> option_builder \<Rightarrow> 'w \<Rightarrow> (reconcile_result \<times> mongodb_community) outcome \<times> 'w" where
  "status_Update c mdb options =
     on_result (kStatusUpdate c (MongoDBObj (apply_options options mdb))) fail
       (\<lambda>obj. pure_out (bind_out (as_mongodb obj) (\<lambda>mdb'.
          bind_out (determineReconciliationResult options) (\<lambda>res. Ok (res, mdb')))))"

section \<open>What the options say\<close>

lemma GetResult_no_error [simp]: "snd (GetResult opt) = None"
  by (cases opt) auto

lemma first_error_None [simp]: "first_error opts = None"
proof (induction opts)
  case Nil
  then show ?case by simp
next
  case (Cons opt opts)
  with GetResult_no_error [of opt] show ?case by (cases "GetResult opt") simp
qed

text \<open>A run is over exactly when no option asks for another phase than the running one.\<close>

definition asks_again :: "status_option \<Rightarrow> bool" where
  "asks_again opt = (case opt of PhaseOption phase _ \<Rightarrow> phase = phase_Pending \<or> phase = phase_Failed | _ \<Rightarrow> False)"

lemma GetResult_requeue: "res_Requeue (fst (GetResult opt)) \<or> res_RequeueAfter (fst (GetResult opt)) > 0 \<longleftrightarrow> asks_again opt"
  by (cases opt) (auto simp: asks_again_def result_OK_def result_Failed_def result_Retry_def phase_Running_def
      phase_Pending_def phase_Failed_def)

lemma first_requeue_None_iff: "first_requeue opts = None \<longleftrightarrow> (\<forall>opt \<in> set opts. \<not> asks_again opt)"
  by (induction opts) (auto simp: Let_def GetResult_requeue)

lemma asks_again_Requeue: "asks_again opt \<Longrightarrow> res_Requeue (fst (GetResult opt))"
  by (cases opt) (auto simp: asks_again_def result_Retry_def result_Failed_def phase_Running_def phase_Pending_def phase_Failed_def)

lemma first_requeue_Some: "first_requeue opts = Some res \<Longrightarrow> res_Requeue res"
  by (induction opts) (auto simp: Let_def GetResult_requeue asks_again_Requeue split: if_splits)

lemma determine_no_error: "\<exists>res. determineReconciliationResult opts = Ok res"
  by (simp add: determineReconciliationResult_def split: option.split)

lemma determine_done_iff:
  "determineReconciliationResult opts = Ok res \<Longrightarrow> res = result_OK \<longleftrightarrow> (\<forall>opt \<in> set opts. \<not> asks_again opt)"
  using first_requeue_Some [of opts]
  by (auto simp: determineReconciliationResult_def first_requeue_None_iff [symmetric] result_OK_def split: option.splits)

lemma apply_options_keeps [simp]:
  "mdb_Spec (apply_options opts mdb) = mdb_Spec mdb" "mdb_Meta (apply_options opts mdb) = mdb_Meta mdb"
  "NamespacedName (apply_options opts mdb) = NamespacedName mdb"
  by (simp_all add: apply_options_def NamespacedName_def)

lemma status_Update_OkD:
  assumes "status_Update c mdb opts w = (Ok (res, mdb'), w')"
  shows "kStatusUpdate c (MongoDBObj (apply_options opts mdb)) w = (Ok (MongoDBObj mdb'), w')"
    and "determineReconciliationResult opts = Ok res"
  using assms unfolding status_Update_def
  by (auto simp: on_result_def bind_out_Ok_conv split: prod.splits outcome.splits elim!: as_mongodb.elims)

end
