(* ===== verification/Health.thy ===== *)
theory Health
  imports Automation_Json
begin

text \<open>
  \<open>pkg/readiness/health\<close> and \<open>pkg/agent/agenthealth.go\<close>: the health file the automation agent
  writes, as the readiness probe and the version upgrade hook read it. A time is the number of
  nanoseconds since 1970 in UTC.
\<close>

section \<open>Times in JSON\<close>

text \<open>
  \<open>time.Time\<close> reads RFC 3339 text: a date, \<open>T\<close>, a time of day, at most nine fractional digits
  and \<open>Z\<close> or an offset of hours and minutes.
\<close>

definition take_num :: "nat \<Rightarrow> string \<Rightarrow> (nat \<times> string) option" where
  "take_num n s = (if length s \<ge> n \<and> is_digits (take n s) then Some (nat_of_string (take n s), drop n s) else None)"

fun skip_char :: "char \<Rightarrow> string \<Rightarrow> string option" where
  "skip_char c [] = None"
| "skip_char c (x # xs) = (if x = c then Some xs else None)"

definition leap_year :: "nat \<Rightarrow> bool" where
  "leap_year y = (y mod 4 = 0 \<and> (y mod 100 \<noteq> 0 \<or> y mod 400 = 0))"

definition days_in_month :: "nat \<Rightarrow> nat \<Rightarrow> nat" where
  "days_in_month y m = (if m = 2 then (if leap_year y then 29 else 28) else if m \<in> {4, 6, 9, 11} then 30 else 31)"

text \<open>Days from 1970-01-01.\<close>

definition day_number :: "nat \<Rightarrow> nat \<Rightarrow> nat \<Rightarrow> int" where
  "day_number y m d =
     (let p = int y - 1 in 365 * int y + p div 4 - p div 100 + p div 400
        + int (sum_list (map (days_in_month y) [1..<m])) + int d - 1) - 719527"

fun fraction_nanos :: "string \<Rightarrow> (nat \<times> string) option" where
  "fraction_nanos (c # rest) =
     (if c = CHR ''.'' then
        (let ds = takeWhile (\<lambda>x. x \<in> set ''0123456789'') rest
         in if ds = [] \<or> length ds > 9 then None
            else Some (nat_of_string ds * 10 ^ (9 - length ds), drop (length ds) rest))
      else Some (0, c # rest))"
| "fraction_nanos [] = Some (0, [])"

text \<open>The offset in minutes.\<close>

fun zone_offset :: "string \<Rightarrow> int option" where
  "zone_offset [] = None"
| "zone_offset (c # rest) =
     (if c = CHR ''Z'' then (if rest = [] then Some 0 else None)
      else if c = CHR ''+'' \<or> c = CHR ''-'' then do {
        (h, r1) \<leftarrow> take_num 2 rest; r2 \<leftarrow> skip_char CHR '':'' r1; (m, r3) \<leftarrow> take_num 2 r2;
        if r3 = [] then Some ((if c = CHR ''-'' then -1 else 1) * (60 * int h + int m)) else None }
      else None)"

definition parse_time :: "string \<Rightarrow> int option" where
  "parse_time s = do {
     (y, r) \<leftarrow> take_num 4 s; r \<leftarrow> skip_char CHR ''-'' r; (mo, r) \<leftarrow> take_num 2 r; r \<leftarrow> skip_char CHR ''-'' r;
     (d, r) \<leftarrow> take_num 2 r; r \<leftarrow> skip_char CHR ''T'' r; (h, r) \<leftarrow> take_num 2 r; r \<leftarrow> skip_char CHR '':'' r;
     (mi, r) \<leftarrow> take_num 2 r; r \<leftarrow> skip_char CHR '':'' r; (sec, r) \<leftarrow> take_num 2 r;
     (nanos, r) \<leftarrow> fraction_nanos r; off \<leftarrow> zone_offset r;
     if 1 \<le> mo \<and> mo \<le> 12 \<and> 1 \<le> d \<and> d \<le> days_in_month y mo \<and> h < 24 \<and> mi < 60 \<and> sec < 60
     then Some (1000000000 * (86400 * day_number y mo d + 3600 * int h + 60 * int mi + int sec - 60 * off) + int nanos)
     else None }"

definition dec_time :: "json option \<Rightarrow> int option option" where
  "dec_time j = (case j of None \<Rightarrow> Some None | Some JNull \<Rightarrow> Some None
     | Some (JStr s) \<Rightarrow> map_option Some (parse_time s) | _ \<Rightarrow> None)"

text \<open>Integers that do not fit in 64 bits are errors.\<close>

definition dec_int64 :: "json option \<Rightarrow> int option" where
  "dec_int64 j = (case dec_int j of Some i \<Rightarrow> (if - (2 ^ 63) \<le> i \<and> i < 2 ^ 63 then Some i else None) | None \<Rightarrow> None)"

section \<open>The health file\<close>

text \<open>Pointers in a list may be nil, when the file has \<open>null\<close> there.\<close>

record step_status =
  step_Step :: string
  step_Started :: "int option"
  step_Completed :: "int option"
  step_Result :: string

record move_status =
  move_Move :: string
  move_Steps :: "step_status option list"

record plan_status =
  plan_Moves :: "move_status option list"
  plan_Started :: "int option"
  plan_Completed :: "int option"

record mms_director_status =
  mms_Name :: string
  mms_LastGoalStateClusterConfigVersion :: int
  mms_Plans :: "plan_status option list"

record process_health =
  ph_IsInGoalState :: bool
  ph_LastMongoUpTime :: int
  ph_ExpectedToBeUp :: bool
  ph_ReplicaStatus :: "int option"

text \<open>
  Both packages declare the file with the same field names; only the hook reads the name of a
  move and only the probe the replication status.
\<close>

record health_status =
  hs_Healthiness :: "process_health gomap"
  hs_ProcessPlans :: "mms_director_status gomap"

definition dec_step :: "json option \<Rightarrow> step_status option" where
  "dec_step = dec_struct (\<lambda>kvs. do {
     s \<leftarrow> dec_str (jfield kvs ''step''); st \<leftarrow> dec_time (jfield kvs ''started'');
     co \<leftarrow> dec_time (jfield kvs ''completed''); r \<leftarrow> dec_str (jfield kvs ''result'');
     Some \<lparr>step_Step = s, step_Started = st, step_Completed = co, step_Result = r\<rparr> })"

definition dec_move :: "bool \<Rightarrow> json option \<Rightarrow> move_status option" where
  "dec_move named = dec_struct (\<lambda>kvs. do {
     m \<leftarrow> (if named then dec_str (jfield kvs ''move'') else Some '''');
     ss \<leftarrow> dec_list (dec_ptr dec_step) (jfield kvs ''steps'');
     Some \<lparr>move_Move = m, move_Steps = ss\<rparr> })"

definition dec_plan :: "bool \<Rightarrow> json option \<Rightarrow> plan_status option" where
  "dec_plan named = dec_struct (\<lambda>kvs. do {
     ms \<leftarrow> dec_list (dec_ptr (dec_move named)) (jfield kvs ''moves'');
     st \<leftarrow> dec_time (jfield kvs ''started''); co \<leftarrow> dec_time (jfield kvs ''completed'');
     Some \<lparr>plan_Moves = ms, plan_Started = st, plan_Completed = co\<rparr> })"

definition dec_mms :: "bool \<Rightarrow> json option \<Rightarrow> mms_director_status option" where
  "dec_mms named = dec_struct (\<lambda>kvs. do {
     n \<leftarrow> dec_str (jfield kvs ''name''); v \<leftarrow> dec_int64 (jfield kvs ''lastGoalVersionAchieved'');
     ps \<leftarrow> dec_list (dec_ptr (dec_plan named)) (jfield kvs ''plans'');
     Some \<lparr>mms_Name = n, mms_LastGoalStateClusterConfigVersion = v, mms_Plans = ps\<rparr> })"

definition dec_process_health :: "bool \<Rightarrow> json option \<Rightarrow> process_health option" where
  "dec_process_health replication = dec_struct (\<lambda>kvs. do {
     g \<leftarrow> dec_bool (jfield kvs ''IsInGoalState''); t \<leftarrow> dec_int64 (jfield kvs ''LastMongoUpTime'');
     e \<leftarrow> dec_bool (jfield kvs ''ExpectedToBeUp'');
     r \<leftarrow> (if replication then dec_ptr dec_int64 (jfield kvs ''ReplicationStatus'') else Some None);
     Some \<lparr>ph_IsInGoalState = g, ph_LastMongoUpTime = t, ph_ExpectedToBeUp = e, ph_ReplicaStatus = r\<rparr> })"

definition dec_health :: "bool \<Rightarrow> json option \<Rightarrow> health_status option" where
  "dec_health probe = dec_struct (\<lambda>kvs. do {
     h \<leftarrow> dec_map (dec_process_health probe) (jfield kvs ''statuses'');
     p \<leftarrow> dec_map (dec_mms (\<not> probe)) (jfield kvs ''mmsStatus'');
     Some \<lparr>hs_Healthiness = h, hs_ProcessPlans = p\<rparr> })"

text \<open>\<open>json.Unmarshal(data, &health)\<close>.\<close>

definition unmarshal_health :: "bool \<Rightarrow> string \<Rightarrow> health_status outcome" where
  "unmarshal_health probe data =
     (case Option.bind (parse data) (\<lambda>j. dec_health probe (Some j)) of
        None \<Rightarrow> Fail (Err ''invalid health status'') | Some h \<Rightarrow> Ok h)"

lemma unmarshal_health_no_panic [simp]: "unmarshal_health b data \<noteq> Panic p"
  by (simp add: unmarshal_health_def split: option.split)

section \<open>Replication status\<close>

definition replicationStatusUndefined :: int where "replicationStatusUndefined = -1"
definition replicationStatusPrimary :: int where "replicationStatusPrimary = 1"
definition replicationStatusSecondary :: int where "replicationStatusSecondary = 2"

definition IsReadyState :: "process_health \<Rightarrow> bool" where
  "IsReadyState h =
     (case ph_ReplicaStatus h of
        None \<Rightarrow> True
      | Some status \<Rightarrow> if status = replicationStatusUndefined then True
                       else status = replicationStatusPrimary \<or> status = replicationStatusSecondary)"

end
