(* ===== verification/Agent.thy ===== *)
theory Agent
  imports Kube_Client
begin

text \<open>
  \<open>pkg/agent\<close>: the operator learns from the annotations of the pods which version of the
  automation configuration the agents have reached. \<open>cast.ToInt\<close> of the package spf13/cast is
  an argument.
\<close>

section \<open>Operations\<close>

definition podAnnotationAgentVersion :: string where
  "podAnnotationAgentVersion = ''agent.mongodb.com/version''"

definition ReachedGoalState :: "(string \<Rightarrow> int) \<Rightarrow> pod \<Rightarrow> int \<Rightarrow> bool" where
  "ReachedGoalState cast_ToInt pod targetConfigVersion =
     (case map_of (entries (om_Annotations (pod_Meta pod))) podAnnotationAgentVersion of
        None \<Rightarrow> False
      | Some currentAgentVersion \<Rightarrow> cast_ToInt currentAgentVersion = targetConfigVersion)"

text \<open>\<open>make([]string, currentMembersCount)\<close> panics on a negative count.\<close>

definition statefulSetPodNames :: "statefulset \<Rightarrow> int \<Rightarrow> string list outcome" where
  "statefulSetPodNames sts currentMembersCount =
     (if currentMembersCount < 0 then Panic NegativeMake
      else Ok (map (\<lambda>i. om_Name (sts_Meta sts) @ ''-'' @ int_text (int i)) [0..<nat currentMembersCount]))"

text \<open>The loop over the pods: \<open>None\<close> is its early \<open>return false, nil\<close>, otherwise the missing pods.\<close>

fun goal_state_loop ::
    "(string \<Rightarrow> int) \<Rightarrow> (nsname \<Rightarrow> 'w \<Rightarrow> pod outcome \<times> 'w) \<Rightarrow> string \<Rightarrow> int \<Rightarrow> string list \<Rightarrow> string list
      \<Rightarrow> 'w \<Rightarrow> string list option outcome \<times> 'w" where
  "goal_state_loop cast getPod ns target [] podsNotFound = ret (Some podsNotFound)"
| "goal_state_loop cast getPod ns target (podName # podNames) podsNotFound =
     on_result (getPod \<lparr>nn_Namespace = ns, nn_Name = podName\<rparr>)
       (\<lambda>err. if IsNotFound err then goal_state_loop cast getPod ns target podNames (podsNotFound @ [podName])
              else fail err)
       (\<lambda>p. if \<not> ReachedGoalState cast p target then ret None
            else goal_state_loop cast getPod ns target podNames podsNotFound)"

definition AllReachedGoalState ::
    "(string \<Rightarrow> int) \<Rightarrow> statefulset \<Rightarrow> (nsname \<Rightarrow> 'w \<Rightarrow> pod outcome \<times> 'w) \<Rightarrow> int \<Rightarrow> int \<Rightarrow> 'w \<Rightarrow> bool outcome \<times> 'w" where
  "AllReachedGoalState cast sts getPod desiredMemberCount targetConfigVersion =
     on_result (pure_out (statefulSetPodNames sts desiredMemberCount)) fail (\<lambda>podNames.
       on_result (goal_state_loop cast getPod (om_Namespace (sts_Meta sts)) targetConfigVersion podNames []) fail
         (\<lambda>podsNotFound. case podsNotFound of
              None \<Rightarrow> ret False
            | Some missing \<Rightarrow>
                if int (length missing) = desiredMemberCount then ret True
                else if length missing > 0 then ret False
                else ret True))"

record startup_parameter =
  par_Key :: string
  par_Value :: string

definition StartupParametersToAgentFlag :: "startup_parameter list \<Rightarrow> env_var" where
  "StartupParametersToAgentFlag parameters =
     \<lparr>ev_Name = ''AGENT_FLAGS'',
      ev_Value = foldl (\<lambda>agentParams param. agentParams @ '' -'' @ par_Key param @ '' '' @ par_Value param) '''' parameters,
      ev_ValueFrom = None\<rparr>"

section \<open>Reading pods from a cluster\<close>

text \<open>The contract of a pod getter: a read returns the stored pod, or that there is none.\<close>

locale pod_reader =
  fixes getPod :: "nsname \<Rightarrow> 'w \<Rightarrow> pod outcome \<times> 'w" and pods :: "'w \<Rightarrow> nsname \<Rightarrow> pod option" and I :: "'w \<Rightarrow> bool"
  assumes getPod_Some: "I w \<Longrightarrow> pods w n = Some p \<Longrightarrow> getPod n w = (Ok p, w)"
    and getPod_None: "I w \<Longrightarrow> pods w n = None \<Longrightarrow> \<exists>t. getPod n w = (Fail (NotFound t), w)"
begin

definition reached :: "(string \<Rightarrow> int) \<Rightarrow> 'w \<Rightarrow> string \<Rightarrow> int \<Rightarrow> string \<Rightarrow> bool" where
  "reached cast w ns target name =
     (case pods w \<lparr>nn_Namespace = ns, nn_Name = name\<rparr> of None \<Rightarrow> False | Some p \<Rightarrow> ReachedGoalState cast p target)"

abbreviation missing :: "'w \<Rightarrow> string \<Rightarrow> string \<Rightarrow> bool" where
  "missing w ns name \<equiv> pods w \<lparr>nn_Namespace = ns, nn_Name = name\<rparr> = None"

lemma goal_state_loop_eq:
  assumes "I w"
  shows "goal_state_loop cast getPod ns target names acc w =
    (Ok (if \<forall>n \<in> set names. missing w ns n \<or> reached cast w ns target n
         then Some (acc @ filter (missing w ns) names) else None), w)"
proof (induction names arbitrary: acc)
  case Nil
  then show ?case by simp
next
  case (Cons n names)
  show ?case
  proof (cases "pods w \<lparr>nn_Namespace = ns, nn_Name = n\<rparr>")
    case None
    from getPod_None [OF assms None] obtain t where
      "getPod \<lparr>nn_Namespace = ns, nn_Name = n\<rparr> w = (Fail (NotFound t), w)" by blast
    then show ?thesis by (simp add: on_result_def None Cons del: not_None_eq)
  next
    case (Some p)
    from getPod_Some [OF assms Some] Some show ?thesis by (auto simp: on_result_def Cons reached_def)
  qed
qed

lemma AllReachedGoalState_eq:
  fixes sts :: statefulset
  assumes "I w" and "0 \<le> members"
  defines "names \<equiv> map (\<lambda>i. om_Name (sts_Meta sts) @ ''-'' @ int_text (int i)) [0..<nat members]"
    and "ns \<equiv> om_Namespace (sts_Meta sts)"
  shows "AllReachedGoalState cast sts getPod members target w =
    (Ok ((\<forall>n \<in> set names. reached cast w ns target n) \<or> (\<forall>n \<in> set names. missing w ns n)), w)"
proof -
  have len: "int (length names) = members" using assms(2) by (simp add: names_def)
  have names: "statefulSetPodNames sts members = Ok names" using assms(2) by (simp add: statefulSetPodNames_def names_def)
  have all: "int (length (filter P names)) = members \<longleftrightarrow> (\<forall>n \<in> set names. P n)" for P
    using len by (metis filter_id_conv length_filter_less nat_neq_iff nat_int of_nat_eq_iff)
  have excl: "reached cast w ns target n \<Longrightarrow> \<not> missing w ns n" for n
    by (simp add: reached_def split: option.splits)
  have "AllReachedGoalState cast sts getPod members target w =
      (Ok ((\<forall>n \<in> set names. missing w ns n \<or> reached cast w ns target n)
        \<and> (int (length (filter (missing w ns) names)) = members \<or> filter (missing w ns) names = [])), w)"
    unfolding AllReachedGoalState_def
    by (simp add: names on_result_def [of "goal_state_loop _ _ _ _ _ _"] goal_state_loop_eq [OF assms(1)] ns_def [symmetric]
        del: not_None_eq)
  also have "\<dots> = (Ok ((\<forall>n \<in> set names. missing w ns n \<or> reached cast w ns target n)
        \<and> ((\<forall>n \<in> set names. missing w ns n) \<or> (\<forall>n \<in> set names. \<not> missing w ns n))), w)"
    by (simp only: all filter_empty_conv)
  also have "((\<forall>n \<in> set names. missing w ns n \<or> reached cast w ns target n)
        \<and> ((\<forall>n \<in> set names. missing w ns n) \<or> (\<forall>n \<in> set names. \<not> missing w ns n)))
      \<longleftrightarrow> (\<forall>n \<in> set names. reached cast w ns target n) \<or> (\<forall>n \<in> set names. missing w ns n)"
    using excl by blast
  finally show ?thesis .
qed

end

definition mock_pods :: "mock_cluster \<Rightarrow> nsname \<Rightarrow> pod option" where
  "mock_pods w n = (case w PodKind n of Some (PodObj p) \<Rightarrow> Some p | _ \<Rightarrow> None)"

interpretation mock_pods: pod_reader "client_GetPod mockedClient" mock_pods well_kinded
proof
  fix w n p
  assume "well_kinded w" and p: "mock_pods w n = Some p"
  then show "client_GetPod mockedClient n w = (Ok p, w)"
    by (auto simp: mock_pods_def typed_ops mockedClient_def mock_Get_def on_result_def split: option.splits k8s_object.splits)
next
  fix w n
  assume wk: "well_kinded w" and n: "mock_pods w n = None"
  have "w PodKind n = None"
  proof (cases "w PodKind n")
    case (Some obj)
    with wk have "obj_kind obj = PodKind" by (auto simp: well_kinded_def)
    with Some n show ?thesis by (cases obj) (auto simp: mock_pods_def)
  qed
  then show "\<exists>t. client_GetPod mockedClient n w = (Fail (NotFound t), w)"
    by (simp add: typed_ops mockedClient_def mock_Get_def on_result_def notFoundError_def)
qed

text \<open>
  C20. The operator takes the agents to have reached a version of the automation configuration
  exactly when every pod of this reconciliation exists and has the version in its annotation,
  or when no pod exists at all (the stateful set is created afterwards); in particular a single
  missing pod or a single pod without the annotation holds the deployment back.
\<close>

theorem AllReachedGoalState_correct:
  assumes "pod_reader getPod pods I" and "I w" and "0 \<le> members"
  shows "AllReachedGoalState cast_ToInt sts getPod members target w =
    (Ok ((\<forall>i < nat members. \<exists>p v. pods w \<lparr>nn_Namespace = om_Namespace (sts_Meta sts),
              nn_Name = om_Name (sts_Meta sts) @ ''-'' @ nat_text i\<rparr> = Some p
            \<and> map_of (entries (om_Annotations (pod_Meta p))) podAnnotationAgentVersion = Some v \<and> cast_ToInt v = target)
       \<or> (\<forall>i < nat members. pods w \<lparr>nn_Namespace = om_Namespace (sts_Meta sts),
              nn_Name = om_Name (sts_Meta sts) @ ''-'' @ nat_text i\<rparr> = None)), w)"
proof -
  have "pod_reader.reached pods cast_ToInt w ns target name \<longleftrightarrow>
      (\<exists>p v. pods w \<lparr>nn_Namespace = ns, nn_Name = name\<rparr> = Some p
        \<and> map_of (entries (om_Annotations (pod_Meta p))) podAnnotationAgentVersion = Some v \<and> cast_ToInt v = target)" for ns name
    by (simp add: pod_reader.reached_def [OF assms(1)] ReachedGoalState_def split: option.split)
  moreover have "(\<forall>i \<in> {0..<n}. P i) \<longleftrightarrow> (\<forall>i < n. P i)" for P and n :: nat by auto
  ultimately show ?thesis unfolding pod_reader.AllReachedGoalState_eq [OF assms] by simp
qed

theorem AllReachedGoalState_correct_witness:
  "AllReachedGoalState (\<lambda>v. if v = ''7'' then 7 else 0) (empty_statefulset\<lparr>sts_Meta := empty_meta\<lparr>om_Name := ''db''\<rparr>\<rparr>)
     (client_GetPod mockedClient) 1 7
     (mock_put (PodObj \<lparr>pod_Meta = empty_meta\<lparr>om_Name := ''db-0'', om_Annotations := Some [(podAnnotationAgentVersion, ''7'')]\<rparr>\<rparr>) mock_empty)
   = (Ok True,
     mock_put (PodObj \<lparr>pod_Meta = empty_meta\<lparr>om_Name := ''db-0'', om_Annotations := Some [(podAnnotationAgentVersion, ''7'')]\<rparr>\<rparr>) mock_empty)"
  by (subst AllReachedGoalState_correct
        [where I = well_kinded and pods = mock_pods, OF mock_pods.pod_reader_axioms well_kinded_put [OF well_kinded_empty]])
    (simp_all add: mock_pods_def mock_put_def ObjectKeyFromObject_def object_key_def empty_meta_def nat_text.simps digit_char_def)

end
