(* ===== verification/Readiness.thy ===== *)
theory Readiness
  imports Health Agent
begin

text \<open>
  \<open>cmd/readiness\<close> and \<open>pkg/readiness\<close>: the readiness probe that runs next to the agent. It
  decides from the agent's health file whether the pod is ready and, in headless mode, publishes
  the version the agent has reached as an annotation of the pod, where the operator reads it.
  The clock, the file system, the clientset of client-go and \<open>cast.ToInt64\<close> are arguments; the
  two calls of \<open>time.Now\<close> give the times \<open>now1\<close> and \<open>now2\<close>.
\<close>

section \<open>pkg/readiness/config\<close>

record 'w clientset =
  cs_GetSecret :: "string \<Rightarrow> string \<Rightarrow> 'w \<Rightarrow> secret outcome \<times> 'w"
  cs_GetPod :: "string \<Rightarrow> string \<Rightarrow> 'w \<Rightarrow> pod outcome \<times> 'w"
  cs_PatchPod :: "string \<Rightarrow> string \<Rightarrow> k8s_patch \<Rightarrow> 'w \<Rightarrow> pod outcome \<times> 'w"

record 'w probe_config =
  conf_ClientSet :: "'w clientset"
  conf_Namespace :: string
  conf_Hostname :: string
  conf_AutomationConfigSecretName :: string
  conf_HealthStatusReader :: "'w \<Rightarrow> string outcome \<times> 'w"
  conf_LogFilePath :: string

definition defaultAgentHealthStatusFilePath :: string where
  "defaultAgentHealthStatusFilePath = ''/var/log/mongodb-mms-automation/agent-health-status.json''"
definition defaultLogPath :: string where
  "defaultLogPath = ''/var/log/mongodb-mms-automation/readiness.log''"

definition getEnvOrDefault :: "environment \<Rightarrow> string \<Rightarrow> string \<Rightarrow> string" where
  "getEnvOrDefault env envVar defaultValue =
     (let value = trim_space (getenv env envVar) in if value = '''' then defaultValue else value)"

definition must_be_set :: "string \<Rightarrow> error" where
  "must_be_set envVar = Err (''the ''  @ [CHR 0x27] @ envVar @ [CHR 0x27] @ '' environment variable must be set'')"

text \<open>\<open>os.Open\<close> returns the reader of the file.\<close>

definition BuildFromEnvVariables ::
    "environment \<Rightarrow> (string \<Rightarrow> 'w \<Rightarrow> ('w \<Rightarrow> string outcome \<times> 'w) outcome \<times> 'w) \<Rightarrow> 'w clientset \<Rightarrow> bool
      \<Rightarrow> 'w \<Rightarrow> 'w probe_config outcome \<times> 'w" where
  "BuildFromEnvVariables env open_file clientSet isHeadless =
     (let healthStatusFilePath = getEnvOrDefault env ''AGENT_STATUS_FILEPATH'' defaultAgentHealthStatusFilePath;
          logFilePath = getEnvOrDefault env ''LOG_FILE_PATH'' defaultLogPath;
          vars = (if isHeadless then
                    (case env ''POD_NAMESPACE'' of
                       None \<Rightarrow> Fail (must_be_set ''POD_NAMESPACE'')
                     | Some namespace \<Rightarrow> (case env ''AUTOMATION_CONFIG_MAP'' of
                         None \<Rightarrow> Fail (must_be_set ''AUTOMATION_CONFIG_MAP'')
                       | Some automationConfigName \<Rightarrow> (case env ''HOSTNAME'' of
                           None \<Rightarrow> Fail (must_be_set ''HOSTNAME'')
                         | Some hostname \<Rightarrow> Ok (namespace, automationConfigName, hostname))))
                  else Ok ('''', '''', ''''))
      in on_result (pure_out vars) fail (\<lambda>(namespace, automationConfigName, hostname).
           on_result (open_file healthStatusFilePath) fail (\<lambda>file.
             ret \<lparr>conf_ClientSet = clientSet, conf_Namespace = namespace, conf_Hostname = hostname,
                  conf_AutomationConfigSecretName = automationConfigName, conf_HealthStatusReader = file,
                  conf_LogFilePath = logFilePath\<rparr>)))"

section \<open>pkg/readiness/secret\<close>

definition ReadSecret :: "'w clientset \<Rightarrow> string \<Rightarrow> string \<Rightarrow> 'w \<Rightarrow> secret outcome \<times> 'w" where
  "ReadSecret cs namespace secretName = cs_GetSecret cs namespace secretName"

text \<open>
  A missing key gives no bytes, which is not a document; \<open>null\<close> reads as a nil map. When the
  document has no version, the error that is returned with -1 is nil.
\<close>

definition unmarshal_object :: "string \<Rightarrow> json gomap outcome" where
  "unmarshal_object data =
     (case parse data of
        Some (JObj kvs) \<Rightarrow> Ok (put_all [] kvs)
      | Some JNull \<Rightarrow> Ok []
      | _ \<Rightarrow> Fail (Err ''invalid automation config''))"

definition ReadAutomationConfigVersionFromSecret ::
    "(json \<Rightarrow> int) \<Rightarrow> string \<Rightarrow> 'w clientset \<Rightarrow> string \<Rightarrow> 'w \<Rightarrow> int outcome \<times> 'w" where
  "ReadAutomationConfigVersionFromSecret cast_ToInt64 namespace clientSet automationConfigMap =
     on_result (ReadSecret clientSet namespace automationConfigMap) fail (\<lambda>theSecret.
       on_result (pure_out (unmarshal_object
           (case map_of (entries (s_Data theSecret)) ''cluster-config.json'' of None \<Rightarrow> '''' | Some data \<Rightarrow> data))) fail
         (\<lambda>existingDeployment. case map_of existingDeployment ''version'' of
              None \<Rightarrow> ret (-1)
            | Some version \<Rightarrow> ret (cast_ToInt64 version)))"

section \<open>pkg/readiness/pod\<close>

definition mongodbAgentVersionAnnotation :: string where
  "mongodbAgentVersionAnnotation = ''agent.mongodb.com/version''"

text \<open>\<open>strings.Replace(s, "/", new, -1)\<close>.\<close>

definition replace_slashes :: "string \<Rightarrow> string \<Rightarrow> string" where
  "replace_slashes new s = concat (map (\<lambda>c. if c = CHR ''/'' then new else [c]) s)"

definition patchPod :: "'w clientset \<Rightarrow> string \<Rightarrow> string \<Rightarrow> patch_value list \<Rightarrow> 'w \<Rightarrow> pod outcome \<times> 'w" where
  "patchPod cs namespace podName payload =
     cs_PatchPod cs namespace podName
       \<lparr>patch_Type = JSONPatchType, patch_Data = render (JArr (map enc_patch payload))\<rparr>"

definition version_payload :: "pod \<Rightarrow> int \<Rightarrow> patch_value list" where
  "version_payload pod lastVersionAchieved =
     (if entries (om_Annotations (pod_Meta pod)) = []
      then [\<lparr>pv_Op = ''add'', pv_Path = ''/metadata/annotations'', pv_Value = JObj []\<rparr>] else [])
     @ [\<lparr>pv_Op = ''add'', pv_Path = ''/metadata/annotations/'' @ replace_slashes ''~1'' mongodbAgentVersionAnnotation,
         pv_Value = JStr (int_text lastVersionAchieved)\<rparr>]"

definition PatchPodAnnotation :: "string \<Rightarrow> int \<Rightarrow> string \<Rightarrow> 'w clientset \<Rightarrow> 'w \<Rightarrow> unit outcome \<times> 'w" where
  "PatchPodAnnotation podNamespace lastVersionAchieved memberName clientSet =
     on_result (cs_GetPod clientSet podNamespace memberName) fail (\<lambda>pod.
       on_result (patchPod clientSet podNamespace memberName (version_payload pod lastVersionAchieved)) fail
         (\<lambda>updatedPod. ret ()))"

section \<open>pkg/readiness/headless\<close>

text \<open>Both loops return in their first iteration, so only the first entry in iteration order counts.\<close>

definition readCurrentAgentInfo :: "iter_order \<Rightarrow> health_status \<Rightarrow> int \<Rightarrow> int" where
  "readCurrentAgentInfo it health targetVersion =
     (case range_values it (hs_ProcessPlans health) of
        v # _ \<Rightarrow> mms_LastGoalStateClusterConfigVersion v
      | [] \<Rightarrow> (case range_values it (hs_Healthiness health) of
           v # _ \<Rightarrow> if ph_IsInGoalState v then targetVersion else -1
         | [] \<Rightarrow> targetVersion))"

definition PerformCheckHeadlessMode ::
    "iter_order \<Rightarrow> (json \<Rightarrow> int) \<Rightarrow> health_status \<Rightarrow> 'w probe_config \<Rightarrow> 'w \<Rightarrow> bool outcome \<times> 'w" where
  "PerformCheckHeadlessMode it cast_ToInt64 health conf =
     on_result (ReadAutomationConfigVersionFromSecret cast_ToInt64 (conf_Namespace conf) (conf_ClientSet conf)
         (conf_AutomationConfigSecretName conf)) fail (\<lambda>targetVersion.
       let currentAgentVersion = readCurrentAgentInfo it health targetVersion
       in on_result (PatchPodAnnotation (conf_Namespace conf) currentAgentVersion (conf_Hostname conf) (conf_ClientSet conf))
            fail (\<lambda>_. ret (targetVersion = currentAgentVersion)))"

section \<open>cmd/readiness\<close>

definition riskySteps :: "string list" where
  "riskySteps = [''WaitAllRsMembersUp'', ''WaitRsInit'']"

definition isHeadlessMode :: "environment \<Rightarrow> bool" where
  "isHeadlessMode env = (getenv env ''HEADLESS_AGENT'' = ''true'')"

definition deref :: "'a option \<Rightarrow> 'a outcome" where
  "deref p = (case p of None \<Rightarrow> Panic NilDeref | Some x \<Rightarrow> Ok x)"

text \<open>The two nested loops; reading a field through a nil pointer panics.\<close>

fun last_started_step :: "step_status option list \<Rightarrow> step_status option \<Rightarrow> step_status option outcome" where
  "last_started_step [] lastStartedStep = Ok lastStartedStep"
| "last_started_step (s # ss) lastStartedStep =
     bind_out (deref s) (\<lambda>st. last_started_step ss (if step_Started st \<noteq> None then Some st else lastStartedStep))"

fun last_started_in_moves :: "move_status option list \<Rightarrow> step_status option \<Rightarrow> step_status option outcome" where
  "last_started_in_moves [] lastStartedStep = Ok lastStartedStep"
| "last_started_in_moves (m # ms) lastStartedStep =
     bind_out (deref m) (\<lambda>mv. bind_out (last_started_step (move_Steps mv) lastStartedStep) (last_started_in_moves ms))"

definition findCurrentStep :: "mms_director_status gomap \<Rightarrow> step_status option outcome" where
  "findCurrentStep processStatuses =
     (case processStatuses of
        [] \<Rightarrow> Ok None
      | [(k, v)] \<Rightarrow>
          (if mms_Plans v = [] then Ok None
           else bind_out (deref (last (mms_Plans v))) (\<lambda>currentPlan.
             if plan_Completed currentPlan \<noteq> None then Ok None
             else last_started_in_moves (plan_Moves currentPlan) None))
      | _ \<Rightarrow> Ok None)"

definition isDeadlocked :: "int \<Rightarrow> step_status \<Rightarrow> bool outcome" where
  "isDeadlocked now status =
     (if contains_String riskySteps (step_Step status) \<and> step_Completed status = None
      then bind_out (deref (step_Started status)) (\<lambda>started. Ok (started < now - 15 * 1000000000))
      else Ok False)"

definition hasDeadlockedSteps :: "int \<Rightarrow> health_status \<Rightarrow> bool outcome" where
  "hasDeadlockedSteps now health =
     bind_out (findCurrentStep (hs_ProcessPlans health)) (\<lambda>currentStep.
       case currentStep of Some s \<Rightarrow> isDeadlocked now s | None \<Rightarrow> Ok False)"

fun performCheckOMMode :: "process_health list \<Rightarrow> bool" where
  "performCheckOMMode [] = False"
| "performCheckOMMode (v # vs) = (if ph_IsInGoalState v then True else performCheckOMMode vs)"

definition isInGoalState ::
    "environment \<Rightarrow> iter_order \<Rightarrow> (json \<Rightarrow> int) \<Rightarrow> health_status \<Rightarrow> 'w probe_config \<Rightarrow> 'w \<Rightarrow> bool outcome \<times> 'w" where
  "isInGoalState env it cast_ToInt64 health conf =
     (if isHeadlessMode env then PerformCheckHeadlessMode it cast_ToInt64 health conf
      else ret (performCheckOMMode (range_values it (hs_Healthiness health))))"

text \<open>The loop returns in its first iteration.\<close>

definition isInReadyState :: "iter_order \<Rightarrow> int \<Rightarrow> health_status \<Rightarrow> bool" where
  "isInReadyState it now health =
     (if hs_Healthiness health = [] then True
      else case range_values it (hs_Healthiness health) of
             processHealth # _ \<Rightarrow>
               (if \<not> ph_ExpectedToBeUp processHealth then True
                else 1000000000 * ph_LastMongoUpTime processHealth > now - 60 * 1000000000 \<and> IsReadyState processHealth)
           | [] \<Rightarrow> False)"

definition parseHealthStatus :: "('w \<Rightarrow> string outcome \<times> 'w) \<Rightarrow> 'w \<Rightarrow> health_status outcome \<times> 'w" where
  "parseHealthStatus reader = on_result reader fail (\<lambda>data. pure_out (unmarshal_health True data))"

definition isPodReady ::
    "environment \<Rightarrow> iter_order \<Rightarrow> (json \<Rightarrow> int) \<Rightarrow> int \<Rightarrow> int \<Rightarrow> 'w probe_config \<Rightarrow> 'w \<Rightarrow> bool outcome \<times> 'w" where
  "isPodReady env it cast_ToInt64 now1 now2 conf =
     on_result (parseHealthStatus (conf_HealthStatusReader conf)) fail (\<lambda>healthStatus.
       if hs_Healthiness healthStatus = [] \<and> \<not> isHeadlessMode env then ret True
       else on_result (isInGoalState env it cast_ToInt64 healthStatus conf) fail (\<lambda>inGoalState.
         let inReadyState = isInReadyState it now1 healthStatus
         in if inGoalState \<and> inReadyState then ret True
            else if inGoalState then ret False
            else on_result (pure_out (hasDeadlockedSteps now2 healthStatus)) fail ret))"

text \<open>How the probe ends: its exit code, or a panic with an error.\<close>

datatype probe_exit = ExitCode nat | PanicWith error | RuntimePanic panic

definition exit_on :: "('w \<Rightarrow> 'a outcome \<times> 'w) \<Rightarrow> ('a \<Rightarrow> 'w \<Rightarrow> probe_exit \<times> 'w) \<Rightarrow> 'w \<Rightarrow> probe_exit \<times> 'w" where
  "exit_on m k = (\<lambda>w. case m w of
      (Ok x, w') \<Rightarrow> k x w'
    | (Fail e, w') \<Rightarrow> (PanicWith e, w')
    | (Panic p, w') \<Rightarrow> (RuntimePanic p, w'))"

definition kubernetesClientset ::
    "('w \<Rightarrow> 'c outcome \<times> 'w) \<Rightarrow> ('c \<Rightarrow> 'w \<Rightarrow> 'w clientset outcome \<times> 'w) \<Rightarrow> 'w \<Rightarrow> 'w clientset outcome \<times> 'w" where
  "kubernetesClientset InClusterConfig NewForConfig =
     on_result InClusterConfig (\<lambda>err. fail (errorf ''failed to get in cluster config: '' err)) (\<lambda>config.
       on_result (NewForConfig config) (\<lambda>err. fail (errorf ''failed to build config: '' err)) ret)"

definition probe_main ::
    "environment \<Rightarrow> iter_order \<Rightarrow> (json \<Rightarrow> int) \<Rightarrow> int \<Rightarrow> int \<Rightarrow> ('w \<Rightarrow> 'c outcome \<times> 'w) \<Rightarrow> ('c \<Rightarrow> 'w \<Rightarrow> 'w clientset outcome \<times> 'w)
      \<Rightarrow> (string \<Rightarrow> 'w \<Rightarrow> ('w \<Rightarrow> string outcome \<times> 'w) outcome \<times> 'w) \<Rightarrow> (string \<Rightarrow> 'w \<Rightarrow> unit outcome \<times> 'w)
      \<Rightarrow> 'w \<Rightarrow> probe_exit \<times> 'w" where
  "probe_main env it cast_ToInt64 now1 now2 InClusterConfig NewForConfig open_file build_logger =
     exit_on (kubernetesClientset InClusterConfig NewForConfig) (\<lambda>clientSet.
     exit_on (BuildFromEnvVariables env open_file clientSet (isHeadlessMode env)) (\<lambda>config.
     exit_on (build_logger (conf_LogFilePath config)) (\<lambda>_.
     exit_on (isPodReady env it cast_ToInt64 now1 now2 config) (\<lambda>ready w.
       (ExitCode (if ready then 0 else 1), w)))))"

section \<open>Agents that are stuck\<close>

text \<open>The steps of a plan that have started, in order, and a health file without nil pointers.\<close>

definition plan_steps :: "plan_status \<Rightarrow> step_status option list" where
  "plan_steps plan = concat (map (\<lambda>m. case m of None \<Rightarrow> [] | Some mv \<Rightarrow> move_Steps mv) (plan_Moves plan))"

definition started_steps :: "plan_status \<Rightarrow> step_status list" where
  "started_steps plan = filter (\<lambda>s. step_Started s \<noteq> None) (map the (plan_steps plan))"

definition no_nil :: "plan_status \<Rightarrow> bool" where
  "no_nil plan = (None \<notin> set (plan_Moves plan) \<and> None \<notin> set (plan_steps plan))"

definition nil_free :: "health_status \<Rightarrow> bool" where
  "nil_free h = (\<forall>v \<in> snd ` set (hs_ProcessPlans h). \<forall>p \<in> set (mms_Plans v). \<exists>plan. p = Some plan \<and> no_nil plan)"

text \<open>
  The agent is stuck: it works on the one process it manages, the last plan is not completed, and the
  step it started last waits for other members since more than fifteen seconds.
\<close>

definition stuck :: "int \<Rightarrow> health_status \<Rightarrow> bool" where
  "stuck now h = (\<exists>k v plan s t. hs_ProcessPlans h = [(k, v)] \<and> mms_Plans v \<noteq> [] \<and> last (mms_Plans v) = Some plan
     \<and> plan_Completed plan = None \<and> started_steps plan \<noteq> [] \<and> s = last (started_steps plan)
     \<and> step_Step s \<in> {''WaitAllRsMembersUp'', ''WaitRsInit''} \<and> step_Completed s = None
     \<and> step_Started s = Some t \<and> now - t > 15 * 1000000000)"

definition last_or :: "'a list \<Rightarrow> 'a option \<Rightarrow> 'a option" where
  "last_or xs d = (if xs = [] then d else Some (last xs))"

lemma last_started_step_eq:
  "None \<notin> set ss \<Longrightarrow> last_started_step ss d = Ok (last_or (filter (\<lambda>s. step_Started s \<noteq> None) (map the ss)) d)"
  by (induction ss arbitrary: d) (auto simp: deref_def last_or_def split: option.splits)

lemma last_or_append: "last_or (xs @ ys) d = last_or ys (last_or xs d)"
  by (simp add: last_or_def)

lemma last_started_in_moves_eq:
  assumes "None \<notin> set ms"
    and "None \<notin> set (concat (map (\<lambda>m. case m of None \<Rightarrow> [] | Some mv \<Rightarrow> move_Steps mv) ms))"
  shows "last_started_in_moves ms d = Ok (last_or (filter (\<lambda>s. step_Started s \<noteq> None)
    (map the (concat (map (\<lambda>m. case m of None \<Rightarrow> [] | Some mv \<Rightarrow> move_Steps mv) ms)))) d)"
  using assms
proof (induction ms arbitrary: d)
  case Nil
  then show ?case by (simp add: last_or_def)
next
  case (Cons m ms)
  then obtain mv where m: "m = Some mv" by (cases m) auto
  from Cons m show ?case by (simp add: deref_def last_started_step_eq last_or_append)
qed

lemma current_step_eq: "no_nil plan \<Longrightarrow> last_started_in_moves (plan_Moves plan) None = Ok (last_or (started_steps plan) None)"
  by (simp add: no_nil_def plan_steps_def started_steps_def last_started_in_moves_eq)

lemma isDeadlocked_eq:
  assumes "step_Started s \<noteq> None"
  shows "isDeadlocked now s = Ok (step_Step s \<in> {''WaitAllRsMembersUp'', ''WaitRsInit''} \<and> step_Completed s = None
    \<and> (\<exists>t. step_Started s = Some t \<and> now - t > 15 * 1000000000))"
  using assms by (auto simp: isDeadlocked_def riskySteps_def deref_def)

lemma started_steps_started: "started_steps plan \<noteq> [] \<Longrightarrow> step_Started (last (started_steps plan)) \<noteq> None"
proof -
  assume "started_steps plan \<noteq> []"
  then have "last (started_steps plan) \<in> set (started_steps plan)" by simp
  then show ?thesis by (auto simp: started_steps_def)
qed

lemma hasDeadlockedSteps_eq:
  assumes "nil_free h"
  shows "hasDeadlockedSteps now h = Ok (stuck now h)"
proof -
  consider (none) "hs_ProcessPlans h = []" | (one) k v where "hs_ProcessPlans h = [(k, v)]"
    | (more) a b rest where "hs_ProcessPlans h = a # b # rest"
    by (metis list.exhaust surj_pair)
  then show ?thesis
  proof cases
    case none
    then show ?thesis by (simp add: hasDeadlockedSteps_def findCurrentStep_def stuck_def)
  next
    case more
    then show ?thesis by (simp add: hasDeadlockedSteps_def findCurrentStep_def stuck_def)
  next
    case one
    show ?thesis
    proof (cases "mms_Plans v = []")
      case True
      then show ?thesis by (simp add: one hasDeadlockedSteps_def findCurrentStep_def stuck_def)
    next
      case False
      with assms one obtain plan where plan: "last (mms_Plans v) = Some plan" "no_nil plan"
        by (auto simp: nil_free_def dest!: bspec [OF _ last_in_set])
      show ?thesis
        using False plan started_steps_started [of plan] current_step_eq [OF plan(2)] isDeadlocked_eq [of "last (started_steps plan)" now]
        by (auto simp: one hasDeadlockedSteps_def findCurrentStep_def stuck_def deref_def last_or_def)
    qed
  qed
qed

lemma performCheckOMMode_iff: "performCheckOMMode vs \<longleftrightarrow> (\<exists>v \<in> set vs. ph_IsInGoalState v)"
  by (induction vs) auto

lemma range_values_single:
  assumes "valid_order it"
  shows "range_values it [(k, v)] = [v]"
proof -
  from assms have "mset (it [k]) = mset [k]" by (simp only: valid_order_def)
  then have "it [k] = [k]" by simp
  then show ?thesis by (simp add: range_values_def List.map_filter_simps)
qed

lemma range_values_Nil [simp]:
  assumes "valid_order it"
  shows "range_values it [] = []"
proof -
  from assms have "mset (it []) = mset []" by (simp only: valid_order_def)
  then show ?thesis by (simp add: range_values_def List.map_filter_simps)
qed

definition example_health :: json where
  "example_health = (JObj [(''statuses'', JObj [(''db-0'', JObj [(''IsInGoalState'', JBool True),
     (''LastMongoUpTime'', JInt 100), (''ExpectedToBeUp'', JBool True), (''ReplicationStatus'', JInt 1)])]),
     (''mmsStatus'', JObj [])])"

definition example_process :: process_health where
  "example_process = \<lparr>ph_IsInGoalState = True, ph_LastMongoUpTime = 100, ph_ExpectedToBeUp = True, ph_ReplicaStatus = Some 1\<rparr>"

lemma unmarshal_example_health:
  "unmarshal_health True (render example_health) = Ok \<lparr>hs_Healthiness = [(''db-0'', example_process)], hs_ProcessPlans = []\<rparr>"
proof -
  have "parse (render example_health) = Some example_health"
    by (rule parse_render) (simp add: example_health_def)
  moreover have "dec_health True (Some example_health) = Some \<lparr>hs_Healthiness = [(''db-0'', example_process)], hs_ProcessPlans = []\<rparr>"
    by (simp add: example_health_def dec_health_def dec_process_health_def example_process_def
        dec_map_def dec_int64_def dec_struct_def dec_ptr_def put_all_def put_def JInt_def dec_int_def)
  ultimately show ?thesis by (simp add: unmarshal_health_def)
qed

section \<open>The version that the probe publishes\<close>

text \<open>
  The JSON patch operation \<open>add\<close> of RFC 6902 on the annotations of an object, for the paths the
  probe uses: the map itself, or a member of an existing map with \<open>~1\<close> for a slash.
\<close>

fun add_annotations :: "patch_value list \<Rightarrow> string gomap option \<Rightarrow> string gomap option option" where
  "add_annotations [] an = Some an"
| "add_annotations (p # ps) an =
     (if pv_Op p = ''add'' \<and> pv_Path p = ''/metadata/annotations'' \<and> pv_Value p = JObj [] then add_annotations ps (Some [])
      else if pv_Op p = ''add'' \<and> pv_Path p = ''/metadata/annotations/agent.mongodb.com~1version''
        then (case (pv_Value p, an) of
                (JStr v, Some m) \<Rightarrow> add_annotations ps (Some (put ''agent.mongodb.com/version'' v m))
              | _ \<Rightarrow> None)
      else None)"

text \<open>What a cluster does behind the clientset: reads return what is stored, a patch is applied to the stored pod.\<close>

definition serves ::
    "'w clientset \<Rightarrow> ('w \<Rightarrow> nsname \<Rightarrow> secret option) \<Rightarrow> ('w \<Rightarrow> nsname \<Rightarrow> pod option) \<Rightarrow> bool" where
  "serves cs secrets pods \<longleftrightarrow>
     (\<forall>ns n w s. secrets w \<lparr>nn_Namespace = ns, nn_Name = n\<rparr> = Some s \<longrightarrow> cs_GetSecret cs ns n w = (Ok s, w))
   \<and> (\<forall>ns n w p. pods w \<lparr>nn_Namespace = ns, nn_Name = n\<rparr> = Some p \<longrightarrow> cs_GetPod cs ns n w = (Ok p, w))
   \<and> (\<forall>ns n w p ps an. pods w \<lparr>nn_Namespace = ns, nn_Name = n\<rparr> = Some p
        \<and> add_annotations ps (om_Annotations (pod_Meta p)) = Some an \<longrightarrow>
        (\<exists>w'. cs_PatchPod cs ns n \<lparr>patch_Type = JSONPatchType, patch_Data = render (JArr (map enc_patch ps))\<rparr> w
             = (Ok (p\<lparr>pod_Meta := (pod_Meta p)\<lparr>om_Annotations := an\<rparr>\<rparr>), w')
           \<and> pods w' \<lparr>nn_Namespace = ns, nn_Name = n\<rparr> = Some (p\<lparr>pod_Meta := (pod_Meta p)\<lparr>om_Annotations := an\<rparr>\<rparr>)))"

lemma servesD:
  assumes "serves cs secrets pods"
  shows "secrets w \<lparr>nn_Namespace = ns, nn_Name = n\<rparr> = Some s \<Longrightarrow> cs_GetSecret cs ns n w = (Ok s, w)"
    and "pods w \<lparr>nn_Namespace = ns, nn_Name = n\<rparr> = Some p \<Longrightarrow> cs_GetPod cs ns n w = (Ok p, w)"
    and "pods w \<lparr>nn_Namespace = ns, nn_Name = n\<rparr> = Some p \<Longrightarrow> add_annotations ps (om_Annotations (pod_Meta p)) = Some an \<Longrightarrow>
      \<exists>w'. cs_PatchPod cs ns n \<lparr>patch_Type = JSONPatchType, patch_Data = render (JArr (map enc_patch ps))\<rparr> w
             = (Ok (p\<lparr>pod_Meta := (pod_Meta p)\<lparr>om_Annotations := an\<rparr>\<rparr>), w')
           \<and> pods w' \<lparr>nn_Namespace = ns, nn_Name = n\<rparr> = Some (p\<lparr>pod_Meta := (pod_Meta p)\<lparr>om_Annotations := an\<rparr>\<rparr>)"
  using assms by (auto simp: serves_def)

lemma version_payload_applies:
  "\<exists>m. add_annotations (version_payload p v) (om_Annotations (pod_Meta p)) = Some (Some m)
     \<and> map_of m podAnnotationAgentVersion = Some (int_text v)"
  by (cases "om_Annotations (pod_Meta p)")
    (auto simp: version_payload_def replace_slashes_def mongodbAgentVersionAnnotation_def podAnnotationAgentVersion_def)

lemma PatchPodAnnotation_publishes:
  assumes "serves cs secrets pods" and "pods w \<lparr>nn_Namespace = ns, nn_Name = n\<rparr> = Some p"
  obtains w' p' where "PatchPodAnnotation ns v n cs w = (Ok (), w')" and "pods w' \<lparr>nn_Namespace = ns, nn_Name = n\<rparr> = Some p'"
    and "map_of (entries (om_Annotations (pod_Meta p'))) podAnnotationAgentVersion = Some (int_text v)"
proof -
  obtain m where m: "add_annotations (version_payload p v) (om_Annotations (pod_Meta p)) = Some (Some m)"
    "map_of m podAnnotationAgentVersion = Some (int_text v)" using version_payload_applies by blast
  from servesD(3) [OF assms m(1)] servesD(2) [OF assms] m(2) that show ?thesis
    by (fastforce simp: PatchPodAnnotation_def patchPod_def on_result_def)
qed

lemma version_of_config:
  assumes "wf_ac ac" and "\<And>v. cast_ToInt64 (JInt v) = v"
    and "serves cs secrets pods" and "secrets w \<lparr>nn_Namespace = ns, nn_Name = n\<rparr> = Some s"
    and "map_of (entries (s_Data s)) ''cluster-config.json'' = Some (marshal_ac ac)"
  shows "ReadAutomationConfigVersionFromSecret cast_ToInt64 ns cs n w = (Ok (ac_Version ac), w)"
proof -
  have "\<exists>kvs. parse (marshal_ac ac) = Some (JObj kvs) \<and> map_of (put_all [] kvs) ''version'' = Some (JInt (ac_Version ac))"
    using parse_render [OF wf_enc_ac [OF assms(1)]]
    by (auto simp: marshal_ac_def enc_ac_def put_all_def map_of_put_all_gen omitempty_def map_of_append)
  then show ?thesis
    using servesD(1) [OF assms(3,4)] assms(2,5)
    by (auto simp: ReadAutomationConfigVersionFromSecret_def ReadSecret_def on_result_def unmarshal_object_def)
qed

text \<open>
  C17. The probe and the operator agree: when the configuration secret holds a configuration of
  the operator, the headless check publishes the version the agent has reached, and it reports
  the goal state exactly when the operator, reading the pod it left behind, finds that the agent
  has reached the version of that configuration.
\<close>

theorem headless_check_agrees_with_operator:
  assumes "serves (conf_ClientSet conf) secrets pods"
    and "secrets w \<lparr>nn_Namespace = conf_Namespace conf, nn_Name = conf_AutomationConfigSecretName conf\<rparr> = Some s"
    and "map_of (entries (s_Data s)) ''cluster-config.json'' = Some (marshal_ac ac)" and "wf_ac ac"
    and "pods w \<lparr>nn_Namespace = conf_Namespace conf, nn_Name = conf_Hostname conf\<rparr> = Some p"
    and "\<And>v. cast_ToInt64 (JInt v) = v" and "\<And>v. cast_ToInt (int_text v) = v"
  shows "\<exists>b w' p'. PerformCheckHeadlessMode it cast_ToInt64 health conf w = (Ok b, w')
    \<and> pods w' \<lparr>nn_Namespace = conf_Namespace conf, nn_Name = conf_Hostname conf\<rparr> = Some p'
    \<and> (b \<longleftrightarrow> ReachedGoalState cast_ToInt p' (ac_Version ac))"
proof -
  note version = version_of_config [OF assms(4,6,1,2,3)]
  obtain w' p' where "PatchPodAnnotation (conf_Namespace conf) (readCurrentAgentInfo it health (ac_Version ac))
      (conf_Hostname conf) (conf_ClientSet conf) w = (Ok (), w')"
    "pods w' \<lparr>nn_Namespace = conf_Namespace conf, nn_Name = conf_Hostname conf\<rparr> = Some p'"
    "map_of (entries (om_Annotations (pod_Meta p'))) podAnnotationAgentVersion =
      Some (int_text (readCurrentAgentInfo it health (ac_Version ac)))"
    by (rule PatchPodAnnotation_publishes [OF assms(1,5)])
  then show ?thesis
    using version assms(7) by (auto simp: PerformCheckHeadlessMode_def on_result_def Let_def ReachedGoalState_def)
qed

text \<open>A cluster in memory that has these properties: one configuration secret and a map of pods.\<close>

definition memory_clientset :: "secret \<Rightarrow> (nsname \<Rightarrow> pod option) clientset" where
  "memory_clientset s =
     \<lparr>cs_GetSecret = (\<lambda>ns n. ret s),
      cs_GetPod = (\<lambda>ns n w. case w \<lparr>nn_Namespace = ns, nn_Name = n\<rparr> of None \<Rightarrow> (Fail (NotFound n), w) | Some p \<Rightarrow> (Ok p, w)),
      cs_PatchPod = (\<lambda>ns n patch w.
        case (w \<lparr>nn_Namespace = ns, nn_Name = n\<rparr>, Option.bind (parse (patch_Data patch)) (\<lambda>j. dec_list dec_patch (Some j))) of
          (Some p, Some ps) \<Rightarrow>
            (case add_annotations ps (om_Annotations (pod_Meta p)) of
               Some an \<Rightarrow> (let p' = p\<lparr>pod_Meta := (pod_Meta p)\<lparr>om_Annotations := an\<rparr>\<rparr>
                           in (Ok p', w(\<lparr>nn_Namespace = ns, nn_Name = n\<rparr> \<mapsto> p')))
             | None \<Rightarrow> (Fail (Err ''invalid patch''), w))
        | _ \<Rightarrow> (Fail (NotFound n), w))\<rparr>"

lemma add_annotations_wf: "add_annotations ps an = Some an' \<Longrightarrow> \<forall>p \<in> set ps. wf_json (pv_Value p)"
  by (induction ps an rule: add_annotations.induct) (auto split: if_splits json.splits option.splits)

lemma memory_clientset_serves: "serves (memory_clientset s) (\<lambda>_ _. Some s) (\<lambda>w. w)"
  unfolding serves_def
proof (intro conjI allI impI)
  fix ns n and w :: "nsname \<Rightarrow> pod option" and p ps an
  assume p: "w \<lparr>nn_Namespace = ns, nn_Name = n\<rparr> = Some p \<and> add_annotations ps (om_Annotations (pod_Meta p)) = Some an"
  then have "parse (render (JArr (map enc_patch ps))) = Some (JArr (map enc_patch ps))"
    by (intro parse_render wf_enc_patches) (auto dest: add_annotations_wf)
  with p show "\<exists>w'. cs_PatchPod (memory_clientset s) ns n
        \<lparr>patch_Type = JSONPatchType, patch_Data = render (JArr (map enc_patch ps))\<rparr> w
        = (Ok (p\<lparr>pod_Meta := (pod_Meta p)\<lparr>om_Annotations := an\<rparr>\<rparr>), w')
      \<and> w' \<lparr>nn_Namespace = ns, nn_Name = n\<rparr> = Some (p\<lparr>pod_Meta := (pod_Meta p)\<lparr>om_Annotations := an\<rparr>\<rparr>)"
    by (simp add: memory_clientset_def dec_list_same Let_def del: render.simps)
qed (simp_all add: memory_clientset_def)

definition example_cast :: "json \<Rightarrow> int" where
  "example_cast j = (case j of JNum n \<Rightarrow> (case int_of_literal n of Some i \<Rightarrow> i | None \<Rightarrow> 0) | _ \<Rightarrow> 0)"

lemma example_cast_int [simp]: "example_cast (JNum (int_text v)) = v"
  by (simp add: example_cast_def)

theorem headless_check_agrees_with_operator_witness:
  "\<exists>conf b w' p'. PerformCheckHeadlessMode rev example_cast \<lparr>hs_Healthiness = [(''db-0'', example_process)], hs_ProcessPlans = []\<rparr>
      conf (\<lambda>n. if n = \<lparr>nn_Namespace = ''ns'', nn_Name = ''db-0''\<rparr> then Some \<lparr>pod_Meta = empty_meta\<rparr> else None) = (Ok b, w')
    \<and> w' \<lparr>nn_Namespace = ''ns'', nn_Name = ''db-0''\<rparr> = Some p'
    \<and> (b \<longleftrightarrow> ReachedGoalState (\<lambda>v. example_cast (JNum v)) p' (ac_Version empty_ac))"
proof -
  define s where "s = \<lparr>s_Meta = empty_meta, s_Data = Some [(''cluster-config.json'', marshal_ac empty_ac)]\<rparr>"
  define conf where "conf = \<lparr>conf_ClientSet = memory_clientset s, conf_Namespace = ''ns'', conf_Hostname = ''db-0'',
    conf_AutomationConfigSecretName = ''db-config'', conf_HealthStatusReader = ret '''', conf_LogFilePath = ''''\<rparr>"
  let ?w = "\<lambda>n. if n = \<lparr>nn_Namespace = ''ns'', nn_Name = ''db-0''\<rparr> then Some \<lparr>pod_Meta = empty_meta\<rparr> else None"
  have "\<exists>b w' p'. PerformCheckHeadlessMode rev example_cast \<lparr>hs_Healthiness = [(''db-0'', example_process)], hs_ProcessPlans = []\<rparr>
      conf ?w = (Ok b, w')
    \<and> w' \<lparr>nn_Namespace = conf_Namespace conf, nn_Name = conf_Hostname conf\<rparr> = Some p'
    \<and> (b \<longleftrightarrow> ReachedGoalState (\<lambda>v. example_cast (JNum v)) p' (ac_Version empty_ac))"
    by (rule headless_check_agrees_with_operator [where secrets = "\<lambda>_ _. Some s" and pods = "\<lambda>w. w" and s = s
          and p = "\<lparr>pod_Meta = empty_meta\<rparr>"])
      (simp_all add: conf_def memory_clientset_serves s_def wf_empty_ac JInt_def)
  then have "\<exists>b w' p'. PerformCheckHeadlessMode rev example_cast \<lparr>hs_Healthiness = [(''db-0'', example_process)], hs_ProcessPlans = []\<rparr>
      conf ?w = (Ok b, w')
    \<and> w' \<lparr>nn_Namespace = ''ns'', nn_Name = ''db-0''\<rparr> = Some p'
    \<and> (b \<longleftrightarrow> ReachedGoalState (\<lambda>v. example_cast (JNum v)) p' (ac_Version empty_ac))" by (simp add: conf_def)
  then show ?thesis by blast
qed

text \<open>
  A configuration without a version is not an error: the version read is then -1, which is also
  what an agent without plans that is not in goal state reports, so the probe takes that agent to
  be in goal state.
\<close>

theorem missing_version_is_goal_state:
  assumes "serves (conf_ClientSet conf) secrets pods"
    and "secrets w \<lparr>nn_Namespace = conf_Namespace conf, nn_Name = conf_AutomationConfigSecretName conf\<rparr> = Some s"
    and "map_of (entries (s_Data s)) ''cluster-config.json'' = Some data"
    and "unmarshal_object data = Ok kvs" and "map_of kvs ''version'' = None"
    and "pods w \<lparr>nn_Namespace = conf_Namespace conf, nn_Name = conf_Hostname conf\<rparr> = Some p"
    and "valid_order it" and "hs_ProcessPlans health = []" and "hs_Healthiness health = [(host, ph)]" and "\<not> ph_IsInGoalState ph"
  shows "\<exists>w'. PerformCheckHeadlessMode it cast_ToInt64 health conf w = (Ok True, w')"
proof -
  have "ReadAutomationConfigVersionFromSecret cast_ToInt64 (conf_Namespace conf) (conf_ClientSet conf)
      (conf_AutomationConfigSecretName conf) w = (Ok (-1), w)"
    using servesD(1) [OF assms(1,2)] assms(3-5)
    by (simp add: ReadAutomationConfigVersionFromSecret_def ReadSecret_def on_result_def)
  moreover have "readCurrentAgentInfo it health (-1) = -1"
    using assms(7-10) by (simp add: readCurrentAgentInfo_def range_values_single)
  moreover obtain w' where "PatchPodAnnotation (conf_Namespace conf) (-1) (conf_Hostname conf) (conf_ClientSet conf) w = (Ok (), w')"
    by (rule PatchPodAnnotation_publishes [OF assms(1,6)])
  ultimately show ?thesis by (simp add: PerformCheckHeadlessMode_def on_result_def Let_def)
qed

theorem missing_version_is_goal_state_witness:
  "\<exists>conf w'. PerformCheckHeadlessMode rev example_cast
      \<lparr>hs_Healthiness = [(''db-0'', example_process\<lparr>ph_IsInGoalState := False\<rparr>)], hs_ProcessPlans = []\<rparr> conf
      (\<lambda>n :: nsname. Some \<lparr>pod_Meta = empty_meta\<rparr>) = (Ok True, w')"
proof -
  define s where "s = \<lparr>s_Meta = empty_meta, s_Data = Some [(''cluster-config.json'', render (JObj []))]\<rparr>"
  define conf where "conf = \<lparr>conf_ClientSet = memory_clientset s, conf_Namespace = ''ns'', conf_Hostname = ''db-0'',
    conf_AutomationConfigSecretName = ''db-config'', conf_HealthStatusReader = ret '''', conf_LogFilePath = ''''\<rparr>"
  have u: "unmarshal_object (render (JObj [])) = Ok []"
    using parse_render [of "JObj []"] by (simp add: unmarshal_object_def put_all_def del: render.simps)
  have "\<exists>w'. PerformCheckHeadlessMode rev example_cast
      \<lparr>hs_Healthiness = [(''db-0'', example_process\<lparr>ph_IsInGoalState := False\<rparr>)], hs_ProcessPlans = []\<rparr> conf
      (\<lambda>n :: nsname. Some \<lparr>pod_Meta = empty_meta\<rparr>) = (Ok True, w')"
    by (rule missing_version_is_goal_state [where secrets = "\<lambda>_ _. Some s" and pods = "\<lambda>w. w" and s = s
          and p = "\<lparr>pod_Meta = empty_meta\<rparr>" and host = "''db-0''" and ph = "example_process\<lparr>ph_IsInGoalState := False\<rparr>", OF _ _ _ u])
      (simp_all add: conf_def memory_clientset_serves s_def)
  then show ?thesis by blast
qed

section \<open>The decision of the probe\<close>

text \<open>The entry that a loop over a map visits first.\<close>

definition first_visited :: "iter_order \<Rightarrow> 'v gomap \<Rightarrow> 'v option" where
  "first_visited it m = (if m = [] then None else map_of m (hd (it (map fst m))))"

lemma range_values_first:
  assumes "valid_order it"
  shows "range_values it m = [] \<longleftrightarrow> m = []" and "m \<noteq> [] \<Longrightarrow> first_visited it m = Some (hd (range_values it m))"
    and "set (range_values it m) = {v. \<exists>k. map_of m k = Some v}"
proof -
  from assms have "mset (it (map fst m)) = mset (map fst m)" by (simp add: valid_order_def)
  then have keys: "set (it (map fst m)) = fst ` set m" by (metis list.set_map set_mset_mset)
  have "map_of m k \<noteq> None" if "k \<in> set (it (map fst m))" for k using that by (simp add: keys map_of_eq_None_iff)
  then have r: "range_values it m = map (\<lambda>k. the (map_of m k)) (it (map fst m))"
    by (simp add: range_values_def List.map_filter_def filter_id_conv)
  have e: "it (map fst m) = [] \<longleftrightarrow> m = []" using keys by (metis image_is_empty set_empty)
  show "range_values it m = [] \<longleftrightarrow> m = []" by (simp add: r e)
  show "set (range_values it m) = {v. \<exists>k. map_of m k = Some v}"
    unfolding r set_map keys dom_map_of_conv_image_fst [symmetric] by (auto intro!: image_eqI)
  assume "m \<noteq> []"
  then have "hd (it (map fst m)) \<in> set (it (map fst m))" using e by simp
  then have "map_of m (hd (it (map fst m))) \<noteq> None" by (simp add: keys map_of_eq_None_iff)
  then show "first_visited it m = Some (hd (range_values it m))"
    using \<open>m \<noteq> []\<close> e by (simp add: first_visited_def r hd_map)
qed

text \<open>
  The server is ready: nothing is known of it, it is not meant to be up, or it was up within the last
  minute with a replication state that can serve. The version the agent has reached: the one of its
  plans or, before it has plans, the wanted one when it says that it is in goal state.
\<close>

definition server_ready :: "iter_order \<Rightarrow> int \<Rightarrow> health_status \<Rightarrow> bool" where
  "server_ready it now h = (case first_visited it (hs_Healthiness h) of
     None \<Rightarrow> True
   | Some ph \<Rightarrow> ph_ExpectedToBeUp ph \<longrightarrow> now - 1000000000 * ph_LastMongoUpTime ph < 60 * 1000000000
       \<and> ph_ReplicaStatus ph \<in> {None, Some replicationStatusUndefined, Some replicationStatusPrimary, Some replicationStatusSecondary})"

definition agent_version :: "iter_order \<Rightarrow> health_status \<Rightarrow> int \<Rightarrow> int" where
  "agent_version it h target = (case first_visited it (hs_ProcessPlans h) of
     Some v \<Rightarrow> mms_LastGoalStateClusterConfigVersion v
   | None \<Rightarrow> (case first_visited it (hs_Healthiness h) of
       Some ph \<Rightarrow> if ph_IsInGoalState ph then target else -1
     | None \<Rightarrow> target))"

lemma isInReadyState_eq:
  assumes "valid_order it"
  shows "isInReadyState it now h = server_ready it now h"
proof (cases "range_values it (hs_Healthiness h)")
  case Nil
  then show ?thesis using range_values_first(1) [OF assms, of "hs_Healthiness h"]
    by (simp add: isInReadyState_def server_ready_def first_visited_def)
next
  case (Cons ph phs)
  then have "hs_Healthiness h \<noteq> []" using range_values_first(1) [OF assms, of "hs_Healthiness h"] by auto
  moreover have "IsReadyState ph \<longleftrightarrow> ph_ReplicaStatus ph \<in>
      {None, Some replicationStatusUndefined, Some replicationStatusPrimary, Some replicationStatusSecondary}"
    by (auto simp: IsReadyState_def split: option.splits)
  ultimately show ?thesis
    using Cons range_values_first(2) [OF assms, of "hs_Healthiness h"] by (auto simp: isInReadyState_def server_ready_def)
qed

lemma readCurrentAgentInfo_eq:
  assumes "valid_order it"
  shows "readCurrentAgentInfo it h target = agent_version it h target"
  using range_values_first(1,2) [OF assms, of "hs_ProcessPlans h"] range_values_first(1,2) [OF assms, of "hs_Healthiness h"]
  by (auto simp: readCurrentAgentInfo_def agent_version_def first_visited_def split: list.split)

lemma headless_check:
  assumes "valid_order it" and "serves (conf_ClientSet conf) secrets pods"
    and "secrets w \<lparr>nn_Namespace = conf_Namespace conf, nn_Name = conf_AutomationConfigSecretName conf\<rparr> = Some s"
    and "map_of (entries (s_Data s)) ''cluster-config.json'' = Some (marshal_ac ac)" and "wf_ac ac"
    and "pods w \<lparr>nn_Namespace = conf_Namespace conf, nn_Name = conf_Hostname conf\<rparr> = Some p" and "\<And>v. cast_ToInt64 (JInt v) = v"
  obtains w' p' where "PerformCheckHeadlessMode it cast_ToInt64 h conf w = (Ok (agent_version it h (ac_Version ac) = ac_Version ac), w')"
    and "pods w' \<lparr>nn_Namespace = conf_Namespace conf, nn_Name = conf_Hostname conf\<rparr> = Some p'"
    and "map_of (entries (om_Annotations (pod_Meta p'))) podAnnotationAgentVersion = Some (int_text (agent_version it h (ac_Version ac)))"
proof -
  note version = version_of_config [OF assms(5,7,2-4)]
  obtain w' p' where patch: "PatchPodAnnotation (conf_Namespace conf) (agent_version it h (ac_Version ac))
      (conf_Hostname conf) (conf_ClientSet conf) w = (Ok (), w')"
    and p': "pods w' \<lparr>nn_Namespace = conf_Namespace conf, nn_Name = conf_Hostname conf\<rparr> = Some p'"
    "map_of (entries (om_Annotations (pod_Meta p'))) podAnnotationAgentVersion = Some (int_text (agent_version it h (ac_Version ac)))"
    by (rule PatchPodAnnotation_publishes [OF assms(2,6)])
  have "PerformCheckHeadlessMode it cast_ToInt64 h conf w = (Ok (agent_version it h (ac_Version ac) = ac_Version ac), w')"
    using version patch
    by (auto simp: PerformCheckHeadlessMode_def on_result_def [of "ReadAutomationConfigVersionFromSecret _ _ _ _"] readCurrentAgentInfo_eq [OF assms(1)] Let_def)
      (auto simp: on_result_def)
  with p' that show ?thesis by blast
qed

text \<open>
  C16. The decision of the readiness probe, in both of its modes, for a health file about any number of
  processes in which no plan, move or step is nil. With the headless agent that the operator
  deploys, the agent has reached its goal exactly when the version it reports is the one of the
  configuration in the operator's secret, and the probe also writes that version to the pod; with
  an agent of Ops Manager, the goal is reached when some process says so, and no process at all
  counts as ready. When the goal is reached, the pod is ready exactly when the server is; when it is
  not, exactly when the agent is stuck waiting for other members for more than fifteen seconds.
\<close>

theorem isPodReady_decision:
  assumes "valid_order it" and "conf_HealthStatusReader conf w = (Ok data, w1)" and "unmarshal_health True data = Ok h" and "nil_free h"
    and "isHeadlessMode env \<longrightarrow> serves (conf_ClientSet conf) secrets pods \<and> wf_ac ac
      \<and> secrets w1 \<lparr>nn_Namespace = conf_Namespace conf, nn_Name = conf_AutomationConfigSecretName conf\<rparr> = Some s
      \<and> map_of (entries (s_Data s)) ''cluster-config.json'' = Some (marshal_ac ac)
      \<and> pods w1 \<lparr>nn_Namespace = conf_Namespace conf, nn_Name = conf_Hostname conf\<rparr> = Some p"
    and "\<And>v. cast_ToInt64 (JInt v) = v"
  shows "\<exists>w'. isPodReady env it cast_ToInt64 now1 now2 conf w =
      (Ok (if isHeadlessMode env
           then (if agent_version it h (ac_Version ac) = ac_Version ac then server_ready it now1 h else stuck now2 h)
           else hs_Healthiness h = []
             \<or> (if \<exists>k ph. map_of (hs_Healthiness h) k = Some ph \<and> ph_IsInGoalState ph then server_ready it now1 h else stuck now2 h)), w')
    \<and> (if isHeadlessMode env
       then \<exists>p'. pods w' \<lparr>nn_Namespace = conf_Namespace conf, nn_Name = conf_Hostname conf\<rparr> = Some p'
         \<and> map_of (entries (om_Annotations (pod_Meta p'))) ''agent.mongodb.com/version'' = Some (int_text (agent_version it h (ac_Version ac)))
       else w' = w1)"
proof -
  have parse: "parseHealthStatus (conf_HealthStatusReader conf) w = (Ok h, w1)"
    using assms(2,3) by (simp add: parseHealthStatus_def on_result_def)
  have decide: "(let inReadyState = isInReadyState it now1 h in if b \<and> inReadyState then ret True else if b then ret False
      else on_result (pure_out (hasDeadlockedSteps now2 h)) fail ret) w' = (Ok (if b then server_ready it now1 h else stuck now2 h), w')" for b w'
    using hasDeadlockedSteps_eq [OF assms(4), of now2] by (simp add: isInReadyState_eq [OF assms(1)] on_result_def)
  show ?thesis
  proof (cases "isHeadlessMode env")
    case True
    with assms(5) obtain w' p' where c: "PerformCheckHeadlessMode it cast_ToInt64 h conf w1 = (Ok (agent_version it h (ac_Version ac) = ac_Version ac), w')"
      and p': "pods w' \<lparr>nn_Namespace = conf_Namespace conf, nn_Name = conf_Hostname conf\<rparr> = Some p'"
      "map_of (entries (om_Annotations (pod_Meta p'))) podAnnotationAgentVersion = Some (int_text (agent_version it h (ac_Version ac)))"
      using headless_check [OF assms(1) _ _ _ _ _ assms(6), of conf secrets pods w1 s ac p h] by blast
    have "isPodReady env it cast_ToInt64 now1 now2 conf w =
        (Ok (if agent_version it h (ac_Version ac) = ac_Version ac then server_ready it now1 h else stuck now2 h), w')"
      using True parse c decide [of "agent_version it h (ac_Version ac) = ac_Version ac" w']
      by (simp add: isPodReady_def isInGoalState_def on_result_def)
    with True p' show ?thesis by (intro exI [of _ w']) (auto simp: podAnnotationAgentVersion_def)
  next
    case False
    have goal: "performCheckOMMode (range_values it (hs_Healthiness h)) \<longleftrightarrow> (\<exists>k ph. map_of (hs_Healthiness h) k = Some ph \<and> ph_IsInGoalState ph)"
      unfolding performCheckOMMode_iff range_values_first(3) [OF assms(1)] by blast
    let ?b = "performCheckOMMode (range_values it (hs_Healthiness h))"
    have "isPodReady env it cast_ToInt64 now1 now2 conf w
        = (Ok (hs_Healthiness h = [] \<or> (if ?b then server_ready it now1 h else stuck now2 h)), w1)"
      using False parse hasDeadlockedSteps_eq [OF assms(4), of now2]
      by (cases ?b) (simp_all add: isPodReady_def isInGoalState_def on_result_def isInReadyState_eq [OF assms(1)] Let_def)
    then have "isPodReady env it cast_ToInt64 now1 now2 conf w = (Ok (hs_Healthiness h = []
             \<or> (if \<exists>k ph. map_of (hs_Healthiness h) k = Some ph \<and> ph_IsInGoalState ph then server_ready it now1 h else stuck now2 h)), w1)"
      unfolding goal .
    with False show ?thesis by simp
  qed
qed

theorem isPodReady_decision_witness:
  "\<exists>conf w'. isPodReady (map_of [(''HEADLESS_AGENT'', ''true'')]) rev example_cast (120 * 1000000000) (120 * 1000000000) conf
      (\<lambda>n :: nsname. Some \<lparr>pod_Meta = empty_meta\<rparr>) = (Ok True, w')
    \<and> (\<exists>p'. w' \<lparr>nn_Namespace = ''ns'', nn_Name = ''db-0''\<rparr> = Some p'
        \<and> map_of (entries (om_Annotations (pod_Meta p'))) ''agent.mongodb.com/version'' = Some (int_text 0))"
proof -
  define s where "s = \<lparr>s_Meta = empty_meta, s_Data = Some [(''cluster-config.json'', marshal_ac empty_ac)]\<rparr>"
  define conf where "conf = \<lparr>conf_ClientSet = memory_clientset s, conf_Namespace = ''ns'', conf_Hostname = ''db-0'',
    conf_AutomationConfigSecretName = ''db-config'', conf_HealthStatusReader = ret (render example_health), conf_LogFilePath = ''''\<rparr>"
  let ?h = "\<lparr>hs_Healthiness = [(''db-0'', example_process)], hs_ProcessPlans = []\<rparr>" and ?env = "map_of [(''HEADLESS_AGENT'', ''true'')]"
  have first: "first_visited rev (hs_Healthiness ?h) = Some example_process" "first_visited rev (hs_ProcessPlans ?h) = None"
    by (simp_all add: first_visited_def)
  have v: "agent_version rev ?h (ac_Version empty_ac) = 0" unfolding agent_version_def first
    by (simp add: example_process_def empty_ac_def)
  have r: "server_ready rev (120 * 1000000000) ?h" unfolding server_ready_def first
    by (simp add: example_process_def replicationStatusPrimary_def)
  have h: "isHeadlessMode ?env" by (simp add: isHeadlessMode_def getenv_def)
  have u: "conf_HealthStatusReader conf (\<lambda>n :: nsname. Some \<lparr>pod_Meta = empty_meta\<rparr>) = (Ok (render example_health), \<lambda>n. Some \<lparr>pod_Meta = empty_meta\<rparr>)"
    by (simp add: conf_def)
  have s: "serves (conf_ClientSet conf) (\<lambda>_ _. Some s) (\<lambda>w. w)" "map_of (entries (s_Data s)) ''cluster-config.json'' = Some (marshal_ac empty_ac)"
    by (simp_all add: conf_def memory_clientset_serves) (simp add: s_def)
  have "nil_free ?h" by (simp add: nil_free_def)
  from isPodReady_decision [OF valid_order_rev u unmarshal_example_health this, of ?env "\<lambda>_ _. Some s" "\<lambda>w. w" empty_ac s "\<lparr>pod_Meta = empty_meta\<rparr>"
      example_cast "120 * 1000000000" "120 * 1000000000"] s wf_empty_ac
  obtain w' p' where "isPodReady ?env rev example_cast (120 * 1000000000) (120 * 1000000000) conf (\<lambda>n :: nsname. Some \<lparr>pod_Meta = empty_meta\<rparr>) = (Ok True, w')"
    "w' \<lparr>nn_Namespace = conf_Namespace conf, nn_Name = conf_Hostname conf\<rparr> = Some p'"
    "map_of (entries (om_Annotations (pod_Meta p'))) ''agent.mongodb.com/version'' = Some (int_text 0)"
    using v r h by (auto simp: JInt_def empty_ac_def)
  then show ?thesis by (intro exI [of _ conf] exI [of _ w']) (simp add: conf_def)
qed

end
