(* ===== verification/VersionHook.thy ===== *)
theory VersionHook
  imports Health Util Kube_Client
begin

text \<open>
  \<open>cmd/versionhook\<close>: the program that runs before mongod starts and deletes its own pod when the
  agent is changing the version of mongod, so that the pod comes back with the new image. The
  file system, the ticker and the cluster are arguments; the waiting loop is modelled with the
  time that has passed, in nanoseconds, and its termination is proved.
\<close>

section \<open>Reading the health file\<close>

definition readAgentHealthStatus :: "('w \<Rightarrow> string outcome \<times> 'w) \<Rightarrow> 'w \<Rightarrow> health_status outcome \<times> 'w" where
  "readAgentHealthStatus reader = on_result reader fail (\<lambda>data. pure_out (unmarshal_health False data))"

definition getAgentHealthStatus ::
    "environment \<Rightarrow> (string \<Rightarrow> 'w \<Rightarrow> ('w \<Rightarrow> string outcome \<times> 'w) outcome \<times> 'w) \<Rightarrow> 'w \<Rightarrow> health_status outcome \<times> 'w" where
  "getAgentHealthStatus env open_file =
     on_result (open_file (getenv env ''AGENT_STATUS_FILEPATH'')) (\<lambda>err. fail (errorf ''could not open file: '' err)) (\<lambda>f.
       on_result (readAgentHealthStatus f) (\<lambda>err. fail (errorf ''could not read health status file: '' err)) ret)"

definition getHostname :: "environment \<Rightarrow> string" where
  "getHostname env = getenv env ''HOSTNAME''"

section \<open>Waiting for the agent\<close>

definition pollingInterval :: int where "pollingInterval = 1000000000"
definition pollingDuration :: int where "pollingDuration = 60 * 1000000000"

text \<open>One round of the loop after a tick: \<open>None\<close> means to go on.\<close>

definition poll_once ::
    "environment \<Rightarrow> ('w \<Rightarrow> health_status outcome \<times> 'w) \<Rightarrow> 'w \<Rightarrow> health_status option outcome \<times> 'w" where
  "poll_once env get =
     on_result get fail (\<lambda>health.
       case map_of (hs_Healthiness health) (getHostname env) of
         None \<Rightarrow> fail (Err (''couldn't find status for hostname '' @ getHostname env))
       | Some status \<Rightarrow> if \<not> ph_IsInGoalState status then ret (Some health) else ret None)"

definition not_ready :: error where
  "not_ready = Err (''agent health status not ready after waiting '' @ ''1m0s'')"

function poll_loop ::
    "environment \<Rightarrow> ('w \<Rightarrow> 'w) \<Rightarrow> ('w \<Rightarrow> health_status outcome \<times> 'w) \<Rightarrow> int \<Rightarrow> 'w \<Rightarrow> health_status outcome \<times> 'w" where
  "poll_loop env tick get totalTime w =
     (let w1 = tick w
      in if totalTime > pollingDuration then (Fail not_ready, w1)
         else on_result (poll_once env get) fail (\<lambda>r. case r of
                  Some health \<Rightarrow> ret health
                | None \<Rightarrow> poll_loop env tick get (totalTime + pollingInterval)) w1)"
  by pat_completeness auto
termination
  by (relation "measure (\<lambda>(env, tick, get, t, w). nat (pollingDuration + 1 - t))")
    (auto simp: pollingDuration_def pollingInterval_def)

declare poll_loop.simps [simp del]

definition waitForAgentHealthStatus ::
    "environment \<Rightarrow> ('w \<Rightarrow> 'w) \<Rightarrow> ('w \<Rightarrow> health_status outcome \<times> 'w) \<Rightarrow> 'w \<Rightarrow> health_status outcome \<times> 'w" where
  "waitForAgentHealthStatus env tick get = poll_loop env tick get 0"

section \<open>Deciding and deleting\<close>

text \<open>The loop over the moves of the last plan; a nil move panics.\<close>

fun changes_version :: "move_status option list \<Rightarrow> bool outcome" where
  "changes_version [] = Ok False"
| "changes_version (m # ms) =
     (case m of None \<Rightarrow> Panic NilDeref
      | Some mv \<Rightarrow> if move_Move mv = ''ChangeVersion'' then Ok True else changes_version ms)"

definition isWaitingToBeDeleted :: "mms_director_status \<Rightarrow> bool outcome" where
  "isWaitingToBeDeleted healthStatus =
     (if mms_Plans healthStatus = [] then Ok False
      else case last (mms_Plans healthStatus) of
             None \<Rightarrow> Panic NilDeref
           | Some lastPlan \<Rightarrow> changes_version (plan_Moves lastPlan))"

definition shouldDeletePod :: "environment \<Rightarrow> health_status \<Rightarrow> bool outcome" where
  "shouldDeletePod env health =
     (case map_of (hs_ProcessPlans health) (getHostname env) of
        None \<Rightarrow> Fail (Err (''hostname '' @ getHostname env @ '' was not in the process plans''))
      | Some status \<Rightarrow> isWaitingToBeDeleted status)"

definition getNamespace :: "('w \<Rightarrow> string outcome \<times> 'w) \<Rightarrow> 'w \<Rightarrow> string outcome \<times> 'w" where
  "getNamespace read_namespace_file =
     on_result read_namespace_file fail (\<lambda>data.
       let ns = trim_space data in if length ns > 0 then ret ns else ret ''default'')"

definition getThisPod :: "environment \<Rightarrow> ('w \<Rightarrow> string outcome \<times> 'w) \<Rightarrow> 'w \<Rightarrow> pod outcome \<times> 'w" where
  "getThisPod env read_namespace_file =
     (let podName = getHostname env
      in if podName = '''' then fail (Err ''environment variable HOSTNAME was not present'')
         else on_result (getNamespace read_namespace_file) (\<lambda>err. fail (errorf ''could not read namespace: '' err)) (\<lambda>ns.
           ret \<lparr>pod_Meta = empty_meta\<lparr>om_Name := podName, om_Namespace := ns\<rparr>\<rparr>))"

definition inClusterClient ::
    "('w \<Rightarrow> 'c outcome \<times> 'w) \<Rightarrow> ('c \<Rightarrow> 'w \<Rightarrow> 'w kclient outcome \<times> 'w) \<Rightarrow> 'w \<Rightarrow> 'w kclient outcome \<times> 'w" where
  "inClusterClient InClusterConfig client_New =
     on_result InClusterConfig (\<lambda>err. fail (errorf ''could not get cluster config: '' err)) (\<lambda>config.
       on_result (client_New config) (\<lambda>err. fail (errorf ''could not create client: '' err)) ret)"

definition deletePod ::
    "environment \<Rightarrow> ('w \<Rightarrow> string outcome \<times> 'w) \<Rightarrow> ('w \<Rightarrow> 'w kclient outcome \<times> 'w) \<Rightarrow> 'w \<Rightarrow> unit outcome \<times> 'w" where
  "deletePod env read_namespace_file get_client =
     on_result (getThisPod env read_namespace_file) (\<lambda>err. fail (errorf ''could not get pod: '' err)) (\<lambda>thisPod.
     on_result get_client (\<lambda>err. fail (errorf ''could not get client: '' err)) (\<lambda>k8sClient.
     on_result (kDelete k8sClient (PodObj thisPod)) (\<lambda>err. fail (errorf ''could not delete pod: '' err)) ret))"

text \<open>
  How the hook ends: it returns and mongod starts, it exits because the environment is
  incomplete, or it waits for the pod to be killed and never returns.
\<close>

datatype hook_end = MongodStarts | FatalExit | WaitsForever | HookPanic panic

text \<open>The logger: an error of zap ends the process.\<close>

definition setupLogger :: "('w \<Rightarrow> unit outcome \<times> 'w) \<Rightarrow> ('w \<Rightarrow> hook_end \<times> 'w) \<Rightarrow> 'w \<Rightarrow> hook_end \<times> 'w" where
  "setupLogger NewDevelopment k w = (case NewDevelopment w of
      (Ok _, w') \<Rightarrow> k w'
    | (Fail err, w') \<Rightarrow> (FatalExit, w')
    | (Panic p, w') \<Rightarrow> (HookPanic p, w'))"

definition hook_main ::
    "environment \<Rightarrow> ('w \<Rightarrow> unit outcome \<times> 'w) \<Rightarrow> ('w \<Rightarrow> 'w) \<Rightarrow> (string \<Rightarrow> 'w \<Rightarrow> ('w \<Rightarrow> string outcome \<times> 'w) outcome \<times> 'w)
      \<Rightarrow> ('w \<Rightarrow> string outcome \<times> 'w) \<Rightarrow> ('w \<Rightarrow> 'c outcome \<times> 'w) \<Rightarrow> ('c \<Rightarrow> 'w \<Rightarrow> 'w kclient outcome \<times> 'w)
      \<Rightarrow> 'w \<Rightarrow> hook_end \<times> 'w" where
  "hook_main env NewDevelopment tick open_file read_namespace_file InClusterConfig client_New =
     setupLogger NewDevelopment (\<lambda>w.
       if getenv env ''AGENT_STATUS_FILEPATH'' = '''' then (FatalExit, w)
       else case waitForAgentHealthStatus env tick (getAgentHealthStatus env open_file) w of
              (Fail err, w') \<Rightarrow> (MongodStarts, w')
            | (Panic p, w') \<Rightarrow> (HookPanic p, w')
            | (Ok health, w') \<Rightarrow>
                (case shouldDeletePod env health of
                   Panic p \<Rightarrow> (HookPanic p, w')
                 | Fail err \<Rightarrow> (MongodStarts, w')
                 | Ok shouldDelete \<Rightarrow>
                     (if shouldDelete then
                        (case deletePod env read_namespace_file (inClusterClient InClusterConfig client_New) w' of
                           (Panic p, w'') \<Rightarrow> (HookPanic p, w'')
                         | (_, w'') \<Rightarrow> (WaitsForever, w''))
                      else (MongodStarts, w'))))"

section \<open>The waiting loop ends\<close>

text \<open>
  The loop run against a sequence of poll results: the state counts the polls, and the health
  file is what the sequence says at that moment.
\<close>

definition result_at :: "(nat \<Rightarrow> 'a outcome) \<Rightarrow> nat \<Rightarrow> 'a outcome \<times> nat" where
  "result_at f n = (f n, Suc n)"

definition goes_on :: "environment \<Rightarrow> (nat \<Rightarrow> health_status outcome) \<Rightarrow> nat \<Rightarrow> bool" where
  "goes_on env f n = (\<exists>h s. f n = Ok h \<and> map_of (hs_Healthiness h) (getHostname env) = Some s \<and> ph_IsInGoalState s)"

text \<open>The world after the first polls of the health file, and what the next one gives.\<close>

definition world_at :: "('w \<Rightarrow> 'w) \<Rightarrow> ('w \<Rightarrow> 'a outcome \<times> 'w) \<Rightarrow> 'w \<Rightarrow> nat \<Rightarrow> 'w" where
  "world_at tick get w k = ((\<lambda>w. snd (get (tick w))) ^^ k) w"

definition poll_at :: "('w \<Rightarrow> 'w) \<Rightarrow> ('w \<Rightarrow> 'a outcome \<times> 'w) \<Rightarrow> 'w \<Rightarrow> nat \<Rightarrow> 'a outcome" where
  "poll_at tick get w k = fst (get (tick (world_at tick get w k)))"

lemma poll_get: "get (tick (world_at tick get w k)) = (poll_at tick get w k, world_at tick get w (Suc k))"
  by (simp add: poll_at_def world_at_def)

lemma poll_loop_goes_on:
  assumes "goes_on env (poll_at tick get w) k" and "t \<le> pollingDuration"
  shows "poll_loop env tick get t (world_at tick get w k) = poll_loop env tick get (t + pollingInterval) (world_at tick get w (Suc k))"
  using assms by (subst poll_loop.simps) (auto simp: goes_on_def on_result_def poll_once_def poll_get Let_def)

text \<open>How a poll ends the loop.\<close>

definition poll_result :: "environment \<Rightarrow> health_status outcome \<Rightarrow> health_status outcome" where
  "poll_result env r = bind_out r (\<lambda>h. if map_of (hs_Healthiness h) (getHostname env) = None
     then Fail (Err (''couldn't find status for hostname '' @ getHostname env)) else Ok h)"

lemma poll_loop_stops:
  assumes "\<not> goes_on env (poll_at tick get w) k" and "t \<le> pollingDuration"
  shows "poll_loop env tick get t (world_at tick get w k) = (poll_result env (poll_at tick get w k), world_at tick get w (Suc k))"
  using assms
  by (subst poll_loop.simps) (cases "poll_at tick get w k",
      auto simp: goes_on_def on_result_def poll_once_def poll_get Let_def poll_result_def split: option.splits)

lemma poll_loop_steps:
  assumes "\<And>i. i < k \<Longrightarrow> goes_on env (poll_at tick get w) i" and "k \<le> 61"
  shows "poll_loop env tick get 0 w = poll_loop env tick get (int k * pollingInterval) (world_at tick get w k)"
  using assms
proof (induction k)
  case 0
  then show ?case by (simp add: world_at_def)
next
  case (Suc k)
  have "poll_loop env tick get (int k * pollingInterval) (world_at tick get w k) =
      poll_loop env tick get (int k * pollingInterval + pollingInterval) (world_at tick get w (Suc k))"
    by (rule poll_loop_goes_on) (use Suc.prems in \<open>simp_all add: pollingDuration_def pollingInterval_def\<close>)
  with Suc show ?case by (simp add: algebra_simps)
qed

lemma wait_stops:
  assumes "\<And>i. i < k \<Longrightarrow> goes_on env (poll_at tick get w) i" and "\<not> goes_on env (poll_at tick get w) k" and "k \<le> 60"
  shows "waitForAgentHealthStatus env tick get w = (poll_result env (poll_at tick get w k), world_at tick get w (Suc k))"
  using poll_loop_steps [OF assms(1), of k] poll_loop_stops [OF assms(2), of "int k * pollingInterval"] assms(3)
  by (simp add: waitForAgentHealthStatus_def pollingDuration_def pollingInterval_def)

lemma wait_gives_up:
  assumes "\<And>i. i \<le> 60 \<Longrightarrow> goes_on env (poll_at tick get w) i"
  shows "waitForAgentHealthStatus env tick get w = (Fail not_ready, tick (world_at tick get w 61))"
  using poll_loop_steps [of 61 env tick get w] assms
  by (simp add: waitForAgentHealthStatus_def poll_loop.simps [of _ _ _ _ "world_at tick get w 61"] pollingDuration_def pollingInterval_def)

lemma first_poll:
  obtains (gives_up) "\<And>i. i \<le> 60 \<Longrightarrow> goes_on env f i"
    | (stops) k where "k \<le> 60" and "\<And>i. i < k \<Longrightarrow> goes_on env f i" and "\<not> goes_on env f k"
  using exists_least_iff [of "\<lambda>k. k \<le> 60 \<and> \<not> goes_on env f k"] by (metis le_trans nat_less_le)

lemma polls_of_sequence [simp]:
  "world_at (\<lambda>w. w) (result_at f) 0 k = k" "poll_at (\<lambda>w. w) (result_at f) 0 = f"
proof -
  show w: "world_at (\<lambda>w. w) (result_at f) 0 k = k" for k by (induction k) (simp_all add: world_at_def result_at_def)
  show "poll_at (\<lambda>w. w) (result_at f) 0 = f" by (simp add: poll_at_def w fun_eq_iff) (simp add: result_at_def)
qed

text \<open>
  C18. Waiting for the agent terminates: the health file is read at most 61 times, until the
  process is not in goal state any more, its status is missing or the file cannot be read; a
  health status is returned only for a process that is not in goal state, and after 61 polls in
  goal state the hook gives up with an error (a poll every second for the sixty seconds and one).
\<close>

theorem waitForAgentHealthStatus_terminates:
  "(\<forall>k. (\<forall>i < k. goes_on env f i) \<and> \<not> goes_on env f k \<and> k \<le> 60 \<longrightarrow>
      snd (waitForAgentHealthStatus env (\<lambda>w. w) (result_at f) 0) = Suc k)
   \<and> (\<forall>h w'. waitForAgentHealthStatus env (\<lambda>w. w) (result_at f) 0 = (Ok h, w') \<longrightarrow>
        w' \<le> 61 \<and> f (w' - 1) = Ok h \<and> (\<exists>s. map_of (hs_Healthiness h) (getHostname env) = Some s \<and> \<not> ph_IsInGoalState s))
   \<and> ((\<forall>i \<le> 60. goes_on env f i) \<longrightarrow> waitForAgentHealthStatus env (\<lambda>w. w) (result_at f) 0 = (Fail not_ready, 61))"
proof (intro conjI allI impI)
  fix k
  assume "(\<forall>i < k. goes_on env f i) \<and> \<not> goes_on env f k \<and> k \<le> 60"
  then show "snd (waitForAgentHealthStatus env (\<lambda>w. w) (result_at f) 0) = Suc k"
    using wait_stops [of k env "\<lambda>w. w" "result_at f" 0] by simp
next
  assume "\<forall>i \<le> 60. goes_on env f i"
  then show "waitForAgentHealthStatus env (\<lambda>w. w) (result_at f) 0 = (Fail not_ready, 61)"
    using wait_gives_up [of env "\<lambda>w. w" "result_at f" 0] by simp
next
  fix h w'
  assume ok: "waitForAgentHealthStatus env (\<lambda>w. w) (result_at f) 0 = (Ok h, w')"
  obtain k where k: "k \<le> 60" "\<not> goes_on env f k" and r: "(poll_result env (f k), Suc k) = (Ok h, w')"
  proof (cases rule: first_poll [of env f])
    case gives_up
    with wait_gives_up [of env "\<lambda>w. w" "result_at f" 0] ok show ?thesis by simp
  next
    case (stops k)
    with wait_stops [of k env "\<lambda>w. w" "result_at f" 0] ok that show ?thesis by simp
  qed
  then show "w' \<le> 61" and "f (w' - 1) = Ok h" and "\<exists>s. map_of (hs_Healthiness h) (getHostname env) = Some s \<and> \<not> ph_IsInGoalState s"
    by (cases "f k"; auto simp: poll_result_def goes_on_def split: if_splits)+
qed

theorem waitForAgentHealthStatus_terminates_witness:
  "waitForAgentHealthStatus (\<lambda>_. Some ''db-0'') (\<lambda>w. w)
     (result_at (\<lambda>_. Ok \<lparr>hs_Healthiness = [(''db-0'', \<lparr>ph_IsInGoalState = True, ph_LastMongoUpTime = 0,
        ph_ExpectedToBeUp = True, ph_ReplicaStatus = None\<rparr>)], hs_ProcessPlans = []\<rparr>)) 0 = (Fail not_ready, 61)"
  using waitForAgentHealthStatus_terminates [of "\<lambda>_. Some ''db-0''" "\<lambda>_. Ok \<lparr>hs_Healthiness = [(''db-0'',
      \<lparr>ph_IsInGoalState = True, ph_LastMongoUpTime = 0, ph_ExpectedToBeUp = True, ph_ReplicaStatus = None\<rparr>)], hs_ProcessPlans = []\<rparr>"]
  by (auto simp: goes_on_def getHostname_def getenv_def)

section \<open>When the pod is deleted\<close>

text \<open>The last plan of the agent for this process, without nil pointers, and the moves in it.\<close>

definition last_moves :: "environment \<Rightarrow> health_status \<Rightarrow> move_status option list option" where
  "last_moves env health =
     (case map_of (hs_ProcessPlans health) (getHostname env) of
        None \<Rightarrow> None
      | Some status \<Rightarrow>
          (if mms_Plans status = [] then None
           else map_option plan_Moves (last (mms_Plans status))))"

definition plan_has_nil :: "environment \<Rightarrow> health_status \<Rightarrow> bool" where
  "plan_has_nil env health =
     (case map_of (hs_ProcessPlans health) (getHostname env) of
        None \<Rightarrow> False
      | Some status \<Rightarrow> mms_Plans status \<noteq> [] \<and> (last (mms_Plans status) = None \<or>
          (\<exists>plan. last (mms_Plans status) = Some plan \<and> None \<in> set (plan_Moves plan))))"

lemma changes_version_iff:
  "None \<notin> set moves \<Longrightarrow> changes_version moves = Ok (\<exists>m. Some m \<in> set moves \<and> move_Move m = ''ChangeVersion'')"
proof (induction moves)
  case (Cons a moves)
  then show ?case by (cases a) auto
qed simp

lemma shouldDeletePod_iff:
  assumes "\<not> plan_has_nil env health"
  shows "shouldDeletePod env health = Ok True \<longleftrightarrow>
      (\<exists>moves m. last_moves env health = Some moves \<and> Some m \<in> set moves \<and> move_Move m = ''ChangeVersion'')"
    and "\<And>p. shouldDeletePod env health \<noteq> Panic p"
  using assms
  by (auto simp: plan_has_nil_def last_moves_def shouldDeletePod_def isWaitingToBeDeleted_def changes_version_iff
      split: option.splits if_splits)

text \<open>
  The polls show a version change: at one of the 61 polls the process of this host is for the first
  time not in goal state, and the last plan for this host that is in the file then has a move that
  changes the version.
\<close>

definition sees_version_change :: "environment \<Rightarrow> (nat \<Rightarrow> health_status outcome) \<Rightarrow> nat \<Rightarrow> bool" where
  "sees_version_change env polls k = (k \<le> 60 \<and> (\<forall>i < k. goes_on env polls i)
     \<and> (\<exists>health s moves m. polls k = Ok health \<and> map_of (hs_Healthiness health) (getHostname env) = Some s \<and> \<not> ph_IsInGoalState s
          \<and> last_moves env health = Some moves \<and> Some m \<in> set moves \<and> move_Move m = ''ChangeVersion''))"

lemma hook_deletes:
  assumes "NewDevelopment w0 = (Ok (), w)" and "getenv env ''AGENT_STATUS_FILEPATH'' \<noteq> ''''"
    and k: "sees_version_change env (poll_at tick (getAgentHealthStatus env open_file) w) k"
    and nil: "\<And>k health. poll_at tick (getAgentHealthStatus env open_file) w k = Ok health \<Longrightarrow> \<not> plan_has_nil env health"
    and del: "\<And>w p. fst (deletePod env read_namespace_file (inClusterClient InClusterConfig client_New) w) \<noteq> Panic p"
  shows "hook_main env NewDevelopment tick open_file read_namespace_file InClusterConfig client_New w0
    = (WaitsForever, snd (deletePod env read_namespace_file (inClusterClient InClusterConfig client_New)
        (world_at tick (getAgentHealthStatus env open_file) w (Suc k))))"
proof -
  let ?get = "getAgentHealthStatus env open_file"
  obtain health s moves m where h: "poll_at tick ?get w k = Ok health" "map_of (hs_Healthiness health) (getHostname env) = Some s"
    "\<not> ph_IsInGoalState s" "last_moves env health = Some moves" "Some m \<in> set moves" "move_Move m = ''ChangeVersion''"
    and first: "k \<le> 60" "\<And>i. i < k \<Longrightarrow> goes_on env (poll_at tick ?get w) i"
    using k by (auto simp: sees_version_change_def)
  have "\<not> goes_on env (poll_at tick ?get w) k" using h by (simp add: goes_on_def)
  from wait_stops [OF first(2) this first(1)] h(1,2)
  have wait: "waitForAgentHealthStatus env tick ?get w = (Ok health, world_at tick ?get w (Suc k))" by (simp add: poll_result_def)
  have "shouldDeletePod env health = Ok True" using shouldDeletePod_iff(1) [OF nil [OF h(1)]] h(4-6) by blast
  with wait assms(1,2) del [of "world_at tick ?get w (Suc k)"] show ?thesis
    by (cases "deletePod env read_namespace_file (inClusterClient InClusterConfig client_New) (world_at tick ?get w (Suc k))")
      (auto simp: hook_main_def setupLogger_def split: outcome.splits)
qed

lemma hook_starts_mongod:
  assumes "NewDevelopment w0 = (Ok (), w)" and "getenv env ''AGENT_STATUS_FILEPATH'' \<noteq> ''''"
    and none: "\<not> (\<exists>k. sees_version_change env (poll_at tick (getAgentHealthStatus env open_file) w) k)"
    and panic: "\<And>k p. poll_at tick (getAgentHealthStatus env open_file) w k \<noteq> Panic p"
    and nil: "\<And>k health. poll_at tick (getAgentHealthStatus env open_file) w k = Ok health \<Longrightarrow> \<not> plan_has_nil env health"
  shows "\<exists>k \<le> 61. hook_main env NewDevelopment tick open_file read_namespace_file InClusterConfig client_New w0
    \<in> {(MongodStarts, world_at tick (getAgentHealthStatus env open_file) w k), (MongodStarts, tick (world_at tick (getAgentHealthStatus env open_file) w k))}"
proof -
  let ?get = "getAgentHealthStatus env open_file" and ?f = "poll_at tick (getAgentHealthStatus env open_file) w"
  have start: "hook_main env NewDevelopment tick open_file read_namespace_file InClusterConfig client_New w0 =
      (case waitForAgentHealthStatus env tick ?get w of (Fail e, w') \<Rightarrow> (MongodStarts, w') | (Panic p, w') \<Rightarrow> (HookPanic p, w')
        | (Ok health, w') \<Rightarrow> (case shouldDeletePod env health of Panic p \<Rightarrow> (HookPanic p, w') | Fail e \<Rightarrow> (MongodStarts, w')
            | Ok b \<Rightarrow> if b then (case deletePod env read_namespace_file (inClusterClient InClusterConfig client_New) w' of
                 (Panic p, w'') \<Rightarrow> (HookPanic p, w'') | (_, w'') \<Rightarrow> (WaitsForever, w'')) else (MongodStarts, w')))"
    using assms(1,2) by (simp add: hook_main_def setupLogger_def)
  show ?thesis
  proof (cases rule: first_poll [of env ?f])
    case gives_up
    from wait_gives_up [of env tick ?get w, OF this] show ?thesis by (intro exI [of _ 61]) (simp add: start)
  next
    case (stops k)
    note wait = wait_stops [OF stops(2,3,1)]
    have "hook_main env NewDevelopment tick open_file read_namespace_file InClusterConfig client_New w0
        = (MongodStarts, world_at tick ?get w (Suc k))"
    proof (cases "poll_result env (?f k)")
      case (Fail e)
      with wait show ?thesis by (simp add: start)
    next
      case (Panic p)
      with panic [of k] show ?thesis by (cases "?f k") (auto simp: poll_result_def split: if_splits)
    next
      case (Ok health)
      then have h: "?f k = Ok health" "map_of (hs_Healthiness health) (getHostname env) \<noteq> None"
        by (cases "?f k"; auto simp: poll_result_def split: if_splits)+
      then obtain s where s: "map_of (hs_Healthiness health) (getHostname env) = Some s" "\<not> ph_IsInGoalState s"
        using stops(3) by (auto simp: goes_on_def)
      have "shouldDeletePod env health \<noteq> Ok True"
        using none stops(1,2) h(1) s unfolding shouldDeletePod_iff(1) [OF nil [OF h(1)]] sees_version_change_def by blast
      with shouldDeletePod_iff(2) [OF nil [OF h(1)]] wait Ok show ?thesis
        by (cases "shouldDeletePod env health") (auto simp: start)
    qed
    with stops(1) show ?thesis by (intro exI [of _ "Suc k"]) simp
  qed
qed

text \<open>
  C9. The hook replaces the pod for a version change that it sees in time, and for nothing else. It reads
  the agent's health file at most 61 times, until the process of its host is not in goal state, its
  status is missing or the file cannot be read. It deletes its own pod, named by the host name and
  the mounted namespace, and never returns, exactly when the process was then not in goal state and
  the last plan for this host has a move that changes the version, whether that plan is completed or
  not and even when the deletion fails. In every other case mongod starts and nothing was done but
  reading, in particular when the process is in goal state at all 61 polls, whatever its plans say.
  The health file has no nil entries and no panic, and neither has the deletion.
\<close>

theorem hook_replaces_pod:
  assumes "NewDevelopment w0 = (Ok (), w)" and "getenv env ''AGENT_STATUS_FILEPATH'' \<noteq> ''''" and "get = getAgentHealthStatus env open_file"
    and "\<And>k p. poll_at tick get w k \<noteq> Panic p" and "\<And>k health. poll_at tick get w k = Ok health \<Longrightarrow> \<not> plan_has_nil env health"
    and "\<And>w p. fst (deletePod env read_namespace_file (inClusterClient InClusterConfig client_New) w) \<noteq> Panic p"
  shows "(fst (hook_main env NewDevelopment tick open_file read_namespace_file InClusterConfig client_New w0) = WaitsForever
        \<longleftrightarrow> (\<exists>k. sees_version_change env (poll_at tick get w) k))
    \<and> (\<forall>k data w2 cfg w3 c w4. sees_version_change env (poll_at tick get w) k \<and> getHostname env \<noteq> ''''
        \<and> read_namespace_file (world_at tick get w (Suc k)) = (Ok data, w2) \<and> InClusterConfig w2 = (Ok cfg, w3) \<and> client_New cfg w3 = (Ok c, w4)
        \<longrightarrow> snd (hook_main env NewDevelopment tick open_file read_namespace_file InClusterConfig client_New w0)
          = snd (kDelete c (PodObj \<lparr>pod_Meta = empty_meta\<lparr>om_Name := getHostname env,
              om_Namespace := if trim_space data = '''' then ''default'' else trim_space data\<rparr>\<rparr>) w4))
    \<and> (fst (hook_main env NewDevelopment tick open_file read_namespace_file InClusterConfig client_New w0) \<noteq> WaitsForever \<longrightarrow>
        (\<exists>k \<le> 61. hook_main env NewDevelopment tick open_file read_namespace_file InClusterConfig client_New w0
          \<in> {(MongodStarts, world_at tick get w k), (MongodStarts, tick (world_at tick get w k))}))"
    (is "(fst ?hook = _ \<longleftrightarrow> ?change) \<and> ?deletes \<and> (_ \<longrightarrow> ?starts)")
proof -
  note polls = assms(4,5) [unfolded assms(3)]
  have del: "?hook = (WaitsForever, snd (deletePod env read_namespace_file (inClusterClient InClusterConfig client_New) (world_at tick get w (Suc k))))"
    if "sees_version_change env (poll_at tick get w) k" for k
    unfolding assms(3) by (rule hook_deletes [where NewDevelopment = NewDevelopment and ?w0.0 = w0, OF assms(1,2) that [unfolded assms(3)]], erule polls(2), rule assms(6))
  have starts: ?starts if "\<not> ?change"
    unfolding assms(3) by (rule hook_starts_mongod [where NewDevelopment = NewDevelopment and ?w0.0 = w0, OF assms(1,2) that [unfolded assms(3)]], rule polls(1), erule polls(2))
  have "fst ?hook = WaitsForever \<longleftrightarrow> ?change"
    using del starts by (cases ?change) fastforce+
  moreover have "snd (deletePod env read_namespace_file (inClusterClient InClusterConfig client_New) w1)
      = snd (kDelete c (PodObj \<lparr>pod_Meta = empty_meta\<lparr>om_Name := getHostname env,
              om_Namespace := if trim_space data = '''' then ''default'' else trim_space data\<rparr>\<rparr>) w4)"
    if "getHostname env \<noteq> ''''" "read_namespace_file w1 = (Ok data, w2)" "InClusterConfig w2 = (Ok cfg, w3)" "client_New cfg w3 = (Ok c, w4)"
    for w1 data w2 cfg w3 c w4
    using that by (auto simp: deletePod_def getThisPod_def getNamespace_def inClusterClient_def on_result_def Let_def
        split: prod.splits outcome.splits)
  then have ?deletes using del by fastforce
  ultimately show ?thesis using starts by blast
qed

definition example_hook_health :: json where
  "example_hook_health = JObj [(''statuses'', JObj [(''db-0'', JObj [(''IsInGoalState'', JBool False)])]),
     (''mmsStatus'', JObj [(''db-0'', JObj [(''plans'', JArr [JObj [(''moves'', JArr [JObj [(''move'', JStr ''ChangeVersion'')]])]])])])]"

lemma unmarshal_hook_health:
  "unmarshal_health False (render example_hook_health) =
     Ok \<lparr>hs_Healthiness = [(''db-0'', \<lparr>ph_IsInGoalState = False, ph_LastMongoUpTime = 0, ph_ExpectedToBeUp = False, ph_ReplicaStatus = None\<rparr>)],
         hs_ProcessPlans = [(''db-0'', \<lparr>mms_Name = '''', mms_LastGoalStateClusterConfigVersion = 0, mms_Plans =
           [Some \<lparr>plan_Moves = [Some \<lparr>move_Move = ''ChangeVersion'', move_Steps = []\<rparr>], plan_Started = None, plan_Completed = None\<rparr>]\<rparr>)]\<rparr>"
proof -
  have "parse (render example_hook_health) = Some example_hook_health"
    by (rule parse_render) (simp add: example_hook_health_def)
  moreover have "dec_health False (Some example_hook_health) =
     Some \<lparr>hs_Healthiness = [(''db-0'', \<lparr>ph_IsInGoalState = False, ph_LastMongoUpTime = 0, ph_ExpectedToBeUp = False, ph_ReplicaStatus = None\<rparr>)],
         hs_ProcessPlans = [(''db-0'', \<lparr>mms_Name = '''', mms_LastGoalStateClusterConfigVersion = 0, mms_Plans =
           [Some \<lparr>plan_Moves = [Some \<lparr>move_Move = ''ChangeVersion'', move_Steps = []\<rparr>], plan_Started = None, plan_Completed = None\<rparr>]\<rparr>)]\<rparr>"
    by (simp add: example_hook_health_def dec_health_def dec_process_health_def dec_mms_def dec_plan_def dec_move_def
        dec_list_def dec_slice_def dec_map_def dec_int64_def dec_struct_def dec_ptr_def dec_time_def dec_int_def put_all_def put_def)
  ultimately show ?thesis by (simp add: unmarshal_health_def)
qed

theorem hook_replaces_pod_witness:
  "\<exists>w'. hook_main (map_of [(''AGENT_STATUS_FILEPATH'', ''/health''), (''HOSTNAME'', ''db-0'')]) (ret ()) (\<lambda>w. w)
      (\<lambda>_. ret (ret (render example_hook_health))) (ret ''ns'') (ret ()) (\<lambda>_. ret mockedClient)
      (mock_put (PodObj \<lparr>pod_Meta = empty_meta\<lparr>om_Name := ''db-0'', om_Namespace := ''ns''\<rparr>\<rparr>) mock_empty) = (WaitsForever, w')
    \<and> w' PodKind \<lparr>nn_Namespace = ''ns'', nn_Name = ''db-0''\<rparr> = None"
proof -
  define env :: environment where "env = map_of [(''AGENT_STATUS_FILEPATH'', ''/health''), (''HOSTNAME'', ''db-0'')]"
  let ?w = "mock_put (PodObj \<lparr>pod_Meta = empty_meta\<lparr>om_Name := ''db-0'', om_Namespace := ''ns''\<rparr>\<rparr>) mock_empty"
  let ?open = "\<lambda>_. ret (ret (render example_hook_health)) :: mock_cluster \<Rightarrow> _"
  obtain health where h: "unmarshal_health False (render example_hook_health) = Ok health"
    and f: "\<not> plan_has_nil env health" "map_of (hs_Healthiness health) ''db-0'' \<noteq> None"
      "\<forall>s. map_of (hs_Healthiness health) ''db-0'' = Some s \<longrightarrow> \<not> ph_IsInGoalState s"
      "last_moves env health = Some [Some \<lparr>move_Move = ''ChangeVersion'', move_Steps = []\<rparr>]"
    using unmarshal_hook_health by (simp add: plan_has_nil_def last_moves_def getHostname_def getenv_def env_def)
  let ?get = "getAgentHealthStatus env ?open"
  have get: "?get w = (Ok health, w)" for w
    using h by (simp add: getAgentHealthStatus_def readAgentHealthStatus_def on_result_def)
  then have world: "world_at (\<lambda>w. w) ?get ?w k = ?w" for k by (induction k) (simp_all add: world_at_def)
  then have polls: "poll_at (\<lambda>w. w) ?get ?w k = Ok health" for k by (simp add: poll_at_def get)
  have pod: "getHostname env = ''db-0''" "trim_space ''ns'' = ''ns''"
    by (simp_all add: getHostname_def getenv_def env_def trim_space_def is_space_def)
  have sees: "sees_version_change env (poll_at (\<lambda>w. w) ?get ?w) 0"
    using f(2-4) by (auto simp: sees_version_change_def polls pod)
  have del: "fst (deletePod env (ret ''ns'') (inClusterClient (ret ()) (\<lambda>_. ret mockedClient)) w) \<noteq> Panic p" for w p
    by (simp add: deletePod_def getThisPod_def getNamespace_def inClusterClient_def on_result_def Let_def pod mockedClient_def mock_Delete_def)
  have path: "getenv env ''AGENT_STATUS_FILEPATH'' \<noteq> ''''" by (simp add: getenv_def env_def)
  obtain w' where hook: "hook_main env (ret ()) (\<lambda>w. w) ?open (ret ''ns'') (ret ()) (\<lambda>_. ret mockedClient) ?w = (WaitsForever, w')"
    and w': "w' = snd (kDelete mockedClient (PodObj \<lparr>pod_Meta = empty_meta\<lparr>om_Name := getHostname env,
              om_Namespace := if trim_space ''ns'' = '''' then ''default'' else trim_space ''ns''\<rparr>\<rparr>) ?w)"
    using hook_replaces_pod [of "ret ()" ?w ?w env ?get ?open "\<lambda>w. w" "ret ''ns''" "ret ()" "\<lambda>_. ret mockedClient"] path polls f(1) del sees world
    by (cases "hook_main env (ret ()) (\<lambda>w. w) ?open (ret ''ns'') (ret ()) (\<lambda>_. ret mockedClient) ?w") (auto simp: pod)
  have "w' PodKind \<lparr>nn_Namespace = ''ns'', nn_Name = ''db-0''\<rparr> = None"
    unfolding w' pod by (simp add: mockedClient_def mock_Delete_def ObjectKeyFromObject_def object_key_def empty_meta_def)
  with hook show ?thesis unfolding env_def by blast
qed

end
