(* ===== verification/Tls.thy ===== *)
theory Tls
  imports Watch Construct Automation_Secret Scram
begin

text \<open>
  \<open>controllers/mongodb_tls.go\<close>: validating the TLS configuration of a resource, the secret with the
  combined certificate and key that the operator maintains, and the changes TLS makes to the
  automation configuration and to the pods. The state of the reconciler is the cluster and the
  watcher of secrets, which the process keeps in memory.
\<close>

section \<open>The state of the reconciler\<close>

type_synonym 'w rstate = "'w \<times> resource_watcher"

text \<open>An operation on the cluster, and a registration with the watcher.\<close>

definition on_cluster :: "('w \<Rightarrow> 'a outcome \<times> 'w) \<Rightarrow> 'w rstate \<Rightarrow> 'a outcome \<times> 'w rstate" where
  "on_cluster m st = (let (r, w') = m (fst st) in (r, w', snd st))"

definition watch_secret :: "nsname \<Rightarrow> nsname \<Rightarrow> 'w rstate \<Rightarrow> unit outcome \<times> 'w rstate" where
  "watch_secret watchedName dependentName st = (Ok (), fst st, watch_Watch watchedName dependentName (snd st))"

lemma on_cluster_eq: "m w = (r, w') \<Longrightarrow> on_cluster m (w, rw) = (r, w', rw)"
  by (simp add: on_cluster_def)

section \<open>Operations\<close>

definition tlsCAMountPath :: string where "tlsCAMountPath = ''/var/lib/tls/ca/''"
definition tlsCACertName :: string where "tlsCACertName = ''ca.crt''"
definition tlsOperatorSecretMountPath :: string where "tlsOperatorSecretMountPath = ''/var/lib/tls/server/''"
definition tlsSecretCertName :: string where "tlsSecretCertName = ''tls.crt''"
definition tlsSecretKeyName :: string where "tlsSecretKeyName = ''tls.key''"

text \<open>\<open>v, ok := m[key]; !ok || v == ""\<close>.\<close>

definition blank :: "string gomap \<Rightarrow> string \<Rightarrow> bool" where
  "blank m key = (case map_of m key of None \<Rightarrow> True | Some v \<Rightarrow> v = '''')"

definition validateTLSConfig :: "'w kclient \<Rightarrow> mongodb_community \<Rightarrow> 'w rstate \<Rightarrow> bool outcome \<times> 'w rstate" where
  "validateTLSConfig c mdb =
     (if \<not> stls_Enabled (mdb_TLS mdb) then ret True
      else on_result (on_cluster (cm_ReadData (config_maps_of c) (TLSConfigMapNamespacedName mdb)))
        (\<lambda>err. if IsNotFound err then ret False else fail err)
        (\<lambda>caData. if blank caData tlsCACertName then ret False
          else on_result (on_cluster (secret_ReadStringData (secrets_of c) (TLSSecretNamespacedName mdb)))
            (\<lambda>err. if IsNotFound err then ret False else fail err)
            (\<lambda>secretData. if blank secretData tlsSecretKeyName then ret False
              else if blank secretData tlsSecretCertName then ret False
              else on_result (watch_secret (TLSSecretNamespacedName mdb) (NamespacedName mdb)) fail (\<lambda>_. ret True))))"

definition combineCertificateAndKey :: "string \<Rightarrow> string \<Rightarrow> string" where
  "combineCertificateAndKey cert key = trim_right cert CHR 0x0A @ [CHR 0x0A] @ trim_right key CHR 0x0A"

definition getCertAndKey :: "'w secret_client \<Rightarrow> mongodb_community \<Rightarrow> 'w \<Rightarrow> string outcome \<times> 'w" where
  "getCertAndKey c mdb =
     on_result (secret_ReadKey c tlsSecretCertName (TLSSecretNamespacedName mdb)) fail (\<lambda>cert.
     on_result (secret_ReadKey c tlsSecretKeyName (TLSSecretNamespacedName mdb)) fail (\<lambda>key.
       ret (combineCertificateAndKey cert key)))"

definition tlsOperatorSecretFileName :: "string \<Rightarrow> string" where
  "tlsOperatorSecretFileName certKey = hex_encode (sha256 (bytes_of_string certKey)) @ ''.pem''"

definition ensureTLSSecret :: "'w secret_client \<Rightarrow> mongodb_community \<Rightarrow> 'w \<Rightarrow> unit outcome \<times> 'w" where
  "ensureTLSSecret c mdb =
     on_result (getCertAndKey c mdb) (\<lambda>err. fail (errorf ''could not get cert and key: '' err)) (\<lambda>certKey.
       secret_CreateOrUpdate c (secret_Build
         (secret_SetOwnerReferences (GetOwnerReferences mdb)
         (secret_SetField (tlsOperatorSecretFileName certKey) certKey
         (secret_SetNamespace (nn_Namespace (TLSOperatorSecretNamespacedName mdb))
         (secret_SetName (nn_Name (TLSOperatorSecretNamespacedName mdb)) secret_Builder))))))"

definition tlsMode :: "mongodb_community \<Rightarrow> string" where
  "tlsMode mdb = (if stls_Optional (mdb_TLS mdb) then ''preferTLS'' else ''requireTLS'')"

text \<open>The four fields of one process; writing to a nil map panics.\<close>

definition tls_process :: "libs \<Rightarrow> mongodb_community \<Rightarrow> string \<Rightarrow> process \<Rightarrow> process outcome" where
  "tls_process L mdb certKey p =
     (case proc_Args26 p of
        None \<Rightarrow> Panic NilMapWrite
      | Some args \<Rightarrow> Ok (p\<lparr>proc_Args26 := Some
          (objx_Set L ''net.tls.allowConnectionsWithoutCertificates'' (JBool True)
          (objx_Set L ''net.tls.certificateKeyFile'' (JStr (tlsOperatorSecretMountPath @ tlsOperatorSecretFileName certKey))
          (objx_Set L ''net.tls.CAFile'' (JStr (tlsCAMountPath @ tlsCACertName))
          (objx_Set L ''net.tls.mode'' (JStr (tlsMode mdb)) args))))\<rparr>))"

fun on_processes :: "(process \<Rightarrow> process outcome) \<Rightarrow> process list \<Rightarrow> process list outcome" where
  "on_processes f [] = Ok []"
| "on_processes f (p # ps) = bind_out (f p) (\<lambda>p'. bind_out (on_processes f ps) (\<lambda>ps'. Ok (p' # ps')))"

definition tlsConfigModification :: "libs \<Rightarrow> mongodb_community \<Rightarrow> string \<Rightarrow> modification" where
  "tlsConfigModification L mdb certKey config =
     (case ac_TLSConfig config of
        None \<Rightarrow> Panic NilDeref
      | Some t \<Rightarrow>
          (let config' = config\<lparr>ac_TLSConfig := Some (t\<lparr>tls_CAFilePath := tlsCAMountPath @ tlsCACertName\<rparr>)\<rparr>
           in bind_out (on_processes (tls_process L mdb certKey) (elems (ac_Processes config'))) (\<lambda>ps.
                Ok (config'\<lparr>ac_Processes := map_option (\<lambda>_. ps) (ac_Processes config')\<rparr>))))"

definition getTLSConfigModification :: "libs \<Rightarrow> 'w secret_client \<Rightarrow> mongodb_community \<Rightarrow> 'w \<Rightarrow> modification outcome \<times> 'w" where
  "getTLSConfigModification L c mdb =
     (if \<not> stls_Enabled (mdb_TLS mdb) then ret NOOP
      else on_result (getCertAndKey c mdb) fail (\<lambda>certKey. ret (tlsConfigModification L mdb certKey)))"

definition tls_mounts :: "volume_mount list" where
  "tls_mounts = [CreateVolumeMount ''tls-secret'' tlsOperatorSecretMountPath [WithReadOnly True],
     CreateVolumeMount ''tls-ca'' tlsCAMountPath [WithReadOnly True]]"

definition buildTLSPodSpecModification :: "iter_order \<Rightarrow> mongodb_community \<Rightarrow> pod_modification" where
  "buildTLSPodSpecModification it mdb =
     (if \<not> stls_Enabled (mdb_TLS mdb) then pod_NOOP
      else pod_Apply
        [WithVolume (CreateVolumeFromConfigMap ''tls-ca'' (stls_CaConfigMap (mdb_TLS mdb))),
         WithVolume (CreateVolumeFromSecret ''tls-secret'' (nn_Name (TLSOperatorSecretNamespacedName mdb)) []),
         pod_WithVolumeMounts it construct_AgentName tls_mounts,
         pod_WithVolumeMounts it MongodbName tls_mounts])"

section \<open>The certificate file\<close>

context secret_store
begin

text \<open>The certificate and key that the user provides in a state.\<close>

definition provides_cert :: "'w \<Rightarrow> mongodb_community \<Rightarrow> string \<Rightarrow> string \<Rightarrow> bool" where
  "provides_cert w mdb cert key = (\<exists>d. data w (TLSSecretNamespacedName mdb) = Some d \<and> wf_map (entries d)
     \<and> map_of (entries d) tlsSecretCertName = Some cert \<and> map_of (entries d) tlsSecretKeyName = Some key)"

lemma getCertAndKey_provided:
  assumes "inv w" and "provides_cert w mdb cert key"
  shows "getCertAndKey c mdb w = (Ok (combineCertificateAndKey cert key), w)"
  using assms ReadKey_found [OF assms(1), of "TLSSecretNamespacedName mdb"]
  by (auto simp: provides_cert_def getCertAndKey_def on_result_def)

lemma ensureTLSSecret_stores:
  assumes "inv w" and "provides_cert w mdb cert key"
  defines "ck \<equiv> combineCertificateAndKey cert key"
  shows "\<exists>w'. ensureTLSSecret c mdb w = (Ok (), w') \<and> inv w'
    \<and> data w' = (data w)(TLSOperatorSecretNamespacedName mdb \<mapsto> Some [(tlsOperatorSecretFileName ck, ck)])"
proof -
  let ?s = "secret_Build (secret_SetOwnerReferences (GetOwnerReferences mdb)
         (secret_SetField (tlsOperatorSecretFileName ck) ck
         (secret_SetNamespace (nn_Namespace (TLSOperatorSecretNamespacedName mdb))
         (secret_SetName (nn_Name (TLSOperatorSecretNamespacedName mdb)) secret_Builder))))"
  have "object_key (s_Meta ?s) = TLSOperatorSecretNamespacedName mdb" "s_Data ?s = Some [(tlsOperatorSecretFileName ck, ck)]"
    by (simp_all add: secret_builder_defs object_key_def put_def)
  then show ?thesis
    using CreateOrUpdate_stores [OF assms(1), of ?s] getCertAndKey_provided [OF assms(1,2)]
    by (simp add: ensureTLSSecret_def on_result_def ck_def)
qed

end

end
