(* ===== verification/Controller.thy ===== *)
theory Controller
  imports Tls Validation Status Agent
begin

text \<open>
  \<open>controllers/replica_set_controller.go\<close> and \<open>controllers/mongodb_users.go\<close>: the reconciliation of
  one custom resource, with every step it takes on the cluster. What the code takes from other
  packages is in the record \<open>reconciler\<close>: the client, the source of randomness and the
  preparation of passwords, the environment of the process, the iteration order of maps, the
  third-party libraries, and the JSON encoding of a specification, whose format is fixed by the
  Kubernetes types in it. Log output is left out.
\<close>

section \<open>The reconciler\<close>

record 'w reconciler =
  r_client :: "'w kclient"
  r_rand :: "'w rand_read"
  r_prep :: saslprep
  r_multierror :: "string list \<Rightarrow> error"
  r_libs :: libs
  r_env :: environment
  r_it :: iter_order
  r_quantity :: parse_quantity
  r_cast :: "string \<Rightarrow> int"
  r_spec_json :: "mongodb_community_spec \<Rightarrow> string outcome"
  r_spec_of_json :: "string \<Rightarrow> mongodb_community_spec outcome"

definition scram_deps_of :: "'w reconciler \<Rightarrow> 'w scram_deps" where
  "scram_deps_of r = \<lparr>sd_secrets = secrets_of (r_client r), sd_rand = r_rand r, sd_prep = r_prep r, sd_multierror = r_multierror r\<rparr>"

definition lastSuccessfulConfiguration :: string where
  "lastSuccessfulConfiguration = ''mongodb.com/v1.lastSuccessfulConfiguration''"
definition lastAppliedMongoDBVersion :: string where
  "lastAppliedMongoDBVersion = ''mongodb.com/v1.lastAppliedMongoDBVersion''"

section \<open>Validation and the service\<close>

definition error_outcome :: "error option \<Rightarrow> unit outcome" where
  "error_outcome e = (case e of None \<Rightarrow> Ok () | Some err \<Rightarrow> Fail err)"

definition controller_validateSpec :: "'w reconciler \<Rightarrow> mongodb_community \<Rightarrow> unit outcome" where
  "controller_validateSpec r mdb =
     (case map_of (entries (om_Annotations (mdb_Meta mdb))) lastSuccessfulConfiguration of
        None \<Rightarrow> error_outcome (ValidateInitalSpec mdb)
      | Some lastSuccessfulConfigurationSaved \<Rightarrow>
          bind_out (r_spec_of_json r lastSuccessfulConfigurationSaved) (\<lambda>lastSpec.
            error_outcome (ValidateUpdate mdb lastSpec)))"

definition buildService :: "mongodb_community \<Rightarrow> service" where
  "buildService mdb =
     (let label = put ''app'' (ServiceName mdb) []
      in service_Build
        (service_SetOwnerReferences (GetOwnerReferences mdb)
        (service_SetPublishNotReadyAddresses True
        (service_SetPortName ''mongodb''
        (service_SetPort 27017
        (service_SetClusterIP ''None''
        (service_SetServiceType ''ClusterIP''
        (service_SetSelector label
        (service_SetNamespace (mdb_Namespace mdb)
        (service_SetName (ServiceName mdb) service_Builder))))))))))"

definition ensureService :: "'w reconciler \<Rightarrow> mongodb_community \<Rightarrow> 'w \<Rightarrow> unit outcome \<times> 'w" where
  "ensureService r mdb =
     on_result (kCreate (r_client r) (ServiceObj (buildService mdb)))
       (\<lambda>err. if IsAlreadyExists err then ret () else fail err) ret"

definition ensureTLSResources :: "'w reconciler \<Rightarrow> mongodb_community \<Rightarrow> 'w \<Rightarrow> unit outcome \<times> 'w" where
  "ensureTLSResources r mdb =
     (if \<not> stls_Enabled (mdb_TLS mdb) then ret ()
      else on_result (ensureTLSSecret (secrets_of (r_client r)) mdb)
        (\<lambda>err. fail (errorf ''could not ensure TLS secret: '' err)) ret)"

section \<open>Users\<close>

definition nsname_text :: "nsname \<Rightarrow> string" where
  "nsname_text n = nn_Namespace n @ ''/'' @ nn_Name n"

text \<open>A user whose password secret is missing is skipped when its credentials secret can be read or fails otherwise.\<close>

fun ensure_users :: "'w reconciler \<Rightarrow> mongodb_community \<Rightarrow> scram_user list \<Rightarrow> 'w rstate \<Rightarrow> unit outcome \<times> 'w rstate" where
  "ensure_users r mdb [] = ret ()"
| "ensure_users r mdb (user # users) =
     (let secretNamespacedName = \<lparr>nn_Namespace = mdb_Namespace mdb, nn_Name = su_PasswordSecretName user\<rparr>;
          scramSecretName = \<lparr>nn_Namespace = mdb_Namespace mdb, nn_Name = su_ScramCredentialsSecretName user\<rparr>
      in on_result (on_cluster (secret_ReadKey (secrets_of (r_client r)) (su_PasswordSecretKey user) secretNamespacedName))
           (\<lambda>err. if IsNotFound err
              then on_result (on_cluster (GetSecret (secrets_of (r_client r)) scramSecretName))
                     (\<lambda>err2. if IsNotFound err2
                        then fail (Err (''user password secret: '' @ nsname_text secretNamespacedName @ '' and scram secret: ''
                               @ nsname_text scramSecretName @ '' not found''))
                        else ensure_users r mdb users)
                     (\<lambda>_. ensure_users r mdb users)
              else fail err)
           (\<lambda>_. on_result (watch_secret secretNamespacedName (NamespacedName mdb)) fail (\<lambda>_. ensure_users r mdb users)))"

definition ensureUserResources :: "'w reconciler \<Rightarrow> mongodb_community \<Rightarrow> 'w rstate \<Rightarrow> unit outcome \<times> 'w rstate" where
  "ensureUserResources r mdb = ensure_users r mdb (GetScramUsers mdb)"

definition connection_string_secret :: "mongodb_community \<Rightarrow> scram_user \<Rightarrow> string \<Rightarrow> secret outcome" where
  "connection_string_secret mdb user pwd =
     bind_out (MongoAuthUserURI mdb user pwd) (\<lambda>uri. Ok (secret_Build
       (secret_SetOwnerReferences (GetOwnerReferences mdb)
       (secret_SetField ''password'' pwd
       (secret_SetField ''username'' (su_Username user)
       (secret_SetField ''connectionString.standardSrv'' (MongoAuthUserSRVURI mdb user pwd)
       (secret_SetField ''connectionString.standard'' uri
       (secret_SetNamespace (mdb_Namespace mdb)
       (secret_SetName (GetConnectionStringSecretName user mdb) secret_Builder)))))))))"

fun connection_strings :: "'w reconciler \<Rightarrow> mongodb_community \<Rightarrow> scram_user list \<Rightarrow> 'w \<Rightarrow> unit outcome \<times> 'w" where
  "connection_strings r mdb [] = ret ()"
| "connection_strings r mdb (user # users) =
     on_result (secret_ReadKey (secrets_of (r_client r)) (su_PasswordSecretKey user)
         \<lparr>nn_Namespace = mdb_Namespace mdb, nn_Name = su_PasswordSecretName user\<rparr>) fail (\<lambda>pwd.
       on_result (pure_out (connection_string_secret mdb user pwd)) fail (\<lambda>connectionStringSecret.
         on_result (secret_CreateOrUpdate (secrets_of (r_client r)) connectionStringSecret) fail
           (\<lambda>_. connection_strings r mdb users)))"

definition updateConnectionStringSecrets :: "'w reconciler \<Rightarrow> mongodb_community \<Rightarrow> 'w \<Rightarrow> unit outcome \<times> 'w" where
  "updateConnectionStringSecrets r mdb = connection_strings r mdb (GetScramUsers mdb)"

section \<open>The automation configuration\<close>

definition getDomain :: "string \<Rightarrow> string \<Rightarrow> string \<Rightarrow> string" where
  "getDomain service namespace clusterName =
     service @ ''.'' @ namespace @ ''.svc.'' @ (if clusterName = '''' then ''cluster.local'' else clusterName)"

definition getMongodConfigModification :: "libs \<Rightarrow> mongodb_community \<Rightarrow> modification" where
  "getMongodConfigModification L mdb ac =
     Ok (ac\<lparr>ac_Processes := map_option (map (\<lambda>p. p\<lparr>proc_Args26 := Some
       (mergo_MergeWithOverride L (entries (proc_Args26 p)) (spec_AdditionalMongodConfig (mdb_Spec mdb)))\<rparr>)) (ac_Processes ac)\<rparr>)"

definition getCustomRolesModification :: "mongodb_community \<Rightarrow> modification outcome" where
  "getCustomRolesModification mdb =
     (case sec_Roles (spec_Security (mdb_Spec mdb)) of
        None \<Rightarrow> Ok NOOP
      | Some roles \<Rightarrow> Ok (\<lambda>config. Ok (config\<lparr>ac_Roles := ConvertCustomRolesToAutomationConfigCustomRole roles\<rparr>)))"

definition controller_builder :: "'w reconciler \<Rightarrow> mongodb_community \<Rightarrow> auth \<Rightarrow> automation_config \<Rightarrow> modification list \<Rightarrow> builder" where
  "controller_builder r mdb a currentAc modifications =
     (let domain = getDomain (ServiceName mdb) (mdb_Namespace mdb) (getenv (r_env r) ''CLUSTER_DNS_NAME'')
      in AddModifications modifications
        (AddModifications [getMongodConfigModification (r_libs r) mdb]
        (SetAuth a
        (SetOptions \<lparr>opt_DownloadBase = ''/var/lib/mongodb-mms-automation''\<rparr>
        (SetFCV (spec_FeatureCompatibilityVersion (mdb_Spec mdb))
        (SetMongoDBVersion (spec_Version (mdb_Spec mdb))
        (SetPreviousAutomationConfig currentAc
        (SetReplicaSetHorizons (spec_ReplicaSetHorizons (mdb_Spec mdb))
        (SetArbiters (spec_Arbiters (mdb_Spec mdb))
        (SetMembers (AutomationConfigMembersThisReconciliation mdb)
        (SetDomain domain
        (SetName (mdb_Name mdb)
        (SetTopology ''ReplicaSet'' NewBuilder)))))))))))))"

definition buildAutomationConfig ::
    "'w reconciler \<Rightarrow> mongodb_community \<Rightarrow> auth \<Rightarrow> automation_config \<Rightarrow> modification list \<Rightarrow> automation_config outcome" where
  "buildAutomationConfig r mdb a currentAc modifications = Build (r_libs r) (controller_builder r mdb a currentAc modifications)"

definition reconciler_buildAutomationConfig :: "'w reconciler \<Rightarrow> mongodb_community \<Rightarrow> 'w \<Rightarrow> automation_config outcome \<times> 'w" where
  "reconciler_buildAutomationConfig r mdb =
     on_result (getTLSConfigModification (r_libs r) (secrets_of (r_client r)) mdb)
       (\<lambda>err. fail (errorf ''could not configure TLS modification: '' err)) (\<lambda>tlsModification.
     on_result (pure_out (getCustomRolesModification mdb))
       (\<lambda>err. fail (errorf ''could not configure custom roles: '' err)) (\<lambda>customRolesModification.
     on_result (ReadFromSecret (secrets_of (r_client r))
         \<lparr>nn_Namespace = mdb_Namespace mdb, nn_Name = AutomationConfigSecretName mdb\<rparr>)
       (\<lambda>err. fail (errorf ''could not read existing automation config: '' err)) (\<lambda>currentAC.
     on_result (scram_Enable (scram_deps_of r) empty_auth mdb)
       (\<lambda>err. fail (errorf ''could not configure scram authentication: '' err)) (\<lambda>auth.
       pure_out (buildAutomationConfig r mdb auth currentAC [tlsModification, customRolesModification])))))"

definition ensureAutomationConfig :: "'w reconciler \<Rightarrow> mongodb_community \<Rightarrow> 'w \<Rightarrow> automation_config outcome \<times> 'w" where
  "ensureAutomationConfig r mdb =
     on_result (reconciler_buildAutomationConfig r mdb)
       (\<lambda>err. fail (errorf ''could not build automation config: '' err)) (\<lambda>ac.
       EnsureSecret (secrets_of (r_client r))
         \<lparr>nn_Namespace = mdb_Namespace mdb, nn_Name = AutomationConfigSecretName mdb\<rparr> (GetOwnerReferences mdb) ac)"

text \<open>The test tells whether the init container is absent.\<close>

definition isPreReadinessInitContainerStatefulSet :: "statefulset \<Rightarrow> bool" where
  "isPreReadinessInitContainerStatefulSet sts =
     (GetByName ReadinessProbeContainerName (ps_InitContainers (pts_Spec (sts_Template (sts_Spec sts)))) = None)"

text \<open>
  A stateful set that does not exist yet reads as the zero value. The error of the first call is
  overwritten by the second one, so the later test for \<open>NotFound\<close> never holds.
\<close>

definition deployAutomationConfig :: "'w reconciler \<Rightarrow> mongodb_community \<Rightarrow> 'w \<Rightarrow> bool outcome \<times> 'w" where
  "deployAutomationConfig r mdb =
     (let rest = (\<lambda>sts.
        on_result (ensureAutomationConfig r mdb)
          (\<lambda>err. fail (errorf ''failed to ensure AutomationConfig: '' err)) (\<lambda>ac.
        if isPreReadinessInitContainerStatefulSet sts then ret True
        else on_result (AllReachedGoalState (r_cast r) sts (client_GetPod (r_client r))
               (StatefulSetReplicasThisReconciliation mdb) (ac_Version ac))
             (\<lambda>err. fail (errorf ''failed to ensure agents have reached goal state: '' err)) ret))
      in on_result (GetStatefulSet (statefulsets_of (r_client r)) (NamespacedName mdb))
           (\<lambda>err. if \<not> IsNotFound err then fail (errorf ''failed to get StatefulSet: '' err) else rest empty_statefulset)
           rest)"

section \<open>The stateful set\<close>

definition buildStatefulSetModificationFunction :: "'w reconciler \<Rightarrow> mongodb_community \<Rightarrow> sts_modification" where
  "buildStatefulSetModificationFunction r mdb =
     (let commonModification = BuildMongoDBReplicaSetStatefulSetModificationFunction (r_env r) (r_it r) (r_quantity r)
            (owner_of mdb) (statefulset_scaler mdb)
      in sts_Apply
        [commonModification,
         WithOwnerReference (GetOwnerReferences mdb),
         WithPodSpecTemplate (pod_Apply [buildTLSPodSpecModification (r_it r) mdb]),
         WithCustomSpecs (r_it r) (spec_StatefulSet (mdb_Spec mdb))])"

definition buildStatefulSet :: "'w reconciler \<Rightarrow> mongodb_community \<Rightarrow> statefulset outcome" where
  "buildStatefulSet r mdb = buildStatefulSetModificationFunction r mdb empty_statefulset"

definition createOrUpdateStatefulSet :: "'w reconciler \<Rightarrow> mongodb_community \<Rightarrow> 'w \<Rightarrow> unit outcome \<times> 'w" where
  "createOrUpdateStatefulSet r mdb =
     (let continue = (\<lambda>set.
        on_result (pure_out (buildStatefulSetModificationFunction r mdb set)) fail (\<lambda>set'.
          on_result (sts_CreateOrUpdate (statefulsets_of (r_client r)) set')
            (\<lambda>err. fail (errorf ''error creating/updating StatefulSet: '' err)) (\<lambda>_. ret ())))
      in on_result (client_GetStatefulSet (r_client r) (NamespacedName mdb))
           (\<lambda>err. if IsNotFound err then continue empty_statefulset else fail (errorf ''error getting StatefulSet: '' err))
           continue)"

definition deployStatefulSet :: "'w reconciler \<Rightarrow> mongodb_community \<Rightarrow> 'w \<Rightarrow> bool outcome \<times> 'w" where
  "deployStatefulSet r mdb =
     on_result (createOrUpdateStatefulSet r mdb)
       (\<lambda>err. fail (errorf ''error creating/updating StatefulSet: '' err)) (\<lambda>_.
     on_result (GetStatefulSet (statefulsets_of (r_client r)) (NamespacedName mdb))
       (\<lambda>err. fail (errorf ''error getting StatefulSet: '' err)) (\<lambda>currentSts.
       ret (sts_IsReady currentSts (StatefulSetReplicasThisReconciliation mdb)
            \<or> us_Type (sts_UpdateStrategy (sts_Spec currentSts)) = ''OnDelete'')))"

section \<open>Order of the deployment\<close>

definition shouldRunInOrder :: "'w reconciler \<Rightarrow> mongodb_community \<Rightarrow> 'w \<Rightarrow> bool outcome \<times> 'w" where
  "shouldRunInOrder r mdb =
     (let rest = (if IsScalingUp (statefulset_scaler mdb) then False
                  else if IsScalingDown (statefulset_scaler mdb) then True
                  else if IsChangingVersion mdb then False else True)
      in on_result (GetStatefulSet (statefulsets_of (r_client r)) (NamespacedName mdb))
           (\<lambda>_. ret rest)
           (\<lambda>_. ret (if stls_Enabled (mdb_TLS mdb) then False else rest)))"

definition deployMongoDBReplicaSet :: "'w reconciler \<Rightarrow> mongodb_community \<Rightarrow> 'w \<Rightarrow> bool outcome \<times> 'w" where
  "deployMongoDBReplicaSet r mdb =
     on_result (shouldRunInOrder r mdb) fail (\<lambda>inOrder.
       RunSequentially inOrder [deployAutomationConfig r mdb, deployStatefulSet r mdb])"

section \<open>Reconcile\<close>

definition updateLastSuccessfulConfiguration :: "'w reconciler \<Rightarrow> mongodb_community \<Rightarrow> 'w \<Rightarrow> unit outcome \<times> 'w" where
  "updateLastSuccessfulConfiguration r mdb =
     on_result (pure_out (r_spec_json r (mdb_Spec mdb))) fail (\<lambda>currentSpec.
       let specAnnotations = [(lastSuccessfulConfiguration, currentSpec), (lastAppliedMongoDBVersion, spec_Version (mdb_Spec mdb))]
       in ignore_result (SetAnnotations (r_it r) (r_client r) mdb specAnnotations))"

text \<open>Reporting a status and returning its result.\<close>

definition report :: "'w reconciler \<Rightarrow> mongodb_community \<Rightarrow> option_builder \<Rightarrow> 'w rstate \<Rightarrow> reconcile_result outcome \<times> 'w rstate" where
  "report r mdb opts = on_cluster (on_result (status_Update (r_client r) mdb opts) fail (\<lambda>(res, _). ret res))"

definition failed_with :: "'w reconciler \<Rightarrow> mongodb_community \<Rightarrow> string \<Rightarrow> error \<Rightarrow> 'w rstate \<Rightarrow> reconcile_result outcome \<times> 'w rstate" where
  "failed_with r mdb prefix err = report r mdb (withFailedPhase (withMessage Error (prefix @ error_text err) statusOptions))"

text \<open>A step whose error is logged only.\<close>

definition log_error :: "('w \<Rightarrow> unit outcome \<times> 'w) \<Rightarrow> 'w \<Rightarrow> unit outcome \<times> 'w" where
  "log_error m = on_result m (\<lambda>_. ret ()) ret"

definition scaling_options :: "mongodb_community \<Rightarrow> option_builder" where
  "scaling_options mdb =
     withPendingPhase 10
     (withStatefulSetReplicas (StatefulSetReplicasThisReconciliation mdb)
     (withMessage Info (''Performing scaling operation, currentMembers='' @ int_text (CurrentReplicas (statefulset_scaler mdb))
        @ '', desiredMembers='' @ int_text (DesiredReplicas (statefulset_scaler mdb)))
     (withMongoDBMembers (AutomationConfigMembersThisReconciliation mdb) statusOptions)))"

definition running_options :: "mongodb_community \<Rightarrow> string \<Rightarrow> option_builder" where
  "running_options mdb uri =
     withRunningPhase
     (withMessage NoSeverity ''''
     (withStatefulSetReplicas (StatefulSetReplicasThisReconciliation mdb)
     (withMongoDBMembers (AutomationConfigMembersThisReconciliation mdb)
     (withMongoURI uri statusOptions))))"

text \<open>The last part of \<open>Reconcile\<close>, after the deployment is ready.\<close>

definition finish_reconcile :: "'w reconciler \<Rightarrow> mongodb_community \<Rightarrow> 'w rstate \<Rightarrow> reconcile_result outcome \<times> 'w rstate" where
  "finish_reconcile r mdb =
     (if IsStillScaling (statefulset_scaler mdb) then report r mdb (scaling_options mdb)
      else on_result (pure_out (MongoURI mdb)) fail (\<lambda>uri.
        on_result (on_cluster (status_Update (r_client r) mdb (running_options mdb uri))) fail (\<lambda>(res, mdb').
          on_result (on_cluster (log_error (updateConnectionStringSecrets r mdb'))) fail (\<lambda>_.
          on_result (on_cluster (log_error (updateLastSuccessfulConfiguration r mdb'))) fail (\<lambda>_. ret res)))))"

definition reconcile_resource :: "'w reconciler \<Rightarrow> mongodb_community \<Rightarrow> 'w rstate \<Rightarrow> reconcile_result outcome \<times> 'w rstate" where
  "reconcile_resource r mdb =
     on_result (pure_out (controller_validateSpec r mdb)) (failed_with r mdb ''error validating new Spec: '') (\<lambda>_.
     on_result (on_cluster (ensureService r mdb)) (failed_with r mdb ''Error ensuring the service exists: '') (\<lambda>_.
     on_result (validateTLSConfig (r_client r) mdb) (failed_with r mdb ''Error validating TLS config: '') (\<lambda>isTLSValid.
     if \<not> isTLSValid
     then report r mdb (withPendingPhase 10 (withMessage Info ''TLS config is not yet valid, retrying in 10 seconds'' statusOptions))
     else
     on_result (on_cluster (ensureTLSResources r mdb)) (failed_with r mdb ''Error ensuring TLS resources: '') (\<lambda>_.
     on_result (ensureUserResources r mdb) (failed_with r mdb ''Error ensuring User config: '') (\<lambda>_.
     on_result (on_cluster (deployMongoDBReplicaSet r mdb)) (failed_with r mdb ''Error deploying MongoDB ReplicaSet: '') (\<lambda>ready.
     if \<not> ready
     then report r mdb (withPendingPhase 10 (withMessage Info ''ReplicaSet is not yet ready, retrying in 10 seconds'' statusOptions))
     else
     on_result (on_cluster (ResetUpdateStrategy (statefulsets_of (r_client r)) mdb))
       (failed_with r mdb ''Error resetting StatefulSet UpdateStrategyType: '') (\<lambda>_. finish_reconcile r mdb)))))))"

definition controller_Reconcile :: "'w reconciler \<Rightarrow> nsname \<Rightarrow> 'w rstate \<Rightarrow> reconcile_result outcome \<times> 'w rstate" where
  "controller_Reconcile r request =
     on_result (on_cluster (on_result (kGet (r_client r) MongoDBKind request) fail (\<lambda>obj. pure_out (as_mongodb obj))))
       (\<lambda>err. if IsNotFound err then ret result_OK else ret result_Failed)
       (reconcile_resource r)"

end
