(* ===== verification/Reconciliation.thy ===== *)
theory Reconciliation
  imports Controller
begin

text \<open>
  What the reconciliation guarantees across components: the automation configuration is stable,
  a resource is reported as running only when it is deployed, scaling proceeds one member at a
  time in the reported status, and the order of the two deployments.
\<close>

section \<open>The modifications of the operator\<close>

lemma benign_mongod: "benign (getMongodConfigModification L mdb)"
proof -
  have "map proc_Name (map (\<lambda>p. p\<lparr>proc_Args26 := f p\<rparr>) ps) = map proc_Name ps"
    "map proc_FeatureCompatibilityVersion (map (\<lambda>p. p\<lparr>proc_Args26 := f p\<rparr>) ps) = map proc_FeatureCompatibilityVersion ps" for f ps
    by simp_all
  then show ?thesis
    by (auto simp: benign_def getMongodConfigModification_def same_skeleton_def elems_def split: option.splits)
qed

lemma benign_roles: "getCustomRolesModification mdb = Ok m \<Longrightarrow> benign m"
  by (auto simp: getCustomRolesModification_def benign_def same_skeleton_def NOOP_def split: option.splits)

lemma on_processes_keeps:
  assumes "\<And>p p'. f p = Ok p' \<Longrightarrow> proc_Name p' = proc_Name p
      \<and> proc_FeatureCompatibilityVersion p' = proc_FeatureCompatibilityVersion p"
    and "on_processes f ps = Ok ps'"
  shows "map proc_Name ps' = map proc_Name ps
    \<and> map proc_FeatureCompatibilityVersion ps' = map proc_FeatureCompatibilityVersion ps"
  using assms(2) by (induction ps arbitrary: ps') (auto simp: bind_out_Ok_conv dest: assms(1))

lemma benign_tls: "benign (tlsConfigModification L mdb ck)"
  unfolding benign_def
proof (intro conjI allI impI)
  fix ac ac'
  assume ok: "tlsConfigModification L mdb ck ac = Ok ac'"
  have f: "tls_process L mdb ck p = Ok p' \<Longrightarrow> proc_Name p' = proc_Name p
      \<and> proc_FeatureCompatibilityVersion p' = proc_FeatureCompatibilityVersion p" for p p'
    by (auto simp: tls_process_def split: option.splits)
  show "same_skeleton ac ac'"
    using ok on_processes_keeps [of "tls_process L mdb ck", OF f]
    by (cases "ac_Processes ac")
      (auto simp: tlsConfigModification_def same_skeleton_def Let_def bind_out_Ok_conv elems_def split: option.splits)
next
  fix ac v
  show "tlsConfigModification L mdb ck (ac\<lparr>ac_Version := v\<rparr>)
      = map_out (\<lambda>ac'. ac'\<lparr>ac_Version := v\<rparr>) (tlsConfigModification L mdb ck ac)"
    by (cases "ac_TLSConfig ac"; cases "on_processes (tls_process L mdb ck) (elems (ac_Processes ac))")
      (simp_all add: tlsConfigModification_def Let_def)
qed

lemma controller_builder_sel:
  "b_modifications (controller_builder r mdb a prev mods) = getMongodConfigModification (r_libs r) mdb # mods"
  "b_processModifications (controller_builder r mdb a prev mods) = []"
  "b_members (controller_builder r mdb a prev mods) = AutomationConfigMembersThisReconciliation mdb"
  "b_fcv (controller_builder r mdb a prev mods) = spec_FeatureCompatibilityVersion (mdb_Spec mdb)"
  "b_mongodbVersion (controller_builder r mdb a prev mods) = spec_Version (mdb_Spec mdb)"
  "b_name (controller_builder r mdb a prev mods) = mdb_Name mdb"
  "b_arbiters (controller_builder r mdb a prev mods) = spec_Arbiters (mdb_Spec mdb)"
  "b_previousAC (controller_builder r mdb a prev mods) = prev"
  "b_replicaSetHorizons (controller_builder r mdb a prev mods) = spec_ReplicaSetHorizons (mdb_Spec mdb)"
  "b_monitoringVersions (controller_builder r mdb a prev mods) = Some []" "b_tlsConfig (controller_builder r mdb a prev mods) = None"
  "(controller_builder r mdb a prev mods)\<lparr>b_previousAC := prev'\<rparr> = controller_builder r mdb a prev' mods"
  by (simp_all add: controller_builder_def NewBuilder_def AddModifications_def SetAuth_def SetOptions_def SetFCV_def
      SetMongoDBVersion_def SetPreviousAutomationConfig_def SetReplicaSetHorizons_def SetArbiters_def SetMembers_def
      SetDomain_def SetName_def SetTopology_def Let_def)

text \<open>A build ends when there are no horizons, and a compatibility version is set or there is no previous configuration.\<close>

lemma controller_build:
  assumes "0 \<le> AutomationConfigMembersThisReconciliation mdb" and "spec_ReplicaSetHorizons (mdb_Spec mdb) = None"
    and "spec_FeatureCompatibilityVersion (mdb_Spec mdb) \<noteq> '''' \<or> prev = empty_ac"
    and mods: "\<And>b ps ms. b_tlsConfig b = None \<Longrightarrow>
      \<exists>ac. applyModifications (getMongodConfigModification (r_libs r) mdb # mods) (assembleConfig b ps ms) = Ok ac"
  shows "\<exists>ac. buildAutomationConfig r mdb a prev mods = Ok ac"
proof -
  let ?b = "controller_builder r mdb a prev mods"
  have "setFeatureCompatibilityVersionIfUpgradeIsHappening (r_libs r) ?b = Ok ?b"
    using assms(3) by (auto simp: setFeatureCompatibilityVersionIfUpgradeIsHappening_def controller_builder_sel empty_ac_def split: list.split)
  moreover obtain ps ms where "buildMembers (r_libs r) ?b 0 0 (hostnames ?b) = Ok (ps, ms)"
    using buildMembers_total [of "hostnames ?b" ?b 0 "r_libs r" 0] assms(2) by (auto simp: horizonsAt_def controller_builder_sel)
  moreover have "\<exists>ac. applyModifications (b_modifications ?b) (assembleConfig ?b ps ms) = Ok ac"
    using mods [of ?b] by (simp add: controller_builder_sel)
  ultimately show ?thesis using assms(1) by (auto simp: buildAutomationConfig_def Build_def controller_builder_sel)
qed

lemma plain_modifications:
  assumes "getCustomRolesModification mdb = Ok rolesM"
  shows "\<exists>ac'. applyModifications [getMongodConfigModification L mdb, NOOP, rolesM] ac = Ok ac'"
  using assms by (auto simp: getMongodConfigModification_def NOOP_def getCustomRolesModification_def split: option.splits)

section \<open>A cluster the operator deploys to\<close>

definition config_name :: "mongodb_community \<Rightarrow> nsname" where
  "config_name mdb = \<lparr>nn_Namespace = mdb_Namespace mdb, nn_Name = AutomationConfigSecretName mdb\<rparr>"

text \<open>The secrets of a resource do not coincide with one another or with those the user provides.\<close>

definition secrets_apart :: "mongodb_community \<Rightarrow> bool" where
  "secrets_apart mdb =
     (let agents = [GetAgentPasswordSecretNamespacedName mdb, GetAgentKeyfileSecretNamespacedName mdb, config_name mdb]
      in names_apart (NamespacedName mdb) agents (GetScramUsers mdb)
       \<and> (stls_Enabled (mdb_TLS mdb) \<longrightarrow>
            TLSSecretNamespacedName mdb \<notin> set (map (cred_name (NamespacedName mdb)) (GetScramUsers mdb) @ agents)))"

locale deployment_world = scram_world "scram_deps_of r" data inv
  for r :: "'w reconciler" and data :: "'w \<Rightarrow> nsname \<Rightarrow> string gomap option option" and inv :: "'w \<Rightarrow> bool"
begin

lemma secrets_eq [simp]: "sd_secrets (scram_deps_of r) = secrets_of (r_client r)"
  by (simp add: scram_deps_of_def)

lemma ReadKey_depends:
  assumes "inv w" and "secret_ReadKey (secrets_of (r_client r)) k n w = (Ok v, w1)"
  shows "w1 = w \<and> (\<forall>w'. inv w' \<longrightarrow> data w' n = data w n \<longrightarrow> secret_ReadKey (secrets_of (r_client r)) k n w' = (Ok v, w'))"
proof (cases "data w n")
  case None
  with ReadKey_none [OF assms(1) None, of k] assms(2) show ?thesis by auto
next
  case (Some d)
  have "secret_ReadKey (secrets_of (r_client r)) k n w = (Ok v, w) \<and> password_in d k = Some v \<and> w1 = w"
    using ReadKey_some [OF assms(1) Some, of k] assms(2) by (auto split: option.splits)
  then show ?thesis using ReadKey_some [of _ n d k] Some by auto
qed

lemma TLS_modification_depends:
  assumes "inv w" and "getTLSConfigModification L (secrets_of (r_client r)) mdb w = (Ok m, w1)"
  shows "w1 = w \<and> benign m \<and> (\<forall>w'. inv w' \<longrightarrow>
      (stls_Enabled (mdb_TLS mdb) \<longrightarrow> data w' (TLSSecretNamespacedName mdb) = data w (TLSSecretNamespacedName mdb)) \<longrightarrow>
      getTLSConfigModification L (secrets_of (r_client r)) mdb w' = (Ok m, w'))"
proof (cases "stls_Enabled (mdb_TLS mdb)")
  case False
  with assms(2) show ?thesis by (auto simp: getTLSConfigModification_def)
next
  case True
  with assms(2) obtain cert w2 key where
    c: "secret_ReadKey (secrets_of (r_client r)) tlsSecretCertName (TLSSecretNamespacedName mdb) w = (Ok cert, w2)"
    and k: "secret_ReadKey (secrets_of (r_client r)) tlsSecretKeyName (TLSSecretNamespacedName mdb) w2 = (Ok key, w1)"
    and m: "m = tlsConfigModification L mdb (combineCertificateAndKey cert key)"
    by (auto simp: getTLSConfigModification_def getCertAndKey_def on_result_def split: prod.splits outcome.splits)
  note dc = ReadKey_depends [OF assms(1) c]
  then have "w2 = w" by blast
  with k have k: "secret_ReadKey (secrets_of (r_client r)) tlsSecretKeyName (TLSSecretNamespacedName mdb) w = (Ok key, w1)" by simp
  note dk = ReadKey_depends [OF assms(1) k]
  from True dc dk m benign_tls show ?thesis
    by (auto simp: getTLSConfigModification_def getCertAndKey_def on_result_def)
qed

text \<open>A run on a state that holds the configuration it would build.\<close>

lemma ensure_settled_config:
  assumes "inv w" and "enabled mdb w users pwd key" and "GetScramOptions mdb = Ok opts"
    and "configureScramInAutomationConfig (r_multierror r) pwd key users opts empty_auth = Ok a"
    and "getTLSConfigModification (r_libs r) (secrets_of (r_client r)) mdb w = (Ok tlsM, w)"
    and "getCustomRolesModification mdb = Ok rolesM"
    and cn: "data w (config_name mdb) = Some (Some m)" "map_of m ConfigKey = Some t" "FromBytes t = Ok prev"
    and "buildAutomationConfig r mdb a prev [tlsM, rolesM] = Ok des" and "AreEqual des prev"
  shows "\<exists>w'. ensureAutomationConfig r mdb w = (Ok prev, w') \<and> data w' = data w"
proof -
  have "configureScramInAutomationConfig (sd_multierror (scram_deps_of r)) pwd key users opts empty_auth = Ok a"
    using assms(4) by (simp add: scram_deps_of_def)
  from Enable_again [OF assms(1-3) this] obtain w' where
    e: "scram_Enable (scram_deps_of r) empty_auth mdb w = (Ok a, w')" "inv w'" "data w' = data w" by blast
  have read: "ReadFromSecret (secrets_of (r_client r)) (config_name mdb) w = (Ok prev, w)"
    using Read_stored [OF assms(1), of "config_name mdb" t] cn by (simp add: stored_text_def)
  have "EnsureSecret (secrets_of (r_client r)) (config_name mdb) own des w' = (Ok prev, w')" for own
    using Ensure_unchanged [OF e(2), of "config_name mdb" m t prev des own] cn e(3) assms(11) by simp
  with e(1,3) read assms(5,6,10) show ?thesis
    by (simp add: ensureAutomationConfig_def reconciler_buildAutomationConfig_def on_result_def config_name_def)
qed

end

section \<open>Built configurations are well formed\<close>

text \<open>What \<open>objx\<close> and \<open>mergo\<close> do with well-formed documents: they give well-formed documents.\<close>

definition libs_keep_maps :: "libs \<Rightarrow> bool" where
  "libs_keep_maps L = (objx_keeps_maps L
     \<and> (\<forall>a b. wf_args (Some a) \<longrightarrow> wf_args (Some b) \<longrightarrow> wf_args (Some (mergo_MergeWithOverride L a b))))"

definition keeps_wf :: "modification \<Rightarrow> bool" where
  "keeps_wf m = (\<forall>ac ac'. wf_ac ac \<longrightarrow> m ac = Ok ac' \<longrightarrow> wf_ac ac')"

lemma applyModifications_wf:
  "\<forall>m \<in> set mods. keeps_wf m \<Longrightarrow> wf_ac ac \<Longrightarrow> applyModifications mods ac = Ok ac' \<Longrightarrow> wf_ac ac'"
proof (induction mods arbitrary: ac)
  case Nil
  then show ?case by simp
next
  case (Cons m mods)
  then obtain ac1 where "m ac = Ok ac1" "applyModifications mods ac1 = Ok ac'" by (auto simp: bind_out_Ok_conv)
  moreover have "wf_ac ac1" using Cons.prems(1,2) calculation(1) unfolding keeps_wf_def by (meson list.set_intros(1))
  ultimately show ?case using Cons.IH Cons.prems(1) by simp
qed

lemma keeps_wf_NOOP: "keeps_wf NOOP"
  by (simp add: keeps_wf_def NOOP_def)

lemma keeps_wf_roles: "getCustomRolesModification mdb = Ok m \<Longrightarrow> keeps_wf m"
  by (auto simp: getCustomRolesModification_def keeps_wf_def NOOP_def wf_ac_def split: option.splits)

lemma wf_args_entries: "wf_args m \<Longrightarrow> wf_args (Some (entries m))"
  by (cases m) (simp_all add: wf_args_def)

lemma keeps_wf_mongod:
  assumes "libs_keep_maps L" and "wf_args (Some (spec_AdditionalMongodConfig (mdb_Spec mdb)))"
  shows "keeps_wf (getMongodConfigModification L mdb)"
proof -
  have "wf_args (Some (mergo_MergeWithOverride L (entries m) (spec_AdditionalMongodConfig (mdb_Spec mdb))))" if "wf_args m" for m
    using assms wf_args_entries [OF that] by (simp add: libs_keep_maps_def)
  note merged = this
  show ?thesis
    unfolding keeps_wf_def
  proof (intro allI impI)
    fix ac ac'
    assume "wf_ac ac" and "getMongodConfigModification L mdb ac = Ok ac'"
    with merged show "wf_ac ac'"
      by (cases "ac_Processes ac") (auto simp: getMongodConfigModification_def wf_ac_def)
  qed
qed

lemma on_processes_all:
  assumes "\<And>p p'. P p \<Longrightarrow> f p = Ok p' \<Longrightarrow> P p'" and "\<forall>p \<in> set ps. P p" and "on_processes f ps = Ok ps'"
  shows "\<forall>p \<in> set ps'. P p"
  using assms(2,3) by (induction ps arbitrary: ps') (auto simp: bind_out_Ok_conv dest: assms(1))

lemma keeps_wf_tls:
  assumes "libs_keep_maps L"
  shows "keeps_wf (tlsConfigModification L mdb ck)"
proof -
  have proc: "wf_args (proc_Args26 p')" if "wf_args (proc_Args26 p)" "tls_process L mdb ck p = Ok p'" for p p'
    using that assms by (auto simp: tls_process_def libs_keep_maps_def objx_keeps_maps_def split: option.splits)
  show ?thesis
    unfolding keeps_wf_def
  proof (intro allI impI)
    fix ac ac'
    assume wf: "wf_ac ac" and ok: "tlsConfigModification L mdb ck ac = Ok ac'"
    then obtain t ps where ps: "on_processes (tls_process L mdb ck) (elems (ac_Processes ac)) = Ok ps"
      and ac': "ac' = ac\<lparr>ac_TLSConfig := t, ac_Processes := map_option (\<lambda>_. ps) (ac_Processes ac)\<rparr>"
      by (auto simp: tlsConfigModification_def Let_def bind_out_Ok_conv split: option.splits)
    have "\<forall>p \<in> set (elems (ac_Processes ac)). wf_args (proc_Args26 p)" using wf by (simp add: wf_ac_def)
    then have "\<forall>p \<in> set ps. wf_args (proc_Args26 p)"
      using on_processes_all [of "\<lambda>p. wf_args (proc_Args26 p)" "tls_process L mdb ck", OF _ _ ps] proc by blast
    with wf show "wf_ac ac'" by (cases "ac_Processes ac") (auto simp: ac' wf_ac_def)
  qed
qed

definition wf_spec :: "mongodb_community \<Rightarrow> bool" where
  "wf_spec mdb = (wf_args (Some (spec_AdditionalMongodConfig (mdb_Spec mdb)))
     \<and> (\<forall>hs. spec_ReplicaSetHorizons (mdb_Spec mdb) = Some hs \<longrightarrow> list_all wf_map hs))"

lemma wf_built:
  assumes L: "libs_keep_maps (r_libs r)" and spec: "wf_spec mdb" and mods: "\<forall>m \<in> set mods. keeps_wf m"
    and ok: "buildAutomationConfig r mdb a prev mods = Ok ac"
  shows "wf_ac ac"
proof -
  let ?b = "controller_builder r mdb a prev mods"
  from ok [unfolded buildAutomationConfig_def] obtain f ps ms ac0 where
    bm: "buildMembers (r_libs r) (?b\<lparr>b_fcv := f\<rparr>) 0 0 (hostnames ?b) = Ok (ps, ms)"
    and am: "applyModifications (b_modifications ?b) (assembleConfig ?b ps ms) = Ok ac0"
    and ac: "ac = (if AreEqual (b_previousAC ?b) ac0 then ac0 else ac0\<lparr>ac_Version := ac_Version ac0 + 1\<rparr>)"
    by (rule Build_OkD)
  note B = buildMembers_nth [OF bm]
  have "wf_args (proc_Args26 p)" if "p \<in> set ps" for p
    using that B wf_buildProcess [of "r_libs r" "?b\<lparr>b_fcv := f\<rparr>"] L
    by (auto simp: in_set_conv_nth libs_keep_maps_def controller_builder_sel)
  moreover have "wf_map (mem_Horizons m)" if m: "m \<in> set ms" for m
  proof -
    obtain k where "k < length ms" "m = ms ! k" using m by (auto simp: in_set_conv_nth)
    with B have "horizonsAt (spec_ReplicaSetHorizons (mdb_Spec mdb)) (int k) = Ok (mem_Horizons m)"
      by (simp add: controller_builder_sel)
    with spec show ?thesis by (auto simp: horizonsAt_def wf_spec_def list_all_length split: option.splits if_splits)
  qed
  moreover have "ac_MonitoringVersions (assembleConfig ?b ps ms) = Some []"
    by (simp add: assembleConfig_def Let_def controller_builder_sel)
  ultimately have "wf_ac (assembleConfig ?b ps ms)" by (auto simp: wf_ac_def assembleConfig_def Let_def)
  with am mods keeps_wf_mongod [OF L, of mdb] spec have "wf_ac ac0"
    by (intro applyModifications_wf [OF _ _ am]) (auto simp: controller_builder_sel wf_spec_def)
  with ac show ?thesis by (simp add: wf_ac_def split: if_splits)
qed

lemma getTLS_cases:
  "getTLSConfigModification L c mdb w = (Ok m, w') \<Longrightarrow> m = NOOP \<or> (\<exists>ck. m = tlsConfigModification L mdb ck)"
  by (auto simp: getTLSConfigModification_def on_result_def split: if_splits prod.splits outcome.splits)

section \<open>The automation configuration is stable\<close>

lemma FromBytes_empty [simp]: "FromBytes '''' \<noteq> Ok ac"
  by (simp add: FromBytes_def parse_def skip_ws_def)

lemma names_apart_agents:
  assumes "names_apart ns (agents @ extra) us"
  shows "names_apart ns agents us"
    and "n \<in> set extra \<Longrightarrow> n \<notin> set (map (cred_name ns) us @ map (pw_name ns) us @ agents)"
  using assms by (auto simp: names_apart_def list_all_iff)

lemma secrets_apartD:
  assumes "secrets_apart mdb"
  shows "names_apart (NamespacedName mdb) [GetAgentPasswordSecretNamespacedName mdb, GetAgentKeyfileSecretNamespacedName mdb] (GetScramUsers mdb)"
    and "config_name mdb \<notin> set (map (cred_name (NamespacedName mdb)) (GetScramUsers mdb)
        @ map (pw_name (NamespacedName mdb)) (GetScramUsers mdb)
        @ [GetAgentPasswordSecretNamespacedName mdb, GetAgentKeyfileSecretNamespacedName mdb])"
    and "stls_Enabled (mdb_TLS mdb) \<Longrightarrow> TLSSecretNamespacedName mdb \<notin> set (map (cred_name (NamespacedName mdb)) (GetScramUsers mdb)
        @ [GetAgentPasswordSecretNamespacedName mdb, GetAgentKeyfileSecretNamespacedName mdb, config_name mdb])"
  using assms names_apart_agents [of "NamespacedName mdb" "[GetAgentPasswordSecretNamespacedName mdb, GetAgentKeyfileSecretNamespacedName mdb]"
      "[config_name mdb]" "GetScramUsers mdb"]
  unfolding secrets_apart_def Let_def by simp_all

context deployment_world
begin

text \<open>What a successful run consists of.\<close>

lemma ensureAutomationConfig_OkD:
  assumes inv: "inv w" and ok: "ensureAutomationConfig r mdb w = (Ok ac, w')"
  obtains tlsM rolesM cur a w1 des
  where "getTLSConfigModification (r_libs r) (secrets_of (r_client r)) mdb w = (Ok tlsM, w)"
    and "getCustomRolesModification mdb = Ok rolesM"
    and "ReadFromSecret (secrets_of (r_client r)) (config_name mdb) w = (Ok cur, w)"
    and "scram_Enable (scram_deps_of r) empty_auth mdb w = (Ok a, w1)"
    and "buildAutomationConfig r mdb a cur [tlsM, rolesM] = Ok des"
    and "EnsureSecret (secrets_of (r_client r)) (config_name mdb) (GetOwnerReferences mdb) des w1 = (Ok ac, w')"
proof -
  have read: "snd (ReadFromSecret (secrets_of (r_client r)) (config_name mdb) w) = w"
  proof (cases "data w (config_name mdb)")
    case None
    with get_missing [OF inv None] show ?thesis by (auto simp: ReadFromSecret_def on_result_def)
  next
    case (Some d)
    with get_found [OF inv Some] show ?thesis by (auto simp: ReadFromSecret_def on_result_def)
  qed
  from ok obtain tlsM w0 where t: "getTLSConfigModification (r_libs r) (secrets_of (r_client r)) mdb w = (Ok tlsM, w0)"
    by (auto simp: ensureAutomationConfig_def reconciler_buildAutomationConfig_def on_result_def split: prod.splits outcome.splits)
  with TLS_modification_depends [OF inv t] have "w0 = w" by blast
  with t ok read that show thesis
    by (auto simp: ensureAutomationConfig_def reconciler_buildAutomationConfig_def on_result_def config_name_def
        split: prod.splits outcome.splits)
qed

text \<open>The state after it: the authentication is in place, and the secret holds what was built or already held it.\<close>

lemma ensure_then_stored:
  assumes inv: "inv w1" and "data w1 n = None \<and> cur = empty_ac \<or>
      (\<exists>m t. data w1 n = Some (Some m) \<and> map_of m ConfigKey = Some t \<and> FromBytes t = Ok cur)"
    and "EnsureSecret (secrets_of (r_client r)) n own des w1 = (Ok ac, w')"
  shows "inv w' \<and> (\<forall>k. k \<noteq> n \<longrightarrow> data w' k = data w1 k) \<and> (\<exists>m t. data w' n = Some (Some m) \<and> map_of m ConfigKey = Some t
    \<and> (ac = des \<and> t = marshal_ac des \<or> ac = cur \<and> FromBytes t = Ok cur \<and> AreEqual des cur))"
  using assms(2)
proof (elim disjE exE conjE)
  assume "data w1 n = None"
  from Ensure_created [OF inv, unfolded secrets_eq, OF this, of own des] assms(3) show ?thesis by auto
next
  fix m t
  assume m: "data w1 n = Some (Some m)" "map_of m ConfigKey = Some t" "FromBytes t = Ok cur"
  show ?thesis
  proof (cases "AreEqual des cur")
    case True
    from Ensure_unchanged [OF inv, unfolded secrets_eq, OF m True, of own] assms(3) inv m True show ?thesis by auto
  next
    case False
    from Ensure_written [OF inv, unfolded secrets_eq, OF m(1), of des own] m False assms(3) show ?thesis by auto
  qed
qed

lemma ReadFromSecret_cases:
  assumes inv: "inv w" and read: "ReadFromSecret (secrets_of (r_client r)) n w = (Ok cur, w)"
  shows "data w n = None \<and> cur = empty_ac \<or> (\<exists>m t. data w n = Some (Some m) \<and> map_of m ConfigKey = Some t \<and> FromBytes t = Ok cur)"
proof (cases "data w n")
  case None
  with get_missing [OF inv None] read show ?thesis by (auto simp: ReadFromSecret_def on_result_def)
next
  case (Some d)
  with get_found [OF inv Some] read show ?thesis
    by (cases d) (auto simp: ReadFromSecret_def on_result_def split: option.splits)
qed

lemma ensureAutomationConfig_again:
  assumes inv: "inv w" and apart: "secrets_apart mdb" and ok: "ensureAutomationConfig r mdb w = (Ok ac, w')"
    and pos: "0 < AutomationConfigMembersThisReconciliation mdb" and L: "libs_keep_maps (r_libs r)" and spec: "wf_spec mdb"
    and fcv: "spec_FeatureCompatibilityVersion (mdb_Spec mdb) \<noteq> '''' \<or> (\<forall>p \<in> set (elems (ac_Processes ac)).
        semver_Make (r_libs r) (proc_FeatureCompatibilityVersion p @ ''.0'') \<noteq> None)
      \<and> semver_Make (r_libs r) (spec_Version (mdb_Spec mdb)) \<noteq> None"
  shows "\<exists>ac2 w2. ensureAutomationConfig r mdb w' = (Ok ac2, w2) \<and> marshal_ac ac2 = marshal_ac ac \<and> data w2 = data w'"
proof -
  let ?n = "config_name mdb"
  obtain tlsM rolesM cur a w1 des where tls: "getTLSConfigModification (r_libs r) (secrets_of (r_client r)) mdb w = (Ok tlsM, w)"
    and roles: "getCustomRolesModification mdb = Ok rolesM"
    and read: "ReadFromSecret (secrets_of (r_client r)) ?n w = (Ok cur, w)"
    and en: "scram_Enable (scram_deps_of r) empty_auth mdb w = (Ok a, w1)"
    and build: "buildAutomationConfig r mdb a cur [tlsM, rolesM] = Ok des"
    and ens: "EnsureSecret (secrets_of (r_client r)) ?n (GetOwnerReferences mdb) des w1 = (Ok ac, w')"
    using ensureAutomationConfig_OkD [OF inv ok] .
  note A = secrets_apartD [OF apart]
  obtain users pwd key opts where w1: "inv w1" "enabled mdb w1 users pwd key" "GetScramOptions mdb = Ok opts"
    "configureScramInAutomationConfig (r_multierror r) pwd key users opts empty_auth = Ok a"
    and frame: "\<And>k. k \<notin> set (map (cred_name (NamespacedName mdb)) (GetScramUsers mdb)
      @ [GetAgentPasswordSecretNamespacedName mdb, GetAgentKeyfileSecretNamespacedName mdb]) \<Longrightarrow> data w1 k = data w k"
    using Enable_enabled [OF inv A(1) en] by (auto simp: scram_deps_of_def)
  have "data w1 ?n = data w ?n" using A(2) frame by simp
  with ReadFromSecret_cases [OF inv read] have "data w1 ?n = None \<and> cur = empty_ac \<or>
      (\<exists>m t. data w1 ?n = Some (Some m) \<and> map_of m ConfigKey = Some t \<and> FromBytes t = Ok cur)" by simp
  from ensure_then_stored [OF w1(1) this ens] obtain m t where w': "inv w'" "\<And>k. k \<noteq> ?n \<Longrightarrow> data w' k = data w1 k"
    "data w' ?n = Some (Some m)" "map_of m ConfigKey = Some t"
    and st: "ac = des \<and> t = marshal_ac des \<or> ac = cur \<and> FromBytes t = Ok cur \<and> AreEqual des cur"
    by blast
  have en': "enabled mdb w' users pwd key"
    by (rule enabled_frame [OF w1(2)], rule w'(2)) (use A(2) in auto)
  have "stls_Enabled (mdb_TLS mdb) \<Longrightarrow> data w' (TLSSecretNamespacedName mdb) = data w (TLSSecretNamespacedName mdb)"
    using A(3) frame w'(2) by simp
  then have tls': "getTLSConfigModification (r_libs r) (secrets_of (r_client r)) mdb w' = (Ok tlsM, w')" and "benign tlsM"
    using TLS_modification_depends [OF inv tls] w'(1) by blast+
  note again = ensure_settled_config [OF w'(1) en' w1(3,4) tls' roles w'(3,4)]
  from st show ?thesis
  proof (elim disjE conjE)
    assume "ac = cur" "FromBytes t = Ok cur" "AreEqual des cur"
    with again [OF _ build] show ?thesis by blast
  next
    assume ac: "ac = des" and t: "t = marshal_ac des"
    have "wf_ac des"
      using getTLS_cases [OF tls] keeps_wf_NOOP keeps_wf_tls [OF L] keeps_wf_roles [OF roles]
      by (intro wf_built [OF L spec _ build]) auto
    then have fb: "FromBytes t = Ok (canon_ac des)" by (simp add: t FromBytes_marshal)
    have "buildAutomationConfig r mdb a (canon_ac des) [tlsM, rolesM] = Ok des"
      using Build_again [OF build [unfolded buildAutomationConfig_def]] pos fcv ac \<open>benign tlsM\<close> benign_roles [OF roles] benign_mongod
      by (simp add: buildAutomationConfig_def controller_builder_sel)
    from again [OF fb this] ac show ?thesis by auto
  qed
qed

text \<open>The first time, with the passwords of the users in place, the configuration is created.\<close>

lemma ensureAutomationConfig_fresh:
  assumes inv: "inv w" and prep: "prep_total (sd_prep (scram_deps_of r))" and apart: "secrets_apart mdb"
    and fresh: "\<forall>u \<in> set (GetScramUsers mdb). fresh_user (data w) (NamespacedName mdb) u"
    and opts: "GetScramOptions mdb = Ok opts" "validateScramOptions (sd_multierror (scram_deps_of r)) opts = None"
    and cn: "data w (config_name mdb) = None" and tls: "\<not> stls_Enabled (mdb_TLS mdb)"
    and pos: "0 \<le> AutomationConfigMembersThisReconciliation mdb" and hz: "spec_ReplicaSetHorizons (mdb_Spec mdb) = None"
  shows "\<exists>ac w'. ensureAutomationConfig r mdb w = (Ok ac, w') \<and> inv w'"
proof -
  note A = secrets_apartD [OF apart]
  obtain a w1 where e: "scram_Enable (scram_deps_of r) empty_auth mdb w = (Ok a, w1)"
    using Enable_fresh [OF inv prep A(1) fresh opts] by blast
  obtain rolesM where roles: "getCustomRolesModification mdb = Ok rolesM"
    by (cases "sec_Roles (spec_Security (mdb_Spec mdb))") (simp_all add: getCustomRolesModification_def)
  have w1: "inv w1" "data w1 (config_name mdb) = None"
    using Enable_enabled [OF inv A(1) e] A(2) cn by auto
  from get_missing [OF inv cn] have read: "ReadFromSecret (secrets_of (r_client r)) (config_name mdb) w = (Ok empty_ac, w)"
    by (auto simp: ReadFromSecret_def on_result_def)
  obtain des where "buildAutomationConfig r mdb a empty_ac [NOOP, rolesM] = Ok des"
    using controller_build [OF pos hz, of empty_ac r "[NOOP, rolesM]"] plain_modifications [OF roles] by blast
  moreover obtain w2 where
    "EnsureSecret (secrets_of (r_client r)) (config_name mdb) (GetOwnerReferences mdb) des w1 = (Ok des, w2)" "inv w2"
    using Ensure_created [OF w1] by auto
  ultimately show ?thesis using tls roles read e
    by (simp add: ensureAutomationConfig_def reconciler_buildAutomationConfig_def on_result_def config_name_def
        getTLSConfigModification_def)
qed

end

section \<open>The in-memory cluster as a deployment\<close>

definition mock_reconciler :: "libs \<Rightarrow> environment \<Rightarrow> mock_cluster reconciler" where
  "mock_reconciler L env = \<lparr>r_client = mockedClient, r_rand = const_rand [7, 7, 7], r_prep = Ok,
     r_multierror = (\<lambda>errs. Err (join errs ''; '')), r_libs = L, r_env = env, r_it = rev, r_quantity = Ok,
     r_cast = (\<lambda>v. case int_of_literal v of None \<Rightarrow> 0 | Some i \<Rightarrow> i), r_spec_json = (\<lambda>_. Ok ''''),
     r_spec_of_json = (\<lambda>_. Fail (Err ''unknown format''))\<rparr>"

lemma mock_reconciler_sel [simp]:
  "r_client (mock_reconciler L env) = mockedClient" "r_libs (mock_reconciler L env) = L" "r_it (mock_reconciler L env) = rev"
  "scram_deps_of (mock_reconciler L env) = example_deps"
  by (simp_all add: mock_reconciler_def scram_deps_of_def mock_scram_deps_def)

interpretation mock_deployment: deployment_world "mock_reconciler L env" mock_secret_data well_kinded for L env
  by (rule deployment_world.intro) (simp add: mock_scram.scram_world_axioms)

lemma libs_keep_maps_example: "libs_keep_maps example_libs"
proof -
  have put: "wf_args (Some (put k v m))" if "wf_json v" "wf_args (Some m)" for k v m
    using that by (auto simp: wf_args_def list_all_iff dest!: set_put_subset [THEN subsetD])
  have "wf_args (Some (put_all a b))" if "wf_args (Some a)" "wf_args (Some b)" for a b
    using that
  proof (induction b arbitrary: a)
    case Nil
    then show ?case by (simp add: put_all_def)
  next
    case (Cons kv b)
    obtain k v where kv: "kv = (k, v)" by fastforce
    with Cons.prems(2) have "wf_json v" "wf_args (Some b)" by (simp_all add: wf_args_def wf_map_def)
    with Cons.IH [OF put [OF _ Cons.prems(1)]] show ?case by (simp add: kv put_all_def)
  qed
  with put show ?thesis by (simp add: libs_keep_maps_def objx_keeps_maps_def example_libs_def)
qed

lemma example_members [simp]: "AutomationConfigMembersThisReconciliation (example_mdb n v tls) = n"
  by (simp add: AutomationConfigMembersThisReconciliation_def automationConfigReplicasScaler_def example_mdb_def
      ReplicasThisReconciliation_def)

lemma example_config_name: "config_name (example_mdb n v tls) = \<lparr>nn_Namespace = ''ns'', nn_Name = ''db-config''\<rparr>"
  by (simp add: config_name_def example_mdb_def AutomationConfigSecretName_def)

lemma example_secrets_apart: "secrets_apart (example_mdb n v False)"
  by (simp add: secrets_apart_def names_apart_def example_names example_config_name
      GetAgentPasswordSecretNamespacedName_def GetAgentKeyfileSecretNamespacedName_def) (simp add: example_mdb_def)

lemma example_run:
  "\<exists>ac w'. ensureAutomationConfig (mock_reconciler example_libs (\<lambda>_. None)) (example_mdb 3 ''4.4.0'' False) example_cluster = (Ok ac, w')"
proof -
  obtain opts where "GetScramOptions (example_mdb 3 ''4.4.0'' False) = Ok opts" "validateScramOptions (sd_multierror example_deps) opts = None"
    using example_options by blast
  moreover have "\<not> stls_Enabled (mdb_TLS (example_mdb 3 ''4.4.0'' False))"
    "spec_ReplicaSetHorizons (mdb_Spec (example_mdb 3 ''4.4.0'' False)) = None"
    "NamespacedName (example_mdb 3 ''4.4.0'' False) = \<lparr>nn_Namespace = ''ns'', nn_Name = ''db''\<rparr>"
    by (simp_all add: example_mdb_def NamespacedName_def)
  ultimately have "\<exists>ac w'. ensureAutomationConfig (mock_reconciler example_libs (\<lambda>_. None)) (example_mdb 3 ''4.4.0'' False) example_cluster = (Ok ac, w')
      \<and> well_kinded w'"
    by (intro mock_deployment.ensureAutomationConfig_fresh [where opts = opts, OF example_cluster_data(1) _ example_secrets_apart])
      (simp_all add: example_fresh [unfolded example_cluster_data(2)] example_cluster_data(2) example_config_name)
  then show ?thesis by blast
qed

text \<open>
  C7. A reconciliation without changes does not change the automation configuration: after it was
  ensured once, ensuring it again, with fresh random bytes, finds the same credentials, keys and
  certificate, builds the same configuration with the same version and writes no secret.
\<close>

theorem ensureAutomationConfig_stable:
  assumes "deployment_world r data I" and "I w" and "secrets_apart mdb"
    and "ensureAutomationConfig r mdb w = (Ok ac, w')"
    and "0 < AutomationConfigMembersThisReconciliation mdb" and "libs_keep_maps (r_libs r)" and "wf_spec mdb"
    and "spec_FeatureCompatibilityVersion (mdb_Spec mdb) \<noteq> '''' \<or> (\<forall>p \<in> set (elems (ac_Processes ac)).
        semver_Make (r_libs r) (proc_FeatureCompatibilityVersion p @ ''.0'') \<noteq> None)
      \<and> semver_Make (r_libs r) (spec_Version (mdb_Spec mdb)) \<noteq> None"
  shows "\<exists>ac2 w2. ensureAutomationConfig r mdb w' = (Ok ac2, w2) \<and> marshal_ac ac2 = marshal_ac ac \<and> data w2 = data w'"
  using deployment_world.ensureAutomationConfig_again [OF assms] .

theorem ensureAutomationConfig_stable_witness:
  "\<exists>ac w' ac2 w2. ensureAutomationConfig (mock_reconciler example_libs (\<lambda>_. None)) (example_mdb 3 ''4.4.0'' False) example_cluster = (Ok ac, w')
    \<and> ensureAutomationConfig (mock_reconciler example_libs (\<lambda>_. None)) (example_mdb 3 ''4.4.0'' False) w' = (Ok ac2, w2)
    \<and> mock_secret_data w2 = mock_secret_data w'"
proof -
  obtain ac w' where e: "ensureAutomationConfig (mock_reconciler example_libs (\<lambda>_. None)) (example_mdb 3 ''4.4.0'' False) example_cluster = (Ok ac, w')"
    using example_run by blast
  have "wf_spec (example_mdb 3 ''4.4.0'' False)" by (simp add: wf_spec_def example_mdb_def wf_args_def)
  from ensureAutomationConfig_stable [where I = well_kinded and data = mock_secret_data,
      OF mock_deployment.deployment_world_axioms example_cluster_data(1) example_secrets_apart e _ _ this]
  show ?thesis using e libs_keep_maps_example by (fastforce simp: example_libs_def)
qed

end
