(* ===== verification/Certificate.thy ===== *)
theory Certificate
  imports Reconciliation
begin

text \<open>
  The certificate of a deployment with TLS, from the secret of the user to the processes of the
  automation configuration (\<open>ensureTLSSecret\<close>, \<open>getTLSConfigModification\<close>, \<open>buildAutomationConfig\<close>).
\<close>

section \<open>The modification in a build\<close>

text \<open>The arguments of a process as the controller modifies them: the additional configuration of the
  resource is merged in first, the four fields of TLS are set after it.\<close>

definition tls_args :: "libs \<Rightarrow> mongodb_community \<Rightarrow> string \<Rightarrow> json gomap \<Rightarrow> json gomap" where
  "tls_args L mdb file args =
     objx_Set L ''net.tls.allowConnectionsWithoutCertificates'' (JBool True)
       (objx_Set L ''net.tls.certificateKeyFile'' (JStr file)
         (objx_Set L ''net.tls.CAFile'' (JStr ''/var/lib/tls/ca/ca.crt'')
           (objx_Set L ''net.tls.mode'' (JStr (if stls_Optional (mdb_TLS mdb) then ''preferTLS'' else ''requireTLS''))
             (mergo_MergeWithOverride L args (spec_AdditionalMongodConfig (mdb_Spec mdb))))))"

lemma tls_modifications:
  assumes "b_tlsConfig b = None" and "getCustomRolesModification mdb = Ok rolesM"
  obtains ac where "applyModifications [getMongodConfigModification L mdb, tlsConfigModification L mdb ck, rolesM] (assembleConfig b ps ms) = Ok ac"
    and "ac_Processes ac = Some (map (\<lambda>p. p\<lparr>proc_Args26 :=
        Some (tls_args L mdb (''/var/lib/tls/server/'' @ tlsOperatorSecretFileName ck) (entries (proc_Args26 p)))\<rparr>) ps)"
    and "map_option tls_CAFilePath (ac_TLSConfig ac) = Some ''/var/lib/tls/ca/ca.crt''"
proof -
  let ?m = "\<lambda>p. p\<lparr>proc_Args26 := Some (mergo_MergeWithOverride L (entries (proc_Args26 p)) (spec_AdditionalMongodConfig (mdb_Spec mdb)))\<rparr>"
  let ?t = "\<lambda>p. p\<lparr>proc_Args26 := Some (tls_args L mdb (''/var/lib/tls/server/'' @ tlsOperatorSecretFileName ck) (entries (proc_Args26 p)))\<rparr>"
  let ?c = "assembleConfig b ps ms"
  have "on_processes (tls_process L mdb ck) (map ?m ps) = Ok (map ?t ps)"
    by (induction ps) (simp_all add: tls_process_def tls_args_def tlsOperatorSecretMountPath_def tlsCAMountPath_def tlsCACertName_def tlsMode_def)
  moreover have "ac_Processes ?c = Some ps" and tls: "ac_TLSConfig ?c = Some \<lparr>tls_CAFilePath = b_cafilePath b, tls_ClientCertificateMode = ''OPTIONAL''\<rparr>"
    by (simp_all add: assembleConfig_def Let_def assms(1))
  ultimately have "bind_out (getMongodConfigModification L mdb ?c) (tlsConfigModification L mdb ck) =
      Ok (?c\<lparr>ac_Processes := Some (map ?t ps), ac_TLSConfig := Some \<lparr>tls_CAFilePath = ''/var/lib/tls/ca/ca.crt'', tls_ClientCertificateMode = ''OPTIONAL''\<rparr>\<rparr>)"
    by (simp add: getMongodConfigModification_def tlsConfigModification_def Let_def tlsCAMountPath_def tlsCACertName_def)
  with assms(2) that show thesis
    by (cases "sec_Roles (spec_Security (mdb_Spec mdb))")
      (auto simp: getCustomRolesModification_def NOOP_def getMongodConfigModification_def)
qed

text \<open>A configuration all of whose processes, one for each member, use a certificate file.\<close>

definition uses_certificate :: "libs \<Rightarrow> mongodb_community \<Rightarrow> string \<Rightarrow> automation_config \<Rightarrow> bool" where
  "uses_certificate L mdb file ac =
     (length (elems (ac_Processes ac)) = nat (AutomationConfigMembersThisReconciliation mdb)
      \<and> (\<forall>p \<in> set (elems (ac_Processes ac)). \<exists>args. proc_Args26 p = Some (tls_args L mdb file args))
      \<and> map_option tls_CAFilePath (ac_TLSConfig ac) = Some ''/var/lib/tls/ca/ca.crt'')"

lemma tls_build:
  assumes roles: "getCustomRolesModification mdb = Ok rolesM"
    and ok: "buildAutomationConfig r mdb a prev [tlsConfigModification (r_libs r) mdb ck, rolesM] = Ok des"
  shows "uses_certificate (r_libs r) mdb (''/var/lib/tls/server/'' @ tlsOperatorSecretFileName ck) des"
proof -
  let ?b = "controller_builder r mdb a prev [tlsConfigModification (r_libs r) mdb ck, rolesM]"
  from ok [unfolded buildAutomationConfig_def] obtain f ps ms ac0 where
    bm: "buildMembers (r_libs r) (?b\<lparr>b_fcv := f\<rparr>) 0 0 (hostnames ?b) = Ok (ps, ms)"
    and am: "applyModifications (b_modifications ?b) (assembleConfig ?b ps ms) = Ok ac0"
    and des: "des = (if AreEqual (b_previousAC ?b) ac0 then ac0 else ac0\<lparr>ac_Version := ac_Version ac0 + 1\<rparr>)"
    by (rule Build_OkD)
  have "length ps = nat (AutomationConfigMembersThisReconciliation mdb)"
    using buildMembers_nth [OF bm] by (simp add: hostnames_def controller_builder_sel)
  moreover obtain ac1 where "applyModifications (b_modifications ?b) (assembleConfig ?b ps ms) = Ok ac1"
    "ac_Processes ac1 = Some (map (\<lambda>p. p\<lparr>proc_Args26 :=
        Some (tls_args (r_libs r) mdb (''/var/lib/tls/server/'' @ tlsOperatorSecretFileName ck) (entries (proc_Args26 p)))\<rparr>) ps)"
    "map_option tls_CAFilePath (ac_TLSConfig ac1) = Some ''/var/lib/tls/ca/ca.crt''"
    using tls_modifications [where L = "r_libs r" and ck = ck and ps = ps and ms = ms, OF controller_builder_sel(11) roles]
    unfolding controller_builder_sel by blast
  ultimately show ?thesis using am des by (auto simp: uses_certificate_def)
qed

text \<open>
  C15. The certificate file exists under the name that mongod is told: when TLS is enabled and the user
  provides a certificate and a key, ensuring the TLS resources stores their combined text in the
  secret of the operator, as its only entry, under a file name made of its hash. Every automation
  configuration that the operator then builds, in any state with the same secret of the user, has one
  process for each member of this reconciliation, and the arguments of each of them were set to this
  very file in \<open>/var/lib/tls/server/\<close>, to the authority in \<open>/var/lib/tls/ca/ca.crt\<close>, to the
  mode that the resource asks for and to allow connections without certificates, after the
  additional configuration was merged in; the agents are given the same authority. What
  \<open>objx\<close> and \<open>mergo\<close> do is a parameter.
\<close>

theorem tls_certificate_file_configured:
  assumes store: "secret_store (secrets_of (r_client r)) data I" and "I w" and "stls_Enabled (mdb_TLS mdb)"
    and "data w (TLSSecretNamespacedName mdb) = Some (Some d)" and "wf_map d"
    and "map_of d ''tls.crt'' = Some cert" and "map_of d ''tls.key'' = Some key"
  defines "ck \<equiv> trim_right cert CHR 0x0A @ [CHR 0x0A] @ trim_right key CHR 0x0A"
  shows "(\<exists>w1. ensureTLSResources r mdb w = (Ok (), w1) \<and> I w1
      \<and> data w1 = (data w)(TLSOperatorSecretNamespacedName mdb \<mapsto> Some [(tlsOperatorSecretFileName ck, ck)]))
    \<and> (\<forall>w2 des w3. I w2 \<longrightarrow> data w2 (TLSSecretNamespacedName mdb) = data w (TLSSecretNamespacedName mdb) \<longrightarrow>
         reconciler_buildAutomationConfig r mdb w2 = (Ok des, w3) \<longrightarrow>
         uses_certificate (r_libs r) mdb (''/var/lib/tls/server/'' @ tlsOperatorSecretFileName ck) des)"
proof (intro conjI allI impI)
  have ck: "ck = combineCertificateAndKey cert key" by (simp add: ck_def combineCertificateAndKey_def)
  have provided: "secret_store.provides_cert data w' mdb cert key"
    if "data w' (TLSSecretNamespacedName mdb) = data w (TLSSecretNamespacedName mdb)" for w'
    using that assms(4-7) by (simp add: secret_store.provides_cert_def [OF store] tlsSecretCertName_def tlsSecretKeyName_def)
  show "\<exists>w1. ensureTLSResources r mdb w = (Ok (), w1) \<and> I w1
      \<and> data w1 = (data w)(TLSOperatorSecretNamespacedName mdb \<mapsto> Some [(tlsOperatorSecretFileName ck, ck)])"
    using secret_store.ensureTLSSecret_stores [OF store assms(2) provided [OF refl]] assms(3)
    by (auto simp: ensureTLSResources_def on_result_def ck)
  fix w2 des w3
  assume "I w2" and "data w2 (TLSSecretNamespacedName mdb) = data w (TLSSecretNamespacedName mdb)"
    and run: "reconciler_buildAutomationConfig r mdb w2 = (Ok des, w3)"
  then have "getTLSConfigModification (r_libs r) (secrets_of (r_client r)) mdb w2 = (Ok (tlsConfigModification (r_libs r) mdb ck), w2)"
    using secret_store.getCertAndKey_provided [OF store _ provided] assms(3) by (simp add: getTLSConfigModification_def on_result_def ck)
  with run obtain a prev rolesM where "getCustomRolesModification mdb = Ok rolesM"
    "buildAutomationConfig r mdb a prev [tlsConfigModification (r_libs r) mdb ck, rolesM] = Ok des"
    by (auto simp: reconciler_buildAutomationConfig_def on_result_def split: prod.splits outcome.splits)
  then show "uses_certificate (r_libs r) mdb (''/var/lib/tls/server/'' @ tlsOperatorSecretFileName ck) des" by (rule tls_build)
qed

text \<open>Such a configuration is built for a new resource.\<close>

context deployment_world
begin

lemma tls_build_fresh:
  assumes inv: "inv w" and prep: "prep_total (sd_prep (scram_deps_of r))" and apart: "secrets_apart mdb"
    and fresh: "\<forall>u \<in> set (GetScramUsers mdb). fresh_user (data w) (NamespacedName mdb) u"
    and opts: "GetScramOptions mdb = Ok opts" "validateScramOptions (sd_multierror (scram_deps_of r)) opts = None"
    and cn: "data w (config_name mdb) = None" and tls: "stls_Enabled (mdb_TLS mdb)" "provides_cert w mdb cert key"
    and pos: "0 \<le> AutomationConfigMembersThisReconciliation mdb" and hz: "spec_ReplicaSetHorizons (mdb_Spec mdb) = None"
  shows "\<exists>des w'. reconciler_buildAutomationConfig r mdb w = (Ok des, w')"
proof -
  let ?tlsM = "tlsConfigModification (r_libs r) mdb (combineCertificateAndKey cert key)"
  obtain a w1 where "scram_Enable (scram_deps_of r) empty_auth mdb w = (Ok a, w1)"
    using Enable_fresh [OF inv prep secrets_apartD(1) [OF apart] fresh opts] by blast
  moreover obtain rolesM where roles: "getCustomRolesModification mdb = Ok rolesM"
    by (cases "sec_Roles (spec_Security (mdb_Spec mdb))") (simp_all add: getCustomRolesModification_def)
  moreover have "ReadFromSecret (secrets_of (r_client r)) (config_name mdb) w = (Ok empty_ac, w)"
    using get_missing [OF inv cn] by (auto simp: ReadFromSecret_def on_result_def)
  moreover have "getTLSConfigModification (r_libs r) (secrets_of (r_client r)) mdb w = (Ok ?tlsM, w)"
    using getCertAndKey_provided [OF inv tls(2)] tls(1) by (simp add: getTLSConfigModification_def on_result_def)
  moreover have "\<exists>ac. applyModifications [getMongodConfigModification (r_libs r) mdb, ?tlsM, rolesM] (assembleConfig b ps ms) = Ok ac"
    if "b_tlsConfig b = None" for b ps ms
    using tls_modifications [OF that roles] by metis
  then obtain des where "buildAutomationConfig r mdb a empty_ac [?tlsM, rolesM] = Ok des"
    using controller_build [OF pos hz, of empty_ac r "[?tlsM, rolesM]"] by blast
  ultimately show ?thesis by (simp add: reconciler_buildAutomationConfig_def on_result_def config_name_def)
qed

end

definition example_tls_cluster :: mock_cluster where
  "example_tls_cluster = mock_put (SecretObj \<lparr>s_Meta = empty_meta\<lparr>om_Name := ''tls'', om_Namespace := ''ns''\<rparr>,
     s_Data = Some [(''tls.crt'', ''cert''), (''tls.key'', ''key'')]\<rparr>) example_cluster"

lemma example_tls_data: "well_kinded example_tls_cluster"
  "mock_secret_data example_tls_cluster = [\<lparr>nn_Namespace = ''ns'', nn_Name = ''pw''\<rparr> \<mapsto> Some [(''password'', ''s3cret'')],
     \<lparr>nn_Namespace = ''ns'', nn_Name = ''tls''\<rparr> \<mapsto> Some [(''tls.crt'', ''cert''), (''tls.key'', ''key'')]]"
  by (simp_all add: example_tls_cluster_def example_cluster_data object_key_def)

lemma example_tls_names:
  "TLSSecretNamespacedName (example_mdb 3 ''4.4.0'' True) = \<lparr>nn_Namespace = ''ns'', nn_Name = ''tls''\<rparr>"
  "TLSOperatorSecretNamespacedName (example_mdb 3 ''4.4.0'' True) = \<lparr>nn_Namespace = ''ns'', nn_Name = ''db-server-certificate-key''\<rparr>"
  "stls_Enabled (mdb_TLS (example_mdb 3 ''4.4.0'' True))" "\<not> stls_Optional (mdb_TLS (example_mdb 3 ''4.4.0'' True))"
  by (simp_all add: TLSSecretNamespacedName_def TLSOperatorSecretNamespacedName_def example_mdb_def)

lemma example_tls_apart: "secrets_apart (example_mdb 3 ''4.4.0'' True)"
  by (simp add: secrets_apart_def names_apart_def example_names example_config_name example_tls_names
      GetAgentPasswordSecretNamespacedName_def GetAgentKeyfileSecretNamespacedName_def)

lemma example_tls_build:
  assumes "well_kinded w" and "mock_secret_data w = (mock_secret_data example_tls_cluster)(\<lparr>nn_Namespace = ''ns'', nn_Name = ''db-server-certificate-key''\<rparr> \<mapsto> d)"
  shows "\<exists>des w'. reconciler_buildAutomationConfig (mock_reconciler example_libs (\<lambda>_. None)) (example_mdb 3 ''4.4.0'' True) w = (Ok des, w')"
proof -
  let ?m = "example_mdb 3 ''4.4.0'' True"
  have "GetScramOptions ?m = GetScramOptions (example_mdb 3 ''4.4.0'' False)" by (simp add: GetScramOptions_def example_mdb_def)
  then obtain opts where opts: "GetScramOptions ?m = Ok opts" "validateScramOptions (sd_multierror example_deps) opts = None"
    using example_options by metis
  have "fresh_user (mock_secret_data w) \<lparr>nn_Namespace = ''ns'', nn_Name = ''db''\<rparr> example_user"
    by (simp add: fresh_user_def example_names assms(2) example_tls_data password_in_def put_all_def put_def) (simp add: example_user_def)
  moreover have "mock_secrets.provides_cert w ?m ''cert'' ''key''"
    by (simp add: mock_secrets.provides_cert_def example_tls_names assms(2) example_tls_data wf_map_def tlsSecretCertName_def tlsSecretKeyName_def)
  ultimately show ?thesis using opts
    by (intro mock_deployment.tls_build_fresh [where opts = opts and cert = "''cert''" and key = "''key''", OF assms(1) _ example_tls_apart])
      (simp_all add: example_tls_names assms(2) example_tls_data example_config_name, simp_all add: example_mdb_def)
qed

theorem tls_certificate_file_configured_witness:
  "\<exists>w1 des w2 file. ensureTLSResources (mock_reconciler example_libs (\<lambda>_. None)) (example_mdb 3 ''4.4.0'' True) example_tls_cluster = (Ok (), w1)
    \<and> reconciler_buildAutomationConfig (mock_reconciler example_libs (\<lambda>_. None)) (example_mdb 3 ''4.4.0'' True) w1 = (Ok des, w2)
    \<and> mock_secret_data w1 \<lparr>nn_Namespace = ''ns'', nn_Name = ''db-server-certificate-key''\<rparr> = Some (Some [(file, ''cert'' @ [CHR 0x0A] @ ''key'')])
    \<and> length (elems (ac_Processes des)) = 3
    \<and> (\<forall>p \<in> set (elems (ac_Processes des)). \<exists>args. proc_Args26 p = Some args \<and> map_of args ''net.tls.mode'' = Some (JStr ''requireTLS'')
         \<and> map_of args ''net.tls.certificateKeyFile'' = Some (JStr (''/var/lib/tls/server/'' @ file)))"
proof -
  let ?r = "mock_reconciler example_libs (\<lambda>_. None)" and ?m = "example_mdb 3 ''4.4.0'' True"
  have store: "secret_store (secrets_of (r_client ?r)) mock_secret_data well_kinded" by (simp add: mock_secrets.secret_store_axioms)
  have ck: "trim_right ''cert'' CHR 0x0A @ [CHR 0x0A] @ trim_right ''key'' CHR 0x0A = ''cert'' @ [CHR 0x0A] @ ''key''"
    by (simp add: trim_right_def)
  let ?f = "tlsOperatorSecretFileName (''cert'' @ [CHR 0x0A] @ ''key'')"
  note T = tls_certificate_file_configured [where data = mock_secret_data and I = well_kinded and d = "[(''tls.crt'', ''cert''), (''tls.key'', ''key'')]" and cert = "''cert''" and key = "''key''",
      OF store example_tls_data(1) example_tls_names(3), unfolded ck example_tls_names]
  obtain w1 where w1: "ensureTLSResources ?r ?m example_tls_cluster = (Ok (), w1)" "well_kinded w1"
    "mock_secret_data w1 = (mock_secret_data example_tls_cluster)(\<lparr>nn_Namespace = ''ns'', nn_Name = ''db-server-certificate-key''\<rparr>
       \<mapsto> Some [(?f, ''cert'' @ [CHR 0x0A] @ ''key'')])"
    using T by (auto simp: example_tls_data wf_map_def)
  obtain des w2 where b: "reconciler_buildAutomationConfig ?r ?m w1 = (Ok des, w2)" using example_tls_build [OF w1(2,3)] by blast
  then have "uses_certificate example_libs ?m (''/var/lib/tls/server/'' @ ?f) des"
    using T w1(2,3) by (auto simp: example_tls_data wf_map_def)
  then show ?thesis using w1 b
    by (intro exI [of _ w1] exI [of _ des] exI [of _ w2] exI [of _ ?f])
      (fastforce simp: uses_certificate_def tls_args_def example_tls_names example_libs_def map_of_put)
qed

end
