(* ===== verification/Built_Set.thy ===== *)
theory Built_Set
  imports Controller
begin

text \<open>
  The stateful set the controller builds, after the construction, the TLS changes and the custom
  specification of the user: every mount has its volume, and the pods carry the labels by which
  the stateful set and the service select them.
\<close>

section \<open>Mounts and labels of merged pods\<close>

lemma merge_slices_members:
  assumes "valid_order it" and "v \<in> set (merge_slices it key f xs ys)"
  shows "v \<in> set xs \<or> v \<in> set ys \<or> (\<exists>a \<in> set xs. \<exists>b \<in> set ys. v = f a b)"
proof -
  let ?m = "merge_maps f (map_by key xs) (map_by key ys)"
  have wf: "wf_map ?m" by (rule wf_merge_maps)
  from assms obtain k where "(k, v) \<in> set ?m"
    by (auto simp: merge_slices_def set_sorted_values [OF assms(1) wf])
  with wf have "map_of ?m k = Some v" by (simp add: wf_map_def)
  then show ?thesis unfolding map_of_merge_by by (rule merged_at_members)
qed

lemma VolumeMounts_names:
  assumes "valid_order it"
  shows "vm_Name ` set (VolumeMounts it xs ys) \<subseteq> vm_Name ` set xs \<union> vm_Name ` set ys"
proof
  fix n assume "n \<in> vm_Name ` set (VolumeMounts it xs ys)"
  then obtain m where m: "m \<in> set (merge_slices it volumeMountToString VolumeMount xs ys)" "n = vm_Name m"
    by (auto simp: VolumeMounts_eq)
  have "vm_Name (VolumeMount a b) = vm_Name a \<or> vm_Name (VolumeMount a b) = vm_Name b" for a b
    by (simp add: VolumeMount_def over_def)
  with merge_slices_members [OF assms m(1)] m(2) show "n \<in> vm_Name ` set xs \<union> vm_Name ` set ys"
    by (auto simp: image_iff)
qed

lemma mounts_within_Containers:
  assumes "valid_order it" and "mounts_within T xs" and "mounts_within T ys"
  shows "mounts_within T (Containers it xs ys)"
  unfolding mounts_within_def
proof (intro ballI)
  fix c m assume c: "c \<in> set (Containers it xs ys)" and m: "m \<in> set (c_VolumeMounts c)"
  have "c_VolumeMounts (Container it a b) = VolumeMounts it (c_VolumeMounts a) (c_VolumeMounts b)" for a b
    by (simp add: Container_def)
  then have "vm_Name ` set (c_VolumeMounts (Container it a b)) \<subseteq> T" if "a \<in> set xs" "b \<in> set ys" for a b
    using VolumeMounts_names [OF assms(1), of "c_VolumeMounts a" "c_VolumeMounts b"] assms(2,3) that
    by (fastforce simp: mounts_within_def)
  with merge_slices_members [OF assms(1) c [unfolded Containers_eq]] assms(2,3) m show "vm_Name m \<in> T"
    by (fastforce simp: mounts_within_def)
qed

lemma names_Volumes: "v_Name ` set xs \<subseteq> v_Name ` set (Volumes it xs ys)"
proof
  fix n assume "n \<in> v_Name ` set xs"
  then obtain d where d: "d \<in> set xs" "n = v_Name d" by auto
  let ?f = "\<lambda>d. case map_of (createVolumesMap ys) (v_Name d) of Some ov \<Rightarrow> Volume it d ov | None \<Rightarrow> d"
  have "?f d \<in> set (Volumes it xs ys)" using d(1) by (simp add: Volumes_def Let_def)
  moreover have "v_Name (?f d) = n" using d(2) by (simp split: option.split)
  ultimately show "n \<in> v_Name ` set (Volumes it xs ys)" by (metis imageI)
qed

lemma names_claims: "valid_order it \<Longrightarrow> pvc_Name ` set (VolumeClaimTemplates it xs ys) = pvc_Name ` (set xs \<union> set ys)"
  unfolding VolumeClaimTemplates_eq by (rule claims.keys_merged) simp_all

section \<open>The pods after the TLS changes\<close>

text \<open>A change of a pod template that keeps its labels and volumes and adds only mounts of \<open>names\<close>.\<close>

definition adds_mounts :: "string set \<Rightarrow> pod_template_spec \<Rightarrow> pod_template_spec \<Rightarrow> bool" where
  "adds_mounts names t t' = (pts_Meta t' = pts_Meta t
     \<and> v_Name ` set (ps_Volumes (pts_Spec t)) \<subseteq> v_Name ` set (ps_Volumes (pts_Spec t'))
     \<and> (\<forall>T. names \<subseteq> T \<and> mounts_within T (ps_Containers (pts_Spec t)) \<longrightarrow> mounts_within T (ps_Containers (pts_Spec t')))
     \<and> (\<forall>T. names \<subseteq> T \<and> mounts_within T (ps_InitContainers (pts_Spec t)) \<longrightarrow> mounts_within T (ps_InitContainers (pts_Spec t'))))"

lemma adds_mounts_trans:
  "adds_mounts ns t1 t2 \<Longrightarrow> adds_mounts ns t2 t3 \<Longrightarrow> adds_mounts ns t1 t3"
  by (auto simp: adds_mounts_def)

lemma mounts_within_update:
  assumes "mounts_within T cs" and "vm_Name ` set (c_VolumeMounts c) \<subseteq> T"
  shows "mounts_within T (cs[i := c])"
  using assms set_update_subset_insert [of cs i c] by (fastforce simp: mounts_within_def)

lemma adds_mounts_WithVolume: "\<exists>t'. WithVolume v t = Ok t' \<and> adds_mounts ns t t' \<and> v_Name v \<in> v_Name ` set (ps_Volumes (pts_Spec t'))"
  by (auto simp: pod_mods_Ok adds_mounts_def names_add_volume)

lemma find_index_in_range:
  "findIndexByName name cs \<noteq> notFound \<Longrightarrow> 0 \<le> findIndexByName name cs \<and> findIndexByName name cs < int (length cs)"
  unfolding findIndexByName_def using find_index_from_nonneg [of 0 c_Name name cs] by simp

lemma at_index_mounts:
  assumes "valid_order it" and "0 \<le> i" and "i < int (length cs)"
  shows "\<exists>cs'. at_index (WithVolumeMounts it vms) i cs = Ok cs'
    \<and> (\<forall>T. vm_Name ` set vms \<subseteq> T \<and> mounts_within T cs \<longrightarrow> mounts_within T cs')"
proof -
  have "vm_Name ` set (c_VolumeMounts (WithVolumeMounts it vms (cs ! nat i))) \<subseteq> T"
    if "vm_Name ` set vms \<subseteq> T" "mounts_within T cs" for T
    using set_WithVolumeMounts [OF assms(1), of vms "cs ! nat i"] that assms(2,3)
    by (fastforce simp: mounts_within_def)
  with assms show ?thesis by (auto simp: at_index_def intro!: mounts_within_update)
qed

lemma adds_mounts_WithVolumeMounts:
  assumes "valid_order it"
  shows "\<exists>t'. pod_WithVolumeMounts it name vms t = Ok t' \<and> adds_mounts (vm_Name ` set vms) t t'
    \<and> ps_Volumes (pts_Spec t') = ps_Volumes (pts_Spec t)"
proof -
  let ?i = "findIndexByName name (ps_Containers (pts_Spec t))" and ?j = "findIndexByName name (ps_InitContainers (pts_Spec t))"
  consider "?i \<noteq> notFound" | "?i = notFound" "?j \<noteq> notFound" | "?i = notFound" "?j = notFound" by blast
  then show ?thesis
  proof cases
    case 1
    with at_index_mounts [OF assms, of ?i "ps_Containers (pts_Spec t)" vms] find_index_in_range [OF 1] show ?thesis
      by (auto simp: pod_WithVolumeMounts_def FindContainerByName_def adds_mounts_def set_containers_def)
  next
    case 2
    with at_index_mounts [OF assms, of ?j "ps_InitContainers (pts_Spec t)" vms] find_index_in_range [OF 2(2)] show ?thesis
      by (auto simp: pod_WithVolumeMounts_def FindContainerByName_def adds_mounts_def set_init_containers_def)
  next
    case 3
    then show ?thesis by (auto simp: pod_WithVolumeMounts_def FindContainerByName_def adds_mounts_def)
  qed
qed

lemma TLS_pods:
  assumes "valid_order it"
  shows "\<exists>t' ns. buildTLSPodSpecModification it mdb t = Ok t' \<and> adds_mounts ns t t' \<and> ns \<subseteq> v_Name ` set (ps_Volumes (pts_Spec t'))"
proof (cases "stls_Enabled (mdb_TLS mdb)")
  case False
  then show ?thesis by (auto simp: buildTLSPodSpecModification_def pod_NOOP_def adds_mounts_def)
next
  case True
  let ?ns = "vm_Name ` set tls_mounts"
  have ns: "?ns = {''tls-ca'', ''tls-secret''}"
    by (auto simp: tls_mounts_def CreateVolumeMount_def WithReadOnly_def)
  let ?ca = "CreateVolumeFromConfigMap ''tls-ca'' (stls_CaConfigMap (mdb_TLS mdb))"
  let ?sec = "CreateVolumeFromSecret ''tls-secret'' (nn_Name (TLSOperatorSecretNamespacedName mdb)) []"
  have v: "v_Name ?ca = ''tls-ca''" "v_Name ?sec = ''tls-secret''"
    by (simp_all add: CreateVolumeFromConfigMap_def CreateVolumeFromSecret_def)
  obtain t1 where t1: "WithVolume ?ca t = Ok t1" "adds_mounts ?ns t t1" "''tls-ca'' \<in> v_Name ` set (ps_Volumes (pts_Spec t1))"
    using adds_mounts_WithVolume [of ?ca t ?ns] v by auto
  obtain t2 where t2: "WithVolume ?sec t1 = Ok t2" "adds_mounts ?ns t1 t2" "''tls-secret'' \<in> v_Name ` set (ps_Volumes (pts_Spec t2))"
    using adds_mounts_WithVolume [of ?sec t1 ?ns] v by auto
  obtain t3 where t3: "pod_WithVolumeMounts it construct_AgentName tls_mounts t2 = Ok t3" "adds_mounts ?ns t2 t3"
    "ps_Volumes (pts_Spec t3) = ps_Volumes (pts_Spec t2)"
    using adds_mounts_WithVolumeMounts [OF assms, of construct_AgentName tls_mounts t2] by blast
  obtain t4 where t4: "pod_WithVolumeMounts it MongodbName tls_mounts t3 = Ok t4" "adds_mounts ?ns t3 t4"
    "ps_Volumes (pts_Spec t4) = ps_Volumes (pts_Spec t3)"
    using adds_mounts_WithVolumeMounts [OF assms, of MongodbName tls_mounts t3] by blast
  have "adds_mounts ?ns t t4" using t1(2) t2(2) t3(2) t4(2) adds_mounts_trans by blast
  moreover have "?ns \<subseteq> v_Name ` set (ps_Volumes (pts_Spec t4))"
    using t1(3) t2(2,3) unfolding t3(3) t4(3) ns by (auto simp: adds_mounts_def)
  moreover have "buildTLSPodSpecModification it mdb t = Ok t4"
    using True t1(1) t2(1) t3(1) t4(1) by (simp add: buildTLSPodSpecModification_def pod_Apply_def)
  ultimately show ?thesis by blast
qed

section \<open>The stateful set\<close>

abbreviation custom_spec :: "mongodb_community \<Rightarrow> statefulset_spec" where
  "custom_spec mdb \<equiv> spec_StatefulSet (mdb_Spec mdb)"

text \<open>The parts of the built set, before and after the custom specification is merged in.\<close>

lemma build_statefulset_parts:
  fixes r :: "'w reconciler" and mdb :: mongodb_community
  assumes "valid_order (r_it r)"
  defines "c \<equiv> construct_result (r_env r) (r_it r) (r_quantity r) (owner_of mdb) (statefulset_scaler mdb) empty_statefulset"
  shows "\<exists>t ns. adds_mounts ns (sts_Template (sts_Spec c)) t \<and> ns \<subseteq> v_Name ` set (ps_Volumes (pts_Spec t))
    \<and> buildStatefulSet r mdb = Ok (c\<lparr>sts_Meta := (sts_Meta c)\<lparr>om_OwnerReferences := GetOwnerReferences mdb\<rparr>,
        sts_Spec := StatefulSetSpecs (r_it r) ((sts_Spec c)\<lparr>sts_Template := t\<rparr>) (custom_spec mdb)\<rparr>)"
proof -
  from TLS_pods [OF assms(1), of mdb "sts_Template (sts_Spec c)"] obtain t ns where
    t: "buildTLSPodSpecModification (r_it r) mdb (sts_Template (sts_Spec c)) = Ok t"
    "adds_mounts ns (sts_Template (sts_Spec c)) t" "ns \<subseteq> v_Name ` set (ps_Volumes (pts_Spec t))" by blast
  then have "buildStatefulSet r mdb = Ok (c\<lparr>sts_Meta := (sts_Meta c)\<lparr>om_OwnerReferences := GetOwnerReferences mdb\<rparr>,
        sts_Spec := StatefulSetSpecs (r_it r) ((sts_Spec c)\<lparr>sts_Template := t\<rparr>) (custom_spec mdb)\<rparr>)"
    by (simp add: buildStatefulSet_def buildStatefulSetModificationFunction_def sts_Apply_def construct_eq_result
        c_def [symmetric] WithOwnerReference_def on_meta_def WithPodSpecTemplate_def pod_Apply_def WithCustomSpecs_def on_spec_def Let_def)
  with t show ?thesis by blast
qed

lemma mounts_resolve_empty: "mounts_resolve empty_statefulset"
  by (simp add: mounts_resolve_def mounts_within_def empty_statefulset_def empty_statefulset_spec_def empty_pod_template_spec_def
      empty_pod_spec_def)

lemma merged_mounts_resolve:
  assumes it: "valid_order it" and c: "mounts_resolve c"
    and t: "adds_mounts ns (sts_Template (sts_Spec c)) t" "ns \<subseteq> v_Name ` set (ps_Volumes (pts_Spec t))"
    and s: "sts_Spec s = StatefulSetSpecs it ((sts_Spec c)\<lparr>sts_Template := t\<rparr>) ov"
    and user: "mounts_within (set (mount_targets s)) (ps_Containers (pts_Spec (sts_Template ov)))"
      "mounts_within (set (mount_targets s)) (ps_InitContainers (pts_Spec (sts_Template ov)))"
  shows "mounts_resolve s"
proof -
  let ?T = "set (mount_targets s)"
  have spec: "ps_Volumes (pts_Spec (sts_Template (sts_Spec s))) = Volumes it (ps_Volumes (pts_Spec t)) (ps_Volumes (pts_Spec (sts_Template ov)))"
    "ps_Containers (pts_Spec (sts_Template (sts_Spec s))) = Containers it (ps_Containers (pts_Spec t)) (ps_Containers (pts_Spec (sts_Template ov)))"
    "ps_InitContainers (pts_Spec (sts_Template (sts_Spec s)))
       = Containers it (ps_InitContainers (pts_Spec t)) (ps_InitContainers (pts_Spec (sts_Template ov)))"
    "sts_VolumeClaimTemplates (sts_Spec s) = VolumeClaimTemplates it (sts_VolumeClaimTemplates (sts_Spec c)) (sts_VolumeClaimTemplates ov)"
    by (simp_all add: s StatefulSetSpecs_def PodTemplateSpecs_def Let_def)
  have vols: "v_Name ` set (ps_Volumes (pts_Spec t)) \<subseteq> ?T"
    using names_Volumes [of "ps_Volumes (pts_Spec t)" it "ps_Volumes (pts_Spec (sts_Template ov))"]
    by (simp add: mount_targets_def spec le_supI1)
  have claims: "claim_name ` set (sts_VolumeClaimTemplates (sts_Spec c)) \<subseteq> ?T"
    using names_claims [OF it, of "sts_VolumeClaimTemplates (sts_Spec c)"] by (auto simp: mount_targets_def spec)
  have "v_Name ` set (ps_Volumes (pts_Spec (sts_Template (sts_Spec c)))) \<subseteq> ?T"
    using t(1) vols by (intro subset_trans [OF _ vols]) (simp add: adds_mounts_def)
  with claims have sub: "set (mount_targets c) \<subseteq> ?T" by (simp add: mount_targets_def [of c])
  have "mounts_within ?T (ps_Containers (pts_Spec t)) \<and> mounts_within ?T (ps_InitContainers (pts_Spec t))"
    using t(1) subset_trans [OF t(2) vols] c mounts_within_mono [OF _ sub] by (simp add: adds_mounts_def mounts_resolve_def)
  with user show ?thesis
    unfolding mounts_resolve_def spec by (intro conjI mounts_within_Containers [OF it]) simp_all
qed

text \<open>
  What a selector without expressions selects: the pods that have all its labels. A custom
  specification goes with the selector when it leaves the label of the operator alone and gives its
  pods all the labels that it selects by.
\<close>

definition selects :: "string gomap \<Rightarrow> string gomap option \<Rightarrow> bool" where
  "selects sel labels = (\<forall>k v. map_of sel k = Some v \<longrightarrow> map_of (entries labels) k = Some v)"

definition custom_labels_fit :: "statefulset_spec \<Rightarrow> bool" where
  "custom_labels_fit ov = (let labels = om_Labels (pts_Meta (sts_Template ov))
     in wf_map (entries labels) \<and> ''app'' \<notin> fst ` set (entries labels)
        \<and> (\<forall>sel. sts_Selector ov = Some sel \<longrightarrow> wf_map (entries (ls_MatchLabels sel)) \<and> ls_MatchExpressions sel = []
             \<and> selects (entries (ls_MatchLabels sel)) labels))"

lemma StringToStringMap_app:
  assumes "wf_map m"
  shows "map_of (StringToStringMap [(k, x)] m) = (map_of m) (k \<mapsto> (case map_of m k of None \<Rightarrow> x | Some y \<Rightarrow> y))"
proof -
  have "wf_map [(k, x)]" by (simp add: wf_map_def)
  from map_of_StringToStringMap [OF this assms] show ?thesis by (simp add: fun_eq_iff map_add_def split: option.split)
qed

lemma built_selector:
  assumes "custom_labels_fit ov" and "om_Labels (pts_Meta (sts_Template c)) = Some [(''app'', x)]"
    and "sts_Selector c = Some sel0" and "ls_MatchLabels sel0 = Some [(''app'', x)]" and "ls_MatchExpressions sel0 = []"
  shows "\<exists>sel. sts_Selector (StatefulSetSpecs it c ov) = Some sel \<and> ls_MatchExpressions sel = []
      \<and> map_of (entries (ls_MatchLabels sel)) ''app'' = Some x
      \<and> selects (entries (ls_MatchLabels sel)) (om_Labels (pts_Meta (sts_Template (StatefulSetSpecs it c ov))))"
    and "selects [(''app'', x)] (om_Labels (pts_Meta (sts_Template (StatefulSetSpecs it c ov))))"
proof -
  let ?ls = "entries (om_Labels (pts_Meta (sts_Template ov)))"
  have wf: "wf_map ?ls" "map_of ?ls ''app'' = None"
    using assms(1) by (simp_all add: custom_labels_fit_def Let_def map_of_eq_None_iff)
  have labels: "map_of (entries (om_Labels (pts_Meta (sts_Template (StatefulSetSpecs it c ov))))) = (map_of ?ls)(''app'' \<mapsto> x)"
    using StringToStringMap_app [OF wf(1), of "''app''" x] wf(2) by (simp add: StatefulSetSpecs_def PodTemplateSpecs_def Let_def assms(2))
  show "selects [(''app'', x)] (om_Labels (pts_Meta (sts_Template (StatefulSetSpecs it c ov))))"
    by (simp add: selects_def labels)
  show "\<exists>sel. sts_Selector (StatefulSetSpecs it c ov) = Some sel \<and> ls_MatchExpressions sel = []
      \<and> map_of (entries (ls_MatchLabels sel)) ''app'' = Some x
      \<and> selects (entries (ls_MatchLabels sel)) (om_Labels (pts_Meta (sts_Template (StatefulSetSpecs it c ov))))"
  proof (cases "sts_Selector ov")
    case None
    then have "sts_Selector (StatefulSetSpecs it c ov) = Some sel0" by (simp add: StatefulSetSpecs_def LabelSelectors_def assms(3))
    then show ?thesis by (simp add: assms(4,5) selects_def labels)
  next
    case (Some sel)
    then have sel: "wf_map (entries (ls_MatchLabels sel))" "ls_MatchExpressions sel = []" "selects (entries (ls_MatchLabels sel)) (Some ?ls)"
      using assms(1) by (simp_all add: custom_labels_fit_def Let_def selects_def)
    have "map_of (entries (ls_MatchLabels sel)) ''app'' = None" using sel(3) wf(2) unfolding selects_def by (cases "map_of (entries (ls_MatchLabels sel)) ''app''") auto
    then have m: "map_of (StringToStringMap [(''app'', x)] (entries (ls_MatchLabels sel))) = (map_of (entries (ls_MatchLabels sel)))(''app'' \<mapsto> x)"
      using StringToStringMap_app [OF sel(1), of "''app''" x] by simp
    let ?m = "\<lparr>ls_MatchLabels = Some (StringToStringMap [(''app'', x)] (entries (ls_MatchLabels sel))), ls_MatchExpressions = []\<rparr>"
    have "sts_Selector (StatefulSetSpecs it c ov) = Some ?m"
      using Some sel(2) by (simp add: StatefulSetSpecs_def LabelSelectors_def assms(3-5) LabelSelectorRequirements_def)
    then show ?thesis using sel(3) by (auto simp: selects_def labels m)
  qed
qed

text \<open>
  C10. The stateful set the controller builds is well formed, with and without TLS: it has the name
  of the resource, every mount of its containers has a volume or a volume claim, when the mounts of
  the custom specification do, and it asks for the members of this reconciliation and the service
  of the resource, unless the custom specification overrides them. Its selector has no expressions,
  selects by the label of the operator, and its pods have every label it selects by, and so have
  they every label of the selector of the resource's service, when the custom specification fits:
  its pods do not set that label and have the labels of its own selector, if it has one.
\<close>

theorem built_statefulset_wf:
  assumes "valid_order (r_it r)"
  shows "\<exists>s. buildStatefulSet r mdb = Ok s \<and> object_key (sts_Meta s) = NamespacedName mdb
    \<and> (mounts_within (set (mount_targets s)) (ps_Containers (pts_Spec (sts_Template (custom_spec mdb))))
       \<and> mounts_within (set (mount_targets s)) (ps_InitContainers (pts_Spec (sts_Template (custom_spec mdb))))
         \<longrightarrow> mounts_resolve s)
    \<and> (custom_labels_fit (custom_spec mdb) \<longrightarrow>
         (\<exists>sel. sts_Selector (sts_Spec s) = Some sel \<and> ls_MatchExpressions sel = []
            \<and> map_of (entries (ls_MatchLabels sel)) ''app'' = Some (ServiceName mdb)
            \<and> selects (entries (ls_MatchLabels sel)) (om_Labels (pts_Meta (sts_Template (sts_Spec s)))))
         \<and> selects (svc_Selector (buildService mdb)) (om_Labels (pts_Meta (sts_Template (sts_Spec s)))))
    \<and> svc_Selector (buildService mdb) = [(''app'', ServiceName mdb)]
    \<and> (sts_ServiceName (custom_spec mdb) = '''' \<longrightarrow> sts_ServiceName (sts_Spec s) = ServiceName mdb)
    \<and> (sts_Replicas (custom_spec mdb) = None
         \<longrightarrow> sts_Replicas (sts_Spec s) = Some (to_int32 (StatefulSetReplicasThisReconciliation mdb)))"
proof -
  let ?c = "construct_result (r_env r) (r_it r) (r_quantity r) (owner_of mdb) (statefulset_scaler mdb) empty_statefulset"
  from build_statefulset_parts [OF assms, of mdb] obtain t ns where t: "adds_mounts ns (sts_Template (sts_Spec ?c)) t"
    "ns \<subseteq> v_Name ` set (ps_Volumes (pts_Spec t))"
    and b: "buildStatefulSet r mdb = Ok (?c\<lparr>sts_Meta := (sts_Meta ?c)\<lparr>om_OwnerReferences := GetOwnerReferences mdb\<rparr>,
        sts_Spec := StatefulSetSpecs (r_it r) ((sts_Spec ?c)\<lparr>sts_Template := t\<rparr>) (custom_spec mdb)\<rparr>)" by blast
  let ?s = "?c\<lparr>sts_Meta := (sts_Meta ?c)\<lparr>om_OwnerReferences := GetOwnerReferences mdb\<rparr>,
        sts_Spec := StatefulSetSpecs (r_it r) ((sts_Spec ?c)\<lparr>sts_Template := t\<rparr>) (custom_spec mdb)\<rparr>"
  have svc: "svc_Selector (buildService mdb) = [(''app'', ServiceName mdb)]"
    by (simp add: buildService_def service_Build_def service_SetOwnerReferences_def service_SetPublishNotReadyAddresses_def
        service_SetPortName_def service_SetPort_def service_SetClusterIP_def service_SetServiceType_def service_SetSelector_def
        service_SetNamespace_def service_SetName_def put_def Let_def)
  have sel: "ls_MatchExpressions (case sts_Selector (sts_Spec empty_statefulset) of None \<Rightarrow> empty_label_selector | Some l \<Rightarrow> l) = []"
    by (simp add: empty_statefulset_def empty_statefulset_spec_def empty_label_selector_def)
  have c: "object_key (sts_Meta ?c) = NamespacedName mdb" "pts_Meta t = pts_Meta (sts_Template (sts_Spec ?c))"
    "om_Labels (pts_Meta (sts_Template (sts_Spec ?c))) = Some [(''app'', ServiceName mdb)]"
    "\<exists>sel. sts_Selector (sts_Spec ?c) = Some sel \<and> ls_MatchLabels sel = Some [(''app'', ServiceName mdb)] \<and> ls_MatchExpressions sel = []"
    "sts_ServiceName (sts_Spec ?c) = ServiceName mdb"
    "sts_Replicas (sts_Spec ?c) = Some (to_int32 (StatefulSetReplicasThisReconciliation mdb))"
    using t(1) by (simp_all add: construct_result_def Let_def owner_of_def construct_labels_def object_key_def NamespacedName_def
        adds_mounts_def StatefulSetReplicasThisReconciliation_def sel)
  have mounts: "mounts_resolve ?s" if "mounts_within (set (mount_targets ?s)) (ps_Containers (pts_Spec (sts_Template (custom_spec mdb))))"
    "mounts_within (set (mount_targets ?s)) (ps_InitContainers (pts_Spec (sts_Template (custom_spec mdb))))"
    by (rule merged_mounts_resolve [OF assms construct_mounts_resolve_result [OF assms mounts_resolve_empty] t _ that]) simp
  obtain sel0 where sel0: "sts_Selector (sts_Spec ?c) = Some sel0" "ls_MatchLabels sel0 = Some [(''app'', ServiceName mdb)]"
    "ls_MatchExpressions sel0 = []" using c(4) by blast
  note fit = built_selector [where c = "(sts_Spec ?c)\<lparr>sts_Template := t\<rparr>" and x = "ServiceName mdb" and it = "r_it r" and ov = "custom_spec mdb"]
  show ?thesis
    using b c(1-3,5,6) svc mounts sel0 fit
    by (intro exI [of _ ?s]) (simp add: object_key_def, simp add: StatefulSetSpecs_def over_def)
qed

theorem built_statefulset_wf_witness:
  "\<exists>s sel. buildStatefulSet \<lparr>r_client = mockedClient, r_rand = const_rand [7, 7, 7], r_prep = Ok, r_multierror = (\<lambda>_. Err ''''),
     r_libs = example_libs, r_env = (\<lambda>_. None), r_it = rev, r_quantity = Ok, r_cast = (\<lambda>_. 0), r_spec_json = (\<lambda>_. Ok ''''),
     r_spec_of_json = (\<lambda>_. Fail (Err ''''))\<rparr> (example_mdb 3 ''4.4.0'' True) = Ok s
     \<and> mounts_resolve s \<and> sts_Selector (sts_Spec s) = Some sel \<and> map_of (entries (ls_MatchLabels sel)) ''app'' = Some ''db-svc''
     \<and> selects (entries (ls_MatchLabels sel)) (om_Labels (pts_Meta (sts_Template (sts_Spec s))))"
proof -
  let ?r = "\<lparr>r_client = mockedClient, r_rand = const_rand [7, 7, 7], r_prep = Ok, r_multierror = (\<lambda>_. Err ''''),
     r_libs = example_libs, r_env = (\<lambda>_. None), r_it = rev, r_quantity = Ok, r_cast = (\<lambda>_. 0), r_spec_json = (\<lambda>_. Ok ''''),
     r_spec_of_json = (\<lambda>_. Fail (Err ''''))\<rparr>"
  have spec: "custom_spec (example_mdb 3 ''4.4.0'' True) = empty_statefulset_spec" "ServiceName (example_mdb 3 ''4.4.0'' True) = ''db-svc''"
    by (simp_all add: example_mdb_def ServiceName_def empty_statefulset_spec_def)
  have fit: "custom_labels_fit empty_statefulset_spec" "mounts_within T (ps_Containers (pts_Spec (sts_Template empty_statefulset_spec)))"
    "mounts_within T (ps_InitContainers (pts_Spec (sts_Template empty_statefulset_spec)))" for T
    by (simp_all add: custom_labels_fit_def Let_def empty_statefulset_spec_def empty_pod_template_spec_def empty_meta_def wf_map_def
        empty_pod_spec_def mounts_within_def)
  have "valid_order (r_it ?r)" by simp
  from built_statefulset_wf [OF this, of "example_mdb 3 ''4.4.0'' True", unfolded spec] fit show ?thesis by blast
qed

end
