(* ===== verification/Frame.thy ===== *)
theory Frame
  imports Controller
begin

text \<open>
  What the steps of a reconciliation leave alone. A step keeps a view of the state when it does not
  change it, however it ends. The contracts \<open>secret_frame\<close> and \<open>frame_client\<close> say which writes of
  a client keep a view; their lemmas follow the calls of the controller down to the client, so
  that everything before the status is written keeps the view.
\<close>

section \<open>Steps that keep a view\<close>

definition keeps :: "('w \<Rightarrow> 'v) \<Rightarrow> ('w \<Rightarrow> 'a outcome \<times> 'w) \<Rightarrow> bool" where
  "keeps v m = (\<forall>w. v (snd (m w)) = v w)"

named_theorems keeps_rules

lemma keepsD: "keeps v m \<Longrightarrow> m w = (res, w') \<Longrightarrow> v w' = v w"
  using snd_conv [of res w'] by (auto simp: keeps_def dest: spec [of _ w])

lemma keeps_Pair [simp]: "keeps v (Pair x)"
  by (simp add: keeps_def)

lemma keeps_ret [keeps_rules]: "keeps v (ret x)"
  by (simp add: keeps_def)

lemma keeps_fail [keeps_rules]: "keeps v (fail e)"
  by (simp add: keeps_def)

lemma keeps_raise [keeps_rules]: "keeps v (raise_panic p)"
  by (simp add: keeps_def)

lemma keeps_pure [keeps_rules]: "keeps v (pure_out r)"
  by (simp add: keeps_def)

lemma keeps_on_result [keeps_rules]:
  assumes "keeps v m" and "\<And>e. keeps v (h e)" and "\<And>x. keeps v (k x)"
  shows "keeps v (on_result m h k)"
  unfolding keeps_def
proof
  fix w
  obtain res w' where m: "m w = (res, w')" by fastforce
  with assms keepsD [OF assms(1) m] show "v (snd (on_result m h k w)) = v w"
    by (cases res) (simp_all add: on_result_def keeps_def)
qed

lemma keeps_if [keeps_rules]: "(b \<Longrightarrow> keeps v m) \<Longrightarrow> (\<not> b \<Longrightarrow> keeps v m') \<Longrightarrow> keeps v (if b then m else m')"
  by simp

lemma keeps_case_option [keeps_rules]:
  "keeps v m \<Longrightarrow> (\<And>x. keeps v (k x)) \<Longrightarrow> keeps v (case x of None \<Rightarrow> m | Some x \<Rightarrow> k x)"
  by (cases x) simp_all

lemma keeps_case_prod [keeps_rules]: "(\<And>x y. keeps v (k x y)) \<Longrightarrow> keeps v (case p of (x, y) \<Rightarrow> k x y)"
  by (cases p) simp

lemma keeps_Let [keeps_rules]: "(\<And>x. keeps v (k x)) \<Longrightarrow> keeps v (let x = e in k x)"
  by simp

lemma keeps_ignore [keeps_rules]: "keeps v m \<Longrightarrow> keeps v (ignore_result m)"
  unfolding ignore_result_def by (intro keeps_rules)

text \<open>The cluster is one part of the state of the reconciler.\<close>

lemma keeps_on_cluster [keeps_rules]: "keeps v m \<Longrightarrow> keeps (\<lambda>st. v (fst st)) (on_cluster m)"
  by (simp add: keeps_def on_cluster_def split_beta)

lemma keeps_watch_secret [keeps_rules]: "keeps (\<lambda>st. v (fst st)) (watch_secret n d)"
  by (simp add: keeps_def watch_secret_def)

lemma keeps_runInOrder [keeps_rules]: "(\<And>f. f \<in> set fs \<Longrightarrow> keeps v f) \<Longrightarrow> keeps v (runInOrder fs)"
  by (induction fs) (auto intro!: keeps_rules simp del: if_split)

lemma keeps_RunSequentially [keeps_rules]: "(\<And>f. f \<in> set fs \<Longrightarrow> keeps v f) \<Longrightarrow> keeps v (RunSequentially b fs)"
  unfolding RunSequentially_def runReversed_eq by (auto intro: keeps_runInOrder)

section \<open>Clients that keep a view\<close>

text \<open>Reads and writes of secrets keep the view: what the automation configuration needs.\<close>

locale secret_frame =
  fixes r :: "'w reconciler" and v :: "'w \<Rightarrow> 'v"
  assumes get: "keeps v (kGet (r_client r) kind n)"
    and create_secret: "keeps v (kCreate (r_client r) (SecretObj s))"
    and update_secret: "keeps v (kUpdate (r_client r) (SecretObj s))"
    and rand: "keeps v (r_rand r k)"
begin

lemma typed_keeps [keeps_rules]:
  "keeps v (GetSecret (secrets_of (r_client r)) n)" "keeps v (CreateSecret (secrets_of (r_client r)) s)"
  "keeps v (UpdateSecret (secrets_of (r_client r)) s)"
  "keeps v (GetConfigMap (config_maps_of (r_client r)) n)"
  "keeps v (GetStatefulSet (statefulsets_of (r_client r)) n)"
  "keeps v (client_GetStatefulSet (r_client r) n)" "keeps v (client_GetPod (r_client r) n)"
  by (auto simp: typed_ops secrets_of_def config_maps_of_def statefulsets_of_def
      intro!: keeps_rules get create_secret update_secret)

lemma secret_ops_keep [keeps_rules]:
  "keeps v (secret_ReadStringData (secrets_of (r_client r)) n)" "keeps v (secret_ReadKey (secrets_of (r_client r)) k n)"
  "keeps v (secret_CreateOrUpdate (secrets_of (r_client r)) s)"
  "keeps v (EnsureSecretWithKey (secrets_of (r_client r)) n own k t)"
  "keeps v (ReadFromSecret (secrets_of (r_client r)) n)" "keeps v (EnsureSecret (secrets_of (r_client r)) n own ac)"
  "keeps v (cm_ReadData (config_maps_of (r_client r)) n)"
  unfolding secret_ReadStringData_def secret_ReadKey_def secret_CreateOrUpdate_def EnsureSecretWithKey_def
    ReadFromSecret_def EnsureSecret_def createNewAutomationConfigSecret_def write_config_def cm_ReadData_def
  by (intro keeps_rules)+

lemma random_keeps [keeps_rules]:
  "keeps v (RandomFixedLengthStringOfSize (r_rand r) n)" "keeps v (KeyFileContents (r_rand r))"
  "keeps v (Salts (r_rand r))"
  unfolding RandomFixedLengthStringOfSize_def KeyFileContents_def Salts_def salt_def generateRandomString_def
    generateRandomBytes_def
  by (intro keeps_rules rand)+

lemma scram_deps_sel [simp]: "sd_secrets (scram_deps_of r) = secrets_of (r_client r)" "sd_rand (scram_deps_of r) = r_rand r"
  by (simp_all add: scram_deps_of_def)

lemma credentials_keep: "keeps v (ensureScramCredentials (scram_deps_of r) u n)"
  unfolding ensureScramCredentials_def readExistingCredentials_def needToGenerateNewCredentials_def
    generateScramShaCredentials_def createScramCredentialsSecret_def scram_deps_sel
  by (intro keeps_rules)+

lemma convert_users_keeps: "keeps v (convert_users (scram_deps_of r) n users)"
  by (induction users)
    (auto simp: convertMongoDBUserToAutomationConfigUser_def intro!: keeps_rules credentials_keep)

lemma scram_Enable_keeps [keeps_rules]: "keeps v (scram_Enable (scram_deps_of r) a mdb)"
  unfolding scram_Enable_def convertMongoDBResourceUsersToAutomationConfigUsers_def scram_deps_sel
  by (intro keeps_rules convert_users_keeps)+

lemma TLS_ops_keep [keeps_rules]:
  "keeps v (getCertAndKey (secrets_of (r_client r)) mdb)" "keeps v (ensureTLSSecret (secrets_of (r_client r)) mdb)"
  "keeps v (getTLSConfigModification L (secrets_of (r_client r)) mdb)"
  unfolding getCertAndKey_def ensureTLSSecret_def getTLSConfigModification_def by (intro keeps_rules)+

lemma ensureAutomationConfig_keeps [keeps_rules]: "keeps v (ensureAutomationConfig r mdb)"
  unfolding ensureAutomationConfig_def reconciler_buildAutomationConfig_def by (intro keeps_rules)

lemma goal_state_loop_keeps: "keeps v (goal_state_loop cast (client_GetPod (r_client r)) ns t names acc)"
  by (induction names arbitrary: acc) (auto intro!: keeps_rules simp del: if_split)

lemma deployAutomationConfig_keeps: "keeps v (deployAutomationConfig r mdb)"
  unfolding deployAutomationConfig_def AllReachedGoalState_def Let_def by (intro keeps_rules goal_state_loop_keeps)

lemma shouldRunInOrder_keeps [keeps_rules]: "keeps v (shouldRunInOrder r mdb)"
  unfolding shouldRunInOrder_def Let_def by (intro keeps_rules)

lemma validateTLSConfig_keeps [keeps_rules]: "keeps (\<lambda>st. v (fst st)) (validateTLSConfig (r_client r) mdb)"
  unfolding validateTLSConfig_def by (intro keeps_rules)

lemma ensureTLSResources_keeps [keeps_rules]: "keeps v (ensureTLSResources r mdb)"
  unfolding ensureTLSResources_def by (intro keeps_rules)

lemma ensure_users_keeps: "keeps (\<lambda>st. v (fst st)) (ensure_users r mdb users)"
  by (induction users) (auto intro!: keeps_rules simp del: if_split simp: Let_def)

lemma ensureUserResources_keeps [keeps_rules]: "keeps (\<lambda>st. v (fst st)) (ensureUserResources r mdb)"
  unfolding ensureUserResources_def by (rule ensure_users_keeps)

lemma connection_strings_keeps: "keeps v (connection_strings r mdb users)"
  by (induction users) (auto intro!: keeps_rules)

lemma updateConnectionStringSecrets_keeps [keeps_rules]: "keeps v (updateConnectionStringSecrets r mdb)"
  unfolding updateConnectionStringSecrets_def by (rule connection_strings_keeps)

end

text \<open>So do writes of the service and of the stateful set: everything but the custom resource.\<close>

locale frame_client = secret_frame r v for r :: "'w reconciler" and v :: "'w \<Rightarrow> 'v" +
  assumes create_service: "keeps v (kCreate (r_client r) (ServiceObj svc))"
    and create_statefulset: "keeps v (kCreate (r_client r) (StatefulSetObj sts))"
    and update_statefulset: "keeps v (kUpdate (r_client r) (StatefulSetObj sts))"
begin

lemma statefulset_ops_keep [keeps_rules]:
  "keeps v (CreateStatefulSet (statefulsets_of (r_client r)) st)" "keeps v (UpdateStatefulSet (statefulsets_of (r_client r)) st)"
  by (auto simp: typed_ops statefulsets_of_def intro!: keeps_rules create_statefulset update_statefulset)

lemma deployStatefulSet_keeps: "keeps v (deployStatefulSet r mdb)"
  unfolding deployStatefulSet_def createOrUpdateStatefulSet_def sts_CreateOrUpdate_def Let_def by (intro keeps_rules)

lemma deploy_keeps [keeps_rules]: "keeps v (deployMongoDBReplicaSet r mdb)"
  unfolding deployMongoDBReplicaSet_def
  using deployAutomationConfig_keeps deployStatefulSet_keeps by (intro keeps_rules) auto

lemma ResetUpdateStrategy_keeps [keeps_rules]: "keeps v (ResetUpdateStrategy (statefulsets_of (r_client r)) mdb)"
  unfolding ResetUpdateStrategy_def sts_GetAndUpdate_def by (intro keeps_rules)

lemma ensureService_keeps [keeps_rules]: "keeps v (ensureService r mdb)"
  unfolding ensureService_def by (intro keeps_rules create_service)

end

section \<open>How a reconciliation ends\<close>

text \<open>The options of a run that is repeated: a message, and the pending or the failed phase.\<close>

definition retries :: "option_builder \<Rightarrow> bool" where
  "retries opts = (\<exists>sev msg phase n. opts = [MessageOption sev msg, PhaseOption phase n] \<and> phase \<in> {phase_Pending, phase_Failed})"

lemma retries_failed: "retries (withFailedPhase (withMessage sev msg statusOptions))"
  by (auto simp: retries_def option_builder_defs)

lemma retries_pending: "retries (withPendingPhase n (withMessage sev msg statusOptions))"
  by (auto simp: retries_def option_builder_defs)

lemma report_OkD:
  assumes "report r mdb opts st = (Ok res, st')"
  obtains mdb' where "status_Update (r_client r) mdb opts (fst st) = (Ok (res, mdb'), fst st')"
  using assms by (auto simp: report_def on_cluster_def on_result_def split: prod.splits outcome.splits)

context frame_client
begin

text \<open>
  Started in \<open>st\<close>, the rest of the run reports a phase that is retried, in a state with the view
  \<open>x\<close>, or ends as \<open>F\<close> says.
\<close>

definition reported :: "'v \<Rightarrow> mongodb_community \<Rightarrow> reconcile_result \<Rightarrow> 'w rstate \<Rightarrow> bool" where
  "reported x mdb res st' =
     (\<exists>opts st1. v (fst st1) = x \<and> retries opts \<and> report r mdb opts st1 = (Ok res, st'))"

definition ends_in where
  "ends_in x mdb F st m =
     (\<forall>res st'. v (fst st) = x \<longrightarrow> m st = (Ok res, st') \<longrightarrow> reported x mdb res st' \<or> F res st')"

lemma ends_in_report: "retries opts \<Longrightarrow> ends_in x mdb F st (report r mdb opts)"
  by (auto simp: ends_in_def reported_def simp del: split_paired_Ex)

lemma ends_in_if:
  "(b \<Longrightarrow> ends_in x mdb F st m) \<Longrightarrow> (\<not> b \<Longrightarrow> ends_in x mdb F st m') \<Longrightarrow> ends_in x mdb F st (if b then m else m')"
  by simp

text \<open>A step that fails is reported; the run goes on only after a success.\<close>

lemma ends_in_step:
  assumes "keeps (\<lambda>st. v (fst st)) m" and "\<And>y st1. m st = (Ok y, st1) \<Longrightarrow> ends_in x mdb F st1 (k y)"
  shows "ends_in x mdb F st (on_result m (failed_with r mdb msg) k)"
  unfolding ends_in_def
proof (intro allI impI)
  fix res st'
  assume x: "v (fst st) = x" and run: "on_result m (failed_with r mdb msg) k st = (Ok res, st')"
  obtain out st1 where m: "m st = (out, st1)" by (cases "m st")
  with keepsD [OF assms(1) m] x have x1: "v (fst st1) = x" by simp
  show "reported x mdb res st' \<or> F res st'"
  proof (cases out)
    case (Ok y)
    with assms(2) [of y st1] m run x1 show ?thesis by (simp add: on_result_def ends_in_def del: split_paired_All)
  next
    case (Fail e)
    with ends_in_report [OF retries_failed, of x mdb F st1] m run x1 show ?thesis
      by (simp add: on_result_def ends_in_def failed_with_def del: split_paired_All)
  qed (use m run in \<open>simp add: on_result_def\<close>)
qed

text \<open>
  A reconciliation that returns either reported a phase that is retried, in a state with the same
  view, or came to its last part, after the specification was found valid, the deployment ready
  and its update strategy reset.
\<close>

definition finished :: "'v \<Rightarrow> mongodb_community \<Rightarrow> reconcile_result \<Rightarrow> 'w rstate \<Rightarrow> bool" where
  "finished x mdb res st' = (\<exists>w1 w2 st3. controller_validateSpec r mdb = Ok ()
     \<and> deployMongoDBReplicaSet r mdb w1 = (Ok True, w2)
     \<and> ResetUpdateStrategy (statefulsets_of (r_client r)) mdb w2 = (Ok (), fst st3)
     \<and> v (fst st3) = x \<and> finish_reconcile r mdb st3 = (Ok res, st'))"

lemma ends_in_finish:
  assumes "controller_validateSpec r mdb = Ok ()" and "on_cluster (deployMongoDBReplicaSet r mdb) st1 = (Ok True, st2)"
    and "on_cluster (ResetUpdateStrategy (statefulsets_of (r_client r)) mdb) st2 = (Ok (), st3)"
  shows "ends_in x mdb (finished x mdb) st3 (finish_reconcile r mdb)"
  using assms by (auto simp: ends_in_def finished_def on_cluster_def split: prod.splits)

lemma reconcile_resource_cases:
  assumes "reconcile_resource r mdb st = (Ok res, st')"
  shows "reported (v (fst st)) mdb res st' \<or> finished (v (fst st)) mdb res st'"
proof -
  have "ends_in (v (fst st)) mdb (finished (v (fst st)) mdb) st (reconcile_resource r mdb)"
    unfolding reconcile_resource_def
    by (intro ends_in_step ends_in_if ends_in_report retries_pending keeps_rules)
      (auto intro!: ends_in_finish)
  with assms show ?thesis by (simp add: ends_in_def del: split_paired_All)
qed

end

end
