(* ===== verification/Progress.thy ===== *)
theory Progress
  imports Frame Reconciliation
begin

text \<open>
  How reconciliations move a deployment: when a run may report that the resource is running, in
  which order the automation configuration and the stateful set are deployed, and that the number
  of members stored in the status is scaled one step at a time, a refinement of
  \<open>scale_step\<close>. The last part of a run is checked against the in-memory cluster.
\<close>

section \<open>Running means ready\<close>

text \<open>Any client keeps the trivial view.\<close>

lemma frame_trivial: "frame_client r (\<lambda>_. ())"
  by unfold_locales (simp_all add: keeps_def)

lemma retries_asks_again: "retries opts \<Longrightarrow> \<exists>opt \<in> set opts. asks_again opt"
  by (auto simp: retries_def asks_again_def)

lemma report_retried:
  assumes "report r mdb opts st = (Ok res, st')" and "retries opts"
  shows "res \<noteq> result_OK"
  using report_OkD [OF assms(1)] status_Update_OkD(2) determine_done_iff retries_asks_again [OF assms(2)] by metis

lemma scaling_options_ask: "\<exists>opt \<in> set (scaling_options mdb). asks_again opt"
  by (auto simp: scaling_options_def option_builder_defs asks_again_def)

lemma running_options_done: "opt \<in> set (running_options mdb uri) \<Longrightarrow> \<not> asks_again opt"
  by (auto simp: running_options_def option_builder_defs asks_again_def phase_Running_def phase_Pending_def phase_Failed_def
      split: if_splits)

lemma finish_reconcile_cases:
  assumes "finish_reconcile r mdb st = (Ok res, st')"
  obtains (scaling) mdb' where "IsStillScaling (statefulset_scaler mdb)" "res \<noteq> result_OK"
      "status_Update (r_client r) mdb (scaling_options mdb) (fst st) = (Ok (res, mdb'), fst st')"
  | (running) uri mdb' w1 u2 w2 u3 where "\<not> IsStillScaling (statefulset_scaler mdb)" "MongoURI mdb = Ok uri" "res = result_OK"
      "status_Update (r_client r) mdb (running_options mdb uri) (fst st) = (Ok (res, mdb'), w1)"
      "log_error (updateConnectionStringSecrets r mdb') w1 = (Ok u2, w2)"
      "log_error (updateLastSuccessfulConfiguration r mdb') w2 = (Ok u3, fst st')"
proof (cases "IsStillScaling (statefulset_scaler mdb)")
  case True
  with assms have "report r mdb (scaling_options mdb) st = (Ok res, st')" by (simp add: finish_reconcile_def)
  from report_OkD [OF this] obtain mdb' where
    u: "status_Update (r_client r) mdb (scaling_options mdb) (fst st) = (Ok (res, mdb'), fst st')" by blast
  from determine_done_iff [OF status_Update_OkD(2) [OF u]] scaling_options_ask have "res \<noteq> result_OK" by blast
  with True u scaling show ?thesis by blast
next
  case False
  with assms obtain uri mdb' st1 st2 u2 u3 where uri: "MongoURI mdb = Ok uri" and
    u: "on_cluster (status_Update (r_client r) mdb (running_options mdb uri)) st = (Ok (res, mdb'), st1)" and
    "on_cluster (log_error (updateConnectionStringSecrets r mdb')) st1 = (Ok u2, st2)"
    "on_cluster (log_error (updateLastSuccessfulConfiguration r mdb')) st2 = (Ok u3, st')"
    unfolding finish_reconcile_def by (auto elim!: on_result_fail_OkD [where g = "\<lambda>e. e"] split: outcome.splits)
  then have "status_Update (r_client r) mdb (running_options mdb uri) (fst st) = (Ok (res, mdb'), fst st1)"
    "log_error (updateConnectionStringSecrets r mdb') (fst st1) = (Ok u2, fst st2)"
    "log_error (updateLastSuccessfulConfiguration r mdb') (fst st2) = (Ok u3, fst st')"
    by (auto simp: on_cluster_def split: prod.splits)
  moreover from this(1) have "res = result_OK"
    using determine_done_iff [OF status_Update_OkD(2)] running_options_done by fast
  ultimately show ?thesis using running False uri by blast
qed

lemma deployStatefulSet_TrueD:
  assumes "deployStatefulSet r mdb w = (Ok True, w')"
  shows "\<exists>w1 sts. GetStatefulSet (statefulsets_of (r_client r)) (NamespacedName mdb) w1 = (Ok sts, w')
    \<and> (sts_IsReady sts (StatefulSetReplicasThisReconciliation mdb) \<or> us_Type (sts_UpdateStrategy (sts_Spec sts)) = ''OnDelete'')"
  using assms unfolding deployStatefulSet_def by (elim on_result_fail_OkD) auto

lemma deployAutomationConfig_TrueD:
  assumes "deployAutomationConfig r mdb w = (Ok True, w')"
  shows "\<exists>w1 w2 sts ac. ensureAutomationConfig r mdb w1 = (Ok ac, w2)
    \<and> (isPreReadinessInitContainerStatefulSet sts \<and> w' = w2
       \<or> AllReachedGoalState (r_cast r) sts (client_GetPod (r_client r)) (StatefulSetReplicasThisReconciliation mdb)
           (ac_Version ac) w2 = (Ok True, w'))"
proof -
  have rest: "?thesis" if "on_result (ensureAutomationConfig r mdb)
          (\<lambda>err. fail (errorf ''failed to ensure AutomationConfig: '' err)) (\<lambda>ac.
        if isPreReadinessInitContainerStatefulSet sts then ret True
        else on_result (AllReachedGoalState (r_cast r) sts (client_GetPod (r_client r))
               (StatefulSetReplicasThisReconciliation mdb) (ac_Version ac))
             (\<lambda>err. fail (errorf ''failed to ensure agents have reached goal state: '' err)) ret) w1 = (Ok True, w')" for sts w1
    using that by (elim on_result_fail_OkD) (fastforce split: if_splits elim!: on_result_fail_OkD)
  show ?thesis
    using assms unfolding deployAutomationConfig_def Let_def
    by (cases "GetStatefulSet (statefulsets_of (r_client r)) (NamespacedName mdb) w")
      (auto simp: on_result_def [of "GetStatefulSet c n" for c n] split: outcome.splits if_splits dest!: rest)
qed

lemma deploy_TrueD:
  assumes "deployMongoDBReplicaSet r mdb w = (Ok True, w')"
  obtains inOrder w1 where "shouldRunInOrder r mdb w = (Ok inOrder, w1)"
    and "all_succeed (if inOrder then [deployAutomationConfig r mdb, deployStatefulSet r mdb]
                      else [deployStatefulSet r mdb, deployAutomationConfig r mdb]) w1 w'"
  using assms unfolding deployMongoDBReplicaSet_def
  by (elim on_result_fail_OkD [where g = "\<lambda>e. e"])
    (auto simp: RunSequentially_def runReversed_eq runInOrder_True_iff simp del: runInOrder.simps split: if_splits)

text \<open>
  C5. A run that is not repeated reported a ready deployment: when \<open>Reconcile\<close> returns a result that
  does not queue the request again, the resource was deleted, or its specification is valid, both
  deployments succeeded one after the other in the order that was determined for this run, the
  stateful set is not scaling any more, and the status was written with the running phase.
\<close>

theorem running_only_when_ready:
  assumes "controller_Reconcile r n st = (Ok result_OK, st')"
  shows "(\<exists>e. fst (kGet (r_client r) MongoDBKind n (fst st)) = Fail e \<and> IsNotFound e)
    \<or> (\<exists>mdb w0 w1 inOrder w2 w3 w4 w5 uri mdb'.
        kGet (r_client r) MongoDBKind n (fst st) = (Ok (MongoDBObj mdb), w0)
        \<and> controller_validateSpec r mdb = Ok ()
        \<and> shouldRunInOrder r mdb w1 = (Ok inOrder, w2)
        \<and> all_succeed (if inOrder then [deployAutomationConfig r mdb, deployStatefulSet r mdb]
                       else [deployStatefulSet r mdb, deployAutomationConfig r mdb]) w2 w3
        \<and> (\<exists>w sts w'. GetStatefulSet (statefulsets_of (r_client r)) (NamespacedName mdb) w = (Ok sts, w')
             \<and> (sts_IsReady sts (StatefulSetReplicasThisReconciliation mdb)
                  \<or> us_Type (sts_UpdateStrategy (sts_Spec sts)) = ''OnDelete''))
        \<and> \<not> IsStillScaling (statefulset_scaler mdb) \<and> MongoURI mdb = Ok uri
        \<and> status_Update (r_client r) mdb (running_options mdb uri) w4 = (Ok (result_OK, mdb'), w5))"
proof -
  obtain out w0 where g: "kGet (r_client r) MongoDBKind n (fst st) = (out, w0)" by fastforce
  show ?thesis
  proof (cases out)
    case (Fail e)
    with assms g show ?thesis
      by (auto simp: controller_Reconcile_def on_result_def on_cluster_def result_OK_def result_Failed_def result_Retry_def
          split: if_splits)
  next
    case (Panic p)
    with assms g show ?thesis by (simp add: controller_Reconcile_def on_result_def on_cluster_def)
  next
    case (Ok obj)
    with assms g obtain mdb where obj: "obj = MongoDBObj mdb" and run: "reconcile_resource r mdb (w0, snd st) = (Ok result_OK, st')"
      by (cases obj) (auto simp: controller_Reconcile_def on_result_def on_cluster_def)
    have "\<not> frame_client.reported r (\<lambda>_. ()) () mdb result_OK st'"
      using report_retried unfolding frame_client.reported_def [OF frame_trivial] by blast
    with frame_client.reconcile_resource_cases [OF frame_trivial run]
    obtain w1 w2 st3 where v: "controller_validateSpec r mdb = Ok ()" and d: "deployMongoDBReplicaSet r mdb w1 = (Ok True, w2)"
      and f: "finish_reconcile r mdb st3 = (Ok result_OK, st')"
      by (auto simp: frame_client.finished_def [OF frame_trivial])
    from f show ?thesis
    proof (cases rule: finish_reconcile_cases)
      case scaling
      then show ?thesis by simp
    next
      case running
      from deploy_TrueD [OF d] obtain inOrder w2' where o: "shouldRunInOrder r mdb w1 = (Ok inOrder, w2')"
        "all_succeed (if inOrder then [deployAutomationConfig r mdb, deployStatefulSet r mdb]
                      else [deployStatefulSet r mdb, deployAutomationConfig r mdb]) w2' w2" .
      then obtain w w' where "deployStatefulSet r mdb w = (Ok True, w')" by (auto split: if_splits)
      from deployStatefulSet_TrueD [OF this] running o v g Ok obj show ?thesis by metis
    qed
  qed
qed

section \<open>Scaling one member at a time\<close>

text \<open>The in-memory client keeps the custom resources unless it writes one.\<close>

lemma mock_put_other_kind [simp]: "k \<noteq> obj_kind obj \<Longrightarrow> mock_put obj w k = w k"
  by (simp add: mock_put_def)

lemma obj_kind_prepare: "mock_prepare obj = Ok obj' \<Longrightarrow> obj_kind obj' = obj_kind obj"
  by (cases obj) (auto simp: bind_out_Ok_conv)

lemma mock_writes_keep:
  assumes "\<And>obj' w. obj_kind obj' = obj_kind obj \<Longrightarrow> v (mock_put obj' w) = v w"
  shows "keeps v (kCreate mockedClient obj)" and "keeps v (kUpdate mockedClient obj)"
  using obj_kind_prepare [of obj] assms
  by (auto simp: keeps_def mockedClient_def mock_Create_def mock_Update_def split: outcome.split)

lemma mock_get_keeps: "keeps v (kGet mockedClient kind n)"
  by (simp add: keeps_def mockedClient_def mock_Get_def split: option.split)

lemma mock_frame_client:
  assumes "r_client r = mockedClient" and "\<And>k. keeps (\<lambda>w. w MongoDBKind) (r_rand r k)"
  shows "frame_client r (\<lambda>w. w MongoDBKind)"
  by unfold_locales (simp_all add: assms mock_get_keeps mock_writes_keep)

interpretation mock_frame: frame_client "mock_reconciler L env" "\<lambda>w. w MongoDBKind" for L env
  by (rule mock_frame_client) (simp_all add: mock_reconciler_def keeps_def const_rand_def)

text \<open>The resource as it is stored under its name.\<close>

definition stored_resource :: "mock_cluster \<Rightarrow> nsname \<Rightarrow> mongodb_community \<Rightarrow> bool" where
  "stored_resource w n mdb = (w MongoDBKind n = Some (MongoDBObj mdb) \<and> NamespacedName mdb = n)"

lemma mdb_key: "ObjectKeyFromObject (MongoDBObj mdb) = NamespacedName mdb"
  by (simp add: ObjectKeyFromObject_def NamespacedName_def object_key_def)

lemma mock_put_resource: "stored_resource (mock_put (MongoDBObj mdb) w) (NamespacedName mdb) mdb"
  by (simp add: stored_resource_def mock_put_def mdb_key)

lemma status_Update_mock:
  assumes "status_Update mockedClient mdb opts w = (Ok (res, mdb'), w')"
  shows "mdb' = apply_options opts mdb" and "stored_resource w' (NamespacedName mdb) (apply_options opts mdb)"
  using status_Update_OkD(1) [OF assms] mock_put_resource [of "apply_options opts mdb" w]
  by (auto simp: mockedClient_def mock_Update_def)

text \<open>The annotations are the only part of a resource that is patched.\<close>

lemma SetAnnotations_mock:
  assumes "stored_resource w (NamespacedName mdb) m" and "SetAnnotations it mockedClient mdb an w = (out, w')"
  shows "\<exists>m'. stored_resource w' (NamespacedName mdb) m' \<and> mdb_Spec m' = mdb_Spec m \<and> mdb_Status m' = mdb_Status m"
proof -
  have "w' = w \<or> (\<exists>a. w' = mock_put (MongoDBObj (m\<lparr>mdb_Meta := (mdb_Meta m)\<lparr>om_Annotations := a\<rparr>\<rparr>)) w)"
    using assms
    by (auto simp: SetAnnotations_def stored_resource_def on_result_def mockedClient_def mock_Get_def mock_Patch_def Let_def
        split: outcome.splits if_splits)
  then show ?thesis
  proof (elim disjE exE)
    fix a assume "w' = mock_put (MongoDBObj (m\<lparr>mdb_Meta := (mdb_Meta m)\<lparr>om_Annotations := a\<rparr>\<rparr>)) w"
    then show ?thesis
      using mock_put_resource [of "m\<lparr>mdb_Meta := (mdb_Meta m)\<lparr>om_Annotations := a\<rparr>\<rparr>" w] assms(1)
      by (intro exI [of _ "m\<lparr>mdb_Meta := (mdb_Meta m)\<lparr>om_Annotations := a\<rparr>\<rparr>"]) (simp add: stored_resource_def NamespacedName_def)
  qed (use assms(1) in blast)
qed

lemma log_error_state: "snd (log_error m w) = snd (m w)"
  by (cases "m w", cases "fst (m w)") (auto simp: log_error_def on_result_def)

lemma apply_retries:
  "retries opts \<Longrightarrow> stat_CurrentStatefulSetReplicas (mdb_Status (apply_options opts mdb)) = stat_CurrentStatefulSetReplicas (mdb_Status mdb)
    \<and> stat_CurrentMongoDBMembers (mdb_Status (apply_options opts mdb)) = stat_CurrentMongoDBMembers (mdb_Status mdb)
    \<and> stat_Phase (mdb_Status (apply_options opts mdb)) \<noteq> ''Running''"
  by (auto simp: retries_def apply_options_def phase_Pending_def phase_Failed_def)

lemma apply_finish_options:
  "stat_CurrentStatefulSetReplicas (mdb_Status (apply_options (scaling_options mdb) mdb)) = StatefulSetReplicasThisReconciliation mdb"
  "stat_CurrentMongoDBMembers (mdb_Status (apply_options (scaling_options mdb) mdb)) = AutomationConfigMembersThisReconciliation mdb"
  "stat_Phase (mdb_Status (apply_options (scaling_options mdb) mdb)) \<noteq> ''Running''"
  "stat_CurrentStatefulSetReplicas (mdb_Status (apply_options (running_options mdb uri) mdb)) = StatefulSetReplicasThisReconciliation mdb"
  "stat_CurrentMongoDBMembers (mdb_Status (apply_options (running_options mdb uri) mdb)) = AutomationConfigMembersThisReconciliation mdb"
  "stat_Phase (mdb_Status (apply_options (running_options mdb uri) mdb)) = ''Running''"
  by (simp_all add: scaling_options_def running_options_def option_builder_defs apply_options_def phase_Pending_def phase_Running_def)

lemma finish_reconcile_mock:
  assumes "frame_client r (\<lambda>w. w MongoDBKind)" and "r_client r = mockedClient"
    and "finish_reconcile r mdb st = (Ok res, st')"
  shows "\<exists>m. stored_resource (fst st') (NamespacedName mdb) m \<and> mdb_Spec m = mdb_Spec mdb
    \<and> stat_CurrentStatefulSetReplicas (mdb_Status m) = StatefulSetReplicasThisReconciliation mdb
    \<and> stat_CurrentMongoDBMembers (mdb_Status m) = AutomationConfigMembersThisReconciliation mdb
    \<and> (res = result_OK \<longleftrightarrow> stat_Phase (mdb_Status m) = ''Running'')
    \<and> (res = result_OK \<longleftrightarrow> \<not> IsStillScaling (statefulset_scaler mdb))"
  using assms(3)
proof (cases rule: finish_reconcile_cases)
  case (scaling mdb')
  with status_Update_mock(2) [of mdb "scaling_options mdb"] assms(2) show ?thesis
    by (intro exI [of _ "apply_options (scaling_options mdb) mdb"]) (simp add: apply_finish_options)
next
  case (running uri mdb' w1 u2 w2 u3)
  let ?m = "apply_options (running_options mdb uri) mdb"
  from running(4) assms(2) have m: "mdb' = ?m" "stored_resource w1 (NamespacedName mdb) ?m"
    using status_Update_mock by auto
  have "w2 MongoDBKind = w1 MongoDBKind"
    using secret_frame.updateConnectionStringSecrets_keeps [OF frame_client.axioms(1) [OF assms(1)], of mdb'] running(5)
      log_error_state [of "updateConnectionStringSecrets r mdb'" w1]
    by (auto simp: keeps_def)
  with m(2) have w2: "stored_resource w2 (NamespacedName mdb') ?m" by (simp add: stored_resource_def m(1))
  have "\<exists>m'. stored_resource (fst st') (NamespacedName mdb') m' \<and> mdb_Spec m' = mdb_Spec ?m \<and> mdb_Status m' = mdb_Status ?m"
  proof (cases "r_spec_json r (mdb_Spec mdb')")
    case (Ok js)
    then obtain out where "SetAnnotations (r_it r) mockedClient mdb' [(lastSuccessfulConfiguration, js),
        (lastAppliedMongoDBVersion, spec_Version (mdb_Spec mdb'))] w2 = (out, fst st')"
      using running(6) log_error_state [of "updateLastSuccessfulConfiguration r mdb'" w2] assms(2)
      by (auto simp: updateLastSuccessfulConfiguration_def ignore_result_def on_result_def split: prod.splits outcome.splits)
    from SetAnnotations_mock [OF w2 this] show ?thesis .
  qed (use running(6) w2 in \<open>auto simp: log_error_def updateLastSuccessfulConfiguration_def on_result_def\<close>)
  with running show ?thesis by (auto simp: m(1) apply_finish_options)
qed

text \<open>
  The abstract specification of scaling: a deployment has a number of members and a desired
  number, a run leaves the number alone or takes one \<open>scale_step\<close>, and it is over only at the
  desired number.
\<close>

inductive scale_run :: "int \<Rightarrow> int \<Rightarrow> bool \<Rightarrow> int \<Rightarrow> bool" for desired where
  waiting: "scale_run desired current False current"
| step: "scale_run desired current (scale_step desired current = desired) (scale_step desired current)"

inductive_cases scale_run_overE: "scale_run desired current True current'"
inductive_cases scale_runE: "scale_run desired current b current'"

text \<open>A run is over only at the desired number, and never moves away from it.\<close>

lemma scale_run_over: "scale_run desired current True current' \<Longrightarrow> current' = desired"
  by (auto elim: scale_run_overE)

lemma scale_run_closer:
  assumes "scale_run desired current b current'" and "0 < desired" and "0 < current"
  shows "\<bar>current' - current\<bar> \<le> 1 \<and> \<bar>desired - current'\<bar> \<le> \<bar>desired - current\<bar>"
  using assms(1) scale_steps [OF assms(2,3), of 1] by (elim scale_runE) (auto simp: min_def max_def)

lemma scale_step_scaler:
  "scale_step (spec_Members (mdb_Spec mdb)) (stat_CurrentStatefulSetReplicas (mdb_Status mdb)) = StatefulSetReplicasThisReconciliation mdb"
  "scale_step (spec_Members (mdb_Spec mdb)) (stat_CurrentMongoDBMembers (mdb_Status mdb)) = AutomationConfigMembersThisReconciliation mdb"
  by (simp_all add: scale_step_def StatefulSetReplicasThisReconciliation_def AutomationConfigMembersThisReconciliation_def
      statefulset_scaler_def automationConfigReplicasScaler_def)

lemma still_scaling_iff: "IsStillScaling (statefulset_scaler mdb) \<longleftrightarrow> StatefulSetReplicasThisReconciliation mdb \<noteq> spec_Members (mdb_Spec mdb)"
  by (simp add: IsStillScaling_def StatefulSetReplicasThisReconciliation_def statefulset_scaler_def)

text \<open>
  C6. The controller refines the specification of scaling: a reconciliation on the in-memory
  cluster that returns keeps the specification of the resource and changes the stored numbers of
  members as \<open>scale_run\<close> allows, so by at most one member or from none to all. The numbers of the
  automation configuration and of the stateful set stay equal, and the run is over exactly when
  the running phase is stored.
\<close>

theorem Reconcile_refines_scaling:
  assumes "r_client r = mockedClient" and "\<And>k. keeps (\<lambda>w. w MongoDBKind) (r_rand r k)"
    and "stored_resource (fst st) n mdb"
    and "stat_CurrentMongoDBMembers (mdb_Status mdb) = stat_CurrentStatefulSetReplicas (mdb_Status mdb)"
    and "controller_Reconcile r n st = (Ok res, st')"
  shows "\<exists>mdb'. stored_resource (fst st') n mdb' \<and> mdb_Spec mdb' = mdb_Spec mdb
    \<and> stat_CurrentMongoDBMembers (mdb_Status mdb') = stat_CurrentStatefulSetReplicas (mdb_Status mdb')
    \<and> scale_run (spec_Members (mdb_Spec mdb)) (stat_CurrentStatefulSetReplicas (mdb_Status mdb)) (res = result_OK)
        (stat_CurrentStatefulSetReplicas (mdb_Status mdb'))
    \<and> (res = result_OK \<longleftrightarrow> stat_Phase (mdb_Status mdb') = ''Running'')"
proof -
  note frame = mock_frame_client [OF assms(1,2)]
  have n: "NamespacedName mdb = n" using assms(3) by (simp add: stored_resource_def)
  have "reconcile_resource r mdb st = (Ok res, st')"
    using assms(1,3,5)
    by (cases st) (auto simp: controller_Reconcile_def on_result_def on_cluster_def mockedClient_def mock_Get_def stored_resource_def)
  from frame_client.reconcile_resource_cases [OF frame this] show ?thesis
  proof
    assume "frame_client.reported r (\<lambda>w. w MongoDBKind) (fst st MongoDBKind) mdb res st'"
    then obtain opts st1 where o: "retries opts" "report r mdb opts st1 = (Ok res, st')"
      by (auto simp: frame_client.reported_def [OF frame])
    from report_OkD [OF o(2)] obtain mdb' where "status_Update mockedClient mdb opts (fst st1) = (Ok (res, mdb'), fst st')"
      using assms(1) by auto
    from status_Update_mock(2) [OF this] apply_retries [OF o(1), of mdb] report_retried [OF o(2,1)] show ?thesis
      using assms(4) by (intro exI [of _ "apply_options opts mdb"]) (auto simp: n intro: scale_run.waiting)
  next
    assume "frame_client.finished r (\<lambda>w. w MongoDBKind) (fst st MongoDBKind) mdb res st'"
    then obtain st3 where f: "finish_reconcile r mdb st3 = (Ok res, st')"
      by (auto simp: frame_client.finished_def [OF frame])
    from finish_reconcile_mock [OF frame assms(1) f] obtain m where m: "stored_resource (fst st') n m" "mdb_Spec m = mdb_Spec mdb"
      "stat_CurrentStatefulSetReplicas (mdb_Status m) = StatefulSetReplicasThisReconciliation mdb"
      "stat_CurrentMongoDBMembers (mdb_Status m) = AutomationConfigMembersThisReconciliation mdb"
      "res = result_OK \<longleftrightarrow> stat_Phase (mdb_Status m) = ''Running''" "res = result_OK \<longleftrightarrow> \<not> IsStillScaling (statefulset_scaler mdb)"
      by (auto simp: n)
    have "scale_run (spec_Members (mdb_Spec mdb)) (stat_CurrentStatefulSetReplicas (mdb_Status mdb)) (res = result_OK)
        (StatefulSetReplicasThisReconciliation mdb)"
      using scale_run.step [of "spec_Members (mdb_Spec mdb)" "stat_CurrentStatefulSetReplicas (mdb_Status mdb)"] m(6)
      by (simp add: scale_step_scaler still_scaling_iff)
    with m assms(4) show ?thesis using scale_step_scaler [of mdb] by (intro exI [of _ m]) simp
  qed
qed

section \<open>Order of the deployment\<close>

text \<open>
  C11. The order of the two deployments. Without TLS, a scale down and a run without changes deploy
  the automation configuration first, a scale up and a version change the stateful set. With TLS
  and an existing stateful set the stateful set always comes first, also when scaling down: it
  loses its last pod before the automation configuration does, and while it is not ready the
  configuration is not touched.
\<close>

theorem deployment_order:
  assumes "GetStatefulSet (statefulsets_of (r_client r)) (NamespacedName mdb) w = (Ok sts, w1)"
  shows "deployMongoDBReplicaSet r mdb w =
    runInOrder (if \<not> stls_Enabled (mdb_TLS mdb)
                   \<and> (IsScalingDown (statefulset_scaler mdb)
                      \<or> \<not> IsScalingUp (statefulset_scaler mdb) \<and> \<not> IsChangingVersion mdb)
                then [deployAutomationConfig r mdb, deployStatefulSet r mdb]
                else [deployStatefulSet r mdb, deployAutomationConfig r mdb]) w1
    \<and> (stls_Enabled (mdb_TLS mdb) \<and> IsScalingDown (statefulset_scaler mdb) \<and> deployStatefulSet r mdb w1 = (Ok False, w2)
        \<longrightarrow> deployMongoDBReplicaSet r mdb w = (Ok False, w2))"
  using assms not_scaling_up_and_down [of "statefulset_scaler mdb"]
  by (auto simp: deployMongoDBReplicaSet_def shouldRunInOrder_def on_result_def RunSequentially_def runReversed_eq)

theorem deployment_order_witness:
  "deployMongoDBReplicaSet (mock_reconciler example_libs (\<lambda>_. None)) (example_mdb 3 ''4.4.0'' True)
     (mock_put (StatefulSetObj (empty_statefulset\<lparr>sts_Meta := empty_meta\<lparr>om_Name := ''db'', om_Namespace := ''ns''\<rparr>\<rparr>)) mock_empty)
   = runInOrder [deployStatefulSet (mock_reconciler example_libs (\<lambda>_. None)) (example_mdb 3 ''4.4.0'' True),
       deployAutomationConfig (mock_reconciler example_libs (\<lambda>_. None)) (example_mdb 3 ''4.4.0'' True)]
     (mock_put (StatefulSetObj (empty_statefulset\<lparr>sts_Meta := empty_meta\<lparr>om_Name := ''db'', om_Namespace := ''ns''\<rparr>\<rparr>)) mock_empty)"
proof -
  let ?s = "empty_statefulset\<lparr>sts_Meta := empty_meta\<lparr>om_Name := ''db'', om_Namespace := ''ns''\<rparr>\<rparr>"
  have get: "GetStatefulSet (statefulsets_of (r_client (mock_reconciler example_libs (\<lambda>_. None)))) (NamespacedName (example_mdb 3 ''4.4.0'' True))
      (mock_put (StatefulSetObj ?s) mock_empty) = (Ok ?s, mock_put (StatefulSetObj ?s) mock_empty)"
    by (simp add: statefulsets_of_def typed_ops mockedClient_def mock_Get_def on_result_def mock_put_def ObjectKeyFromObject_def
        object_key_def example_mdb_def NamespacedName_def empty_meta_def)
  have "stls_Enabled (mdb_TLS (example_mdb 3 ''4.4.0'' True))" by (simp add: example_mdb_def)
  with deployment_order [OF get] show ?thesis by simp
qed

end
