(* ===== verification/Fresh.thy ===== *)
theory Fresh
  imports Progress Built_Set
begin

text \<open>
  A new deployment on the in-memory cluster: one reconciliation creates the service, the
  credentials, the automation configuration and the stateful set, and reports the resource as
  running with all of its members. The steps are followed one by one; that no step panics is
  proved with the predicate \<open>quiet\<close>.
\<close>

section \<open>Steps that do not panic\<close>

definition quiet :: "('w \<Rightarrow> bool) \<Rightarrow> ('w \<Rightarrow> 'a outcome \<times> 'w) \<Rightarrow> bool" where
  "quiet I m = (\<forall>w. I w \<longrightarrow> I (snd (m w)) \<and> (\<forall>p. fst (m w) \<noteq> Panic p))"

named_theorems quiet_rules

lemma quietD: "quiet I m \<Longrightarrow> I w \<Longrightarrow> m w = (out, w') \<Longrightarrow> I w' \<and> (\<forall>p. out \<noteq> Panic p)"
  unfolding quiet_def by (metis fst_conv snd_conv)

lemma quiet_ret [quiet_rules]: "quiet I (ret x)"
  by (simp add: quiet_def)

lemma quiet_fail [quiet_rules]: "quiet I (fail e)"
  by (simp add: quiet_def)

lemma quiet_pure: "(\<And>p. out \<noteq> Panic p) \<Longrightarrow> quiet I (pure_out out)"
  by (simp add: quiet_def)

lemma quiet_on_result [quiet_rules]:
  assumes "quiet I m" and "\<And>e. quiet I (h e)" and "\<And>x. quiet I (k x)"
  shows "quiet I (on_result m h k)"
  unfolding quiet_def
proof (intro allI impI)
  fix w assume "I w"
  obtain out w' where m: "m w = (out, w')" by fastforce
  with quietD [OF assms(1) \<open>I w\<close> m] assms(2,3)
  show "I (snd (on_result m h k w)) \<and> (\<forall>p. fst (on_result m h k w) \<noteq> Panic p)"
    by (cases out) (simp_all add: on_result_def quiet_def)
qed

lemma quiet_if [quiet_rules]: "(b \<Longrightarrow> quiet I m) \<Longrightarrow> (\<not> b \<Longrightarrow> quiet I m') \<Longrightarrow> quiet I (if b then m else m')"
  by simp

lemma quiet_case_option [quiet_rules]:
  "quiet I m \<Longrightarrow> (\<And>x. quiet I (k x)) \<Longrightarrow> quiet I (case x of None \<Rightarrow> m | Some x \<Rightarrow> k x)"
  by (cases x) simp_all

lemma log_error_quiet:
  assumes "quiet I m" and "I w"
  shows "\<exists>w'. log_error m w = (Ok (), w') \<and> w' = snd (m w)"
proof -
  obtain out w' where m: "m w = (out, w')" by fastforce
  with quietD [OF assms m] show ?thesis by (cases out) (auto simp: log_error_def on_result_def)
qed

lemma mock_secrets_quiet [quiet_rules]:
  "quiet well_kinded (GetSecret (secrets_of mockedClient) n)"
  "quiet well_kinded (CreateSecret (secrets_of mockedClient) s)"
  "quiet well_kinded (UpdateSecret (secrets_of mockedClient) s)"
proof -
  have obj: "\<exists>s. obj = SecretObj s" if "well_kinded w" "w SecretKind n = Some obj" for w obj
    using well_kinded_secret [OF that] by blast
  then show "quiet well_kinded (GetSecret (secrets_of mockedClient) n)"
    by (auto simp: quiet_def secrets_of_def typed_ops mockedClient_def mock_Get_def on_result_def split: option.split dest!: obj)
  show "quiet well_kinded (CreateSecret (secrets_of mockedClient) s)" "quiet well_kinded (UpdateSecret (secrets_of mockedClient) s)"
    by (auto simp: quiet_def secrets_of_def typed_ops mockedClient_def mock_Create_def mock_Update_def ignore_result_def on_result_def)
qed

lemma quiet_connection_strings:
  assumes "0 \<le> spec_Members (mdb_Spec mdb)" and "r_client r = mockedClient"
  shows "quiet well_kinded (connection_strings r mdb users)"
proof (induction users)
  case Nil
  then show ?case by (simp add: quiet_def)
next
  case (Cons u users)
  have "connection_string_secret mdb u pwd \<noteq> Panic p" for pwd p
    using assms(1) by (simp add: connection_string_secret_def MongoAuthUserURI_def Hosts_def)
  with Cons show ?case
    unfolding connection_strings.simps assms(2) secret_ReadKey_def secret_ReadStringData_def secret_CreateOrUpdate_def
    by (intro quiet_rules quiet_pure)
qed

section \<open>The steps of a first reconciliation\<close>

lemma ensureService_mock:
  assumes "r_client r = mockedClient" and "well_kinded w"
  shows "\<exists>w1. ensureService r mdb w = (Ok (), w1) \<and> well_kinded w1 \<and> (\<forall>k. k \<noteq> ServiceKind \<longrightarrow> w1 k = w k)"
  using assms
  by (auto simp: ensureService_def mockedClient_def mock_Create_def on_result_def alreadyExistsError_def)

lemma secret_data_cong: "w1 SecretKind = w SecretKind \<Longrightarrow> mock_secret_data w1 = mock_secret_data w"
  by (auto simp: mock_secret_data_def)

definition has_password :: "(nsname \<Rightarrow> string gomap option option) \<Rightarrow> nsname \<Rightarrow> scram_user \<Rightarrow> bool" where
  "has_password d ns u = (\<exists>pd pw. d (pw_name ns u) = Some pd \<and> password_in pd (su_PasswordSecretKey u) = Some pw)"

lemma fresh_has_password: "fresh_user d ns u \<Longrightarrow> has_password d ns u"
  by (auto simp: fresh_user_def has_password_def)

lemma ensure_users_mock:
  assumes "deployment_world r mock_secret_data well_kinded" and "well_kinded w"
    and "\<forall>u \<in> set users. has_password (mock_secret_data w) (NamespacedName mdb) u"
  shows "\<exists>rw'. ensure_users r mdb users (w, rw) = (Ok (), w, rw')"
  using assms(3)
proof (induction users arbitrary: rw)
  case Nil
  then show ?case by simp
next
  case (Cons u users)

  from Cons.prems obtain pd pw where pd: "mock_secret_data w (pw_name (NamespacedName mdb) u) = Some pd"
    "password_in pd (su_PasswordSecretKey u) = Some pw" by (auto simp: has_password_def)
  from scram_world.ReadKey_some [where inv = well_kinded and data = mock_secret_data and w = w,
      OF deployment_world.axioms [OF assms(1)] assms(2) pd(1)] pd(2)
  have "secret_ReadKey (secrets_of (r_client r)) (su_PasswordSecretKey u)
      \<lparr>nn_Namespace = mdb_Namespace mdb, nn_Name = su_PasswordSecretName u\<rparr> w = (Ok pw, w)"
    by (simp add: pw_name_def NamespacedName_def scram_deps_of_def)
  with Cons show ?case
    by (simp add: on_result_def on_cluster_def watch_secret_def Let_def)
qed

text \<open>A stored stateful set with its number of replicas, whose status is up to date.\<close>

definition stored_set :: "mock_cluster \<Rightarrow> nsname \<Rightarrow> int32 \<Rightarrow> statefulset \<Rightarrow> bool" where
  "stored_set w n k s = (w StatefulSetKind n = Some (StatefulSetObj s) \<and> object_key (sts_Meta s) = n
     \<and> sts_Replicas (sts_Spec s) = Some k \<and> om_Generation (sts_Meta s) = stss_ObservedGeneration (sts_Status s))"

lemma deployStatefulSet_mock:
  assumes r: "r_client r = mockedClient" and w: "w StatefulSetKind (NamespacedName mdb) = None"
    and s: "buildStatefulSet r mdb = Ok s" "object_key (sts_Meta s) = NamespacedName mdb"
      "sts_Replicas (sts_Spec s) = Some (to_int32 (StatefulSetReplicasThisReconciliation mdb))"
      "om_Generation (sts_Meta s) = stss_ObservedGeneration (sts_Status s)"
  shows "\<exists>s'. deployStatefulSet r mdb w = (Ok True, mock_put (StatefulSetObj s') w)
    \<and> stored_set (mock_put (StatefulSetObj s') w) (NamespacedName mdb) (to_int32 (StatefulSetReplicasThisReconciliation mdb)) s' \<and> sts_Spec s' = sts_Spec s"
proof -
  let ?n = "to_int32 (StatefulSetReplicasThisReconciliation mdb)"
  let ?s = "s\<lparr>sts_Status := (sts_Status s)\<lparr>stss_UpdatedReplicas := ?n, stss_ReadyReplicas := ?n\<rparr>\<rparr>"
  have prep: "mock_prepare (StatefulSetObj s) = Ok (StatefulSetObj ?s)"
    using s(3) by (simp add: makeStatefulSetReady_def)
  have key: "ObjectKeyFromObject (StatefulSetObj x) = NamespacedName mdb" if "sts_Meta x = sts_Meta s" for x
    using s(2) that by (simp add: ObjectKeyFromObject_def)
  have "createOrUpdateStatefulSet r mdb w = (Ok (), mock_put (StatefulSetObj ?s) w)"
    using s(1) w key [of s] s(2) prep
    by (simp add: createOrUpdateStatefulSet_def sts_CreateOrUpdate_def statefulsets_of_def typed_ops r mockedClient_def mock_Get_def
        mock_Create_def on_result_def notFoundError_def buildStatefulSet_def ignore_result_def)
  moreover have put: "mock_put (StatefulSetObj ?s) w StatefulSetKind (NamespacedName mdb) = Some (StatefulSetObj ?s)"
    using key [of ?s] by (simp add: mock_put_def)
  moreover have "sts_IsReady ?s (StatefulSetReplicasThisReconciliation mdb)"
    using s(4) by (simp add: sts_IsReady_def)
  ultimately have "deployStatefulSet r mdb w = (Ok True, mock_put (StatefulSetObj ?s) w)"
    by (simp add: deployStatefulSet_def on_result_def statefulsets_of_def typed_ops r mockedClient_def mock_Get_def)
  moreover have "stored_set (mock_put (StatefulSetObj ?s) w) (NamespacedName mdb) ?n ?s" using put s by (simp add: stored_set_def)
  ultimately show ?thesis by (intro exI [of _ ?s]) simp
qed

lemma mock_secret_frame:
  assumes "r_client r = mockedClient" and "\<And>k. keeps (\<lambda>w. w) (r_rand r k)"
  shows "secret_frame r (\<lambda>w :: mock_cluster. w(SecretKind := Map.empty))"
proof
  fix k
  from assms(2) [of k] show "keeps (\<lambda>w :: mock_cluster. w(SecretKind := Map.empty)) (r_rand r k)" by (simp add: keeps_def)
next
  have "(mock_put obj w)(SecretKind := Map.empty) = w(SecretKind := Map.empty)" if "obj_kind obj = SecretKind" for obj w
    using that by (auto simp: mock_put_def)
  then show "keeps (\<lambda>w :: mock_cluster. w(SecretKind := Map.empty)) (kCreate (r_client r) (SecretObj s))"
    "keeps (\<lambda>w :: mock_cluster. w(SecretKind := Map.empty)) (kUpdate (r_client r) (SecretObj s))" for s
    by (simp_all add: assms(1) mock_writes_keep)
qed (simp add: assms(1) mock_get_keeps)

lemma secrets_only:
  assumes "r_client r = mockedClient" and "\<And>k. keeps (\<lambda>w. w) (r_rand r k)" and "ensureAutomationConfig r mdb w = (out, w')"
    and "k \<noteq> SecretKind"
  shows "w' k = w k"
  using keepsD [OF secret_frame.ensureAutomationConfig_keeps [OF mock_secret_frame [OF assms(1,2)]] assms(3)] assms(4)
  by (metis fun_upd_other)

text \<open>The deployment of a resource that has none yet.\<close>

lemma deploy_fresh:
  assumes r: "r_client r = mockedClient" "\<And>k. keeps (\<lambda>w. w) (r_rand r k)" and it: "valid_order (r_it r)"
    and w: "w StatefulSetKind (NamespacedName mdb) = None" and ac: "ensureAutomationConfig r mdb w = (Ok ac, w1)"
    and mdb: "\<not> stls_Enabled (mdb_TLS mdb)" "\<not> IsChangingVersion mdb" "stat_CurrentStatefulSetReplicas (mdb_Status mdb) = 0"
      "sts_Replicas (custom_spec mdb) = None"
  shows "\<exists>s. deployMongoDBReplicaSet r mdb w = (Ok True, mock_put (StatefulSetObj s) w1)
    \<and> stored_set (mock_put (StatefulSetObj s) w1) (NamespacedName mdb) (to_int32 (StatefulSetReplicasThisReconciliation mdb)) s
    \<and> (\<exists>s0. buildStatefulSet r mdb = Ok s0 \<and> sts_Spec s = sts_Spec s0)"
proof -
  have w1: "w1 StatefulSetKind (NamespacedName mdb) = None" using secrets_only [OF r ac] w by simp
  have get: "GetStatefulSet (statefulsets_of (r_client r)) (NamespacedName mdb) w = (Fail notFoundError, w)"
    using w by (simp add: statefulsets_of_def typed_ops r mockedClient_def mock_Get_def on_result_def)
  have "\<not> IsScalingUp (statefulset_scaler mdb)" using mdb(3) by (simp add: IsScalingUp_def statefulset_scaler_def)
  with get mdb(2) have order: "shouldRunInOrder r mdb w = (Ok True, w)"
    by (simp add: shouldRunInOrder_def on_result_def)
  have "isPreReadinessInitContainerStatefulSet empty_statefulset"
    by (simp add: isPreReadinessInitContainerStatefulSet_def empty_statefulset_def empty_statefulset_spec_def
        empty_pod_template_spec_def empty_pod_spec_def)
  with get ac have auto: "deployAutomationConfig r mdb w = (Ok True, w1)"
    by (simp add: deployAutomationConfig_def on_result_def notFoundError_def)
  let ?c = "construct_result (r_env r) (r_it r) (r_quantity r) (owner_of mdb) (statefulset_scaler mdb) empty_statefulset"
  from build_statefulset_parts [OF it, of mdb] obtain t where
    b: "buildStatefulSet r mdb = Ok (?c\<lparr>sts_Meta := (sts_Meta ?c)\<lparr>om_OwnerReferences := GetOwnerReferences mdb\<rparr>,
        sts_Spec := StatefulSetSpecs (r_it r) ((sts_Spec ?c)\<lparr>sts_Template := t\<rparr>) (custom_spec mdb)\<rparr>)" by blast
  have "\<exists>s. deployStatefulSet r mdb w1 = (Ok True, mock_put (StatefulSetObj s) w1)
      \<and> stored_set (mock_put (StatefulSetObj s) w1) (NamespacedName mdb) (to_int32 (StatefulSetReplicasThisReconciliation mdb)) s
      \<and> sts_Spec s = sts_Spec (?c\<lparr>sts_Meta := (sts_Meta ?c)\<lparr>om_OwnerReferences := GetOwnerReferences mdb\<rparr>,
        sts_Spec := StatefulSetSpecs (r_it r) ((sts_Spec ?c)\<lparr>sts_Template := t\<rparr>) (custom_spec mdb)\<rparr>)"
    by (rule deployStatefulSet_mock [where w = w1, OF r(1) w1 b])
      (simp_all add: construct_result_def Let_def owner_of_def object_key_def NamespacedName_def StatefulSetSpecs_def over_def mdb(4)
        StatefulSetReplicasThisReconciliation_def empty_statefulset_def empty_meta_def)
  then obtain s where "deployStatefulSet r mdb w1 = (Ok True, mock_put (StatefulSetObj s) w1)"
    "stored_set (mock_put (StatefulSetObj s) w1) (NamespacedName mdb) (to_int32 (StatefulSetReplicasThisReconciliation mdb)) s"
    "\<exists>s0. buildStatefulSet r mdb = Ok s0 \<and> sts_Spec s = sts_Spec s0" using b by blast
  with order auto show ?thesis
    by (intro exI [of _ s]) (simp add: deployMongoDBReplicaSet_def on_result_def RunSequentially_def)
qed

lemma annotation_keys_ok: "annotation_key_ok lastSuccessfulConfiguration" "annotation_key_ok lastAppliedMongoDBVersion"
  by (simp_all add: annotation_key_ok_def lastSuccessfulConfiguration_def lastAppliedMongoDBVersion_def has_prefix_def)

lemma finish_fresh:
  assumes r: "r_client r = mockedClient" "\<And>k. keeps (\<lambda>w. w) (r_rand r k)" and it: "valid_order (r_it r)"
    and json: "\<And>spec p. r_spec_json r spec \<noteq> Panic p"
    and w: "well_kinded w" and mdb: "\<not> IsStillScaling (statefulset_scaler mdb)" "0 \<le> spec_Members (mdb_Spec mdb)"
  shows "\<exists>st'. finish_reconcile r mdb (w, rw) = (Ok result_OK, st')"
proof -
  obtain uri where uri: "MongoURI mdb = Ok uri" using mdb(2) by (simp add: MongoURI_def Hosts_def)
  let ?m = "apply_options (running_options mdb uri) mdb"
  let ?w1 = "mock_put (MongoDBObj ?m) w"
  obtain res where res: "determineReconciliationResult (running_options mdb uri) = Ok res" using determine_no_error by blast
  then have "res = result_OK" using determine_done_iff [OF res] running_options_done by blast
  with res have upd: "status_Update (r_client r) mdb (running_options mdb uri) w = (Ok (result_OK, ?m), ?w1)"
    by (simp add: status_Update_def r mockedClient_def mock_Update_def on_result_def)
  have wk: "well_kinded ?w1" using w by simp
  have q: "quiet well_kinded (updateConnectionStringSecrets r ?m)"
    unfolding updateConnectionStringSecrets_def by (rule quiet_connection_strings) (simp_all add: mdb r)
  define w2 where "w2 = snd (updateConnectionStringSecrets r ?m ?w1)"
  have log1: "log_error (updateConnectionStringSecrets r ?m) ?w1 = (Ok (), w2)"
    using log_error_quiet [where I = well_kinded and w = ?w1, OF q wk] by (simp add: w2_def)
  have "w2 MongoDBKind = ?w1 MongoDBKind"
    using secret_frame.updateConnectionStringSecrets_keeps [OF mock_secret_frame [OF r], of ?m]
    unfolding keeps_def w2_def by (metis fun_upd_other k8s_kind.distinct(9))
  then have cur: "w2 MongoDBKind (NamespacedName ?m) = Some (MongoDBObj ?m)" "object_key (mdb_Meta ?m) = NamespacedName ?m"
    using mock_put_resource [of ?m w] by (simp_all add: stored_resource_def object_key_def NamespacedName_def)
  have "\<exists>x w3. SetAnnotations (r_it r) mockedClient ?m [(lastSuccessfulConfiguration, js),
      (lastAppliedMongoDBVersion, spec_Version (mdb_Spec ?m))] w2 = (Ok x, w3)" (is "\<exists>x w3. ?set js = _") for js
    using SetAnnotations_stored [where w = w2, OF it cur, of "[(lastSuccessfulConfiguration, js),
      (lastAppliedMongoDBVersion, spec_Version (mdb_Spec ?m))]"] annotation_keys_ok
    by (auto simp: wf_map_def lastSuccessfulConfiguration_def lastAppliedMongoDBVersion_def)
  note set = this
  have "\<exists>w3. log_error (updateLastSuccessfulConfiguration r ?m) w2 = (Ok (), w3)"
  proof (cases "r_spec_json r (mdb_Spec ?m)")
    case (Ok js)
    from set [of js] obtain x w3 where "?set js = (Ok x, w3)" by blast
    with Ok show ?thesis
      by (simp add: log_error_def updateLastSuccessfulConfiguration_def ignore_result_def on_result_def r)
  next
    case (Fail e)
    then show ?thesis by (simp add: log_error_def updateLastSuccessfulConfiguration_def on_result_def)
  qed (use json in blast)
  then obtain w3 where "log_error (updateLastSuccessfulConfiguration r ?m) w2 = (Ok (), w3)" by blast
  with mdb(1) uri upd log1 show ?thesis
    by (simp add: finish_reconcile_def on_result_def on_cluster_def)
qed

section \<open>A new deployment runs after one reconciliation\<close>

text \<open>A controller that works on the in-memory cluster, with a source of randomness outside of it.\<close>

definition mock_operator :: "mock_cluster reconciler \<Rightarrow> bool" where
  "mock_operator r = (r_client r = mockedClient \<and> (\<forall>k. keeps (\<lambda>w. w) (r_rand r k)) \<and> deployment_world r mock_secret_data well_kinded
     \<and> valid_order (r_it r) \<and> prep_total (r_prep r) \<and> (\<forall>spec p. r_spec_json r spec \<noteq> Panic p))"

text \<open>
  A new resource: its specification is valid, has a mode, and uses neither TLS nor horizons, its
  users have their password secrets, and nothing of the deployment exists yet.
\<close>

definition new_resource :: "mock_cluster \<Rightarrow> nsname \<Rightarrow> mongodb_community \<Rightarrow> bool" where
  "new_resource w n mdb = (well_kinded w \<and> stored_resource w n mdb
     \<and> w StatefulSetKind n = None \<and> mock_secret_data w (config_name mdb) = None
     \<and> (\<forall>u \<in> set (GetScramUsers mdb). fresh_user (mock_secret_data w) n u)
     \<and> valid_spec mdb \<and> auth_modes mdb \<noteq> [] \<and> om_Annotations (mdb_Meta mdb) = None
     \<and> \<not> stls_Enabled (mdb_TLS mdb) \<and> spec_ReplicaSetHorizons (mdb_Spec mdb) = None
     \<and> sts_Replicas (custom_spec mdb) = None \<and> secrets_apart mdb
     \<and> stat_CurrentStatefulSetReplicas (mdb_Status mdb) = 0 \<and> stat_CurrentMongoDBMembers (mdb_Status mdb) = 0)"

lemma new_resource_members:
  assumes "new_resource w n mdb"
  shows "StatefulSetReplicasThisReconciliation mdb = spec_Members (mdb_Spec mdb)"
    and "AutomationConfigMembersThisReconciliation mdb = spec_Members (mdb_Spec mdb)"
    and "0 \<le> spec_Members (mdb_Spec mdb)" and "\<not> IsStillScaling (statefulset_scaler mdb)"
  using assms by (simp_all add: new_resource_def StatefulSetReplicasThisReconciliation_def AutomationConfigMembersThisReconciliation_def
      statefulset_scaler_def automationConfigReplicasScaler_def ReplicasThisReconciliation_def IsStillScaling_def valid_spec_def)

lemma new_resource_static:
  assumes "new_resource w n mdb"
  shows "NamespacedName mdb = n" and "controller_validateSpec r mdb = Ok ()" and "\<not> IsChangingVersion mdb"
    and "\<exists>opts. GetScramOptions mdb = Ok opts \<and> validateScramOptions multierror opts = None"
  using assms valid_spec_options [of mdb multierror] validateSpec_None_iff [of mdb]
  by (auto simp: new_resource_def stored_resource_def controller_validateSpec_def ValidateInitalSpec_def error_outcome_def
      IsChangingVersion_def getLastVersion_def GetAnnotation_def)

lemma new_resource_deployed:
  assumes "mock_operator r" and "new_resource w n mdb"
  shows "\<exists>w1 ac w2 s rw'. well_kinded w1 \<and> (\<forall>k. k \<noteq> ServiceKind \<longrightarrow> w1 k = w k) \<and> ensureAutomationConfig r mdb w1 = (Ok ac, w2) \<and> well_kinded w2
    \<and> stored_set (mock_put (StatefulSetObj s) w2) n (to_int32 (spec_Members (mdb_Spec mdb))) s
    \<and> (\<exists>s0. buildStatefulSet r mdb = Ok s0 \<and> sts_Spec s = sts_Spec s0)
    \<and> controller_Reconcile r n (w, rw) = finish_reconcile r mdb (mock_put (StatefulSetObj s) w2, rw')"
proof -
  have r: "r_client r = mockedClient" "\<And>k. keeps (\<lambda>w. w) (r_rand r k)" "deployment_world r mock_secret_data well_kinded"
      "valid_order (r_it r)" "prep_total (r_prep r)" "\<And>spec p. r_spec_json r spec \<noteq> Panic p" using assms(1) by (simp_all add: mock_operator_def)
  have w: "well_kinded w" "stored_resource w n mdb" "w StatefulSetKind n = None" "mock_secret_data w (config_name mdb) = None"
    "\<forall>u \<in> set (GetScramUsers mdb). fresh_user (mock_secret_data w) n u" and tls: "\<not> stls_Enabled (mdb_TLS mdb)"
    and apart: "secrets_apart mdb" and mdb: "spec_ReplicaSetHorizons (mdb_Spec mdb) = None" "sts_Replicas (custom_spec mdb) = None"
      "stat_CurrentStatefulSetReplicas (mdb_Status mdb) = 0"
    using assms(2) unfolding new_resource_def by blast+
  note members = new_resource_members [OF assms(2)] and static = new_resource_static [OF assms(2)]
  obtain w1 where w1: "ensureService r mdb w = (Ok (), w1)" "well_kinded w1" "\<forall>k. k \<noteq> ServiceKind \<longrightarrow> w1 k = w k"
    using ensureService_mock [OF r(1) w(1)] by blast
  have data: "mock_secret_data w1 = mock_secret_data w" using w1(3) by (intro secret_data_cong) simp
  obtain rw' where users: "ensureUserResources r mdb (w1, rw) = (Ok (), w1, rw')"
    using ensure_users_mock [OF r(3) w1(2), of "GetScramUsers mdb" mdb rw] w(5) fresh_has_password
    by (auto simp: ensureUserResources_def data static(1))
  obtain opts where "GetScramOptions mdb = Ok opts" "validateScramOptions (sd_multierror (scram_deps_of r)) opts = None"
    using static(4) by blast
  then obtain ac w2 where ac: "ensureAutomationConfig r mdb w1 = (Ok ac, w2)" and wk2: "well_kinded w2"
    using deployment_world.ensureAutomationConfig_fresh [where inv = well_kinded and data = mock_secret_data and w = w1, OF r(3) w1(2) _ apart]
      r(5) w(4,5) tls mdb(1) members by (auto simp: data static(1) scram_deps_of_def)
  obtain s where deploy: "deployMongoDBReplicaSet r mdb w1 = (Ok True, mock_put (StatefulSetObj s) w2)"
    "stored_set (mock_put (StatefulSetObj s) w2) n (to_int32 (spec_Members (mdb_Spec mdb))) s"
    "\<exists>s0. buildStatefulSet r mdb = Ok s0 \<and> sts_Spec s = sts_Spec s0"
    using deploy_fresh [where w = w1, OF r(1,2,4) _ ac tls static(3) mdb(3,2)] w(3) w1(3) members(1) by (auto simp: static(1))
  have "reconcile_resource r mdb (w, rw) = finish_reconcile r mdb (mock_put (StatefulSetObj s) w2, rw')"
    using static(2) [of r] static(3) w1(1) users deploy(1) tls
    by (simp add: reconcile_resource_def on_result_def on_cluster_def validateTLSConfig_def ensureTLSResources_def ResetUpdateStrategy_def)
  then have "controller_Reconcile r n (w, rw) = finish_reconcile r mdb (mock_put (StatefulSetObj s) w2, rw')"
    using w(2) by (simp add: controller_Reconcile_def on_result_def on_cluster_def r mockedClient_def mock_Get_def stored_resource_def)
  with w1(2,3) ac wk2 deploy(2,3) show ?thesis by blast
qed

lemma new_resource_reconciled:
  assumes "mock_operator r" and "new_resource w n mdb"
  shows "\<exists>st st'. finish_reconcile r mdb st = (Ok result_OK, st') \<and> controller_Reconcile r n (w, rw) = (Ok result_OK, st')"
proof -
  have r: "r_client r = mockedClient" "\<And>k. keeps (\<lambda>w. w) (r_rand r k)" "valid_order (r_it r)" "\<And>spec p. r_spec_json r spec \<noteq> Panic p"
    using assms(1) by (simp_all add: mock_operator_def)
  obtain w2 s rw' where wk: "well_kinded w2"
    and run: "controller_Reconcile r n (w, rw) = finish_reconcile r mdb (mock_put (StatefulSetObj s) w2, rw')"
    using new_resource_deployed [OF assms, of rw] by blast
  have "well_kinded (mock_put (StatefulSetObj s) w2)" using wk by simp
  from finish_fresh [OF r this new_resource_members(4,3) [OF assms(2)]] run show ?thesis by metis
qed

text \<open>
  C1. A new resource with a valid specification, without TLS and horizons, whose users have their
  password secrets, and for which nothing else exists yet, is running after one reconciliation on
  the in-memory cluster, whose stateful sets become ready at once: the run is not repeated, and
  the stored status has the running phase and all members.
\<close>

theorem new_resource_runs:
  assumes "mock_operator r" and "new_resource w n mdb"
  shows "\<exists>st' mdb'. controller_Reconcile r n (w, rw) = (Ok result_OK, st') \<and> stored_resource (fst st') n mdb'
    \<and> mdb_Spec mdb' = mdb_Spec mdb \<and> stat_Phase (mdb_Status mdb') = ''Running''
    \<and> stat_CurrentStatefulSetReplicas (mdb_Status mdb') = spec_Members (mdb_Spec mdb)
    \<and> stat_CurrentMongoDBMembers (mdb_Status mdb') = spec_Members (mdb_Spec mdb)"
proof -
  obtain st st' where fin: "finish_reconcile r mdb st = (Ok result_OK, st')"
    and run: "controller_Reconcile r n (w, rw) = (Ok result_OK, st')"
    using new_resource_reconciled [OF assms] by blast
  have r: "r_client r = mockedClient" and "\<And>k. keeps (\<lambda>w. w MongoDBKind) (r_rand r k)"
    using assms(1) by (simp_all add: mock_operator_def keeps_def)
  from finish_reconcile_mock [OF mock_frame_client [OF this] r fin] run show ?thesis
    by (auto simp: new_resource_static(1) [OF assms(2)] new_resource_members [OF assms(2)])
qed

text \<open>The example resource is new in the example cluster.\<close>

definition example_state :: mock_cluster where
  "example_state = mock_put (MongoDBObj (example_mdb 3 ''4.4.0'' False)) example_cluster"

lemma example_operator: "mock_operator (mock_reconciler example_libs (\<lambda>_. None))"
  by (simp add: mock_operator_def mock_deployment.deployment_world_axioms) (simp add: mock_reconciler_def const_rand_def keeps_def)

lemma example_new: "new_resource example_state \<lparr>nn_Namespace = ''ns'', nn_Name = ''db''\<rparr> (example_mdb 3 ''4.4.0'' False)"
proof -
  have n: "NamespacedName (example_mdb 3 ''4.4.0'' False) = \<lparr>nn_Namespace = ''ns'', nn_Name = ''db''\<rparr>"
    by (simp add: example_mdb_def NamespacedName_def)
  have data: "mock_secret_data example_state = mock_secret_data example_cluster"
    by (rule secret_data_cong) (simp add: example_state_def)
  have "stored_resource example_state \<lparr>nn_Namespace = ''ns'', nn_Name = ''db''\<rparr> (example_mdb 3 ''4.4.0'' False)"
    using mock_put_resource [of "example_mdb 3 ''4.4.0'' False" example_cluster] by (simp add: example_state_def n)
  moreover have "example_state StatefulSetKind = Map.empty"
    by (simp add: example_state_def example_cluster_def mock_empty_def)
  moreover have "well_kinded example_state"
    unfolding example_state_def by (intro well_kinded_put example_cluster_data(1))
  moreover have "valid_spec (example_mdb 3 ''4.4.0'' False)"
    by (simp add: valid_spec_def example_mdb_def GetScramUsers_def known_modes_def)
  ultimately show ?thesis
    using example_fresh example_secrets_apart [of 3 "''4.4.0''"]
    by (simp add: new_resource_def data example_cluster_data(2) example_config_name)
      (simp add: example_mdb_def empty_meta_def empty_statefulset_spec_def)
qed

theorem new_resource_runs_witness:
  "\<exists>st' mdb'. controller_Reconcile (mock_reconciler example_libs (\<lambda>_. None)) \<lparr>nn_Namespace = ''ns'', nn_Name = ''db''\<rparr>
      (example_state, watch_New) = (Ok result_OK, st')
    \<and> stored_resource (fst st') \<lparr>nn_Namespace = ''ns'', nn_Name = ''db''\<rparr> mdb' \<and> stat_Phase (mdb_Status mdb') = ''Running''
    \<and> stat_CurrentStatefulSetReplicas (mdb_Status mdb') = 3"
proof -
  have "spec_Members (mdb_Spec (example_mdb 3 ''4.4.0'' False)) = 3" by (simp add: example_mdb_def)
  with new_resource_runs [OF example_operator example_new, of watch_New] show ?thesis by auto
qed

theorem running_only_when_ready_witness:
  "\<exists>inOrder w1 w2 w3. shouldRunInOrder (mock_reconciler example_libs (\<lambda>_. None)) (example_mdb 3 ''4.4.0'' False) w1 = (Ok inOrder, w2)
    \<and> all_succeed (if inOrder
        then [deployAutomationConfig (mock_reconciler example_libs (\<lambda>_. None)) (example_mdb 3 ''4.4.0'' False),
              deployStatefulSet (mock_reconciler example_libs (\<lambda>_. None)) (example_mdb 3 ''4.4.0'' False)]
        else [deployStatefulSet (mock_reconciler example_libs (\<lambda>_. None)) (example_mdb 3 ''4.4.0'' False),
              deployAutomationConfig (mock_reconciler example_libs (\<lambda>_. None)) (example_mdb 3 ''4.4.0'' False)]) w2 w3"
proof -
  obtain st' where run: "controller_Reconcile (mock_reconciler example_libs (\<lambda>_. None)) \<lparr>nn_Namespace = ''ns'', nn_Name = ''db''\<rparr>
      (example_state, watch_New) = (Ok result_OK, st')"
    using new_resource_reconciled [OF example_operator example_new, of watch_New] by blast
  have get: "kGet mockedClient MongoDBKind \<lparr>nn_Namespace = ''ns'', nn_Name = ''db''\<rparr> example_state
      = (Ok (MongoDBObj (example_mdb 3 ''4.4.0'' False)), example_state)"
    using example_new by (simp add: new_resource_def stored_resource_def mockedClient_def mock_Get_def)
  let ?r = "mock_reconciler example_libs (\<lambda>_. None)"
  from running_only_when_ready [OF run] consider e where "fst (kGet (r_client ?r) MongoDBKind \<lparr>nn_Namespace = ''ns'', nn_Name = ''db''\<rparr> example_state) = Fail e"
    | mdb w0 inOrder w1 w2 w3 where "kGet (r_client ?r) MongoDBKind \<lparr>nn_Namespace = ''ns'', nn_Name = ''db''\<rparr> example_state = (Ok (MongoDBObj mdb), w0)"
      "shouldRunInOrder ?r mdb w1 = (Ok inOrder, w2)"
      "all_succeed (if inOrder then [deployAutomationConfig ?r mdb, deployStatefulSet ?r mdb]
         else [deployStatefulSet ?r mdb, deployAutomationConfig ?r mdb]) w2 w3"
    unfolding fst_conv by blast
  then show ?thesis
  proof cases
    case 2
    moreover from 2(1) get have "mdb = example_mdb 3 ''4.4.0'' False" by simp
    ultimately show ?thesis by blast
  qed (use get in simp)
qed

theorem Reconcile_refines_scaling_witness:
  "\<exists>st' mdb'. stored_resource (fst st') \<lparr>nn_Namespace = ''ns'', nn_Name = ''db''\<rparr> mdb'
    \<and> scale_run 3 0 True (stat_CurrentStatefulSetReplicas (mdb_Status mdb')) \<and> stat_Phase (mdb_Status mdb') = ''Running''"
proof -
  obtain st' where run: "controller_Reconcile (mock_reconciler example_libs (\<lambda>_. None)) \<lparr>nn_Namespace = ''ns'', nn_Name = ''db''\<rparr>
      (example_state, watch_New) = (Ok result_OK, st')"
    using new_resource_reconciled [OF example_operator example_new, of watch_New] by blast
  have m: "stat_CurrentStatefulSetReplicas (mdb_Status (example_mdb 3 ''4.4.0'' False)) = 0"
    "stat_CurrentMongoDBMembers (mdb_Status (example_mdb 3 ''4.4.0'' False)) = 0"
    "spec_Members (mdb_Spec (example_mdb 3 ''4.4.0'' False)) = 3" by (simp_all add: example_mdb_def)
  have "stored_resource (fst (example_state, watch_New)) \<lparr>nn_Namespace = ''ns'', nn_Name = ''db''\<rparr> (example_mdb 3 ''4.4.0'' False)"
    using example_new by (simp add: new_resource_def)
  from Reconcile_refines_scaling [OF _ _ this _ run] show ?thesis
    using mock_frame.rand [where L = example_libs and env = "\<lambda>_. None"] by (auto simp: m)
qed

end
