(* ===== verification/Finish.thy ===== *)
theory Finish
  imports Fresh
begin

text \<open>
  The last part of a run on the in-memory cluster, when the deployment is ready and has its full size:
  what is stored, and what is left alone.
\<close>

section \<open>Connection strings\<close>

definition conn_name :: "mongodb_community \<Rightarrow> scram_user \<Rightarrow> nsname" where
  "conn_name mdb u = \<lparr>nn_Namespace = mdb_Namespace mdb, nn_Name = GetConnectionStringSecretName u mdb\<rparr>"

context deployment_world
begin

lemma ReadKey_state: "inv w \<Longrightarrow> snd (secret_ReadKey (secrets_of (r_client r)) k n w) = w"
proof (cases "data w n")
  case None
  assume "inv w"
  from get_missing [OF this None] show ?thesis by (auto simp: secret_ReadKey_def secret_ReadStringData_def on_result_def)
next
  case (Some d)
  assume "inv w"
  from get_found [OF this Some] show ?thesis by (auto simp: secret_ReadKey_def secret_ReadStringData_def on_result_def split: option.split)
qed

lemma connection_strings_frame:
  assumes "inv w" and "connection_strings r mdb users w = (out, w')"
  shows "inv w' \<and> (\<forall>k. k \<notin> conn_name mdb ` set users \<longrightarrow> data w' k = data w k)"
  using assms
proof (induction users arbitrary: w)
  case Nil
  then show ?case by simp
next
  case (Cons u users)
  let ?read = "secret_ReadKey (secrets_of (r_client r)) (su_PasswordSecretKey u)
    \<lparr>nn_Namespace = mdb_Namespace mdb, nn_Name = su_PasswordSecretName u\<rparr>"
  obtain res where read: "?read w = (res, w)" using ReadKey_state [OF Cons.prems(1)] by (metis prod.collapse)
  show ?case
  proof (cases "\<exists>pwd s. res = Ok pwd \<and> connection_string_secret mdb u pwd = Ok s")
    case False
    then have "w' = w" using Cons.prems(2) read
      by (cases res; cases "connection_string_secret mdb u (case res of Ok p \<Rightarrow> p)") (auto simp: on_result_def)
    then show ?thesis using Cons.prems(1) by simp
  next
    case True
    then obtain pwd s where s: "res = Ok pwd" "connection_string_secret mdb u pwd = Ok s" by blast
    then have key: "object_key (s_Meta s) = conn_name mdb u"
      by (auto simp: connection_string_secret_def bind_out_Ok_conv secret_builder_defs object_key_def conn_name_def empty_meta_def)
    obtain w1 where w1: "secret_CreateOrUpdate (secrets_of (r_client r)) s w = (Ok (), w1)" "inv w1"
      "data w1 = (data w)(conn_name mdb u \<mapsto> s_Data s)" using CreateOrUpdate_stores [OF Cons.prems(1), of s] by (auto simp: key)
    have "connection_strings r mdb users w1 = (out, w')"
      using Cons.prems(2) read s w1(1) by (simp add: on_result_def)
    from Cons.IH [OF w1(2) this] w1(3) show ?thesis by auto
  qed
qed

end

lemma conn_name_cong: "mdb_Meta mdb' = mdb_Meta mdb \<Longrightarrow> conn_name mdb' = conn_name mdb"
  by (simp add: conn_name_def GetConnectionStringSecretName_def NamespacedName_def fun_eq_iff)

section \<open>The end of a run\<close>

text \<open>
  A run that ends stores the running phase, all members and the two annotations, and touches nothing
  but the resource and the connection string secrets.
\<close>

definition ended :: "mongodb_community \<Rightarrow> string \<Rightarrow> mock_cluster \<Rightarrow> mock_cluster \<Rightarrow> mongodb_community \<Rightarrow> bool" where
  "ended mdb js w w' m = (well_kinded w' \<and> stored_resource w' (NamespacedName mdb) m \<and> mdb_Spec m = mdb_Spec mdb
     \<and> stat_Phase (mdb_Status m) = ''Running''
     \<and> stat_CurrentStatefulSetReplicas (mdb_Status m) = StatefulSetReplicasThisReconciliation mdb
     \<and> stat_CurrentMongoDBMembers (mdb_Status m) = AutomationConfigMembersThisReconciliation mdb
     \<and> mdb_Meta m = (mdb_Meta mdb)\<lparr>om_Annotations := om_Annotations (mdb_Meta m)\<rparr>
     \<and> map_of (entries (om_Annotations (mdb_Meta m))) = (map_of (entries (om_Annotations (mdb_Meta mdb))))
         (lastSuccessfulConfiguration \<mapsto> js, lastAppliedMongoDBVersion \<mapsto> spec_Version (mdb_Spec mdb))
     \<and> (\<forall>kind. kind \<noteq> MongoDBKind \<longrightarrow> kind \<noteq> SecretKind \<longrightarrow> w' kind = w kind)
     \<and> (\<forall>k. k \<notin> conn_name mdb ` set (GetScramUsers mdb) \<longrightarrow> mock_secret_data w' k = mock_secret_data w k))"

lemma connection_strings_end:
  assumes r: "mock_operator r" and w: "well_kinded w" and cs: "connection_strings r mdb (GetScramUsers mdb) w = (out, w')"
  shows "well_kinded w'" and "k \<notin> conn_name mdb ` set (GetScramUsers mdb) \<Longrightarrow> mock_secret_data w' k = mock_secret_data w k"
    and "kind \<noteq> SecretKind \<Longrightarrow> w' kind = w kind"
proof -
  have R: "r_client r = mockedClient" "\<And>k. keeps (\<lambda>w. w) (r_rand r k)" "deployment_world r mock_secret_data well_kinded"
    using r by (simp_all add: mock_operator_def)
  show "well_kinded w'" "k \<notin> conn_name mdb ` set (GetScramUsers mdb) \<Longrightarrow> mock_secret_data w' k = mock_secret_data w k"
    using deployment_world.connection_strings_frame [OF R(3) w cs] by simp_all
  have "keeps (\<lambda>w. w(SecretKind := Map.empty)) (connection_strings r mdb (GetScramUsers mdb))"
    by (rule secret_frame.connection_strings_keeps [OF mock_secret_frame [OF R(1,2)]])
  from keepsD [OF this cs] show "kind \<noteq> SecretKind \<Longrightarrow> w' kind = w kind" by (metis fun_upd_other)
qed

lemma annotations_end:
  assumes r: "r_client r = mockedClient" "valid_order (r_it r)" and js: "r_spec_json r (mdb_Spec m1) = Ok js"
    and cur: "w MongoDBKind (NamespacedName m1) = Some (MongoDBObj m1)"
    and run: "log_error (updateLastSuccessfulConfiguration r m1) w = (out, w')"
  shows "\<exists>m xs. m = m1\<lparr>mdb_Meta := (mdb_Meta m1)\<lparr>om_Annotations := Some xs\<rparr>\<rparr> \<and> w' = mock_put (MongoDBObj m) w
    \<and> map_of xs = (map_of (entries (om_Annotations (mdb_Meta m1))))
         (lastSuccessfulConfiguration \<mapsto> js, lastAppliedMongoDBVersion \<mapsto> spec_Version (mdb_Spec m1))"
proof -
  let ?an = "[(lastSuccessfulConfiguration, js), (lastAppliedMongoDBVersion, spec_Version (mdb_Spec m1))]"
  have "wf_map ?an" "object_key (mdb_Meta m1) = NamespacedName m1"
    by (simp_all add: wf_map_def lastSuccessfulConfiguration_def lastAppliedMongoDBVersion_def object_key_def NamespacedName_def)
  from SetAnnotations_stored [where w = w, OF r(2) cur this(2,1)] annotation_keys_ok obtain m xs where
    m: "m = m1\<lparr>mdb_Meta := (mdb_Meta m1)\<lparr>om_Annotations := Some xs\<rparr>\<rparr>"
    "map_of xs = map_of (entries (om_Annotations (mdb_Meta m1))) ++ map_of ?an"
    "SetAnnotations (r_it r) mockedClient m1 ?an w = (Ok m, mock_put (MongoDBObj m) w)" by auto
  have "w' = mock_put (MongoDBObj m) w"
    using run log_error_state [of "updateLastSuccessfulConfiguration r m1" w] m(3) js
    by (auto simp: updateLastSuccessfulConfiguration_def ignore_result_def on_result_def r(1))
  moreover have "map_of xs = (map_of (entries (om_Annotations (mdb_Meta m1))))
         (lastSuccessfulConfiguration \<mapsto> js, lastAppliedMongoDBVersion \<mapsto> spec_Version (mdb_Spec m1))"
    by (auto simp: m(2) fun_eq_iff map_add_def lastSuccessfulConfiguration_def lastAppliedMongoDBVersion_def)
  ultimately show ?thesis using m(1) by blast
qed

lemma finish_running:
  assumes r: "mock_operator r" and w: "well_kinded w" and js: "r_spec_json r (mdb_Spec mdb) = Ok js"
    and mdb: "\<not> IsStillScaling (statefulset_scaler mdb)" "0 \<le> spec_Members (mdb_Spec mdb)"
  shows "\<exists>st' m. finish_reconcile r mdb (w, rw) = (Ok result_OK, st') \<and> ended mdb js w (fst st') m"
proof -
  have R: "r_client r = mockedClient" "\<And>k. keeps (\<lambda>w. w) (r_rand r k)" "deployment_world r mock_secret_data well_kinded"
      "valid_order (r_it r)" "\<And>spec p. r_spec_json r spec \<noteq> Panic p" using r by (simp_all add: mock_operator_def)
  obtain st' where fin: "finish_reconcile r mdb (w, rw) = (Ok result_OK, st')"
    using finish_fresh [OF R(1,2,4,5) w mdb] by blast
  then show ?thesis
  proof (cases rule: finish_reconcile_cases)
    case (running uri m1 w1 u2 w2 u3)
    have m1: "m1 = apply_options (running_options mdb uri) mdb" and w1: "w1 = mock_put (MongoDBObj m1) w"
      using status_Update_mock(1) [OF running(4) [unfolded R(1)]] status_Update_OkD(1) [OF running(4) [unfolded R(1)]]
      by (simp_all add: mockedClient_def mock_Update_def)
    have meta: "mdb_Meta m1 = mdb_Meta mdb" "mdb_Spec m1 = mdb_Spec mdb" "NamespacedName m1 = NamespacedName mdb"
      by (simp_all add: m1)
    obtain out where cs: "connection_strings r m1 (GetScramUsers m1) w1 = (out, w2)"
      using running(5) log_error_state [of "updateConnectionStringSecrets r m1" w1]
      by (auto simp: updateConnectionStringSecrets_def prod_eq_iff)
    have users: "GetScramUsers m1 = GetScramUsers mdb" by (simp add: GetScramUsers_def meta)
    have d1: "mock_secret_data w1 = mock_secret_data w" by (rule secret_data_cong) (simp add: w1)
    have "well_kinded w1" using w by (simp add: w1)
    note w2 = connection_strings_end [OF r this cs, unfolded users d1 conn_name_cong [OF meta(1)]]
    have "w2 MongoDBKind (NamespacedName m1) = Some (MongoDBObj m1)"
      using mock_put_resource [of m1 w] w2(3) [of MongoDBKind] by (simp add: w1 stored_resource_def)
    from annotations_end [OF R(1,4) _ this running(6)] js obtain m xs where
      m: "m = m1\<lparr>mdb_Meta := (mdb_Meta m1)\<lparr>om_Annotations := Some xs\<rparr>\<rparr>" and st': "fst st' = mock_put (MongoDBObj m) w2"
      and an: "map_of xs = (map_of (entries (om_Annotations (mdb_Meta m1))))
         (lastSuccessfulConfiguration \<mapsto> js, lastAppliedMongoDBVersion \<mapsto> spec_Version (mdb_Spec m1))" by (auto simp: meta)
    have nm: "NamespacedName m = NamespacedName mdb" by (simp add: m meta NamespacedName_def)
    have data: "mock_secret_data (fst st') = mock_secret_data w2" by (rule secret_data_cong) (simp add: st')
    have "ended mdb js w (fst st') m"
      unfolding ended_def data
    proof (intro conjI)
      show "well_kinded (fst st')" using w2(1) by (simp add: st')
      show "stored_resource (fst st') (NamespacedName mdb) m" using mock_put_resource [of m w2] by (simp add: st' nm)
      show "mdb_Meta m = (mdb_Meta mdb)\<lparr>om_Annotations := om_Annotations (mdb_Meta m)\<rparr>" by (simp add: m meta)
      show "map_of (entries (om_Annotations (mdb_Meta m))) = (map_of (entries (om_Annotations (mdb_Meta mdb))))
         (lastSuccessfulConfiguration \<mapsto> js, lastAppliedMongoDBVersion \<mapsto> spec_Version (mdb_Spec mdb))"
        using an by (simp add: m meta)
      show "\<forall>kind. kind \<noteq> MongoDBKind \<longrightarrow> kind \<noteq> SecretKind \<longrightarrow> fst st' kind = w kind" using w2(3) by (simp add: st' w1)
    qed (use w2 in \<open>simp_all add: m meta, simp_all add: m1 apply_finish_options\<close>)
    with fin show ?thesis by blast
  qed (use mdb(1) in simp)
qed

end
