(* ===== verification/Existing.thy ===== *)
theory Existing
  imports Finish
begin

text \<open>
  One reconciliation of a deployment that exists, on the in-memory cluster and with whatever pods and
  replicas it reports: what decides whether it is ready, and the state that the run leaves.
\<close>

section \<open>The automation configuration of an existing deployment\<close>

text \<open>The automation configuration that a secret holds.\<close>

definition stored_config :: "(nsname \<Rightarrow> string gomap option option) \<Rightarrow> nsname \<Rightarrow> automation_config \<Rightarrow> bool" where
  "stored_config d n ac = (\<exists>m t. d n = Some (Some m) \<and> map_of m ConfigKey = Some t \<and> FromBytes t = Ok ac)"

text \<open>The credentials, the keys and a configuration that can be read are in place.\<close>

definition configured ::
    "'w reconciler \<Rightarrow> ('w \<Rightarrow> nsname \<Rightarrow> string gomap option option) \<Rightarrow> mongodb_community \<Rightarrow> 'w \<Rightarrow> bool" where
  "configured r data mdb w = (\<exists>users pwd key opts a prev.
     scram_world.enabled (scram_deps_of r) data mdb w users pwd key \<and> GetScramOptions mdb = Ok opts
     \<and> configureScramInAutomationConfig (r_multierror r) pwd key users opts empty_auth = Ok a
     \<and> stored_config (data w) (config_name mdb) prev)"

context deployment_world
begin

lemma ensureAutomationConfig_next:
  assumes inv: "inv w" and apart: "secrets_apart mdb" and conf: "configured r data mdb w"
    and fcv: "spec_FeatureCompatibilityVersion (mdb_Spec mdb) \<noteq> ''''" and tls: "\<not> stls_Enabled (mdb_TLS mdb)"
    and pos: "0 \<le> AutomationConfigMembersThisReconciliation mdb" and hz: "spec_ReplicaSetHorizons (mdb_Spec mdb) = None"
    and L: "libs_keep_maps (r_libs r)" and spec: "wf_spec mdb"
  shows "\<exists>ac w'. ensureAutomationConfig r mdb w = (Ok ac, w') \<and> inv w' \<and> configured r data mdb w'
    \<and> (\<forall>k. k \<noteq> config_name mdb \<longrightarrow> data w' k = data w k)
    \<and> (\<exists>ac'. stored_config (data w') (config_name mdb) ac' \<and> ac_Version ac' = ac_Version ac)"
proof -
  let ?n = "config_name mdb"
  obtain users pwd key opts a m t prev where en: "enabled mdb w users pwd key" and opts: "GetScramOptions mdb = Ok opts"
    and a: "configureScramInAutomationConfig (r_multierror r) pwd key users opts empty_auth = Ok a"
    and c: "data w ?n = Some (Some m)" "map_of m ConfigKey = Some t" "FromBytes t = Ok prev"
    using conf by (auto simp: configured_def stored_config_def)
  have "configureScramInAutomationConfig (sd_multierror (scram_deps_of r)) pwd key users opts empty_auth = Ok a"
    using a by (simp add: scram_deps_of_def)
  from Enable_again [OF inv en opts this] obtain w1 where
    w1: "scram_Enable (scram_deps_of r) empty_auth mdb w = (Ok a, w1)" "inv w1" "data w1 = data w" by blast
  obtain rolesM where roles: "getCustomRolesModification mdb = Ok rolesM"
    by (cases "sec_Roles (spec_Security (mdb_Spec mdb))") (simp_all add: getCustomRolesModification_def)
  have read: "ReadFromSecret (secrets_of (r_client r)) ?n w = (Ok prev, w)"
    using Read_stored [OF inv, of ?n t] c by (simp add: stored_text_def)
  obtain des where build: "buildAutomationConfig r mdb a prev [NOOP, rolesM] = Ok des"
    using controller_build [OF pos hz, of prev r "[NOOP, rolesM]"] plain_modifications [OF roles] fcv by blast
  have "wf_ac des"
    by (rule wf_built [OF L spec _ build]) (use keeps_wf_NOOP keeps_wf_roles [OF roles] in auto)
  then have fb: "FromBytes (marshal_ac des) = Ok (canon_ac des)" by (rule FromBytes_marshal)
  have "\<exists>ac w2 m2 t2 prev2. EnsureSecret (secrets_of (r_client r)) ?n (GetOwnerReferences mdb) des w1 = (Ok ac, w2) \<and> inv w2
      \<and> (\<forall>k. k \<noteq> ?n \<longrightarrow> data w2 k = data w k) \<and> data w2 ?n = Some (Some m2) \<and> map_of m2 ConfigKey = Some t2 \<and> FromBytes t2 = Ok prev2
      \<and> ac_Version prev2 = ac_Version ac"
  proof (cases "AreEqual des prev")
    case True
    with Ensure_unchanged [OF w1(2), of ?n m t prev des] c w1(2,3) show ?thesis by simp
  next
    case False
    with Ensure_written [OF w1(2), of ?n m des] c w1(3) fb show ?thesis by fastforce
  qed
  then obtain ac w2 m2 t2 prev2 where e: "EnsureSecret (secrets_of (r_client r)) ?n (GetOwnerReferences mdb) des w1 = (Ok ac, w2)" "inv w2"
    and keep: "\<And>k. k \<noteq> ?n \<Longrightarrow> data w2 k = data w k"
    and c2: "data w2 ?n = Some (Some m2)" "map_of m2 ConfigKey = Some t2" "FromBytes t2 = Ok prev2" "ac_Version prev2 = ac_Version ac" by blast
  have "enabled mdb w2 users pwd key"
    by (rule enabled_frame [OF en]) (use secrets_apartD(2) [OF apart] in \<open>auto intro!: keep\<close>)
  with opts a c2 have "configured r data mdb w2" by (auto simp: configured_def stored_config_def)
  moreover have "ensureAutomationConfig r mdb w = (Ok ac, w2)"
    using tls roles read w1(1) build e(1)
    by (simp add: ensureAutomationConfig_def reconciler_buildAutomationConfig_def on_result_def config_name_def getTLSConfigModification_def)
  moreover have "stored_config (data w2) ?n prev2" using c2 by (auto simp: stored_config_def)
  ultimately show ?thesis using e(2) keep c2(4) by blast
qed

end

section \<open>The stateful set of an existing deployment\<close>

lemma merged_init_container:
  assumes it: "valid_order it" and "c_Name c = ReadinessProbeContainerName" and "c \<in> set xs"
  shows "GetByName ReadinessProbeContainerName (Containers it xs ys) \<noteq> None"
proof -
  have "c_Name ` set (Containers it xs ys) = c_Name ` (set xs \<union> set ys)"
    unfolding Containers_eq by (rule containers.keys_merged [OF _ it]) simp
  with assms(2,3) have "ReadinessProbeContainerName \<in> c_Name ` set (Containers it xs ys)" by (metis UnI1 image_eqI)
  then show ?thesis by (auto simp: GetByName_find find_None_iff)
qed

lemma built_init_container:
  "\<exists>c \<in> set (ps_InitContainers (pts_Spec (sts_Template (sts_Spec (construct_result env it pq own scaler s))))).
     c_Name c = ReadinessProbeContainerName"
proof -
  let ?cs = "construct_init_containers env it (ps_InitContainers (pts_Spec (sts_Template (sts_Spec s))))"
  have "find (\<lambda>c. c_Name c = ReadinessProbeContainerName) ?cs \<noteq> None"
    unfolding construct_init_containers_def by (subst find_edited) (simp_all add: container_edit_names)
  then show ?thesis by (auto simp: construct_result_def Let_def find_None_iff)
qed

lemma modified_set:
  assumes it: "valid_order (r_it r)" and tls: "\<not> stls_Enabled (mdb_TLS mdb)"
    and mdb: "sts_Replicas (custom_spec mdb) = None" "us_Type (sts_UpdateStrategy (custom_spec mdb)) = ''''"
  shows "\<exists>s'. buildStatefulSetModificationFunction r mdb s = Ok s' \<and> object_key (sts_Meta s') = NamespacedName mdb
    \<and> sts_Replicas (sts_Spec s') = Some (to_int32 (StatefulSetReplicasThisReconciliation mdb))
    \<and> sts_Status s' = sts_Status s \<and> om_Generation (sts_Meta s') = om_Generation (sts_Meta s)
    \<and> us_Type (sts_UpdateStrategy (sts_Spec s')) = GetUpdateStrategyType mdb \<and> \<not> isPreReadinessInitContainerStatefulSet s'"
proof -
  let ?c = "construct_result (r_env r) (r_it r) (r_quantity r) (owner_of mdb) (statefulset_scaler mdb) s"
  have "buildStatefulSetModificationFunction r mdb s = Ok (?c\<lparr>sts_Meta := (sts_Meta ?c)\<lparr>om_OwnerReferences := GetOwnerReferences mdb\<rparr>,
        sts_Spec := StatefulSetSpecs (r_it r) (sts_Spec ?c) (custom_spec mdb)\<rparr>)" (is "_ = Ok ?s")
    using tls by (simp add: buildStatefulSetModificationFunction_def sts_Apply_def construct_eq_result buildTLSPodSpecModification_def pod_NOOP_def
        WithOwnerReference_def on_meta_def WithPodSpecTemplate_def pod_Apply_def WithCustomSpecs_def on_spec_def Let_def)
  moreover have "\<not> isPreReadinessInitContainerStatefulSet ?s"
    using built_init_container [of "r_env r" "r_it r" "r_quantity r" "owner_of mdb" "statefulset_scaler mdb" s] merged_init_container [OF it]
    by (auto simp: isPreReadinessInitContainerStatefulSet_def StatefulSetSpecs_def PodTemplateSpecs_def Let_def)
  ultimately show ?thesis using mdb
    by (simp add: construct_result_def Let_def owner_of_def object_key_def NamespacedName_def StatefulSetSpecs_def over_def
        StatefulSetReplicasThisReconciliation_def)
qed

text \<open>What the status of a set says of its replicas.\<close>

definition set_ready :: "statefulset \<Rightarrow> int32 \<Rightarrow> bool" where
  "set_ready s k = (stss_UpdatedReplicas (sts_Status s) = k \<and> stss_ReadyReplicas (sts_Status s) = k)"

lemma deployStatefulSet_existing:
  assumes r: "r_client r = mockedClient" "valid_order (r_it r)" and s: "stored_set w (NamespacedName mdb) k0 s"
    and mdb: "sts_Replicas (custom_spec mdb) = None" "us_Type (sts_UpdateStrategy (custom_spec mdb)) = ''''" "\<not> stls_Enabled (mdb_TLS mdb)"
  defines "k \<equiv> to_int32 (StatefulSetReplicasThisReconciliation mdb)"
  shows "\<exists>s'. deployStatefulSet r mdb w = (Ok (set_ready s k \<or> IsChangingVersion mdb), mock_put (StatefulSetObj s') w)
    \<and> us_Type (sts_UpdateStrategy (sts_Spec s')) = GetUpdateStrategyType mdb \<and> \<not> isPreReadinessInitContainerStatefulSet s'
    \<and> stored_set (mock_put (StatefulSetObj s') w) (NamespacedName mdb) k s' \<and> sts_Status s' = sts_Status s"
proof -
  obtain s' where b: "buildStatefulSetModificationFunction r mdb s = Ok s'" "object_key (sts_Meta s') = NamespacedName mdb"
    "sts_Replicas (sts_Spec s') = Some k" "sts_Status s' = sts_Status s" "om_Generation (sts_Meta s') = om_Generation (sts_Meta s)"
    "us_Type (sts_UpdateStrategy (sts_Spec s')) = GetUpdateStrategyType mdb" "\<not> isPreReadinessInitContainerStatefulSet s'"
    using modified_set [where r = r and mdb = mdb and s = s, OF r(2) mdb(3,1,2)] unfolding k_def by blast
  have get: "w StatefulSetKind (NamespacedName mdb) = Some (StatefulSetObj s)" using s by (simp add: stored_set_def)
  have key: "ObjectKeyFromObject (StatefulSetObj s') = NamespacedName mdb" using b(2) by (simp add: ObjectKeyFromObject_def)
  have put: "mock_put (StatefulSetObj s') w StatefulSetKind (NamespacedName mdb) = Some (StatefulSetObj s')"
    using key by (simp add: mock_put_def)
  have "createOrUpdateStatefulSet r mdb w = (Ok (), mock_put (StatefulSetObj s') w)"
    using b(1,2) get
    by (simp add: createOrUpdateStatefulSet_def sts_CreateOrUpdate_def statefulsets_of_def typed_ops r mockedClient_def mock_Get_def
        mock_Update_def on_result_def)
  moreover have "sts_IsReady s' (StatefulSetReplicasThisReconciliation mdb) \<longleftrightarrow> set_ready s k"
    using b(4,5) s by (auto simp: sts_IsReady_def set_ready_def stored_set_def k_def)
  ultimately have "deployStatefulSet r mdb w = (Ok (set_ready s k \<or> IsChangingVersion mdb), mock_put (StatefulSetObj s') w)"
    using put b(6) by (simp add: deployStatefulSet_def on_result_def statefulsets_of_def typed_ops r mockedClient_def mock_Get_def
        GetUpdateStrategyType_def)
  moreover have "stored_set (mock_put (StatefulSetObj s') w) (NamespacedName mdb) k s'"
    using put b s by (simp add: stored_set_def)
  ultimately show ?thesis using b(4,6,7) by blast
qed

section \<open>The agents of an existing deployment\<close>

text \<open>The agents of the pods of a deployment are at a version, or there are no pods.\<close>

definition pod_name :: "nsname \<Rightarrow> nat \<Rightarrow> nsname" where
  "pod_name n i = \<lparr>nn_Namespace = nn_Namespace n, nn_Name = nn_Name n @ ''-'' @ nat_text i\<rparr>"

definition agents_at :: "(string \<Rightarrow> int) \<Rightarrow> mock_cluster \<Rightarrow> nsname \<Rightarrow> int \<Rightarrow> int \<Rightarrow> bool" where
  "agents_at cast w n members v =
     ((\<forall>i < nat members. \<exists>p. mock_pods w (pod_name n i) = Some p \<and> ReachedGoalState cast p v)
      \<or> (\<forall>i < nat members. mock_pods w (pod_name n i) = None))"

lemma agents_at_cong: "w' PodKind = w PodKind \<Longrightarrow> agents_at cast w' n members v = agents_at cast w n members v"
  by (simp add: agents_at_def mock_pods_def)

lemma AllReachedGoalState_agents:
  assumes "well_kinded w" and "0 \<le> members" and "object_key (sts_Meta s) = n"
  shows "AllReachedGoalState cast s (client_GetPod mockedClient) members v w = (Ok (agents_at cast w n members v), w)"
proof -
  have n: "om_Namespace (sts_Meta s) = nn_Namespace n" "om_Name (sts_Meta s) = nn_Name n" using assms(3) by (auto simp: object_key_def)
  have "mock_pods.reached cast w (nn_Namespace n) v name \<longleftrightarrow>
      (\<exists>p. mock_pods w \<lparr>nn_Namespace = nn_Namespace n, nn_Name = name\<rparr> = Some p \<and> ReachedGoalState cast p v)" for name
    by (simp add: mock_pods.reached_def split: option.split)
  moreover have "(\<forall>i \<in> {0..<m}. P i) \<longleftrightarrow> (\<forall>i < m. P i)" for P and m :: nat by auto
  ultimately show ?thesis
    unfolding mock_pods.AllReachedGoalState_eq [OF assms(1,2)] by (simp add: n agents_at_def pod_name_def)
qed

lemma config_decides:
  assumes r: "r_client r = mockedClient" and ac: "ensureAutomationConfig r mdb w = (Ok ac, w1)" and wk: "well_kinded w1"
    and s: "stored_set w (NamespacedName mdb) k0 s" "\<not> isPreReadinessInitContainerStatefulSet s" and pos: "0 \<le> StatefulSetReplicasThisReconciliation mdb"
  shows "deployAutomationConfig r mdb w
    = (Ok (agents_at (r_cast r) w1 (NamespacedName mdb) (StatefulSetReplicasThisReconciliation mdb) (ac_Version ac)), w1)"
proof -
  have "w StatefulSetKind (NamespacedName mdb) = Some (StatefulSetObj s)" "object_key (sts_Meta s) = NamespacedName mdb"
    using s by (simp_all add: stored_set_def)
  then have "GetStatefulSet (statefulsets_of (r_client r)) (NamespacedName mdb) w = (Ok s, w)"
    "AllReachedGoalState (r_cast r) s (client_GetPod (r_client r)) (StatefulSetReplicasThisReconciliation mdb) (ac_Version ac) w1
      = (Ok (agents_at (r_cast r) w1 (NamespacedName mdb) (StatefulSetReplicasThisReconciliation mdb) (ac_Version ac)), w1)"
    using AllReachedGoalState_agents [OF wk pos] by (simp_all add: statefulsets_of_def typed_ops r mockedClient_def mock_Get_def on_result_def)
  with ac s(2) show ?thesis by (simp add: deployAutomationConfig_def on_result_def)
qed

section \<open>One reconciliation of an existing deployment\<close>

context deployment_world
begin

lemma configured_frame:
  assumes "configured r data mdb w" and "data w' = data w"
  shows "configured r data mdb w'"
proof -
  have "enabled mdb w' users pwd key" if "enabled mdb w users pwd key" for users pwd key
    by (rule enabled_frame [OF that]) (simp add: assms(2))
  with assms show ?thesis unfolding configured_def by metis
qed

end

text \<open>An operator on the in-memory cluster, and the resources it is followed for: without TLS and horizons,
  with a feature compatibility version, the replicas left to the operator, and no version change.\<close>

definition scaling_operator :: "mock_cluster reconciler \<Rightarrow> bool" where
  "scaling_operator r = (mock_operator r \<and> libs_keep_maps (r_libs r))"

definition plain_spec :: "mongodb_community \<Rightarrow> bool" where
  "plain_spec mdb = (\<not> stls_Enabled (mdb_TLS mdb) \<and> spec_ReplicaSetHorizons (mdb_Spec mdb) = None
     \<and> spec_FeatureCompatibilityVersion (mdb_Spec mdb) \<noteq> '''' \<and> sts_Replicas (custom_spec mdb) = None
     \<and> us_Type (sts_UpdateStrategy (custom_spec mdb)) = '''' \<and> secrets_apart mdb \<and> wf_spec mdb \<and> 0 < spec_Members (mdb_Spec mdb))"

definition plain_resource :: "mongodb_community \<Rightarrow> bool" where
  "plain_resource mdb = (plain_spec mdb \<and> \<not> IsChangingVersion mdb \<and> 0 < stat_CurrentStatefulSetReplicas (mdb_Status mdb)
     \<and> stat_CurrentMongoDBMembers (mdb_Status mdb) = stat_CurrentStatefulSetReplicas (mdb_Status mdb))"

text \<open>The next number of members.\<close>

abbreviation next_members :: "mongodb_community \<Rightarrow> int" where
  "next_members mdb \<equiv> scale_step (spec_Members (mdb_Spec mdb)) (stat_CurrentStatefulSetReplicas (mdb_Status mdb))"

lemma plain_members:
  assumes "plain_resource mdb"
  shows "StatefulSetReplicasThisReconciliation mdb = next_members mdb"
    and "AutomationConfigMembersThisReconciliation mdb = next_members mdb" and "0 < next_members mdb"
proof -
  have m: "0 < spec_Members (mdb_Spec mdb)" "0 < stat_CurrentStatefulSetReplicas (mdb_Status mdb)"
    "stat_CurrentMongoDBMembers (mdb_Status mdb) = stat_CurrentStatefulSetReplicas (mdb_Status mdb)"
    using assms by (simp_all add: plain_resource_def plain_spec_def)
  show "StatefulSetReplicasThisReconciliation mdb = next_members mdb" "AutomationConfigMembersThisReconciliation mdb = next_members mdb"
    using m(3) scale_step_scaler [of mdb] by simp_all
  show "0 < next_members mdb"
    using scale_steps [OF m(1,2), of 1] m(1,2) by (auto simp: min_def max_def split: if_splits)
qed

definition settled_world :: "mock_cluster reconciler \<Rightarrow> mongodb_community \<Rightarrow> mock_cluster \<Rightarrow> bool" where
  "settled_world r mdb w = (well_kinded w \<and> configured r mock_secret_data mdb w)"

text \<open>A step that touches neither the resource nor the pods nor the inputs of its users.\<close>

definition same_inputs :: "mongodb_community \<Rightarrow> mock_cluster \<Rightarrow> mock_cluster \<Rightarrow> bool" where
  "same_inputs mdb w w' = (w' MongoDBKind = w MongoDBKind \<and> w' PodKind = w PodKind
     \<and> (\<forall>k. k \<noteq> config_name mdb \<longrightarrow> mock_secret_data w' k = mock_secret_data w k))"

lemma same_inputs_trans: "same_inputs mdb w w1 \<Longrightarrow> same_inputs mdb w1 w2 \<Longrightarrow> same_inputs mdb w w2"
  by (simp add: same_inputs_def)

lemma scaling_operatorD:
  assumes "scaling_operator r"
  shows "r_client r = mockedClient" and "\<And>k. keeps (\<lambda>w. w) (r_rand r k)" and "deployment_world r mock_secret_data well_kinded"
    and "valid_order (r_it r)" and "libs_keep_maps (r_libs r)" and "\<And>spec p. r_spec_json r spec \<noteq> Panic p"
  using assms by (simp_all add: scaling_operator_def mock_operator_def)

lemma stored_config_unique: "stored_config d n ac \<Longrightarrow> stored_config d n ac' \<Longrightarrow> ac' = ac"
  by (auto simp: stored_config_def)

lemma settled_config:
  assumes "settled_world r mdb w"
  obtains ac where "stored_config (mock_secret_data w) (config_name mdb) ac"
  using assms by (auto simp: settled_world_def configured_def)

lemma config_step:
  assumes r: "scaling_operator r" and mdb: "plain_resource mdb" and w: "settled_world r mdb w"
    and s: "stored_set w (NamespacedName mdb) k s" "\<not> isPreReadinessInitContainerStatefulSet s"
  shows "\<exists>w1 ac. deployAutomationConfig r mdb w = (Ok (agents_at (r_cast r) w (NamespacedName mdb) (next_members mdb) (ac_Version ac)), w1)
    \<and> settled_world r mdb w1 \<and> same_inputs mdb w w1 \<and> w1 StatefulSetKind = w StatefulSetKind
    \<and> stored_config (mock_secret_data w1) (config_name mdb) ac"
proof -
  note R = scaling_operatorD [OF r] and m = plain_members [OF mdb]
  obtain ac w1 ac' where ac: "ensureAutomationConfig r mdb w = (Ok ac, w1)" and w1: "well_kinded w1" "configured r mock_secret_data mdb w1"
    "\<forall>k. k \<noteq> config_name mdb \<longrightarrow> mock_secret_data w1 k = mock_secret_data w k"
    and ac': "stored_config (mock_secret_data w1) (config_name mdb) ac'" "ac_Version ac' = ac_Version ac"
    using deployment_world.ensureAutomationConfig_next [where data = mock_secret_data and inv = well_kinded and w = w and mdb = mdb, OF R(3)]
      w mdb m R(5) by (auto simp: settled_world_def plain_resource_def plain_spec_def)
  note keep = secrets_only [OF R(1,2) ac]
  have pods: "w1 PodKind = w PodKind" using keep [of PodKind] by simp
  from config_decides [OF R(1) ac w1(1) s] m(1,3) ac'(2)
  have "deployAutomationConfig r mdb w = (Ok (agents_at (r_cast r) w (NamespacedName mdb) (next_members mdb) (ac_Version ac')), w1)"
    by (simp add: agents_at_cong [of w1 w, OF pods])
  with w1 keep pods ac'(1) show ?thesis
    by (intro exI [of _ w1] exI [of _ ac']) (simp add: settled_world_def same_inputs_def)
qed

lemma set_step:
  assumes r: "scaling_operator r" and mdb: "plain_resource mdb" and w: "settled_world r mdb w" and s: "stored_set w (NamespacedName mdb) k0 s"
  shows "\<exists>w1 s'. deployStatefulSet r mdb w = (Ok (set_ready s (to_int32 (next_members mdb))), w1) \<and> settled_world r mdb w1
    \<and> same_inputs mdb w w1 \<and> mock_secret_data w1 = mock_secret_data w \<and> mock_secret_data w1 = mock_secret_data w \<and> stored_set w1 (NamespacedName mdb) (to_int32 (next_members mdb)) s'
    \<and> \<not> isPreReadinessInitContainerStatefulSet s'"
proof -
  note R = scaling_operatorD [OF r] and m = plain_members [OF mdb]
  have "sts_Replicas (custom_spec mdb) = None" "us_Type (sts_UpdateStrategy (custom_spec mdb)) = ''''" "\<not> stls_Enabled (mdb_TLS mdb)"
    and v: "\<not> IsChangingVersion mdb" using mdb by (simp_all add: plain_resource_def plain_spec_def)
  from deployStatefulSet_existing [OF R(1,4) s this(1-3)] v obtain s' where
    d: "deployStatefulSet r mdb w = (Ok (set_ready s (to_int32 (next_members mdb))), mock_put (StatefulSetObj s') w)"
    "stored_set (mock_put (StatefulSetObj s') w) (NamespacedName mdb) (to_int32 (next_members mdb)) s'" "\<not> isPreReadinessInitContainerStatefulSet s'"
    by (auto simp: m(1))
  have data: "mock_secret_data (mock_put (StatefulSetObj s') w) = mock_secret_data w" by (rule secret_data_cong) simp
  have "settled_world r mdb (mock_put (StatefulSetObj s') w)" "same_inputs mdb w (mock_put (StatefulSetObj s') w)"
    using w deployment_world.configured_frame [where data = mock_secret_data and w = w, OF R(3) _ data]
    by (auto simp: settled_world_def same_inputs_def data)
  with d data show ?thesis by blast
qed

text \<open>Whatever the order, the deployment is ready when the set reports the next number and the agents the
  version of the configuration that is stored in the end.\<close>

lemma deploy_existing:
  assumes r: "scaling_operator r" and mdb: "plain_resource mdb" and w: "settled_world r mdb w"
    and s: "stored_set w (NamespacedName mdb) k0 s" "\<not> isPreReadinessInitContainerStatefulSet s"
  shows "\<exists>w1 k1 s1 ac. deployMongoDBReplicaSet r mdb w = (Ok (set_ready s (to_int32 (next_members mdb))
        \<and> agents_at (r_cast r) w (NamespacedName mdb) (next_members mdb) (ac_Version ac)), w1)
    \<and> settled_world r mdb w1 \<and> same_inputs mdb w w1 \<and> stored_set w1 (NamespacedName mdb) k1 s1
    \<and> \<not> isPreReadinessInitContainerStatefulSet s1 \<and> stored_config (mock_secret_data w1) (config_name mdb) ac"
proof -
  note R = scaling_operatorD [OF r]
  let ?n = "NamespacedName mdb" and ?k = "to_int32 (next_members mdb)"
  let ?agents = "\<lambda>ac. agents_at (r_cast r) w ?n (next_members mdb) (ac_Version ac)"
  have "w StatefulSetKind ?n = Some (StatefulSetObj s)" using s by (simp add: stored_set_def)
  then obtain inOrder where order: "shouldRunInOrder r mdb w = (Ok inOrder, w)"
    by (simp add: shouldRunInOrder_def on_result_def statefulsets_of_def typed_ops R(1) mockedClient_def mock_Get_def Let_def)
  show ?thesis
  proof (cases inOrder)
    case True
    obtain w1 ac where 1: "deployAutomationConfig r mdb w = (Ok (?agents ac), w1)" "settled_world r mdb w1" "same_inputs mdb w w1"
      "w1 StatefulSetKind = w StatefulSetKind" "stored_config (mock_secret_data w1) (config_name mdb) ac"
      using config_step [OF r mdb w s] by blast
    have s1: "stored_set w1 ?n k0 s" using s(1) 1(4) by (simp add: stored_set_def)
    obtain w2 s2 where 2: "deployStatefulSet r mdb w1 = (Ok (set_ready s ?k), w2)" "settled_world r mdb w2" "same_inputs mdb w1 w2"
      "mock_secret_data w2 = mock_secret_data w1" "stored_set w2 ?n ?k s2" "\<not> isPreReadinessInitContainerStatefulSet s2"
      using set_step [OF r mdb 1(2) s1] by blast
    have "stored_config (mock_secret_data w2) (config_name mdb) ac" using 1(5) 2(4) by simp
    moreover have "deployMongoDBReplicaSet r mdb w = (if ?agents ac then (Ok (set_ready s ?k), w2) else (Ok False, w1))"
      using 1(1) 2(1) order \<open>inOrder\<close> by (simp add: deployMongoDBReplicaSet_def on_result_def RunSequentially_def)
    ultimately show ?thesis
      using 1 2 s1 s(2) same_inputs_trans [OF 1(3) 2(3)] by (cases "?agents ac") fastforce+
  next
    case False
    obtain w1 s1 where 1: "deployStatefulSet r mdb w = (Ok (set_ready s ?k), w1)" "settled_world r mdb w1" "same_inputs mdb w w1"
      "stored_set w1 ?n ?k s1" "\<not> isPreReadinessInitContainerStatefulSet s1" using set_step [OF r mdb w s(1)] by blast
    have "agents_at (r_cast r) w1 ?n m v = agents_at (r_cast r) w ?n m v" for m v
      by (rule agents_at_cong) (use 1(3) in \<open>simp add: same_inputs_def\<close>)
    then obtain w2 ac where 2: "deployAutomationConfig r mdb w1 = (Ok (?agents ac), w2)" "settled_world r mdb w2" "same_inputs mdb w1 w2"
      "w2 StatefulSetKind = w1 StatefulSetKind" "stored_config (mock_secret_data w2) (config_name mdb) ac"
      using config_step [OF r mdb 1(2,4,5)] by auto
    obtain ac1 where "stored_config (mock_secret_data w1) (config_name mdb) ac1" using settled_config [OF 1(2)] .
    moreover have "stored_set w2 ?n ?k s1" using 1(4) 2(4) by (simp add: stored_set_def)
    moreover have "deployMongoDBReplicaSet r mdb w = (if set_ready s ?k then (Ok (?agents ac), w2) else (Ok False, w1))"
      using 1(1) 2(1) order False by (simp add: deployMongoDBReplicaSet_def on_result_def RunSequentially_def runReversed_eq)
    ultimately show ?thesis
      using 1 2 same_inputs_trans [OF 1(3) 2(3)] by (cases "set_ready s ?k") fastforce+
  qed
qed

text \<open>Nothing but the numbers of members depends on the status of a resource.\<close>

lemma status_irrelevant [simp]:
  "GetScramUsers (mdb\<lparr>mdb_Status := st\<rparr>) = GetScramUsers mdb" "NamespacedName (mdb\<lparr>mdb_Status := st\<rparr>) = NamespacedName mdb"
  "config_name (mdb\<lparr>mdb_Status := st\<rparr>) = config_name mdb" "IsChangingVersion (mdb\<lparr>mdb_Status := st\<rparr>) = IsChangingVersion mdb"
  "GetAgentPasswordSecretNamespacedName (mdb\<lparr>mdb_Status := st\<rparr>) = GetAgentPasswordSecretNamespacedName mdb"
  "GetAgentKeyfileSecretNamespacedName (mdb\<lparr>mdb_Status := st\<rparr>) = GetAgentKeyfileSecretNamespacedName mdb"
  "secrets_apart (mdb\<lparr>mdb_Status := st\<rparr>) = secrets_apart mdb" "wf_spec (mdb\<lparr>mdb_Status := st\<rparr>) = wf_spec mdb"
  "GetScramOptions (mdb\<lparr>mdb_Status := st\<rparr>) = GetScramOptions mdb"
  "controller_validateSpec r (mdb\<lparr>mdb_Status := st\<rparr>) = controller_validateSpec r mdb"
proof -
  show users: "GetScramUsers (mdb\<lparr>mdb_Status := st\<rparr>) = GetScramUsers mdb" by (simp add: GetScramUsers_def)
  show name: "NamespacedName (mdb\<lparr>mdb_Status := st\<rparr>) = NamespacedName mdb" by (simp add: NamespacedName_def)
  show conf: "config_name (mdb\<lparr>mdb_Status := st\<rparr>) = config_name mdb" by (simp add: config_name_def AutomationConfigSecretName_def)
  show pw: "GetAgentPasswordSecretNamespacedName (mdb\<lparr>mdb_Status := st\<rparr>) = GetAgentPasswordSecretNamespacedName mdb"
    by (simp add: GetAgentPasswordSecretNamespacedName_def)
  show key: "GetAgentKeyfileSecretNamespacedName (mdb\<lparr>mdb_Status := st\<rparr>) = GetAgentKeyfileSecretNamespacedName mdb"
    by (simp add: GetAgentKeyfileSecretNamespacedName_def)
  show "secrets_apart (mdb\<lparr>mdb_Status := st\<rparr>) = secrets_apart mdb"
    by (simp add: secrets_apart_def users name conf pw key TLSSecretNamespacedName_def)
  show "wf_spec (mdb\<lparr>mdb_Status := st\<rparr>) = wf_spec mdb" by (simp add: wf_spec_def)
  show "IsChangingVersion (mdb\<lparr>mdb_Status := st\<rparr>) = IsChangingVersion mdb"
    by (simp add: IsChangingVersion_def getLastVersion_def GetAnnotation_def)
  show "GetScramOptions (mdb\<lparr>mdb_Status := st\<rparr>) = GetScramOptions mdb" by (simp add: GetScramOptions_def)
  have "name_collisions (mdb\<lparr>mdb_Status := st\<rparr>) us names cs = name_collisions mdb us names cs" for us names cs
    by (induction us arbitrary: names cs) (simp_all add: GetConnectionStringSecretName_def name Let_def split: option.splits)
  then have "validateUsers (mdb\<lparr>mdb_Status := st\<rparr>) = validateUsers mdb" by (simp add: validateUsers_def users)
  moreover have "validateArbiterSpec (mdb\<lparr>mdb_Status := st\<rparr>) = validateArbiterSpec mdb" by (simp add: validateArbiterSpec_def Let_def)
  moreover have "validateAuthModeSpec (mdb\<lparr>mdb_Status := st\<rparr>) = validateAuthModeSpec mdb" by (simp add: validateAuthModeSpec_def Let_def)
  ultimately have "ValidateInitalSpec (mdb\<lparr>mdb_Status := st\<rparr>) = ValidateInitalSpec mdb"
    "ValidateUpdate (mdb\<lparr>mdb_Status := st\<rparr>) old = ValidateUpdate mdb old" for old
    by (simp_all add: ValidateInitalSpec_def ValidateUpdate_def validation_validateSpec_def cong: option.case_cong)
  then show "controller_validateSpec r (mdb\<lparr>mdb_Status := st\<rparr>) = controller_validateSpec r mdb"
    by (simp add: controller_validateSpec_def cong: option.case_cong)
qed

section \<open>The secrets of a resource and its connection strings\<close>

text \<open>A connection string secret is none of the secrets that the operator reads.\<close>

definition connections_apart :: "mongodb_community \<Rightarrow> bool" where
  "connections_apart mdb = (let ns = NamespacedName mdb; us = GetScramUsers mdb
     in conn_name mdb ` set us \<inter> (cred_name ns ` set us \<union> pw_name ns ` set us
          \<union> {GetAgentPasswordSecretNamespacedName mdb, GetAgentKeyfileSecretNamespacedName mdb, config_name mdb}) = {})"

lemma connections_apartD:
  assumes "connections_apart mdb" and "k \<in> cred_name (NamespacedName mdb) ` set (GetScramUsers mdb) \<union> pw_name (NamespacedName mdb) ` set (GetScramUsers mdb)
    \<union> {GetAgentPasswordSecretNamespacedName mdb, GetAgentKeyfileSecretNamespacedName mdb, config_name mdb}"
  shows "k \<notin> conn_name mdb ` set (GetScramUsers mdb)"
  using assms unfolding connections_apart_def Let_def by blast

lemma configured_ended:
  assumes dw: "deployment_world r mock_secret_data well_kinded" and c: "configured r mock_secret_data mdb w"
    and apart: "connections_apart mdb" and e: "ended mdb js w w' m"
  shows "configured r mock_secret_data mdb w'"
proof -
  have frame: "mock_secret_data w' k = mock_secret_data w k" if "k \<notin> conn_name mdb ` set (GetScramUsers mdb)" for k
    using e that by (simp add: ended_def)
  have "scram_world.enabled (scram_deps_of r) mock_secret_data mdb w' users pwd key"
    if "scram_world.enabled (scram_deps_of r) mock_secret_data mdb w users pwd key" for users pwd key
    by (rule scram_world.enabled_frame [OF deployment_world.axioms [OF dw] that], rule frame, rule connections_apartD [OF apart]) auto
  moreover have "mock_secret_data w' (config_name mdb) = mock_secret_data w (config_name mdb)"
    by (rule frame, rule connections_apartD [OF apart]) simp
  ultimately show ?thesis using c unfolding configured_def stored_config_def by metis
qed

text \<open>A resource with other annotations, another status and another number of members.\<close>

definition resized :: "mongodb_community \<Rightarrow> int \<Rightarrow> mongodb_community \<Rightarrow> bool" where
  "resized mdb d m = ((\<exists>a. mdb_Meta m = (mdb_Meta mdb)\<lparr>om_Annotations := a\<rparr>)
     \<and> mdb_Spec m = (mdb_Spec mdb)\<lparr>spec_Members := d\<rparr>)"

lemma resized_names:
  assumes "resized mdb d m"
  shows "GetScramUsers m = GetScramUsers mdb" and "NamespacedName m = NamespacedName mdb" and "config_name m = config_name mdb"
    and "GetScramOptions m = GetScramOptions mdb"
    and "GetAgentPasswordSecretNamespacedName m = GetAgentPasswordSecretNamespacedName mdb"
    and "GetAgentKeyfileSecretNamespacedName m = GetAgentKeyfileSecretNamespacedName mdb"
    and "mdb_TLS m = mdb_TLS mdb" and "GetConnectionStringSecretName u m = GetConnectionStringSecretName u mdb"
proof -
  have meta: "om_Name (mdb_Meta m) = om_Name (mdb_Meta mdb)" "om_Namespace (mdb_Meta m) = om_Namespace (mdb_Meta mdb)"
    and spec: "mdb_Spec m = (mdb_Spec mdb)\<lparr>spec_Members := d\<rparr>"
    using assms by (auto simp: resized_def)
  show "GetScramUsers m = GetScramUsers mdb" "NamespacedName m = NamespacedName mdb" "config_name m = config_name mdb"
    "GetScramOptions m = GetScramOptions mdb" "GetAgentPasswordSecretNamespacedName m = GetAgentPasswordSecretNamespacedName mdb"
    "GetAgentKeyfileSecretNamespacedName m = GetAgentKeyfileSecretNamespacedName mdb" "mdb_TLS m = mdb_TLS mdb"
    "GetConnectionStringSecretName u m = GetConnectionStringSecretName u mdb"
    by (simp_all add: meta spec GetScramUsers_def NamespacedName_def config_name_def AutomationConfigSecretName_def GetScramOptions_def
        GetAgentPasswordSecretNamespacedName_def GetAgentKeyfileSecretNamespacedName_def GetConnectionStringSecretName_def)
qed

lemma resized_plain:
  assumes m: "resized mdb d m" and "plain_spec mdb" and "0 < d"
  shows "plain_spec m"
proof -
  have spec: "mdb_Spec m = (mdb_Spec mdb)\<lparr>spec_Members := d\<rparr>" using m by (simp add: resized_def)
  have "secrets_apart m" using assms(2) by (simp add: plain_spec_def secrets_apart_def resized_names [OF m] Let_def)
  moreover have "wf_spec m" using assms(2) by (simp add: plain_spec_def wf_spec_def spec)
  ultimately show ?thesis using assms(2,3) by (simp add: plain_spec_def resized_names [OF m]) (simp add: spec)
qed

lemma resized_valid:
  assumes m: "resized mdb d m" and "valid_spec mdb" and "spec_Arbiters (mdb_Spec mdb) < d"
  shows "valid_spec m"
proof -
  have spec: "mdb_Spec m = (mdb_Spec mdb)\<lparr>spec_Members := d\<rparr>" using m by (simp add: resized_def)
  from assms(2,3) show ?thesis by (simp add: valid_spec_def resized_names [OF m]) (simp add: spec)
qed

lemma resized_conn_name: "resized mdb d m \<Longrightarrow> conn_name m = conn_name mdb"
  by (auto simp: conn_name_def resized_def GetConnectionStringSecretName_def NamespacedName_def fun_eq_iff)

section \<open>A deployment in place\<close>

lemma configured_other:
  assumes "configured r data mdb w" and "GetScramUsers mdb' = GetScramUsers mdb" "NamespacedName mdb' = NamespacedName mdb"
    "config_name mdb' = config_name mdb" "GetScramOptions mdb' = GetScramOptions mdb"
    "GetAgentPasswordSecretNamespacedName mdb' = GetAgentPasswordSecretNamespacedName mdb"
    "GetAgentKeyfileSecretNamespacedName mdb' = GetAgentKeyfileSecretNamespacedName mdb"
    and "scram_world (scram_deps_of r) data I"
  shows "configured r data mdb' w"
  using assms(1) by (simp add: configured_def scram_world.enabled_def [OF assms(8)] assms(2-7))

text \<open>The specification can be stored in an annotation and read back.\<close>

definition spec_readable :: "'w reconciler \<Rightarrow> mongodb_community_spec \<Rightarrow> bool" where
  "spec_readable r spec = (\<exists>js. r_spec_json r spec = Ok js \<and> r_spec_of_json r js = Ok spec)"

text \<open>A deployment in place: configured, stored, validated, with the passwords of its users.\<close>

definition deployed :: "mock_cluster reconciler \<Rightarrow> mock_cluster \<Rightarrow> nsname \<Rightarrow> mongodb_community \<Rightarrow> bool" where
  "deployed r w n mdb = (settled_world r mdb w \<and> stored_resource w n mdb \<and> plain_resource mdb \<and> controller_validateSpec r mdb = Ok ()
     \<and> connections_apart mdb \<and> spec_readable r (mdb_Spec mdb) \<and> (\<forall>u \<in> set (GetScramUsers mdb). has_password (mock_secret_data w) n u))"

lemma validated: "controller_validateSpec r mdb = Ok () \<Longrightarrow> valid_spec mdb"
  using validateSpec_None_iff [of mdb]
  by (auto simp: controller_validateSpec_def error_outcome_def ValidateInitalSpec_def ValidateUpdate_def bind_out_Ok_conv
      split: option.splits if_splits)

lemma connections_apart_status [simp]: "connections_apart (mdb\<lparr>mdb_Status := st\<rparr>) = connections_apart mdb"
proof -
  have "conn_name (mdb\<lparr>mdb_Status := st\<rparr>) = conn_name mdb" by (rule conn_name_cong) simp
  then show ?thesis by (simp add: connections_apart_def)
qed

lemma same_inputs_passwords:
  assumes "same_inputs mdb w w'" and "secrets_apart mdb" and "u \<in> set (GetScramUsers mdb)" and "NamespacedName mdb = n"
  shows "has_password (mock_secret_data w') n u \<longleftrightarrow> has_password (mock_secret_data w) n u"
proof -
  have "pw_name n u \<in> pw_name n ` set (GetScramUsers mdb)" using assms(3) by blast
  then have "pw_name n u \<noteq> config_name mdb" using secrets_apartD(2) [OF assms(2)] assms(4) by auto
  with assms(1) show ?thesis by (simp add: same_inputs_def has_password_def)
qed

text \<open>After the status was written, the deployment is in place again.\<close>

lemma deployed_status:
  assumes d: "deployed r w n mdb" and r: "scaling_operator r" and w1: "settled_world r mdb w1" "same_inputs mdb w w1"
    and st: "0 < stat_CurrentStatefulSetReplicas st" "stat_CurrentMongoDBMembers st = stat_CurrentStatefulSetReplicas st"
  defines "mdb' \<equiv> mdb\<lparr>mdb_Status := st\<rparr>"
  shows "deployed r (mock_put (MongoDBObj mdb') w1) n mdb'"
proof -
  note R = scaling_operatorD [OF r]
  have n: "NamespacedName mdb = n" using d by (simp add: deployed_def stored_resource_def)
  have data: "mock_secret_data (mock_put (MongoDBObj mdb') w1) = mock_secret_data w1" by (rule secret_data_cong) simp
  have "configured r mock_secret_data mdb' w1"
    using w1(1) deployment_world.axioms [OF R(3)]
    by (simp add: settled_world_def configured_def mdb'_def scram_world.enabled_def)
  then have "settled_world r mdb' (mock_put (MongoDBObj mdb') w1)"
    using w1(1) deployment_world.configured_frame [where data = mock_secret_data, OF R(3) _ data] by (simp add: settled_world_def)
  moreover have "stored_resource (mock_put (MongoDBObj mdb') w1) n mdb'"
    using mock_put_resource [of mdb' w1] n by (simp add: mdb'_def)
  moreover have "plain_resource mdb'" using d st by (simp add: deployed_def plain_resource_def plain_spec_def mdb'_def)
  moreover have "has_password (mock_secret_data (mock_put (MongoDBObj mdb') w1)) n u" if "u \<in> set (GetScramUsers mdb)" for u
    unfolding data using same_inputs_passwords [OF w1(2) _ that n] d that by (auto simp: deployed_def plain_resource_def plain_spec_def)
  ultimately show ?thesis using d by (simp add: deployed_def mdb'_def)
qed

text \<open>And so it is after a run that ended, also when the user then asks for another number of members.\<close>

lemma ended_deployed:
  assumes r: "scaling_operator r" and c: "configured r mock_secret_data mdb w"
    and users: "\<forall>u \<in> set (GetScramUsers mdb). has_password (mock_secret_data w) n u" and n: "NamespacedName mdb = n"
    and mdb: "plain_spec mdb" "connections_apart mdb" "valid_spec mdb" "spec_Arbiters (mdb_Spec mdb) < d"
      "StatefulSetReplicasThisReconciliation mdb = spec_Members (mdb_Spec mdb)" "AutomationConfigMembersThisReconciliation mdb = spec_Members (mdb_Spec mdb)"
    and js: "r_spec_of_json r js = Ok (mdb_Spec mdb)" and e: "ended mdb js w w' m"
  defines "m' \<equiv> m\<lparr>mdb_Spec := (mdb_Spec m)\<lparr>spec_Members := d\<rparr>\<rparr>"
  assumes readable: "spec_readable r (mdb_Spec m')"
  shows "deployed r (mock_put (MongoDBObj m') w') n m'"
proof -
  note R = scaling_operatorD [OF r]
  have m: "resized mdb d m'" using e unfolding ended_def resized_def m'_def by auto
  have an: "map_of (entries (om_Annotations (mdb_Meta m'))) = (map_of (entries (om_Annotations (mdb_Meta mdb))))
         (lastSuccessfulConfiguration \<mapsto> js, lastAppliedMongoDBVersion \<mapsto> spec_Version (mdb_Spec mdb))"
    using e by (simp add: ended_def m'_def)
  have d: "0 < d" using mdb(3,4) by (simp add: valid_spec_def)
  have data: "mock_secret_data (mock_put (MongoDBObj m') w') = mock_secret_data w'" by (rule secret_data_cong) simp
  have "configured r mock_secret_data m' w'"
    by (rule configured_other [OF configured_ended [OF R(3) c mdb(2) e] resized_names(1-6) [OF m] deployment_world.axioms [OF R(3)]])
  then have "settled_world r m' (mock_put (MongoDBObj m') w')"
    using e deployment_world.configured_frame [where data = mock_secret_data, OF R(3) _ data] by (simp add: settled_world_def ended_def)
  moreover have "stored_resource (mock_put (MongoDBObj m') w') n m'"
    using mock_put_resource [of m' w'] by (simp add: resized_names [OF m] n)
  moreover have "\<not> IsChangingVersion m'"
    using an m by (simp add: IsChangingVersion_def getLastVersion_def GetAnnotation_def LastAppliedMongoDBVersion_def lastAppliedMongoDBVersion_def
        resized_def)
  then have "plain_resource m'"
    using resized_plain [OF m mdb(1) d] e mdb(3,5,6) by (simp add: plain_resource_def m'_def ended_def valid_spec_def)
  moreover have "controller_validateSpec r m' = Ok ()"
  proof -
    have "map_of (entries (om_Annotations (mdb_Meta m'))) lastSuccessfulConfiguration = Some js"
      by (simp add: an lastSuccessfulConfiguration_def lastAppliedMongoDBVersion_def)
    moreover have "ValidateUpdate m' (mdb_Spec mdb) = None"
      using validateSpec_None_iff [of m'] resized_valid [OF m mdb(3,4)] mdb(1)
      by (simp add: ValidateUpdate_def plain_spec_def)
    ultimately show ?thesis using js by (simp add: controller_validateSpec_def error_outcome_def)
  qed
  moreover have "has_password (mock_secret_data w') n u" if "u \<in> set (GetScramUsers mdb)" for u
  proof -
    have "pw_name n u \<notin> conn_name mdb ` set (GetScramUsers mdb)"
      by (rule connections_apartD [OF mdb(2)]) (use that n in auto)
    then show ?thesis using e users that by (simp add: ended_def has_password_def)
  qed
  moreover have "connections_apart m'"
    using mdb(2) by (simp add: connections_apart_def Let_def resized_names [OF m] resized_conn_name [OF m])
  ultimately show ?thesis using readable by (simp add: deployed_def data resized_names [OF m])
qed

lemma report_mock:
  assumes "r_client r = mockedClient"
  obtains res where "determineReconciliationResult opts = Ok res"
    and "report r mdb opts (w, rw) = (Ok res, mock_put (MongoDBObj (apply_options opts mdb)) w, rw)"
  using that determine_no_error [of opts] assms
  by (auto simp: report_def status_Update_def on_cluster_def on_result_def mockedClient_def mock_Update_def)

text \<open>What happens before the status is written: the deployment is ready or not.\<close>

abbreviation waiting_options :: option_builder where
  "waiting_options \<equiv> withPendingPhase 10 (withMessage Info ''ReplicaSet is not yet ready, retrying in 10 seconds'' statusOptions)"

lemma reconcile_existing:
  assumes r: "scaling_operator r" and d: "deployed r w n mdb" and s: "stored_set w n k0 s" "\<not> isPreReadinessInitContainerStatefulSet s"
  shows "\<exists>w1 rw1 k1 s1 ac. settled_world r mdb w1 \<and> same_inputs mdb w w1 \<and> stored_set w1 n k1 s1 \<and> \<not> isPreReadinessInitContainerStatefulSet s1
    \<and> stored_config (mock_secret_data w1) (config_name mdb) ac
    \<and> controller_Reconcile r n (w, rw) =
        (if set_ready s (to_int32 (next_members mdb)) \<and> agents_at (r_cast r) w n (next_members mdb) (ac_Version ac)
         then finish_reconcile r mdb (w1, rw1) else report r mdb waiting_options (w1, rw1))"
proof -
  note R = scaling_operatorD [OF r]
  have st: "settled_world r mdb w" "stored_resource w n mdb" and mdb: "plain_resource mdb" "controller_validateSpec r mdb = Ok ()"
    and users: "\<forall>u \<in> set (GetScramUsers mdb). has_password (mock_secret_data w) n u" using d by (simp_all add: deployed_def)
  have n: "NamespacedName mdb = n" using st(2) by (simp add: stored_resource_def)
  have tls: "\<not> stls_Enabled (mdb_TLS mdb)" and v: "\<not> IsChangingVersion mdb" using mdb(1) by (simp_all add: plain_resource_def plain_spec_def)
  obtain w1 where w1: "ensureService r mdb w = (Ok (), w1)" "well_kinded w1" "\<forall>k. k \<noteq> ServiceKind \<longrightarrow> w1 k = w k"
    using ensureService_mock [OF R(1), of w mdb] st(1) by (auto simp: settled_world_def)
  have data: "mock_secret_data w1 = mock_secret_data w" by (rule secret_data_cong) (use w1(3) in simp)
  have sw: "settled_world r mdb w1"
    using st(1) w1 deployment_world.configured_frame [where data = mock_secret_data and w = w, OF R(3) _ data] by (simp add: settled_world_def)
  have same: "same_inputs mdb w w1" using w1(3) by (simp add: same_inputs_def data)
  have s1: "stored_set w1 (NamespacedName mdb) k0 s" using s w1(3) by (simp add: stored_set_def n)
  obtain rw1 where u: "ensureUserResources r mdb (w1, rw) = (Ok (), w1, rw1)"
    using ensure_users_mock [OF R(3) w1(2), of "GetScramUsers mdb" mdb rw] users by (auto simp: ensureUserResources_def data n)
  have "agents_at (r_cast r) w1 n m x = agents_at (r_cast r) w n m x" for m x by (rule agents_at_cong) (use w1(3) in simp)
  then obtain w2 k2 s2 ac where w2: "deployMongoDBReplicaSet r mdb w1 = (Ok (set_ready s (to_int32 (next_members mdb))
      \<and> agents_at (r_cast r) w n (next_members mdb) (ac_Version ac)), w2)" (is "_ = (Ok ?ready, _)")
    "settled_world r mdb w2" "same_inputs mdb w1 w2" "stored_set w2 n k2 s2" "\<not> isPreReadinessInitContainerStatefulSet s2"
    "stored_config (mock_secret_data w2) (config_name mdb) ac"
    using deploy_existing [OF r mdb(1) sw s1 s(2)] unfolding n by auto
  have "controller_Reconcile r n (w, rw) = reconcile_resource r mdb (w, rw)"
    using st(2) by (simp add: controller_Reconcile_def on_result_def on_cluster_def R(1) mockedClient_def mock_Get_def stored_resource_def)
  also have "\<dots> = (if ?ready then finish_reconcile r mdb (w2, rw1) else report r mdb waiting_options (w2, rw1))"
    using mdb(2) w1(1) u w2(1) tls v
    by (simp add: reconcile_resource_def on_result_def on_cluster_def validateTLSConfig_def ensureTLSResources_def ResetUpdateStrategy_def)
  finally show ?thesis using w2(2-) same_inputs_trans [OF same w2(3)] by blast
qed

text \<open>A successful run leaves a configured deployment, also for another number of members.\<close>

context deployment_world
begin

lemma configured_after:
  assumes inv: "inv w" and apart: "secrets_apart mdb" and ok: "ensureAutomationConfig r mdb w = (Ok ac, w')"
    and L: "libs_keep_maps (r_libs r)" and spec: "wf_spec mdb"
  shows "inv w' \<and> configured r data mdb w' \<and> (\<forall>u \<in> set (GetScramUsers mdb).
    data w' (pw_name (NamespacedName mdb) u) = data w (pw_name (NamespacedName mdb) u))"
proof -
  let ?n = "config_name mdb"
  note A = secrets_apartD [OF apart]
  obtain tlsM rolesM cur a w1 des where tls: "getTLSConfigModification (r_libs r) (secrets_of (r_client r)) mdb w = (Ok tlsM, w)"
    and roles: "getCustomRolesModification mdb = Ok rolesM" and read: "ReadFromSecret (secrets_of (r_client r)) ?n w = (Ok cur, w)"
    and en: "scram_Enable (scram_deps_of r) empty_auth mdb w = (Ok a, w1)"
    and build: "buildAutomationConfig r mdb a cur [tlsM, rolesM] = Ok des"
    and ens: "EnsureSecret (secrets_of (r_client r)) ?n (GetOwnerReferences mdb) des w1 = (Ok ac, w')"
    using ensureAutomationConfig_OkD [OF inv ok] .
  obtain users pwd key opts where w1: "inv w1" "enabled mdb w1 users pwd key" "GetScramOptions mdb = Ok opts"
    "configureScramInAutomationConfig (r_multierror r) pwd key users opts empty_auth = Ok a"
    and frame: "\<And>k. k \<notin> set (map (cred_name (NamespacedName mdb)) (GetScramUsers mdb)
      @ [GetAgentPasswordSecretNamespacedName mdb, GetAgentKeyfileSecretNamespacedName mdb]) \<Longrightarrow> data w1 k = data w k"
    using Enable_enabled [OF inv A(1) en] by (auto simp: scram_deps_of_def)
  have "data w1 ?n = data w ?n" using A(2) frame by simp
  with ReadFromSecret_cases [OF inv read] have "data w1 ?n = None \<and> cur = empty_ac \<or>
      (\<exists>m t. data w1 ?n = Some (Some m) \<and> map_of m ConfigKey = Some t \<and> FromBytes t = Ok cur)" by simp
  from ensure_then_stored [OF w1(1) this ens] obtain m t where w': "inv w'" "\<And>k. k \<noteq> ?n \<Longrightarrow> data w' k = data w1 k"
    "data w' ?n = Some (Some m)" "map_of m ConfigKey = Some t"
    and st: "ac = des \<and> t = marshal_ac des \<or> ac = cur \<and> FromBytes t = Ok cur \<and> AreEqual des cur" by blast
  have "wf_ac des"
    using getTLS_cases [OF tls] keeps_wf_NOOP keeps_wf_tls [OF L] keeps_wf_roles [OF roles] by (intro wf_built [OF L spec _ build]) auto
  then have "\<exists>prev. FromBytes t = Ok prev" using st FromBytes_marshal by auto
  moreover have "enabled mdb w' users pwd key" by (rule enabled_frame [OF w1(2)], rule w'(2)) (use A(2) in auto)
  ultimately have "configured r data mdb w'" using w1 w' by (auto simp: configured_def stored_config_def)
  moreover have "data w' (pw_name (NamespacedName mdb) u) = data w (pw_name (NamespacedName mdb) u)" if "u \<in> set (GetScramUsers mdb)" for u
  proof -
    let ?k = "pw_name (NamespacedName mdb) u"
    have "?k \<noteq> ?n" using that A(2) by (auto simp: image_iff)
    moreover have "?k \<notin> set (map (cred_name (NamespacedName mdb)) (GetScramUsers mdb)
        @ [GetAgentPasswordSecretNamespacedName mdb, GetAgentKeyfileSecretNamespacedName mdb])"
      using that A(1) by (auto simp: names_apart_def list_all_iff)
    ultimately show ?thesis using w'(2) frame by simp
  qed
  ultimately show ?thesis using w'(1) by blast
qed

end

end
