(* ===== verification/Scaling.thy ===== *)
theory Scaling
  imports Existing
begin

text \<open>
  A deployment that exists is scaled by a sequence of reconciliations on the in-memory cluster. Before
  each of them the cluster reports what it likes: the numbers of updated and of ready replicas of the
  stateful set are arbitrary, as the helper \<open>setStatefulSetReadyReplicas\<close> of the controller's tests
  can set them, and so are the pods and the versions their agents report.
\<close>

section \<open>What decides a run\<close>

text \<open>A deployment with \<open>c\<close> members in its status, and the name of its configuration.\<close>

definition at_members :: "mock_cluster reconciler \<Rightarrow> nsname \<Rightarrow> mongodb_community_spec \<Rightarrow> int \<Rightarrow> mock_cluster \<Rightarrow> bool" where
  "at_members r n spec c w = (\<exists>mdb k s. deployed r w n mdb \<and> mdb_Spec mdb = spec \<and> stat_CurrentStatefulSetReplicas (mdb_Status mdb) = c
     \<and> stored_set w n k s \<and> \<not> isPreReadinessInitContainerStatefulSet s)"

definition config_of :: "nsname \<Rightarrow> nsname" where
  "config_of n = \<lparr>nn_Namespace = nn_Namespace n, nn_Name = nn_Name n @ ''-config''\<rparr>"

lemma config_name_of: "config_name mdb = config_of (NamespacedName mdb)"
  by (simp add: config_name_def config_of_def NamespacedName_def AutomationConfigSecretName_def)

text \<open>
  A run from \<open>w\<close> to \<open>w'\<close> finds \<open>c\<close> members ready: the set reports \<open>c\<close> updated and \<open>c\<close> ready replicas,
  and the agents of the pods \<open>0\<close> to \<open>c - 1\<close> report the version of the automation configuration that is
  stored after the run, or none of these pods exists.
\<close>

definition run_ready :: "mock_cluster reconciler \<Rightarrow> nsname \<Rightarrow> int \<Rightarrow> mock_cluster \<Rightarrow> mock_cluster \<Rightarrow> bool" where
  "run_ready r n c w w' = (\<exists>k s ac. stored_set w n k s \<and> set_ready s (to_int32 c)
     \<and> stored_config (mock_secret_data w') (config_of n) ac \<and> agents_at (r_cast r) w n c (ac_Version ac))"

lemma run_ready_iff:
  assumes s: "stored_set w n k s" and ac: "stored_config (mock_secret_data w') (config_of n) ac"
  shows "run_ready r n c w w' \<longleftrightarrow> set_ready s (to_int32 c) \<and> agents_at (r_cast r) w n c (ac_Version ac)"
proof -
  have "stored_set w n k' s' \<Longrightarrow> s' = s" for k' s' using s by (simp add: stored_set_def)
  with s ac stored_config_unique [OF ac] show ?thesis unfolding run_ready_def by blast
qed

text \<open>What a run does to a deployment with \<open>c\<close> members: it goes one member further when that is ready.\<close>

definition members_after :: "mock_cluster reconciler \<Rightarrow> nsname \<Rightarrow> int \<Rightarrow> int \<Rightarrow> mock_cluster \<Rightarrow> mock_cluster \<Rightarrow> int" where
  "members_after r n d c w w' = (if run_ready r n (scale_step d c) w w' then scale_step d c else c)"

definition run_done :: "mock_cluster reconciler \<Rightarrow> nsname \<Rightarrow> int \<Rightarrow> int \<Rightarrow> mock_cluster \<Rightarrow> mock_cluster \<Rightarrow> bool" where
  "run_done r n d c w w' = (run_ready r n (scale_step d c) w w' \<and> scale_step d c = d)"

definition run_reports ::
    "mock_cluster reconciler \<Rightarrow> nsname \<Rightarrow> mongodb_community_spec \<Rightarrow> int \<Rightarrow> mock_cluster \<Rightarrow> reconcile_result outcome \<Rightarrow> mock_cluster \<Rightarrow> bool" where
  "run_reports r n spec c w out w' = (\<exists>res m. out = Ok res \<and> stored_resource w' n m \<and> mdb_Spec m = spec
     \<and> stat_CurrentStatefulSetReplicas (mdb_Status m) = members_after r n (spec_Members spec) c w w'
     \<and> stat_CurrentMongoDBMembers (mdb_Status m) = members_after r n (spec_Members spec) c w w'
     \<and> stat_Phase (mdb_Status m) = (if run_done r n (spec_Members spec) c w w' then ''Running'' else ''Pending'')
     \<and> (res = result_OK \<longleftrightarrow> run_done r n (spec_Members spec) c w w'))"

section \<open>One run\<close>

lemma set_after_status:
  "stored_set (mock_put (MongoDBObj m) w) n k s \<longleftrightarrow> stored_set w n k s"
  by (simp add: stored_set_def)

lemma run_reportsI:
  assumes d: "deployed r w' n m" "mdb_Spec m = spec"
    and "stat_CurrentStatefulSetReplicas (mdb_Status m) = members_after r n (spec_Members spec) c w w'"
    and "stat_Phase (mdb_Status m) = (if run_done r n (spec_Members spec) c w w' then ''Running'' else ''Pending'')"
    and "res = result_OK \<longleftrightarrow> run_done r n (spec_Members spec) c w w'"
    and s: "stored_set w' n k s" "\<not> isPreReadinessInitContainerStatefulSet s"
  shows "run_reports r n spec c w (Ok res) w' \<and> at_members r n spec (members_after r n (spec_Members spec) c w w') w'"
proof -
  have "stored_resource w' n m" "stat_CurrentMongoDBMembers (mdb_Status m) = stat_CurrentStatefulSetReplicas (mdb_Status m)"
    using d(1) by (simp_all add: deployed_def plain_resource_def)
  with assms show ?thesis unfolding run_reports_def at_members_def by (intro conjI exI [of _ res] exI [of _ m] exI [of _ k] exI [of _ s]) simp_all
qed

lemma status_phases:
  "stat_Phase (mdb_Status (apply_options waiting_options mdb)) = ''Pending''"
  "stat_Phase (mdb_Status (apply_options (scaling_options mdb) mdb)) = ''Pending''"
  by (simp_all add: scaling_options_def option_builder_defs apply_options_def phase_Pending_def)

text \<open>The status of a run that waits, and of one that goes on scaling.\<close>

lemma run_stores_status:
  assumes r: "scaling_operator r" and d: "deployed r w n mdb" and w1: "settled_world r mdb w1" "same_inputs mdb w w1"
    and c: "stat_CurrentStatefulSetReplicas (mdb_Status (apply_options opts mdb)) = c" "0 < c"
      "stat_CurrentMongoDBMembers (mdb_Status (apply_options opts mdb)) = c" "\<exists>opt \<in> set opts. asks_again opt"
  shows "\<exists>res. report r mdb opts (w1, rw1) = (Ok res, mock_put (MongoDBObj (apply_options opts mdb)) w1, rw1) \<and> res \<noteq> result_OK
    \<and> deployed r (mock_put (MongoDBObj (apply_options opts mdb)) w1) n (apply_options opts mdb)"
proof -
  obtain res where res: "determineReconciliationResult opts = Ok res"
    and rep: "report r mdb opts (w1, rw1) = (Ok res, mock_put (MongoDBObj (apply_options opts mdb)) w1, rw1)"
    using report_mock [OF scaling_operatorD(1) [OF r]] by metis
  have "deployed r (mock_put (MongoDBObj (apply_options opts mdb)) w1) n (apply_options opts mdb)"
    unfolding apply_options_def [of _ mdb]
    by (rule deployed_status [OF d r w1]) (use c in \<open>simp_all add: apply_options_def\<close>)
  with rep determine_done_iff [OF res] c(4) show ?thesis by blast
qed

text \<open>The state after a run that ended.\<close>

lemma run_stores_running:
  assumes r: "scaling_operator r" and d: "deployed r w n mdb" and w1: "settled_world r mdb w1" "same_inputs mdb w w1"
    and last: "next_members mdb = spec_Members (mdb_Spec mdb)"
  shows "\<exists>st' m. finish_reconcile r mdb (w1, rw1) = (Ok result_OK, st') \<and> deployed r (fst st') n m \<and> mdb_Spec m = mdb_Spec mdb
    \<and> stat_Phase (mdb_Status m) = ''Running'' \<and> stat_CurrentStatefulSetReplicas (mdb_Status m) = spec_Members (mdb_Spec mdb)
    \<and> fst st' StatefulSetKind = w1 StatefulSetKind
    \<and> mock_secret_data (fst st') (config_name mdb) = mock_secret_data w1 (config_name mdb)"
proof -
  have plain: "plain_resource mdb" "connections_apart mdb" "valid_spec mdb" "plain_spec mdb" "spec_Arbiters (mdb_Spec mdb) < spec_Members (mdb_Spec mdb)"
      "spec_readable r (mdb_Spec mdb)" and n: "NamespacedName mdb = n"
    using d validated by (auto simp: deployed_def stored_resource_def plain_resource_def valid_spec_def)
  then obtain js where js: "r_spec_json r (mdb_Spec mdb) = Ok js" "r_spec_of_json r js = Ok (mdb_Spec mdb)" by (auto simp: spec_readable_def)
  note m = plain_members [OF plain(1)]
  have op: "mock_operator r" using r by (simp add: scaling_operator_def)
  have w1': "well_kinded w1" "configured r mock_secret_data mdb w1" using w1(1) by (simp_all add: settled_world_def)
  obtain st' m where fin: "finish_reconcile r mdb (w1, rw1) = (Ok result_OK, st')" and e: "ended mdb js w1 (fst st') m"
    using finish_running [OF op w1'(1) js(1)] last m by (fastforce simp: still_scaling_iff)
  have spec: "mdb_Spec m = mdb_Spec mdb" and keep: "fst st' StatefulSetKind = w1 StatefulSetKind" "stored_resource (fst st') n m"
    using e by (simp_all add: ended_def n)
  have same: "m\<lparr>mdb_Spec := mdb_Spec mdb\<rparr> = m" by (simp add: spec [symmetric])
  have "has_password (mock_secret_data w1) n u" if "u \<in> set (GetScramUsers mdb)" for u
    using same_inputs_passwords [OF w1(2) _ that n] d that by (auto simp: deployed_def plain_resource_def plain_spec_def)
  then have "deployed r (mock_put (MongoDBObj m) (fst st')) n m"
    using ended_deployed [OF r w1'(2) _ n _ plain(2,3) _ _ _ js(2) e, of "spec_Members (mdb_Spec mdb)"] plain(4-) last m
    by (simp add: same spec)
  moreover have "mock_put (MongoDBObj m) (fst st') = fst st'"
    using keep(2) by (simp add: mock_put_def mdb_key stored_resource_def fun_upd_idem)
  moreover have "config_name mdb \<notin> conn_name mdb ` set (GetScramUsers mdb)"
    by (rule connections_apartD [OF plain(2)]) simp
  ultimately show ?thesis
    using fin e spec keep last m(1) by (intro exI [of _ st'] exI [of _ m]) (simp add: ended_def)
qed

lemma run_step:
  assumes r: "scaling_operator r" and at: "at_members r n spec c w"
  shows "\<exists>out w' rw'. controller_Reconcile r n (w, rw) = (out, w', rw') \<and> run_reports r n spec c w out w'
    \<and> at_members r n spec (members_after r n (spec_Members spec) c w w') w'"
proof -
  obtain mdb k s where d: "deployed r w n mdb" and m: "mdb_Spec mdb = spec" "stat_CurrentStatefulSetReplicas (mdb_Status mdb) = c"
    and s: "stored_set w n k s" "\<not> isPreReadinessInitContainerStatefulSet s" using at by (auto simp: at_members_def)
  have plain: "plain_resource mdb" and n: "NamespacedName mdb = n" using d by (simp_all add: deployed_def stored_resource_def)
  note mm = plain_members [OF plain]
  have cn: "config_name mdb = config_of n" by (simp add: config_name_of n)
  obtain w1 rw1 k1 s1 ac where w1: "settled_world r mdb w1" "same_inputs mdb w w1" and s1: "stored_set w1 n k1 s1" "\<not> isPreReadinessInitContainerStatefulSet s1"
    and ac: "stored_config (mock_secret_data w1) (config_of n) ac"
    and run: "controller_Reconcile r n (w, rw) =
        (if set_ready s (to_int32 (next_members mdb)) \<and> agents_at (r_cast r) w n (next_members mdb) (ac_Version ac)
         then finish_reconcile r mdb (w1, rw1) else report r mdb waiting_options (w1, rw1))" (is "_ = (if ?ready then _ else _)")
    using reconcile_existing [OF r d s, of rw] unfolding cn by blast
  have ready: "run_ready r n (scale_step (spec_Members spec) c) w w' \<longleftrightarrow> ?ready" if "mock_secret_data w' (config_of n) = mock_secret_data w1 (config_of n)" for w'
    using run_ready_iff [OF s(1), of w' ac r] ac that by (simp add: stored_config_def m)
  have put: "mock_secret_data (mock_put (MongoDBObj x) w1) = mock_secret_data w1" for x by (rule secret_data_cong) simp
  show ?thesis
  proof (cases "?ready \<and> next_members mdb = spec_Members spec")
    case True
    from run_stores_running [OF r d w1, of rw1] True m obtain st' m' where st':
      "finish_reconcile r mdb (w1, rw1) = (Ok result_OK, st')" "deployed r (fst st') n m'" "mdb_Spec m' = spec"
      "stat_Phase (mdb_Status m') = ''Running''" "stat_CurrentStatefulSetReplicas (mdb_Status m') = spec_Members spec"
      "fst st' StatefulSetKind = w1 StatefulSetKind" "mock_secret_data (fst st') (config_of n) = mock_secret_data w1 (config_of n)"
      by (auto simp: cn)
    have "stored_set (fst st') n k1 s1" using s1 st'(6) by (simp add: stored_set_def)
    from run_reportsI [where res = result_OK and w = w and c = c, OF st'(2,3) _ _ _ this s1(2)] st' ready [OF st'(7)] True m run show ?thesis
      by (cases st') (auto simp: members_after_def run_done_def)
  next
    case False
    define opts where "opts = (if ?ready then scaling_options mdb else waiting_options)"
    define c' where "c' = (if ?ready then next_members mdb else c)"
    let ?w' = "mock_put (MongoDBObj (apply_options opts mdb)) w1"
    have "?ready \<Longrightarrow> IsStillScaling (statefulset_scaler mdb)" using False m mm(1) by (simp add: still_scaling_iff)
    then have run': "controller_Reconcile r n (w, rw) = report r mdb opts (w1, rw1)" using run by (simp add: finish_reconcile_def opts_def)
    have st: "stat_CurrentStatefulSetReplicas (mdb_Status (apply_options opts mdb)) = c'" "0 < c'"
      "stat_CurrentMongoDBMembers (mdb_Status (apply_options opts mdb)) = c'" "\<exists>opt \<in> set opts. asks_again opt"
      "stat_Phase (mdb_Status (apply_options opts mdb)) = ''Pending''" "mdb_Spec (apply_options opts mdb) = spec"
      using apply_finish_options(1,2) [of mdb] apply_retries [where mdb = mdb, OF retries_pending] retries_asks_again [OF retries_pending]
        scaling_options_ask mm m plain
      by (auto simp: status_phases opts_def c'_def plain_resource_def)
    obtain res where res: "report r mdb opts (w1, rw1) = (Ok res, ?w', rw1)" "res \<noteq> result_OK" "deployed r ?w' n (apply_options opts mdb)"
      using run_stores_status [OF r d w1 st(1-4)] by blast
    have "stored_set ?w' n k1 s1" using s1 by (simp add: set_after_status)
    moreover have "members_after r n (spec_Members spec) c w ?w' = c'" "\<not> run_done r n (spec_Members spec) c w ?w'"
      using ready [of ?w'] False m by (auto simp: members_after_def run_done_def put c'_def)
    ultimately show ?thesis
      using run_reportsI [where res = res and w = w and c = c, OF res(3) st(6) _ _ _ _ s1(2)] run' res st by simp
  qed
qed

section \<open>Sequences of runs\<close>

text \<open>What the cluster reports before a run: the replicas of the set that are updated and ready, and the pods.\<close>

type_synonym cluster_report = "int32 \<times> int32 \<times> pod list"

definition observe :: "nsname \<Rightarrow> cluster_report \<Rightarrow> mock_cluster \<Rightarrow> mock_cluster" where
  "observe n e w = (let (updated, ready, pods) = e in
     (case w StatefulSetKind n of
        Some (StatefulSetObj s) \<Rightarrow> mock_put (StatefulSetObj
          (s\<lparr>sts_Status := (sts_Status s)\<lparr>stss_UpdatedReplicas := updated, stss_ReadyReplicas := ready\<rparr>\<rparr>)) w
      | _ \<Rightarrow> w)(PodKind := (\<lambda>p. map_option PodObj (find (\<lambda>pod. object_key (pod_Meta pod) = p) pods))))"

type_synonym run = "mock_cluster \<times> reconcile_result outcome \<times> mock_cluster"

text \<open>One reconciliation after each report: the states before and after it, and what it returns.\<close>

fun runs :: "mock_cluster reconciler \<Rightarrow> nsname \<Rightarrow> cluster_report list \<Rightarrow> mock_cluster rstate \<Rightarrow> run list \<times> mock_cluster rstate" where
  "runs r n [] st = ([], st)"
| "runs r n (e # es) st =
     (let w = observe n e (fst st); (out, st1) = controller_Reconcile r n (w, snd st); (steps, st2) = runs r n es st1
      in ((w, out, fst st1) # steps, st2))"

text \<open>Every run reports what the cluster reported before it, and the number of runs that moved.\<close>

fun follows :: "mock_cluster reconciler \<Rightarrow> nsname \<Rightarrow> mongodb_community_spec \<Rightarrow> int \<Rightarrow> run list \<Rightarrow> bool" where
  "follows r n spec c [] = True"
| "follows r n spec c ((w, out, w') # steps) =
     (run_reports r n spec c w out w' \<and> follows r n spec (members_after r n (spec_Members spec) c w w') steps)"

fun ready_runs :: "mock_cluster reconciler \<Rightarrow> nsname \<Rightarrow> int \<Rightarrow> int \<Rightarrow> run list \<Rightarrow> nat" where
  "ready_runs r n d c [] = 0"
| "ready_runs r n d c ((w, out, w') # steps) =
     (if run_ready r n (scale_step d c) w w' then 1 else 0) + ready_runs r n d (members_after r n d c w w') steps"

lemma observe_stored:
  assumes "stored_set w n k s"
  shows "stored_set (observe n (u, v, ps) w) n k (s\<lparr>sts_Status := (sts_Status s)\<lparr>stss_UpdatedReplicas := u, stss_ReadyReplicas := v\<rparr>\<rparr>)"
  using assms by (simp add: observe_def stored_set_def mock_put_def ObjectKeyFromObject_def)

lemma observe_frame:
  "kind \<noteq> StatefulSetKind \<Longrightarrow> kind \<noteq> PodKind \<Longrightarrow> observe n e w kind = w kind"
  by (cases e) (simp add: observe_def split: option.split k8s_object.split)

lemma observe_well_kinded:
  assumes "well_kinded w"
  shows "well_kinded (observe n e w)"
proof -
  have "well_kinded (w'(PodKind := (\<lambda>p. map_option PodObj (find (\<lambda>pod. object_key (pod_Meta pod) = p) pods))))" if "well_kinded w'" for w' pods
    using that by (auto simp: well_kinded_def ObjectKeyFromObject_def find_Some_iff)
  with assms show ?thesis by (cases e) (auto simp: observe_def split: option.split k8s_object.split)
qed

lemma observe_at:
  assumes r: "scaling_operator r" and at: "at_members r n spec c w"
  shows "at_members r n spec c (observe n e w)"
proof -
  obtain u v ps where e: "e = (u, v, ps)" by (cases e)
  obtain mdb k s where d: "deployed r w n mdb" and m: "mdb_Spec mdb = spec" "stat_CurrentStatefulSetReplicas (mdb_Status mdb) = c"
    and s: "stored_set w n k s" "\<not> isPreReadinessInitContainerStatefulSet s" using at by (auto simp: at_members_def)
  have data: "mock_secret_data (observe n e w) = mock_secret_data w" by (rule secret_data_cong) (simp add: observe_frame)
  have "settled_world r mdb (observe n e w)"
    using d observe_well_kinded deployment_world.configured_frame [where data = mock_secret_data and w = w, OF scaling_operatorD(3) [OF r] _ data]
    by (auto simp: deployed_def settled_world_def)
  then have "deployed r (observe n e w) n mdb"
    using d by (simp add: deployed_def data stored_resource_def observe_frame)
  moreover have "\<not> isPreReadinessInitContainerStatefulSet (s\<lparr>sts_Status := st\<rparr>)" for st
    using s(2) by (simp add: isPreReadinessInitContainerStatefulSet_def)
  ultimately show ?thesis using observe_stored [OF s(1)] m unfolding at_members_def e by blast
qed

lemma at_members_pos: "at_members r n spec c w \<Longrightarrow> 0 < c \<and> 0 < spec_Members spec"
  by (auto simp: at_members_def deployed_def plain_resource_def plain_spec_def)

lemma scale_steps_below:
  assumes "0 < d" and "0 < c"
  shows "(scale_step d ^^ k) c = d \<longleftrightarrow> nat \<bar>d - c\<bar> \<le> k"
  unfolding scale_steps [OF assms] by (auto simp: min_def max_def)

lemma runs_follow:
  assumes r: "scaling_operator r" and at: "at_members r n spec c w"
  shows "\<exists>steps st'. runs r n es (w, rw) = (steps, st') \<and> length steps = length es \<and> follows r n spec c steps
    \<and> at_members r n spec ((scale_step (spec_Members spec) ^^ ready_runs r n (spec_Members spec) c steps) c) (fst st')"
  using at
proof (induction es arbitrary: c w rw)
  case Nil
  then show ?case by simp
next
  case (Cons e es)
  let ?d = "spec_Members spec" and ?w = "observe n e w"
  obtain out w1 rw1 where 1: "controller_Reconcile r n (?w, rw) = (out, w1, rw1)" "run_reports r n spec c ?w out w1"
    "at_members r n spec (members_after r n ?d c ?w w1) w1" using run_step [OF r observe_at [OF r Cons.prems]] by blast
  from Cons.IH [OF 1(3), of rw1] obtain steps st' where 2: "runs r n es (w1, rw1) = (steps, st')" "length steps = length es"
    "follows r n spec (members_after r n ?d c ?w w1) steps"
    "at_members r n spec ((scale_step ?d ^^ ready_runs r n ?d (members_after r n ?d c ?w w1) steps) (members_after r n ?d c ?w w1)) (fst st')"
    by blast
  have "(scale_step ?d ^^ ready_runs r n ?d (members_after r n ?d c ?w w1) steps) (members_after r n ?d c ?w w1)
      = (scale_step ?d ^^ ready_runs r n ?d c ((?w, out, w1) # steps)) c"
    by (simp add: members_after_def funpow_swap1)
  with 1 2 show ?case by (intro exI [of _ "(?w, out, w1) # steps"] exI [of _ st']) simp
qed

text \<open>
  C2. Scaling follows the cluster: a deployment on the in-memory cluster with \<open>c\<close> members is reconciled any
  number of times, and before each run the cluster reports any numbers of updated and ready replicas
  and any pods. No run fails. A run stores one member more or less, towards the desired number \<open>d\<close>,
  exactly when that number is ready, and otherwise the number it found: the set reports it as updated
  and ready, and the agents of the pods up to it report the version of the automation
  configuration that is then stored, or none of these pods exists. The run that stores or confirms
  \<open>d\<close> as ready ends with the phase running, every other one is pending and asks to be repeated.
  Hence \<open>d\<close> members are reached after exactly as many ready runs as the numbers are apart.
  The resource has no TLS and no horizons, a compatibility version and an unchanged version, leaves
  replicas and update strategy to the operator, and its users have their passwords.
\<close>

theorem scaling_follows_reports:
  assumes "scaling_operator r" and "at_members r n spec c w"
  defines "d \<equiv> spec_Members spec"
  shows "\<exists>steps st' m. runs r n es (w, rw) = (steps, st') \<and> length steps = length es \<and> follows r n spec c steps
    \<and> stored_resource (fst st') n m
    \<and> stat_CurrentStatefulSetReplicas (mdb_Status m) = (scale_step d ^^ ready_runs r n d c steps) c
    \<and> (stat_CurrentStatefulSetReplicas (mdb_Status m) = d \<longleftrightarrow> nat \<bar>d - c\<bar> \<le> ready_runs r n d c steps)"
proof -
  obtain steps st' where 1: "runs r n es (w, rw) = (steps, st')" "length steps = length es" "follows r n spec c steps"
    "at_members r n spec ((scale_step d ^^ ready_runs r n d c steps) c) (fst st')"
    using runs_follow [OF assms(1,2)] unfolding d_def by blast
  then obtain m where "stored_resource (fst st') n m"
    "stat_CurrentStatefulSetReplicas (mdb_Status m) = (scale_step d ^^ ready_runs r n d c steps) c"
    by (auto simp: at_members_def deployed_def)
  with 1 show ?thesis using at_members_pos [OF assms(2)] scale_steps_below [of d c]
    by (intro exI [of _ steps] exI [of _ st'] exI [of _ m]) (simp add: d_def)
qed

section \<open>The reports of the tests\<close>

text \<open>
  The controller's tests set the numbers of the next reconciliation before they reconcile
  (\<open>makeStatefulSetReady\<close>), and have no pods.
\<close>

fun ready_reports :: "int \<Rightarrow> int \<Rightarrow> nat \<Rightarrow> cluster_report list" where
  "ready_reports d c 0 = []"
| "ready_reports d c (Suc k) = (to_int32 (scale_step d c), to_int32 (scale_step d c), []) # ready_reports d (scale_step d c) k"

lemma observed_ready:
  assumes "at_members r n spec c w" and "at_members r n spec c' w'"
  shows "run_ready r n x (observe n (u, v, []) w) w' \<longleftrightarrow> u = to_int32 x \<and> v = to_int32 x"
proof -
  obtain k s where s: "stored_set w n k s" using assms(1) by (auto simp: at_members_def)
  obtain mdb where "deployed r w' n mdb" using assms(2) by (auto simp: at_members_def)
  then obtain ac where ac: "stored_config (mock_secret_data w') (config_of n) ac"
    using settled_config [of r mdb w'] by (auto simp: deployed_def stored_resource_def config_name_of)
  have "mock_pods (observe n (u, v, []) w) p = None" for p by (simp add: mock_pods_def observe_def)
  then have "agents_at (r_cast r) (observe n (u, v, []) w) n x y" for y by (simp add: agents_at_def)
  then show ?thesis using run_ready_iff [OF observe_stored [OF s] ac] by (simp add: set_ready_def)
qed

lemma ready_run:
  assumes r: "scaling_operator r" and at: "at_members r n spec c w"
  defines "c1 \<equiv> scale_step (spec_Members spec) c"
  shows "\<exists>out w1 rw1. controller_Reconcile r n (observe n (to_int32 c1, to_int32 c1, []) w, rw) = (out, w1, rw1)
    \<and> at_members r n spec c1 w1 \<and> (\<exists>res m. out = Ok res \<and> stored_resource w1 n m
         \<and> stat_CurrentStatefulSetReplicas (mdb_Status m) = c1 \<and> stat_CurrentMongoDBMembers (mdb_Status m) = c1
         \<and> stat_Phase (mdb_Status m) = (if c1 = spec_Members spec then ''Running'' else ''Pending'')
         \<and> (res = result_OK \<longleftrightarrow> c1 = spec_Members spec))"
proof -
  let ?w = "observe n (to_int32 c1, to_int32 c1, []) w"
  obtain out w1 rw1 where 1: "controller_Reconcile r n (?w, rw) = (out, w1, rw1)" "run_reports r n spec c ?w out w1"
    "at_members r n spec (members_after r n (spec_Members spec) c ?w w1) w1" using run_step [OF r observe_at [OF r at]] by blast
  have ready: "run_ready r n c1 ?w w1" using observed_ready [OF at 1(3)] by simp
  with 1 show ?thesis by (auto simp: run_reports_def members_after_def run_done_def c1_def)
qed

lemma scaled_by_tests:
  assumes r: "scaling_operator r" and "at_members r n spec c w" and "nat \<bar>spec_Members spec - c\<bar> = Suc k"
  shows "\<exists>steps results st' m. runs r n (ready_reports (spec_Members spec) c (Suc k)) (w, rw) = (steps, st')
    \<and> map (fst \<circ> snd) steps = map Ok (results @ [result_OK]) \<and> result_OK \<notin> set results
    \<and> stored_resource (fst st') n m \<and> stat_Phase (mdb_Status m) = ''Running''
    \<and> stat_CurrentStatefulSetReplicas (mdb_Status m) = spec_Members spec \<and> stat_CurrentMongoDBMembers (mdb_Status m) = spec_Members spec"
  using assms(2,3)
proof (induction k arbitrary: c w rw)
  case 0
  then have "scale_step (spec_Members spec) c = spec_Members spec"
    using at_members_pos [OF 0(1)] scale_steps_below [of "spec_Members spec" c 1] by simp
  with ready_run [OF r 0(1), of rw] show ?case by (fastforce intro: exI [of _ "[]"])
next
  case (Suc k)
  let ?d = "spec_Members spec" and ?c = "scale_step (spec_Members spec) c"
  have c1: "?c \<noteq> ?d" "nat \<bar>?d - ?c\<bar> = Suc k"
    using at_members_pos [OF Suc.prems(1)] Suc.prems(2) scale_step_up [of c ?d] scale_step_down [of ?d c]
    by (cases "c < ?d"; auto)+
  obtain w1 rw1 res where 1: "controller_Reconcile r n (observe n (to_int32 ?c, to_int32 ?c, []) w, rw) = (Ok res, w1, rw1)"
    "at_members r n spec ?c w1" "res \<noteq> result_OK" using ready_run [OF r Suc.prems(1), of rw] c1(1) by auto
  from Suc.IH [OF 1(2) c1(2), of rw1] obtain steps results st' m where
    2: "runs r n (ready_reports ?d ?c (Suc k)) (w1, rw1) = (steps, st')" "map (fst \<circ> snd) steps = map Ok (results @ [result_OK])"
    "result_OK \<notin> set results" "stored_resource (fst st') n m" "stat_Phase (mdb_Status m) = ''Running''"
    "stat_CurrentStatefulSetReplicas (mdb_Status m) = ?d" "stat_CurrentMongoDBMembers (mdb_Status m) = ?d" by blast
  let ?steps = "(observe n (to_int32 ?c, to_int32 ?c, []) w, Ok res, w1) # steps"
  have "runs r n (ready_reports ?d c (Suc (Suc k))) (w, rw) = (?steps, st')" using 1(1) 2(1) by simp
  moreover have "map (fst \<circ> snd) ?steps = map Ok ((res # results) @ [result_OK])" using 2(2) by simp
  ultimately show ?case using 1(3) 2(3-) by (metis set_ConsD)
qed

section \<open>An example\<close>

text \<open>Three members run, and five are wanted.\<close>

definition grown_mdb :: mongodb_community where
  "grown_mdb = (let m = example_mdb 5 ''4.4.0'' False in
     m\<lparr>mdb_Spec := (mdb_Spec m)\<lparr>spec_FeatureCompatibilityVersion := ''4.4''\<rparr>,
       mdb_Status := (mdb_Status m)\<lparr>stat_CurrentStatefulSetReplicas := 3, stat_CurrentMongoDBMembers := 3\<rparr>\<rparr>)"

definition three_replicas :: statefulset where
  "three_replicas = empty_statefulset\<lparr>sts_Meta := empty_meta\<lparr>om_Name := ''db'', om_Namespace := ''ns''\<rparr>,
     sts_Spec := empty_statefulset_spec\<lparr>sts_Replicas := Some 3, sts_Template := empty_pod_template_spec\<lparr>pts_Spec :=
       empty_pod_spec\<lparr>ps_InitContainers := [empty_container\<lparr>c_Name := ReadinessProbeContainerName\<rparr>]\<rparr>\<rparr>\<rparr>\<rparr>"

abbreviation example_operator_of :: "mock_cluster reconciler" where
  "example_operator_of \<equiv> mock_reconciler example_libs (\<lambda>_. None)"

lemma example_scaling_operator: "scaling_operator example_operator_of"
  using example_operator libs_keep_maps_example by (simp add: scaling_operator_def)

lemma grown_names:
  "GetScramUsers grown_mdb = GetScramUsers (example_mdb 3 ''4.4.0'' False)" "NamespacedName grown_mdb = NamespacedName (example_mdb 3 ''4.4.0'' False)"
  "config_name grown_mdb = config_name (example_mdb 3 ''4.4.0'' False)" "GetScramOptions grown_mdb = GetScramOptions (example_mdb 3 ''4.4.0'' False)"
  "GetAgentPasswordSecretNamespacedName grown_mdb = GetAgentPasswordSecretNamespacedName (example_mdb 3 ''4.4.0'' False)"
  "GetAgentKeyfileSecretNamespacedName grown_mdb = GetAgentKeyfileSecretNamespacedName (example_mdb 3 ''4.4.0'' False)"
  "stls_Enabled (mdb_TLS grown_mdb) = False"
  by (simp_all add: grown_mdb_def Let_def GetScramUsers_def NamespacedName_def config_name_def AutomationConfigSecretName_def GetScramOptions_def
      GetAgentPasswordSecretNamespacedName_def GetAgentKeyfileSecretNamespacedName_def example_mdb_def)

lemma grown_plain: "plain_resource grown_mdb" "controller_validateSpec r grown_mdb = Ok ()"
proof -
  have "secrets_apart grown_mdb"
    using example_secrets_apart [of 3 "''4.4.0''"] by (simp add: secrets_apart_def grown_names Let_def)
  then show "plain_resource grown_mdb"
    by (simp add: plain_resource_def plain_spec_def grown_names(7)) (simp add: grown_mdb_def example_mdb_def Let_def wf_spec_def wf_args_def
        empty_statefulset_spec_def IsChangingVersion_def getLastVersion_def GetAnnotation_def empty_meta_def)
  have "valid_spec grown_mdb"
    by (simp add: valid_spec_def grown_names) (simp add: grown_mdb_def Let_def example_mdb_def known_modes_def)
  moreover have "om_Annotations (mdb_Meta grown_mdb) = None" by (simp add: grown_mdb_def Let_def example_mdb_def empty_meta_def)
  ultimately show "controller_validateSpec r grown_mdb = Ok ()"
    using validateSpec_None_iff [of grown_mdb] by (simp add: controller_validateSpec_def ValidateInitalSpec_def error_outcome_def)
qed

text \<open>A cluster in which the automation configuration of the example was ensured.\<close>

lemma example_configured:
  obtains w where "well_kinded w" and "configured example_operator_of mock_secret_data (example_mdb 3 ''4.4.0'' False) w"
    and "has_password (mock_secret_data w) \<lparr>nn_Namespace = ''ns'', nn_Name = ''db''\<rparr> example_user"
proof -
  let ?r = example_operator_of and ?m = "example_mdb 3 ''4.4.0'' False"
  obtain ac w' where run: "ensureAutomationConfig ?r ?m example_cluster = (Ok ac, w')" using example_run by blast
  have "wf_spec ?m" by (simp add: wf_spec_def example_mdb_def wf_args_def)
  then have c: "well_kinded w'" "configured ?r mock_secret_data ?m w'"
    and pw: "mock_secret_data w' \<lparr>nn_Namespace = ''ns'', nn_Name = ''pw''\<rparr> = Some (Some [(''password'', ''s3cret'')])"
    using mock_deployment.configured_after [OF example_cluster_data(1) example_secrets_apart run] libs_keep_maps_example
    by (auto simp: example_names example_cluster_data(2))
  have "has_password (mock_secret_data w') \<lparr>nn_Namespace = ''ns'', nn_Name = ''db''\<rparr> example_user"
    using pw by (simp add: has_password_def example_names) (simp add: example_user_def password_in_def put_all_def)
  then show ?thesis using c that by blast
qed

text \<open>An operator that stores the number of members of a specification and restores the rest from \<open>base\<close>.\<close>

definition counting_operator :: "mongodb_community_spec \<Rightarrow> mock_cluster reconciler" where
  "counting_operator base = example_operator_of\<lparr>r_spec_json := (\<lambda>spec. Ok (replicate (nat (spec_Members spec)) CHR ''x'')),
     r_spec_of_json := (\<lambda>js. Ok (base\<lparr>spec_Members := int (length js)\<rparr>))\<rparr>"

lemma counting_operator_sel [simp]:
  "scram_deps_of (counting_operator base) = scram_deps_of example_operator_of"
  "r_multierror (counting_operator base) = r_multierror example_operator_of"
  by (simp_all add: counting_operator_def scram_deps_of_def)

lemma counting_operator: "scaling_operator (counting_operator base)"
proof -
  have "deployment_world (counting_operator base) mock_secret_data well_kinded"
    using deployment_world.axioms [OF mock_deployment.deployment_world_axioms] by (metis counting_operator_sel(1) deployment_world.intro)
  then show ?thesis
    using example_scaling_operator by (simp add: scaling_operator_def mock_operator_def counting_operator_def)
qed

lemma counting_readable: "0 < m \<Longrightarrow> spec_readable (counting_operator base) (base\<lparr>spec_Members := m\<rparr>)"
  by (simp add: spec_readable_def counting_operator_def)

lemma grown_connections: "connections_apart grown_mdb"
proof -
  have "conn_name grown_mdb example_user = \<lparr>nn_Namespace = ''ns'', nn_Name = ''db-admin-ann''\<rparr>"
    by (simp add: conn_name_def GetConnectionStringSecretName_def grown_names example_user_def) (simp add: grown_mdb_def Let_def example_mdb_def)
  then show ?thesis
    by (simp add: connections_apart_def grown_names Let_def example_names example_config_name GetAgentPasswordSecretNamespacedName_def
        GetAgentKeyfileSecretNamespacedName_def)
qed

lemma grown_readable: "spec_readable (counting_operator (mdb_Spec grown_mdb)) (mdb_Spec grown_mdb)"
  by (simp add: spec_readable_def counting_operator_def grown_mdb_def Let_def example_mdb_def)

lemma example_at_members:
  "\<exists>w. at_members (counting_operator (mdb_Spec grown_mdb)) \<lparr>nn_Namespace = ''ns'', nn_Name = ''db''\<rparr> (mdb_Spec grown_mdb) 3 w"
proof -
  let ?r = "counting_operator (mdb_Spec grown_mdb)" and ?m = "example_mdb 3 ''4.4.0'' False" and ?n = "\<lparr>nn_Namespace = ''ns'', nn_Name = ''db''\<rparr>"
  obtain w' where c: "well_kinded w'" "configured example_operator_of mock_secret_data ?m w'" and pw: "has_password (mock_secret_data w') ?n example_user"
    by (rule example_configured)
  define w where "w = mock_put (StatefulSetObj three_replicas) (mock_put (MongoDBObj grown_mdb) w')"
  have data: "mock_secret_data w = mock_secret_data w'" by (rule secret_data_cong) (simp add: w_def)
  have "configured example_operator_of mock_secret_data grown_mdb w'"
    by (rule configured_other [OF c(2) grown_names(1-6) deployment_world.axioms [OF mock_deployment.deployment_world_axioms]])
  then have "configured ?r mock_secret_data grown_mdb w"
    using mock_deployment.configured_frame [where w' = w and w = w', OF _ data] by (simp add: configured_def)
  then have "settled_world ?r grown_mdb w" using c(1) by (simp add: settled_world_def) (simp add: w_def)
  moreover have "stored_resource w ?n grown_mdb"
    using mock_put_resource [of grown_mdb w'] by (simp add: w_def stored_resource_def grown_names)
  moreover have "has_password (mock_secret_data w) ?n u" if "u \<in> set (GetScramUsers grown_mdb)" for u
    using that pw by (simp add: data grown_names)
  ultimately have "deployed ?r w ?n grown_mdb" by (simp add: deployed_def grown_plain grown_connections grown_readable)
  moreover have "stored_set w ?n 3 three_replicas" "\<not> isPreReadinessInitContainerStatefulSet three_replicas"
    by (simp_all add: stored_set_def w_def mock_put_def ObjectKeyFromObject_def object_key_def three_replicas_def empty_statefulset_def empty_meta_def
        isPreReadinessInitContainerStatefulSet_def GetByName_find)
  moreover have "stat_CurrentStatefulSetReplicas (mdb_Status grown_mdb) = 3" by (simp add: grown_mdb_def Let_def)
  ultimately show ?thesis unfolding at_members_def by blast
qed

text \<open>Without pods, the numbers of replicas alone decide which runs are ready.\<close>

fun ready_count :: "int \<Rightarrow> int \<Rightarrow> (int32 \<times> int32) list \<Rightarrow> nat" where
  "ready_count d c [] = 0"
| "ready_count d c ((u, v) # es) =
     (if u = to_int32 (scale_step d c) \<and> v = to_int32 (scale_step d c) then Suc (ready_count d (scale_step d c) es) else ready_count d c es)"

lemma ready_runs_count:
  assumes r: "scaling_operator r" and "at_members r n spec c w" and "runs r n (map (\<lambda>(u, v). (u, v, [])) es) (w, rw) = (steps, st')"
  shows "ready_runs r n (spec_Members spec) c steps = ready_count (spec_Members spec) c es"
  using assms(2,3)
proof (induction es arbitrary: c w rw steps)
  case Nil
  then show ?case by auto
next
  case (Cons e es)
  obtain u v where e: "e = (u, v)" by fastforce
  let ?d = "spec_Members spec" and ?w = "observe n (u, v, []) w"
  obtain out w1 rw1 where 1: "controller_Reconcile r n (?w, rw) = (out, w1, rw1)"
    "at_members r n spec (members_after r n ?d c ?w w1) w1" using run_step [OF r observe_at [OF r Cons.prems(1)]] by blast
  obtain steps' where 2: "runs r n (map (\<lambda>(u, v). (u, v, [])) es) (w1, rw1) = (steps', st')" and steps: "steps = (?w, out, w1) # steps'"
    using Cons.prems(2) 1(1) by (auto simp: e split: prod.splits)
  from Cons.IH [OF 1(2) 2] observed_ready [OF Cons.prems(1) 1(2)] show ?case by (simp add: e steps members_after_def)
qed

theorem scaling_follows_reports_witness:
  "\<exists>w steps st' m. runs (counting_operator (mdb_Spec grown_mdb)) \<lparr>nn_Namespace = ''ns'', nn_Name = ''db''\<rparr>
      [(3, 3, []), (4, 4, []), (4, 5, []), (5, 5, [])] (w, watch_New) = (steps, st')
    \<and> follows (counting_operator (mdb_Spec grown_mdb)) \<lparr>nn_Namespace = ''ns'', nn_Name = ''db''\<rparr> (mdb_Spec grown_mdb) 3 steps
    \<and> ready_runs (counting_operator (mdb_Spec grown_mdb)) \<lparr>nn_Namespace = ''ns'', nn_Name = ''db''\<rparr> 5 3 steps = 2
    \<and> stored_resource (fst st') \<lparr>nn_Namespace = ''ns'', nn_Name = ''db''\<rparr> m \<and> stat_CurrentStatefulSetReplicas (mdb_Status m) = 5"
proof -
  let ?r = "counting_operator (mdb_Spec grown_mdb)" and ?n = "\<lparr>nn_Namespace = ''ns'', nn_Name = ''db''\<rparr>"
  obtain w where at: "at_members ?r ?n (mdb_Spec grown_mdb) 3 w" using example_at_members by blast
  have d: "spec_Members (mdb_Spec grown_mdb) = 5" by (simp add: grown_mdb_def Let_def example_mdb_def)
  have count: "ready_count 5 3 [(3, 3), (4, 4), (4, 5), (5, 5)] = 2" by (simp add: scale_step_up to_int32_def)
  from scaling_follows_reports [OF counting_operator at, of "[(3, 3, []), (4, 4, []), (4, 5, []), (5, 5, [])]" watch_New]
  obtain steps st' m where s: "runs ?r ?n [(3, 3, []), (4, 4, []), (4, 5, []), (5, 5, [])] (w, watch_New) = (steps, st')"
    "follows ?r ?n (mdb_Spec grown_mdb) 3 steps" "stored_resource (fst st') ?n m"
    "stat_CurrentStatefulSetReplicas (mdb_Status m) = 5 \<longleftrightarrow> 2 \<le> ready_runs ?r ?n 5 3 steps" by (auto simp: d)
  moreover have "ready_runs ?r ?n 5 3 steps = 2"
    using ready_runs_count [OF counting_operator at, of "[(3, 3), (4, 4), (4, 5), (5, 5)]"] s(1) count by (simp add: d)
  ultimately show ?thesis by (intro exI [of _ w] exI [of _ steps] exI [of _ st'] exI [of _ m]) simp
qed

end
