(* ===== verification/Upgrade.thy ===== *)
theory Upgrade
  imports Scaling
begin

text \<open>
  A change of the MongoDB version on the in-memory cluster: the stateful set is switched to
  \<open>OnDelete\<close>, so that the version hook and not Kubernetes replaces the pods, and back once the agents
  of all pods have reached the new configuration.
\<close>

section \<open>A run of an upgrade\<close>














end
