(* ===== verification/Lifecycle.thy ===== *)
theory Lifecycle
  imports Scaling
begin

text \<open>
  The life of a deployment on the in-memory cluster: the resource is created, its deployment runs, the
  user asks for another number of members, and the operator scales to it. The parts are proved in
  \<open>Fresh\<close>, \<open>Finish\<close> and \<open>Scaling\<close>; here the state that one part leaves is shown to be the one that
  the next part starts from.
\<close>

section \<open>Another number of members\<close>

text \<open>The user changes the number of members of the stored resource.\<close>

definition edit_members :: "nsname \<Rightarrow> int \<Rightarrow> mock_cluster \<Rightarrow> mock_cluster" where
  "edit_members n d w = (case w MongoDBKind n of
       Some (MongoDBObj m) \<Rightarrow> mock_put (MongoDBObj (m\<lparr>mdb_Spec := (mdb_Spec m)\<lparr>spec_Members := d\<rparr>\<rparr>)) w
     | _ \<Rightarrow> w)"

section \<open>From creation to scaling\<close>

lemma created_at_members:
  assumes r: "scaling_operator r" and new: "new_resource w n mdb" and mdb: "plain_spec mdb" "connections_apart mdb"
    and readable: "\<And>d. 0 < d \<Longrightarrow> spec_readable r ((mdb_Spec mdb)\<lparr>spec_Members := d\<rparr>)"
  shows "\<exists>st1 m. controller_Reconcile r n (w, rw) = (Ok result_OK, st1) \<and> stored_resource (fst st1) n m \<and> mdb_Spec m = mdb_Spec mdb
    \<and> stat_Phase (mdb_Status m) = ''Running'' \<and> stat_CurrentStatefulSetReplicas (mdb_Status m) = spec_Members (mdb_Spec mdb)
    \<and> (\<forall>d > spec_Arbiters (mdb_Spec mdb). at_members r n ((mdb_Spec mdb)\<lparr>spec_Members := d\<rparr>) (spec_Members (mdb_Spec mdb)) (edit_members n d (fst st1)))"
proof -
  have op: "mock_operator r" and L: "libs_keep_maps (r_libs r)" using r by (simp_all add: scaling_operator_def)
  note R = scaling_operatorD [OF r] and members = new_resource_members [OF new] and static = new_resource_static [OF new]
  have pos: "0 < spec_Members (mdb_Spec mdb)" using mdb(1) by (simp add: plain_spec_def)
  then obtain js where js: "r_spec_json r (mdb_Spec mdb) = Ok js" "r_spec_of_json r js = Ok (mdb_Spec mdb)"
    using readable [of "spec_Members (mdb_Spec mdb)"] by (auto simp: spec_readable_def)
  obtain w1 ac w2 s rw' where w1: "well_kinded w1" "\<forall>k. k \<noteq> ServiceKind \<longrightarrow> w1 k = w k" and ac: "ensureAutomationConfig r mdb w1 = (Ok ac, w2)"
    "well_kinded w2" and s: "stored_set (mock_put (StatefulSetObj s) w2) n (to_int32 (spec_Members (mdb_Spec mdb))) s"
    and built: "\<exists>s0. buildStatefulSet r mdb = Ok s0 \<and> sts_Spec s = sts_Spec s0"
    and run: "controller_Reconcile r n (w, rw) = finish_reconcile r mdb (mock_put (StatefulSetObj s) w2, rw')"
    using new_resource_deployed [OF op new, of rw] by blast
  let ?w3 = "mock_put (StatefulSetObj s) w2"
  have d1: "mock_secret_data w1 = mock_secret_data w" by (rule secret_data_cong) (use w1(2) in simp)
  have d3: "mock_secret_data ?w3 = mock_secret_data w2" by (rule secret_data_cong) simp
  have wk3: "well_kinded ?w3" using ac(2) by simp
  have apart: "secrets_apart mdb" "wf_spec mdb" using mdb(1) by (simp_all add: plain_spec_def)
  from deployment_world.configured_after [where data = mock_secret_data, OF R(3) w1(1) apart(1) ac(1) L apart(2)]
  have c2: "configured r mock_secret_data mdb w2"
    and pw: "\<forall>u \<in> set (GetScramUsers mdb). mock_secret_data w2 (pw_name n u) = mock_secret_data w (pw_name n u)" by (simp_all add: static(1) d1)
  have c3: "configured r mock_secret_data mdb ?w3"
    by (rule deployment_world.configured_frame [where data = mock_secret_data, OF R(3) c2 d3])
  have init: "\<not> isPreReadinessInitContainerStatefulSet s"
    using modified_set [where r = r and mdb = mdb and s = empty_statefulset, OF R(4)] mdb(1) built
    by (auto simp: plain_spec_def buildStatefulSet_def isPreReadinessInitContainerStatefulSet_def)
  have users: "\<forall>u \<in> set (GetScramUsers mdb). has_password (mock_secret_data ?w3) n u"
    using new fresh_has_password pw by (fastforce simp: new_resource_def has_password_def d3)
  have valid: "valid_spec mdb" using new by (simp add: new_resource_def)
  obtain st1 m where fin: "finish_reconcile r mdb (?w3, rw') = (Ok result_OK, st1)" and e: "ended mdb js ?w3 (fst st1) m"
    using finish_running [OF op wk3 js(1) members(4,3)] by blast
  have stored: "stored_resource (fst st1) n m" "mdb_Spec m = mdb_Spec mdb" "stat_Phase (mdb_Status m) = ''Running''"
    "stat_CurrentStatefulSetReplicas (mdb_Status m) = spec_Members (mdb_Spec mdb)" "fst st1 StatefulSetKind = ?w3 StatefulSetKind"
    using e by (simp_all add: ended_def members static(1))
  have "at_members r n ((mdb_Spec mdb)\<lparr>spec_Members := d\<rparr>) (spec_Members (mdb_Spec mdb)) (edit_members n d (fst st1))"
    if "spec_Arbiters (mdb_Spec mdb) < d" for d
  proof -
    let ?m = "m\<lparr>mdb_Spec := (mdb_Spec m)\<lparr>spec_Members := d\<rparr>\<rparr>"
    have w': "edit_members n d (fst st1) = mock_put (MongoDBObj ?m) (fst st1)"
      using stored(1) by (simp add: edit_members_def stored_resource_def)
    have "deployed r (edit_members n d (fst st1)) n ?m"
      unfolding w' using readable [of d] that valid stored(2)
      by (intro ended_deployed [OF r c3 users static(1) mdb valid that members(1,2) js(2) e]) (simp add: valid_spec_def)
    moreover have "stored_set (edit_members n d (fst st1)) n (to_int32 (spec_Members (mdb_Spec mdb))) s"
      using s stored(5) by (simp add: w' stored_set_def)
    ultimately show ?thesis using init unfolding at_members_def
      by (intro exI [of _ ?m] exI [of _ "to_int32 (spec_Members (mdb_Spec mdb))"] exI [of _ s]) (simp add: stored)
  qed
  with run fin stored show ?thesis by (intro exI [of _ st1] exI [of _ m]) simp
qed

text \<open>
  C3. From creation to scaling: a new resource without TLS and horizons, with a compatibility version, with
  replicas and update strategy left to the operator, with connection string secrets of their own and a
  specification that can be stored and read back, runs with all its \<open>c\<close> members after one
  reconciliation on the in-memory cluster. When the user then asks for \<open>d\<close> members, more than there
  are arbiters, that very state is scaled as the cluster reports: whatever it reports before each
  further run, no run fails, and a run moves one member towards \<open>d\<close> exactly when the next number is
  ready. When the cluster always reports the next number as ready and has no pods, as the tests of the
  controller have it, there are exactly \<open>|d - c|\<close> runs, all but the last ask to be repeated, and the
  last one stores the running phase and \<open>d\<close> members.
\<close>

theorem create_then_scale:
  assumes "scaling_operator r" and "new_resource w n mdb" and "plain_spec mdb" and "connections_apart mdb"
    and "\<And>k. 0 < k \<Longrightarrow> spec_readable r ((mdb_Spec mdb)\<lparr>spec_Members := k\<rparr>)"
    and "spec_Arbiters (mdb_Spec mdb) < d" and "d \<noteq> spec_Members (mdb_Spec mdb)"
  defines "c \<equiv> spec_Members (mdb_Spec mdb)" and "spec \<equiv> (mdb_Spec mdb)\<lparr>spec_Members := d\<rparr>"
  shows "\<exists>st1 m1. controller_Reconcile r n (w, rw) = (Ok result_OK, st1)
    \<and> stored_resource (fst st1) n m1 \<and> stat_Phase (mdb_Status m1) = ''Running'' \<and> stat_CurrentStatefulSetReplicas (mdb_Status m1) = c
    \<and> (\<forall>es. follows r n spec c (fst (runs r n es (edit_members n d (fst st1), snd st1))))
    \<and> (\<exists>steps results st2 m2. runs r n (ready_reports d c (nat \<bar>d - c\<bar>)) (edit_members n d (fst st1), snd st1) = (steps, st2)
         \<and> map (fst \<circ> snd) steps = map Ok (results @ [result_OK]) \<and> result_OK \<notin> set results
         \<and> stored_resource (fst st2) n m2 \<and> stat_Phase (mdb_Status m2) = ''Running''
         \<and> stat_CurrentStatefulSetReplicas (mdb_Status m2) = d \<and> stat_CurrentMongoDBMembers (mdb_Status m2) = d)"
proof -
  obtain st1 m1 where 1: "controller_Reconcile r n (w, rw) = (Ok result_OK, st1)" "stored_resource (fst st1) n m1"
    "stat_Phase (mdb_Status m1) = ''Running''" "stat_CurrentStatefulSetReplicas (mdb_Status m1) = c"
    and at: "at_members r n spec c (edit_members n d (fst st1))"
    using created_at_members [OF assms(1-5), of rw] assms(6) unfolding c_def spec_def by blast
  obtain k where k: "nat \<bar>d - c\<bar> = Suc k" using assms(7) by (cases "nat \<bar>d - c\<bar>") (auto simp: c_def)
  have "follows r n spec c (fst (runs r n es (edit_members n d (fst st1), snd st1)))" for es
    using runs_follow [OF assms(1) at, of es "snd st1"] by fastforce
  with 1 scaled_by_tests [OF assms(1) at, of k "snd st1"] k show ?thesis
    by (intro exI [of _ st1] exI [of _ m1]) (simp add: spec_def)
qed

text \<open>Three members are created, and five are wanted afterwards.\<close>

definition created_mdb :: mongodb_community where
  "created_mdb = (let m = example_mdb 3 ''4.4.0'' False in m\<lparr>mdb_Spec := (mdb_Spec m)\<lparr>spec_FeatureCompatibilityVersion := ''4.4''\<rparr>\<rparr>)"

lemma created_names:
  "GetScramUsers created_mdb = GetScramUsers (example_mdb 3 ''4.4.0'' False)" "NamespacedName created_mdb = NamespacedName (example_mdb 3 ''4.4.0'' False)"
  "config_name created_mdb = config_name (example_mdb 3 ''4.4.0'' False)" "auth_modes created_mdb = auth_modes (example_mdb 3 ''4.4.0'' False)"
  "GetAgentPasswordSecretNamespacedName created_mdb = GetAgentPasswordSecretNamespacedName (example_mdb 3 ''4.4.0'' False)"
  "GetAgentKeyfileSecretNamespacedName created_mdb = GetAgentKeyfileSecretNamespacedName (example_mdb 3 ''4.4.0'' False)"
  "stls_Enabled (mdb_TLS created_mdb) = False" "spec_Members (mdb_Spec created_mdb) = 3" "spec_Arbiters (mdb_Spec created_mdb) = 0"
  by (simp_all add: created_mdb_def Let_def GetScramUsers_def NamespacedName_def config_name_def AutomationConfigSecretName_def
      GetAgentPasswordSecretNamespacedName_def GetAgentKeyfileSecretNamespacedName_def example_mdb_def)

lemma created_plain: "plain_spec created_mdb" "connections_apart created_mdb"
proof -
  have "secrets_apart created_mdb"
    using example_secrets_apart [of 3 "''4.4.0''"] by (simp add: secrets_apart_def created_names Let_def)
  then show "plain_spec created_mdb"
    by (simp add: plain_spec_def created_names) (simp add: created_mdb_def example_mdb_def Let_def wf_spec_def wf_args_def empty_statefulset_spec_def)
  have "conn_name created_mdb example_user = \<lparr>nn_Namespace = ''ns'', nn_Name = ''db-admin-ann''\<rparr>"
    by (simp add: conn_name_def GetConnectionStringSecretName_def created_names example_user_def) (simp add: created_mdb_def Let_def example_mdb_def)
  then show "connections_apart created_mdb"
    by (simp add: connections_apart_def created_names Let_def example_names example_config_name GetAgentPasswordSecretNamespacedName_def
        GetAgentKeyfileSecretNamespacedName_def)
qed

lemma created_new: "new_resource (mock_put (MongoDBObj created_mdb) example_cluster) \<lparr>nn_Namespace = ''ns'', nn_Name = ''db''\<rparr> created_mdb"
proof -
  let ?w = "mock_put (MongoDBObj created_mdb) example_cluster"
  have data: "mock_secret_data ?w = mock_secret_data example_cluster" by (rule secret_data_cong) simp
  have "stored_resource ?w \<lparr>nn_Namespace = ''ns'', nn_Name = ''db''\<rparr> created_mdb"
    using mock_put_resource [of created_mdb example_cluster] by (simp add: created_names)
  moreover have "?w StatefulSetKind = Map.empty" by (simp add: example_cluster_def mock_empty_def)
  moreover have "well_kinded ?w" by (intro well_kinded_put example_cluster_data(1))
  moreover have "valid_spec created_mdb"
    by (simp add: valid_spec_def created_names) (simp add: example_mdb_def known_modes_def)
  ultimately show ?thesis
    using example_fresh created_plain(1)
    by (simp add: new_resource_def data example_cluster_data(2) example_config_name created_names plain_spec_def)
      (simp add: created_mdb_def Let_def example_mdb_def empty_meta_def)
qed

theorem create_then_scale_witness:
  "\<exists>st1 steps results st2 m2. controller_Reconcile (counting_operator (mdb_Spec created_mdb)) \<lparr>nn_Namespace = ''ns'', nn_Name = ''db''\<rparr>
      (mock_put (MongoDBObj created_mdb) example_cluster, watch_New) = (Ok result_OK, st1)
    \<and> runs (counting_operator (mdb_Spec created_mdb)) \<lparr>nn_Namespace = ''ns'', nn_Name = ''db''\<rparr> [(4, 4, []), (5, 5, [])]
        (edit_members \<lparr>nn_Namespace = ''ns'', nn_Name = ''db''\<rparr> 5 (fst st1), snd st1) = (steps, st2)
    \<and> map (fst \<circ> snd) steps = map Ok (results @ [result_OK]) \<and> result_OK \<notin> set results
    \<and> stored_resource (fst st2) \<lparr>nn_Namespace = ''ns'', nn_Name = ''db''\<rparr> m2 \<and> stat_CurrentStatefulSetReplicas (mdb_Status m2) = 5"
proof -
  have "ready_reports 5 3 (nat \<bar>5 - 3\<bar>) = [(4, 4, []), (5, 5, [])]" by (simp add: numeral_2_eq_2 scale_step_up to_int32_def)
  with create_then_scale [OF counting_operator created_new created_plain counting_readable, of 5 watch_New, unfolded created_names] show ?thesis
    by fastforce
qed

end
