(* ===== verification/Manager.thy ===== *)
theory Manager
  imports Fresh
begin

text \<open>
  The entry point \<open>cmd/manager/main.go\<close>, the constructor and the registration of the controller in
  \<open>controllers/replica_set_controller.go\<close>, and the manager of the tests in
  \<open>pkg/kube/client/mocked_manager.go\<close>. The logger, the configuration of the cluster client, the
  manager and the controller builder come from other packages and are fields of the record
  \<open>start_deps\<close>. The last section is about what the process needs from its environment.
\<close>

section \<open>The interface of a manager\<close>

text \<open>What the operator uses of \<open>manager.Manager\<close>: its client, the scheme of its types, and \<open>Start\<close>.\<close>

record 'w kmanager =
  mgr_GetClient :: "'w kclient"
  mgr_AddToScheme :: "'w \<Rightarrow> unit outcome \<times> 'w"
  mgr_Start :: "'w \<Rightarrow> unit outcome \<times> 'w"

text \<open>\<open>NewClient\<close> embeds the given client, so its four basic calls are those of the given one.\<close>

definition NewClient :: "'w kclient \<Rightarrow> 'w kclient" where
  "NewClient c = c"

section \<open>The controller\<close>

text \<open>
  \<open>NewReconciler\<close>: a client over that of the manager, and a watcher without registrations. The
  reconciler holds a pointer to the watcher, which is part of the state of \<open>Reconcile\<close>. The other
  fields of \<open>base\<close> stand for the packages and the environment of the process.
\<close>

definition NewReconciler :: "'w reconciler \<Rightarrow> 'w kmanager \<Rightarrow> 'w reconciler \<times> resource_watcher" where
  "NewReconciler base mgr = (base\<lparr>r_client := NewClient (mgr_GetClient mgr)\<rparr>, watch_New)"

text \<open>
  What the controller builder is given: the type that is reconciled with the predicate for its
  update events, the type that is watched with the handler of its events, and the reconciler.
  The handler gets the watcher of the moment of the event, as it is reached through the pointer.
\<close>

record ('w, 'q) controller_setup =
  cs_MaxConcurrentReconciles :: int
  cs_For :: k8s_kind
  cs_Predicate :: "k8s_object \<Rightarrow> k8s_object \<Rightarrow> bool outcome"
  cs_Watches :: k8s_kind
  cs_Handler :: "(nsname \<Rightarrow> 'q \<Rightarrow> 'q) \<Rightarrow> 'w rstate \<Rightarrow> watch_event \<Rightarrow> 'q \<Rightarrow> 'q"
  cs_Reconcile :: "nsname \<Rightarrow> 'w rstate \<Rightarrow> reconcile_result outcome \<times> 'w rstate"

definition controller_setup_of :: "'w reconciler \<Rightarrow> ('w, 'q) controller_setup" where
  "controller_setup_of r =
     \<lparr>cs_MaxConcurrentReconciles = 3, cs_For = MongoDBKind, cs_Predicate = UpdateFunc, cs_Watches = SecretKind,
      cs_Handler = (\<lambda>add st. on_event add (snd st)), cs_Reconcile = controller_Reconcile r\<rparr>"

definition SetupWithManager ::
    "('w kmanager \<Rightarrow> ('w, 'q) controller_setup \<Rightarrow> 'w \<Rightarrow> unit outcome \<times> 'w) \<Rightarrow> 'w reconciler \<Rightarrow> 'w kmanager
      \<Rightarrow> 'w \<Rightarrow> unit outcome \<times> 'w" where
  "SetupWithManager builder_Complete r mgr = builder_Complete mgr (controller_setup_of r)"

section \<open>The entry point\<close>

datatype main_end = ExitStatus nat | MainReturns | MainPanics panic

text \<open>
  The packages \<open>main\<close> calls. \<open>st_NewDevelopment\<close> gives a logger and an error, as zap does, and
  \<open>st_Fatalf\<close> is how \<open>log.Sugar().Fatalf\<close> ends the process with that logger.
\<close>

record ('w, 'l, 'c, 'q) start_deps =
  st_NewDevelopment :: "'w \<Rightarrow> ('l \<times> error option) \<times> 'w"
  st_ReplaceGlobals :: "'l \<Rightarrow> 'w \<Rightarrow> 'w"
  st_Fatalf :: "'l \<Rightarrow> string \<Rightarrow> main_end"
  st_GetConfig :: "'w \<Rightarrow> 'c outcome \<times> 'w"
  st_manager_New :: "'c \<Rightarrow> string \<Rightarrow> 'w \<Rightarrow> 'w kmanager outcome \<times> 'w"
  st_Complete :: "'w kmanager \<Rightarrow> ('w, 'q) controller_setup \<Rightarrow> 'w \<Rightarrow> unit outcome \<times> 'w"

definition WatchNamespaceEnv :: string where "WatchNamespaceEnv = ''WATCH_NAMESPACE''"
definition AgentImageEnv :: string where "AgentImageEnv = ''AGENT_IMAGE''"
definition VersionUpgradeHookImageEnv :: string where "VersionUpgradeHookImageEnv = ''VERSION_UPGRADE_HOOK_IMAGE''"
definition ReadinessProbeImageEnv :: string where "ReadinessProbeImageEnv = ''READINESS_PROBE_IMAGE''"

definition configureLogger :: "('w, 'l, 'c, 'q) start_deps \<Rightarrow> 'w \<Rightarrow> ('l \<times> error option) \<times> 'w" where
  "configureLogger d w =
     (case st_NewDevelopment d w of ((logger, err), w') \<Rightarrow> ((logger, err), st_ReplaceGlobals d logger w'))"

text \<open>All variables are looked up, so that every missing one is logged; the log is left out.\<close>

definition hasRequiredVariables :: "environment \<Rightarrow> string list \<Rightarrow> bool" where
  "hasRequiredVariables env envVariables =
     foldl (\<lambda>allPresent envVariable. if env envVariable = None then False else allPresent) True envVariables"

definition watchNamespace :: "string \<Rightarrow> string" where
  "watchNamespace namespace = (if namespace = ''*'' then '''' else namespace)"

text \<open>A call whose error ends the process.\<close>

definition or_fatal ::
    "(string \<Rightarrow> main_end) \<Rightarrow> string \<Rightarrow> ('w \<Rightarrow> 'a outcome \<times> 'w) \<Rightarrow> ('a \<Rightarrow> 'w \<Rightarrow> main_end \<times> 'w) \<Rightarrow> 'w \<Rightarrow> main_end \<times> 'w" where
  "or_fatal fatalf msg m k = (\<lambda>w. case m w of
      (Ok x, w') \<Rightarrow> k x w'
    | (Fail err, w') \<Rightarrow> (fatalf (msg @ error_text err), w')
    | (Panic p, w') \<Rightarrow> (MainPanics p, w'))"

definition manager_main ::
    "('w, 'l, 'c, 'q) start_deps \<Rightarrow> 'w reconciler \<Rightarrow> 'w \<Rightarrow> main_end \<times> 'w" where
  "manager_main d base w0 =
     (case configureLogger d w0 of
        ((log, Some err), w) \<Rightarrow> (st_Fatalf d log (''Failed to configure logger: '' @ error_text err), w)
      | ((log, None), w) \<Rightarrow>
          (let env = r_env base
           in if \<not> hasRequiredVariables env [AgentImageEnv, VersionUpgradeHookImageEnv, ReadinessProbeImageEnv]
              then (ExitStatus 1, w)
              else case env WatchNamespaceEnv of
                None \<Rightarrow> (st_Fatalf d log ''No namespace specified to watch'', w)
              | Some namespace \<Rightarrow>
                  or_fatal (st_Fatalf d log) ''Unable to get config: '' (st_GetConfig d) (\<lambda>cfg.
                  or_fatal (st_Fatalf d log) ''Unable to create manager: '' (st_manager_New d cfg (watchNamespace namespace)) (\<lambda>mgr.
                  or_fatal (st_Fatalf d log) ''Unable to add mdbv1 to scheme: '' (mgr_AddToScheme mgr) (\<lambda>_.
                  or_fatal (st_Fatalf d log) ''Unable to create controller: ''
                    (SetupWithManager (st_Complete d) (fst (NewReconciler base mgr)) mgr) (\<lambda>_.
                  or_fatal (st_Fatalf d log) ''Unable to start manager: '' (mgr_Start mgr) (\<lambda>_ w. (MainReturns, w)))))) w))"

section \<open>The manager of the tests\<close>

record mocked_manager =
  mm_Client :: "mock_cluster kclient"

text \<open>The object is created in a new in-memory client, whose error is ignored.\<close>

definition NewManager :: "k8s_object option \<Rightarrow> mocked_manager \<times> mock_cluster" where
  "NewManager obj =
     (let c = (case obj of None \<Rightarrow> mock_empty | Some obj \<Rightarrow> snd (kCreate mockedClient obj mock_empty))
      in (\<lparr>mm_Client = NewClient mockedClient\<rparr>, c))"

definition NewManagerWithClient :: "mock_cluster kclient \<Rightarrow> mocked_manager" where
  "NewManagerWithClient c = \<lparr>mm_Client = NewClient c\<rparr>"

definition mocked_GetClient :: "mocked_manager \<Rightarrow> mock_cluster kclient" where
  "mocked_GetClient m = mm_Client m"

definition mocked_Start :: "mocked_manager \<Rightarrow> mock_cluster \<Rightarrow> unit outcome \<times> mock_cluster" where
  "mocked_Start m = ret ()"

text \<open>
  The rest of the interface does nothing: registrations succeed without an effect, and what is
  asked for is nil, here \<open>None\<close> of any type.
\<close>

definition mocked_Add :: "mocked_manager \<Rightarrow> 'runnable \<Rightarrow> unit outcome" where "mocked_Add m _ = Ok ()"
definition mocked_Elected :: "mocked_manager \<Rightarrow> 'channel option" where "mocked_Elected m = None"
definition mocked_SetFields :: "mocked_manager \<Rightarrow> 'object \<Rightarrow> unit outcome" where "mocked_SetFields m _ = Ok ()"
definition mocked_GetConfig :: "mocked_manager \<Rightarrow> 'config option" where "mocked_GetConfig m = None"
definition mocked_GetScheme :: "mocked_manager \<Rightarrow> 'scheme option" where "mocked_GetScheme m = None"
definition mocked_GetAPIReader :: "mocked_manager \<Rightarrow> 'reader option" where "mocked_GetAPIReader m = None"
definition mocked_GetEventRecorderFor :: "mocked_manager \<Rightarrow> string \<Rightarrow> 'recorder option" where
  "mocked_GetEventRecorderFor m _ = None"
definition mocked_GetFieldIndexer :: "mocked_manager \<Rightarrow> 'indexer option" where "mocked_GetFieldIndexer m = None"
definition mocked_GetCache :: "mocked_manager \<Rightarrow> 'cache option" where "mocked_GetCache m = None"
definition mocked_GetRecorder :: "mocked_manager \<Rightarrow> string \<Rightarrow> 'recorder option" where "mocked_GetRecorder m _ = None"
definition mocked_GetRESTMapper :: "mocked_manager \<Rightarrow> 'mapper option" where "mocked_GetRESTMapper m = None"
definition mocked_GetWebhookServer :: "mocked_manager \<Rightarrow> 'server option" where "mocked_GetWebhookServer m = None"
definition mocked_AddMetricsExtraHandler :: "mocked_manager \<Rightarrow> string \<Rightarrow> 'handler \<Rightarrow> unit outcome" where
  "mocked_AddMetricsExtraHandler m path _ = Ok ()"
definition mocked_AddHealthzCheck :: "mocked_manager \<Rightarrow> string \<Rightarrow> 'checker \<Rightarrow> unit outcome" where
  "mocked_AddHealthzCheck m name _ = Ok ()"
definition mocked_AddReadyzCheck :: "mocked_manager \<Rightarrow> string \<Rightarrow> 'checker \<Rightarrow> unit outcome" where
  "mocked_AddReadyzCheck m name _ = Ok ()"
definition mocked_GetLogger :: "mocked_manager \<Rightarrow> 'logger option" where "mocked_GetLogger m = None"

text \<open>The decoder of a new scheme is dereferenced although its error is ignored; the options have a timeout of zero.\<close>

definition mocked_GetAdmissionDecoder :: "'scheme \<Rightarrow> ('scheme \<Rightarrow> 'decoder option \<times> error option) \<Rightarrow> mocked_manager \<Rightarrow> 'decoder outcome" where
  "mocked_GetAdmissionDecoder NewScheme NewDecoder m = (case fst (NewDecoder NewScheme) of None \<Rightarrow> Panic NilDeref | Some d \<Rightarrow> Ok d)"

record controller_configuration_spec =
  ccs_CacheSyncTimeout :: "int option"

definition mocked_GetControllerOptions :: "mocked_manager \<Rightarrow> controller_configuration_spec" where
  "mocked_GetControllerOptions m = (let duration = 0 in \<lparr>ccs_CacheSyncTimeout = Some duration\<rparr>)"

text \<open>
  The mocked manager as a manager. It has no scheme: \<open>GetScheme\<close> returns nil, and what registering
  types with it does is up to the scheme builder.
\<close>

definition mocked_kmanager :: "(mock_cluster \<Rightarrow> unit outcome \<times> mock_cluster) \<Rightarrow> mocked_manager \<Rightarrow> mock_cluster kmanager" where
  "mocked_kmanager add_to_nil_scheme m =
     \<lparr>mgr_GetClient = mocked_GetClient m, mgr_AddToScheme = add_to_nil_scheme, mgr_Start = mocked_Start m\<rparr>"

section \<open>Which changes trigger a reconciliation\<close>

text \<open>The secrets a resource takes its input from: the certificate, and the passwords of its users.\<close>

definition input_secrets :: "mongodb_community \<Rightarrow> nsname set" where
  "input_secrets mdb = (if stls_Enabled (mdb_TLS mdb) then {TLSSecretNamespacedName mdb} else {})
     \<union> pw_name (NamespacedName mdb) ` set (GetScramUsers mdb)"

text \<open>A run that is over took the branch without an error at every step.\<close>

lemma on_failed_OkD:
  assumes "on_result m (failed_with r mdb msg) k st = (Ok result_OK, st')"
  obtains x st1 where "m st = (Ok x, st1)" and "k x st1 = (Ok result_OK, st')"
proof -
  obtain out st1 where m: "m st = (out, st1)" by (cases "m st")
  show ?thesis
    using assms m that report_retried [of r mdb _ st1 result_OK st', OF _ retries_failed]
    by (cases out) (auto simp: on_result_def failed_with_def)
qed

lemma keeps_watcher [keeps_rules]: "keeps snd (on_cluster m)"
  by (simp add: keeps_def on_cluster_def split_beta)

lemma finish_keeps_watcher: "keeps snd (finish_reconcile r mdb)"
  unfolding finish_reconcile_def report_def by (intro keeps_rules)

lemma pending_not_over: "report r mdb (withPendingPhase n (withMessage sev msg statusOptions)) st \<noteq> (Ok result_OK, st')"
  using report_retried [OF _ retries_pending] by blast

lemma reconcile_steps:
  assumes "reconcile_resource r mdb (w, rw) = (Ok result_OK, st')"
  obtains w1 w2 rw2 w3 w4 rw4 st5 where "ensureService r mdb w = (Ok (), w1)"
    and "validateTLSConfig (r_client r) mdb (w1, rw) = (Ok True, w2, rw2)"
    and "ensureTLSResources r mdb w2 = (Ok (), w3)"
    and "ensureUserResources r mdb (w3, rw2) = (Ok (), w4, rw4)"
    and "finish_reconcile r mdb st5 = (Ok result_OK, st')" and "snd st' = rw4"
proof -
  from assms obtain w1 st2 where 1: "ensureService r mdb w = (Ok (), w1)"
    and 2: "validateTLSConfig (r_client r) mdb (w1, rw) = (Ok True, st2)"
    and "on_result (on_cluster (ensureTLSResources r mdb)) (failed_with r mdb ''Error ensuring TLS resources: '') (\<lambda>_.
     on_result (ensureUserResources r mdb) (failed_with r mdb ''Error ensuring User config: '') (\<lambda>_.
     on_result (on_cluster (deployMongoDBReplicaSet r mdb)) (failed_with r mdb ''Error deploying MongoDB ReplicaSet: '') (\<lambda>ready.
     if \<not> ready
     then report r mdb (withPendingPhase 10 (withMessage Info ''ReplicaSet is not yet ready, retrying in 10 seconds'' statusOptions))
     else on_result (on_cluster (ResetUpdateStrategy (statefulsets_of (r_client r)) mdb))
       (failed_with r mdb ''Error resetting StatefulSet UpdateStrategyType: '') (\<lambda>_. finish_reconcile r mdb)))) st2
       = (Ok result_OK, st')" (is "?rest = _")
    unfolding reconcile_resource_def
    by (elim on_failed_OkD) (auto simp: on_cluster_def pending_not_over split: prod.splits if_splits elim!: on_failed_OkD)
  then obtain w3 st4 st5 st6 where 3: "ensureTLSResources r mdb (fst st2) = (Ok (), w3)"
    and 4: "ensureUserResources r mdb (w3, snd st2) = (Ok (), st4)" and st: "snd st5 = snd st4" 
    and 6: "finish_reconcile r mdb st5 = (Ok result_OK, st')"
    by (auto simp: on_cluster_def pending_not_over split: prod.splits if_splits elim!: on_failed_OkD)
  have "snd st' = snd st4" using keepsD [OF finish_keeps_watcher 6] st by simp
  with 1 2 3 4 6 that show ?thesis by (metis prod.collapse)
qed

text \<open>Reading from the in-memory cluster changes nothing.\<close>

lemma mock_gets_keep: "keeps v (GetSecret (secrets_of mockedClient) n)" "keeps v (GetConfigMap (config_maps_of mockedClient) n)"
  by (auto simp: secrets_of_def config_maps_of_def typed_ops intro!: keeps_rules mock_get_keeps)

lemma mock_reads_keep:
  "keeps v (GetSecret (secrets_of mockedClient) n)" "keeps v (secret_ReadStringData (secrets_of mockedClient) n)"
  "keeps v (secret_ReadKey (secrets_of mockedClient) k n)" "keeps v (cm_ReadData (config_maps_of mockedClient) n)"
  "keeps v (getCertAndKey (secrets_of mockedClient) mdb)"
  unfolding secret_ReadStringData_def secret_ReadKey_def cm_ReadData_def getCertAndKey_def
  by (intro keeps_rules mock_gets_keep)+

lemmas mock_read_same = mock_reads_keep [where v = "\<lambda>w. w", THEN keepsD]

lemma ensureTLSResources_mock:
  assumes "r_client r = mockedClient" and "ensureTLSResources r mdb w = (Ok (), w')" and "well_kinded w"
  shows "well_kinded w' \<and> (\<forall>n. n \<noteq> TLSOperatorSecretNamespacedName mdb \<longrightarrow> mock_secret_data w' n = mock_secret_data w n)"
proof (cases "stls_Enabled (mdb_TLS mdb)")
  case True
  with assms(1,2) have "ensureTLSSecret (secrets_of mockedClient) mdb w = (Ok (), w')"
    by (auto simp: ensureTLSResources_def on_result_def split: prod.splits outcome.splits)
  then obtain ck w1 s where read: "getCertAndKey (secrets_of mockedClient) mdb w = (Ok ck, w1)"
    and s: "s = secret_Build (secret_SetOwnerReferences (GetOwnerReferences mdb) (secret_SetField (tlsOperatorSecretFileName ck) ck
        (secret_SetNamespace (nn_Namespace (TLSOperatorSecretNamespacedName mdb))
          (secret_SetName (nn_Name (TLSOperatorSecretNamespacedName mdb)) secret_Builder))))"
    and "secret_CreateOrUpdate (secrets_of mockedClient) s w1 = (Ok (), w')"
    unfolding ensureTLSSecret_def by (elim on_result_fail_OkD) blast
  moreover have "object_key (s_Meta s) = TLSOperatorSecretNamespacedName mdb" by (simp add: s secret_builder_defs object_key_def)
  ultimately show ?thesis
    using mock_secrets.CreateOrUpdate_stores [OF assms(3), of s] mock_read_same(5) [OF read] by auto
qed (use assms in \<open>simp add: ensureTLSResources_def\<close>)

text \<open>What can be read exists, and what cannot be found does not.\<close>

lemma mock_ReadKey_exists:
  assumes "well_kinded w" and "secret_ReadKey (secrets_of mockedClient) k n w = (out, w1)"
  shows "out = Ok v \<Longrightarrow> mock_secret_data w n \<noteq> None" and "out = Fail e \<Longrightarrow> IsNotFound e \<Longrightarrow> mock_secret_data w n = None"
proof -
  show "mock_secret_data w n \<noteq> None" if "out = Ok v"
  proof
    assume "mock_secret_data w n = None"
    from mock_secrets.get_missing [OF assms(1) this] assms(2) that show False
      by (auto simp: secret_ReadKey_def secret_ReadStringData_def on_result_def)
  qed
  show "mock_secret_data w n = None" if "out = Fail e" "IsNotFound e"
  proof (rule ccontr)
    assume "mock_secret_data w n \<noteq> None"
    then obtain d where "mock_secret_data w n = Some d" by blast
    with mock_secrets.get_found [OF assms(1), of n d] assms(2) that show False
      by (auto simp: secret_ReadKey_def secret_ReadStringData_def on_result_def split: option.splits)
  qed
qed

lemma validateTLSConfig_watches:
  assumes "r_client r = mockedClient" and "validateTLSConfig (r_client r) mdb (w, rw) = (Ok True, w', rw')" and "well_kinded w"
  shows "w' = w \<and> watcher.pairs rw' = watcher.pairs rw \<union> (if stls_Enabled (mdb_TLS mdb) then {(TLSSecretNamespacedName mdb, NamespacedName mdb)} else {})
    \<and> (stls_Enabled (mdb_TLS mdb) \<longrightarrow> mock_secret_data w (TLSSecretNamespacedName mdb) \<noteq> None)"
proof (cases "stls_Enabled (mdb_TLS mdb)")
  case True
  with assms(1,2) obtain x w0 d w1 where cm: "cm_ReadData (config_maps_of mockedClient) (TLSConfigMapNamespacedName mdb) w = (Ok x, w0)"
    and read: "secret_ReadStringData (secrets_of mockedClient) (TLSSecretNamespacedName mdb) w0 = (Ok d, w1)"
    and st: "w' = w1" "rw' = watch_Watch (TLSSecretNamespacedName mdb) (NamespacedName mdb) rw"
    by (auto simp: validateTLSConfig_def on_result_def on_cluster_def watch_secret_def split: if_splits prod.splits outcome.splits)
  have w: "w0 = w" "w1 = w0" using mock_read_same(4) [OF cm] mock_read_same(2) [OF read] .
  have "mock_secret_data w (TLSSecretNamespacedName mdb) \<noteq> None"
  proof
    assume "mock_secret_data w (TLSSecretNamespacedName mdb) = None"
    from mock_secrets.get_missing [OF assms(3) this] read w show False by (auto simp: secret_ReadStringData_def on_result_def)
  qed
  then show ?thesis using True st w by (simp add: watcher.pairs_register)
qed (use assms in \<open>simp add: validateTLSConfig_def\<close>)

lemma ensure_users_watches:
  assumes "r_client r = mockedClient" and "well_kinded w" and "ensure_users r mdb users (w, rw) = (Ok (), w', rw')"
  shows "w' = w \<and> watcher.pairs rw' = watcher.pairs rw \<union> {(s, NamespacedName mdb) | s. s \<in> pw_name (NamespacedName mdb) ` set users
      \<and> mock_secret_data w s \<noteq> None}"
  using assms(3)
proof (induction users arbitrary: rw)
  case Nil
  then show ?case by simp
next
  case (Cons u users)
  let ?n = "pw_name (NamespacedName mdb) u"
  obtain out w1 where read: "secret_ReadKey (secrets_of mockedClient) (su_PasswordSecretKey u) ?n w = (out, w1)" by fastforce
  have w1: "w1 = w" using mock_read_same(3) [OF read] .
  have n: "\<lparr>nn_Namespace = mdb_Namespace mdb, nn_Name = su_PasswordSecretName u\<rparr> = ?n" by (simp add: pw_name_def NamespacedName_def)
  show ?case
  proof (cases out)
    case (Ok pw)
    with Cons.prems read w1 assms(1) have "ensure_users r mdb users (w, watch_Watch ?n (NamespacedName mdb) rw) = (Ok (), w', rw')"
      by (simp add: on_result_def on_cluster_def watch_secret_def n Let_def)
    from Cons.IH [OF this] mock_ReadKey_exists(1) [OF assms(2) read Ok] show ?thesis by (auto simp: watcher.pairs_register)
  next
    case (Fail e)
    with Cons.prems read w1 assms(1) have e: "IsNotFound e" and "ensure_users r mdb users (w, rw) = (Ok (), w', rw')"
      by (auto simp: on_result_def on_cluster_def n Let_def split: if_splits prod.splits outcome.splits dest!: mock_read_same)
    with Cons.IH mock_ReadKey_exists(2) [OF assms(2) read Fail e] show ?thesis by auto
  qed (use Cons.prems read assms(1) in \<open>simp add: on_result_def on_cluster_def n Let_def\<close>)
qed

lemma reconcile_registers:
  assumes r: "r_client r = mockedClient" and w: "well_kinded w"
    and run: "reconcile_resource r mdb (w, rw) = (Ok result_OK, st')" and s: "s \<noteq> TLSOperatorSecretNamespacedName mdb"
  shows "(s, d) \<in> watcher.pairs (snd st') \<longleftrightarrow> (s, d) \<in> watcher.pairs rw
    \<or> d = NamespacedName mdb \<and> s \<in> input_secrets mdb \<and> mock_secret_data w s \<noteq> None"
proof -
  from run obtain w1 w2 rw2 w3 w4 rw4 st5 where 1: "ensureService r mdb w = (Ok (), w1)"
    and 2: "validateTLSConfig (r_client r) mdb (w1, rw) = (Ok True, w2, rw2)"
    and 3: "ensureTLSResources r mdb w2 = (Ok (), w3)"
    and 4: "ensureUserResources r mdb (w3, rw2) = (Ok (), w4, rw4)" and last: "snd st' = rw4"
    by (rule reconcile_steps)
  have wk: "well_kinded w1" and same: "w1 SecretKind = w SecretKind"
    using ensureService_mock [OF r w, of mdb] 1 by auto
  note v = validateTLSConfig_watches [OF r 2 wk] and data = secret_data_cong [of w1 w, OF same]
  have w3: "well_kinded w3" "mock_secret_data w3 s = mock_secret_data w s" using ensureTLSResources_mock [OF r 3] v wk data s by auto
  from ensure_users_watches [OF r w3(1) 4 [unfolded ensureUserResources_def]] w3(2) v data last show ?thesis
    by (auto simp: input_secrets_def split: if_splits)
qed

text \<open>
  C8. The controller is triggered by exactly the right changes: after a reconciliation on the in-memory
  cluster that is over, an event of any kind for a secret, other than the one the operator writes
  the certificate to, puts the resource on the queue if and only if it is there already, the
  secret was watched for it before the run, or the resource takes its input from the secret, its
  certificate or the password of a user, and the secret existed when the run started. A password
  secret that was missing then, which is no error when the credentials are stored, is not watched by
  the run. The status and the annotations that the run itself wrote do not trigger another one.
\<close>

theorem reconcile_triggers:
  assumes "r_client r = mockedClient" and "\<And>k. keeps (\<lambda>w. w MongoDBKind) (r_rand r k)"
    and "well_kinded w" and "stored_resource w n mdb" and "controller_Reconcile r n (w, rw) = (Ok result_OK, st')"
    and "\<And>d q. contents (add d q) = insert d (contents q)"
  shows "(event_key e \<noteq> TLSOperatorSecretNamespacedName mdb \<longrightarrow>
      (n \<in> contents (cs_Handler (controller_setup_of r) add st' e q) \<longleftrightarrow>
         n \<in> contents q \<or> n \<in> set (dependents rw (event_key e))
         \<or> event_key e \<in> input_secrets mdb \<and> mock_secret_data w (event_key e) \<noteq> None))
    \<and> (\<exists>obj. fst st' MongoDBKind n = Some obj \<and> cs_Predicate (controller_setup_of r) (MongoDBObj mdb) obj = Ok False)"
proof -
  have n: "NamespacedName mdb = n" using assms(4) by (simp add: stored_resource_def)
  have run: "reconcile_resource r mdb (w, rw) = (Ok result_OK, st')"
    using assms(1,4,5)
    by (auto simp: controller_Reconcile_def on_result_def on_cluster_def mockedClient_def mock_Get_def stored_resource_def)
  obtain st5 where "finish_reconcile r mdb st5 = (Ok result_OK, st')" using reconcile_steps [OF run] by metis
  from finish_reconcile_mock [OF mock_frame_client [OF assms(1,2)] assms(1) this] obtain m where
    "stored_resource (fst st') n m" "mdb_Spec m = mdb_Spec mdb" by (auto simp: n)
  then have "\<exists>obj. fst st' MongoDBKind n = Some obj \<and> UpdateFunc (MongoDBObj mdb) obj = Ok False"
    by (auto simp: stored_resource_def UpdateFunc_def)
  moreover have "n \<in> contents (on_event add (snd st') e q) \<longleftrightarrow> n \<in> contents q \<or> (event_key e, n) \<in> watcher.pairs (snd st')"
    using on_event_handleEvent [of e add "snd st'"] contents_handleEvent [of contents, OF assms(6)]
    by (auto simp: watcher.pairs_def)
  ultimately show ?thesis
    using reconcile_registers [OF assms(1,3) run, of "event_key e" n] by (auto simp: controller_setup_of_def n watcher.pairs_def)
qed

theorem reconcile_triggers_witness:
  "\<exists>st'. controller_Reconcile (mock_reconciler example_libs (\<lambda>_. None)) \<lparr>nn_Namespace = ''ns'', nn_Name = ''db''\<rparr>
      (example_state, watch_New) = (Ok result_OK, st')
    \<and> \<lparr>nn_Namespace = ''ns'', nn_Name = ''db''\<rparr> \<in> set (cs_Handler (controller_setup_of (mock_reconciler example_libs (\<lambda>_. None)))
        (#) st' (UpdateEvent (named_meta \<lparr>nn_Namespace = ''ns'', nn_Name = ''pw''\<rparr>) empty_meta) [])"
proof -
  let ?n = "\<lparr>nn_Namespace = ''ns'', nn_Name = ''db''\<rparr>" and ?e = "UpdateEvent (named_meta \<lparr>nn_Namespace = ''ns'', nn_Name = ''pw''\<rparr>) empty_meta"
  obtain st' where run: "controller_Reconcile (mock_reconciler example_libs (\<lambda>_. None)) ?n (example_state, watch_New) = (Ok result_OK, st')"
    using new_resource_reconciled [OF example_operator example_new, of watch_New] by blast
  have w: "well_kinded example_state" "stored_resource example_state ?n (example_mdb 3 ''4.4.0'' False)"
    using example_new by (simp_all add: new_resource_def)
  have e: "event_key ?e = \<lparr>nn_Namespace = ''ns'', nn_Name = ''pw''\<rparr>" by (simp add: object_key_def named_meta_def)
  have "\<exists>u \<in> set (GetScramUsers (example_mdb 3 ''4.4.0'' False)). pw_name ?n u = event_key ?e"
    unfolding e by (simp add: example_mdb_def GetScramUsers_def pw_name_def)
  then obtain u where u: "u \<in> set (GetScramUsers (example_mdb 3 ''4.4.0'' False))" "pw_name ?n u = event_key ?e" by blast
  moreover have "fresh_user (mock_secret_data example_state) ?n u" using example_new u(1) by (simp add: new_resource_def)
  ultimately have "event_key ?e \<in> input_secrets (example_mdb 3 ''4.4.0'' False)" "mock_secret_data example_state (event_key ?e) \<noteq> None"
    using w(2) by (force simp: input_secrets_def stored_resource_def fresh_user_def)+
  moreover have "event_key ?e \<noteq> TLSOperatorSecretNamespacedName (example_mdb 3 ''4.4.0'' False)"
    unfolding e by (simp add: example_mdb_def TLSOperatorSecretNamespacedName_def)
  ultimately show ?thesis
    using reconcile_triggers [where contents = set and add = "(#)" and e = ?e and q = "[]", OF _ mock_frame.rand w run] run by auto
qed

section \<open>What the process needs from its environment\<close>

lemma hasRequiredVariables_iff: "hasRequiredVariables env vars \<longleftrightarrow> (\<forall>v \<in> set vars. env v \<noteq> None)"
proof -
  have "foldl (\<lambda>present v. if env v = None then False else present) b vars \<longleftrightarrow> b \<and> (\<forall>v \<in> set vars. env v \<noteq> None)" for b
    by (induction vars arbitrary: b) auto
  then show ?thesis by (simp add: hasRequiredVariables_def)
qed

lemma or_fatal_ReturnsD:
  assumes "or_fatal fatalf msg m k w = (MainReturns, w'')" and "\<And>m. fatalf m \<noteq> MainReturns"
  obtains x w' where "m w = (Ok x, w')" and "k x w' = (MainReturns, w'')"
  using assms by (auto simp: or_fatal_def split: prod.splits outcome.splits)

text \<open>The images of the containers that are built for a new stateful set.\<close>

definition container_images :: "container list \<Rightarrow> string gomap" where
  "container_images cs = map (\<lambda>c. (c_Name c, c_Image c)) cs"

lemma WithVolumeMounts_sel [simp]: "c_Name (WithVolumeMounts it ms c) = c_Name c" "c_Image (WithVolumeMounts it ms c) = c_Image c"
  by (simp_all add: WithVolumeMounts_def)

lemma construct_images:
  fixes env it pq own scaler
  defines "ps \<equiv> pts_Spec (sts_Template (sts_Spec (construct_result env it pq own scaler empty_statefulset)))"
  shows "container_images (ps_Containers ps) = [(construct_AgentName, getenv env AgentImageEnv),
      (MongodbName, getMongoDBImage env (own_GetMongoDBVersion own))]"
    and "container_images (ps_InitContainers ps) = [(versionUpgradeHookName, getenv env VersionUpgradeHookImageEnv),
      (ReadinessProbeContainerName, getenv env ReadinessProbeImageEnv)]"
  by (simp_all add: ps_def container_images_def construct_result_def Let_def construct_containers_def construct_init_containers_def
      container_edit_defs empty_statefulset_def empty_statefulset_spec_def empty_pod_template_spec_def empty_pod_spec_def
      construct_AgentName_def MongodbName_def versionUpgradeHookName_def ReadinessProbeContainerName_def
      AgentImageEnv_def VersionUpgradeHookImageEnv_def ReadinessProbeImageEnv_def)

text \<open>
  C24. An operator that was started has what its pods need, but for the image of the server: when
  \<open>main\<close> comes to its end, the manager was created for the namespace of the environment, all
  namespaces for a star, and the agent, the hook and the probe of every stateful set get the
  images that were checked at the start. The repository and the image of the server are not
  checked, and without them every server container has the image \<open>/:\<close> followed by the version,
  which no registry can serve.
\<close>

theorem started_operator_images:
  assumes "manager_main d base w0 = (MainReturns, w')" and "\<And>l m. st_Fatalf d l m \<noteq> MainReturns"
    and "BuildMongoDBReplicaSetStatefulSetModificationFunction (r_env base) it pq own scaler empty_statefulset = Ok sts"
  shows "\<exists>namespace cfg mgr w1 w2 agent hook probe.
      r_env base ''WATCH_NAMESPACE'' = Some namespace
      \<and> st_manager_New d cfg (if namespace = ''*'' then '''' else namespace) w1 = (Ok mgr, w2)
      \<and> r_env base ''AGENT_IMAGE'' = Some agent \<and> r_env base ''VERSION_UPGRADE_HOOK_IMAGE'' = Some hook
      \<and> r_env base ''READINESS_PROBE_IMAGE'' = Some probe
      \<and> container_images (ps_Containers (pts_Spec (sts_Template (sts_Spec sts)))) =
          [(construct_AgentName, agent), (MongodbName, getMongoDBImage (r_env base) (own_GetMongoDBVersion own))]
      \<and> container_images (ps_InitContainers (pts_Spec (sts_Template (sts_Spec sts)))) =
          [(versionUpgradeHookName, hook), (ReadinessProbeContainerName, probe)]
      \<and> (r_env base ''MONGODB_REPO_URL'' = None \<and> r_env base ''MONGODB_IMAGE'' = None \<longrightarrow>
          getMongoDBImage (r_env base) (own_GetMongoDBVersion own) = ''/:'' @ own_GetMongoDBVersion own)"
proof -
  obtain log err w1 where l: "configureLogger d w0 = ((log, err), w1)" by (metis prod.collapse)
  with assms(1,2) have "err = None" by (auto simp: manager_main_def split: option.splits)
  with l assms(1,2) obtain namespace where env: "r_env base WatchNamespaceEnv = Some namespace"
      "\<forall>v \<in> {AgentImageEnv, VersionUpgradeHookImageEnv, ReadinessProbeImageEnv}. r_env base v \<noteq> None"
    and run: "or_fatal (st_Fatalf d log) ''Unable to get config: '' (st_GetConfig d) (\<lambda>cfg.
        or_fatal (st_Fatalf d log) ''Unable to create manager: '' (st_manager_New d cfg (watchNamespace namespace)) (\<lambda>mgr.
        or_fatal (st_Fatalf d log) ''Unable to add mdbv1 to scheme: '' (mgr_AddToScheme mgr) (\<lambda>_.
        or_fatal (st_Fatalf d log) ''Unable to create controller: ''
          (SetupWithManager (st_Complete d) (fst (NewReconciler base mgr)) mgr) (\<lambda>_.
        or_fatal (st_Fatalf d log) ''Unable to start manager: '' (mgr_Start mgr) (\<lambda>_ w. (MainReturns, w)))))) w1 = (MainReturns, w')"
    by (auto simp: manager_main_def hasRequiredVariables_iff Let_def split: if_splits option.splits)
  from run obtain cfg w2 mgr w3 where "st_manager_New d cfg (watchNamespace namespace) w2 = (Ok mgr, w3)"
    by (elim or_fatal_ReturnsD) (use assms(2) in blast)+
  note mgr = this [unfolded watchNamespace_def]
  have sts: "sts = construct_result (r_env base) it pq own scaler empty_statefulset"
    using assms(3) by (simp add: construct_eq_result)
  have mongod: "r_env base ''MONGODB_REPO_URL'' = None \<and> r_env base ''MONGODB_IMAGE'' = None \<longrightarrow>
      getMongoDBImage (r_env base) (own_GetMongoDBVersion own) = ''/:'' @ own_GetMongoDBVersion own"
    by (simp add: getMongoDBImage_def getenv_def has_suffix_def)
  from env(2) obtain agent hook probe where images: "r_env base AgentImageEnv = Some agent"
    "r_env base VersionUpgradeHookImageEnv = Some hook" "r_env base ReadinessProbeImageEnv = Some probe" by auto
  note c = construct_images [of "r_env base" it pq own scaler, folded sts, unfolded getenv_def images option.case]
  show ?thesis
    using mgr mongod c env(1) images
    unfolding WatchNamespaceEnv_def AgentImageEnv_def VersionUpgradeHookImageEnv_def ReadinessProbeImageEnv_def by blast
qed

text \<open>A process that serves the in-memory cluster, and ends with status 1 on a fatal error.\<close>

definition example_start :: "(mock_cluster, unit, unit, nsname list) start_deps" where
  "example_start = \<lparr>st_NewDevelopment = (\<lambda>w. (((), None), w)), st_ReplaceGlobals = (\<lambda>_ w. w), st_Fatalf = (\<lambda>_ _. ExitStatus 1),
     st_GetConfig = ret (), st_manager_New = (\<lambda>_ _. ret (mocked_kmanager (ret ()) (fst (NewManager None)))), st_Complete = (\<lambda>_ _. ret ())\<rparr>"

definition example_env :: environment where
  "example_env = map_of [(''AGENT_IMAGE'', ''agent''), (''VERSION_UPGRADE_HOOK_IMAGE'', ''hook''),
     (''READINESS_PROBE_IMAGE'', ''probe''), (''WATCH_NAMESPACE'', ''*'')]"

theorem started_operator_images_witness:
  "\<exists>sts. BuildMongoDBReplicaSetStatefulSetModificationFunction example_env rev Ok (owner_of (example_mdb 3 ''4.4.0'' False))
        (statefulset_scaler (example_mdb 3 ''4.4.0'' False)) empty_statefulset = Ok sts
    \<and> container_images (ps_Containers (pts_Spec (sts_Template (sts_Spec sts)))) = [(construct_AgentName, ''agent''), (MongodbName, ''/:4.4.0'')]"
proof -
  let ?base = "mock_reconciler example_libs example_env"
  have env: "r_env ?base = example_env" by (simp add: mock_reconciler_def)
  have run: "manager_main example_start ?base mock_empty = (MainReturns, mock_empty)"
    by (simp add: manager_main_def configureLogger_def example_start_def env hasRequiredVariables_def example_env_def AgentImageEnv_def
        VersionUpgradeHookImageEnv_def ReadinessProbeImageEnv_def WatchNamespaceEnv_def or_fatal_def mocked_kmanager_def mocked_Start_def
        SetupWithManager_def Let_def mock_reconciler_def)
  obtain sts where sts: "BuildMongoDBReplicaSetStatefulSetModificationFunction (r_env ?base) rev Ok (owner_of (example_mdb 3 ''4.4.0'' False))
        (statefulset_scaler (example_mdb 3 ''4.4.0'' False)) empty_statefulset = Ok sts"
    by (simp add: construct_eq_result)
  have "own_GetMongoDBVersion (owner_of (example_mdb 3 ''4.4.0'' False)) = ''4.4.0''" by (simp add: owner_of_def example_mdb_def)
  moreover have "example_env ''AGENT_IMAGE'' = Some ''agent''" "example_env ''MONGODB_REPO_URL'' = None" "example_env ''MONGODB_IMAGE'' = None"
    by (simp_all add: example_env_def)
  ultimately show ?thesis
    using started_operator_images [OF run _ sts] sts unfolding env by (auto simp: example_start_def)
qed

end
