(* ===== verification/Watch_Race.thy ===== *)
theory Watch_Race
  imports Watch
begin

text \<open>
  The watcher under concurrent reconciliations. \<open>SetupWithManager\<close> runs up to three of them at a
  time, and all of them register secrets in the one map of the watcher, which no lock protects.
  Here every call of \<open>Watch\<close> is the two accesses it makes to the map, and the calls of several
  workers interleave in any order. The runtime of Go may also stop the process when it notices
  such accesses; the theory describes the runs in which it does not.
\<close>

section \<open>Calls as sequences of accesses\<close>

text \<open>A call has not started, has read the existing dependents, or is over.\<close>

datatype call_phase = Starting | HasRead "nsname list" | Over

record watch_call =
  wc_watchedName :: nsname
  wc_dependentName :: nsname
  wc_phase :: call_phase

definition new_call :: "nsname \<times> nsname \<Rightarrow> watch_call" where
  "new_call nd = \<lparr>wc_watchedName = fst nd, wc_dependentName = snd nd, wc_phase = Starting\<rparr>"

text \<open>\<open>existing, hasExisting := w.watched[watchedName]\<close>, an empty slice when there is none.\<close>

definition call_read :: "resource_watcher \<Rightarrow> watch_call \<Rightarrow> watch_call" where
  "call_read w c = c\<lparr>wc_phase := HasRead (dependents w (wc_watchedName c))\<rparr>"

text \<open>\<open>w.watched[watchedName] = append(existing, dependentName)\<close>, unless it is contained.\<close>

definition call_write :: "nsname list \<Rightarrow> watch_call \<Rightarrow> resource_watcher \<Rightarrow> resource_watcher" where
  "call_write existing c w =
     (if contains_NamespacedName existing (wc_dependentName c) then w
      else w\<lparr>watched := (watched w)(wc_watchedName c \<mapsto> existing @ [wc_dependentName c])\<rparr>)"

fun call_step :: "resource_watcher \<Rightarrow> watch_call \<Rightarrow> resource_watcher \<times> watch_call" where
  "call_step w c = (case wc_phase c of
      Starting \<Rightarrow> (w, call_read w c)
    | HasRead existing \<Rightarrow> (call_write existing c w, c\<lparr>wc_phase := Over\<rparr>)
    | Over \<Rightarrow> (w, c))"

text \<open>The scheduler lets one of the workers make its next access.\<close>

inductive schedule :: "resource_watcher \<times> watch_call list \<Rightarrow> resource_watcher \<times> watch_call list \<Rightarrow> bool" where
  access: "i < length cs \<Longrightarrow> wc_phase (cs ! i) \<noteq> Over \<Longrightarrow> call_step w (cs ! i) = (w', c') \<Longrightarrow> schedule (w, cs) (w', cs[i := c'])"

inductive_cases scheduleE: "schedule (w, cs) (w', cs')"

definition all_over :: "watch_call list \<Rightarrow> bool" where
  "all_over cs = (\<forall>c \<in> set cs. wc_phase c = Over)"

text \<open>A schedule can go on exactly while a call is not over, and it does not go on forever.\<close>

lemma schedule_stuck_iff: "(\<nexists>s. schedule (w, cs) s) \<longleftrightarrow> all_over cs"
proof
  assume "\<nexists>s. schedule (w, cs) s"
  then have "wc_phase (cs ! i) = Over" if "i < length cs" for i
    using access [OF that, of w] by (metis surj_pair)
  then show "all_over cs" by (auto simp: all_over_def in_set_conv_nth)
next
  assume "all_over cs"
  then show "\<nexists>s. schedule (w, cs) s" by (auto simp: all_over_def elim!: scheduleE)
qed

fun accesses_left :: "call_phase \<Rightarrow> nat" where
  "accesses_left Starting = 2"
| "accesses_left (HasRead existing) = 1"
| "accesses_left Over = 0"

lemma call_step_progress:
  "wc_phase c \<noteq> Over \<Longrightarrow> call_step w c = (w', c') \<Longrightarrow> Suc (accesses_left (wc_phase c')) = accesses_left (wc_phase c)"
  by (cases "wc_phase c") (auto simp: call_read_def)

lemma schedule_ends: "wfP (\<lambda>s' s. schedule s s')"
proof (rule wfp_if_convertible_to_nat [where f = "\<lambda>(w, cs). \<Sum>c\<leftarrow>cs. accesses_left (wc_phase c)"])
  fix s' s :: "resource_watcher \<times> watch_call list"
  assume step: "schedule s s'"
  obtain w cs w' cs' where s: "s = (w, cs)" "s' = (w', cs')" by fastforce
  from step [unfolded s] obtain i c' where i: "i < length cs" "wc_phase (cs ! i) \<noteq> Over" "call_step w (cs ! i) = (w', c')" "cs' = cs[i := c']"
    by (auto elim: scheduleE)
  have "cs = take i cs @ cs ! i # drop (Suc i) cs" using i(1) by (rule id_take_nth_drop)
  then have "(\<Sum>c\<leftarrow>cs. accesses_left (wc_phase c)) = (\<Sum>c\<leftarrow>take i cs @ cs ! i # drop (Suc i) cs. accesses_left (wc_phase c))" by simp
  moreover have "cs' = take i cs @ c' # drop (Suc i) cs" using i(1,4) by (simp add: upd_conv_take_nth_drop)
  ultimately show "(case s' of (w, cs) \<Rightarrow> \<Sum>c\<leftarrow>cs. accesses_left (wc_phase c)) < (case s of (w, cs) \<Rightarrow> \<Sum>c\<leftarrow>cs. accesses_left (wc_phase c))"
    using call_step_progress [OF i(2,3)] by (simp add: s)
qed

text \<open>One call after the other is \<open>Watch\<close>.\<close>

lemma call_alone: "call_write (dependents w (wc_watchedName c)) c w = watch_Watch (wc_watchedName c) (wc_dependentName c) w"
  by (simp add: call_write_def watch_Watch_def dependents_def Let_def)

lemma dependents_write:
  "dependents (call_write ex c w) n =
     (if n = wc_watchedName c \<and> wc_dependentName c \<notin> set ex then ex @ [wc_dependentName c] else dependents w n)"
  by (simp add: call_write_def dependents_def)

section \<open>A lost registration\<close>

text \<open>Two calls for the same secret by resources that are both not registered for it yet.\<close>

definition conflict :: "resource_watcher \<Rightarrow> (nsname \<times> nsname) list \<Rightarrow> bool" where
  "conflict w0 calls = (\<exists>n d e. (n, d) \<in> set calls \<and> (n, e) \<in> set calls \<and> d \<noteq> e
     \<and> d \<notin> set (dependents w0 n) \<and> e \<notin> set (dependents w0 n))"

lemma schedule_at:
  assumes "wc_phase c \<noteq> Over" and "call_step w c = (w', c')"
  shows "schedule (w, xs @ c # ys) (w', xs @ c' # ys)"
  using schedule.access [of "length xs" "xs @ c # ys" w w' c'] assms by simp

lemma all_read: "schedule\<^sup>*\<^sup>* (w, xs @ map new_call calls) (w, xs @ map (call_read w \<circ> new_call) calls)"
proof (induction calls arbitrary: xs)
  case Nil
  then show ?case by simp
next
  case (Cons nd calls)
  have "schedule (w, xs @ new_call nd # map new_call calls) (w, xs @ call_read w (new_call nd) # map new_call calls)"
    by (rule schedule_at) (simp_all add: new_call_def)
  with Cons [of "xs @ [call_read w (new_call nd)]"] show ?case by simp
qed

lemma all_write:
  "\<forall>c \<in> set ys. \<exists>ex. wc_phase c = HasRead ex \<Longrightarrow>
    \<exists>w'. schedule\<^sup>*\<^sup>* (w, xs @ ys @ zs) (w', xs @ map (\<lambda>c. c\<lparr>wc_phase := Over\<rparr>) ys @ zs)"
proof (induction ys arbitrary: w xs)
  case Nil
  then show ?case by auto
next
  case (Cons c ys)
  then obtain ex where "wc_phase c = HasRead ex" by auto
  then have step: "schedule (w, xs @ c # ys @ zs) (call_write ex c w, xs @ c\<lparr>wc_phase := Over\<rparr> # ys @ zs)"
    by (intro schedule_at) simp_all
  obtain w' where "schedule\<^sup>*\<^sup>* (call_write ex c w, (xs @ [c\<lparr>wc_phase := Over\<rparr>]) @ ys @ zs)
      (w', (xs @ [c\<lparr>wc_phase := Over\<rparr>]) @ map (\<lambda>c. c\<lparr>wc_phase := Over\<rparr>) ys @ zs)"
    using Cons.IH [of "call_write ex c w" "xs @ [c\<lparr>wc_phase := Over\<rparr>]"] Cons.prems by auto
  with converse_rtranclp_into_rtranclp [of schedule, OF step] show ?case by auto
qed

text \<open>All calls read before any of them writes: the last writer wins.\<close>

lemma last_writer:
  assumes "(n, d) \<in> set calls" and "d \<notin> set (dependents w0 n)"
  shows "\<exists>w cs. schedule\<^sup>*\<^sup>* (w0, map new_call calls) (w, cs) \<and> all_over cs \<and> dependents w n = dependents w0 n @ [d]"
proof -
  obtain as bs where calls: "calls = as @ (n, d) # bs" using assms(1) by (meson split_list)
  let ?rd = "\<lambda>xs. map (call_read w0 \<circ> new_call) xs" and ?ov = "map (\<lambda>c. c\<lparr>wc_phase := Over\<rparr>)"
  let ?c = "call_read w0 (new_call (n, d))"
  have rd: "\<forall>c \<in> set (?rd xs). \<exists>ex. wc_phase c = HasRead ex" for xs by (auto simp: call_read_def)
  have "schedule\<^sup>*\<^sup>* (w0, map new_call calls) (w0, ?rd as @ ?c # ?rd bs)"
    using all_read [of w0 "[]" calls] by (simp add: calls)
  moreover obtain w1 where "schedule\<^sup>*\<^sup>* (w0, ?rd as @ ?c # ?rd bs) (w1, ?ov (?rd as) @ ?c # ?rd bs)"
    using all_write [OF rd [of as], of w0 "[]" "?c # ?rd bs"] by auto
  moreover obtain w2 where "schedule\<^sup>*\<^sup>* (w1, ?ov (?rd as) @ ?c # ?rd bs) (w2, ?ov (?rd as) @ ?c # ?ov (?rd bs))"
    using all_write [OF rd [of bs], of w1 "?ov (?rd as) @ [?c]" "[]"] by auto
  moreover have "schedule (w2, ?ov (?rd as) @ ?c # ?ov (?rd bs))
      (call_write (dependents w0 n) ?c w2, ?ov (?rd as) @ ?c\<lparr>wc_phase := Over\<rparr> # ?ov (?rd bs))"
    by (rule schedule_at) (simp_all add: call_read_def new_call_def)
  ultimately have "schedule\<^sup>*\<^sup>* (w0, map new_call calls)
      (call_write (dependents w0 n) ?c w2, ?ov (?rd as) @ ?c\<lparr>wc_phase := Over\<rparr> # ?ov (?rd bs))"
    by (meson rtranclp.rtrancl_into_rtrancl rtranclp_trans)
  moreover have "all_over (?ov (?rd as) @ ?c\<lparr>wc_phase := Over\<rparr> # ?ov (?rd bs))" by (auto simp: all_over_def)
  moreover have "dependents (call_write (dependents w0 n) ?c w2) n = dependents w0 n @ [d]"
    using assms(2) by (simp add: dependents_write call_read_def new_call_def)
  ultimately show ?thesis by blast
qed

section \<open>Runs without a conflict\<close>

text \<open>What can be registered for a name: what was there, or one new dependent more.\<close>

definition grown :: "resource_watcher \<Rightarrow> (nsname \<times> nsname) list \<Rightarrow> nsname \<Rightarrow> nsname list \<Rightarrow> bool" where
  "grown w0 calls n xs = (xs = dependents w0 n \<or>
     (\<exists>d. (n, d) \<in> set calls \<and> d \<notin> set (dependents w0 n) \<and> xs = dependents w0 n @ [d]))"

definition call_inv :: "resource_watcher \<Rightarrow> (nsname \<times> nsname) list \<Rightarrow> resource_watcher \<Rightarrow> watch_call \<Rightarrow> bool" where
  "call_inv w0 calls w c = (case wc_phase c of
      Starting \<Rightarrow> True
    | HasRead ex \<Rightarrow> grown w0 calls (wc_watchedName c) ex \<and> set ex \<subseteq> set (dependents w (wc_watchedName c))
    | Over \<Rightarrow> wc_dependentName c \<in> set (dependents w (wc_watchedName c)))"

definition race_inv :: "resource_watcher \<Rightarrow> (nsname \<times> nsname) list \<Rightarrow> resource_watcher \<times> watch_call list \<Rightarrow> bool" where
  "race_inv w0 calls cfg = (case cfg of (w, cs) \<Rightarrow>
     map (\<lambda>c. (wc_watchedName c, wc_dependentName c)) cs = calls
     \<and> (\<forall>n. grown w0 calls n (dependents w n)) \<and> (\<forall>c \<in> set cs. call_inv w0 calls w c))"

lemma call_inv_mono:
  assumes "call_inv w0 calls w c" and "\<And>n. set (dependents w n) \<subseteq> set (dependents w' n)"
  shows "call_inv w0 calls w' c"
  using assms(1) assms(2) [of "wc_watchedName c"] by (auto simp: call_inv_def split: call_phase.splits)

lemma grown_write:
  assumes nc: "\<not> conflict w0 calls" and c: "(wc_watchedName c, wc_dependentName c) \<in> set calls"
    and ex: "grown w0 calls (wc_watchedName c) ex" and w: "\<And>n. grown w0 calls n (dependents w n)"
  shows "grown w0 calls n (dependents (call_write ex c w) n)"
    and "set (dependents w n) \<subseteq> set (dependents (call_write ex c w) n)"
proof -
  let ?n = "wc_watchedName c" and ?d = "wc_dependentName c"
  have only: "d = ?d" if "(?n, d) \<in> set calls" "d \<notin> set (dependents w0 ?n)" "?d \<notin> set (dependents w0 ?n)" for d
    using nc c that by (auto simp: conflict_def)
  have "grown w0 calls n (dependents (call_write ex c w) n) \<and> set (dependents w n) \<subseteq> set (dependents (call_write ex c w) n)"
  proof (cases "n = ?n \<and> ?d \<notin> set ex")
    case True
    then have e: "ex = dependents w0 ?n" "?d \<notin> set (dependents w0 ?n)" using ex only by (auto simp: grown_def)
    moreover have "set (dependents w ?n) \<subseteq> insert ?d (set (dependents w0 ?n))" using w [of ?n] only e(2) by (auto simp: grown_def)
    ultimately show ?thesis using True c by (auto simp: dependents_write grown_def)
  next
    case False
    then have "dependents (call_write ex c w) n = dependents w n" by (auto simp: dependents_write)
    with w show ?thesis by simp
  qed
  then show "grown w0 calls n (dependents (call_write ex c w) n)" "set (dependents w n) \<subseteq> set (dependents (call_write ex c w) n)"
    by blast+
qed

lemma race_inv_update:
  assumes "race_inv w0 calls (w, cs)" and "i < length cs"
    and "wc_watchedName c' = wc_watchedName (cs ! i)" "wc_dependentName c' = wc_dependentName (cs ! i)"
    and "\<And>n. grown w0 calls n (dependents w' n)" and "\<And>n. set (dependents w n) \<subseteq> set (dependents w' n)"
    and "call_inv w0 calls w' c'"
  shows "race_inv w0 calls (w', cs[i := c'])"
proof -
  have "map (\<lambda>c. (wc_watchedName c, wc_dependentName c)) (cs[i := c']) = map (\<lambda>c. (wc_watchedName c, wc_dependentName c)) cs"
    using assms(2-4) by (simp add: map_update list_update_same_conv)
  moreover have "call_inv w0 calls w' c" if "c \<in> set (cs[i := c'])" for c
    using that set_update_subset_insert [of cs i c'] assms(1,6,7) call_inv_mono [of w0 calls w c w'] by (auto simp: race_inv_def)
  ultimately show ?thesis using assms(1,5) by (simp add: race_inv_def)
qed

lemma race_inv_step:
  assumes nc: "\<not> conflict w0 calls" and inv: "race_inv w0 calls (w, cs)" and step: "schedule (w, cs) (w', cs')"
  shows "race_inv w0 calls (w', cs')"
proof -
  from step obtain i c' where i: "i < length cs" "wc_phase (cs ! i) \<noteq> Over" "call_step w (cs ! i) = (w', c')" "cs' = cs[i := c']"
    by (auto elim: scheduleE)
  have mem: "cs ! i \<in> set cs" using i(1) by simp
  have w: "\<And>n. grown w0 calls n (dependents w n)" using inv by (simp add: race_inv_def)
  show ?thesis
  proof (cases "wc_phase (cs ! i)")
    case Starting
    with i(3) have "w' = w" "c' = call_read w (cs ! i)" by auto
    with w show ?thesis unfolding i(4) by (intro race_inv_update [OF inv i(1)]) (auto simp: call_read_def call_inv_def)
  next
    case (HasRead ex)
    with i(3) have c': "w' = call_write ex (cs ! i) w" "c' = (cs ! i)\<lparr>wc_phase := Over\<rparr>" by simp_all
    have ex: "grown w0 calls (wc_watchedName (cs ! i)) ex" "set ex \<subseteq> set (dependents w (wc_watchedName (cs ! i)))"
      and c: "(wc_watchedName (cs ! i), wc_dependentName (cs ! i)) \<in> set calls"
      using inv mem HasRead by (force simp: race_inv_def call_inv_def)+
    note g = grown_write [OF nc c ex(1) w]
    have "wc_dependentName (cs ! i) \<in> set (dependents w' (wc_watchedName (cs ! i)))"
      using ex(2) by (auto simp: c' dependents_write)
    then show ?thesis unfolding i(4) by (intro race_inv_update [OF inv i(1)]) (use g in \<open>auto simp: c' call_inv_def\<close>)
  qed (use i(2) in simp)
qed

lemma race_inv_reachable:
  assumes "\<not> conflict w0 calls" and "schedule\<^sup>*\<^sup>* (w0, map new_call calls) cfg"
  shows "race_inv w0 calls cfg"
  using assms(2)
proof (induction rule: rtranclp_induct)
  case base
  show ?case by (auto simp: race_inv_def new_call_def grown_def comp_def call_inv_def)
next
  case (step y z)
  then show ?case using race_inv_step [OF assms(1)] by (metis surj_pair)
qed

text \<open>
  C22. Concurrent registrations can be lost: when several workers call \<open>Watch\<close> at the same time, all
  of their registrations are in place in the end, however the accesses to the map interleave,
  exactly when no two resources register for the same secret for the first time. When two do,
  there is an interleaving in which the last writer wins and a change of the secret does not
  trigger the other resource.
\<close>

theorem concurrent_watch:
  "(\<forall>w cs. schedule\<^sup>*\<^sup>* (w0, map new_call calls) (w, cs) \<and> all_over cs \<longrightarrow>
      (\<forall>n d. (n, d) \<in> set calls \<longrightarrow> d \<in> set (dependents w n))) \<longleftrightarrow> \<not> conflict w0 calls"
proof
  assume all: "\<forall>w cs. schedule\<^sup>*\<^sup>* (w0, map new_call calls) (w, cs) \<and> all_over cs \<longrightarrow>
      (\<forall>n d. (n, d) \<in> set calls \<longrightarrow> d \<in> set (dependents w n))"
  show "\<not> conflict w0 calls"
  proof
    assume "conflict w0 calls"
    then obtain n d e where c: "(n, d) \<in> set calls" "(n, e) \<in> set calls" "d \<noteq> e" "d \<notin> set (dependents w0 n)" "e \<notin> set (dependents w0 n)"
      by (auto simp: conflict_def)
    from last_writer [OF c(1,4)] all c show False by fastforce
  qed
next
  assume nc: "\<not> conflict w0 calls"
  show "\<forall>w cs. schedule\<^sup>*\<^sup>* (w0, map new_call calls) (w, cs) \<and> all_over cs \<longrightarrow>
      (\<forall>n d. (n, d) \<in> set calls \<longrightarrow> d \<in> set (dependents w n))"
  proof (intro allI impI, elim conjE)
    fix w cs n d
    assume run: "schedule\<^sup>*\<^sup>* (w0, map new_call calls) (w, cs)" and over: "all_over cs" and nd: "(n, d) \<in> set calls"
    from race_inv_reachable [OF nc run] have inv: "race_inv w0 calls (w, cs)" .
    with nd obtain c where "c \<in> set cs" "wc_watchedName c = n" "wc_dependentName c = d" by (force simp: race_inv_def)
    with inv over show "d \<in> set (dependents w n)" by (fastforce simp: race_inv_def all_over_def call_inv_def)
  qed
qed

theorem concurrent_watch_witness:
  "\<not> (\<forall>w cs. schedule\<^sup>*\<^sup>* (watch_New, map new_call
        [(\<lparr>nn_Namespace = ''ns'', nn_Name = ''pw''\<rparr>, \<lparr>nn_Namespace = ''ns'', nn_Name = ''a''\<rparr>),
         (\<lparr>nn_Namespace = ''ns'', nn_Name = ''pw''\<rparr>, \<lparr>nn_Namespace = ''ns'', nn_Name = ''b''\<rparr>)]) (w, cs) \<and> all_over cs \<longrightarrow>
      (\<forall>n d. (n, d) \<in> set [(\<lparr>nn_Namespace = ''ns'', nn_Name = ''pw''\<rparr>, \<lparr>nn_Namespace = ''ns'', nn_Name = ''a''\<rparr>),
         (\<lparr>nn_Namespace = ''ns'', nn_Name = ''pw''\<rparr>, \<lparr>nn_Namespace = ''ns'', nn_Name = ''b''\<rparr>)] \<longrightarrow> d \<in> set (dependents w n)))"
  unfolding concurrent_watch by (auto simp: conflict_def dependents_def watch_New_def)

end
