(* ===== verification/Resource_Json.thy ===== *)
theory Resource_Json
  imports Api
begin

text \<open>
  The JSON form of the two wrapper types in \<open>api/v1/mongodbcommunity_types.go\<close>: the free-form
  configuration of mongod, a map without a schema, and the override of the stateful set, whose
  encoding is that of the Kubernetes type in it and an argument here.
\<close>

section \<open>The configuration of mongod\<close>

text \<open>A nil map, or a map of JSON values.\<close>

record mongod_configuration =
  mc_Object :: "json gomap option"

definition mongod_MarshalJSON :: "mongod_configuration \<Rightarrow> string outcome" where
  "mongod_MarshalJSON m = Ok (render (enc_objx (mc_Object m)))"

text \<open>
  \<open>json.Unmarshal\<close> into a map: \<open>null\<close> makes it nil, an object adds its members to the entries that
  are there, and anything else is an error that leaves the map alone.
\<close>

definition unmarshal_map :: "string \<Rightarrow> json gomap option \<Rightarrow> unit outcome \<times> json gomap option" where
  "unmarshal_map data m =
     (case parse data of
        Some JNull \<Rightarrow> (Ok (), None)
      | Some (JObj kvs) \<Rightarrow> (Ok (), Some (put_all (entries m) kvs))
      | _ \<Rightarrow> (Fail (Err ''invalid JSON for a map''), m))"

definition mongod_UnmarshalJSON :: "string \<Rightarrow> mongod_configuration \<Rightarrow> unit outcome \<times> mongod_configuration" where
  "mongod_UnmarshalJSON data m =
     (let obj = (if mc_Object m = None then Some [] else mc_Object m)
      in case unmarshal_map data obj of (res, obj') \<Rightarrow> (res, m\<lparr>mc_Object := obj'\<rparr>))"

section \<open>The override of the stateful set\<close>

record statefulset_wrapper =
  ssw_Spec :: statefulset_spec

definition wrapper_MarshalJSON :: "(statefulset_spec \<Rightarrow> string outcome) \<Rightarrow> statefulset_wrapper \<Rightarrow> string outcome" where
  "wrapper_MarshalJSON marshal m = marshal (ssw_Spec m)"

definition wrapper_UnmarshalJSON ::
    "(string \<Rightarrow> statefulset_spec \<Rightarrow> unit outcome \<times> statefulset_spec) \<Rightarrow> string \<Rightarrow> statefulset_wrapper
      \<Rightarrow> unit outcome \<times> statefulset_wrapper" where
  "wrapper_UnmarshalJSON unmarshal data m =
     (case unmarshal data (ssw_Spec m) of (res, spec) \<Rightarrow> (res, m\<lparr>ssw_Spec := spec\<rparr>))"

section \<open>Round trip\<close>

lemma canon_obj_lookup:
  assumes "wf_map kvs"
  shows "map_of (canon_obj kvs) = (\<lambda>k. map_option canon (map_of kvs k))"
proof -
  let ?m = "map (\<lambda>(k, v). (k, canon v)) kvs"
  have d: "distinct (map fst ?m)" using assms by (simp add: wf_map_def comp_def case_prod_unfold)
  have "distinct (map fst (sort_key fst ?m))" using wf_sort_key_fst [of ?m] d by (simp add: wf_map_def)
  from map_of_inject_set [OF this d] have "map_of (canon_obj kvs) = map_of ?m" by (simp add: canon_obj_def)
  then show ?thesis by (simp add: map_of_map comp_def)
qed

text \<open>
  C33. The free-form configuration survives encoding and decoding: reading what was written into a
  new value gives the same entries, with the maps in them sorted by their keys, and nil for nil.
  Reading it into a configuration that already has entries keeps the old ones that are not
  written again.
\<close>

theorem mongod_configuration_roundtrip:
  assumes "wf_args (mc_Object c)" and "mongod_MarshalJSON c = Ok data"
  shows "\<exists>c'. mongod_UnmarshalJSON data old = (Ok (), c')
    \<and> (mc_Object c = None \<longrightarrow> mc_Object c' = None)
    \<and> (\<forall>kvs. mc_Object c = Some kvs \<longrightarrow> (\<exists>kvs'. mc_Object c' = Some kvs'
         \<and> map_of kvs' = map_of (entries (mc_Object old)) ++ (\<lambda>k. map_option canon (map_of kvs k))))"
proof (cases "mc_Object c")
  case None
  with assms have "data = render JNull" by (simp add: mongod_MarshalJSON_def enc_objx_def)
  with parse_render [of JNull] have "parse data = Some JNull" by (simp only: wf_json.simps)
  with None show ?thesis by (simp add: mongod_UnmarshalJSON_def unmarshal_map_def)
next
  case (Some kvs)
  with assms have wf: "wf_map kvs" and data: "data = render (enc_objx (Some kvs))" and j: "wf_json (enc_objx (Some kvs))"
    using wf_enc_objx [of "mc_Object c"] by (auto simp: mongod_MarshalJSON_def wf_args_def)
  from parse_render [OF j] have "parse data = Some (JObj (canon_obj kvs))" by (simp add: data enc_objx_def canon_obj_def)
  moreover have "map_of (canon_obj kvs) = (\<lambda>k. map_option canon (map_of kvs k))"
    by (rule canon_obj_lookup [OF wf])
  ultimately show ?thesis using Some wf_canon_obj [OF wf]
    by (auto simp: mongod_UnmarshalJSON_def unmarshal_map_def map_of_put_all Let_def)
qed

theorem mongod_configuration_roundtrip_witness:
  "\<exists>data c'. mongod_MarshalJSON \<lparr>mc_Object = Some [(''storage'', JBool True), (''net'', JInt 1)]\<rparr> = Ok data
    \<and> mongod_UnmarshalJSON data \<lparr>mc_Object = None\<rparr> = (Ok (), c')
    \<and> map_of (the (mc_Object c')) ''storage'' = Some (JBool True)"
proof -
  let ?c = "\<lparr>mc_Object = Some [(''storage'', JBool True), (''net'', JInt 1)]\<rparr>"
  obtain data where data: "mongod_MarshalJSON ?c = Ok data" by (simp add: mongod_MarshalJSON_def)
  have "wf_args (mc_Object ?c)" by (simp add: wf_args_def wf_map_def)
  from mongod_configuration_roundtrip [OF this data, of "\<lparr>mc_Object = None\<rparr>"] data show ?thesis by auto
qed

end
