(* ===== verification/Store.thy ===== *)
theory Store
  imports Api
begin

text \<open>
  An explicit store for the code whose meaning depends on aliasing, the copies of resources. An
  address is a position in the list of allocated cells, so memory only grows. A cell is what a
  pointer, a slice or a map refers to. The contract \<open>deep_copy\<close> says what a copy function of a
  type promises, and the lemmas build the copy functions of slices and structs from those of
  their parts.
\<close>

section \<open>What a copy promises\<close>

type_synonym addr = nat

lemma within_fresh:
  fixes m n :: addr
  assumes "A \<subseteq> {m..<n} \<union> S" and "S \<subseteq> T" and "T \<subseteq> {..<m}" and "m \<le> n"
  shows "A \<subseteq> {..<n}"
proof
  fix a assume "a \<in> A"
  with assms(1-3) have "a \<in> {m..<n} \<or> a \<in> {..<m}" by blast
  with assms(4) show "a \<in> {..<n}" by auto
qed

text \<open>
  \<open>val h x\<close> is the value that \<open>x\<close> stands for in the store \<open>h\<close>, and \<open>refs h x\<close> are the addresses
  that can be reached from it. A copy leaves the allocated cells alone, stands for the same value,
  and reaches new cells only, apart from those it is allowed to share.
\<close>

locale deep_copy =
  fixes copy :: "'a \<Rightarrow> 'c list \<Rightarrow> 'a \<times> 'c list" and val :: "'c list \<Rightarrow> 'a \<Rightarrow> 'v"
    and refs :: "'c list \<Rightarrow> 'a \<Rightarrow> addr set" and shared :: "'c list \<Rightarrow> 'a \<Rightarrow> addr set"
  assumes extends: "copy x h = (y, h') \<Longrightarrow> \<exists>cs. h' = h @ cs"
    and same: "refs h x \<subseteq> {..<length h} \<Longrightarrow> copy x h = (y, h') \<Longrightarrow> val h' y = val h x"
    and fresh: "refs h x \<subseteq> {..<length h} \<Longrightarrow> copy x h = (y, h') \<Longrightarrow>
      refs h' y \<subseteq> {length h..<length h'} \<union> shared h x"
    and local: "refs h x \<subseteq> {..<length h} \<Longrightarrow> length h \<le> length h' \<Longrightarrow> (\<And>a. a \<in> refs h x \<Longrightarrow> h' ! a = h ! a) \<Longrightarrow>
      val h' x = val h x \<and> refs h' x = refs h x \<and> shared h' x = shared h x"
    and shared_refs: "shared h x \<subseteq> refs h x"
begin

text \<open>Allocation does not change a value, so the original is not touched by the copy.\<close>

lemma local_append:
  assumes "refs h x \<subseteq> {..<length h}"
  shows "val (h @ cs) x = val h x" and "refs (h @ cs) x = refs h x" and "shared (h @ cs) x = shared h x"
proof -
  have "(h @ cs) ! a = h ! a" if "a \<in> refs h x" for a using that assms by (auto simp: nth_append)
  from local [OF assms _ this] show "val (h @ cs) x = val h x" "refs (h @ cs) x = refs h x" "shared (h @ cs) x = shared h x" by simp_all
qed

lemma original_kept:
  assumes "refs h x \<subseteq> {..<length h}" and "copy x h = (y, h')"
  shows "val h' x = val h x"
  using extends [OF assms(2)] local_append(1) [OF assms(1)] by blast

lemma copy_within:
  assumes "refs h x \<subseteq> {..<length h}" and "copy x h = (y, h')"
  shows "refs h' y \<subseteq> {..<length h'}"
  using within_fresh [OF fresh [OF assms] shared_refs assms(1)] extends [OF assms(2)] by auto

text \<open>Nor by a later write through the copy, unless the written cell is shared.\<close>

lemma write_apart:
  assumes x: "refs h x \<subseteq> {..<length h}" and c: "copy x h = (y, h')" and a: "a \<in> refs h' y" "a \<notin> shared h x"
  shows "val (h'[a := cell]) x = val h x"
proof -
  from extends [OF c] obtain cs where h': "h' = h @ cs" by blast
  have "length h \<le> a" using fresh [OF x c] a by auto
  then have "(h'[a := cell]) ! b = h ! b" if "b \<in> refs h x" for b
    using that x by (auto simp: h' nth_append nth_list_update)
  with local [OF x, of "h'[a := cell]"] show ?thesis by (auto simp: h')
qed

end

text \<open>Values without references are copied by the assignment.\<close>

lemma deep_copy_plain: "deep_copy (\<lambda>x h. (x, h)) (\<lambda>h x. f x) (\<lambda>h x. {}) (\<lambda>h x. {})"
  by unfold_locales auto

text \<open>So are values whose references are shared with the copy.\<close>

lemma shallow_copy:
  assumes "\<And>h h' x. r h x \<subseteq> {..<length h} \<Longrightarrow> length h \<le> length h' \<Longrightarrow> (\<And>a. a \<in> r h x \<Longrightarrow> h' ! a = h ! a) \<Longrightarrow>
      v h' x = v h x \<and> r h' x = r h x"
  shows "deep_copy (\<lambda>x h. (x, h)) v r r"
proof
  fix h h' x
  assume "r h x \<subseteq> {..<length h}" and "length h \<le> length h'" and "\<And>a. a \<in> r h x \<Longrightarrow> h' ! a = h ! a"
  then show "v h' x = v h x \<and> r h' x = r h x \<and> r h' x = r h x" using assms by metis
qed simp_all

section \<open>Pointers, slices and maps\<close>

text \<open>\<open>new\<close> or \<open>make\<close>, and the copy of the contents, which have no references.\<close>

definition copy_ref :: "('c \<Rightarrow> 'b) \<Rightarrow> ('b \<Rightarrow> 'c) \<Rightarrow> addr option \<Rightarrow> 'c list \<Rightarrow> addr option \<times> 'c list" where
  "copy_ref rd mk r h = (case r of None \<Rightarrow> (None, h) | Some a \<Rightarrow> (Some (length h), h @ [mk (rd (h ! a))]))"

definition ref_val :: "('c \<Rightarrow> 'b) \<Rightarrow> 'c list \<Rightarrow> addr option \<Rightarrow> 'b option" where
  "ref_val rd h r = map_option (\<lambda>a. rd (h ! a)) r"

lemma deep_copy_ref:
  assumes "\<And>x. rd (mk x) = x"
  shows "deep_copy (copy_ref rd mk) (ref_val rd) (\<lambda>h r. set_option r) (\<lambda>h r. {})"
proof
  fix x h y h'
  assume "copy_ref rd mk x h = (y, h')"
  then show "\<exists>cs. h' = h @ cs" "ref_val rd h' y = ref_val rd h x" "set_option y \<subseteq> {length h..<length h'} \<union> {}"
    by (cases x; auto simp: copy_ref_def ref_val_def assms)+
next
  fix h x h'
  assume "\<And>a. a \<in> set_option x \<Longrightarrow> (h' :: 'b list) ! a = h ! a"
  then show "ref_val rd h' x = ref_val rd h x \<and> set_option x = set_option x \<and> {} = ({} :: addr set)"
    by (cases x) (simp_all add: ref_val_def)
qed simp

text \<open>A slice whose elements are copied one by one.\<close>

fun copy_elems :: "('a \<Rightarrow> 'c list \<Rightarrow> 'a \<times> 'c list) \<Rightarrow> 'a list \<Rightarrow> 'c list \<Rightarrow> 'a list \<times> 'c list" where
  "copy_elems f [] h = ([], h)"
| "copy_elems f (x # xs) h = (let (y, h1) = f x h; (ys, h2) = copy_elems f xs h1 in (y # ys, h2))"

definition copy_slice ::
    "('c \<Rightarrow> 'a list) \<Rightarrow> ('a list \<Rightarrow> 'c) \<Rightarrow> ('a \<Rightarrow> 'c list \<Rightarrow> 'a \<times> 'c list) \<Rightarrow> addr option \<Rightarrow> 'c list \<Rightarrow> addr option \<times> 'c list" where
  "copy_slice rd mk f r h = (case r of None \<Rightarrow> (None, h)
     | Some a \<Rightarrow> (let (ys, h') = copy_elems f (rd (h ! a)) h in (Some (length h'), h' @ [mk ys])))"

definition slice_val :: "('c \<Rightarrow> 'a list) \<Rightarrow> ('c list \<Rightarrow> 'a \<Rightarrow> 'v) \<Rightarrow> 'c list \<Rightarrow> addr option \<Rightarrow> 'v list option" where
  "slice_val rd v h r = map_option (\<lambda>a. map (v h) (rd (h ! a))) r"

definition elems_refs :: "('c list \<Rightarrow> 'a \<Rightarrow> addr set) \<Rightarrow> 'c list \<Rightarrow> 'a list \<Rightarrow> addr set" where
  "elems_refs rf h xs = (\<Union>x \<in> set xs. rf h x)"

definition slice_refs :: "('c \<Rightarrow> 'a list) \<Rightarrow> ('c list \<Rightarrow> 'a \<Rightarrow> addr set) \<Rightarrow> 'c list \<Rightarrow> addr option \<Rightarrow> addr set" where
  "slice_refs rd rf h r = (case r of None \<Rightarrow> {} | Some a \<Rightarrow> insert a (elems_refs rf h (rd (h ! a))))"

lemma elems_refs_simps [simp]: "elems_refs rf h [] = {}" "elems_refs rf h (x # xs) = rf h x \<union> elems_refs rf h xs"
  by (simp_all add: elems_refs_def)

context deep_copy
begin

lemma elems_extend: "copy_elems copy xs h = (ys, h') \<Longrightarrow> \<exists>cs. h' = h @ cs"
proof (induction xs arbitrary: h ys h')
  case Nil
  then show ?case by simp
next
  case (Cons x xs)
  then obtain y h1 ys1 where "copy x h = (y, h1)" "copy_elems copy xs h1 = (ys1, h')" by (auto split: prod.splits)
  with extends [of x h y h1] Cons.IH [of h1 ys1 h'] show ?case by auto
qed

lemma elems_local:
  assumes "elems_refs refs h xs \<subseteq> {..<length h}" and "length h \<le> length h'" and "\<And>a. a \<in> elems_refs refs h xs \<Longrightarrow> h' ! a = h ! a"
  shows "map (val h') xs = map (val h) xs" and "elems_refs refs h' xs = elems_refs refs h xs"
    and "elems_refs shared h' xs = elems_refs shared h xs"
proof -
  have "val h' x = val h x \<and> refs h' x = refs h x \<and> shared h' x = shared h x" if "x \<in> set xs" for x
    by (rule local) (use assms that in \<open>auto simp: elems_refs_def\<close>)
  then show "map (val h') xs = map (val h) xs" "elems_refs refs h' xs = elems_refs refs h xs"
    "elems_refs shared h' xs = elems_refs shared h xs" by (auto simp: elems_refs_def)
qed

lemma elems_append:
  assumes "elems_refs refs h xs \<subseteq> {..<length h}"
  shows "map (val (h @ cs)) xs = map (val h) xs" and "elems_refs refs (h @ cs) xs = elems_refs refs h xs"
    and "elems_refs shared (h @ cs) xs = elems_refs shared h xs"
proof -
  have "(h @ cs) ! a = h ! a" if "a \<in> elems_refs refs h xs" for a using that assms by (auto simp: nth_append)
  from elems_local [OF assms _ this] show "map (val (h @ cs)) xs = map (val h) xs"
    "elems_refs refs (h @ cs) xs = elems_refs refs h xs" "elems_refs shared (h @ cs) xs = elems_refs shared h xs" by simp_all
qed

lemma elems_copied:
  assumes "elems_refs refs h xs \<subseteq> {..<length h}" and "copy_elems copy xs h = (ys, h')"
  shows "map (val h') ys = map (val h) xs \<and> elems_refs refs h' ys \<subseteq> {length h..<length h'} \<union> elems_refs shared h xs"
  using assms
proof (induction xs arbitrary: h ys h')
  case Nil
  then show ?case by simp
next
  case (Cons x xs)
  obtain y h1 ys1 where c: "copy x h = (y, h1)" "copy_elems copy xs h1 = (ys1, h')" and ys: "ys = y # ys1"
    using Cons.prems(2) by (auto split: prod.splits)
  from extends [OF c(1)] elems_extend [OF c(2)] obtain cs ds where h1: "h1 = h @ cs" and h': "h' = h1 @ ds" by blast
  have x: "refs h x \<subseteq> {..<length h}" and xs: "elems_refs refs h xs \<subseteq> {..<length h}" using Cons.prems(1) by auto
  note keep = elems_append [OF xs, of cs, folded h1]
  have "elems_refs refs h1 xs \<subseteq> {..<length h1}" using xs unfolding keep(2) by (auto simp: h1)
  from Cons.IH [OF this c(2)] have ih: "map (val h') ys1 = map (val h) xs"
    "elems_refs refs h' ys1 \<subseteq> {length h1..<length h'} \<union> elems_refs shared h xs" unfolding keep by blast+
  note y = local_append [OF copy_within [OF x c(1)], of ds, folded h']
  have "refs h' y \<subseteq> {length h..<length h1} \<union> shared h x" using fresh [OF x c(1)] unfolding y(2) .
  moreover have "length h \<le> length h1" "length h1 \<le> length h'" by (simp_all add: h1 h')
  ultimately have "refs h' y \<union> elems_refs refs h' ys1 \<subseteq> {length h..<length h'} \<union> (shared h x \<union> elems_refs shared h xs)"
    using ih(2) by (auto simp: subset_iff)
  with ih(1) same [OF x c(1)] y(1) show ?case by (simp add: ys)
qed

lemma elems_shared: "elems_refs shared h xs \<subseteq> elems_refs refs h xs"
  using shared_refs by (fastforce simp: elems_refs_def)

end

lemma deep_copy_slice:
  assumes "deep_copy f v rf sh" and "\<And>xs. rd (mk xs) = xs"
  shows "deep_copy (copy_slice rd mk f) (slice_val rd v) (slice_refs rd rf)
    (\<lambda>h r. case r of None \<Rightarrow> {} | Some a \<Rightarrow> elems_refs sh h (rd (h ! a)))"
proof
  fix x h y h'
  assume "copy_slice rd mk f x h = (y, h')"
  then show "\<exists>cs. h' = h @ cs"
    by (auto simp: copy_slice_def split: option.splits prod.splits dest!: deep_copy.elems_extend [OF assms(1)])
next
  fix h x y h'
  assume x: "slice_refs rd rf h x \<subseteq> {..<length h}" and c: "copy_slice rd mk f x h = (y, h')"
  have "slice_val rd v h' y = slice_val rd v h x
    \<and> slice_refs rd rf h' y \<subseteq> {length h..<length h'} \<union> (case x of None \<Rightarrow> {} | Some a \<Rightarrow> elems_refs sh h (rd (h ! a)))"
  proof (cases x)
    case (Some a)
    with c obtain ys h1 where e: "copy_elems f (rd (h ! a)) h = (ys, h1)" and y: "y = Some (length h1)" "h' = h1 @ [mk ys]"
      by (auto simp: copy_slice_def split: prod.splits)
    have "elems_refs rf h (rd (h ! a)) \<subseteq> {..<length h}" using x by (simp add: Some slice_refs_def)
    note ys = deep_copy.elems_copied [OF assms(1) this e]
    obtain cs where h1: "h1 = h @ cs" using deep_copy.elems_extend [OF assms(1) e] by blast
    have "elems_refs rf h1 ys \<subseteq> {..<length h1}"
      by (rule within_fresh [OF conjunct2 [OF ys] deep_copy.elems_shared [OF assms(1)]])
        (use \<open>elems_refs rf h (rd (h ! a)) \<subseteq> {..<length h}\<close> in \<open>simp_all add: h1\<close>)
    note keep = deep_copy.elems_append [OF assms(1) this, of "[mk ys]", folded y(2)]
    have "h' ! length h1 = mk ys" by (simp add: y(2))
    with ys keep show ?thesis
      by (auto simp: Some y(1) slice_val_def slice_refs_def assms(2) subset_iff) (auto simp: y(2) h1)
  qed (use c in \<open>simp add: copy_slice_def slice_val_def slice_refs_def\<close>)
  then show "slice_val rd v h' y = slice_val rd v h x"
    "slice_refs rd rf h' y \<subseteq> {length h..<length h'} \<union> (case x of None \<Rightarrow> {} | Some a \<Rightarrow> elems_refs sh h (rd (h ! a)))" by blast+
next
  fix h h' x
  assume "slice_refs rd rf h x \<subseteq> {..<length h}" and "length h \<le> length h'" and "\<And>a. a \<in> slice_refs rd rf h x \<Longrightarrow> h' ! a = h ! a"
  then show "slice_val rd v h' x = slice_val rd v h x \<and> slice_refs rd rf h' x = slice_refs rd rf h x
      \<and> (case x of None \<Rightarrow> {} | Some a \<Rightarrow> elems_refs sh h' (rd (h' ! a))) = (case x of None \<Rightarrow> {} | Some a \<Rightarrow> elems_refs sh h (rd (h ! a)))"
    using deep_copy.elems_local [OF assms(1), of h "rd (h ! the x)" h'] by (cases x) (auto simp: slice_val_def slice_refs_def)
next
  fix h x
  show "(case x of None \<Rightarrow> {} | Some a \<Rightarrow> elems_refs sh h (rd (h ! a))) \<subseteq> slice_refs rd rf h x"
    using deep_copy.elems_shared [OF assms(1)] by (auto simp: slice_refs_def split: option.splits)
qed

section \<open>Structs\<close>

text \<open>Two values, copied one after the other.\<close>

definition copy_pair where
  "copy_pair f g = (\<lambda>(x, y) h. let (x', h1) = f x h; (y', h2) = g y h1 in ((x', y'), h2))"

definition pair_val where
  "pair_val v v' = (\<lambda>h (x, y). (v h x, v' h y))"

definition pair_refs :: "('c list \<Rightarrow> 'a \<Rightarrow> addr set) \<Rightarrow> ('c list \<Rightarrow> 'b \<Rightarrow> addr set) \<Rightarrow> 'c list \<Rightarrow> 'a \<times> 'b \<Rightarrow> addr set" where
  "pair_refs rf rf' = (\<lambda>h (x, y). rf h x \<union> rf' h y)"

lemma deep_copy_pair:
  assumes f: "deep_copy f v rf sh" and g: "deep_copy g v' rf' sh'"
  shows "deep_copy (copy_pair f g) (pair_val v v') (pair_refs rf rf') (pair_refs sh sh')"
proof
  fix p h q h'
  assume "copy_pair f g p h = (q, h')"
  then show "\<exists>cs. h' = h @ cs"
    by (auto simp: copy_pair_def split: prod.splits dest!: deep_copy.extends [OF f] deep_copy.extends [OF g])
next
  fix h p q h'
  assume p: "pair_refs rf rf' h p \<subseteq> {..<length h}" and c: "copy_pair f g p h = (q, h')"
  obtain x y where xy: "p = (x, y)" by fastforce
  with p have x: "rf h x \<subseteq> {..<length h}" and y: "rf' h y \<subseteq> {..<length h}" by (auto simp: pair_refs_def)
  from c obtain x' h1 y' where fx: "f x h = (x', h1)" and gy: "g y h1 = (y', h')" and q: "q = (x', y')"
    by (auto simp: copy_pair_def xy split: prod.splits)
  from deep_copy.extends [OF f fx] deep_copy.extends [OF g gy] obtain cs ds where h1: "h1 = h @ cs" and h': "h' = h1 @ ds" by blast
  note ky = deep_copy.local_append [OF g y, of cs, folded h1]
  note kx = deep_copy.local_append [OF f deep_copy.copy_within [OF f x fx], of ds, folded h']
  have y1: "rf' h1 y \<subseteq> {..<length h1}" using y unfolding ky(2) by (auto simp: h1)
  show "pair_val v v' h' q = pair_val v v' h p"
    using deep_copy.same [OF f x fx] deep_copy.same [OF g y1 gy] kx(1) ky(1) by (simp add: pair_val_def q xy)
  have "rf h' x' \<subseteq> {length h..<length h1} \<union> sh h x" using deep_copy.fresh [OF f x fx] unfolding kx(2) .
  moreover have "rf' h' y' \<subseteq> {length h1..<length h'} \<union> sh' h y" using deep_copy.fresh [OF g y1 gy] unfolding ky(3) .
  moreover have "length h \<le> length h1" "length h1 \<le> length h'" by (simp_all add: h1 h')
  ultimately show "pair_refs rf rf' h' q \<subseteq> {length h..<length h'} \<union> pair_refs sh sh' h p"
    by (auto simp: pair_refs_def q xy subset_iff)
next
  fix h p h'
  assume "pair_refs rf rf' h p \<subseteq> {..<length h}" "length h \<le> length h'" "\<And>a. a \<in> pair_refs rf rf' h p \<Longrightarrow> h' ! a = h ! a"
  then show "pair_val v v' h' p = pair_val v v' h p \<and> pair_refs rf rf' h' p = pair_refs rf rf' h p \<and> pair_refs sh sh' h' p = pair_refs sh sh' h p"
    using deep_copy.local [OF f, of h "fst p" h'] deep_copy.local [OF g, of h "snd p" h']
    by (cases p) (auto simp: pair_val_def pair_refs_def)
next
  fix h p
  show "pair_refs sh sh' h p \<subseteq> pair_refs rf rf' h p"
    using deep_copy.shared_refs [OF f, of h "fst p"] deep_copy.shared_refs [OF g, of h "snd p"] by (cases p) (auto simp: pair_refs_def)
qed

text \<open>
  A struct: \<open>*out = *in\<close> copies all fields by assignment, then the fields with references, here
  those that \<open>flds\<close> selects, are replaced by their copies. The value of the struct is put
  together from the values of these fields and the others.
\<close>

definition copy_struct where
  "copy_struct flds upd f = (\<lambda>s h. let (y, h') = f (flds s) h in (upd y s, h'))"

lemma deep_copy_struct:
  assumes f: "deep_copy f v rf sh" and get: "\<And>y s. flds (upd y s) = y" and V: "\<And>w y s. V w (upd y s) = V w s"
  shows "deep_copy (copy_struct flds upd f) (\<lambda>h s. V (v h (flds s)) s) (\<lambda>h s. rf h (flds s)) (\<lambda>h s. sh h (flds s))"
proof
  fix s h t h'
  assume "copy_struct flds upd f s h = (t, h')"
  then obtain y where y: "f (flds s) h = (y, h')" and t: "t = upd y s" by (auto simp: copy_struct_def split: prod.splits)
  show "\<exists>cs. h' = h @ cs" using deep_copy.extends [OF f y] .
  assume s: "rf h (flds s) \<subseteq> {..<length h}"
  show "V (v h' (flds t)) t = V (v h (flds s)) s" "rf h' (flds t) \<subseteq> {length h..<length h'} \<union> sh h (flds s)"
    using deep_copy.same [OF f s y] deep_copy.fresh [OF f s y] by (simp_all add: t get V)
next
  fix h s h'
  assume "rf h (flds s) \<subseteq> {..<length h}" "length h \<le> length h'" "\<And>a. a \<in> rf h (flds s) \<Longrightarrow> h' ! a = h ! a"
  from deep_copy.local [OF f this] show "V (v h' (flds s)) s = V (v h (flds s)) s \<and> rf h' (flds s) = rf h (flds s)
      \<and> sh h' (flds s) = sh h (flds s)" by simp
next
  fix h s
  show "sh h (flds s) \<subseteq> rf h (flds s)" by (rule deep_copy.shared_refs [OF f])
qed

lemma deep_copy_eqI:
  assumes "deep_copy f v rf sh" and "\<And>x h. f' x h = f x h" and "\<And>h x. v' h x = v h x"
    and "\<And>h x. rf' h x = rf h x" and "\<And>h x. sh' h x = sh h x"
  shows "deep_copy f' v' rf' sh'"
proof -
  have "f' = f" "v' = v" "rf' = rf" "sh' = sh" using assms(2-5) by blast+
  with assms(1) show ?thesis by simp
qed

text \<open>\<open>DeepCopy\<close> on a pointer to a struct: nil for nil, and a new struct otherwise.\<close>

definition copy_pointer :: "('a \<Rightarrow> 'c list \<Rightarrow> 'a \<times> 'c list) \<Rightarrow> 'a option \<Rightarrow> 'c list \<Rightarrow> 'a option \<times> 'c list" where
  "copy_pointer into x h = (case x of None \<Rightarrow> (None, h) | Some s \<Rightarrow> (let (y, h') = into s h in (Some y, h')))"

end
