(* ===== verification/DeepCopy.thy ===== *)
theory DeepCopy
  imports Store
begin

text \<open>
  The copy functions of the custom resource: \<open>api/v1/zz_generated.deepcopy.go\<close> and the two written
  by hand in \<open>api/v1/mongodbcommunity_types.go\<close>. The structs are as in memory, with an address for
  every pointer, slice and map. Copies are made for every read from the cache of the operator, so
  a copy that shares memory with its original lets the operator change the cache.

  The metadata of objects and free-form JSON are copied by the API machinery, whose functions are
  arguments. The override of the stateful set is a struct of the Kubernetes API, of any type here.
  Where the code allocates the array of a slice before it copies the elements, the model
  allocates it after them; addresses are not visible to the program.
\<close>

section \<open>The structs in memory\<close>

record m_resource =
  m_DB :: "addr option"
  m_Collection :: "addr option"
  m_Cluster :: bool
  m_AnyResource :: bool

record m_privilege =
  m_Resource :: m_resource
  m_Actions :: "addr option"

record m_restriction =
  m_ClientSource :: "addr option"
  m_ServerAddress :: "addr option"

record m_custom_role =
  m_Role :: string
  m_RoleDB :: string
  m_Privileges :: "addr option"
  m_RoleRoles :: "addr option"
  m_AuthenticationRestrictions :: "addr option"

record m_authentication =
  m_Modes :: "addr option"
  m_IgnoreUnknownUsers :: "addr option"

record m_security =
  m_Authentication :: m_authentication
  m_TLS :: spec_tls
  m_CustomRoles :: "addr option"

record m_user =
  m_UserName :: string
  m_UserDB :: string
  m_PasswordSecretRef :: secret_key_reference
  m_UserRoles :: "addr option"
  m_ScramCredentialsSecretName :: string

record 's m_statefulset_configuration =
  m_SpecWrapper :: 's

record m_mongod_configuration =
  m_Object :: "addr option"

record 's m_spec =
  m_Members :: int
  m_Type :: string
  m_Version :: string
  m_Arbiters :: int
  m_FeatureCompatibilityVersion :: string
  m_ReplicaSetHorizons :: "addr option"
  m_Security :: m_security
  m_Users :: "addr option"
  m_StatefulSetConfiguration :: "'s m_statefulset_configuration"
  m_AdditionalMongodConfig :: m_mongod_configuration

record ('s, 'o) m_community =
  m_Kind :: string
  m_ObjectMeta :: 'o
  m_Spec :: "'s m_spec"
  m_Status :: mongodb_community_status

text \<open>What an address refers to; cells of other packages are of any type.\<close>

datatype ('s, 'o, 'f) cell =
  CBool (cell_bool: bool)
| CString (cell_string: string)
| CStrings (cell_strings: "string list")
| CRoles (cell_roles: "spec_role list")
| CPrivileges (cell_privileges: "m_privilege list")
| CRestrictions (cell_restrictions: "m_restriction list")
| CCustomRoles (cell_custom_roles: "m_custom_role list")
| CUsers (cell_users: "m_user list")
| CHorizonMap (cell_horizon_map: "string gomap")
| CHorizons (cell_horizons: "addr option list")
| CItems (cell_items: "('s, 'o) m_community list")
| CForeign (cell_foreign: 'f)

type_synonym ('s, 'o, 'f) store = "('s, 'o, 'f) cell list"

section \<open>The copy functions\<close>

definition Resource_DeepCopyInto :: "m_resource \<Rightarrow> ('s, 'o, 'f) store \<Rightarrow> m_resource \<times> ('s, 'o, 'f) store" where
  "Resource_DeepCopyInto inp h =
     (let (db, h1) = copy_ref cell_string CString (m_DB inp) h;
          (collection, h2) = copy_ref cell_string CString (m_Collection inp) h1
      in (inp\<lparr>m_DB := db, m_Collection := collection\<rparr>, h2))"

definition Privilege_DeepCopyInto :: "m_privilege \<Rightarrow> ('s, 'o, 'f) store \<Rightarrow> m_privilege \<times> ('s, 'o, 'f) store" where
  "Privilege_DeepCopyInto inp h =
     (let (resource, h1) = Resource_DeepCopyInto (m_Resource inp) h;
          (actions, h2) = copy_ref cell_strings CStrings (m_Actions inp) h1
      in (inp\<lparr>m_Resource := resource, m_Actions := actions\<rparr>, h2))"

definition AuthenticationRestriction_DeepCopyInto :: "m_restriction \<Rightarrow> ('s, 'o, 'f) store \<Rightarrow> m_restriction \<times> ('s, 'o, 'f) store" where
  "AuthenticationRestriction_DeepCopyInto inp h =
     (let (clientSource, h1) = copy_ref cell_strings CStrings (m_ClientSource inp) h;
          (serverAddress, h2) = copy_ref cell_strings CStrings (m_ServerAddress inp) h1
      in (inp\<lparr>m_ClientSource := clientSource, m_ServerAddress := serverAddress\<rparr>, h2))"

definition CustomRole_DeepCopyInto :: "m_custom_role \<Rightarrow> ('s, 'o, 'f) store \<Rightarrow> m_custom_role \<times> ('s, 'o, 'f) store" where
  "CustomRole_DeepCopyInto inp h =
     (let (privileges, h1) = copy_slice cell_privileges CPrivileges Privilege_DeepCopyInto (m_Privileges inp) h;
          (roles, h2) = copy_ref cell_roles CRoles (m_RoleRoles inp) h1;
          (restrictions, h3) = copy_slice cell_restrictions CRestrictions AuthenticationRestriction_DeepCopyInto
             (m_AuthenticationRestrictions inp) h2
      in (inp\<lparr>m_Privileges := privileges, m_RoleRoles := roles, m_AuthenticationRestrictions := restrictions\<rparr>, h3))"

definition Authentication_DeepCopyInto :: "m_authentication \<Rightarrow> ('s, 'o, 'f) store \<Rightarrow> m_authentication \<times> ('s, 'o, 'f) store" where
  "Authentication_DeepCopyInto inp h =
     (let (modes, h1) = copy_ref cell_strings CStrings (m_Modes inp) h;
          (ignoreUnknownUsers, h2) = copy_ref cell_bool CBool (m_IgnoreUnknownUsers inp) h1
      in (inp\<lparr>m_Modes := modes, m_IgnoreUnknownUsers := ignoreUnknownUsers\<rparr>, h2))"

definition TLS_DeepCopyInto :: "spec_tls \<Rightarrow> 'c list \<Rightarrow> spec_tls \<times> 'c list" where
  "TLS_DeepCopyInto inp h = (inp, h)"

definition Security_DeepCopyInto :: "m_security \<Rightarrow> ('s, 'o, 'f) store \<Rightarrow> m_security \<times> ('s, 'o, 'f) store" where
  "Security_DeepCopyInto inp h =
     (let (authentication, h1) = Authentication_DeepCopyInto (m_Authentication inp) h;
          (roles, h2) = copy_slice cell_custom_roles CCustomRoles CustomRole_DeepCopyInto (m_CustomRoles inp) h1
      in (inp\<lparr>m_Authentication := authentication, m_TLS := m_TLS inp, m_CustomRoles := roles\<rparr>, h2))"

definition MongoDBUser_DeepCopyInto :: "m_user \<Rightarrow> ('s, 'o, 'f) store \<Rightarrow> m_user \<times> ('s, 'o, 'f) store" where
  "MongoDBUser_DeepCopyInto inp h =
     (let (roles, h1) = copy_ref cell_roles CRoles (m_UserRoles inp) h
      in (inp\<lparr>m_PasswordSecretRef := m_PasswordSecretRef inp, m_UserRoles := roles\<rparr>, h1))"

text \<open>The copy of a horizon configuration that is not nil: a new slice with new maps.\<close>

definition copy_horizons :: "addr option \<Rightarrow> ('s, 'o, 'f) store \<Rightarrow> addr option \<times> ('s, 'o, 'f) store" where
  "copy_horizons = copy_slice cell_horizons CHorizons (copy_ref cell_horizon_map CHorizonMap)"

definition ReplicaSetHorizonConfiguration_DeepCopyInto :: "addr option \<Rightarrow> ('s, 'o, 'f) store \<Rightarrow> addr option \<times> ('s, 'o, 'f) store" where
  "ReplicaSetHorizonConfiguration_DeepCopyInto inp h =
     (case inp of None \<Rightarrow> (Some (length h), h @ [CHorizons []]) | Some a \<Rightarrow> copy_horizons (Some a) h)"

definition ReplicaSetHorizonConfiguration_DeepCopy :: "addr option \<Rightarrow> ('s, 'o, 'f) store \<Rightarrow> addr option \<times> ('s, 'o, 'f) store" where
  "ReplicaSetHorizonConfiguration_DeepCopy inp h =
     (case inp of None \<Rightarrow> (None, h) | Some a \<Rightarrow> ReplicaSetHorizonConfiguration_DeepCopyInto (Some a) h)"

text \<open>The copies written by hand: the map is copied by the API machinery, the stateful set not at all.\<close>

definition MongodConfiguration_DeepCopy ::
    "(addr option \<Rightarrow> 'c list \<Rightarrow> addr option \<times> 'c list) \<Rightarrow> m_mongod_configuration \<Rightarrow> 'c list \<Rightarrow> m_mongod_configuration \<times> 'c list" where
  "MongodConfiguration_DeepCopy DeepCopyJSON m h = (let (object, h') = DeepCopyJSON (m_Object m) h in (\<lparr>m_Object = object\<rparr>, h'))"

definition MongodConfiguration_DeepCopyInto ::
    "(addr option \<Rightarrow> 'c list \<Rightarrow> addr option \<times> 'c list) \<Rightarrow> m_mongod_configuration \<Rightarrow> 'c list \<Rightarrow> m_mongod_configuration \<times> 'c list" where
  "MongodConfiguration_DeepCopyInto DeepCopyJSON inp h = MongodConfiguration_DeepCopy DeepCopyJSON inp h"

definition StatefulSetSpecWrapper_DeepCopy :: "'s \<Rightarrow> 'c list \<Rightarrow> 's \<times> 'c list" where
  "StatefulSetSpecWrapper_DeepCopy spec h = (spec, h)"

definition StatefulSetSpecWrapper_DeepCopyInto :: "'s \<Rightarrow> 'c list \<Rightarrow> 's \<times> 'c list" where
  "StatefulSetSpecWrapper_DeepCopyInto inp h = StatefulSetSpecWrapper_DeepCopy inp h"

definition StatefulSetConfiguration_DeepCopyInto ::
    "'s m_statefulset_configuration \<Rightarrow> 'c list \<Rightarrow> 's m_statefulset_configuration \<times> 'c list" where
  "StatefulSetConfiguration_DeepCopyInto inp h =
     (let (wrapper, h1) = StatefulSetSpecWrapper_DeepCopyInto (m_SpecWrapper inp) h in (inp\<lparr>m_SpecWrapper := wrapper\<rparr>, h1))"

definition MongoDBCommunitySpec_DeepCopyInto ::
    "(addr option \<Rightarrow> ('s, 'o, 'f) store \<Rightarrow> addr option \<times> ('s, 'o, 'f) store) \<Rightarrow> 's m_spec \<Rightarrow> ('s, 'o, 'f) store \<Rightarrow> 's m_spec \<times> ('s, 'o, 'f) store" where
  "MongoDBCommunitySpec_DeepCopyInto DeepCopyJSON inp h =
     (let (horizons, h1) = copy_horizons (m_ReplicaSetHorizons inp) h;
          (security, h2) = Security_DeepCopyInto (m_Security inp) h1;
          (users, h3) = copy_slice cell_users CUsers MongoDBUser_DeepCopyInto (m_Users inp) h2;
          (statefulset, h4) = StatefulSetConfiguration_DeepCopyInto (m_StatefulSetConfiguration inp) h3;
          (mongod, h5) = MongodConfiguration_DeepCopyInto DeepCopyJSON (m_AdditionalMongodConfig inp) h4
      in (inp\<lparr>m_ReplicaSetHorizons := horizons, m_Security := security, m_Users := users,
              m_StatefulSetConfiguration := statefulset, m_AdditionalMongodConfig := mongod\<rparr>, h5))"

definition MongoDBCommunityStatus_DeepCopyInto :: "mongodb_community_status \<Rightarrow> 'c list \<Rightarrow> mongodb_community_status \<times> 'c list" where
  "MongoDBCommunityStatus_DeepCopyInto inp h = (inp, h)"

definition MongoDBCommunity_DeepCopyInto ::
    "('o \<Rightarrow> ('s, 'o, 'f) store \<Rightarrow> 'o \<times> ('s, 'o, 'f) store) \<Rightarrow> (addr option \<Rightarrow> ('s, 'o, 'f) store \<Rightarrow> addr option \<times> ('s, 'o, 'f) store)
      \<Rightarrow> ('s, 'o) m_community \<Rightarrow> ('s, 'o, 'f) store \<Rightarrow> ('s, 'o) m_community \<times> ('s, 'o, 'f) store" where
  "MongoDBCommunity_DeepCopyInto ObjectMeta_DeepCopyInto DeepCopyJSON inp h =
     (let (meta, h1) = ObjectMeta_DeepCopyInto (m_ObjectMeta inp) h;
          (spec, h2) = MongoDBCommunitySpec_DeepCopyInto DeepCopyJSON (m_Spec inp) h1
      in (inp\<lparr>m_ObjectMeta := meta, m_Spec := spec, m_Status := m_Status inp\<rparr>, h2))"

text \<open>The list of resources, with its metadata of any type.\<close>

record 'm m_community_list =
  m_ListMeta :: 'm
  m_Items :: "addr option"

definition MongoDBCommunityList_DeepCopyInto ::
    "('m \<Rightarrow> ('s, 'o, 'f) store \<Rightarrow> 'm \<times> ('s, 'o, 'f) store) \<Rightarrow> ('o \<Rightarrow> ('s, 'o, 'f) store \<Rightarrow> 'o \<times> ('s, 'o, 'f) store)
      \<Rightarrow> (addr option \<Rightarrow> ('s, 'o, 'f) store \<Rightarrow> addr option \<times> ('s, 'o, 'f) store)
      \<Rightarrow> 'm m_community_list \<Rightarrow> ('s, 'o, 'f) store \<Rightarrow> 'm m_community_list \<times> ('s, 'o, 'f) store" where
  "MongoDBCommunityList_DeepCopyInto ListMeta_DeepCopyInto ObjectMeta_DeepCopyInto DeepCopyJSON inp h =
     (let (meta, h1) = ListMeta_DeepCopyInto (m_ListMeta inp) h;
          (items, h2) = copy_slice cell_items CItems (MongoDBCommunity_DeepCopyInto ObjectMeta_DeepCopyInto DeepCopyJSON) (m_Items inp) h1
      in (inp\<lparr>m_ListMeta := meta, m_Items := items\<rparr>, h2))"

text \<open>Structs without references are copied by the assignment.\<close>

definition Role_DeepCopyInto :: "spec_role \<Rightarrow> 'c list \<Rightarrow> spec_role \<times> 'c list" where
  "Role_DeepCopyInto inp h = (inp, h)"
definition SecretKeyReference_DeepCopyInto :: "secret_key_reference \<Rightarrow> 'c list \<Rightarrow> secret_key_reference \<times> 'c list" where
  "SecretKeyReference_DeepCopyInto inp h = (inp, h)"
definition LocalObjectReference_DeepCopyInto :: "string \<Rightarrow> 'c list \<Rightarrow> string \<times> 'c list" where
  "LocalObjectReference_DeepCopyInto inp h = (inp, h)"

text \<open>The functions on pointers.\<close>

definition Authentication_DeepCopy where "Authentication_DeepCopy = copy_pointer Authentication_DeepCopyInto"
definition AuthenticationRestriction_DeepCopy where
  "AuthenticationRestriction_DeepCopy = copy_pointer AuthenticationRestriction_DeepCopyInto"
definition CustomRole_DeepCopy where "CustomRole_DeepCopy = copy_pointer CustomRole_DeepCopyInto"
definition LocalObjectReference_DeepCopy where "LocalObjectReference_DeepCopy = copy_pointer LocalObjectReference_DeepCopyInto"
definition MongoDBCommunity_DeepCopy where "MongoDBCommunity_DeepCopy om js = copy_pointer (MongoDBCommunity_DeepCopyInto om js)"
definition MongoDBCommunityList_DeepCopy where
  "MongoDBCommunityList_DeepCopy lm om js = copy_pointer (MongoDBCommunityList_DeepCopyInto lm om js)"
definition MongoDBCommunitySpec_DeepCopy where "MongoDBCommunitySpec_DeepCopy js = copy_pointer (MongoDBCommunitySpec_DeepCopyInto js)"
definition MongoDBCommunityStatus_DeepCopy where "MongoDBCommunityStatus_DeepCopy = copy_pointer MongoDBCommunityStatus_DeepCopyInto"
definition MongoDBUser_DeepCopy where "MongoDBUser_DeepCopy = copy_pointer MongoDBUser_DeepCopyInto"
definition Privilege_DeepCopy where "Privilege_DeepCopy = copy_pointer Privilege_DeepCopyInto"
definition Resource_DeepCopy where "Resource_DeepCopy = copy_pointer Resource_DeepCopyInto"
definition Role_DeepCopy where "Role_DeepCopy = copy_pointer Role_DeepCopyInto"
definition SecretKeyReference_DeepCopy where "SecretKeyReference_DeepCopy = copy_pointer SecretKeyReference_DeepCopyInto"
definition Security_DeepCopy where "Security_DeepCopy = copy_pointer Security_DeepCopyInto"
definition StatefulSetConfiguration_DeepCopy where
  "StatefulSetConfiguration_DeepCopy = copy_pointer StatefulSetConfiguration_DeepCopyInto"
definition TLS_DeepCopy where "TLS_DeepCopy = copy_pointer TLS_DeepCopyInto"

text \<open>A nil pointer becomes a nil interface value.\<close>

definition MongoDBCommunity_DeepCopyObject where
  "MongoDBCommunity_DeepCopyObject om js inp h =
     (case MongoDBCommunity_DeepCopy om js inp h of (Some c, h') \<Rightarrow> (Some c, h') | (None, h') \<Rightarrow> (None, h'))"
definition MongoDBCommunityList_DeepCopyObject where
  "MongoDBCommunityList_DeepCopyObject lm om js inp h =
     (case MongoDBCommunityList_DeepCopy lm om js inp h of (Some c, h') \<Rightarrow> (Some c, h') | (None, h') \<Rightarrow> (None, h'))"

section \<open>What the structs stand for\<close>

text \<open>The value of a struct in a store, as the rest of the development has it, and the addresses it reaches.\<close>

definition resource_val :: "('s, 'o, 'f) store \<Rightarrow> m_resource \<Rightarrow> spec_resource" where
  "resource_val h m = \<lparr>sres_DB = ref_val cell_string h (m_DB m), sres_Collection = ref_val cell_string h (m_Collection m),
     sres_Cluster = m_Cluster m, sres_AnyResource = m_AnyResource m\<rparr>"
definition resource_refs :: "('s, 'o, 'f) store \<Rightarrow> m_resource \<Rightarrow> addr set" where
  "resource_refs h m = set_option (m_DB m) \<union> set_option (m_Collection m)"

definition privilege_val :: "('s, 'o, 'f) store \<Rightarrow> m_privilege \<Rightarrow> spec_privilege" where
  "privilege_val h m = \<lparr>spriv_Resource = resource_val h (m_Resource m), spriv_Actions = ref_val cell_strings h (m_Actions m)\<rparr>"
definition privilege_refs :: "('s, 'o, 'f) store \<Rightarrow> m_privilege \<Rightarrow> addr set" where
  "privilege_refs h m = resource_refs h (m_Resource m) \<union> set_option (m_Actions m)"

definition restriction_val :: "('s, 'o, 'f) store \<Rightarrow> m_restriction \<Rightarrow> spec_restriction" where
  "restriction_val h m = \<lparr>srest_ClientSource = ref_val cell_strings h (m_ClientSource m),
     srest_ServerAddress = ref_val cell_strings h (m_ServerAddress m)\<rparr>"
definition restriction_refs :: "('s, 'o, 'f) store \<Rightarrow> m_restriction \<Rightarrow> addr set" where
  "restriction_refs h m = set_option (m_ClientSource m) \<union> set_option (m_ServerAddress m)"

definition custom_role_val :: "('s, 'o, 'f) store \<Rightarrow> m_custom_role \<Rightarrow> custom_role" where
  "custom_role_val h m = \<lparr>cr_Role = m_Role m, cr_DB = m_RoleDB m,
     cr_Privileges = elems (slice_val cell_privileges privilege_val h (m_Privileges m)),
     cr_Roles = elems (ref_val cell_roles h (m_RoleRoles m)),
     cr_AuthenticationRestrictions = elems (slice_val cell_restrictions restriction_val h (m_AuthenticationRestrictions m))\<rparr>"
definition custom_role_refs :: "('s, 'o, 'f) store \<Rightarrow> m_custom_role \<Rightarrow> addr set" where
  "custom_role_refs h m = slice_refs cell_privileges privilege_refs h (m_Privileges m) \<union> set_option (m_RoleRoles m)
     \<union> slice_refs cell_restrictions restriction_refs h (m_AuthenticationRestrictions m)"

definition authentication_val :: "('s, 'o, 'f) store \<Rightarrow> m_authentication \<Rightarrow> authentication" where
  "authentication_val h m = \<lparr>authn_Modes = elems (ref_val cell_strings h (m_Modes m)),
     authn_IgnoreUnknownUsers = ref_val cell_bool h (m_IgnoreUnknownUsers m)\<rparr>"
definition authentication_refs :: "('s, 'o, 'f) store \<Rightarrow> m_authentication \<Rightarrow> addr set" where
  "authentication_refs h m = set_option (m_Modes m) \<union> set_option (m_IgnoreUnknownUsers m)"

definition security_val :: "('s, 'o, 'f) store \<Rightarrow> m_security \<Rightarrow> security" where
  "security_val h m = \<lparr>sec_Authentication = authentication_val h (m_Authentication m), sec_TLS = m_TLS m,
     sec_Roles = slice_val cell_custom_roles custom_role_val h (m_CustomRoles m)\<rparr>"
definition security_refs :: "('s, 'o, 'f) store \<Rightarrow> m_security \<Rightarrow> addr set" where
  "security_refs h m = authentication_refs h (m_Authentication m) \<union> slice_refs cell_custom_roles custom_role_refs h (m_CustomRoles m)"

definition user_val :: "('s, 'o, 'f) store \<Rightarrow> m_user \<Rightarrow> mongodb_user" where
  "user_val h m = \<lparr>usr_Name = m_UserName m, usr_DB = m_UserDB m, usr_PasswordSecretRef = m_PasswordSecretRef m,
     usr_Roles = elems (ref_val cell_roles h (m_UserRoles m)), usr_ScramCredentialsSecretName = m_ScramCredentialsSecretName m\<rparr>"
definition user_refs :: "('s, 'o, 'f) store \<Rightarrow> m_user \<Rightarrow> addr set" where
  "user_refs h m = set_option (m_UserRoles m)"

definition horizons_val :: "('s, 'o, 'f) store \<Rightarrow> addr option \<Rightarrow> horizons list option" where
  "horizons_val h r = map_option (map entries) (slice_val cell_horizons (ref_val cell_horizon_map) h r)"
definition horizons_refs :: "('s, 'o, 'f) store \<Rightarrow> addr option \<Rightarrow> addr set" where
  "horizons_refs = slice_refs cell_horizons (\<lambda>h r. set_option r)"

section \<open>The copies are deep\<close>

lemma elems_refs_empty [simp]: "elems_refs (\<lambda>h x. {}) h xs = {}"
  by (simp add: elems_refs_def)

lemmas copy_combinators = copy_struct_def copy_pair_def pair_val_def pair_refs_def Let_def split_beta

lemmas deep_ref = deep_copy_ref [where rd = cell_string and mk = CString] deep_copy_ref [where rd = cell_strings and mk = CStrings]
  deep_copy_ref [where rd = cell_bool and mk = CBool] deep_copy_ref [where rd = cell_roles and mk = CRoles]
  deep_copy_ref [where rd = cell_horizon_map and mk = CHorizonMap]

lemma Resource_deep: "deep_copy Resource_DeepCopyInto resource_val resource_refs (\<lambda>h m. {})"
  by (rule deep_copy_eqI [OF deep_copy_struct [OF deep_copy_pair [OF deep_ref(1) deep_ref(1)],
        where flds = "\<lambda>m. (m_DB m, m_Collection m)" and upd = "\<lambda>p m. m\<lparr>m_DB := fst p, m_Collection := snd p\<rparr>"
          and V = "\<lambda>p m. \<lparr>sres_DB = fst p, sres_Collection = snd p, sres_Cluster = m_Cluster m, sres_AnyResource = m_AnyResource m\<rparr>"]])
    (simp_all add: Resource_DeepCopyInto_def resource_val_def resource_refs_def copy_combinators)

lemma Privilege_deep: "deep_copy Privilege_DeepCopyInto privilege_val privilege_refs (\<lambda>h m. {})"
  by (rule deep_copy_eqI [OF deep_copy_struct [OF deep_copy_pair [OF Resource_deep deep_ref(2)],
        where flds = "\<lambda>m. (m_Resource m, m_Actions m)" and upd = "\<lambda>p m. m\<lparr>m_Resource := fst p, m_Actions := snd p\<rparr>"
          and V = "\<lambda>p m. \<lparr>spriv_Resource = fst p, spriv_Actions = snd p\<rparr>"]])
    (simp_all add: Privilege_DeepCopyInto_def privilege_val_def privilege_refs_def copy_combinators)

lemma AuthenticationRestriction_deep:
  "deep_copy AuthenticationRestriction_DeepCopyInto restriction_val restriction_refs (\<lambda>h m. {})"
  by (rule deep_copy_eqI [OF deep_copy_struct [OF deep_copy_pair [OF deep_ref(2) deep_ref(2)],
        where flds = "\<lambda>m. (m_ClientSource m, m_ServerAddress m)" and upd = "\<lambda>p m. m\<lparr>m_ClientSource := fst p, m_ServerAddress := snd p\<rparr>"
          and V = "\<lambda>p m. \<lparr>srest_ClientSource = fst p, srest_ServerAddress = snd p\<rparr>"]])
    (simp_all add: AuthenticationRestriction_DeepCopyInto_def restriction_val_def restriction_refs_def copy_combinators)

lemma no_sharing [simp]: "(case r of None \<Rightarrow> {} | Some a \<Rightarrow> {}) = {}"
  by (cases r) simp_all

lemma CustomRole_deep: "deep_copy CustomRole_DeepCopyInto custom_role_val custom_role_refs (\<lambda>h m. {})"
  by (rule deep_copy_eqI [OF deep_copy_struct [OF
        deep_copy_pair [OF deep_copy_slice [where rd = cell_privileges and mk = CPrivileges, OF Privilege_deep]
          deep_copy_pair [OF deep_ref(4) deep_copy_slice [where rd = cell_restrictions and mk = CRestrictions, OF AuthenticationRestriction_deep]]],
        where flds = "\<lambda>m. (m_Privileges m, m_RoleRoles m, m_AuthenticationRestrictions m)"
          and upd = "\<lambda>p m. m\<lparr>m_Privileges := fst p, m_RoleRoles := fst (snd p), m_AuthenticationRestrictions := snd (snd p)\<rparr>"
          and V = "\<lambda>p m. \<lparr>cr_Role = m_Role m, cr_DB = m_RoleDB m, cr_Privileges = elems (fst p), cr_Roles = elems (fst (snd p)),
            cr_AuthenticationRestrictions = elems (snd (snd p))\<rparr>"]])
    (simp_all add: CustomRole_DeepCopyInto_def custom_role_val_def custom_role_refs_def copy_combinators Un_assoc)

lemma Authentication_deep: "deep_copy Authentication_DeepCopyInto authentication_val authentication_refs (\<lambda>h m. {})"
  by (rule deep_copy_eqI [OF deep_copy_struct [OF deep_copy_pair [OF deep_ref(2) deep_ref(3)],
        where flds = "\<lambda>m. (m_Modes m, m_IgnoreUnknownUsers m)" and upd = "\<lambda>p m. m\<lparr>m_Modes := fst p, m_IgnoreUnknownUsers := snd p\<rparr>"
          and V = "\<lambda>p m. \<lparr>authn_Modes = elems (fst p), authn_IgnoreUnknownUsers = snd p\<rparr>"]])
    (simp_all add: Authentication_DeepCopyInto_def authentication_val_def authentication_refs_def copy_combinators)

lemma Security_deep: "deep_copy Security_DeepCopyInto security_val security_refs (\<lambda>h m. {})"
  by (rule deep_copy_eqI [OF deep_copy_struct [OF
        deep_copy_pair [OF Authentication_deep deep_copy_slice [where rd = cell_custom_roles and mk = CCustomRoles, OF CustomRole_deep]],
        where flds = "\<lambda>m. (m_Authentication m, m_CustomRoles m)" and upd = "\<lambda>p m. m\<lparr>m_Authentication := fst p, m_CustomRoles := snd p\<rparr>"
          and V = "\<lambda>p m. \<lparr>sec_Authentication = fst p, sec_TLS = m_TLS m, sec_Roles = snd p\<rparr>"]])
    (simp_all add: Security_DeepCopyInto_def security_val_def security_refs_def copy_combinators)

lemma MongoDBUser_deep: "deep_copy MongoDBUser_DeepCopyInto user_val user_refs (\<lambda>h m. {})"
  by (rule deep_copy_eqI [OF deep_copy_struct [OF deep_ref(4), where flds = m_UserRoles and upd = "\<lambda>p m. m\<lparr>m_UserRoles := p\<rparr>"
          and V = "\<lambda>p m. \<lparr>usr_Name = m_UserName m, usr_DB = m_UserDB m, usr_PasswordSecretRef = m_PasswordSecretRef m,
            usr_Roles = elems p, usr_ScramCredentialsSecretName = m_ScramCredentialsSecretName m\<rparr>"]])
    (simp_all add: MongoDBUser_DeepCopyInto_def user_val_def user_refs_def copy_combinators)

lemma horizons_deep: "deep_copy copy_horizons horizons_val horizons_refs (\<lambda>h m. {})"
proof -
  note d = deep_copy_slice [where rd = cell_horizons and mk = CHorizons, OF deep_ref(5)]
  show ?thesis
    by (rule deep_copy_eqI [OF deep_copy_struct [OF d, where flds = "\<lambda>r. r" and upd = "\<lambda>p r. p" and V = "\<lambda>p r. map_option (map entries) p"]])
      (simp_all add: copy_horizons_def horizons_val_def horizons_refs_def copy_combinators split: option.splits)
qed

interpretation security_copy: deep_copy Security_DeepCopyInto security_val security_refs "\<lambda>h m. {}"
  by (rule Security_deep)

interpretation user_copy: deep_copy MongoDBUser_DeepCopyInto user_val user_refs "\<lambda>h m. {}"
  by (rule MongoDBUser_deep)

interpretation horizons_copy: deep_copy copy_horizons horizons_val horizons_refs "\<lambda>h m. {}"
  by (rule horizons_deep)

text \<open>
  The struct of the stateful set: what it stands for depends on the cells it reaches, which is
  all that is known of it.
\<close>

definition reads_only :: "('c list \<Rightarrow> 's \<Rightarrow> 'v) \<Rightarrow> ('c list \<Rightarrow> 's \<Rightarrow> addr set) \<Rightarrow> bool" where
  "reads_only v r = (\<forall>h h' x. r h x \<subseteq> {..<length h} \<and> length h \<le> length h' \<and> (\<forall>a \<in> r h x. h' ! a = h ! a) \<longrightarrow>
     v h' x = v h x \<and> r h' x = r h x)"

lemma reads_onlyD:
  assumes "reads_only v r" and "r h x \<subseteq> {..<length h}" and "length h \<le> length h'" and "\<And>a. a \<in> r h x \<Longrightarrow> h' ! a = h ! a"
  shows "v h' x = v h x \<and> r h' x = r h x"
  by (rule assms(1) [unfolded reads_only_def, THEN spec, of h, THEN spec, of h', THEN spec, of x, THEN mp])
    (use assms(2-4) in blast)

abbreviation m_override :: "'s m_spec \<Rightarrow> 's" where
  "m_override m \<equiv> m_SpecWrapper (m_StatefulSetConfiguration m)"

definition spec_val ::
    "(('s, 'o, 'f) store \<Rightarrow> addr option \<Rightarrow> json gomap) \<Rightarrow> (('s, 'o, 'f) store \<Rightarrow> 's \<Rightarrow> statefulset_spec) \<Rightarrow> ('s, 'o, 'f) store
      \<Rightarrow> 's m_spec \<Rightarrow> mongodb_community_spec" where
  "spec_val json_val sts_val h m = \<lparr>spec_Members = m_Members m, spec_Type = m_Type m, spec_Version = m_Version m, spec_Arbiters = m_Arbiters m,
     spec_FeatureCompatibilityVersion = m_FeatureCompatibilityVersion m, spec_ReplicaSetHorizons = horizons_val h (m_ReplicaSetHorizons m),
     spec_Security = security_val h (m_Security m), spec_Users = elems (slice_val cell_users user_val h (m_Users m)),
     spec_StatefulSet = sts_val h (m_override m), spec_AdditionalMongodConfig = json_val h (m_Object (m_AdditionalMongodConfig m))\<rparr>"

definition spec_refs where
  "spec_refs json_refs sts_refs h m = horizons_refs h (m_ReplicaSetHorizons m) \<union> security_refs h (m_Security m)
     \<union> slice_refs cell_users user_refs h (m_Users m) \<union> sts_refs h (m_override m) \<union> json_refs h (m_Object (m_AdditionalMongodConfig m))"

lemma Spec_deep:
  assumes js: "deep_copy DeepCopyJSON json_val json_refs (\<lambda>h r. {})" and sts: "reads_only sts_val sts_refs"
  shows "deep_copy (MongoDBCommunitySpec_DeepCopyInto DeepCopyJSON) (spec_val json_val sts_val) (spec_refs json_refs sts_refs)
    (\<lambda>h m. sts_refs h (m_override m))"
proof -
  have s: "deep_copy (\<lambda>x h. (x, h)) sts_val sts_refs sts_refs"
    by (rule shallow_copy) (rule reads_onlyD [OF sts])
  note users = deep_copy_slice [where rd = cell_users and mk = CUsers, OF MongoDBUser_deep]
  note all = deep_copy_pair [OF horizons_deep deep_copy_pair [OF Security_deep deep_copy_pair [OF users deep_copy_pair [OF s js]]]]
  show ?thesis
    by (rule deep_copy_eqI [OF deep_copy_struct [OF all,
        where flds = "\<lambda>m. (m_ReplicaSetHorizons m, m_Security m, m_Users m, m_override m, m_Object (m_AdditionalMongodConfig m))"
          and upd = "\<lambda>p m. m\<lparr>m_ReplicaSetHorizons := fst p, m_Security := fst (snd p), m_Users := fst (snd (snd p)),
            m_StatefulSetConfiguration := (m_StatefulSetConfiguration m)\<lparr>m_SpecWrapper := fst (snd (snd (snd p)))\<rparr>,
            m_AdditionalMongodConfig := \<lparr>m_Object = snd (snd (snd (snd p)))\<rparr>\<rparr>"
          and V = "\<lambda>p m. \<lparr>spec_Members = m_Members m, spec_Type = m_Type m, spec_Version = m_Version m, spec_Arbiters = m_Arbiters m,
            spec_FeatureCompatibilityVersion = m_FeatureCompatibilityVersion m, spec_ReplicaSetHorizons = fst p,
            spec_Security = fst (snd p), spec_Users = elems (fst (snd (snd p))),
            spec_StatefulSet = fst (snd (snd (snd p))), spec_AdditionalMongodConfig = snd (snd (snd (snd p)))\<rparr>"]])
      (simp_all add: MongoDBCommunitySpec_DeepCopyInto_def spec_val_def spec_refs_def copy_combinators Un_assoc
        StatefulSetConfiguration_DeepCopyInto_def StatefulSetSpecWrapper_DeepCopyInto_def StatefulSetSpecWrapper_DeepCopy_def
        MongodConfiguration_DeepCopyInto_def MongodConfiguration_DeepCopy_def)
qed

definition community_val where
  "community_val meta_val json_val sts_val h m = \<lparr>mdb_Kind = m_Kind m, mdb_Meta = meta_val h (m_ObjectMeta m),
     mdb_Spec = spec_val json_val sts_val h (m_Spec m), mdb_Status = m_Status m\<rparr>"

definition community_refs where
  "community_refs meta_refs json_refs sts_refs h m = meta_refs h (m_ObjectMeta m) \<union> spec_refs json_refs sts_refs h (m_Spec m)"

lemma Community_deep:
  assumes om: "deep_copy ObjectMeta_DeepCopyInto meta_val meta_refs (\<lambda>h m. {})"
    and js: "deep_copy DeepCopyJSON json_val json_refs (\<lambda>h r. {})" and sts: "reads_only sts_val sts_refs"
  shows "deep_copy (MongoDBCommunity_DeepCopyInto ObjectMeta_DeepCopyInto DeepCopyJSON) (community_val meta_val json_val sts_val)
    (community_refs meta_refs json_refs sts_refs) (\<lambda>h m. sts_refs h (m_override (m_Spec m)))"
  by (rule deep_copy_eqI [OF deep_copy_struct [OF deep_copy_pair [OF om Spec_deep [OF js sts]],
        where flds = "\<lambda>m. (m_ObjectMeta m, m_Spec m)" and upd = "\<lambda>p m. m\<lparr>m_ObjectMeta := fst p, m_Spec := snd p\<rparr>"
          and V = "\<lambda>p m. \<lparr>mdb_Kind = m_Kind m, mdb_Meta = fst p, mdb_Spec = snd p, mdb_Status = m_Status m\<rparr>"]])
    (simp_all add: MongoDBCommunity_DeepCopyInto_def community_val_def community_refs_def copy_combinators)

section \<open>What a copy of a resource shares with it\<close>

text \<open>
  C23. A copy of a resource stands for the same resource, making it does not change the original,
  and a write to anything that is reached from the copy does not change the original either,
  unless it is reached through the override of the stateful set. The override is not copied: copy
  and original have the same struct, reach the same cells through it, and see the same contents
  of them after any write, so changing it in a copy changes the original, such as a cached object.
\<close>

theorem DeepCopy_apart:
  assumes "deep_copy ObjectMeta_DeepCopyInto meta_val meta_refs (\<lambda>h m. {})"
    and "deep_copy DeepCopyJSON json_val json_refs (\<lambda>h r. {})" and "reads_only sts_val sts_refs"
    and "community_refs meta_refs json_refs sts_refs h m \<subseteq> {..<length h}"
    and "MongoDBCommunity_DeepCopy ObjectMeta_DeepCopyInto DeepCopyJSON (Some m) h = (Some m', h')"
  shows "community_val meta_val json_val sts_val h' m' = community_val meta_val json_val sts_val h m
    \<and> community_val meta_val json_val sts_val h' m = community_val meta_val json_val sts_val h m
    \<and> (\<forall>a cell. a \<in> community_refs meta_refs json_refs sts_refs h' m' \<longrightarrow> a \<notin> sts_refs h (m_override (m_Spec m)) \<longrightarrow>
        community_val meta_val json_val sts_val (h'[a := cell]) m = community_val meta_val json_val sts_val h m)
    \<and> sts_refs h' (m_override (m_Spec m')) = sts_refs h (m_override (m_Spec m))
    \<and> (\<forall>a cell. sts_val (h'[a := cell]) (m_override (m_Spec m')) = sts_val (h'[a := cell]) (m_override (m_Spec m)))"
proof -
  note d = Community_deep [OF assms(1-3)]
  have c: "MongoDBCommunity_DeepCopyInto ObjectMeta_DeepCopyInto DeepCopyJSON m h = (m', h')"
    using assms(5) by (simp add: MongoDBCommunity_DeepCopy_def copy_pointer_def split: prod.splits)
  then have o: "m_override (m_Spec m') = m_override (m_Spec m)"
    by (auto simp: MongoDBCommunity_DeepCopyInto_def MongoDBCommunitySpec_DeepCopyInto_def StatefulSetConfiguration_DeepCopyInto_def
        StatefulSetSpecWrapper_DeepCopyInto_def StatefulSetSpecWrapper_DeepCopy_def Let_def split: prod.splits)
  obtain cs where h': "h' = h @ cs" using deep_copy.extends [OF d c] by blast
  have s: "sts_refs h' (m_override (m_Spec m)) = sts_refs h (m_override (m_Spec m))"
    using deep_copy.local_append(3) [OF d assms(4), of cs] by (simp add: h')
  show ?thesis
    using deep_copy.same [OF d assms(4) c] deep_copy.original_kept [OF d assms(4) c] deep_copy.write_apart [OF d assms(4) c] o s by simp
qed

text \<open>An example: the override refers to the name of a service in a cell of its own.\<close>

definition example_sts_val :: "(addr option, unit, string) store \<Rightarrow> addr option \<Rightarrow> statefulset_spec" where
  "example_sts_val h r = empty_statefulset_spec\<lparr>sts_ServiceName := (case r of None \<Rightarrow> '''' | Some a \<Rightarrow> cell_foreign (h ! a))\<rparr>"

definition example_community :: "(addr option, unit) m_community" where
  "example_community = \<lparr>m_Kind = ''MongoDBCommunity'', m_ObjectMeta = (), m_Spec = \<lparr>m_Members = 3, m_Type = ''ReplicaSet'',
     m_Version = ''4.4.0'', m_Arbiters = 0, m_FeatureCompatibilityVersion = '''', m_ReplicaSetHorizons = None,
     m_Security = \<lparr>m_Authentication = \<lparr>m_Modes = Some 0, m_IgnoreUnknownUsers = None\<rparr>,
       m_TLS = \<lparr>stls_Enabled = False, stls_Optional = False, stls_CertificateKeySecret = '''', stls_CaConfigMap = ''''\<rparr>, m_CustomRoles = None\<rparr>,
     m_Users = None, m_StatefulSetConfiguration = \<lparr>m_SpecWrapper = Some 1\<rparr>, m_AdditionalMongodConfig = \<lparr>m_Object = None\<rparr>\<rparr>,
     m_Status = \<lparr>stat_MongoURI = '''', stat_Phase = '''', stat_CurrentStatefulSetReplicas = 0, stat_CurrentMongoDBMembers = 0, stat_Message = ''''\<rparr>\<rparr>"

definition example_store :: "(addr option, unit, string) store" where
  "example_store = [CStrings [''SCRAM''], CForeign ''svc'']"

theorem DeepCopy_apart_witness:
  "\<exists>m' h'. MongoDBCommunity_DeepCopy (\<lambda>x h. (x, h)) (\<lambda>r h. (r, h)) (Some example_community) example_store = (Some m', h')
    \<and> authn_Modes (authentication_val (h'[the (m_Modes (m_Authentication (m_Security (m_Spec m')))) := CStrings []])
        (m_Authentication (m_Security (m_Spec example_community)))) = [''SCRAM'']
    \<and> example_sts_val (h'[1 := CForeign ''changed'']) (m_override (m_Spec m'))
        = example_sts_val (h'[1 := CForeign ''changed'']) (m_override (m_Spec example_community))
    \<and> sts_ServiceName (example_sts_val (h'[1 := CForeign ''changed'']) (m_override (m_Spec example_community))) = ''changed''"
proof -
  let ?refs = "\<lambda>h :: (addr option, unit, string) store. set_option"
  obtain m' h' where c: "MongoDBCommunity_DeepCopy (\<lambda>x h. (x, h)) (\<lambda>r h. (r, h)) (Some example_community) example_store = (Some m', h')"
    and m': "m_Modes (m_Authentication (m_Security (m_Spec m'))) = Some 2" and h': "length h' = 3"
    by (simp add: MongoDBCommunity_DeepCopy_def copy_pointer_def MongoDBCommunity_DeepCopyInto_def MongoDBCommunitySpec_DeepCopyInto_def
        Security_DeepCopyInto_def Authentication_DeepCopyInto_def copy_horizons_def copy_slice_def copy_ref_def
        StatefulSetConfiguration_DeepCopyInto_def StatefulSetSpecWrapper_DeepCopyInto_def StatefulSetSpecWrapper_DeepCopy_def
        MongodConfiguration_DeepCopyInto_def MongodConfiguration_DeepCopy_def example_community_def example_store_def)
  have sts: "reads_only example_sts_val ?refs"
    by (auto simp: reads_only_def example_sts_val_def split: option.splits)
  have om: "deep_copy (\<lambda>x h. (x, h)) (\<lambda>(h :: (addr option, unit, string) store) (x :: unit). empty_meta) (\<lambda>h x. {}) (\<lambda>h x. {})"
    by (rule deep_copy_plain)
  have js: "deep_copy (\<lambda>r h. (r, h)) (\<lambda>(h :: (addr option, unit, string) store) (r :: addr option). []) (\<lambda>h r. {}) (\<lambda>h r. {})"
    by (rule deep_copy_plain)
  have r: "community_refs (\<lambda>h x. {}) (\<lambda>h r. {}) ?refs example_store example_community = {0, 1}"
    by (auto simp: community_refs_def spec_refs_def security_refs_def authentication_refs_def horizons_refs_def slice_refs_def example_community_def)
  then have "community_refs (\<lambda>h x. {}) (\<lambda>h r. {}) ?refs example_store example_community \<subseteq> {..<length example_store}"
    by (simp add: example_store_def)
  note D = DeepCopy_apart [OF om js sts this c]
  have "2 \<in> community_refs (\<lambda>h x. {}) (\<lambda>h r. {}) ?refs h' m'" and "2 \<notin> ?refs example_store (m_override (m_Spec example_community))"
    using m' by (simp_all add: community_refs_def spec_refs_def security_refs_def authentication_refs_def example_community_def)
  with D have "community_val (\<lambda>h x. empty_meta) (\<lambda>h r. []) example_sts_val (h'[2 := CStrings []]) example_community
      = community_val (\<lambda>h x. empty_meta) (\<lambda>h r. []) example_sts_val example_store example_community" by blast
  then have "authentication_val (h'[2 := CStrings []]) (m_Authentication (m_Security (m_Spec example_community)))
      = authentication_val example_store (m_Authentication (m_Security (m_Spec example_community)))"
    by (simp add: community_val_def spec_val_def security_val_def)
  moreover have "authn_Modes (authentication_val example_store (m_Authentication (m_Security (m_Spec example_community)))) = [''SCRAM'']"
    by (simp add: authentication_val_def ref_val_def example_community_def example_store_def elems_def)
  moreover have "sts_ServiceName (example_sts_val (h'[1 := CForeign ''changed'']) (m_override (m_Spec example_community))) = ''changed''"
    using h' by (simp add: example_sts_val_def example_community_def)
  ultimately show ?thesis using c D m' by auto
qed

end
