(* ===== verification/Spec2Isabelle.thy ===== *)
theory Spec2Isabelle
  imports Scale StateMachine Merge Generate AutomationConfig ConfigMaps Services Construct Kube_Client
    Automation_Secret Scram Watch Validation Status Readiness VersionHook Tls Reconciliation Certificate Built_Set Progress Fresh
    Scaling Upgrade Lifecycle Manager Watch_Race Resource_Json DeepCopy
begin

text \<open>
  A verification of the MongoDB Community Kubernetes operator.

  The program has three executables. The operator (\<open>cmd/manager\<close>, \<open>controllers/\<close>) watches custom resources of
  type \<open>MongoDBCommunity\<close> and reconciles each of them: it validates the specification, creates a
  service, checks the TLS and user secrets, writes the automation configuration of the MongoDB
  agents to a secret, creates a stateful set, and reports a status. The readiness probe
  (\<open>cmd/readiness\<close>, \<open>pkg/readiness\<close>) runs in every pod, decides from the health file of the agent
  whether the pod is ready, and writes the configuration version the agent has reached to the
  pod, where the operator reads it. The version upgrade hook (\<open>cmd/versionhook\<close>) deletes a pod
  whose agent waits for a new version.

  \<^bold>\<open>How the code is modelled.\<close> An operation on the cluster is a function from the state to an
  \<open>outcome\<close> and a state: \<open>Ok\<close>, \<open>Fail\<close> with the error the code returns, or \<open>Panic\<close> for a run-time
  panic, which goes past error handlers (\<open>on_result\<close> of \<open>Prelude\<close>). The type of the state is a
  parameter: the controller is written against the client interface (\<open>kclient\<close>), and the
  properties are proved for every client that keeps the contracts stated as locales
  (\<open>secret_store\<close>, \<open>scram_world\<close>, \<open>deployment_world\<close>, \<open>pod_reader\<close>, \<open>secret_frame\<close>,
  \<open>frame_client\<close>), which are interpreted on the in-memory client of the repository
  (\<open>pkg/kube/client/mocked_client.go\<close>). A Go map is an association list with distinct keys, and
  wherever code ranges over a map the order of the visit is a parameter (\<open>iter_order\<close>); a slice or
  map that may be nil is an \<open>option\<close>. \<open>int32\<close> is a 32-bit word, bytes are 8-bit words, \<open>int\<close> is
  unbounded. JSON is rendered and parsed by executable functions (\<open>Json\<close>), and the hash functions
  are computed (\<open>Crypto\<close>). Third-party code is a parameter with named hypotheses: semantic
  versions, \<open>objx\<close> and \<open>mergo\<close> (\<open>libs\<close>), SASLprep, resource quantities, \<open>multierror\<close>, the random
  source, casts, and the JSON format of a specification. Log output is left out.

  \<^bold>\<open>Theories.\<close>
  \<^item> \<open>Prelude\<close>, \<open>Keyed_Merge\<close>: outcomes, strings, maps; the locale \<open>keyed_merge\<close> of merging slices by key.
  \<^item> \<open>Kube_Types\<close>, \<open>Api\<close>: the Kubernetes types the code uses and \<open>api/v1/mongodbcommunity_types.go\<close>.
  \<^item> \<open>Util\<close>, \<open>Scale\<close>, \<open>StateMachine\<close>, \<open>Generate\<close>, \<open>Merge\<close>: the packages of \<open>pkg/util\<close>. Scaling moves
    one member at a time and ends; the state machine moves along registered transitions only, and
    loads every state it saves; how far merging depends on the order of maps.
  \<^item> \<open>Json\<close>, \<open>Automation_Types\<close>, \<open>Automation_Json\<close>, \<open>Automation_Contents\<close>, \<open>AutomationConfig\<close>,
    \<open>Automation_Secret\<close>: \<open>pkg/automationconfig\<close>. \<open>Automation_Contents\<close> says field by field, and apart from
    the JSON text that the code compares, when two configurations have the same contents. The
    configuration survives writing and reading, building it again
    changes nothing, its version grows exactly with its contents, its members are numbered and
    distinct; what the builder does with votes, arbiters, horizons and compatibility versions;
    ensuring the secret converges.
  \<^item> \<open>Crypto\<close>, \<open>ScramCreds\<close>, \<open>Scram\<close>: \<open>pkg/authentication\<close>. The iterated hash is \<open>Hi\<close> of RFC 5802;
    credentials fit the password in the secret, are stable, and survive its deletion.
  \<^item> \<open>Secrets\<close>, \<open>ConfigMaps\<close>, \<open>Services\<close>, \<open>Pod_Mods\<close>, \<open>StatefulSets\<close>, \<open>Kube_Client\<close>: \<open>pkg/kube\<close>, with
    the contract of a store of secrets and its interpretation on the in-memory client.
  \<^item> \<open>Construct\<close>, \<open>Built_Set\<close>: the stateful set. Its construction is idempotent, and with TLS and
    the custom specification of the user it is well formed.
  \<^item> \<open>Watch\<close>, \<open>Validation\<close>, \<open>Status\<close>, \<open>Tls\<close>, \<open>Controller\<close>: \<open>controllers/\<close>, one definition per function.
  \<^item> \<open>Health\<close>, \<open>Agent\<close>, \<open>Readiness\<close>, \<open>VersionHook\<close>: the agent's health file, the operator's test for
    the goal state, the probe and the hook. The decision of the probe in both of its modes; the probe and the
    operator agree on the goal state; when the hook deletes its pod, over all its polls.
  \<^item> \<open>Reconciliation\<close>, \<open>Certificate\<close>: ensuring the automation configuration a second time changes nothing;
    with TLS, every process is told of the file that the secret of the operator has.
  \<^item> \<open>Frame\<close>, \<open>Progress\<close>, \<open>Fresh\<close>: whole reconciliations. Which steps leave the custom resource
    alone; a run is over only when the deployment is ready; the order of the deployments; the
    stored numbers of members refine the scaling relation \<open>scale_run\<close>; a new resource is running
    after one reconciliation.
  \<^item> \<open>Finish\<close>, \<open>Existing\<close>, \<open>Scaling\<close>: what the end of a run stores and leaves alone; one reconciliation of an
    existing deployment, with whatever replicas and pods the cluster reports; and sequences of
    them, each after a report that is arbitrary (\<open>observe\<close>). A run moves one member exactly when the
    next number is ready, so scaling takes as many ready runs as the numbers are apart.
  \<^item> \<open>Upgrade\<close>, \<open>Lifecycle\<close>: a run of a version change, with any pods, keeps \<open>OnDelete\<close> until the agents of all pods have the configuration and then
    resets the strategy; the state that creation leaves is the one that scaling starts from.
  \<^item> \<open>Manager\<close>: \<open>cmd/manager/main.go\<close>, the registration of the controller and the manager of the tests.
    What \<open>main\<close> checks, and which events trigger a reconciliation.
  \<^item> \<open>Watch_Race\<close>: registrations of secrets by concurrent reconciliations, access by access.
  \<^item> \<open>Resource_Json\<close>, \<open>Store\<close>, \<open>DeepCopy\<close>: the JSON methods of the wrapped maps, and the generated and
    hand-written copies over a store of cells. The locale \<open>deep_copy\<close> says what a deep copy is: it has
    the value of the original and shares only what is declared; it is interpreted for the parts of
    a resource.

  \<^bold>\<open>Bounds and loops.\<close> Loops over slices are structural recursions. The polling loop of the hook is
  a \<open>function\<close> with a termination proof, and its number of polls is proved. The JSON parser takes
  the length of its input as fuel, and the round trip shows that it is enough for every rendered
  value. The state machine is run by rule induction over any number of reconciliations, and the
  interleavings of the watcher are the reflexive transitive closure of \<open>schedule\<close>. The runs of
  \<open>Scaling\<close> are a list of any length, one for each report of the cluster: exactly \<open>|d - c|\<close> of them
  that find the next number ready lead from \<open>c\<close> to \<open>d\<close> members, and with the reports of the
  controller's tests (\<open>ready_reports\<close>) every run is one of these.

  \<^bold>\<open>Not modelled.\<close> The controller runtime, the API machinery and the logger are parameters. The
  registration of the types with the scheme (\<open>groupversion_info.go\<close>, the \<open>init\<close> functions) has no
  effect in the model, and \<open>test/e2e\<close> drives a real cluster. Values are immutable except in \<open>DeepCopy\<close>,
  where the sharing of memory is the subject. Of the work queue only the concurrent registrations
  are modelled: the controller runtime runs one reconciliation of a resource at a time. The API
  server is represented by the client contracts, so conflicts between writers are errors a client
  may return. The in-memory client stores values, where the code stores pointers. JSON numbers are kept
  as literals, where \<open>encoding/json\<close> reads floating-point numbers, and struct fields are matched by their
  exact names.

  \<^bold>\<open>What is left.\<close> Sequences of reconciliations with TLS, in particular of certificate rotation, and
  with a specification that changes between the runs of one scaling.
\<close>

end
